(* ===== verification/Prelude.thy ===== *)
theory Prelude
  imports Main "HOL-Library.Word" "HOL-Library.Monad_Syntax"
begin

unbundle bit_operations_syntax

section \<open>Shared types, automation and generic lemmas\<close>

text \<open>
  Names for the machine types of the C sources, the rule collections of the development and the
  generic facts on words and lists that several components use.

  Conventions of the model.
  \<^item> An \<open>assert\<close> that fails, \<open>gpi_panic\<close> and \<open>abort\<close> stop the program: a C function that can
    reach one of them returns an \<open>option\<close> and \<open>None\<close> is the stopped program. Functions are
    sequenced with the do-notation of \<open>option\<close>.
  \<^item> A C error code (\<open>int\<close>, 0 for success) is returned as a value.
  \<^item> State that a C function reads and writes through pointers or globals is an argument and part
    of the result.
\<close>

type_synonym u8 = "8 word"
type_synonym u16 = "16 word"
type_synonym u32 = "32 word"
type_synonym u64 = "64 word"

named_theorems badge_defs \<open>definitions of the badge accessors\<close>
named_theorems registry_defs \<open>definitions of the registry operations\<close>
named_theorems heap_defs \<open>definitions over explicit heaps\<close>

subsection \<open>Assertions\<close>

definition c_assert :: "bool \<Rightarrow> unit option" where
  "c_assert b = (if b then Some () else None)"

lemma c_assert_True [simp]: "c_assert True = Some ()"
  by (simp add: c_assert_def)

lemma c_assert_False [simp]: "c_assert False = None"
  by (simp add: c_assert_def)

lemma c_assert_eq_Some [simp]: "c_assert b = Some u \<longleftrightarrow> b"
  by (simp add: c_assert_def)

lemma c_assert_eq_None [simp]: "c_assert b = None \<longleftrightarrow> \<not> b"
  by (simp add: c_assert_def)

lemma c_assert_bind_eq_Some [simp]:
  "Option.bind (c_assert b) f = Some r \<longleftrightarrow> b \<and> f () = Some r"
  by (simp add: c_assert_def)

subsection \<open>Bit fields of a machine word\<close>

text \<open>
  The reference view of a packed word: the field of \<open>n\<close> bits whose lowest bit is bit \<open>lo\<close>.
  The C accessors shift and mask; these are the generic facts that relate the two.
\<close>

definition get_field :: "nat \<Rightarrow> nat \<Rightarrow> 'a::len word \<Rightarrow> 'a word" where
  "get_field lo n w = drop_bit lo w AND mask n"

definition put_field :: "nat \<Rightarrow> nat \<Rightarrow> 'a::len word \<Rightarrow> 'a word \<Rightarrow> 'a word" where
  "put_field lo n w v = (w AND NOT (push_bit lo (mask n))) OR push_bit lo v"

lemma word_lt_exp_no_high_bits:
  fixes v :: "'a::len word"
  assumes "v \<le> mask n" and "n \<le> i"
  shows "\<not> bit v i"
proof -
  have "unat v \<le> unat (mask n :: 'a word)" using assms(1) by (simp add: word_le_nat_alt)
  also have "\<dots> < 2 ^ n"
    by (metis le_unat_uoi less_or_eq_imp_le mask_nat_less_exp of_nat_mask_eq not_le)
  also have "\<dots> \<le> 2 ^ i" using assms(2) by simp
  finally have "\<not> bit (unat v) i" by (simp add: bit_nat_def)
  then show ?thesis by (simp add: bit_unsigned_iff bit_imp_le_length)
qed

lemma get_put_field_same:
  fixes v :: "'a::len word"
  assumes "v \<le> mask n" and "lo + n \<le> LENGTH('a)"
  shows "get_field lo n (put_field lo n w v) = v"
proof (rule bit_word_eqI)
  fix i assume i: "i < LENGTH('a)"
  show "bit (get_field lo n (put_field lo n w v)) i = bit v i"
  proof (cases "i < n")
    case True
    then show ?thesis using assms(2)
      by (auto simp: get_field_def put_field_def bit_simps)
  next
    case False
    then have "\<not> bit v i" using assms(1) by (simp add: word_lt_exp_no_high_bits)
    with False show ?thesis by (simp add: get_field_def bit_simps)
  qed
qed

lemma get_put_field_other:
  fixes v :: "'a::len word"
  assumes "v \<le> mask n" and "lo + n \<le> lo' \<or> lo' + n' \<le> lo"
  shows "get_field lo' n' (put_field lo n w v) = get_field lo' n' w"
proof (rule bit_word_eqI)
  fix i assume i: "i < LENGTH('a)"
  show "bit (get_field lo' n' (put_field lo n w v)) i = bit (get_field lo' n' w) i"
  proof (cases "i < n'")
    case True
    show ?thesis
    proof (cases "lo \<le> lo' + i")
      case le: True
      with True assms(2) have "n \<le> lo' + i - lo" by auto
      then have "\<not> bit v (lo' + i - lo)"
        using assms(1) by (simp add: word_lt_exp_no_high_bits)
      with le \<open>n \<le> lo' + i - lo\<close> show ?thesis
        by (auto simp: get_field_def put_field_def bit_simps dest: bit_imp_le_length)
    next
      case False
      then show ?thesis
        by (auto simp: get_field_def put_field_def bit_simps dest: bit_imp_le_length)
    qed
  next
    case False
    then show ?thesis by (simp add: get_field_def bit_simps)
  qed
qed

lemma get_field_zero [simp]: "get_field lo n 0 = 0"
  by (simp add: get_field_def)

lemma get_field_le_mask: "get_field lo n w \<le> mask n"
  by (simp add: get_field_def word_and_le1)

lemma unat_of_nat_small: "n < 2 ^ LENGTH('a) \<Longrightarrow> unat (of_nat n :: 'a::len word) = n"
  by (simp add: unat_of_nat take_bit_nat_eq_self)

subsection \<open>Searching a list\<close>

lemma find_distinct_key:
  "distinct (map f xs) \<Longrightarrow> x \<in> set xs \<Longrightarrow> List.find (\<lambda>y. f y = f x) xs = Some x"
proof (induction xs)
  case (Cons y ys)
  then show ?case by (cases "x = y") (auto simp: image_iff)
qed simp

subsection \<open>Repeating a partial operation\<close>

fun iter_opt :: "nat \<Rightarrow> ('a \<Rightarrow> 'a option) \<Rightarrow> 'a \<Rightarrow> 'a option" where
  "iter_opt 0 f x = Some x"
| "iter_opt (Suc n) f x = Option.bind (f x) (iter_opt n f)"

lemma iter_opt_Suc_last: "iter_opt (Suc n) f x = Option.bind (iter_opt n f x) f"
proof (induction n arbitrary: x)
  case (Suc n)
  have "iter_opt (Suc (Suc n)) f x = Option.bind (f x) (iter_opt (Suc n) f)"
    by (rule iter_opt.simps(2))
  also have "iter_opt (Suc n) f = (\<lambda>y. Option.bind (iter_opt n f y) f)"
    using Suc.IH by blast
  also have "Option.bind (f x) (\<lambda>y. Option.bind (iter_opt n f y) f) = Option.bind (iter_opt (Suc n) f x) f"
    by (cases "f x") simp_all
  finally show ?case .
next
  case 0
  show ?case by (cases "f x") simp_all
qed

end
