(* ===== verification/Badge.thy ===== *)
theory Badge
  imports Prelude
begin

unbundle bit_operations_syntax

section \<open>Badges (badge_usage.c, badge_usage.h, resource_types.h)\<close>

text \<open>
  A badge packs the identity of a resource and of its holder into the 64-bit badge of an seL4
  endpoint capability: bits 63:56 the capability type, 55:48 the permissions, 47:40 the resource
  space, 39:20 the client protection domain, 19:0 the object. The accessors below are the shifts
  and masks of \<open>badge_usage.c\<close>, asserts included. The lemmas relate them to bit fields, give the
  round trips between packing and unpacking, and show which badges can be built.
\<close>

subsection \<open>Types and constants\<close>

type_synonym gpi_badge_t = u64
type_synonym gpi_perms_t = u16
type_synonym gpi_space_id_t = u32
type_synonym gpi_obj_id_t = u32

text \<open>A \<open>gpi_cap_t\<close> is a core type or a dynamic type allocated at run time; the C enum is a
  32-bit unsigned integer.\<close>

type_synonym gpi_cap_t = u32

definition GPICAP_TYPE_NONE :: gpi_cap_t where "GPICAP_TYPE_NONE = 0"
definition GPICAP_TYPE_ADS :: gpi_cap_t where "GPICAP_TYPE_ADS = 1"
definition GPICAP_TYPE_VMR :: gpi_cap_t where "GPICAP_TYPE_VMR = 2"
definition GPICAP_TYPE_MO :: gpi_cap_t where "GPICAP_TYPE_MO = 3"
definition GPICAP_TYPE_CPU :: gpi_cap_t where "GPICAP_TYPE_CPU = 4"
definition GPICAP_TYPE_PCPU :: gpi_cap_t where "GPICAP_TYPE_PCPU = 5"
definition GPICAP_TYPE_PD :: gpi_cap_t where "GPICAP_TYPE_PD = 6"
definition GPICAP_TYPE_EP :: gpi_cap_t where "GPICAP_TYPE_EP = 7"
definition GPICAP_TYPE_RESSPC :: gpi_cap_t where "GPICAP_TYPE_RESSPC = 8"
definition GPICAP_TYPE_seL4 :: gpi_cap_t where "GPICAP_TYPE_seL4 = 9"
definition GPICAP_TYPE_MAX :: gpi_cap_t where "GPICAP_TYPE_MAX = GPICAP_TYPE_seL4 + 8"

lemmas cap_type_defs = GPICAP_TYPE_NONE_def GPICAP_TYPE_ADS_def GPICAP_TYPE_VMR_def
  GPICAP_TYPE_MO_def GPICAP_TYPE_CPU_def GPICAP_TYPE_PCPU_def GPICAP_TYPE_PD_def
  GPICAP_TYPE_EP_def GPICAP_TYPE_RESSPC_def GPICAP_TYPE_seL4_def GPICAP_TYPE_MAX_def

definition BADGE_MAX_CAP_TYPE :: u64 where "BADGE_MAX_CAP_TYPE = 0xFF"
definition BADGE_MAX_SPACE_ID :: u32 where "BADGE_MAX_SPACE_ID = 0xFF"
definition BADGE_MAX_OBJ_ID :: u32 where "BADGE_MAX_OBJ_ID = 0xFFFFF"
definition BADGE_MAX :: u64 where "BADGE_MAX = 0xFFFFFFFFFFFFFFFF"
definition NOTIF_BADGE :: u64 where "NOTIF_BADGE = BADGE_MAX"
definition BADGE_OBJ_ID_NULL :: u32 where "BADGE_OBJ_ID_NULL = BADGE_MAX_OBJ_ID"
definition BADGE_SPACE_ID_NULL :: u32 where "BADGE_SPACE_ID_NULL = BADGE_MAX_SPACE_ID"

lemmas badge_const_defs = BADGE_MAX_CAP_TYPE_def BADGE_MAX_SPACE_ID_def BADGE_MAX_OBJ_ID_def
  BADGE_MAX_def NOTIF_BADGE_def BADGE_OBJ_ID_NULL_def BADGE_SPACE_ID_NULL_def

record gpi_res_id_t =
  res_type :: gpi_cap_t
  res_space_id :: gpi_space_id_t
  res_object_id :: gpi_obj_id_t

definition make_res_id :: "gpi_cap_t \<Rightarrow> gpi_space_id_t \<Rightarrow> gpi_obj_id_t \<Rightarrow> gpi_res_id_t" where
  "make_res_id type space_id object_id =
     \<lparr>res_type = type, res_space_id = space_id, res_object_id = object_id\<rparr>"

subsection \<open>Accessors\<close>

definition get_cap_type_from_badge :: "gpi_badge_t \<Rightarrow> gpi_cap_t" where
  [badge_defs]: "get_cap_type_from_badge badge = ucast (drop_bit 56 badge AND 0xFF)"

definition set_cap_type_to_badge :: "gpi_badge_t \<Rightarrow> gpi_cap_t \<Rightarrow> gpi_badge_t option" where
  [badge_defs]: "set_cap_type_to_badge badge type = do {
     c_assert (type \<le> 0xFF);
     let shifted_type = push_bit 56 (ucast type :: u64);
     Some ((badge AND 0x00FFFFFFFFFFFFFF) OR shifted_type) }"

definition get_perms_from_badge :: "gpi_badge_t \<Rightarrow> gpi_perms_t" where
  [badge_defs]: "get_perms_from_badge badge = ucast (drop_bit 48 badge AND 0xFF)"

text \<open>The source shifts the permissions by 56, not by 48.\<close>

definition set_perms_to_badge :: "gpi_badge_t \<Rightarrow> gpi_perms_t \<Rightarrow> gpi_badge_t option" where
  [badge_defs]: "set_perms_to_badge badge perms = do {
     c_assert (perms \<le> 0xFF);
     let shifted_perms = push_bit 56 (ucast perms :: u64);
     Some ((badge AND 0xFF00FFFFFFFFFFFF) OR shifted_perms) }"

definition get_space_id_from_badge :: "gpi_badge_t \<Rightarrow> gpi_space_id_t" where
  [badge_defs]: "get_space_id_from_badge badge = ucast (drop_bit 40 badge AND 0xFF)"

definition set_space_id_to_badge :: "gpi_badge_t \<Rightarrow> gpi_space_id_t \<Rightarrow> gpi_badge_t option" where
  [badge_defs]: "set_space_id_to_badge badge space_id = do {
     c_assert (space_id \<le> 0xFF);
     let shifted_space_id = push_bit 40 (ucast space_id :: u64);
     Some ((badge AND 0xFFFF00FFFFFFFFFF) OR shifted_space_id) }"

definition get_client_id_from_badge :: "gpi_badge_t \<Rightarrow> gpi_obj_id_t" where
  [badge_defs]: "get_client_id_from_badge badge = ucast (drop_bit 20 badge AND 0xFFFFF)"

definition set_client_id_to_badge :: "gpi_badge_t \<Rightarrow> gpi_obj_id_t \<Rightarrow> gpi_badge_t option" where
  [badge_defs]: "set_client_id_to_badge badge client_id = do {
     c_assert (client_id \<le> 0xFFFFF);
     let shifted_client_id = push_bit 20 (ucast client_id :: u64);
     Some ((badge AND 0xFFFFFF00000FFFFF) OR shifted_client_id) }"

definition get_object_id_from_badge :: "gpi_badge_t \<Rightarrow> gpi_obj_id_t" where
  [badge_defs]: "get_object_id_from_badge badge = ucast (badge AND 0xFFFFF)"

definition set_object_id_to_badge :: "gpi_badge_t \<Rightarrow> gpi_obj_id_t \<Rightarrow> gpi_badge_t option" where
  [badge_defs]: "set_object_id_to_badge badge object_id = do {
     c_assert (object_id \<le> 0xFFFFF);
     Some ((badge AND 0xFFFFFFFFFFF00000) OR ucast object_id) }"

definition gpi_new_badge ::
    "gpi_cap_t \<Rightarrow> gpi_perms_t \<Rightarrow> gpi_obj_id_t \<Rightarrow> gpi_space_id_t \<Rightarrow> gpi_obj_id_t \<Rightarrow> gpi_badge_t option"
  where
  "gpi_new_badge cap_type perms client_id space_id object_id = do {
     badge_value \<leftarrow> set_cap_type_to_badge 0 cap_type;
     badge_value \<leftarrow> set_perms_to_badge badge_value perms;
     badge_value \<leftarrow> set_object_id_to_badge badge_value object_id;
     badge_value \<leftarrow> set_client_id_to_badge badge_value client_id;
     badge_value \<leftarrow> set_space_id_to_badge badge_value space_id;
     c_assert (badge_value \<noteq> NOTIF_BADGE);
     Some badge_value }"

definition compact_res_id ::
    "gpi_cap_t \<Rightarrow> gpi_space_id_t \<Rightarrow> gpi_obj_id_t \<Rightarrow> gpi_badge_t option" where
  "compact_res_id type space_id object_id = gpi_new_badge type 0 0 space_id object_id"

subsection \<open>The accessors are bit fields\<close>

text \<open>
  What a pair of accessors promises: the getter reads a field of \<open>n\<close> bits at \<open>lo\<close>, the setter
  asserts that the value fits and overwrites exactly that field.
\<close>

lemma badge_masks:
  "(0x00FFFFFFFFFFFFFF::u64) = NOT (push_bit 56 (mask 8))"
  "(0xFF00FFFFFFFFFFFF::u64) = NOT (push_bit 48 (mask 8))"
  "(0xFFFF00FFFFFFFFFF::u64) = NOT (push_bit 40 (mask 8))"
  "(0xFFFFFF00000FFFFF::u64) = NOT (push_bit 20 (mask 20))"
  "(0xFFFFFFFFFFF00000::u64) = NOT (push_bit 0 (mask 20))"
  "(0xFF::'a::len word) = mask 8"
  "(0xFFFFF::'a::len word) = mask 20"
  by (simp_all add: mask_eq_exp_minus_1)

lemmas field_defs = badge_defs badge_masks get_field_def put_field_def c_assert_def Let_def

lemma ucast_32_64_32 [simp]: "(ucast (ucast (v :: u32) :: u64) :: u32) = v"
  by (rule bit_word_eqI) (simp add: bit_simps)

locale badge_field =
  fixes get_f :: "u64 \<Rightarrow> u32"
    and set_f :: "u64 \<Rightarrow> u32 \<Rightarrow> u64 option"
    and lo :: nat and n :: nat
  assumes width: "n \<le> 32" and room: "lo + n \<le> 64"
    and get_is_field: "get_f b = ucast (get_field lo n b)"
    and set_is_field: "set_f b v = (if v \<le> mask n then Some (put_field lo n b (ucast v)) else None)"
begin

lemma value_fits: "(v :: u32) \<le> mask n \<Longrightarrow> (ucast v :: u64) \<le> mask n"
proof -
  assume "v \<le> mask n"
  then have "uint v \<le> mask (min 32 n)"
    by (simp add: word_le_def uint_mask_eq)
  moreover have "uint (ucast v :: u64) = uint v"
    by (simp add: uint_up_ucast is_up)
  ultimately show ?thesis using width by (simp add: word_le_def uint_mask_eq)
qed

lemma set_defined: "set_f b v = Some b' \<longleftrightarrow> v \<le> mask n \<and> b' = put_field lo n b (ucast v)"
  by (auto simp: set_is_field)

lemma get_after_set: "set_f b v = Some b' \<Longrightarrow> get_f b' = v"
  using room
  by (auto simp: set_defined get_is_field get_put_field_same value_fits)

lemma other_field_after_set:
  "set_f b v = Some b' \<Longrightarrow> lo + n \<le> lo' \<or> lo' + n' \<le> lo \<Longrightarrow>
   get_field lo' n' b' = get_field lo' n' b"
  by (auto simp: set_defined get_put_field_other value_fits)

end

interpretation cap_type_field:
  badge_field get_cap_type_from_badge set_cap_type_to_badge 56 8
  by unfold_locales (simp_all only: field_defs, simp_all)

interpretation space_id_field:
  badge_field get_space_id_from_badge set_space_id_to_badge 40 8
  by unfold_locales (simp_all only: field_defs, simp_all)

interpretation client_id_field:
  badge_field get_client_id_from_badge set_client_id_to_badge 20 20
  by unfold_locales (simp_all only: field_defs, simp_all)

interpretation object_id_field:
  badge_field get_object_id_from_badge set_object_id_to_badge 0 20
  by unfold_locales (simp_all only: field_defs, simp_all)

text \<open>The permission setter is the exception: it clears its own field and writes the cap type.\<close>

lemma get_perms_is_field: "get_perms_from_badge b = ucast (get_field 48 8 b)"
  by (simp add: badge_defs get_field_def mask_eq_exp_minus_1)

lemma set_perms_zero: "set_perms_to_badge b 0 = Some (put_field 48 8 b 0)"
  by (simp only: field_defs) simp

lemma set_perms_other_field:
  assumes "set_perms_to_badge b p = Some b'"
  shows "lo + k \<le> 48 \<Longrightarrow> get_field lo k b' = get_field lo k b"
    and "get_field 48 8 b' = 0"
    and "get_field 56 8 b' = get_field 56 8 b OR ucast p"
proof -
  have b': "b' = (b AND 0xFF00FFFFFFFFFFFF) OR push_bit 56 (ucast p)" and p: "p \<le> mask 8"
    using assms by (auto simp: badge_defs mask_eq_exp_minus_1 Let_def)
  have m: "(0xFF00FFFFFFFFFFFF::u64) = NOT (push_bit 48 (mask 8))"
    by (simp add: mask_eq_exp_minus_1)
  have hi: "i < 8" if "bit p i" for i
    using word_lt_exp_no_high_bits [OF p, of i] that by (cases "8 \<le> i") auto
  show "get_field lo k b' = get_field lo k b" if "lo + k \<le> 48"
    using that
    by (intro bit_word_eqI) (auto simp: b' m get_field_def bit_simps dest: bit_imp_le_length)
  show "get_field 48 8 b' = 0"
    by (intro bit_word_eqI) (auto simp: b' m get_field_def bit_simps)
  show "get_field 56 8 b' = get_field 56 8 b OR ucast p"
    by (intro bit_word_eqI)
      (auto simp: b' m get_field_def bit_simps dest: hi)
qed

subsection \<open>Building a badge\<close>

text \<open>The fields of a new badge, in the order \<open>gpi_new_badge\<close> writes them.\<close>

lemma gpi_new_badge_fields:
  assumes "gpi_new_badge t p c s oid = Some b"
  shows "get_field 56 8 b = ucast t OR ucast p" and "get_field 48 8 b = 0"
    and "get_field 40 8 b = ucast s" and "get_field 20 20 b = ucast c"
    and "get_field 0 20 b = ucast oid"
proof -
  from assms obtain b1 b2 b3 b4 where
    1: "set_cap_type_to_badge 0 t = Some b1" and
    2: "set_perms_to_badge b1 p = Some b2" and
    3: "set_object_id_to_badge b2 oid = Some b3" and
    4: "set_client_id_to_badge b3 c = Some b4" and
    5: "set_space_id_to_badge b4 s = Some b"
    by (auto simp: gpi_new_badge_def bind_eq_Some_conv)
  note frame = cap_type_field.other_field_after_set [OF 1] set_perms_other_field [OF 2]
    object_id_field.other_field_after_set [OF 3] client_id_field.other_field_after_set [OF 4]
    space_id_field.other_field_after_set [OF 5]
  show "get_field 56 8 b = ucast t OR ucast p"
    using 1 by (simp add: frame cap_type_field.set_defined get_put_field_same
        cap_type_field.value_fits)
  show "get_field 48 8 b = 0" by (simp add: frame)
  show "get_field 40 8 b = ucast s"
    using 5 by (simp add: space_id_field.set_defined get_put_field_same space_id_field.value_fits)
  show "get_field 20 20 b = ucast c"
    using 4 by (simp add: frame client_id_field.set_defined get_put_field_same
        client_id_field.value_fits)
  show "get_field 0 20 b = ucast oid"
    using 3 by (simp add: frame object_id_field.set_defined get_put_field_same
        object_id_field.value_fits)
qed

lemma not_notif_badge: "get_field 48 8 b = 0 \<Longrightarrow> b \<noteq> NOTIF_BADGE"
  by (auto simp: get_field_def badge_const_defs mask_eq_exp_minus_1)

lemma gpi_new_badge_succeeds:
  assumes "t \<le> 0xFF" "p \<le> 0xFF" "c \<le> 0xFFFFF" "s \<le> 0xFF" "oid \<le> 0xFFFFF"
  shows "\<exists>b. gpi_new_badge t p c s oid = Some b"
proof -
  obtain b1 where 1: "set_cap_type_to_badge 0 t = Some b1"
    using assms by (simp add: badge_defs)
  obtain b2 where 2: "set_perms_to_badge b1 p = Some b2"
    using assms by (simp add: badge_defs)
  obtain b3 where 3: "set_object_id_to_badge b2 oid = Some b3"
    using assms by (simp add: badge_defs)
  obtain b4 where 4: "set_client_id_to_badge b3 c = Some b4"
    using assms by (simp add: badge_defs)
  obtain b5 where 5: "set_space_id_to_badge b4 s = Some b5"
    using assms by (simp add: badge_defs)
  have "get_field 48 8 b5 = 0"
    by (simp add: set_perms_other_field [OF 2] object_id_field.other_field_after_set [OF 3]
        client_id_field.other_field_after_set [OF 4] space_id_field.other_field_after_set [OF 5])
  then have "b5 \<noteq> NOTIF_BADGE" by (rule not_notif_badge)
  with 1 2 3 4 5 show ?thesis by (simp add: gpi_new_badge_def)
qed

lemma gpi_new_badge_bounds:
  assumes "gpi_new_badge t p c s oid = Some b"
  shows "t \<le> 0xFF \<and> p \<le> 0xFF \<and> c \<le> 0xFFFFF \<and> s \<le> 0xFF \<and> oid \<le> 0xFFFFF"
  using assms by (auto simp: gpi_new_badge_def badge_defs bind_eq_Some_conv)

lemma ucast_16_64_32 [simp]: "(ucast (ucast (p :: u16) :: u64) :: u32) = ucast p"
  by (rule bit_word_eqI) (auto simp: bit_simps)

lemma ucast_or_64_32: "(ucast (a OR b :: u64) :: u32) = ucast a OR ucast b"
  by (rule bit_word_eqI) (auto simp: bit_simps)

lemma gpi_new_badge_reads:
  assumes "gpi_new_badge t p c s oid = Some b"
  shows "get_cap_type_from_badge b = t OR ucast p" and "get_perms_from_badge b = 0"
    and "get_space_id_from_badge b = s" and "get_client_id_from_badge b = c"
    and "get_object_id_from_badge b = oid"
  using gpi_new_badge_fields [OF assms]
  by (simp_all add: cap_type_field.get_is_field space_id_field.get_is_field
      client_id_field.get_is_field object_id_field.get_is_field get_perms_is_field ucast_or_64_32)

lemma compact_res_id_reads:
  assumes "compact_res_id t s oid = Some b"
  shows "get_cap_type_from_badge b = t" and "get_space_id_from_badge b = s"
    and "get_object_id_from_badge b = oid" and "get_client_id_from_badge b = 0"
  using gpi_new_badge_reads [OF assms [unfolded compact_res_id_def]] by simp_all

lemma compact_res_id_defined:
  "(\<exists>b. compact_res_id t s oid = Some b) \<longleftrightarrow> t \<le> 0xFF \<and> s \<le> 0xFF \<and> oid \<le> 0xFFFFF"
  using gpi_new_badge_succeeds [of t 0 0 s oid] gpi_new_badge_bounds [of t 0 0 s oid]
  by (auto simp: compact_res_id_def)

lemma compact_res_id_inj:
  "compact_res_id t s oid = Some b \<Longrightarrow> compact_res_id t' s' oid' = Some b \<Longrightarrow>
   t = t' \<and> s = s' \<and> oid = oid'"
  using compact_res_id_reads by metis

text \<open>
  A badge is built exactly when every argument fits its field; the assertion that the result is
  not the reserved notification badge never stops the program.
\<close>

theorem gpi_new_badge_total:
  "(\<exists>b. gpi_new_badge t p c s oid = Some b) \<longleftrightarrow>
     t \<le> 0xFF \<and> p \<le> 0xFF \<and> c \<le> 0xFFFFF \<and> s \<le> 0xFF \<and> oid \<le> 0xFFFFF"
  using gpi_new_badge_succeeds gpi_new_badge_bounds by blast

text \<open>
  C27: unpacking a new badge gives back the client, the space and the object it was built from; the
  permissions read back as 0 whatever was passed, because their bits are stored in the capability
  type, which reads back as the bitwise disjunction of the type and the permissions. With the
  permissions 0 that every caller passes the capability type is read back unchanged.
\<close>

theorem gpi_new_badge_roundtrip:
  assumes "gpi_new_badge t p c s oid = Some b"
  shows "get_client_id_from_badge b = c \<and> get_space_id_from_badge b = s \<and>
    get_object_id_from_badge b = oid \<and> get_perms_from_badge b = 0 \<and>
    get_cap_type_from_badge b = t OR ucast p"
  using gpi_new_badge_reads [OF assms] by simp

theorem gpi_new_badge_roundtrip_witness:
  "gpi_new_badge 3 4 5 7 11 = Some 504410854852132875 \<and>
   get_client_id_from_badge 504410854852132875 = 5 \<and>
   get_cap_type_from_badge 504410854852132875 = 7"
proof -
  have h: "gpi_new_badge 3 4 5 7 11 = Some 504410854852132875" by code_simp
  show ?thesis using h gpi_new_badge_roundtrip [OF h] by simp
qed

text \<open>
  The compact identifier under which a protection domain's held resources are keyed is
  injective: two resources with the same identifier have the same type, space and object.
\<close>

theorem compact_res_id_injective:
  assumes "compact_res_id t s oid = Some b" and "compact_res_id t' s' oid' = Some b"
  shows "make_res_id t s oid = make_res_id t' s' oid'"
  using compact_res_id_inj [OF assms] by simp

theorem compact_res_id_injective_witness:
  "compact_res_id 3 7 11 = Some 216180478695178251 \<and>
   make_res_id 3 7 11 = \<lparr>res_type = 3, res_space_id = 7, res_object_id = 11\<rparr>"
proof -
  have h: "compact_res_id 3 7 11 = Some 216180478695178251" by code_simp
  show ?thesis using h compact_res_id_injective [OF h h] by (simp add: make_res_id_def)
qed

end
