(* ===== verification/Registry.thy ===== *)
theory Registry
  imports Badge
begin

section \<open>Resource registries (resource_registry.c, resource_registry.h)\<close>

text \<open>
  A registry is a hash table of reference-counted nodes keyed by a 64-bit object ID. The C nodes
  are "subclassed" by embedding the generic node as first member; here the generic node is an
  extensible record. The \<open>uthash\<close> table that hangs off \<open>head\<close> is the list of its nodes in
  insertion order, which is the order \<open>HASH_ITER\<close> and \<open>hh.next\<close> visit; looking up, adding and
  deleting are the functions below. A pointer to a node of the table is the node's key.

  A registry may have an \<open>on_delete\<close> callback, called with the node still in the table. It acts on
  the whole program state, so the two operations that can delete a node take the callback and the
  position of the registry in the state (a getter and a setter) as arguments.
\<close>

subsection \<open>Data\<close>

record resource_registry_node_t =
  object_id :: u64
  count :: u32

type_synonym 'a node = "'a resource_registry_node_t_scheme"

record 'n resource_registry_t =
  head :: "'n list"
  max_object_id :: u64
  id_counter :: u64

definition HASH_FIND :: "'a node list \<Rightarrow> u64 \<Rightarrow> 'a node option" where
  "HASH_FIND tbl key = List.find (\<lambda>n. object_id n = key) tbl"

definition HASH_ADD :: "'a node list \<Rightarrow> 'a node \<Rightarrow> 'a node list" where
  "HASH_ADD tbl n = tbl @ [n]"

fun HASH_DEL :: "'a node list \<Rightarrow> u64 \<Rightarrow> 'a node list" where
  "HASH_DEL [] key = []"
| "HASH_DEL (n # tbl) key = (if object_id n = key then tbl else n # HASH_DEL tbl key)"

text \<open>Writing through a pointer to a node of the table.\<close>

fun node_update :: "('a node \<Rightarrow> 'a node) \<Rightarrow> 'a node list \<Rightarrow> u64 \<Rightarrow> 'a node list" where
  "node_update f [] key = []"
| "node_update f (n # tbl) key = (if object_id n = key then f n # tbl else n # node_update f tbl key)"

abbreviation keys :: "'a node list \<Rightarrow> u64 list" where
  "keys tbl \<equiv> map object_id tbl"

subsection \<open>Operations\<close>

definition resource_registry_initialize :: "u64 \<Rightarrow> 'n resource_registry_t" where
  "resource_registry_initialize max_id = \<lparr>head = [], max_object_id = max_id, id_counter = 0\<rparr>"

definition resource_registry_insert ::
    "'a node resource_registry_t \<Rightarrow> 'a node \<Rightarrow> 'a node resource_registry_t option" where
  "resource_registry_insert registry node = do {
     let node = node\<lparr>count := 1\<rparr>;
     c_assert (object_id node \<le> max_object_id registry);
     Some (registry\<lparr>head := HASH_ADD (head registry) node\<rparr>) }"

definition resource_registry_get_by_id :: "'a node resource_registry_t \<Rightarrow> u64 \<Rightarrow> 'a node option" where
  "resource_registry_get_by_id registry oid = HASH_FIND (head registry) oid"

text \<open>The C function has no \<open>return\<close> statement; it is compiled to return the value of its last
  call, which is what its declaration documents.\<close>

definition resource_registry_get_by_badge :: "'a node resource_registry_t \<Rightarrow> u64 \<Rightarrow> 'a node option" where
  "resource_registry_get_by_badge registry badge =
     resource_registry_get_by_id registry (ucast (get_object_id_from_badge badge))"

definition resource_registry_delete ::
    "('s \<Rightarrow> 'a node resource_registry_t) \<Rightarrow> ('a node resource_registry_t \<Rightarrow> 's \<Rightarrow> 's) \<Rightarrow>
     ('a node \<Rightarrow> 's \<Rightarrow> 's option) option \<Rightarrow> 'a node \<Rightarrow> 's \<Rightarrow> 's option" where
  "resource_registry_delete getr setr on_delete node s = do {
     s \<leftarrow> (case on_delete of Some f \<Rightarrow> f node s | None \<Rightarrow> Some s);
     let registry = getr s;
     Some (setr (registry\<lparr>head := HASH_DEL (head registry) (object_id node)\<rparr>) s) }"

definition resource_registry_inc ::
    "'a node resource_registry_t \<Rightarrow> u64 \<Rightarrow> 'a node resource_registry_t" where
  "resource_registry_inc registry key =
     registry\<lparr>head := node_update (\<lambda>n. n\<lparr>count := count n + 1\<rparr>) (head registry) key\<rparr>"

text \<open>\<open>node\<close> is the node of the table the caller looked up: its count after the decrement decides
  whether it is deleted.\<close>

definition resource_registry_dec ::
    "('s \<Rightarrow> 'a node resource_registry_t) \<Rightarrow> ('a node resource_registry_t \<Rightarrow> 's \<Rightarrow> 's) \<Rightarrow>
     ('a node \<Rightarrow> 's \<Rightarrow> 's option) option \<Rightarrow> 'a node \<Rightarrow> 's \<Rightarrow> 's option" where
  "resource_registry_dec getr setr on_delete node s =
     (let node = node\<lparr>count := count node - 1\<rparr>;
          registry = getr s;
          s = setr (registry\<lparr>head := node_update (\<lambda>n. n\<lparr>count := count n - 1\<rparr>)
                                       (head registry) (object_id node)\<rparr>) s
      in if count node = 0 then resource_registry_delete getr setr on_delete node s else Some s)"

text \<open>
  The search for a free ID: the body of the \<open>do ... while\<close> loop and its repetition. The counter
  wraps at 64 bits; the two early exits are the panic and a free ID. The search may not stop, so it
  is a \<^theory_text>\<open>partial_function\<close>: \<open>None\<close> is a loop that runs for ever.
\<close>

datatype 'n id_search = OutOfIds | FreeId u64 "'n resource_registry_t"

partial_function (option) find_free_id ::
    "'a node resource_registry_t \<Rightarrow> u64 \<Rightarrow> 'a node id_search option" where
  [code]: "find_free_id registry start_id =
     (let c = id_counter registry + 1 in
      if c > max_object_id registry then
        (let registry = registry\<lparr>id_counter := 1\<rparr> in
         case HASH_FIND (head registry) 1 of
           None \<Rightarrow> Some (FreeId 1 registry)
         | Some _ \<Rightarrow> find_free_id registry start_id)
      else if c = start_id then Some OutOfIds
      else
        (let registry = registry\<lparr>id_counter := c\<rparr> in
         case HASH_FIND (head registry) c of
           None \<Rightarrow> Some (FreeId c registry)
         | Some _ \<Rightarrow> find_free_id registry start_id))"

text \<open>The result of the whole operation: the outer option is non-termination, the inner one a
  panic or a failed assertion.\<close>

definition resource_registry_insert_new_id ::
    "'a node resource_registry_t \<Rightarrow> 'a node \<Rightarrow> (u64 \<times> 'a node resource_registry_t) option option" where
  "resource_registry_insert_new_id registry node =
     (case find_free_id registry (id_counter registry) of
        None \<Rightarrow> None
      | Some OutOfIds \<Rightarrow> Some None
      | Some (FreeId new_id registry) \<Rightarrow>
          Some (do {
            registry \<leftarrow> resource_registry_insert registry (node\<lparr>object_id := new_id\<rparr>);
            Some (new_id, registry) }))"

subsection \<open>The table\<close>

lemma HASH_FIND_None: "HASH_FIND tbl k = None \<longleftrightarrow> k \<notin> set (keys tbl)"
  by (auto simp: HASH_FIND_def find_None_iff)

lemma HASH_FIND_Some: "HASH_FIND tbl k = Some n \<Longrightarrow> n \<in> set tbl \<and> object_id n = k"
  by (auto simp: HASH_FIND_def find_Some_iff)

lemma HASH_FIND_Nil [simp]: "HASH_FIND [] k = None"
  by (simp add: HASH_FIND_def)

lemma HASH_FIND_Cons [simp]:
  "HASH_FIND (n # tbl) k = (if object_id n = k then Some n else HASH_FIND tbl k)"
  by (simp add: HASH_FIND_def)

lemma HASH_FIND_append:
  "HASH_FIND (xs @ ys) k = (case HASH_FIND xs k of Some n \<Rightarrow> Some n | None \<Rightarrow> HASH_FIND ys k)"
  by (induction xs) auto

lemma HASH_FIND_ADD:
  "HASH_FIND (HASH_ADD tbl n) k =
     (case HASH_FIND tbl k of Some m \<Rightarrow> Some m | None \<Rightarrow> if object_id n = k then Some n else None)"
  by (simp add: HASH_ADD_def HASH_FIND_append split: option.split)

lemma keys_HASH_DEL: "keys (HASH_DEL tbl k) = remove1 k (keys tbl)"
  by (induction tbl k rule: HASH_DEL.induct) auto

lemma keys_HASH_ADD [simp]: "keys (HASH_ADD tbl n) = keys tbl @ [object_id n]"
  by (simp add: HASH_ADD_def)

lemma HASH_FIND_DEL:
  "distinct (keys tbl) \<Longrightarrow>
   HASH_FIND (HASH_DEL tbl k) k' = (if k = k' then None else HASH_FIND tbl k')"
  by (induction tbl k rule: HASH_DEL.induct) (auto simp: HASH_FIND_None)

lemma HASH_DEL_absent: "k \<notin> set (keys tbl) \<Longrightarrow> HASH_DEL tbl k = tbl"
  by (induction tbl k rule: HASH_DEL.induct) auto

lemma keys_node_update:
  "(\<And>n. object_id (f n) = object_id n) \<Longrightarrow> keys (node_update f tbl k) = keys tbl"
  by (induction f tbl k rule: node_update.induct) auto

lemma HASH_FIND_node_update:
  "(\<And>n. object_id (f n) = object_id n) \<Longrightarrow>
   HASH_FIND (node_update f tbl k) k' =
     (if k = k' then map_option f (HASH_FIND tbl k) else HASH_FIND tbl k')"
  by (induction f tbl k rule: node_update.induct) auto

lemma node_update_absent: "k \<notin> set (keys tbl) \<Longrightarrow> node_update f tbl k = tbl"
  by (induction f tbl k rule: node_update.induct) auto

lemma list_all_node_update:
  "list_all P tbl \<Longrightarrow> (\<And>n. P n \<Longrightarrow> P (f n)) \<Longrightarrow> list_all P (node_update f tbl k)"
  by (induction f tbl k rule: node_update.induct) auto

lemma HASH_DEL_subset: "set (HASH_DEL tbl k) \<subseteq> set tbl"
  by (induction tbl k rule: HASH_DEL.induct) auto

subsection \<open>Well-formed registries\<close>

text \<open>The keys are distinct and bounded and the counter is in range. The bound on
  \<open>max_object_id\<close> holds of every registry the code initializes; it keeps the counter from
  wrapping.\<close>

definition registry_wf :: "'a node resource_registry_t \<Rightarrow> bool" where
  "registry_wf r \<longleftrightarrow> distinct (keys (head r)) \<and>
     list_all (\<lambda>k. k \<le> max_object_id r) (keys (head r)) \<and>
     id_counter r \<le> max_object_id r \<and> 1 \<le> max_object_id r \<and> max_object_id r < BADGE_MAX"

lemma wf_distinct: "registry_wf r \<Longrightarrow> distinct (keys (head r))"
  by (simp add: registry_wf_def)

lemma registry_wf_initialize: "1 \<le> m \<Longrightarrow> m < BADGE_MAX \<Longrightarrow> registry_wf (resource_registry_initialize m)"
  by (simp add: registry_wf_def resource_registry_initialize_def)

lemma insert_eq_Some:
  "resource_registry_insert r n = Some r' \<longleftrightarrow>
     object_id n \<le> max_object_id r \<and> r' = r\<lparr>head := HASH_ADD (head r) (n\<lparr>count := 1\<rparr>)\<rparr>"
  by (auto simp: resource_registry_insert_def)

lemma registry_wf_insert:
  "registry_wf r \<Longrightarrow> HASH_FIND (head r) (object_id n) = None \<Longrightarrow>
   resource_registry_insert r n = Some r' \<Longrightarrow> registry_wf r'"
  by (auto simp: registry_wf_def insert_eq_Some HASH_FIND_None)

lemma registry_wf_inc: "registry_wf r \<Longrightarrow> registry_wf (resource_registry_inc r k)"
  by (simp add: registry_wf_def resource_registry_inc_def keys_node_update)

lemma registry_wf_head_del:
  "registry_wf r \<Longrightarrow> registry_wf (r\<lparr>head := HASH_DEL (head r) k\<rparr>)"
  by (auto simp: registry_wf_def keys_HASH_DEL list_all_iff dest: notin_set_remove1
      intro: distinct_remove1 set_remove1_subset [THEN subsetD])

lemma registry_wf_head_update:
  "registry_wf r \<Longrightarrow> (\<And>n. object_id (f n) = object_id n) \<Longrightarrow>
   registry_wf (r\<lparr>head := node_update f (head r) k\<rparr>)"
  by (simp add: registry_wf_def keys_node_update)

subsection \<open>The search for a free ID\<close>

lemma unat_suc_below: "c < BADGE_MAX \<Longrightarrow> unat (c + 1) = unat c + 1"
  by (simp add: badge_const_defs word_less_nat_alt unat_word_ariths)

definition search_ok :: "'a node resource_registry_t \<Rightarrow> u64 \<Rightarrow> 'a node id_search \<Rightarrow> bool" where
  "search_ok r s res = (case res of OutOfIds \<Rightarrow> s \<le> max_object_id r
     | FreeId i r' \<Rightarrow> HASH_FIND (head r) i = None \<and> r' = r\<lparr>id_counter := i\<rparr> \<and>
         (i = 1 \<or> i \<le> max_object_id r) \<and>
         (id_counter r \<le> max_object_id r \<and> 1 \<le> max_object_id r \<and> max_object_id r < BADGE_MAX
            \<longrightarrow> 1 \<le> i))"

lemma find_free_id_sound:
  assumes "find_free_id r s = Some res"
  shows "search_ok r s res"
proof (rule find_free_id.raw_induct [where P = search_ok, OF _ assms])
  fix f :: "'a node resource_registry_t \<Rightarrow> u64 \<Rightarrow> 'a node id_search option"
  fix r s res
  assume IH: "\<And>r s res. f r s = Some res \<Longrightarrow> search_ok r s res"
  assume eq: "(let c = id_counter r + 1 in
      if c > max_object_id r then
        (let registry = r\<lparr>id_counter := 1\<rparr> in
         case HASH_FIND (head registry) 1 of
           None \<Rightarrow> Some (FreeId 1 registry)
         | Some _ \<Rightarrow> f registry s)
      else if c = s then Some OutOfIds
      else
        (let registry = r\<lparr>id_counter := c\<rparr> in
         case HASH_FIND (head registry) c of
           None \<Rightarrow> Some (FreeId c registry)
         | Some _ \<Rightarrow> f registry s)) = Some res"
  have pos: "1 \<le> id_counter r + 1" if "id_counter r \<le> max_object_id r" "max_object_id r < BADGE_MAX"
  proof -
    have "id_counter r < BADGE_MAX" using that by simp
    then show ?thesis using unat_suc_below [of "id_counter r"] by (simp add: word_le_nat_alt)
  qed
  show "search_ok r s res"
    using eq IH [of "r\<lparr>id_counter := 1\<rparr>" s res] IH [of "r\<lparr>id_counter := id_counter r + 1\<rparr>" s res] pos
    by (auto simp: Let_def search_ok_def split: if_splits option.splits id_search.splits)
qed

text \<open>One turn of the loop, as a step on the counter.\<close>

definition next_id :: "u64 \<Rightarrow> u64 \<Rightarrow> u64" where
  "next_id m c = (if c + 1 > m then 1 else c + 1)"

lemma find_free_id_step:
  "find_free_id r s =
    (let c = next_id (max_object_id r) (id_counter r) in
     if id_counter r + 1 \<le> max_object_id r \<and> c = s then Some OutOfIds
     else case HASH_FIND (head r) c of None \<Rightarrow> Some (FreeId c (r\<lparr>id_counter := c\<rparr>))
       | Some _ \<Rightarrow> find_free_id (r\<lparr>id_counter := c\<rparr>) s)"
  by (subst find_free_id.simps) (auto simp: next_id_def Let_def split: option.split)

definition scan_dist :: "u64 \<Rightarrow> u64 \<Rightarrow> u64 \<Rightarrow> nat" where
  "scan_dist m c t = (if c < t then unat t - unat c else unat m - unat c + unat t)"

lemma find_free_id_reaches:
  assumes "id_counter r \<le> max_object_id r" "max_object_id r < BADGE_MAX"
    and "1 \<le> t" "t \<le> max_object_id r" "HASH_FIND (head r) t = None"
    and "if id_counter r < t then \<not> (id_counter r < s \<and> s \<le> t)
         else \<not> id_counter r < s \<and> \<not> (2 \<le> s \<and> s \<le> t)"
  shows "\<exists>i r'. find_free_id r s = Some (FreeId i r')"
  using assms
proof (induction "scan_dist (max_object_id r) (id_counter r) t" arbitrary: r rule: less_induct)
  case less
  let ?m = "max_object_id r" and ?c = "id_counter r"
  let ?n = "next_id ?m ?c"
  have ov: "unat (?c + 1) = unat ?c + 1"
    using less.prems(1,2) by (intro unat_suc_below) simp
  have nopanic: "\<not> (?c + 1 \<le> ?m \<and> ?n = s)"
    using less.prems ov by (auto simp: next_id_def word_le_nat_alt word_less_nat_alt split: if_splits)
  show ?case
  proof (cases "HASH_FIND (head r) ?n")
    case None
    then show ?thesis using nopanic by (subst find_free_id_step) (simp add: Let_def)
  next
    case (Some x)
    then have nt: "?n \<noteq> t" using less.prems(5) by auto
    let ?r = "r\<lparr>id_counter := ?n\<rparr>"
    have n1: "(1::u64) \<le> ?m" using less.prems(3,4) by (rule order_trans)
    have "\<exists>i r'. find_free_id ?r s = Some (FreeId i r')"
    proof (rule less.hyps)
      show "scan_dist (max_object_id ?r) (id_counter ?r) t < scan_dist ?m ?c t"
        using nt ov less.prems(1,3,4) n1
        by (auto simp: scan_dist_def next_id_def word_le_nat_alt word_less_nat_alt
            word_unat_eq_iff split: if_splits)
      show "id_counter ?r \<le> max_object_id ?r" using n1 by (auto simp: next_id_def)
      show "if id_counter ?r < t then \<not> (id_counter ?r < s \<and> s \<le> t)
         else \<not> id_counter ?r < s \<and> \<not> (2 \<le> s \<and> s \<le> t)"
        using nt ov less.prems(1,3,4,6) n1
        by (auto simp: next_id_def word_le_nat_alt word_less_nat_alt word_unat_eq_iff
            split: if_splits)
    qed (use less.prems in simp_all)
    then show ?thesis using nopanic Some by (subst find_free_id_step) (simp add: Let_def)
  qed
qed

lemma find_free_id_full_panics:
  assumes "id_counter r \<le> max_object_id r" "max_object_id r < BADGE_MAX"
    and "2 \<le> s" "s \<le> max_object_id r"
    and "\<And>t. 1 \<le> t \<Longrightarrow> t \<le> max_object_id r \<Longrightarrow> t \<noteq> s \<Longrightarrow> HASH_FIND (head r) t \<noteq> None"
  shows "find_free_id r s = Some OutOfIds"
  using assms
proof (induction "scan_dist (max_object_id r) (id_counter r) s" arbitrary: r rule: less_induct)
  case less
  let ?m = "max_object_id r" and ?c = "id_counter r"
  let ?n = "next_id ?m ?c"
  have ov: "unat (?c + 1) = unat ?c + 1"
    using less.prems(1,2) by (intro unat_suc_below) simp
  show ?case
  proof (cases "?c + 1 \<le> ?m \<and> ?n = s")
    case True
    then show ?thesis by (subst find_free_id_step) (simp add: Let_def)
  next
    case False
    then have ns: "?n \<noteq> s"
      using less.prems(3,4) by (auto simp: next_id_def word_le_nat_alt word_less_nat_alt)
    have n: "1 \<le> ?n" "?n \<le> ?m"
      using ov less.prems(3,4) by (auto simp: next_id_def word_le_nat_alt word_less_nat_alt)
    then obtain x where x: "HASH_FIND (head r) ?n = Some x"
      using less.prems(5) ns by blast
    let ?r = "r\<lparr>id_counter := ?n\<rparr>"
    have "find_free_id ?r s = Some OutOfIds"
    proof (rule less.hyps)
      show "scan_dist (max_object_id ?r) (id_counter ?r) s < scan_dist ?m ?c s"
        using ns ov less.prems(1,3,4) n
        by (auto simp: scan_dist_def next_id_def word_le_nat_alt word_less_nat_alt
            word_unat_eq_iff split: if_splits)
    qed (use less.prems n in simp_all)
    then show ?thesis using ns x by (subst find_free_id_step) (simp add: Let_def)
  qed
qed

lemma find_free_id_full_diverges:
  assumes ret: "find_free_id r s = Some res" and "s \<le> 1"
    and "id_counter r \<le> max_object_id r" "1 \<le> max_object_id r" "max_object_id r < BADGE_MAX"
    and "s = 1 \<longrightarrow> id_counter r \<noteq> 0"
    and "\<And>t. 1 \<le> t \<Longrightarrow> t \<le> max_object_id r \<Longrightarrow> HASH_FIND (head r) t \<noteq> None"
  shows False
proof -
  let ?full = "\<lambda>(r :: 'a node resource_registry_t) s. s \<le> 1 \<and> id_counter r \<le> max_object_id r \<and>
     1 \<le> max_object_id r \<and> max_object_id r < BADGE_MAX \<and> (s = 1 \<longrightarrow> id_counter r \<noteq> 0) \<and>
     (\<forall>t. 1 \<le> t \<longrightarrow> t \<le> max_object_id r \<longrightarrow> HASH_FIND (head r) t \<noteq> None)"
  have "\<not> ?full r s"
  proof (rule find_free_id.raw_induct [where P = "\<lambda>r s res. \<not> ?full r s", OF _ ret], rule notI)
    fix f :: "'a node resource_registry_t \<Rightarrow> u64 \<Rightarrow> 'a node id_search option"
    fix r res and s :: u64
    assume IH: "\<And>r s res. f r s = Some res \<Longrightarrow> \<not> ?full r s"
      and full: "?full r s"
    let ?c = "id_counter r"
    assume eq: "(let c = id_counter r + 1 in
      if c > max_object_id r then
        (let registry = r\<lparr>id_counter := 1\<rparr> in
         case HASH_FIND (head registry) 1 of
           None \<Rightarrow> Some (FreeId 1 registry)
         | Some _ \<Rightarrow> f registry s)
      else if c = s then Some OutOfIds
      else
        (let registry = r\<lparr>id_counter := c\<rparr> in
         case HASH_FIND (head registry) c of
           None \<Rightarrow> Some (FreeId c registry)
         | Some _ \<Rightarrow> f registry s)) = Some res"
    have c: "?c < BADGE_MAX" using full by auto
    have ov: "unat (?c + 1) = unat ?c + 1" using c by (rule unat_suc_below)
    have ge: "1 \<le> ?c + 1" using ov by (simp add: word_le_nat_alt)
    have ne: "?c + 1 \<noteq> s"
      using full ov by (auto simp: word_unat_eq_iff word_le_nat_alt)
    have f1: "f (r\<lparr>id_counter := 1\<rparr>) s = None"
      using IH [of "r\<lparr>id_counter := 1\<rparr>" s] full by (cases "f (r\<lparr>id_counter := 1\<rparr>) s") auto
    have f2: "f (r\<lparr>id_counter := ?c + 1\<rparr>) s = None" if "\<not> max_object_id r < ?c + 1"
      using IH [of "r\<lparr>id_counter := ?c + 1\<rparr>" s] full ge that
      by (cases "f (r\<lparr>id_counter := ?c + 1\<rparr>) s") auto
    show False
      using eq full ge ne f1 f2 by (auto simp: Let_def split: if_splits option.splits)
  qed
  with assms show False by blast
qed


text \<open>An ID the search can hand out: unused, in range, and not the one the search started from
  (which is reported as exhaustion before it is tried), unless that one is 1 (which the wrap-around
  tries without the check).\<close>

definition id_available :: "'a node resource_registry_t \<Rightarrow> u64 \<Rightarrow> bool" where
  "id_available r t \<longleftrightarrow> 1 \<le> t \<and> t \<le> max_object_id r \<and> HASH_FIND (head r) t = None \<and>
     (t \<noteq> id_counter r \<or> t = 1)"

lemma find_free_id_available:
  assumes "registry_wf r" and "id_available r t"
  shows "\<exists>i r'. find_free_id r (id_counter r) = Some (FreeId i r')"
proof (rule find_free_id_reaches [of r t])
  show "if id_counter r < t then \<not> (id_counter r < id_counter r \<and> id_counter r \<le> t)
    else \<not> id_counter r < id_counter r \<and> \<not> (2 \<le> id_counter r \<and> id_counter r \<le> t)"
    using assms(2) by (auto simp: id_available_def word_le_nat_alt word_less_nat_alt
        word_unat_eq_iff)
qed (use assms in \<open>auto simp: registry_wf_def id_available_def\<close>)

lemma insert_new_id_eq:
  "resource_registry_insert_new_id r n = Some (Some (i, r')) \<longleftrightarrow>
   (\<exists>r0. find_free_id r (id_counter r) = Some (FreeId i r0) \<and>
      resource_registry_insert r0 (n\<lparr>object_id := i\<rparr>) = Some r')"
  by (auto simp: resource_registry_insert_new_id_def bind_eq_Some_conv
      split: option.splits id_search.splits)

lemma find_free_id_result:
  assumes "registry_wf r" and "find_free_id r (id_counter r) = Some (FreeId i r0)"
  shows "HASH_FIND (head r) i = None \<and> r0 = r\<lparr>id_counter := i\<rparr> \<and> 1 \<le> i \<and> i \<le> max_object_id r"
  using find_free_id_sound [OF assms(2)] assms(1)
  by (auto simp: search_ok_def registry_wf_def)

lemma insert_new_id_result:
  assumes wf: "registry_wf r" and ins: "resource_registry_insert_new_id r n = Some (Some (i, r'))"
  shows "1 \<le> i" and "i \<le> max_object_id r" and "HASH_FIND (head r) i = None"
    and "r' = r\<lparr>id_counter := i, head := HASH_ADD (head r) (n\<lparr>object_id := i, count := 1\<rparr>)\<rparr>"
    and "registry_wf r'"
proof -
  from ins obtain r0 where r0: "find_free_id r (id_counter r) = Some (FreeId i r0)"
    "resource_registry_insert r0 (n\<lparr>object_id := i\<rparr>) = Some r'"
    by (auto simp: insert_new_id_eq)
  from find_free_id_result [OF wf r0(1)]
  have i: "HASH_FIND (head r) i = None" "r0 = r\<lparr>id_counter := i\<rparr>" "1 \<le> i" "i \<le> max_object_id r"
    by auto
  show "1 \<le> i" "i \<le> max_object_id r" "HASH_FIND (head r) i = None" using i by auto
  show "r' = r\<lparr>id_counter := i, head := HASH_ADD (head r) (n\<lparr>object_id := i, count := 1\<rparr>)\<rparr>"
    using r0(2) i by (simp add: insert_eq_Some)
  have "registry_wf r0" using wf i by (simp add: registry_wf_def)
  then show "registry_wf r'" by (rule registry_wf_insert [OF _ _ r0(2)]) (simp add: i)
qed

lemma insert_new_id_available:
  assumes wf: "registry_wf r" and "id_available r t"
  shows "\<exists>i r'. resource_registry_insert_new_id r n = Some (Some (i, r'))"
proof -
  obtain i r0 where f: "find_free_id r (id_counter r) = Some (FreeId i r0)"
    using find_free_id_available assms by blast
  with find_free_id_result [OF wf f] show ?thesis
    by (simp add: insert_new_id_eq insert_eq_Some)
qed

lemma insert_new_id_unavailable:
  assumes wf: "registry_wf r" and none: "\<And>t. \<not> id_available r t"
  shows "resource_registry_insert_new_id r n = (if id_counter r \<le> 1 then None else Some None)"
proof -
  have full: "HASH_FIND (head r) t \<noteq> None"
    if "1 \<le> t" "t \<le> max_object_id r" "t \<noteq> id_counter r \<or> t = 1" for t
    using none [of t] that by (auto simp: id_available_def)
  show ?thesis
  proof (cases "id_counter r \<le> 1")
    case True
    have "find_free_id r (id_counter r) = Some res \<Longrightarrow> False" for res
    proof (erule find_free_id_full_diverges)
      show "HASH_FIND (head r) t \<noteq> None" if "1 \<le> t" "t \<le> max_object_id r" for t
        using full [of t] that True by (auto simp: word_le_nat_alt word_unat_eq_iff)
    qed (use True wf in \<open>auto simp: registry_wf_def\<close>)
    then have "find_free_id r (id_counter r) = None"
      by (cases "find_free_id r (id_counter r)") auto
    with True show ?thesis by (simp add: resource_registry_insert_new_id_def)
  next
    case False
    have "find_free_id r (id_counter r) = Some OutOfIds"
      by (rule find_free_id_full_panics)
        (use False wf full in \<open>auto simp: registry_wf_def word_le_nat_alt\<close>)
    with False show ?thesis by (simp add: resource_registry_insert_new_id_def)
  qed
qed

subsection \<open>Reference counts\<close>

text \<open>
  The contract of a reference-counted store, from the point of view of those who hold references:
  acquiring adds one reference, releasing gives one back, and the release of the last one removes
  the entry. \<open>refs\<close> is the abstract view of the store.
\<close>

locale refcounted_store =
  fixes refs :: "'r \<Rightarrow> u64 \<Rightarrow> u32 option"
    and acquire :: "u64 \<Rightarrow> 'r \<Rightarrow> 'r"
    and release :: "u64 \<Rightarrow> 'r \<Rightarrow> 'r option"
    and wf :: "'r \<Rightarrow> bool"
  assumes wf_acquire: "wf r \<Longrightarrow> wf (acquire k r)"
    and refs_acquire: "wf r \<Longrightarrow> refs r k = Some c \<Longrightarrow> refs (acquire k r) = (refs r)(k \<mapsto> c + 1)"
    and release_last: "wf r \<Longrightarrow> refs r k = Some 1 \<Longrightarrow>
       \<exists>r'. release k r = Some r' \<and> wf r' \<and> refs r' = (refs r)(k := None)"
    and release_more: "wf r \<Longrightarrow> refs r k = Some c \<Longrightarrow> c \<noteq> 1 \<Longrightarrow>
       \<exists>r'. release k r = Some r' \<and> wf r' \<and> refs r' = (refs r)(k \<mapsto> c - 1)"
begin

lemma acquire_n:
  "wf r \<Longrightarrow> refs r k = Some c \<Longrightarrow>
   wf ((acquire k ^^ n) r) \<and> refs ((acquire k ^^ n) r) = (refs r)(k \<mapsto> c + of_nat n)"
proof (induction n)
  case (Suc n)
  then have w: "wf ((acquire k ^^ n) r)"
    and f: "refs ((acquire k ^^ n) r) = (refs r)(k \<mapsto> c + of_nat n)" by auto
  have "refs (acquire k ((acquire k ^^ n) r)) = (refs ((acquire k ^^ n) r))(k \<mapsto> (c + of_nat n) + 1)"
    by (rule refs_acquire) (simp_all add: w f)
  then show ?case using w f by (simp add: wf_acquire ac_simps)
qed (simp add: fun_upd_idem)

text \<open>Fewer releases than references: the entry stays, with the difference as its count.\<close>

lemma release_n:
  "wf r \<Longrightarrow> refs r k = Some c \<Longrightarrow> n < unat c \<Longrightarrow>
   \<exists>r'. iter_opt n (release k) r = Some r' \<and> wf r' \<and> refs r' = (refs r)(k \<mapsto> c - of_nat n)"
proof (induction n arbitrary: r c)
  case 0
  then show ?case by (simp add: fun_upd_idem)
next
  case (Suc n)
  then have "c \<noteq> 1" by auto
  then obtain r1 where r1: "release k r = Some r1" "wf r1" "refs r1 = (refs r)(k \<mapsto> c - 1)"
    using release_more Suc.prems by blast
  have "n < unat (c - 1)"
    using Suc.prems(3) by (subst unat_minus_one) auto
  moreover have "refs r1 k = Some (c - 1)" using r1(3) by simp
  ultimately obtain r2 where "iter_opt n (release k) r1 = Some r2" "wf r2"
    "refs r2 = (refs r1)(k \<mapsto> (c - 1) - of_nat n)"
    using Suc.IH [OF r1(2)] by blast
  then show ?case using r1 by (auto simp: algebra_simps)
qed

text \<open>As many releases as references: the entry is gone, and it was there until the last one.\<close>

lemma release_all:
  assumes "wf r" "refs r k = Some c" "n = unat c" "c \<noteq> 0"
  shows "\<exists>r'. iter_opt n (release k) r = Some r' \<and> wf r' \<and> refs r' = (refs r)(k := None)"
proof -
  have "n \<noteq> 0" using assms(3,4) by (simp add: unat_eq_zero)
  then obtain m where n: "n = Suc m" using not0_implies_Suc by blast
  then obtain r1 where r1: "iter_opt m (release k) r = Some r1" "wf r1"
    "refs r1 = (refs r)(k \<mapsto> c - of_nat m)"
    using release_n [of r k c m] assms by auto
  have "c = of_nat (Suc m)" using assms(3) n by (simp add: word_unat_eq_iff)
  then have "refs r1 k = Some 1" using r1(3) by simp
  then obtain r2 where "release k r1 = Some r2" "wf r2" "refs r2 = (refs r1)(k := None)"
    using release_last r1(2) by blast
  then show ?thesis unfolding n iter_opt_Suc_last using r1 by auto
qed

end

text \<open>The view of a registry as a store, and the two operations on a registry with no callback.\<close>

definition reg_refs :: "'a node resource_registry_t \<Rightarrow> u64 \<Rightarrow> u32 option" where
  "reg_refs r k = map_option count (resource_registry_get_by_id r k)"

definition reg_release :: "u64 \<Rightarrow> 'a node resource_registry_t \<Rightarrow> 'a node resource_registry_t option" where
  "reg_release k r = do {
     n \<leftarrow> resource_registry_get_by_id r k;
     resource_registry_dec (\<lambda>r. r) (\<lambda>r _. r) None n r }"

lemma reg_refs_inc:
  "reg_refs (resource_registry_inc r k) k' =
     (if k = k' then map_option (\<lambda>c. c + 1) (reg_refs r k) else reg_refs r k')"
  by (simp add: reg_refs_def resource_registry_get_by_id_def resource_registry_inc_def
      HASH_FIND_node_update option.map_comp comp_def)

interpretation registry_store:
  refcounted_store reg_refs "\<lambda>k r. resource_registry_inc r k" reg_release registry_wf
proof
  fix r :: "'a node resource_registry_t" and k c
  assume wf: "registry_wf r"
  then show "registry_wf (resource_registry_inc r k)" by (rule registry_wf_inc)
  show "reg_refs (resource_registry_inc r k) = (reg_refs r)(k \<mapsto> c + 1)" if "reg_refs r k = Some c"
    using that by (auto simp: reg_refs_inc fun_eq_iff)
  show "\<exists>r'. reg_release k r = Some r' \<and> registry_wf r' \<and> reg_refs r' = (reg_refs r)(k := None)"
    if "reg_refs r k = Some 1"
  proof -
    from that obtain n where n: "HASH_FIND (head r) k = Some n" "count n = 1"
      by (auto simp: reg_refs_def resource_registry_get_by_id_def)
    then have "object_id n = k" using HASH_FIND_Some by blast
    moreover have "registry_wf (r\<lparr>head := HASH_DEL (node_update (\<lambda>n. n\<lparr>count := count n - 1\<rparr>)
        (head r) k) k\<rparr>)"
      using registry_wf_head_del [OF registry_wf_head_update [OF wf]] by simp
    ultimately show ?thesis using n wf_distinct [OF wf]
      by (auto simp: reg_release_def resource_registry_dec_def resource_registry_delete_def
          resource_registry_get_by_id_def reg_refs_def HASH_FIND_DEL keys_node_update
          HASH_FIND_node_update fun_eq_iff)
  qed
  show "\<exists>r'. reg_release k r = Some r' \<and> registry_wf r' \<and> reg_refs r' = (reg_refs r)(k \<mapsto> c - 1)"
    if "reg_refs r k = Some c" "c \<noteq> 1"
  proof -
    from that obtain n where n: "HASH_FIND (head r) k = Some n" "count n = c"
      by (auto simp: reg_refs_def resource_registry_get_by_id_def)
    then have "object_id n = k" using HASH_FIND_Some by blast
    then show ?thesis using n wf that(2)
      by (auto simp: reg_release_def resource_registry_dec_def resource_registry_get_by_id_def
          reg_refs_def registry_wf_head_update HASH_FIND_node_update fun_eq_iff)
  qed
qed

subsection \<open>Properties\<close>

text \<open>
  An ID handed out by a well-formed registry is in range and was unused; afterwards it leads to
  the inserted node with one reference, every other ID leads where it led before, and the registry
  is well-formed.
\<close>

theorem insert_new_id_fresh:
  assumes wf: "registry_wf r" and ins: "resource_registry_insert_new_id r n = Some (Some (i, r'))"
  shows "1 \<le> i \<and> i \<le> max_object_id r \<and> resource_registry_get_by_id r i = None \<and>
    resource_registry_get_by_id r' i = Some (n\<lparr>object_id := i, count := 1\<rparr>) \<and>
    (\<forall>k. k \<noteq> i \<longrightarrow> resource_registry_get_by_id r' k = resource_registry_get_by_id r k) \<and>
    registry_wf r'"
  using insert_new_id_result [OF wf ins]
  by (auto simp: resource_registry_get_by_id_def HASH_FIND_ADD split: option.split)

definition sample_registry :: "resource_registry_node_t resource_registry_t" where
  "sample_registry = \<lparr>head = [\<lparr>object_id = 1, count = 1\<rparr>, \<lparr>object_id = 2, count = 3\<rparr>],
     max_object_id = 3, id_counter = 2\<rparr>"

lemma sample_registry_wf: "registry_wf sample_registry"
  by (simp add: registry_wf_def sample_registry_def badge_const_defs)

theorem insert_new_id_fresh_witness:
  "resource_registry_insert_new_id sample_registry \<lparr>object_id = 0, count = 0\<rparr> =
     Some (Some (3, \<lparr>head = [\<lparr>object_id = 1, count = 1\<rparr>, \<lparr>object_id = 2, count = 3\<rparr>,
       \<lparr>object_id = 3, count = 1\<rparr>], max_object_id = 3, id_counter = 3\<rparr>)) \<and>
   resource_registry_get_by_id sample_registry 3 = None"
proof -
  have h: "resource_registry_insert_new_id sample_registry \<lparr>object_id = 0, count = 0\<rparr> =
     Some (Some (3, \<lparr>head = [\<lparr>object_id = 1, count = 1\<rparr>, \<lparr>object_id = 2, count = 3\<rparr>,
       \<lparr>object_id = 3, count = 1\<rparr>], max_object_id = 3, id_counter = 3\<rparr>))"
    by (simp add: resource_registry_insert_new_id_def find_free_id.simps sample_registry_def
        resource_registry_insert_def HASH_ADD_def)
  show ?thesis using h insert_new_id_fresh [OF sample_registry_wf h] by simp
qed

text \<open>
  C28: what allocating an ID does, for every well-formed registry. It returns an ID exactly when one
  is available. Otherwise it stops the program when the counter is at least 2, even if the ID the
  counter stands at is free, and it never returns when the counter is 0 or 1.
\<close>

theorem insert_new_id_outcome:
  assumes wf: "registry_wf r"
  shows "((\<exists>i r'. resource_registry_insert_new_id r n = Some (Some (i, r'))) \<longleftrightarrow> (\<exists>t. id_available r t))
    \<and> (resource_registry_insert_new_id r n = Some None \<longleftrightarrow> \<not> (\<exists>t. id_available r t) \<and> 2 \<le> id_counter r)
    \<and> (resource_registry_insert_new_id r n = None \<longleftrightarrow> \<not> (\<exists>t. id_available r t) \<and> id_counter r \<le> 1)"
proof (cases "\<exists>t. id_available r t")
  case True
  then show ?thesis using insert_new_id_available [OF wf, of _ n] by auto
next
  case False
  then have "resource_registry_insert_new_id r n = (if id_counter r \<le> 1 then None else Some None)"
    using insert_new_id_unavailable [OF wf] by blast
  with False show ?thesis by (auto simp: word_le_nat_alt)
qed

text \<open>The witness: IDs 1 and 3 are taken, 2 is free and the counter stands at 2. The registry
  reports exhaustion and stops the program.\<close>

theorem insert_new_id_outcome_witness:
  "resource_registry_insert_new_id
     \<lparr>head = [\<lparr>object_id = 1, count = 1\<rparr>, \<lparr>object_id = 3, count = 1\<rparr>], max_object_id = 3,
      id_counter = 2\<rparr> \<lparr>object_id = 0, count = 0\<rparr> = Some None"
proof -
  let ?r = "\<lparr>head = [\<lparr>object_id = 1, count = 1\<rparr>, \<lparr>object_id = 3, count = 1\<rparr>], max_object_id = 3,
      id_counter = 2\<rparr> :: resource_registry_node_t resource_registry_t"
  have wf: "registry_wf ?r" by (simp add: registry_wf_def badge_const_defs)
  have "\<not> id_available ?r t" for t
  proof
    assume "id_available ?r t"
    then have "1 \<le> unat t \<and> unat t \<le> 3 \<and> unat t \<noteq> 1 \<and> unat t \<noteq> 2 \<and> unat t \<noteq> 3"
      by (auto simp: id_available_def word_le_nat_alt word_unat_eq_iff split: if_splits)
    then show False by linarith
  qed
  then show ?thesis using insert_new_id_outcome [OF wf] by simp
qed

text \<open>
  C24: the life of a node: inserted, shared \<open>k\<close> times (fewer than 2^32 - 1, where the 32-bit count
  wraps) and released. After at most \<open>k\<close> releases it is still there, with the remaining count;
  after \<open>k + 1\<close> releases it is gone and no other node's count has changed.
\<close>

theorem registry_lifecycle:
  assumes wf: "registry_wf r" and fresh: "resource_registry_get_by_id r (object_id n) = None"
    and ins: "resource_registry_insert r n = Some r1"
    and k: "k < 2 ^ 32 - 1"
    and r2: "r2 = ((\<lambda>r. resource_registry_inc r (object_id n)) ^^ k) r1"
  shows "(\<forall>j \<le> k. \<exists>r3. iter_opt j (reg_release (object_id n)) r2 = Some r3 \<and>
            reg_refs r3 (object_id n) = Some (of_nat (k + 1 - j))) \<and>
         (\<exists>r3. iter_opt (k + 1) (reg_release (object_id n)) r2 = Some r3 \<and>
            reg_refs r3 = reg_refs r)"
proof -
  let ?i = "object_id n"
  have r1: "registry_wf r1"
    using wf fresh ins registry_wf_insert by (simp add: resource_registry_get_by_id_def)
  have refs1: "reg_refs r1 = (reg_refs r)(?i \<mapsto> 1)"
    using fresh ins
    by (auto simp: insert_eq_Some reg_refs_def resource_registry_get_by_id_def HASH_FIND_ADD
        fun_eq_iff split: option.split)
  have "registry_wf r2 \<and> reg_refs r2 = (reg_refs r1)(?i \<mapsto> 1 + of_nat k)"
    unfolding r2 by (rule registry_store.acquire_n [OF r1]) (simp add: refs1)
  then have w2: "registry_wf r2" and c2: "reg_refs r2 = (reg_refs r)(?i \<mapsto> 1 + of_nat k)"
    by (auto simp: refs1)
  have u: "unat (1 + of_nat k :: u32) = k + 1"
    using k by (simp add: unat_word_ariths take_bit_eq_mod unat_of_nat)
  have "\<exists>r3. iter_opt j (reg_release ?i) r2 = Some r3 \<and> reg_refs r3 ?i = Some (of_nat (k + 1 - j))"
    if "j \<le> k" for j
    using registry_store.release_n [OF w2, of ?i "1 + of_nat k" j] that u c2
    by (auto simp: of_nat_diff)
  moreover have "\<exists>r3. iter_opt (k + 1) (reg_release ?i) r2 = Some r3 \<and> reg_refs r3 = reg_refs r"
  proof -
    have "(1 + of_nat k :: u32) \<noteq> 0" using u by auto
    then obtain r3 where "iter_opt (k + 1) (reg_release ?i) r2 = Some r3"
      "reg_refs r3 = (reg_refs r2)(?i := None)"
      using registry_store.release_all [OF w2, of ?i "1 + of_nat k" "k + 1"] u c2 by auto
    moreover have "(reg_refs r2)(?i := None) = reg_refs r"
      using fresh by (auto simp: c2 fun_eq_iff reg_refs_def)
    ultimately show ?thesis by simp
  qed
  ultimately show ?thesis by blast
qed

theorem registry_lifecycle_witness:
  "\<exists>r3. iter_opt (2 + 1) (reg_release 3) (((\<lambda>r. resource_registry_inc r 3) ^^ 2)
       (sample_registry\<lparr>head := head sample_registry @ [\<lparr>object_id = 3, count = 1\<rparr>]\<rparr>)) = Some r3 \<and>
     reg_refs r3 = reg_refs sample_registry"
proof -
  let ?n = "\<lparr>object_id = 3, count = 0\<rparr>"
  let ?r1 = "sample_registry\<lparr>head := head sample_registry @ [\<lparr>object_id = 3, count = 1\<rparr>]\<rparr>"
  have fresh: "resource_registry_get_by_id sample_registry (object_id ?n) = None"
    by (simp add: resource_registry_get_by_id_def sample_registry_def)
  have ins: "resource_registry_insert sample_registry ?n = Some ?r1"
    by (simp add: sample_registry_def insert_eq_Some HASH_ADD_def)
  have "(2::nat) < 2 ^ 32 - 1" by simp
  from registry_lifecycle [OF sample_registry_wf fresh ins this refl]
  show ?thesis by (simp only: resource_registry_node_t.simps)
qed

end
