(* ===== verification/Resource_Types.thy ===== *)
theory Resource_Types
  imports Registry
begin

section \<open>Resource types (resource_types.c)\<close>

text \<open>
  The root task keeps a registry of resource types: the core types, under fixed codes, and the
  types that resource servers introduce by name, under codes it allocates. A C string is the list
  of its characters without the terminator. A \<open>char\<close> buffer of size 16 filled by
  \<open>strncpy\<close> is the list of the characters before its terminator; with 16 characters it has no
  terminator, and comparing beyond them reads past the buffer, which is \<open>None\<close> (a fault).

  The lemmas show that codes and names are in bijection as long as names have at most 15
  characters, and that the core codes never change.
\<close>

definition RESOURCE_TYPE_MAX_STRING_SIZE :: nat where
  "RESOURCE_TYPE_MAX_STRING_SIZE = 16"

definition strncpy :: "string \<Rightarrow> nat \<Rightarrow> string" where
  "strncpy src n = take n src"

text \<open>\<open>strcmp(s, buf) == 0\<close> for a terminated \<open>s\<close> and a buffer as above.\<close>

definition strcmp_eq :: "string \<Rightarrow> string \<Rightarrow> bool option" where
  "strcmp_eq s buf =
     (if length buf < RESOURCE_TYPE_MAX_STRING_SIZE then Some (s = buf)
      else if take (length buf) s = buf then None else Some False)"

record resource_type_registry_entry_t = resource_registry_node_t +
  type_name :: string

type_synonym type_registry = "resource_type_registry_entry_t resource_registry_t"

definition insert_resource_type :: "gpi_cap_t \<Rightarrow> string \<Rightarrow> type_registry \<Rightarrow> type_registry option" where
  "insert_resource_type tid name registry =
     resource_registry_insert registry
       \<lparr>object_id = ucast tid, count = 0, type_name = strncpy name RESOURCE_TYPE_MAX_STRING_SIZE\<rparr>"

definition resource_types_initialize :: "type_registry option" where
  "resource_types_initialize = do {
     let registry = resource_registry_initialize BADGE_MAX_CAP_TYPE;
     registry \<leftarrow> insert_resource_type GPICAP_TYPE_NONE ''NONE'' registry;
     registry \<leftarrow> insert_resource_type GPICAP_TYPE_ADS ''ADS'' registry;
     registry \<leftarrow> insert_resource_type GPICAP_TYPE_VMR ''VMR'' registry;
     registry \<leftarrow> insert_resource_type GPICAP_TYPE_MO ''MO'' registry;
     registry \<leftarrow> insert_resource_type GPICAP_TYPE_CPU ''VCPU'' registry;
     registry \<leftarrow> insert_resource_type GPICAP_TYPE_PCPU ''PCPU'' registry;
     registry \<leftarrow> insert_resource_type GPICAP_TYPE_PD ''PD'' registry;
     registry \<leftarrow> insert_resource_type GPICAP_TYPE_RESSPC ''RESSPC'' registry;
     registry \<leftarrow> insert_resource_type GPICAP_TYPE_EP ''EP'' registry;
     insert_resource_type GPICAP_TYPE_seL4 ''UNKNOWN'' registry }"

text \<open>The outer option is a search that never returns, as in
  \<^const>\<open>resource_registry_insert_new_id\<close>; the inner one a stopped program.\<close>

definition alloc_new_resource_type ::
    "string \<Rightarrow> type_registry \<Rightarrow> (gpi_cap_t \<times> type_registry) option option" where
  "alloc_new_resource_type name registry =
     map_option (map_option (\<lambda>(new_id, registry). (ucast new_id, registry)))
       (resource_registry_insert_new_id registry
          \<lparr>object_id = 0, count = 0, type_name = strncpy name RESOURCE_TYPE_MAX_STRING_SIZE\<rparr>)"

text \<open>The loop over \<open>hh.next\<close>: the code of the first entry with the name.\<close>

fun find_type_by_name :: "string \<Rightarrow> resource_type_registry_entry_t list \<Rightarrow> gpi_cap_t option option" where
  "find_type_by_name name [] = Some None"
| "find_type_by_name name (node # nodes) = do {
     eq \<leftarrow> strcmp_eq name (type_name node);
     if eq then Some (Some (ucast (object_id node))) else find_type_by_name name nodes }"

definition get_resource_type_code ::
    "string \<Rightarrow> type_registry \<Rightarrow> (gpi_cap_t \<times> type_registry) option option" where
  "get_resource_type_code name registry =
     (case find_type_by_name name (head registry) of
        None \<Rightarrow> Some None
      | Some (Some code) \<Rightarrow> Some (Some (code, registry))
      | Some None \<Rightarrow> alloc_new_resource_type name registry)"

text \<open>In the root task: the registry pointer is NULL until it is initialized, and an unknown code
  stops the program. The result is the name buffer of the entry.\<close>

definition cap_type_to_str :: "type_registry option \<Rightarrow> gpi_cap_t \<Rightarrow> string option" where
  "cap_type_to_str reg cap_type = do {
     registry \<leftarrow> reg;
     entry \<leftarrow> resource_registry_get_by_id registry (ucast cap_type);
     Some (type_name entry) }"

subsection \<open>Names and codes\<close>

definition types_wf :: "type_registry \<Rightarrow> bool" where
  "types_wf r \<longleftrightarrow> registry_wf r \<and> max_object_id r = BADGE_MAX_CAP_TYPE \<and>
     distinct (map type_name (head r)) \<and>
     list_all (\<lambda>n. length (type_name n) < RESOURCE_TYPE_MAX_STRING_SIZE) (head r)"

lemma short_name_strncpy:
  "length name < RESOURCE_TYPE_MAX_STRING_SIZE \<Longrightarrow> strncpy name RESOURCE_TYPE_MAX_STRING_SIZE = name"
  by (simp add: strncpy_def)

lemma find_type_by_name_eq:
  "list_all (\<lambda>n. length (type_name n) < RESOURCE_TYPE_MAX_STRING_SIZE) nodes \<Longrightarrow>
   find_type_by_name name nodes =
     Some (map_option (\<lambda>n. ucast (object_id n)) (List.find (\<lambda>n. type_name n = name) nodes))"
  by (induction name nodes rule: find_type_by_name.induct) (auto simp: strcmp_eq_def)

lemma code_fits: "(k :: u64) \<le> 0xFF \<Longrightarrow> ucast (ucast k :: u32) = k"
proof (rule bit_word_eqI)
  fix i assume k: "k \<le> 0xFF" and i: "i < LENGTH(64)"
  have "k \<le> mask 8" using k by (simp add: mask_eq_exp_minus_1)
  then have "\<not> bit k i" if "8 \<le> i" using that by (rule word_lt_exp_no_high_bits)
  then show "bit (ucast (ucast k :: u32) :: u64) i = bit k i"
    by (cases "i < 8") (auto simp: bit_simps)
qed

lemma get_code_known:
  assumes wf: "types_wf r" and n: "n \<in> set (head r)"
  shows "get_resource_type_code (type_name n) r = Some (Some (ucast (object_id n), r))"
proof -
  have "List.find (\<lambda>m. type_name m = type_name n) (head r) = Some n"
    using wf n unfolding types_wf_def by (intro find_distinct_key) auto
  then show ?thesis using wf
    by (simp add: get_resource_type_code_def types_wf_def find_type_by_name_eq)
qed

lemma name_of_entry:
  assumes wf: "types_wf r" and n: "n \<in> set (head r)"
  shows "cap_type_to_str (Some r) (ucast (object_id n)) = Some (type_name n)"
proof -
  have "object_id n \<le> 0xFF" using wf n
    by (auto simp: types_wf_def registry_wf_def list_all_iff badge_const_defs)
  moreover have "HASH_FIND (head r) (object_id n) = Some n"
    using wf n wf_distinct [of r] unfolding types_wf_def HASH_FIND_def
    by (intro find_distinct_key) auto
  ultimately show ?thesis
    by (simp add: cap_type_to_str_def resource_registry_get_by_id_def code_fits)
qed

lemma get_code_new:
  assumes wf: "types_wf r" and new: "name \<notin> type_name ` set (head r)"
    and len: "length name < RESOURCE_TYPE_MAX_STRING_SIZE"
    and res: "get_resource_type_code name r = Some (Some (code, r'))"
  shows "types_wf r' \<and> (\<exists>n. head r' = head r @ [n] \<and> type_name n = name \<and> code = ucast (object_id n))"
proof -
  have "find_type_by_name name (head r) = Some None"
    using wf new by (auto simp: types_wf_def find_type_by_name_eq find_None_iff)
  then obtain i where
    ins: "resource_registry_insert_new_id r \<lparr>object_id = 0, count = 0, type_name = name\<rparr> = Some (Some (i, r'))"
    and code: "code = ucast i"
    using res len
    by (auto simp: get_resource_type_code_def alloc_new_resource_type_def short_name_strncpy)
  have wfr: "registry_wf r" using wf by (simp add: types_wf_def)
  have r': "r' = r\<lparr>id_counter := i, head := HASH_ADD (head r)
      (\<lparr>object_id = 0, count = 0, type_name = name\<rparr>\<lparr>object_id := i, count := 1\<rparr>)\<rparr>"
    by (rule insert_new_id_result(4) [OF wfr ins])
  have "registry_wf r'" by (rule insert_new_id_result(5) [OF wfr ins])
  then show ?thesis using r' wf new len code
    by (auto simp: types_wf_def HASH_ADD_def)
qed

lemma get_code_cases:
  assumes wf: "types_wf r" and len: "length name < RESOURCE_TYPE_MAX_STRING_SIZE"
    and res: "get_resource_type_code name r = Some (Some (code, r'))"
  shows "types_wf r'" and "set (head r) \<subseteq> set (head r')"
    and "\<exists>n \<in> set (head r'). type_name n = name \<and> code = ucast (object_id n)"
proof -
  have "types_wf r' \<and> set (head r) \<subseteq> set (head r') \<and>
    (\<exists>n \<in> set (head r'). type_name n = name \<and> code = ucast (object_id n))"
  proof (cases "name \<in> type_name ` set (head r)")
    case True
    then obtain n where n: "n \<in> set (head r)" "name = type_name n" by auto
    then show ?thesis using get_code_known [OF wf n(1)] res wf by auto
  next
    case False
    from get_code_new [OF wf False len res] show ?thesis by auto
  qed
  then show "types_wf r'" "set (head r) \<subseteq> set (head r')"
    "\<exists>n \<in> set (head r'). type_name n = name \<and> code = ucast (object_id n)" by auto
qed

text \<open>
  The registry of resource types after initialization holds the ten core types under their
  fixed codes and names, and is well-formed.
\<close>

theorem core_types_registered:
  "\<exists>r. resource_types_initialize = Some r \<and> types_wf r \<and>
     map (\<lambda>n. (ucast (object_id n) :: gpi_cap_t, type_name n)) (head r) =
       [(GPICAP_TYPE_NONE, ''NONE''), (GPICAP_TYPE_ADS, ''ADS''), (GPICAP_TYPE_VMR, ''VMR''),
        (GPICAP_TYPE_MO, ''MO''), (GPICAP_TYPE_CPU, ''VCPU''), (GPICAP_TYPE_PCPU, ''PCPU''),
        (GPICAP_TYPE_PD, ''PD''), (GPICAP_TYPE_RESSPC, ''RESSPC''), (GPICAP_TYPE_EP, ''EP''),
        (GPICAP_TYPE_seL4, ''UNKNOWN'')]"
  by (simp add: resource_types_initialize_def insert_resource_type_def strncpy_def
      resource_registry_insert_def resource_registry_initialize_def HASH_ADD_def cap_type_defs
      badge_const_defs RESOURCE_TYPE_MAX_STRING_SIZE_def types_wf_def registry_wf_def)

text \<open>
  For names of at most 15 characters the code of a name is stable and reversible: asking for
  it keeps every registered type, asking again returns the same code and changes nothing, and the
  code is printed as the name.
\<close>

theorem type_code_roundtrip:
  assumes wf: "types_wf r" and len: "length name < 16"
    and res: "get_resource_type_code name r = Some (Some (code, r'))"
  shows "types_wf r' \<and> set (head r) \<subseteq> set (head r') \<and>
    get_resource_type_code name r' = Some (Some (code, r')) \<and>
    cap_type_to_str (Some r') code = Some name"
proof -
  have "length name < RESOURCE_TYPE_MAX_STRING_SIZE"
    using len by (simp add: RESOURCE_TYPE_MAX_STRING_SIZE_def)
  note gc = get_code_cases [OF wf this res]
  from gc(3) obtain n where n: "n \<in> set (head r')" "name = type_name n" "code = ucast (object_id n)"
    by blast
  show ?thesis using gc(1,2) get_code_known [OF gc(1) n(1)] name_of_entry [OF gc(1) n(1)] n by simp
qed

definition one_type :: type_registry where
  "one_type = \<lparr>head = [\<lparr>object_id = 0, count = 1, type_name = ''NONE''\<rparr>], max_object_id = 0xFF,
     id_counter = 0\<rparr>"

theorem type_code_roundtrip_witness:
  "get_resource_type_code ''FILE'' one_type = Some (Some (1, one_type\<lparr>head := head one_type @
     [\<lparr>object_id = 1, count = 1, type_name = ''FILE''\<rparr>], id_counter := 1\<rparr>)) \<and>
   cap_type_to_str (Some (one_type\<lparr>head := head one_type @
     [\<lparr>object_id = 1, count = 1, type_name = ''FILE''\<rparr>], id_counter := 1\<rparr>)) 1 = Some ''FILE''"
proof -
  have wf: "types_wf one_type"
    by (simp add: types_wf_def registry_wf_def one_type_def badge_const_defs
        RESOURCE_TYPE_MAX_STRING_SIZE_def)
  have len: "length ''FILE'' < 16" by simp
  have res: "get_resource_type_code ''FILE'' one_type = Some (Some (1, one_type\<lparr>head := head one_type @
     [\<lparr>object_id = 1, count = 1, type_name = ''FILE''\<rparr>], id_counter := 1\<rparr>))"
    by (simp add: get_resource_type_code_def one_type_def strcmp_eq_def strncpy_def
        RESOURCE_TYPE_MAX_STRING_SIZE_def alloc_new_resource_type_def
        resource_registry_insert_new_id_def find_free_id.simps resource_registry_insert_def
        HASH_ADD_def)
  show ?thesis using res type_code_roundtrip [OF wf len res] by simp
qed

text \<open>
  Different short names have different codes, in the same registry or after any further
  registrations in between.
\<close>

lemma type_codes_distinct:
  assumes wf: "types_wf r" and "length name < 16" "length name' < 16"
    and 1: "get_resource_type_code name r = Some (Some (code, r1))"
    and "types_wf r2" "set (head r1) \<subseteq> set (head r2)"
    and 2: "get_resource_type_code name' r2 = Some (Some (code', r3))"
    and "name \<noteq> name'"
  shows "code \<noteq> code'"
proof -
  have l: "length name < RESOURCE_TYPE_MAX_STRING_SIZE" "length name' < RESOURCE_TYPE_MAX_STRING_SIZE"
    using assms(2,3) by (simp_all add: RESOURCE_TYPE_MAX_STRING_SIZE_def)
  note g1 = get_code_cases [OF wf l(1) 1] and g2 = get_code_cases [OF assms(5) l(2) 2]
  obtain n where n: "n \<in> set (head r3)" "type_name n = name" "code = ucast (object_id n)"
    using g1(3) g2(2) assms(6) by blast
  obtain m where m: "m \<in> set (head r3)" "type_name m = name'" "code' = ucast (object_id m)"
    using g2(3) by blast
  show ?thesis
    using name_of_entry [OF g2(1) n(1)] name_of_entry [OF g2(1) m(1)] n m assms(8) by auto
qed

end
