(* ===== verification/Model_State.thy ===== *)
theory Model_State
  imports Resource_Types
begin

section \<open>Model states (model\_exporting.c, model\_exporting.h)\<close>

text \<open>
  The graph of PDs, resources and resource spaces that an extraction collects. Nodes and edges are
  components, kept in the order of their allocation; a pointer to one is its position. The two \<open>uthash\<close>
  tables are lists of such pointers in insertion order. A model state takes its components from the heap, where an allocation may
  fail, or, when it is built for another process, from a piece of memory of a given size; then it is \<open>Portable\<close>,
  with the size of a component and the size of the memory.

  A \<open>char\<close> buffer of \<open>CSV_MAX_STRING_SIZE\<close> bytes is the list of the characters before its terminator; a buffer without terminator
  is followed by the next field of the structure. Writing more than a buffer holds is a fault. Names of resource types
  are a parameter \<open>N\<close>: in the root task they are those of its registry, in another PD those of its shared data.

  The lemmas show that a model state is a graph: identifiers and edges are unique, no component is lost, adding and combining
  are updates and unions of graphs, and memory is not exceeded.
\<close>

definition CSV_MAX_STRING_SIZE :: nat where "CSV_MAX_STRING_SIZE = 100"

subsection \<open>Data\<close>

datatype gpi_node_type_t = GPI_NODE_TYPE_PD | GPI_NODE_TYPE_RESOURCE | GPI_NODE_TYPE_SPACE

datatype gpi_edge_type_t = GPI_EDGE_TYPE_SUBSET | GPI_EDGE_TYPE_MAP | GPI_EDGE_TYPE_REQUEST | GPI_EDGE_TYPE_HOLD

record gpi_model_node_t =
  node_type :: gpi_node_type_t
  node_id :: string
  node_data :: string
  node_data2 :: string
  extracted :: bool

record gpi_model_edge_key_t =
  edge_type :: gpi_edge_type_t
  req_type :: gpi_cap_t
  edge_from :: string
  edge_to :: string

datatype gpi_model_state_component_t = GPI_MODEL_NODE gpi_model_node_t | GPI_MODEL_EDGE gpi_model_edge_key_t

datatype model_mem = Heap "nat \<Rightarrow> bool" | Portable nat nat

record model_state_t =
  ms_nodes :: "nat list"
  ms_edges :: "nat list"
  ms_comps :: "gpi_model_state_component_t list"
  ms_mem :: model_mem

type_synonym type_namer = "gpi_cap_t \<Rightarrow> string option"

text \<open>Whether the component number \<open>k\<close> can be allocated.\<close>

fun alloc_ok :: "model_mem \<Rightarrow> nat \<Rightarrow> bool" where
  "alloc_ok (Heap ok) k = ok k"
| "alloc_ok (Portable sz n) k \<longleftrightarrow> (k + 1) * sz < n"

definition comp_at :: "model_state_t \<Rightarrow> nat \<Rightarrow> gpi_model_state_component_t option" where
  "comp_at ms a = (if a < length (ms_comps ms) then Some (ms_comps ms ! a) else None)"

definition node_at :: "model_state_t \<Rightarrow> nat \<Rightarrow> gpi_model_node_t option" where
  "node_at ms a = (case comp_at ms a of Some (GPI_MODEL_NODE n) \<Rightarrow> Some n | _ \<Rightarrow> None)"

definition edge_at :: "model_state_t \<Rightarrow> nat \<Rightarrow> gpi_model_edge_key_t option" where
  "edge_at ms a = (case comp_at ms a of Some (GPI_MODEL_EDGE k) \<Rightarrow> Some k | _ \<Rightarrow> None)"

definition upd_node :: "nat \<Rightarrow> (gpi_model_node_t \<Rightarrow> gpi_model_node_t) \<Rightarrow> model_state_t \<Rightarrow> model_state_t" where
  "upd_node a f ms = (case node_at ms a of None \<Rightarrow> ms
     | Some n \<Rightarrow> ms\<lparr>ms_comps := (ms_comps ms)[a := GPI_MODEL_NODE (f n)]\<rparr>)"

text \<open>The string that starts at the \<open>data\<close> field.\<close>

definition data_text :: "gpi_model_node_t \<Rightarrow> string" where
  "data_text n = (if length (node_data n) < CSV_MAX_STRING_SIZE then node_data n else node_data n @ node_data2 n)"

subsection \<open>Identifiers\<close>

definition hex_digit :: "nat \<Rightarrow> char" where
  "hex_digit d = char_of (if d < 10 then 48 + d else 87 + d)"

fun hex :: "nat \<Rightarrow> string" where
  "hex n = (if n < 16 then [hex_digit n] else hex (n div 16) @ [hex_digit (n mod 16)])"

declare hex.simps [simp del]

fun decimal :: "nat \<Rightarrow> string" where
  "decimal n = (if n < 10 then [char_of (48 + n)] else decimal (n div 10) @ [char_of (48 + n mod 10)])"

declare decimal.simps [simp del]

definition snprintf :: "nat \<Rightarrow> string \<Rightarrow> string" where
  "snprintf sz s = take (sz - 1) s"

definition make_node_id :: "string \<Rightarrow> u32 \<Rightarrow> string" where
  "make_node_id prefix oid = snprintf CSV_MAX_STRING_SIZE (prefix @ ''_'' @ hex (unat oid))"

definition make_node_id_2 :: "string \<Rightarrow> u32 \<Rightarrow> u32 \<Rightarrow> string" where
  "make_node_id_2 prefix id1 id2 = snprintf CSV_MAX_STRING_SIZE (prefix @ ''_'' @ hex (unat id1) @ ''_'' @ hex (unat id2))"

definition get_resource_space_id :: "type_namer \<Rightarrow> gpi_cap_t \<Rightarrow> gpi_space_id_t \<Rightarrow> string option" where
  "get_resource_space_id N type sid = do {
     name \<leftarrow> N type;
     Some (make_node_id (snprintf CSV_MAX_STRING_SIZE (name @ ''_SPACE'')) sid) }"

definition get_resource_id :: "type_namer \<Rightarrow> gpi_res_id_t \<Rightarrow> string option" where
  "get_resource_id N rid = do {
     name \<leftarrow> N (res_type rid);
     Some (make_node_id_2 name (res_space_id rid) (res_object_id rid)) }"

definition get_pd_id :: "gpi_obj_id_t \<Rightarrow> string" where
  "get_pd_id pid = make_node_id ''PD'' pid"

subsection \<open>Nodes and edges\<close>

text \<open>\<open>free_ptr\<close> and \<open>free_size\<close> are the memory; for \<open>Portable\<close> it is cleared.\<close>

definition init_model_state :: "model_mem \<Rightarrow> model_state_t" where
  "init_model_state mem = \<lparr>ms_nodes = [], ms_edges = [], ms_comps = [], ms_mem = mem\<rparr>"

definition clean_model_state :: "model_state_t \<Rightarrow> model_state_t" where
  "clean_model_state ms = ms\<lparr>ms_nodes := [], ms_edges := []\<rparr>"

definition get_node :: "model_state_t \<Rightarrow> string \<Rightarrow> nat option" where
  "get_node ms nid = List.find (\<lambda>a. map_option node_id (node_at ms a) = Some nid) (ms_nodes ms)"

definition find_edge :: "model_state_t \<Rightarrow> gpi_model_edge_key_t \<Rightarrow> nat option" where
  "find_edge ms k = List.find (\<lambda>a. edge_at ms a = Some k) (ms_edges ms)"

definition add_node ::
    "gpi_node_type_t \<Rightarrow> string \<Rightarrow> string option \<Rightarrow> bool \<Rightarrow> model_state_t \<Rightarrow> (nat \<times> model_state_t) option" where
  "add_node type nid data ex ms =
     (case get_node ms nid of
        Some a \<Rightarrow> Some (a, case data of None \<Rightarrow> ms
          | Some d \<Rightarrow> upd_node a (\<lambda>n. if node_data n = [] then n\<lparr>node_data := strncpy d CSV_MAX_STRING_SIZE\<rparr> else n) ms)
      | None \<Rightarrow> do {
          let a = length (ms_comps ms);
          c_assert (alloc_ok (ms_mem ms) a);
          c_assert (length nid < CSV_MAX_STRING_SIZE);
          Some (a, ms\<lparr>ms_comps := ms_comps ms @ [GPI_MODEL_NODE \<lparr>node_type = type, node_id = nid,
              node_data = (case data of None \<Rightarrow> [] | Some d \<Rightarrow> strncpy d CSV_MAX_STRING_SIZE), node_data2 = [], extracted = ex\<rparr>],
            ms_nodes := ms_nodes ms @ [a]\<rparr>) })"

definition set_node_extra :: "nat \<Rightarrow> string \<Rightarrow> model_state_t \<Rightarrow> model_state_t option" where
  "set_node_extra a extra ms = do {
     c_assert (length extra < CSV_MAX_STRING_SIZE);
     Some (upd_node a (\<lambda>n. n\<lparr>node_data2 := strncpy extra CSV_MAX_STRING_SIZE\<rparr>) ms) }"

definition internal_add_edge_by_id ::
    "gpi_edge_type_t \<Rightarrow> string \<Rightarrow> string \<Rightarrow> gpi_cap_t \<Rightarrow> model_state_t \<Rightarrow> model_state_t option" where
  "internal_add_edge_by_id type from_id to_id req ms = do {
     c_assert (length from_id < CSV_MAX_STRING_SIZE \<and> length to_id < CSV_MAX_STRING_SIZE);
     let k = \<lparr>edge_type = type, req_type = req, edge_from = from_id, edge_to = to_id\<rparr>;
     (case find_edge ms k of
        Some _ \<Rightarrow> Some ms
      | None \<Rightarrow> do {
          let a = length (ms_comps ms);
          c_assert (alloc_ok (ms_mem ms) a);
          Some (ms\<lparr>ms_comps := ms_comps ms @ [GPI_MODEL_EDGE k], ms_edges := ms_edges ms @ [a]\<rparr>) }) }"

definition add_edge_private :: "gpi_edge_type_t \<Rightarrow> nat \<Rightarrow> nat \<Rightarrow> gpi_cap_t \<Rightarrow> model_state_t \<Rightarrow> model_state_t option" where
  "add_edge_private type a b req ms = do {
     n \<leftarrow> node_at ms a;
     m \<leftarrow> node_at ms b;
     internal_add_edge_by_id type (node_id n) (node_id m) req ms }"

definition add_edge :: "gpi_edge_type_t \<Rightarrow> nat \<Rightarrow> nat \<Rightarrow> model_state_t \<Rightarrow> model_state_t option" where
  "add_edge type a b ms = add_edge_private type a b GPICAP_TYPE_NONE ms"

definition add_edge_by_id :: "gpi_edge_type_t \<Rightarrow> string \<Rightarrow> string \<Rightarrow> model_state_t \<Rightarrow> model_state_t option" where
  "add_edge_by_id type from_id to_id ms = internal_add_edge_by_id type from_id to_id GPICAP_TYPE_NONE ms"

definition add_request_edge :: "nat \<Rightarrow> nat \<Rightarrow> gpi_cap_t \<Rightarrow> model_state_t \<Rightarrow> model_state_t option" where
  "add_request_edge a b req ms = add_edge_private GPI_EDGE_TYPE_REQUEST a b req ms"

definition add_request_edge_by_id :: "string \<Rightarrow> string \<Rightarrow> gpi_cap_t \<Rightarrow> model_state_t \<Rightarrow> model_state_t option" where
  "add_request_edge_by_id from_id to_id req ms = internal_add_edge_by_id GPI_EDGE_TYPE_REQUEST from_id to_id req ms"

text \<open>The three kinds of nodes.\<close>

definition add_resource_node :: "type_namer \<Rightarrow> gpi_res_id_t \<Rightarrow> bool \<Rightarrow> model_state_t \<Rightarrow> (nat \<times> model_state_t) option" where
  "add_resource_node N rid ex ms = do {
     nid \<leftarrow> get_resource_id N rid;
     name \<leftarrow> N (res_type rid);
     add_node GPI_NODE_TYPE_RESOURCE nid (Some name) ex ms }"

definition get_resource_node :: "type_namer \<Rightarrow> gpi_res_id_t \<Rightarrow> model_state_t \<Rightarrow> nat option option" where
  "get_resource_node N rid ms = do { nid \<leftarrow> get_resource_id N rid; Some (get_node ms nid) }"

definition add_resource_space_node :: "type_namer \<Rightarrow> gpi_cap_t \<Rightarrow> gpi_space_id_t \<Rightarrow> bool \<Rightarrow> model_state_t \<Rightarrow> (nat \<times> model_state_t) option" where
  "add_resource_space_node N type sid ex ms = do {
     nid \<leftarrow> get_resource_space_id N type sid;
     name \<leftarrow> N type;
     add_node GPI_NODE_TYPE_SPACE nid (Some name) ex ms }"

definition get_resource_space_node :: "type_namer \<Rightarrow> gpi_cap_t \<Rightarrow> gpi_space_id_t \<Rightarrow> model_state_t \<Rightarrow> nat option option" where
  "get_resource_space_node N type sid ms = do { nid \<leftarrow> get_resource_space_id N type sid; Some (get_node ms nid) }"

definition add_pd_node :: "string option \<Rightarrow> gpi_obj_id_t \<Rightarrow> bool \<Rightarrow> model_state_t \<Rightarrow> (nat \<times> model_state_t) option" where
  "add_pd_node pdname pid ex ms = add_node GPI_NODE_TYPE_PD (get_pd_id pid) pdname ex ms"

definition get_pd_node :: "gpi_obj_id_t \<Rightarrow> model_state_t \<Rightarrow> nat option" where
  "get_pd_node pid ms = get_node ms (get_pd_id pid)"

definition get_root_node :: "model_state_t \<Rightarrow> (nat \<times> model_state_t) option" where
  "get_root_node ms = add_pd_node (Some ''ROOT_TASK'') 0 True ms"

subsection \<open>Combining and destroying\<close>

fun combine_item :: "gpi_model_state_component_t \<Rightarrow> model_state_t \<Rightarrow> model_state_t option" where
  "combine_item (GPI_MODEL_NODE n) ms = map_option snd (add_node (node_type n) (node_id n) (Some (data_text n)) True ms)"
| "combine_item (GPI_MODEL_EDGE k) ms = internal_add_edge_by_id (edge_type k) (edge_from k) (edge_to k) (req_type k) ms"

fun combine_items :: "gpi_model_state_component_t list \<Rightarrow> model_state_t \<Rightarrow> model_state_t option" where
  "combine_items [] ms = Some ms"
| "combine_items (c # cs) ms = do { ms \<leftarrow> combine_item c ms; combine_items cs ms }"

text \<open>A portable source is read from its memory, from the first component to the last; its tables are not used.\<close>

definition combine_model_states :: "model_state_t \<Rightarrow> model_state_t \<Rightarrow> model_state_t option" where
  "combine_model_states dest src = (case ms_mem src of
     Portable _ _ \<Rightarrow> combine_items (ms_comps src) dest
   | Heap _ \<Rightarrow> do {
       ns \<leftarrow> those (map (comp_at src) (ms_nodes src));
       es \<leftarrow> those (map (comp_at src) (ms_edges src));
       dest \<leftarrow> combine_items ns dest;
       combine_items es dest })"

text \<open>The addresses that are freed, in order; freeing a component of a portable state is a fault.\<close>

definition destroy_model_state :: "model_state_t \<Rightarrow> nat list option" where
  "destroy_model_state ms = (case ms_mem ms of
     Heap _ \<Rightarrow> Some (ms_nodes ms @ ms_edges ms)
   | Portable _ _ \<Rightarrow> if ms_nodes ms @ ms_edges ms = [] then Some [] else None)"

subsection \<open>Printing\<close>

fun edge_type_to_str :: "gpi_edge_type_t \<Rightarrow> string" where
  "edge_type_to_str GPI_EDGE_TYPE_HOLD = ''HOLD''"
| "edge_type_to_str GPI_EDGE_TYPE_MAP = ''MAP''"
| "edge_type_to_str GPI_EDGE_TYPE_SUBSET = ''SUBSET''"
| "edge_type_to_str GPI_EDGE_TYPE_REQUEST = ''REQUEST''"

fun node_type_to_str :: "gpi_node_type_t \<Rightarrow> string" where
  "node_type_to_str GPI_NODE_TYPE_PD = ''PD''"
| "node_type_to_str GPI_NODE_TYPE_RESOURCE = ''RESOURCE''"
| "node_type_to_str GPI_NODE_TYPE_SPACE = ''RESOURCE_SPACE''"

fun csv_line :: "string list \<Rightarrow> string" where
  "csv_line [] = [char_of (10::nat)]"
| "csv_line [x] = x @ [char_of (10::nat)]"
| "csv_line (x # xs) = x @ '','' @ csv_line xs"

definition csv_header :: string where
  "csv_header = csv_line [''NODE_TYPE'', ''NODE_ID'', ''DATA'', ''EDGE_TYPE'', ''EDGE_FROM'', ''EDGE_TO'', ''EXTRA'']"

definition node_line :: "gpi_model_node_t \<Rightarrow> string" where
  "node_line n = csv_line [node_type_to_str (node_type n), node_id n, data_text n, [], [], [], node_data2 n]"

definition edge_line :: "type_namer \<Rightarrow> gpi_model_edge_key_t \<Rightarrow> string option" where
  "edge_line N k = do {
     name \<leftarrow> N (req_type k);
     Some (csv_line [[], [], name, edge_type_to_str (edge_type k), edge_from k, edge_to k, []]) }"

definition model_lines :: "type_namer \<Rightarrow> model_state_t \<Rightarrow> string list option" where
  "model_lines N ms = do {
     ns \<leftarrow> those (map (node_at ms) (ms_nodes ms));
     es \<leftarrow> those (map (edge_at ms) (ms_edges ms));
     els \<leftarrow> those (map (edge_line N) es);
     Some (map node_line ns @ els) }"

definition print_model_state :: "type_namer \<Rightarrow> model_state_t \<Rightarrow> string list option" where
  "print_model_state N ms = do { ls \<leftarrow> model_lines N ms; Some (csv_header # ls) }"

text \<open>Export to a buffer of \<open>len\<close> bytes. The number of bytes written is asserted to stay below \<open>len\<close> after every line but the header.
  When the header alone does not fit, the rest of the buffer is computed as a huge number and the next line is written outside of it.\<close>

fun export_lines :: "nat \<Rightarrow> string \<Rightarrow> string list \<Rightarrow> string option" where
  "export_lines len buf [] = Some buf"
| "export_lines len buf (l # ls) = do {
     c_assert (length buf + length l < len);
     export_lines len (buf @ l) ls }"

definition export_model_state :: "type_namer \<Rightarrow> nat \<Rightarrow> model_state_t \<Rightarrow> string option" where
  "export_model_state N len ms = do {
     ls \<leftarrow> model_lines N ms;
     if ls = [] then Some (snprintf len csv_header) else export_lines len csv_header ls }"

end
