(* ===== verification/Server_State.thy ===== *)
theory Server_State
  imports Model_State
begin

section \<open>The state of the root task and its environment\<close>

text \<open>
  The data of the GPI server: the objects of the six components (the \<open>*_obj.h\<close> headers), their
  registries and the server context of \<open>gpi_server.h\<close>.

  Everything the sources call and do not contain (the seL4 system calls, vka, sel4utils) is the
  parameter \<open>env\<close>: a function from a call with its arguments and the state of the outside world to
  the results of the call and the new state of the world, and the constants that are set outside of
  the sources. Nothing is assumed of it here; a property that needs something states it.

  Conventions. A pointer to an object in a registry is the key of its entry; using one whose entry
  is gone is \<open>None\<close>, as is every dereference of NULL. A \<open>vka_object_t\<close> is its capability pointer. A
  \<open>vka_t\<close> is the allocator of the server or of a PD. A linked list is the list of its data in order
  (the refinement of theory Linked_List), \<open>None\<close> where the pointer is NULL.
\<close>

type_synonym cptr = u64

abbreviation seL4_CapNull :: cptr where "seL4_CapNull \<equiv> 0"

datatype vka = Server_Vka | Pd_Vka gpi_obj_id_t

type_synonym cspacepath_t = "vka \<times> cptr"

datatype cap_rights = seL4_AllRights | seL4_NoRead | seL4_CapRights_new bool bool

subsection \<open>Calls to the outside world\<close>

text \<open>Capability slots and copies.\<close>

datatype cap_call =
    Vka_cspace_alloc vka | Vka_cspace_free vka cptr
  | Vka_cnode_mint cspacepath_t cspacepath_t cap_rights u64
  | Vka_cnode_copy cspacepath_t cspacepath_t | Vka_cnode_move cspacepath_t cspacepath_t
  | Vka_cnode_revoke cspacepath_t | Vka_cnode_delete cspacepath_t
  | Bootstrap_create_allocman gpi_obj_id_t | Cspace_single_level_create gpi_obj_id_t cptr u64 u64 u64 u64
  | Allocman_attach_cspace gpi_obj_id_t | Allocman_make_vka gpi_obj_id_t

text \<open>Kernel objects.\<close>

datatype obj_call =
    Calloc
  | Vka_alloc_frame u64 | Vka_alloc_frame_at u64 u64 | Vka_object_paddr cptr
  | Vka_alloc_endpoint | Vka_alloc_notification | Vka_alloc_tcb | Vka_alloc_vcpu
  | Vka_alloc_cnode u64 | Vka_alloc_vspace_root | Vka_alloc_untyped u64
  | Vka_free_object cptr

text \<open>Virtual address spaces.\<close>

datatype vspace_call =
    Assign_asid_pool cptr cptr | ASIDControl_MakePool cptr cptr
  | Get_vspace cptr | Vspace_get_root u64 | Vspace_tear_down u64 | Vspace_get_cap u64 u64
  | Reserve_range_aligned u64 u64 u64 cap_rights bool
  | Reserve_range_at u64 u64 u64 cap_rights bool
  | Reservation_set_type u64 int | Free_reservation u64 u64
  | Map_pages u64 "cptr list" u64 u32 u64 u64 | Unmap_pages u64 u64 u32 u64
  | GetCapPaddr cptr

text \<open>Threads and virtual processors.\<close>

datatype cpu_call =
    TCB_Resume cptr | TCB_Suspend cptr | TCB_Configure cptr cptr cptr u64 cptr u64 cptr
  | TCB_SetPriority cptr int | TCB_BindNotification cptr cptr
  | TCB_WriteRegisters cptr bool u64 | TCB_ReadRegisters cptr
  | TCB_SetTLSBase cptr u64 | Init_context_tls_base gpi_obj_id_t u64

datatype vcpu_call =
    Init_context gpi_obj_id_t u64 u64 | Init_context_guest gpi_obj_id_t u64 u64
  | Set_arg1 gpi_obj_id_t u64
  | VCPU_SetTCB cptr cptr | VCPU_InjectIRQ cptr int int int int | VCPU_AckVPPI cptr u64
  | VCPU_ReadRegs cptr

text \<open>Messages, notifications and interrupts.\<close>

datatype ipc_call =
    Signal cptr | Send_error cptr | Send_reply cptr int | SaveCaller cptr
  | Rpc_recv gpi_cap_t | Rpc_reply gpi_cap_t | Reply
  | Copy_irq_cap int | IRQHandler_SetNotification cptr cptr | IRQHandler_Clear cptr
  | Mutex_lock | Mutex_unlock

datatype kcall = Cap cap_call | Obj obj_call | Vspace vspace_call | Cpu cpu_call
  | Vcpu vcpu_call | Ipc ipc_call | Console string

text \<open>A call gives an error code (0 for success) and at most two values.\<close>

record kret =
  err :: int
  val :: u64
  val2 :: u64

text \<open>The error codes of the RPC definitions; the other components use the same numbers.\<close>

definition PdComponentError_UNKNOWN :: int where "PdComponentError_UNKNOWN = 11"
definition PdComponentError_OPERATION_IN_PROGRESS :: int where "PdComponentError_OPERATION_IN_PROGRESS = 12"

abbreviation UNKNOWN_ERR :: int where "UNKNOWN_ERR \<equiv> PdComponentError_UNKNOWN"

definition PD_TERMINATED_CODE :: int where "PD_TERMINATED_CODE = 127"
definition MAX_NS_PER_RDE :: nat where "MAX_NS_PER_RDE = 8"
definition PD_CSPACE_SIZE_BITS :: u64 where "PD_CSPACE_SIZE_BITS = 17"
definition RESSPC_SPACE_ID :: gpi_space_id_t where "RESSPC_SPACE_ID = 1"

subsection \<open>Protection domains (pd\_obj.h, pd\_component.h)\<close>

record osmosis_rde_t =
  slot_in_RT :: cptr
  slot_in_PD :: cptr
  rde_type :: gpi_cap_t
  rde_space_id :: gpi_space_id_t

definition empty_rde :: osmosis_rde_t where
  "empty_rde = \<lparr>slot_in_RT = 0, slot_in_PD = 0, rde_type = 0, rde_space_id = 0\<rparr>"

record pd_hold_node_t = resource_registry_node_t +
  slot_in_PD_Debug :: cptr
  slot_in_RT_Debug :: cptr
  slot_in_ServerPD_Debug :: cptr
  res_id :: gpi_res_id_t

record pd_link_node_t = resource_registry_node_t +
  linked_pd_id :: gpi_obj_id_t

text \<open>The data a PD shares with the root task: its connections, the names of the types it knows and
  its resource directory, indexed by type and then by position.\<close>

record osm_pd_shared_data_t =
  pd_conn_id :: gpi_obj_id_t
  pd_conn_ep :: cptr
  ads_conn_id :: gpi_obj_id_t
  ads_conn_ep :: cptr
  cpu_conn_id :: gpi_obj_id_t
  cpu_conn_ep :: cptr
  fault_ep :: cptr
  cspace_root :: cptr
  type_names :: "string list"
  rde :: "osmosis_rde_t list list"
  rde_count :: u64
  reply_cap :: cptr

text \<open>\<open>shared_data\<close> is the address at which the root task has the shared data attached (0 is NULL)
  and \<open>shared\<close> what is stored there.\<close>

record pd_t =
  pd_id :: gpi_obj_id_t
  num_elf_phdrs :: nat
  pd_elf_phdrs :: "u64 list list"
  pagesz :: u64
  sysinfo :: u64
  cspace :: cptr
  notification :: cptr
  badged_notification :: cptr
  badged_irq_ntfn :: cptr
  bound_irq :: int
  pd_name :: "string option"
  pd_vka :: "vka option"
  hold_registry :: "pd_hold_node_t resource_registry_t"
  linked_registry :: "pd_link_node_t resource_registry_t"
  shared_data_mo_id :: gpi_obj_id_t
  shared_data :: u64
  shared :: osm_pd_shared_data_t
  shared_data_in_PD :: u64
  exit_code :: int
  deleting :: bool
  to_delete :: bool
  deletion_depth :: int

record pd_work_entry_t =
  work_res_id :: gpi_res_id_t
  client_pd_id :: gpi_obj_id_t
  is_critical :: bool

datatype PdWorkAction = EXTRACT | SEND | FREE | DESTROY

text \<open>The lists of pending work, one for each action.\<close>

record pd_component_registry_entry_t = resource_registry_node_t +
  pd :: pd_t
  pending_work :: "PdWorkAction \<Rightarrow> pd_work_entry_t list option"

subsection \<open>Memory objects, endpoints and processors (mo\_obj.h, endpoint\_component.h, cpu\_obj.h)\<close>

record mo_t =
  mo_obj_id :: gpi_obj_id_t
  frame_caps_in_root_task :: "cptr list"
  frame_paddrs :: "u64 list"
  vka_objects :: "cptr list option"
  num_pages :: u32
  mo_page_bits :: u64

record mo_component_registry_entry_t = resource_registry_node_t +
  mo :: mo_t

record ep_t =
  ep_id :: gpi_obj_id_t
  endpoint_in_RT :: cptr

record ep_component_registry_entry_t = resource_registry_node_t +
  ep :: ep_t

record cpu_t =
  cpu_id :: gpi_obj_id_t
  tcb :: cptr
  ipc_buf_addr :: u64
  ipc_buf_mo :: gpi_obj_id_t
  ipc_frame_cap :: cptr
  binded_ads_id :: gpi_obj_id_t
  tls_base :: u64
  cpu_cspace :: cptr
  cspace_guard :: u64
  cpu_fault_ep :: cptr
  vcpu :: cptr

record cpu_component_registry_entry_t = resource_registry_node_t +
  cpu :: cpu_t

subsection \<open>Address spaces (ads\_obj.h)\<close>

record attach_node_map_t = resource_registry_node_t +
  map_vaddr :: u64

text \<open>\<open>map_entry\<close> is the key of the map entry the C structure points to.\<close>

record attach_node_t = resource_registry_node_t +
  vaddr :: u64
  map_entry :: u64
  res :: u64
  vmr_type :: int
  n_pages :: u32
  page_bits :: u64
  cacheable :: bool
  rights :: cap_rights
  mo_attached :: bool
  mo_offset :: u64
  mo_id :: gpi_obj_id_t
  frame_caps :: "cptr list option"
  n_frames :: u32

record ads_t =
  ads_id :: gpi_obj_id_t
  vspace :: u64
  root_page_dir :: cptr
  attach_registry :: "attach_node_t resource_registry_t"
  attach_id_to_vaddr_map :: "attach_node_map_t resource_registry_t"

record ads_component_registry_entry_t = resource_registry_node_t +
  ads :: ads_t

subsection \<open>Resource spaces (resource\_space\_obj.h)\<close>

record res_space_t =
  space_id :: gpi_space_id_t
  resource_type :: gpi_cap_t
  space_server_ep :: cptr
  map_spaces :: "gpi_space_id_t list"
  space_pd_id :: gpi_obj_id_t
  space_to_delete :: bool
  cleanup_policy :: bool
  space_deleting :: bool
  space_deletion_depth :: int
  dont_notify :: bool

record resspc_component_registry_entry_t = resource_registry_node_t +
  space :: res_space_t

subsection \<open>The server (resource\_component\_utils.h, gpi\_server.h)\<close>

record 'n resource_component_context_t =
  comp_type :: gpi_cap_t
  comp_space_id :: gpi_space_id_t
  registry :: "'n resource_registry_t"
  pool :: cptr
  server_ep :: cptr

datatype ps_irq_t = PS_INTERRUPT int | PS_TRIGGER int | PS_OTHER_IRQ

record 'w gpi_server =
  world :: 'w
  ads_component :: "ads_component_registry_entry_t resource_component_context_t"
  mo_component :: "mo_component_registry_entry_t resource_component_context_t"
  cpu_component :: "cpu_component_registry_entry_t resource_component_context_t"
  pd_component :: "pd_component_registry_entry_t resource_component_context_t"
  resspc_component :: "resspc_component_registry_entry_t resource_component_context_t"
  ep_component :: "ep_component_registry_entry_t resource_component_context_t"
  resource_types :: type_registry
  rt_pd_id :: gpi_obj_id_t
  rt_ads_id :: gpi_obj_id_t
  pending_extraction :: bool
  model_state :: model_state_t
  model_extraction_reply :: cptr
  model_extraction_n_missing :: int
  starting_termination :: bool
  pending_termination :: bool
  pd_termination_reply :: cptr
  pd_termination_n_missing :: int
  pending_send_resource :: bool
  send_resource_reply :: cptr
  test_proc_id :: gpi_obj_id_t
  server_ep_obj :: cptr
  gen_irqs :: "(ps_irq_t \<times> cptr) list"

text \<open>The constants: \<open>GPI_CLEANUP_PD_DEPTH\<close> and \<open>GPI_CLEANUP_RS_DEPTH\<close> are set by the build, the
  reservation types, the page size and some error codes by sel4utils and the kernel. \<open>mo_contents\<close> is
  what the memory of a memory object holds when the root task attaches it as the shared data of a PD, and \<open>mo_model\<close> the components of the model state in it
  when a resource server sends it. \<open>node_calloc\<close> says which allocations of nodes and edges of a model state succeed, \<open>vmr_text\<close> is the text
  printed for a region (address, name of the type, pages, page size), \<open>cpu_affinity\<close> the core of a thread, and \<open>uninit_error\<close> the value of an
  \<open>int\<close> that is read before it is assigned.\<close>

record 'w env =
  sys :: "kcall \<Rightarrow> 'w \<Rightarrow> kret \<times> 'w"
  GPI_CLEANUP_PD_DEPTH :: int
  GPI_CLEANUP_RS_DEPTH :: int
  RES_TYPE_NONE :: int
  RES_TYPE_GENERIC :: int
  RES_TYPE_SHARED_FRAMES :: int
  RES_TYPE_DEVICE :: int
  RES_TYPE_MAX :: int
  seL4_PageBits :: u64
  PD_CAP_ROOT :: cptr
  OSM_PD_RUNTIME :: u64
  seL4_DeleteFirst :: int
  seL4_FailedLookup :: int
  SEL4_USER_CONTEXT_COUNT :: u64
  SEL4_VCPU_REG_COUNT :: u64
  api_make_guard_skip_word :: "u64 \<Rightarrow> u64"
  mo_contents :: "gpi_obj_id_t \<Rightarrow> 'w \<Rightarrow> osm_pd_shared_data_t"
  mo_model :: "gpi_obj_id_t \<Rightarrow> 'w \<Rightarrow> gpi_model_state_component_t list"
  node_calloc :: "nat \<Rightarrow> bool"
  vmr_text :: "u64 \<Rightarrow> int \<Rightarrow> u32 \<Rightarrow> u64 \<Rightarrow> string"
  cpu_affinity :: "cptr \<Rightarrow> u64"
  uninit_error :: int

text \<open>What a received message carries besides its RPC content.\<close>

record ipc =
  seL4_GetBadge :: "nat \<Rightarrow> u64"
  seL4_GetCap :: "nat \<Rightarrow> cptr"

definition kern :: "'w env \<Rightarrow> kcall \<Rightarrow> 'w gpi_server \<Rightarrow> kret \<times> 'w gpi_server" where
  "kern E c s = (let (r, w) = sys E c (world s) in (r, s\<lparr>world := w\<rparr>))"

text \<open>A call whose result the code ignores.\<close>

definition kern0 :: "'w env \<Rightarrow> kcall \<Rightarrow> 'w gpi_server \<Rightarrow> 'w gpi_server" where
  "kern0 E c s = snd (kern E c s)"

fun kern_seq :: "'w env \<Rightarrow> kcall list \<Rightarrow> 'w gpi_server \<Rightarrow> 'w gpi_server" where
  "kern_seq E [] s = s"
| "kern_seq E (c # cs) s = kern_seq E cs (kern0 E c s)"

subsection \<open>Zeroed memory and a concrete environment\<close>

text \<open>What \<open>calloc\<close> gives for a PD, and its shared data when the directory has been cleared.\<close>

definition blank_shared :: osm_pd_shared_data_t where
  "blank_shared = \<lparr>pd_conn_id = 0, pd_conn_ep = 0, ads_conn_id = 0, ads_conn_ep = 0, cpu_conn_id = 0,
     cpu_conn_ep = 0, fault_ep = 0, cspace_root = 0,
     type_names = replicate (unat GPICAP_TYPE_MAX) [],
     rde = replicate (unat GPICAP_TYPE_MAX) (replicate MAX_NS_PER_RDE empty_rde), rde_count = 0, reply_cap = 0\<rparr>"

definition blank_pd :: pd_component_registry_entry_t where
  "blank_pd = \<lparr>object_id = 0, count = 0, pd = \<lparr>pd_id = 0, num_elf_phdrs = 0, pd_elf_phdrs = [], pagesz = 0, sysinfo = 0, cspace = 0, notification = 0,
     badged_notification = 0, badged_irq_ntfn = 0, bound_irq = 0, pd_name = None, pd_vka = None,
     hold_registry = resource_registry_initialize 0, linked_registry = resource_registry_initialize 0,
     shared_data_mo_id = 0, shared_data = 0, shared = blank_shared, shared_data_in_PD = 0, exit_code = 0,
     deleting = False, to_delete = False, deletion_depth = 0\<rparr>, pending_work = (\<lambda>_. None)\<rparr>"

text \<open>An environment in which every call succeeds: the world is the list of the calls so far and a
  call returns its number. The properties are applied to it.\<close>

definition trace_env :: "kcall list env" where
  "trace_env = \<lparr>sys = (\<lambda>c w. (\<lparr>err = 0, val = of_nat (Suc (length w)), val2 = 0\<rparr>, w @ [c])),
     GPI_CLEANUP_PD_DEPTH = -1, GPI_CLEANUP_RS_DEPTH = -1, RES_TYPE_NONE = 0, RES_TYPE_GENERIC = 1,
     RES_TYPE_SHARED_FRAMES = 2, RES_TYPE_DEVICE = 3, RES_TYPE_MAX = 10, seL4_PageBits = 12,
     PD_CAP_ROOT = 1, OSM_PD_RUNTIME = 4096, seL4_DeleteFirst = 8, seL4_FailedLookup = 6,
     SEL4_USER_CONTEXT_COUNT = 36, SEL4_VCPU_REG_COUNT = 33, api_make_guard_skip_word = (\<lambda>x. x),
     mo_contents = (\<lambda>_ _. blank_shared), mo_model = (\<lambda>_ _. []), node_calloc = (\<lambda>_. True), vmr_text = (\<lambda>_ _ _ _. ''''),
     cpu_affinity = (\<lambda>_. 0), uninit_error = 0\<rparr>"

text \<open>A server after start-up, with the PD of the root task and the given PDs.\<close>

definition started_component :: "gpi_cap_t \<Rightarrow> gpi_space_id_t \<Rightarrow> 'n resource_component_context_t" where
  "started_component type sid = \<lparr>comp_type = type, comp_space_id = sid,
     registry = resource_registry_initialize 0xFFFFE, pool = 0, server_ep = 1\<rparr>"

definition pd_entry :: "gpi_obj_id_t \<Rightarrow> (pd_t \<Rightarrow> pd_t) \<Rightarrow> pd_component_registry_entry_t" where
  "pd_entry i f = \<lparr>object_id = ucast i, count = 1, pd = f ((pd blank_pd)\<lparr>pd_id := i, pd_vka := Some (Pd_Vka i),
     hold_registry := resource_registry_initialize (BADGE_MAX - 1),
     linked_registry := resource_registry_initialize (BADGE_MAX - 1), shared_data := 4096 * ucast i + 4096\<rparr>),
     pending_work = (\<lambda>_. Some [])\<rparr>"

definition server_with :: "pd_component_registry_entry_t list \<Rightarrow> kcall list gpi_server" where
  "server_with pds = \<lparr>world = [],
     ads_component = started_component GPICAP_TYPE_ADS 3, mo_component = started_component GPICAP_TYPE_MO 4,
     cpu_component = started_component GPICAP_TYPE_CPU 5,
     pd_component = (started_component GPICAP_TYPE_PD 2)\<lparr>registry :=
       (resource_registry_initialize 0xFFFFE)\<lparr>head := pd_entry 0 (\<lambda>p. p) # pds\<rparr>\<rparr>,
     resspc_component = started_component GPICAP_TYPE_RESSPC RESSPC_SPACE_ID,
     ep_component = started_component GPICAP_TYPE_EP 6,
     resource_types = resource_registry_initialize 0xFFFFE, rt_pd_id = 0, rt_ads_id = 1,
     pending_extraction = False, model_state = init_model_state (Heap (\<lambda>_. True)), model_extraction_reply = 0, model_extraction_n_missing = 0,
     starting_termination = False, pending_termination = False, pd_termination_reply = 0,
     pd_termination_n_missing = 0, pending_send_resource = False, send_resource_reply = 0,
     test_proc_id = 0, server_ep_obj = 1, gen_irqs = []\<rparr>"

lemma sys_trace_env [simp]:
  "sys trace_env c w = (\<lparr>err = 0, val = of_nat (Suc (length w)), val2 = 0\<rparr>, w @ [c])"
  by (simp add: trace_env_def)

text \<open>A sequence of calls only changes the world.\<close>

fun run_calls :: "'w env \<Rightarrow> kcall list \<Rightarrow> 'w \<Rightarrow> 'w" where
  "run_calls E [] w = w"
| "run_calls E (c # cs) w = run_calls E cs (snd (sys E c w))"

lemma kern_seq_world: "kern_seq E cs s = s\<lparr>world := run_calls E cs (world s)\<rparr>"
  by (induction E cs s rule: kern_seq.induct) (auto simp: kern0_def kern_def split: prod.split)

lemma run_calls_trace [simp]: "run_calls trace_env cs w = w @ cs"
  by (induction cs arbitrary: w) auto

end
