(* ===== verification/Resource_Component.thy ===== *)
theory Resource_Component
  imports Server_State
begin

section \<open>Resource components: lookups, references and capability transfer (resource\_component\_utils.c)\<close>

text \<open>
  What the components share: finding an object by its ID or by a badge, taking a reference, copying
  a capability into another capability space and minting the badged endpoint that stands for a
  resource. Giving a reference back and deleting an object run the component's own callback; they
  are in theory Destroy.
\<close>

subsection \<open>The registries of the components\<close>

type_synonym ('n, 'w) comp_get = "'w gpi_server \<Rightarrow> 'n resource_component_context_t"
type_synonym ('n, 'w) comp_upd =
  "('n resource_component_context_t \<Rightarrow> 'n resource_component_context_t) \<Rightarrow> 'w gpi_server \<Rightarrow> 'w gpi_server"

definition resource_component_registry_get_by_id ::
    "('a node, 'w) comp_get \<Rightarrow> gpi_obj_id_t \<Rightarrow> 'w gpi_server \<Rightarrow> 'a node option" where
  "resource_component_registry_get_by_id getc oid s =
     resource_registry_get_by_id (registry (getc s)) (ucast oid)"

definition resource_component_registry_get_by_badge ::
    "('a node, 'w) comp_get \<Rightarrow> u64 \<Rightarrow> 'w gpi_server \<Rightarrow> 'a node option" where
  "resource_component_registry_get_by_badge getc badge s =
     resource_registry_get_by_badge (registry (getc s)) badge"

abbreviation pd_component_registry_get_entry_by_id ::
    "gpi_obj_id_t \<Rightarrow> 'w gpi_server \<Rightarrow> pd_component_registry_entry_t option" where
  "pd_component_registry_get_entry_by_id \<equiv> resource_component_registry_get_by_id pd_component"

abbreviation pd_component_registry_get_entry_by_badge ::
    "u64 \<Rightarrow> 'w gpi_server \<Rightarrow> pd_component_registry_entry_t option" where
  "pd_component_registry_get_entry_by_badge \<equiv> resource_component_registry_get_by_badge pd_component"

abbreviation resource_space_get_entry_by_id ::
    "gpi_space_id_t \<Rightarrow> 'w gpi_server \<Rightarrow> resspc_component_registry_entry_t option" where
  "resource_space_get_entry_by_id \<equiv> resource_component_registry_get_by_id resspc_component"

text \<open>The registry of a component as a part of the state, in the form the registry operations
  expect, and writing through a pointer to an entry.\<close>

definition comp_reg :: "('n, 'w) comp_get \<Rightarrow> 'w gpi_server \<Rightarrow> 'n resource_registry_t" where
  "comp_reg getc s = registry (getc s)"

definition comp_set_reg ::
    "('n, 'w) comp_upd \<Rightarrow> 'n resource_registry_t \<Rightarrow> 'w gpi_server \<Rightarrow> 'w gpi_server" where
  "comp_set_reg upd r s = upd (\<lambda>c. c\<lparr>registry := r\<rparr>) s"

definition entry_update ::
    "('a node, 'w) comp_upd \<Rightarrow> ('a node \<Rightarrow> 'a node) \<Rightarrow> gpi_obj_id_t \<Rightarrow> 'w gpi_server \<Rightarrow> 'w gpi_server" where
  "entry_update upd f oid s =
     upd (\<lambda>c. c\<lparr>registry := (registry c)\<lparr>head := node_update f (head (registry c)) (ucast oid)\<rparr>\<rparr>) s"

text \<open>Writing to a PD through a pointer to it.\<close>

definition pd_write :: "gpi_obj_id_t \<Rightarrow> (pd_t \<Rightarrow> pd_t) \<Rightarrow> 'w gpi_server \<Rightarrow> 'w gpi_server" where
  "pd_write pid f s = entry_update pd_component_update (\<lambda>e. e\<lparr>pd := f (pd e)\<rparr>) pid s"

text \<open>Running an operation of \<open>pd_obj.c\<close> that only touches the PD it is given and the world.\<close>

definition on_pd ::
    "gpi_obj_id_t \<Rightarrow> (pd_t \<Rightarrow> 'w \<Rightarrow> ('r \<times> pd_t \<times> 'w) option) \<Rightarrow> 'w gpi_server \<Rightarrow> ('r \<times> 'w gpi_server) option"
  where
  "on_pd pid f s = do {
     e \<leftarrow> pd_component_registry_get_entry_by_id pid s;
     (r, p, w) \<leftarrow> f (pd e) (world s);
     Some (r, (pd_write pid (\<lambda>_. p) s)\<lparr>world := w\<rparr>) }"

subsection \<open>Initialization and references\<close>

definition resource_component_initialize ::
    "gpi_cap_t \<Rightarrow> gpi_space_id_t \<Rightarrow> cptr \<Rightarrow> 'n resource_component_context_t \<Rightarrow> 'n resource_component_context_t"
  where
  "resource_component_initialize type sid raw_ep c =
     (let max_obj_id = (if type = GPICAP_TYPE_RESSPC then ucast (BADGE_SPACE_ID_NULL - 1)
                        else ucast (BADGE_OBJ_ID_NULL - 1))
      in c\<lparr>comp_type := type, comp_space_id := sid, server_ep := raw_ep,
           registry := resource_registry_initialize max_obj_id\<rparr>)"

definition resource_component_inc ::
    "('a node, 'w) comp_get \<Rightarrow> ('a node, 'w) comp_upd \<Rightarrow> gpi_obj_id_t \<Rightarrow> 'w gpi_server \<Rightarrow>
     int \<times> 'w gpi_server" where
  "resource_component_inc getc upd oid s =
     (case resource_component_registry_get_by_id getc oid s of
        None \<Rightarrow> (1, s)
      | Some reg_entry \<Rightarrow>
          (0, comp_set_reg upd (resource_registry_inc (comp_reg getc s) (object_id reg_entry)) s))"

subsection \<open>Capabilities\<close>

text \<open>The second result is the slot of the destination path, 0 when none was allocated (the callers
  that read it after an error pass a zeroed path).\<close>

definition resource_component_transfer_cap ::
    "'w env \<Rightarrow> vka \<Rightarrow> vka option \<Rightarrow> cptr \<Rightarrow> bool \<Rightarrow> u64 \<Rightarrow> 'w \<Rightarrow> int \<times> cptr \<times> 'w" where
  "resource_component_transfer_cap E src_vka dst_vka src_cap mint badge w =
     (let dvka = (case dst_vka of Some v \<Rightarrow> v | None \<Rightarrow> src_vka);
          (r, w) = sys E (Cap (Vka_cspace_alloc dvka)) w
      in if err r \<noteq> 0 then (err r, seL4_CapNull, w)
         else
           (let dest = val r;
                (r, w) = sys E (Cap (if mint
                  then Vka_cnode_mint (dvka, dest) (src_vka, src_cap) seL4_NoRead badge
                  else Vka_cnode_copy (dvka, dest) (src_vka, src_cap))) w
            in (err r, dest, w)))"

definition resource_component_make_badged_ep ::
    "'w env \<Rightarrow> vka \<Rightarrow> vka option \<Rightarrow> cptr \<Rightarrow> gpi_cap_t \<Rightarrow> gpi_space_id_t \<Rightarrow> gpi_obj_id_t \<Rightarrow>
     gpi_obj_id_t \<Rightarrow> 'w \<Rightarrow> (cptr \<times> 'w) option" where
  "resource_component_make_badged_ep E src_vka dst_vka src_ep type sid oid client_id w = do {
     badge \<leftarrow> gpi_new_badge type 0 client_id sid oid;
     if badge = 0 then Some (seL4_CapNull, w)
     else (let (error, dest, w) = resource_component_transfer_cap E src_vka dst_vka src_ep True badge w
           in Some (dest, w)) }"

text \<open>The component that serves a type.\<close>

datatype component = Ads_Component | Mo_Component | Cpu_Component | Pd_Component | Ep_Component
  | Resspc_Component

definition resource_component_get_context_from_type :: "gpi_cap_t \<Rightarrow> component option" where
  "resource_component_get_context_from_type type =
     (if type = GPICAP_TYPE_ADS \<or> type = GPICAP_TYPE_VMR then Some Ads_Component
      else if type = GPICAP_TYPE_MO then Some Mo_Component
      else if type = GPICAP_TYPE_CPU \<or> type = GPICAP_TYPE_PCPU then Some Cpu_Component
      else if type = GPICAP_TYPE_PD then Some Pd_Component
      else if type = GPICAP_TYPE_EP then Some Ep_Component
      else if type = GPICAP_TYPE_RESSPC then Some Resspc_Component
      else None)"

text \<open>\<open>resource_component_inc\<close> on the component a pointer names.\<close>

definition component_inc :: "component \<Rightarrow> gpi_obj_id_t \<Rightarrow> 'w gpi_server \<Rightarrow> int \<times> 'w gpi_server" where
  "component_inc c = (case c of
       Ads_Component \<Rightarrow> resource_component_inc ads_component ads_component_update
     | Mo_Component \<Rightarrow> resource_component_inc mo_component mo_component_update
     | Cpu_Component \<Rightarrow> resource_component_inc cpu_component cpu_component_update
     | Pd_Component \<Rightarrow> resource_component_inc pd_component pd_component_update
     | Ep_Component \<Rightarrow> resource_component_inc ep_component ep_component_update
     | Resspc_Component \<Rightarrow> resource_component_inc resspc_component resspc_component_update)"

subsection \<open>Received capabilities (gpi\_rpc.c)\<close>

definition sel4gpi_rpc_check_cap :: "ipc \<Rightarrow> gpi_cap_t \<Rightarrow> bool" where
  "sel4gpi_rpc_check_cap m type =
     (if type = GPICAP_TYPE_NONE then seL4_GetCap m 0 \<noteq> 0
      else get_cap_type_from_badge (seL4_GetBadge m 0) = type)"

definition sel4gpi_rpc_check_caps_2 :: "ipc \<Rightarrow> gpi_cap_t \<Rightarrow> gpi_cap_t \<Rightarrow> bool" where
  "sel4gpi_rpc_check_caps_2 m type1 type2 \<longleftrightarrow>
     sel4gpi_rpc_check_cap m type1 \<and> get_cap_type_from_badge (seL4_GetBadge m 1) = type2"

definition sel4gpi_rpc_check_caps_3 :: "ipc \<Rightarrow> gpi_cap_t \<Rightarrow> gpi_cap_t \<Rightarrow> gpi_cap_t \<Rightarrow> bool" where
  "sel4gpi_rpc_check_caps_3 m type1 type2 type3 \<longleftrightarrow>
     sel4gpi_rpc_check_caps_2 m type1 type2 \<and> get_cap_type_from_badge (seL4_GetBadge m 2) = type3"

end
