(* ===== verification/Pd_Obj.thy ===== *)
theory Pd_Obj
  imports Resource_Component
begin

section \<open>Protection domain objects (pd\_obj.c)\<close>

text \<open>
  The operations of a PD object that touch only the PD and the outside world: the registry of the
  resources it holds, its resource directory (RDE table), the slots of its capability space, its
  links to other PDs and its interrupt. A PD is passed and returned as a value. The operations that
  reach other objects (releasing a held resource, sending a capability, destroying the PD) are in
  theories Release, Destroy, Pd_Destroy and Pd_Component. The properties of the hold registry are in
  theory Pd_Holds, those of the directory in theory Directory.
\<close>

subsection \<open>Held resources\<close>

definition pd_add_resource ::
    "'w env \<Rightarrow> gpi_res_id_t \<Rightarrow> cptr \<Rightarrow> cptr \<Rightarrow> cptr \<Rightarrow> pd_t \<Rightarrow> 'w \<Rightarrow> (int \<times> pd_t \<times> 'w) option" where
  "pd_add_resource E rid slot_RT slot_PD slot_serverPD p w = do {
     compact_id \<leftarrow> compact_res_id (res_type rid) (res_space_id rid) (res_object_id rid);
     case resource_registry_get_by_id (hold_registry p) compact_id of
       Some node \<Rightarrow> Some (0, p\<lparr>hold_registry := resource_registry_inc (hold_registry p) (object_id node)\<rparr>, w)
     | None \<Rightarrow>
         (let (r, w) = sys E (Obj Calloc) w in
          if val r = 0 then Some (UNKNOWN_ERR, p, w)
          else do {
            reg \<leftarrow> resource_registry_insert (hold_registry p)
              \<lparr>object_id = compact_id, count = 0, slot_in_PD_Debug = slot_PD, slot_in_RT_Debug = slot_RT,
               slot_in_ServerPD_Debug = slot_serverPD, res_id = rid\<rparr>;
            Some (0, p\<lparr>hold_registry := reg\<rparr>, w) }) }"

definition pd_get_resource :: "gpi_res_id_t \<Rightarrow> pd_t \<Rightarrow> pd_hold_node_t option option" where
  "pd_get_resource rid p = do {
     compact_id \<leftarrow> compact_res_id (res_type rid) (res_space_id rid) (res_object_id rid);
     Some (resource_registry_get_by_id (hold_registry p) compact_id) }"

text \<open>The result is the error code and the slot of the capability in the PD.\<close>

definition pd_badge_and_add_resource ::
    "'w env \<Rightarrow> gpi_res_id_t \<Rightarrow> cptr \<Rightarrow> pd_t \<Rightarrow> 'w \<Rightarrow> ((int \<times> cptr) \<times> pd_t \<times> 'w) option" where
  "pd_badge_and_add_resource E rid raw_ep p w = do {
     hold_node \<leftarrow> pd_get_resource rid p;
     case hold_node of
       Some n \<Rightarrow> do {
         (error, p, w) \<leftarrow> pd_add_resource E rid seL4_CapNull seL4_CapNull seL4_CapNull p w;
         Some ((error, slot_in_PD_Debug n), p, w) }
     | None \<Rightarrow> do {
         (dest, w) \<leftarrow> resource_component_make_badged_ep E Server_Vka (pd_vka p) raw_ep
            (res_type rid) (res_space_id rid) (res_object_id rid) (pd_id p) w;
         (error, p, w) \<leftarrow> pd_add_resource E rid seL4_CapNull dest seL4_CapNull p w;
         Some ((error, dest), p, w) } }"

definition pd_has_resources_in_space :: "pd_t \<Rightarrow> gpi_space_id_t \<Rightarrow> bool" where
  "pd_has_resources_in_space p sid \<longleftrightarrow>
     list_ex (\<lambda>n. res_space_id (res_id n) = sid) (head (hold_registry p))"

definition pd_get_resources_of_type :: "pd_t \<Rightarrow> gpi_cap_t \<Rightarrow> pd_hold_node_t list" where
  "pd_get_resources_of_type p type = filter (\<lambda>n. res_type (res_id n) = type) (head (hold_registry p))"

definition pd_find_hold_node_by_cptr :: "pd_t \<Rightarrow> cptr \<Rightarrow> pd_hold_node_t option" where
  "pd_find_hold_node_by_cptr p cap = List.find (\<lambda>n. slot_in_PD_Debug n = cap) (head (hold_registry p))"

subsection \<open>The resource directory\<close>

text \<open>\<open>rde[type]\<close>; an index past the end of the array is a fault.\<close>

definition rde_row :: "pd_t \<Rightarrow> gpi_cap_t \<Rightarrow> osmosis_rde_t list option" where
  "rde_row p type = do {
     c_assert (shared_data p \<noteq> 0);
     c_assert (unat type < length (rde (shared p)));
     Some (rde (shared p) ! unat type) }"

definition set_rde :: "gpi_cap_t \<Rightarrow> nat \<Rightarrow> (osmosis_rde_t \<Rightarrow> osmosis_rde_t) \<Rightarrow> pd_t \<Rightarrow> pd_t" where
  "set_rde type i f p =
     (let t = rde (shared p); row = t ! unat type
      in p\<lparr>shared := (shared p)\<lparr>rde := t[unat type := row[i := f (row ! i)]]\<rparr>\<rparr>)"

fun rde_scan :: "gpi_cap_t \<Rightarrow> gpi_space_id_t \<Rightarrow> nat \<Rightarrow> osmosis_rde_t list \<Rightarrow> nat option" where
  "rde_scan type sid i [] = None"
| "rde_scan type sid i (r # rs) =
     (if sid = BADGE_SPACE_ID_NULL \<and> rde_type r = type then Some i
      else if rde_space_id r = sid then Some i
      else rde_scan type sid (Suc i) rs)"

definition pd_rde_find_idx :: "pd_t \<Rightarrow> gpi_cap_t \<Rightarrow> gpi_space_id_t \<Rightarrow> nat option option" where
  "pd_rde_find_idx p type sid = do { row \<leftarrow> rde_row p type; Some (rde_scan type sid 0 row) }"

definition pd_rde_get :: "pd_t \<Rightarrow> gpi_cap_t \<Rightarrow> gpi_space_id_t \<Rightarrow> osmosis_rde_t option option" where
  "pd_rde_get p type sid = do {
     idx \<leftarrow> pd_rde_find_idx p type sid;
     case idx of None \<Rightarrow> Some None
     | Some i \<Rightarrow> do { row \<leftarrow> rde_row p type; Some (Some (row ! i)) } }"

definition pd_add_type_name :: "gpi_cap_t \<Rightarrow> string \<Rightarrow> pd_t \<Rightarrow> pd_t option" where
  "pd_add_type_name type tname p = do {
     c_assert (shared_data p \<noteq> 0);
     c_assert (unat type < length (type_names (shared p)));
     Some (p\<lparr>shared := (shared p)\<lparr>type_names := (type_names (shared p))
       [unat type := strncpy tname RESOURCE_TYPE_MAX_STRING_SIZE]\<rparr>\<rparr>) }"

fun rde_free_scan :: "gpi_cap_t \<Rightarrow> gpi_space_id_t \<Rightarrow> nat \<Rightarrow> osmosis_rde_t list \<Rightarrow> nat option" where
  "rde_free_scan type sid i [] = None"
| "rde_free_scan type sid i (r # rs) =
     (if rde_space_id r = sid \<and> rde_type r = type then None
      else if rde_type r = GPICAP_TYPE_NONE then Some i
      else rde_free_scan type sid (Suc i) rs)"

definition pd_add_rde ::
    "'w env \<Rightarrow> gpi_cap_t \<Rightarrow> string \<Rightarrow> gpi_space_id_t \<Rightarrow> cptr \<Rightarrow> pd_t \<Rightarrow> 'w \<Rightarrow> (int \<times> pd_t \<times> 'w) option" where
  "pd_add_rde E type tname sid raw_ep p w = do {
     row \<leftarrow> rde_row p type;
     case rde_free_scan type sid 0 row of
       None \<Rightarrow> Some (1, p, w)
     | Some idx \<Rightarrow> do {
         p \<leftarrow> pd_add_type_name type tname p;
         let p = set_rde type idx (\<lambda>r. r\<lparr>rde_space_id := sid, rde_type := type, slot_in_RT := raw_ep\<rparr>) p;
         v \<leftarrow> pd_vka p;
         let (r, w) = sys E (Cap (Vka_cspace_alloc v)) w;
         if err r \<noteq> 0 then Some (err r, p, w)
         else do {
           let dest = val r;
           badge_val \<leftarrow> gpi_new_badge type 0 (pd_id p) sid BADGE_OBJ_ID_NULL;
           let (r, w) = sys E (Cap (Vka_cnode_mint (v, dest) (Server_Vka, raw_ep) seL4_AllRights badge_val)) w;
           if err r \<noteq> 0 then Some (err r, p, w)
           else (let p = set_rde type idx (\<lambda>r. r\<lparr>slot_in_PD := dest\<rparr>) p
                 in Some (0, p\<lparr>shared := (shared p)\<lparr>rde_count := rde_count (shared p) + 1\<rparr>\<rparr>, w)) } } }"

definition pd_remove_rde_by_idx ::
    "'w env \<Rightarrow> gpi_cap_t \<Rightarrow> nat \<Rightarrow> pd_t \<Rightarrow> 'w \<Rightarrow> (int \<times> pd_t \<times> 'w) option" where
  "pd_remove_rde_by_idx E type idx p w = do {
     row \<leftarrow> rde_row p type;
     v \<leftarrow> pd_vka p;
     let rde_ep_path = (v, slot_in_PD (row ! idx));
     let (r, w) = sys E (Cap (Vka_cnode_revoke rde_ep_path)) w;
     if err r \<noteq> 0 then Some (err r, p, w)
     else do {
       let (r, w) = sys E (Cap (Vka_cnode_delete rde_ep_path)) w;
       if err r \<noteq> 0 then Some (err r, p, w)
       else (let p = set_rde type idx (\<lambda>r. r\<lparr>rde_space_id := BADGE_SPACE_ID_NULL,
                 rde_type := GPICAP_TYPE_NONE, slot_in_RT := seL4_CapNull, slot_in_PD := seL4_CapNull\<rparr>) p
             in Some (0, p\<lparr>shared := (shared p)\<lparr>rde_count := rde_count (shared p) - 1\<rparr>\<rparr>, w)) } }"

text \<open>The loop over the entries of a type: \<open>n\<close> entries from index \<open>i\<close> on are left. The results are
  the error that left the loop (0 if none) and whether an entry was found.\<close>

primrec pd_remove_rde_loop ::
    "'w env \<Rightarrow> gpi_cap_t \<Rightarrow> gpi_space_id_t \<Rightarrow> nat \<Rightarrow> nat \<Rightarrow> bool \<Rightarrow> pd_t \<Rightarrow> 'w \<Rightarrow>
     ((int \<times> bool) \<times> pd_t \<times> 'w) option" where
  "pd_remove_rde_loop E type sid 0 i found_entry p w = Some ((0, found_entry), p, w)"
| "pd_remove_rde_loop E type sid (Suc n) i found_entry p w = do {
     row \<leftarrow> rde_row p type;
     let r = row ! i;
     if rde_type r = type \<and> (rde_space_id r = sid \<or> sid = BADGE_SPACE_ID_NULL) then do {
       (error, p, w) \<leftarrow> pd_remove_rde_by_idx E type i p w;
       if error \<noteq> 0 then Some ((error, True), p, w)
       else if sid \<noteq> BADGE_SPACE_ID_NULL then Some ((0, True), p, w)
       else pd_remove_rde_loop E type sid n (Suc i) True p w }
     else pd_remove_rde_loop E type sid n (Suc i) found_entry p w }"

definition pd_remove_rde ::
    "'w env \<Rightarrow> gpi_cap_t \<Rightarrow> gpi_space_id_t \<Rightarrow> pd_t \<Rightarrow> 'w \<Rightarrow> (int \<times> pd_t \<times> 'w) option" where
  "pd_remove_rde E type sid p w =
     (if type = GPICAP_TYPE_NONE then Some (0, p, w)
      else do {
        c_assert (type > 0 \<and> type < GPICAP_TYPE_MAX);
        ((error, found_entry), p, w) \<leftarrow> pd_remove_rde_loop E type sid MAX_NS_PER_RDE 0 False p w;
        if error \<noteq> 0 then Some (error, p, w)
        else if \<not> found_entry then Some (1, p, w)
        else Some (0, p, w) })"

subsection \<open>Capability slots\<close>

definition pd_next_slot :: "'w env \<Rightarrow> pd_t \<Rightarrow> 'w \<Rightarrow> ((int \<times> cptr) \<times> pd_t \<times> 'w) option" where
  "pd_next_slot E p w = do {
     v \<leftarrow> pd_vka p;
     let (r, w) = sys E (Cap (Vka_cspace_alloc v)) w;
     Some ((err r, if err r = 0 then val r else seL4_CapNull), p, w) }"

definition pd_clear_slot :: "'w env \<Rightarrow> cptr \<Rightarrow> pd_t \<Rightarrow> 'w \<Rightarrow> (int \<times> pd_t \<times> 'w) option" where
  "pd_clear_slot E slot p w = do {
     v \<leftarrow> pd_vka p;
     let (r, w) = sys E (Cap (Vka_cnode_delete (v, slot))) w;
     Some (err r, p, w) }"

definition pd_free_slot :: "'w env \<Rightarrow> cptr \<Rightarrow> pd_t \<Rightarrow> 'w \<Rightarrow> (int \<times> pd_t \<times> 'w) option" where
  "pd_free_slot E slot p w = do {
     v \<leftarrow> pd_vka p;
     let (r, w) = sys E (Cap (Vka_cspace_free v slot)) w;
     Some (0, p, w) }"

subsection \<open>Construction\<close>

text \<open>Errors of the allocator functions are reported as -1; the calls themselves are sel4utils and
  allocman.\<close>

definition pd_bootstrap_allocator ::
    "'w env \<Rightarrow> cptr \<Rightarrow> u64 \<Rightarrow> u64 \<Rightarrow> u64 \<Rightarrow> u64 \<Rightarrow> pd_t \<Rightarrow> 'w \<Rightarrow> int \<times> pd_t \<times> 'w" where
  "pd_bootstrap_allocator E root start_slot end_slot size_bits guard_bits p w =
     (let (r, w) = sys E (Obj Calloc) w in
      if val r = 0 then (UNKNOWN_ERR, p, w)
      else
        (let (_, w) = sys E (Cap (Bootstrap_create_allocman (pd_id p))) w;
             (r, w) = sys E (Cap (Cspace_single_level_create (pd_id p) root size_bits guard_bits
                        start_slot end_slot)) w
         in if err r \<noteq> 0 then (-1, p, w)
            else
              (let (r, w) = sys E (Cap (Allocman_attach_cspace (pd_id p))) w
               in if err r \<noteq> 0 then (-1, p, w)
                  else
                    (let (r, w) = sys E (Obj Calloc) w
                     in if val r = 0 then (UNKNOWN_ERR, p, w)
                        else (let (_, w) = sys E (Cap (Allocman_make_vka (pd_id p))) w
                              in (0, p\<lparr>pd_vka := Some (Pd_Vka (pd_id p))\<rparr>, w))))))"

text \<open>The capability of the root CNode is minted into slot 1 of the new space, before the PD has an
  allocator; the path names that space by the allocator it will get.\<close>

definition pd_setup_cspace :: "'w env \<Rightarrow> pd_t \<Rightarrow> 'w \<Rightarrow> (int \<times> pd_t \<times> 'w) option" where
  "pd_setup_cspace E p w =
     (let cleanup = (\<lambda>p w. if cspace p \<noteq> 0 then snd (sys E (Obj (Vka_free_object (cspace p))) w) else w);
          (r, w) = sys E (Obj (Vka_alloc_cnode PD_CSPACE_SIZE_BITS)) w
      in if err r \<noteq> 0 then Some (1, p, cleanup p w)
         else do {
           let p = p\<lparr>cspace := val r\<rparr>;
           c_assert (shared_data p \<noteq> 0);
           let p = p\<lparr>shared := (shared p)\<lparr>cspace_root := PD_CAP_ROOT E\<rparr>\<rparr>;
           let (r, w) = sys E (Cap (Vka_cnode_mint (Pd_Vka (pd_id p), 1) (Server_Vka, cspace p)
                          seL4_AllRights (api_make_guard_skip_word E (64 - PD_CSPACE_SIZE_BITS)))) w;
           if err r \<noteq> 0 then Some (1, p, cleanup p w)
           else
             (let (error, p, w) = pd_bootstrap_allocator E (cspace p) 2 (2 ^ unat PD_CSPACE_SIZE_BITS)
                PD_CSPACE_SIZE_BITS 0 p w
              in if error \<noteq> 0 then Some (1, p, cleanup p w) else Some (0, p, w)) })"

definition pd_initialize_registries :: "pd_t \<Rightarrow> pd_t" where
  "pd_initialize_registries p =
     p\<lparr>hold_registry := resource_registry_initialize (BADGE_MAX - 1),
       linked_registry := resource_registry_initialize (BADGE_MAX - 1)\<rparr>"

definition pd_set_name :: "string \<Rightarrow> pd_t \<Rightarrow> pd_t" where
  "pd_set_name image_name p = p\<lparr>pd_name := Some image_name\<rparr>"

subsection \<open>Links between PDs\<close>

definition pd_add_linkage :: "'w env \<Rightarrow> gpi_obj_id_t \<Rightarrow> pd_t \<Rightarrow> 'w \<Rightarrow> (int \<times> pd_t \<times> 'w) option" where
  "pd_add_linkage E linked_id p w =
     (case resource_registry_get_by_id (linked_registry p) (ucast linked_id) of
        Some _ \<Rightarrow> Some (0, p, w)
      | None \<Rightarrow> do {
          let (r, w) = sys E (Obj Calloc) w;
          c_assert (val r \<noteq> 0);
          reg \<leftarrow> resource_registry_insert (linked_registry p)
            \<lparr>object_id = 0, count = 0, linked_pd_id = linked_id\<rparr>;
          Some (0, p\<lparr>linked_registry := reg\<rparr>, w) })"

end
