(* ===== verification/Hash_Iter.thy ===== *)
theory Hash_Iter
  imports Registry
begin

section \<open>Iterating over a table that changes (HASH\_ITER of uthash)\<close>

text \<open>
  \<open>HASH_ITER(hh, head, el, tmp)\<close> reads the successor of an element before it runs the body on that
  element. The body may delete the element, and in the sources it may also delete others. The model
  follows the pointers: a step goes to the successor that was saved, and it is a use of freed memory
  (\<open>None\<close>) if that element has been deleted in the meantime. No body of the sources inserts into the
  table it iterates over, so as many steps as the table has elements are enough.
\<close>

fun next_key :: "u64 \<Rightarrow> u64 list \<Rightarrow> u64 option" where
  "next_key k [] = None"
| "next_key k (x # xs) = (if x = k then (case xs of [] \<Rightarrow> None | y # _ \<Rightarrow> Some y) else next_key k xs)"

fun hash_iter ::
    "nat \<Rightarrow> ('s \<Rightarrow> u64 list) \<Rightarrow> (u64 \<Rightarrow> 's \<Rightarrow> 's option) \<Rightarrow> u64 option \<Rightarrow> 's \<Rightarrow> 's option" where
  "hash_iter n ks body None s = Some s"
| "hash_iter 0 ks body (Some k) s = None"
| "hash_iter (Suc n) ks body (Some k) s =
     (if k \<in> set (ks s) then
        (let tmp = next_key k (ks s) in do {
           s \<leftarrow> body k s;
           hash_iter n ks body tmp s })
      else None)"

definition HASH_ITER :: "('s \<Rightarrow> u64 list) \<Rightarrow> (u64 \<Rightarrow> 's \<Rightarrow> 's option) \<Rightarrow> 's \<Rightarrow> 's option" where
  "HASH_ITER ks body s = (case ks s of [] \<Rightarrow> Some s
     | k # _ \<Rightarrow> hash_iter (length (ks s)) ks body (Some k) s)"

text \<open>The loop whose body leaves every later element in place: it visits all of them, in order.
  \<open>iter_all\<close> is the plain recursion over the keys; the body may delete elements it has reached.\<close>

fun iter_all :: "(u64 \<Rightarrow> 's \<Rightarrow> 's option) \<Rightarrow> u64 list \<Rightarrow> 's \<Rightarrow> 's option" where
  "iter_all body [] s = Some s"
| "iter_all body (k # xs) s = do { s \<leftarrow> body k s; iter_all body xs s }"

lemma next_key_split:
  "k \<notin> set pre \<Longrightarrow> next_key k (pre @ k # xs) = (case xs of [] \<Rightarrow> None | y # _ \<Rightarrow> Some y)"
  by (induction pre) auto

lemma hash_iter_all:
  assumes inv: "\<And>k xs s s' pre. I s \<Longrightarrow> ks s = pre @ k # xs \<Longrightarrow> distinct (ks s) \<Longrightarrow> body k s = Some s' \<Longrightarrow>
      I s' \<and> distinct (ks s') \<and> (\<exists>pre'. ks s' = pre' @ xs)"
    and "I s" "distinct (ks s)" "ks s = pre @ xs" "length xs \<le> n"
  shows "hash_iter n ks body (case xs of [] \<Rightarrow> None | y # _ \<Rightarrow> Some y) s = iter_all body xs s"
  using assms(2-)
proof (induction xs arbitrary: n s pre)
  case (Cons k xs)
  then obtain m where n: "n = Suc m" "length xs \<le> m" by (cases n) auto
  have "k \<notin> set pre" using Cons.prems by auto
  then have nx: "next_key k (ks s) = (case xs of [] \<Rightarrow> None | y # _ \<Rightarrow> Some y)"
    using Cons.prems(3) next_key_split by metis
  show ?case
  proof (cases "body k s")
    case None
    then show ?thesis using n Cons.prems(3) by simp
  next
    case (Some s')
    then obtain pre' where s': "I s'" "distinct (ks s')" "ks s' = pre' @ xs"
      using inv [OF Cons.prems(1,3,2)] by blast
    then show ?thesis using Some n nx Cons.prems(3) Cons.IH [OF s' n(2)] by (simp add: Let_def)
  qed
qed simp

lemma HASH_ITER_all:
  assumes inv: "\<And>k xs s s' pre. I s \<Longrightarrow> ks s = pre @ k # xs \<Longrightarrow> distinct (ks s) \<Longrightarrow> body k s = Some s' \<Longrightarrow>
      I s' \<and> distinct (ks s') \<and> (\<exists>pre'. ks s' = pre' @ xs)"
    and "I s" "distinct (ks s)"
  shows "HASH_ITER ks body s = iter_all body (ks s) s"
proof (cases "ks s")
  case (Cons k xs)
  have "hash_iter (length (ks s)) ks body (case ks s of [] \<Rightarrow> None | y # _ \<Rightarrow> Some y) s
      = iter_all body (ks s) s"
    by (rule hash_iter_all [where I = I and pre = "[]"]) (use assms in auto)
  with Cons show ?thesis by (simp add: HASH_ITER_def)
qed (simp add: HASH_ITER_def)

end
