(* ===== verification/Release.thy ===== *)
theory Release
  imports Pd_Obj Hash_Iter
begin

section \<open>Releasing resources\<close>

text \<open>
  The clean-up code of the root task is one recursion through all components: releasing a held
  resource gives back a reference on an object; the last reference destroys the object, which
  removes it from PDs and releases what it refers to; destroying a PD releases everything it holds,
  marks the PDs and resource spaces that depend on it and sweeps them.

  The recursion is kept open: every function that can reach the callback of a hold registry
  (\<open>pd_held_resource_on_delete\<close>) takes that callback as its argument \<open>od\<close>. This theory has the part
  that only needs the callback: releasing held resources, memory objects, endpoints, regions of
  address spaces, and queueing work for resource servers. Theory Destroy has the rest and ties the
  knot.
\<close>

subsection \<open>Registries inside objects\<close>

definition pd_hold_get :: "gpi_obj_id_t \<Rightarrow> 'w gpi_server \<Rightarrow> pd_hold_node_t resource_registry_t" where
  "pd_hold_get pid s = (case pd_component_registry_get_entry_by_id pid s of
     Some e \<Rightarrow> hold_registry (pd e) | None \<Rightarrow> resource_registry_initialize 0)"

definition pd_hold_set :: "gpi_obj_id_t \<Rightarrow> pd_hold_node_t resource_registry_t \<Rightarrow> 'w gpi_server \<Rightarrow> 'w gpi_server"
  where "pd_hold_set pid r s = pd_write pid (\<lambda>p. p\<lparr>hold_registry := r\<rparr>) s"

definition pd_link_get :: "gpi_obj_id_t \<Rightarrow> 'w gpi_server \<Rightarrow> pd_link_node_t resource_registry_t" where
  "pd_link_get pid s = (case pd_component_registry_get_entry_by_id pid s of
     Some e \<Rightarrow> linked_registry (pd e) | None \<Rightarrow> resource_registry_initialize 0)"

definition pd_link_set :: "gpi_obj_id_t \<Rightarrow> pd_link_node_t resource_registry_t \<Rightarrow> 'w gpi_server \<Rightarrow> 'w gpi_server"
  where "pd_link_set pid r s = pd_write pid (\<lambda>p. p\<lparr>linked_registry := r\<rparr>) s"

definition ads_write :: "gpi_obj_id_t \<Rightarrow> (ads_t \<Rightarrow> ads_t) \<Rightarrow> 'w gpi_server \<Rightarrow> 'w gpi_server" where
  "ads_write aid f s = entry_update ads_component_update (\<lambda>e. e\<lparr>ads := f (ads e)\<rparr>) aid s"

definition attach_get :: "gpi_obj_id_t \<Rightarrow> 'w gpi_server \<Rightarrow> attach_node_t resource_registry_t" where
  "attach_get aid s = (case resource_component_registry_get_by_id ads_component aid s of
     Some e \<Rightarrow> attach_registry (ads e) | None \<Rightarrow> resource_registry_initialize 0)"

definition attach_set :: "gpi_obj_id_t \<Rightarrow> attach_node_t resource_registry_t \<Rightarrow> 'w gpi_server \<Rightarrow> 'w gpi_server"
  where "attach_set aid r s = ads_write aid (\<lambda>a. a\<lparr>attach_registry := r\<rparr>) s"

definition attach_map_get :: "gpi_obj_id_t \<Rightarrow> 'w gpi_server \<Rightarrow> attach_node_map_t resource_registry_t" where
  "attach_map_get aid s = (case resource_component_registry_get_by_id ads_component aid s of
     Some e \<Rightarrow> attach_id_to_vaddr_map (ads e) | None \<Rightarrow> resource_registry_initialize 0)"

definition attach_map_set :: "gpi_obj_id_t \<Rightarrow> attach_node_map_t resource_registry_t \<Rightarrow> 'w gpi_server \<Rightarrow> 'w gpi_server"
  where "attach_map_set aid r s = ads_write aid (\<lambda>a. a\<lparr>attach_id_to_vaddr_map := r\<rparr>) s"

definition space_write :: "gpi_space_id_t \<Rightarrow> (res_space_t \<Rightarrow> res_space_t) \<Rightarrow> 'w gpi_server \<Rightarrow> 'w gpi_server" where
  "space_write sid f s = entry_update resspc_component_update (\<lambda>e. e\<lparr>space := f (space e)\<rparr>) sid s"

text \<open>The PDs and the resource spaces, in the order of their registries.\<close>

definition pd_keys :: "'w gpi_server \<Rightarrow> u64 list" where
  "pd_keys s = keys (head (registry (pd_component s)))"

definition space_keys :: "'w gpi_server \<Rightarrow> u64 list" where
  "space_keys s = keys (head (registry (resspc_component s)))"

type_synonym 'w hold_cb = "gpi_obj_id_t \<Rightarrow> pd_hold_node_t \<Rightarrow> 'w gpi_server \<Rightarrow> 'w gpi_server option"

subsection \<open>Giving back references (resource\_component\_utils.c)\<close>

definition resource_component_dec ::
    "('a node, 'w) comp_get \<Rightarrow> ('a node, 'w) comp_upd \<Rightarrow> ('a node \<Rightarrow> 'w gpi_server \<Rightarrow> 'w gpi_server option) \<Rightarrow>
     gpi_obj_id_t \<Rightarrow> 'w gpi_server \<Rightarrow> (int \<times> 'w gpi_server) option" where
  "resource_component_dec getc upd cb oid s =
     (case resource_component_registry_get_by_id getc oid s of
        None \<Rightarrow> Some (1, s)
      | Some reg_entry \<Rightarrow> do {
          s \<leftarrow> resource_registry_dec (comp_reg getc) (comp_set_reg upd) (Some cb) reg_entry s;
          Some (0, s) })"

definition resource_component_delete ::
    "('a node, 'w) comp_get \<Rightarrow> ('a node, 'w) comp_upd \<Rightarrow> ('a node \<Rightarrow> 'w gpi_server \<Rightarrow> 'w gpi_server option) \<Rightarrow>
     gpi_obj_id_t \<Rightarrow> 'w gpi_server \<Rightarrow> (int \<times> 'w gpi_server) option" where
  "resource_component_delete getc upd cb oid s =
     (case resource_component_registry_get_by_id getc oid s of
        None \<Rightarrow> Some (1, s)
      | Some reg_entry \<Rightarrow> do {
          s \<leftarrow> resource_registry_delete (comp_reg getc) (comp_set_reg upd) (Some cb) reg_entry s;
          Some (0, s) })"

subsection \<open>Releasing held resources (pd\_obj.c)\<close>

definition pd_remove_resource ::
    "'w hold_cb \<Rightarrow> gpi_obj_id_t \<Rightarrow> gpi_res_id_t \<Rightarrow> 'w gpi_server \<Rightarrow> (int \<times> 'w gpi_server) option" where
  "pd_remove_resource od pid rid s = do {
     res_node_id \<leftarrow> compact_res_id (res_type rid) (res_space_id rid) (res_object_id rid);
     case resource_registry_get_by_id (pd_hold_get pid s) res_node_id of
       None \<Rightarrow> Some (0, s)
     | Some node \<Rightarrow> do {
         s \<leftarrow> resource_registry_dec (pd_hold_get pid) (pd_hold_set pid) (Some (od pid)) node s;
         Some (0, s) } }"

definition pd_delete_resource ::
    "'w hold_cb \<Rightarrow> gpi_obj_id_t \<Rightarrow> gpi_res_id_t \<Rightarrow> 'w gpi_server \<Rightarrow> (int \<times> 'w gpi_server) option" where
  "pd_delete_resource od pid rid s = do {
     res_node_id \<leftarrow> compact_res_id (res_type rid) (res_space_id rid) (res_object_id rid);
     case resource_registry_get_by_id (pd_hold_get pid s) res_node_id of
       None \<Rightarrow> Some (0, s)
     | Some node \<Rightarrow> do {
         s \<leftarrow> resource_registry_delete (pd_hold_get pid) (pd_hold_set pid) (Some (od pid)) node s;
         Some (0, s) } }"

definition hold_keys :: "gpi_obj_id_t \<Rightarrow> 'w gpi_server \<Rightarrow> u64 list" where
  "hold_keys pid s = keys (head (pd_hold_get pid s))"

definition pd_remove_resources_in_space ::
    "'w hold_cb \<Rightarrow> gpi_obj_id_t \<Rightarrow> gpi_space_id_t \<Rightarrow> 'w gpi_server \<Rightarrow> (int \<times> 'w gpi_server) option" where
  "pd_remove_resources_in_space od pid sid s = do {
     s \<leftarrow> HASH_ITER (hold_keys pid)
       (\<lambda>k s. do {
          curr \<leftarrow> resource_registry_get_by_id (pd_hold_get pid s) k;
          if res_space_id (res_id curr) = sid
          then resource_registry_delete (pd_hold_get pid) (pd_hold_set pid) (Some (od pid)) curr s
          else Some s }) s;
     Some (0, s) }"

subsection \<open>Removal from the root task\<close>

definition pd_component_remove_resource_from_rt ::
    "'w hold_cb \<Rightarrow> gpi_res_id_t \<Rightarrow> 'w gpi_server \<Rightarrow> (int \<times> 'w gpi_server) option" where
  "pd_component_remove_resource_from_rt od rid s =
     (case pd_component_registry_get_entry_by_id (rt_pd_id s) s of
        None \<Rightarrow> Some (UNKNOWN_ERR, s)
      | Some _ \<Rightarrow> pd_delete_resource od (rt_pd_id s) rid s)"

definition resource_component_remove_from_rt ::
    "'w hold_cb \<Rightarrow> ('n, 'w) comp_get \<Rightarrow> gpi_obj_id_t \<Rightarrow> 'w gpi_server \<Rightarrow> 'w gpi_server option" where
  "resource_component_remove_from_rt od getc oid s = do {
     (error, s) \<leftarrow> pd_component_remove_resource_from_rt od
       (make_res_id (comp_type (getc s)) (comp_space_id (getc s)) oid) s;
     Some s }"

subsection \<open>Memory objects and endpoints (mo\_obj.c, mo\_component.c, endpoint\_component.c)\<close>

definition mo_destroy :: "'w env \<Rightarrow> mo_t \<Rightarrow> 'w gpi_server \<Rightarrow> 'w gpi_server option" where
  "mo_destroy E m s = (case vka_objects m of
       None \<Rightarrow> Some s
     | Some objs \<Rightarrow> do {
         c_assert (unat (num_pages m) \<le> length objs);
         Some (kern_seq E (map (\<lambda>i. Obj (Vka_free_object (objs ! i))) [0..<unat (num_pages m)]) s) })"

definition on_mo_registry_delete ::
    "'w env \<Rightarrow> 'w hold_cb \<Rightarrow> mo_component_registry_entry_t \<Rightarrow> 'w gpi_server \<Rightarrow> 'w gpi_server option" where
  "on_mo_registry_delete E od node s = do {
     s \<leftarrow> resource_component_remove_from_rt od mo_component (mo_obj_id (mo node)) s;
     mo_destroy E (mo node) s }"

definition mo_dec :: "'w env \<Rightarrow> 'w hold_cb \<Rightarrow> gpi_obj_id_t \<Rightarrow> 'w gpi_server \<Rightarrow> (int \<times> 'w gpi_server) option" where
  "mo_dec E od = resource_component_dec mo_component mo_component_update (on_mo_registry_delete E od)"

definition ep_destroy :: "'w env \<Rightarrow> ep_t \<Rightarrow> 'w gpi_server \<Rightarrow> 'w gpi_server" where
  "ep_destroy E e s =
     kern0 E (Obj (Vka_free_object (endpoint_in_RT e)))
       (kern0 E (Cap (Vka_cnode_revoke (Server_Vka, endpoint_in_RT e))) s)"

definition on_ep_registry_delete ::
    "'w env \<Rightarrow> 'w hold_cb \<Rightarrow> ep_component_registry_entry_t \<Rightarrow> 'w gpi_server \<Rightarrow> 'w gpi_server option" where
  "on_ep_registry_delete E od node s = do {
     s \<leftarrow> resource_component_remove_from_rt od ep_component (ep_id (ep node)) s;
     Some (ep_destroy E (ep node) s) }"

definition ep_dec :: "'w env \<Rightarrow> 'w hold_cb \<Rightarrow> gpi_obj_id_t \<Rightarrow> 'w gpi_server \<Rightarrow> (int \<times> 'w gpi_server) option" where
  "ep_dec E od = resource_component_dec ep_component ep_component_update (on_ep_registry_delete E od)"

subsection \<open>Work for resource servers (pd\_component.c)\<close>

text \<open>\<open>linked_list_insert\<close> does nothing on a NULL list.\<close>

definition queue_work :: "PdWorkAction \<Rightarrow> gpi_obj_id_t \<Rightarrow> pd_work_entry_t \<Rightarrow> 'w gpi_server \<Rightarrow> 'w gpi_server" where
  "queue_work a pid work s =
     entry_update pd_component_update
       (\<lambda>e. e\<lparr>pending_work := (pending_work e)(a := map_option (\<lambda>xs. xs @ [work]) (pending_work e a))\<rparr>) pid s"

definition notify_pd :: "'w env \<Rightarrow> gpi_obj_id_t \<Rightarrow> 'w gpi_server \<Rightarrow> 'w gpi_server option" where
  "notify_pd E pid s = do {
     e \<leftarrow> pd_component_registry_get_entry_by_id pid s;
     Some (kern0 E (Ipc (Signal (badged_notification (pd e)))) s) }"

definition pd_component_queue_model_extraction_work ::
    "'w env \<Rightarrow> gpi_obj_id_t \<Rightarrow> pd_work_entry_t \<Rightarrow> 'w gpi_server \<Rightarrow> 'w gpi_server option" where
  "pd_component_queue_model_extraction_work E pid work s =
     notify_pd E pid ((queue_work EXTRACT pid work s)
       \<lparr>model_extraction_n_missing := model_extraction_n_missing s + 1\<rparr>)"

definition pd_component_queue_destroy_work ::
    "'w env \<Rightarrow> gpi_obj_id_t \<Rightarrow> pd_work_entry_t \<Rightarrow> 'w gpi_server \<Rightarrow> 'w gpi_server option" where
  "pd_component_queue_destroy_work E pid work s =
     (let (work, s) = (if starting_termination s
          then (work\<lparr>is_critical := True\<rparr>, s\<lparr>pd_termination_n_missing := pd_termination_n_missing s + 1\<rparr>)
          else (work\<lparr>is_critical := False\<rparr>, s))
      in notify_pd E pid (queue_work DESTROY pid work s))"

definition pd_component_queue_free_work ::
    "'w env \<Rightarrow> gpi_obj_id_t \<Rightarrow> pd_work_entry_t \<Rightarrow> 'w gpi_server \<Rightarrow> 'w gpi_server option" where
  "pd_component_queue_free_work E pid work s =
     (let (work, s) = (if starting_termination s
          then (work\<lparr>is_critical := True\<rparr>, s\<lparr>pd_termination_n_missing := pd_termination_n_missing s + 1\<rparr>)
          else (work\<lparr>is_critical := False\<rparr>, s))
      in notify_pd E pid (queue_work FREE pid work s))"

definition pd_component_queue_notify_send_work ::
    "'w env \<Rightarrow> gpi_obj_id_t \<Rightarrow> pd_work_entry_t \<Rightarrow> 'w gpi_server \<Rightarrow> 'w gpi_server option" where
  "pd_component_queue_notify_send_work E pid work s = notify_pd E pid (queue_work SEND pid work s)"

subsection \<open>Address spaces (ads\_obj.c, ads\_component.c)\<close>

definition ads_get_res_by_vaddr :: "ads_t \<Rightarrow> u64 \<Rightarrow> attach_node_t option" where
  "ads_get_res_by_vaddr a va = resource_registry_get_by_id (attach_registry a) va"

definition ads_get_res_by_id :: "ads_t \<Rightarrow> gpi_obj_id_t \<Rightarrow> attach_node_t option" where
  "ads_get_res_by_id a oid =
     (case resource_registry_get_by_id (attach_id_to_vaddr_map a) (ucast oid) of
        None \<Rightarrow> None
      | Some m \<Rightarrow> ads_get_res_by_vaddr a (map_vaddr m))"

definition on_attach_registry_delete ::
    "'w env \<Rightarrow> 'w hold_cb \<Rightarrow> gpi_obj_id_t \<Rightarrow> attach_node_t \<Rightarrow> 'w gpi_server \<Rightarrow> 'w gpi_server option" where
  "on_attach_registry_delete E od aid node s = do {
     e \<leftarrow> resource_component_registry_get_by_id ads_component aid s;
     let vs = vspace (ads e);
     let s = kern0 E (Vspace (Free_reservation vs (res node))) s;
     s \<leftarrow> (if mo_attached node then do {
         let s = kern0 E (Vspace (Unmap_pages vs (vaddr node + mo_offset node) (n_frames node) (page_bits node))) s;
         s \<leftarrow> (case frame_caps node of
             None \<Rightarrow> Some s
           | Some caps \<Rightarrow> do {
               c_assert (unat (n_frames node) \<le> length caps);
               Some (kern_seq E (concat (map (\<lambda>i. [Cap (Vka_cnode_delete (Server_Vka, caps ! i)),
                 Cap (Vka_cspace_free Server_Vka (caps ! i))]) [0..<unat (n_frames node)])) s) });
         (error, s) \<leftarrow> mo_dec E od (mo_id node) s;
         Some s }
       else Some s);
     m \<leftarrow> resource_registry_get_by_id (attach_map_get aid s) (map_entry node);
     resource_registry_delete (attach_map_get aid) (attach_map_set aid) None m s }"

definition attach_delete ::
    "'w env \<Rightarrow> 'w hold_cb \<Rightarrow> gpi_obj_id_t \<Rightarrow> attach_node_t \<Rightarrow> 'w gpi_server \<Rightarrow> 'w gpi_server option" where
  "attach_delete E od aid node s =
     resource_registry_delete (attach_get aid) (attach_set aid) (Some (on_attach_registry_delete E od aid)) node s"

definition ads_rm ::
    "'w env \<Rightarrow> 'w hold_cb \<Rightarrow> gpi_obj_id_t \<Rightarrow> u64 \<Rightarrow> 'w gpi_server \<Rightarrow> (int \<times> 'w gpi_server) option" where
  "ads_rm E od aid va s = do {
     c_assert (va \<noteq> 0);
     case resource_registry_get_by_id (attach_get aid s) va of
       None \<Rightarrow> Some (1, s)
     | Some node \<Rightarrow> do { s \<leftarrow> attach_delete E od aid node s; Some (0, s) } }"

text \<open>The check after the lookup of the VMR tests the ADS entry again, so a VMR that does not exist
  is a NULL pointer that is dereferenced.\<close>

definition ads_component_rm_by_id ::
    "'w env \<Rightarrow> 'w hold_cb \<Rightarrow> gpi_obj_id_t \<Rightarrow> gpi_obj_id_t \<Rightarrow> 'w gpi_server \<Rightarrow> (int \<times> 'w gpi_server) option" where
  "ads_component_rm_by_id E od aid vmr_id s =
     (case resource_component_registry_get_by_id ads_component aid s of
        None \<Rightarrow> Some (UNKNOWN_ERR, s)
      | Some ads_entry \<Rightarrow> do {
          attach_node \<leftarrow> ads_get_res_by_id (ads ads_entry) vmr_id;
          ads_rm E od aid (vaddr attach_node) s })"

definition ads_component_rm_by_vaddr ::
    "'w env \<Rightarrow> 'w hold_cb \<Rightarrow> gpi_obj_id_t \<Rightarrow> u64 \<Rightarrow> 'w gpi_server \<Rightarrow> (int \<times> 'w gpi_server) option" where
  "ads_component_rm_by_vaddr E od aid va s =
     (case resource_component_registry_get_by_id ads_component aid s of
        None \<Rightarrow> Some (UNKNOWN_ERR, s)
      | Some ads_entry \<Rightarrow> ads_rm E od aid va s)"

definition ads_component_remove_from_rt ::
    "'w env \<Rightarrow> 'w hold_cb \<Rightarrow> u64 \<Rightarrow> 'w gpi_server \<Rightarrow> (int \<times> 'w gpi_server) option" where
  "ads_component_remove_from_rt E od va s = ads_component_rm_by_vaddr E od (rt_ads_id s) va s"

definition attach_keys :: "gpi_obj_id_t \<Rightarrow> 'w gpi_server \<Rightarrow> u64 list" where
  "attach_keys aid s = keys (head (attach_get aid s))"

definition ads_destroy :: "'w env \<Rightarrow> 'w hold_cb \<Rightarrow> gpi_obj_id_t \<Rightarrow> 'w gpi_server \<Rightarrow> 'w gpi_server option" where
  "ads_destroy E od aid s = do {
     s \<leftarrow> HASH_ITER (attach_keys aid)
       (\<lambda>k s. do { node \<leftarrow> resource_registry_get_by_id (attach_get aid s) k; attach_delete E od aid node s }) s;
     e \<leftarrow> resource_component_registry_get_by_id ads_component aid s;
     Some (kern_seq E [Vspace (Vspace_tear_down (vspace (ads e))), Obj (Vka_free_object (root_page_dir (ads e)))] s) }"

end
