(* ===== verification/Destroy.thy ===== *)
theory Destroy
  imports Release
begin

section \<open>Destroying objects: resource spaces, processors, address spaces and PDs\<close>

text \<open>
  The second half of the clean-up code and the knots of its three recursions, each with a bound on
  its depth: the callback of the hold registries (\<open>pd_held_resource_on_delete\<close>), the marking of linked
  PDs (\<open>pd_mark_linked_for_deletion\<close>) and the destruction of PDs (\<open>on_pd_registry_delete\<close>, which sweeps
  the PDs that were marked). Running out of the bound is \<open>None\<close>.
\<close>

subsection \<open>Resource spaces (resource\_space\_component.c)\<close>

definition resspc_component_mark_delete ::
    "gpi_space_id_t \<Rightarrow> bool \<Rightarrow> 'w gpi_server \<Rightarrow> int \<times> 'w gpi_server" where
  "resspc_component_mark_delete sid execute_cleanup_policy s =
     (case resource_space_get_entry_by_id sid s of
        None \<Rightarrow> (UNKNOWN_ERR, s)
      | Some _ \<Rightarrow> (0, space_write sid (\<lambda>x. x\<lparr>space_to_delete := True, cleanup_policy := execute_cleanup_policy\<rparr>) s))"

text \<open>The list holds pointers to the spaces that are mapped to.\<close>

fun maps_contain :: "gpi_space_id_t list \<Rightarrow> gpi_space_id_t \<Rightarrow> 'w gpi_server \<Rightarrow> bool option" where
  "maps_contain [] dest s = Some False"
| "maps_contain (x # xs) dest s = do {
     e \<leftarrow> resource_space_get_entry_by_id x s;
     if space_id (space e) = dest then Some True else maps_contain xs dest s }"

definition resspc_check_map :: "gpi_space_id_t \<Rightarrow> gpi_space_id_t \<Rightarrow> 'w gpi_server \<Rightarrow> bool option" where
  "resspc_check_map src dest s =
     (case resource_space_get_entry_by_id src s of
        None \<Rightarrow> Some False
      | Some e \<Rightarrow> maps_contain (map_spaces (space e)) dest s)"

definition resspc_component_space_cleanup ::
    "'w env \<Rightarrow> res_space_t \<Rightarrow> 'w gpi_server \<Rightarrow> (int \<times> 'w gpi_server) option" where
  "resspc_component_space_cleanup E node s =
     (let depth = space_deletion_depth node in
      if GPI_CLEANUP_RS_DEPTH E \<noteq> -1 \<and> depth \<ge> GPI_CLEANUP_RS_DEPTH E then Some (0, s)
      else do {
        s \<leftarrow> HASH_ITER space_keys
          (\<lambda>k s. do {
             e \<leftarrow> resource_space_get_entry_by_id (ucast k) s;
             if map_spaces (space e) = [] \<or> space_to_delete (space e) then Some s
             else if GPI_CLEANUP_RS_DEPTH E = -1 \<or> depth + 1 \<le> GPI_CLEANUP_RS_DEPTH E then do {
               maps \<leftarrow> resspc_check_map (space_id (space e)) (space_id node) s;
               if maps
               then Some (space_write (ucast k) (\<lambda>x. x\<lparr>space_deletion_depth := depth + 1,
                      space_to_delete := True, cleanup_policy := True\<rparr>) s)
               else Some s }
             else Some s }) s;
        Some (0, s) })"

subsection \<open>Cleaning up PDs (pd\_component.c)\<close>

text \<open>\<open>pd_remove_resource\<close> and \<open>pd_remove_resources_in_space\<close> always return 0, so the loops have no
  early exit.\<close>

definition pd_component_resource_cleanup ::
    "'w hold_cb \<Rightarrow> gpi_res_id_t \<Rightarrow> 'w gpi_server \<Rightarrow> (int \<times> 'w gpi_server) option" where
  "pd_component_resource_cleanup od rid s = do {
     s \<leftarrow> HASH_ITER pd_keys
       (\<lambda>k s. do {
          e \<leftarrow> pd_component_registry_get_entry_by_id (ucast k) s;
          if pd_id (pd e) = rt_pd_id s \<or> to_delete (pd e) then Some s
          else do { (error, s) \<leftarrow> pd_remove_resource od (ucast k) rid s; Some s } }) s;
     Some (0, s) }"

text \<open>The first part of \<open>pd_component_space_cleanup\<close>: the manager of the space loses the space and is
  told about it. The boolean says that the function goes on.\<close>

definition space_cleanup_manager ::
    "'w env \<Rightarrow> 'w hold_cb \<Rightarrow> gpi_obj_id_t \<Rightarrow> gpi_cap_t \<Rightarrow> gpi_space_id_t \<Rightarrow> bool \<Rightarrow> 'w gpi_server \<Rightarrow>
     (bool \<times> 'w gpi_server) option" where
  "space_cleanup_manager E od mid type sid dn s = do {
     m \<leftarrow> pd_component_registry_get_entry_by_id mid s;
     if to_delete (pd m) then Some (True, s)
     else do {
       (error, s) \<leftarrow> pd_remove_resource od mid
         (make_res_id GPICAP_TYPE_RESSPC (comp_space_id (resspc_component s)) sid) s;
       if \<not> dn \<and> pd_id (pd m) \<noteq> rt_pd_id s then
         (let (r, s) = kern E (Obj Calloc) s in
          if val r = 0 then Some (False, s)
          else do {
            s \<leftarrow> pd_component_queue_destroy_work E mid
              \<lparr>work_res_id = make_res_id type sid BADGE_OBJ_ID_NULL, client_pd_id = 0, is_critical = False\<rparr> s;
            Some (True, s) })
       else Some (True, s) } }"

text \<open>The second part: the policy marks the PDs that depend on the space.\<close>

definition space_cleanup_policy ::
    "'w env \<Rightarrow> int \<Rightarrow> gpi_cap_t \<Rightarrow> gpi_space_id_t \<Rightarrow> 'w gpi_server \<Rightarrow> 'w gpi_server option" where
  "space_cleanup_policy E depth type sid s =
     HASH_ITER pd_keys
       (\<lambda>k s. do {
          e \<leftarrow> pd_component_registry_get_entry_by_id (ucast k) s;
          let p = pd e;
          if pd_id p = rt_pd_id s \<or> to_delete p then Some s
          else if GPI_CLEANUP_PD_DEPTH E = -1 \<or> depth + 1 \<le> GPI_CLEANUP_PD_DEPTH E then do {
            r \<leftarrow> pd_rde_get p type sid;
            if r \<noteq> None \<or> pd_has_resources_in_space p sid
            then Some (pd_write (ucast k) (\<lambda>p. p\<lparr>deletion_depth := depth + 1, to_delete := True\<rparr>) s)
            else Some s }
          else Some s }) s"

text \<open>The third part: the live PDs lose their directory entry and their resources in the space.\<close>

definition space_cleanup_live_pds ::
    "'w env \<Rightarrow> 'w hold_cb \<Rightarrow> gpi_cap_t \<Rightarrow> gpi_space_id_t \<Rightarrow> 'w gpi_server \<Rightarrow> 'w gpi_server option" where
  "space_cleanup_live_pds E od type sid s =
     HASH_ITER pd_keys
       (\<lambda>k s. do {
          e \<leftarrow> pd_component_registry_get_entry_by_id (ucast k) s;
          if pd_id (pd e) = rt_pd_id s \<or> to_delete (pd e) then Some s
          else do {
            (ignored, s) \<leftarrow> on_pd (ucast k) (pd_remove_rde E type sid) s;
            (error, s) \<leftarrow> pd_remove_resources_in_space od (ucast k) sid s;
            Some s } }) s"

definition pd_component_space_cleanup ::
    "'w env \<Rightarrow> 'w hold_cb \<Rightarrow> gpi_obj_id_t \<Rightarrow> gpi_cap_t \<Rightarrow> gpi_space_id_t \<Rightarrow> bool \<Rightarrow> bool \<Rightarrow> 'w gpi_server \<Rightarrow>
     (int \<times> 'w gpi_server) option" where
  "pd_component_space_cleanup E od mid type sid execute_cleanup_policy dn s =
     (case pd_component_registry_get_entry_by_id mid s of
        None \<Rightarrow> Some (UNKNOWN_ERR, s)
      | Some m \<Rightarrow> do {
          let depth = deletion_depth (pd m);
          (go_on, s) \<leftarrow> space_cleanup_manager E od mid type sid dn s;
          if \<not> go_on then Some (UNKNOWN_ERR, s)
          else do {
            s \<leftarrow> (if execute_cleanup_policy then space_cleanup_policy E depth type sid s else Some s);
            s \<leftarrow> space_cleanup_live_pds E od type sid s;
            Some (0, s) } })"

definition on_resspc_registry_delete ::
    "'w env \<Rightarrow> 'w hold_cb \<Rightarrow> resspc_component_registry_entry_t \<Rightarrow> 'w gpi_server \<Rightarrow> 'w gpi_server option" where
  "on_resspc_registry_delete E od node s = do {
     let sid = space_id (space node);
     let s = space_write sid (\<lambda>x. x\<lparr>space_deleting := True\<rparr>) s;
     s \<leftarrow> resource_component_remove_from_rt od resspc_component sid s;
     let n = space node;
     (error, s) \<leftarrow> (if cleanup_policy n then resspc_component_space_cleanup E n s else Some (0, s));
     if error \<noteq> 0 then Some s
     else do {
       (error, s) \<leftarrow> pd_component_space_cleanup E od (space_pd_id n) (resource_type n) sid (cleanup_policy n)
         (dont_notify n) s;
       Some s } }"

definition resspc_component_sweep :: "'w env \<Rightarrow> 'w hold_cb \<Rightarrow> 'w gpi_server \<Rightarrow> 'w gpi_server option" where
  "resspc_component_sweep E od s =
     HASH_ITER space_keys
       (\<lambda>k s. do {
          e \<leftarrow> resource_space_get_entry_by_id (ucast k) s;
          if space_to_delete (space e) \<and> \<not> space_deleting (space e)
          then resource_registry_delete (comp_reg resspc_component) (comp_set_reg resspc_component_update)
                 (Some (on_resspc_registry_delete E od)) e s
          else Some s }) s"

definition resspc_dec :: "'w env \<Rightarrow> 'w hold_cb \<Rightarrow> gpi_obj_id_t \<Rightarrow> 'w gpi_server \<Rightarrow> (int \<times> 'w gpi_server) option" where
  "resspc_dec E od = resource_component_dec resspc_component resspc_component_update (on_resspc_registry_delete E od)"

subsection \<open>Address spaces and processors (ads\_component.c, cpu\_obj.c, cpu\_component.c)\<close>

definition on_ads_registry_delete ::
    "'w env \<Rightarrow> 'w hold_cb \<Rightarrow> ads_component_registry_entry_t \<Rightarrow> 'w gpi_server \<Rightarrow> 'w gpi_server option" where
  "on_ads_registry_delete E od node s = do {
     s \<leftarrow> resource_component_remove_from_rt od ads_component (ads_id (ads node)) s;
     (error, s) \<leftarrow> resspc_dec E od (ads_id (ads node)) s;
     ads_destroy E od (ads_id (ads node)) s }"

definition ads_dec :: "'w env \<Rightarrow> 'w hold_cb \<Rightarrow> gpi_obj_id_t \<Rightarrow> 'w gpi_server \<Rightarrow> (int \<times> 'w gpi_server) option" where
  "ads_dec E od = resource_component_dec ads_component ads_component_update (on_ads_registry_delete E od)"

definition cpu_stop :: "'w env \<Rightarrow> cpu_t \<Rightarrow> 'w gpi_server \<Rightarrow> int \<times> 'w gpi_server" where
  "cpu_stop E c s = (let (r, s) = kern E (Cpu (TCB_Suspend (tcb c))) s in (err r, s))"

definition cpu_component_stop :: "'w env \<Rightarrow> gpi_obj_id_t \<Rightarrow> 'w gpi_server \<Rightarrow> int \<times> 'w gpi_server" where
  "cpu_component_stop E cid s = (case resource_component_registry_get_by_id cpu_component cid s of
       None \<Rightarrow> (UNKNOWN_ERR, s)
     | Some cpu_data \<Rightarrow> cpu_stop E (cpu cpu_data) s)"

definition cpu_write :: "gpi_obj_id_t \<Rightarrow> (cpu_t \<Rightarrow> cpu_t) \<Rightarrow> 'w gpi_server \<Rightarrow> 'w gpi_server" where
  "cpu_write cid f s = entry_update cpu_component_update (\<lambda>e. e\<lparr>cpu := f (cpu e)\<rparr>) cid s"

definition cpu_destroy :: "'w env \<Rightarrow> 'w hold_cb \<Rightarrow> cpu_t \<Rightarrow> 'w gpi_server \<Rightarrow> 'w gpi_server option" where
  "cpu_destroy E od c s = do {
     let (error, s) = cpu_stop E c s;
     let s = kern0 E (Obj (Vka_free_object (tcb c))) s;
     s \<leftarrow> (if ipc_buf_mo c \<noteq> 0 then do {
         (error, s) \<leftarrow> mo_dec E od (ipc_buf_mo c) s;
         Some (cpu_write (cpu_id c) (\<lambda>c. c\<lparr>ipc_buf_mo := 0\<rparr>) s) }
       else Some s);
     s \<leftarrow> (if binded_ads_id c \<noteq> 0 then do {
         (error, s) \<leftarrow> ads_dec E od (binded_ads_id c) s;
         Some (cpu_write (cpu_id c) (\<lambda>c. c\<lparr>binded_ads_id := 0\<rparr>) s) }
       else Some s);
     Some (if vcpu c \<noteq> seL4_CapNull then kern0 E (Obj (Vka_free_object (vcpu c))) s else s) }"

definition on_cpu_registry_delete ::
    "'w env \<Rightarrow> 'w hold_cb \<Rightarrow> cpu_component_registry_entry_t \<Rightarrow> 'w gpi_server \<Rightarrow> 'w gpi_server option" where
  "on_cpu_registry_delete E od node s = do {
     s \<leftarrow> resource_component_remove_from_rt od cpu_component (cpu_id (cpu node)) s;
     cpu_destroy E od (cpu node) s }"

definition cpu_dec :: "'w env \<Rightarrow> 'w hold_cb \<Rightarrow> gpi_obj_id_t \<Rightarrow> 'w gpi_server \<Rightarrow> (int \<times> 'w gpi_server) option" where
  "cpu_dec E od = resource_component_dec cpu_component cpu_component_update (on_cpu_registry_delete E od)"

subsection \<open>The callback of the hold registries (pd\_obj.c)\<close>

text \<open>The check of a NULL slot is compiled in: \<open>OSDB_WARN >= OSDB_LEVEL\<close> holds.\<close>

definition pd_revoke_cap ::
    "'w env \<Rightarrow> gpi_obj_id_t \<Rightarrow> pd_hold_node_t \<Rightarrow> 'w gpi_server \<Rightarrow> (int \<times> 'w gpi_server) option" where
  "pd_revoke_cap E pid hold_node s = do {
     e \<leftarrow> pd_component_registry_get_entry_by_id pid s;
     let cap = slot_in_PD_Debug hold_node;
     if cap = seL4_CapNull then
       (if pd_id (pd e) \<noteq> rt_pd_id s then do {
          space_entry \<leftarrow> resource_space_get_entry_by_id (res_space_id (res_id hold_node)) s;
          Some (0, s) }
        else Some (0, s))
     else do {
       v \<leftarrow> pd_vka (pd e);
       let s = kern0 E (Cap (Vka_cnode_revoke (v, cap))) s;
       let (r, s) = kern E (Cap (Vka_cnode_delete (v, cap))) s;
       Some (err r, s) } }"

text \<open>The case of a resource that is not of a core type.\<close>

definition notify_manager_of_free ::
    "'w env \<Rightarrow> gpi_obj_id_t \<Rightarrow> gpi_res_id_t \<Rightarrow> 'w gpi_server \<Rightarrow> 'w gpi_server option" where
  "notify_manager_of_free E pid rid s = do {
     e \<leftarrow> pd_component_registry_get_entry_by_id pid s;
     if to_delete (pd e) then
       (case resource_space_get_entry_by_id (res_space_id rid) s of
          None \<Rightarrow> Some s
        | Some space_data \<Rightarrow>
            if space_to_delete (space space_data) \<or> space_pd_id (space space_data) = pd_id (pd e) then Some s
            else
              (let (r, s) = kern E (Obj Calloc) s in
               if val r = 0 then Some s
               else pd_component_queue_free_work E (space_pd_id (space space_data))
                      \<lparr>work_res_id = rid, client_pd_id = 0, is_critical = False\<rparr> s))
     else Some s }"

definition held_resource_on_delete_body ::
    "'w env \<Rightarrow> 'w hold_cb \<Rightarrow> gpi_obj_id_t \<Rightarrow> pd_hold_node_t \<Rightarrow> 'w gpi_server \<Rightarrow> 'w gpi_server option" where
  "held_resource_on_delete_body E od pid node s = do {
     e \<leftarrow> pd_component_registry_get_entry_by_id pid s;
     let rid = res_id node;
     if pd_id (pd e) = rt_pd_id s then Some s
     else do {
       (error, s) \<leftarrow> (if \<not> to_delete (pd e) then pd_revoke_cap E pid node s else Some (0, s));
       if error \<noteq> 0 then Some s
       else
         (let t = res_type rid; oid = res_object_id rid in
          if t = GPICAP_TYPE_ADS then map_option snd (ads_dec E od oid s)
          else if t = GPICAP_TYPE_CPU then map_option snd (cpu_dec E od oid s)
          else if t = GPICAP_TYPE_MO then map_option snd (mo_dec E od oid s)
          else if t = GPICAP_TYPE_PD then Some s
          else if t = GPICAP_TYPE_VMR then map_option snd (ads_component_rm_by_id E od (res_space_id rid) oid s)
          else if t = GPICAP_TYPE_RESSPC then
            Some (snd (resspc_component_mark_delete oid (deletion_depth (pd e) = 0) s))
          else if t = GPICAP_TYPE_EP then map_option snd (ep_dec E od oid s)
          else notify_manager_of_free E pid rid s) } }"

primrec pd_held_resource_on_delete :: "'w env \<Rightarrow> nat \<Rightarrow> 'w hold_cb" where
  "pd_held_resource_on_delete E 0 = (\<lambda>pid node s. None)"
| "pd_held_resource_on_delete E (Suc n) = held_resource_on_delete_body E (pd_held_resource_on_delete E n)"

subsection \<open>Linked PDs (pd\_obj.c)\<close>

definition link_keys :: "gpi_obj_id_t \<Rightarrow> 'w gpi_server \<Rightarrow> u64 list" where
  "link_keys pid s = keys (head (pd_link_get pid s))"

definition pd_linkage_on_delete ::
    "(gpi_obj_id_t \<Rightarrow> 'w gpi_server \<Rightarrow> 'w gpi_server option) \<Rightarrow> pd_link_node_t \<Rightarrow> 'w gpi_server \<Rightarrow> 'w gpi_server option"
  where
  "pd_linkage_on_delete mark linked_pd s =
     (case pd_component_registry_get_entry_by_id (linked_pd_id linked_pd) s of
        None \<Rightarrow> Some s
      | Some _ \<Rightarrow> mark (linked_pd_id linked_pd) (pd_write (linked_pd_id linked_pd) (\<lambda>p. p\<lparr>to_delete := True\<rparr>) s))"

primrec pd_mark_linked_for_deletion :: "nat \<Rightarrow> gpi_obj_id_t \<Rightarrow> 'w gpi_server \<Rightarrow> 'w gpi_server option" where
  "pd_mark_linked_for_deletion 0 pid s = None"
| "pd_mark_linked_for_deletion (Suc n) pid s =
     HASH_ITER (link_keys pid)
       (\<lambda>k s. do {
          node \<leftarrow> resource_registry_get_by_id (pd_link_get pid s) k;
          resource_registry_delete (pd_link_get pid) (pd_link_set pid)
            (Some (pd_linkage_on_delete (pd_mark_linked_for_deletion n))) node s }) s"

end
