(* ===== verification/Pd_Destroy.thy ===== *)
theory Pd_Destroy
  imports Destroy
begin

section \<open>Destroying protection domains (pd\_obj.c, pd\_component.c)\<close>

text \<open>
  \<open>pd_destroy\<close> and the callback of the PD registry. Destroying a PD ends with a sweep over the PDs
  that were marked on the way, and the sweep destroys them: the recursion is bounded by an argument
  of \<open>on_pd_registry_delete\<close>. \<open>mark\<close> and \<open>sweep\<close> are the functions that the C code calls at that point.
\<close>

subsection \<open>Interrupt handlers (gpi\_server.c)\<close>

fun find_irq_handler :: "(ps_irq_t \<times> cptr) list \<Rightarrow> int \<Rightarrow> cptr" where
  "find_irq_handler [] irq = seL4_CapNull"
| "find_irq_handler ((i, handler) # xs) irq =
     (if i = PS_INTERRUPT irq \<or> i = PS_TRIGGER irq then handler else find_irq_handler xs irq)"

definition gpi_get_irq_handler :: "'w env \<Rightarrow> int \<Rightarrow> 'w gpi_server \<Rightarrow> cptr \<times> 'w gpi_server" where
  "gpi_get_irq_handler E irq s =
     (let handler_slot = find_irq_handler (gen_irqs s) irq in
      if handler_slot \<noteq> seL4_CapNull then (handler_slot, s)
      else
        (let (r, s) = kern E (Ipc (Copy_irq_cap irq)) s in
         if err r \<noteq> 0 then (seL4_CapNull, s)
         else (val r, s\<lparr>gen_irqs := gen_irqs s @ [(PS_INTERRUPT irq, val r)]\<rparr>)))"

subsection \<open>pd\_destroy\<close>

text \<open>The steps up to the release of the held resources. An error of \<open>cpu_component_stop\<close> or of the
  move of the reply capability leaves \<open>pd_destroy\<close>: the boolean is false then.\<close>

definition pd_destroy_stop :: "'w env \<Rightarrow> gpi_obj_id_t \<Rightarrow> 'w gpi_server \<Rightarrow> (bool \<times> 'w gpi_server) option" where
  "pd_destroy_stop E pid s = do {
     let s = pd_write pid (\<lambda>p. p\<lparr>to_delete := True, deleting := True\<rparr>) s;
     e \<leftarrow> pd_component_registry_get_entry_by_id pid s;
     let p = pd e;
     c_assert (shared_data p \<noteq> 0);
     let (error, s) = (if cpu_conn_id (shared p) \<noteq> 0 then cpu_component_stop E (cpu_conn_id (shared p)) s
                       else (0, s));
     if error \<noteq> 0 then Some (False, s)
     else if reply_cap (shared p) = seL4_CapNull then Some (True, s)
     else do {
       v \<leftarrow> pd_vka p;
       let (dest, s) = kern E (Cap (Vka_cspace_alloc Server_Vka)) s;
       let (r, s) = kern E (Cap (Vka_cnode_move (Server_Vka, val dest) (v, reply_cap (shared p)))) s;
       if err r = seL4_FailedLookup E then Some (True, s)
       else if err r \<noteq> 0 then Some (False, s)
       else Some (True, kern0 E (Ipc (Send_error (val dest))) s) } }"

definition pd_destroy_objects ::
    "'w env \<Rightarrow> 'w hold_cb \<Rightarrow> gpi_obj_id_t \<Rightarrow> 'w gpi_server \<Rightarrow> 'w gpi_server option" where
  "pd_destroy_objects E od pid s = do {
     e \<leftarrow> pd_component_registry_get_entry_by_id pid s;
     let p = pd e;
     (ignored, s) \<leftarrow> (if cpu_conn_id (shared p) \<noteq> 0 then cpu_dec E od (cpu_conn_id (shared p)) s else Some (0, s));
     (ignored, s) \<leftarrow> (if ads_conn_id (shared p) \<noteq> 0 then ads_dec E od (ads_conn_id (shared p)) s else Some (0, s));
     let s = kern_seq E [Cap (Vka_cnode_revoke (Server_Vka, cspace p)), Obj (Vka_free_object (cspace p)),
       Cap (Vka_cnode_revoke (Server_Vka, notification p)), Obj (Vka_free_object (notification p)),
       Cap (Vka_cspace_free Server_Vka (badged_notification p))] s;
     Some (if bound_irq p \<noteq> 0 then
         (let (irq_handler, s) = gpi_get_irq_handler E (bound_irq p) s
          in kern_seq E [Ipc (IRQHandler_Clear irq_handler),
               Cap (Vka_cspace_free Server_Vka (badged_irq_ntfn p))] s)
       else s) }"

definition pd_destroy_holds :: "'w hold_cb \<Rightarrow> gpi_obj_id_t \<Rightarrow> 'w gpi_server \<Rightarrow> 'w gpi_server option" where
  "pd_destroy_holds od pid s =
     HASH_ITER (hold_keys pid)
       (\<lambda>k s. do {
          node \<leftarrow> resource_registry_get_by_id (pd_hold_get pid s) k;
          resource_registry_delete (pd_hold_get pid) (pd_hold_set pid) (Some (od pid)) node s }) s"

definition pd_destroy ::
    "'w env \<Rightarrow> 'w hold_cb \<Rightarrow> (gpi_obj_id_t \<Rightarrow> 'w gpi_server \<Rightarrow> 'w gpi_server option) \<Rightarrow>
     ('w gpi_server \<Rightarrow> 'w gpi_server option) \<Rightarrow> gpi_obj_id_t \<Rightarrow> 'w gpi_server \<Rightarrow> 'w gpi_server option" where
  "pd_destroy E od mark sweep pid s = do {
     (go_on, s) \<leftarrow> pd_destroy_stop E pid s;
     if \<not> go_on then Some s
     else do {
       s \<leftarrow> pd_destroy_objects E od pid s;
       s \<leftarrow> pd_destroy_holds od pid s;
       s \<leftarrow> mark pid s;
       e \<leftarrow> pd_component_registry_get_entry_by_id pid s;
       (error, s) \<leftarrow> ads_component_remove_from_rt E od (shared_data (pd e)) s;
       if error \<noteq> 0 then Some s
       else do {
         s \<leftarrow> resspc_component_sweep E od s;
         s \<leftarrow> sweep s;
         (error, s) \<leftarrow> pd_component_resource_cleanup od
           (make_res_id GPICAP_TYPE_PD (comp_space_id (pd_component s)) (pd_id (pd e))) s;
         Some s } } }"

subsection \<open>Pending work of a destroyed PD\<close>

text \<open>The loop pops the lists one after the other; a list that was never created is a NULL pointer
  that is dereferenced.\<close>

definition critical_count :: "pd_work_entry_t list \<Rightarrow> int" where
  "critical_count xs = int (length (filter is_critical xs))"

definition clear_work_list :: "PdWorkAction \<Rightarrow> pd_work_entry_t list \<Rightarrow> 'w gpi_server \<Rightarrow> 'w gpi_server" where
  "clear_work_list a xs s = (case a of
       EXTRACT \<Rightarrow> s\<lparr>model_extraction_n_missing := model_extraction_n_missing s - critical_count xs\<rparr>
     | SEND \<Rightarrow> s
     | _ \<Rightarrow> s\<lparr>pd_termination_n_missing := pd_termination_n_missing s - critical_count xs\<rparr>)"

definition clear_pending_work :: "gpi_obj_id_t \<Rightarrow> 'w gpi_server \<Rightarrow> 'w gpi_server option" where
  "clear_pending_work pid s = do {
     e \<leftarrow> pd_component_registry_get_entry_by_id pid s;
     ex \<leftarrow> pending_work e EXTRACT;
     let s = clear_work_list EXTRACT ex s;
     sd \<leftarrow> pending_work e SEND;
     let s = clear_work_list SEND sd s;
     fr \<leftarrow> pending_work e FREE;
     let s = clear_work_list FREE fr s;
     ds \<leftarrow> pending_work e DESTROY;
     Some (clear_work_list DESTROY ds s) }"

subsection \<open>The sweep and the callback of the PD registry\<close>

text \<open>\<open>cb\<close> is the callback of the PD registry. The panic about the test process is \<open>None\<close>.\<close>

definition pd_component_sweep ::
    "(pd_component_registry_entry_t \<Rightarrow> 'w gpi_server \<Rightarrow> 'w gpi_server option) \<Rightarrow> 'w gpi_server \<Rightarrow> 'w gpi_server option"
  where
  "pd_component_sweep cb s =
     HASH_ITER pd_keys
       (\<lambda>k s. do {
          e \<leftarrow> pd_component_registry_get_entry_by_id (ucast k) s;
          if to_delete (pd e) \<and> \<not> deleting (pd e) then do {
            c_assert (test_proc_id s \<noteq> pd_id (pd e));
            let s = pd_write (ucast k) (\<lambda>p. p\<lparr>exit_code := PD_TERMINATED_CODE, deletion_depth := 0\<rparr>) s;
            e \<leftarrow> pd_component_registry_get_entry_by_id (ucast k) s;
            resource_registry_delete (comp_reg pd_component) (comp_set_reg pd_component_update) (Some cb) e s }
          else Some s }) s"

primrec on_pd_registry_delete ::
    "'w env \<Rightarrow> nat \<Rightarrow> pd_component_registry_entry_t \<Rightarrow> 'w gpi_server \<Rightarrow> 'w gpi_server option" where
  "on_pd_registry_delete E 0 node s = None"
| "on_pd_registry_delete E (Suc n) node s =
     (let od = pd_held_resource_on_delete E n; pid = pd_id (pd node) in do {
        s \<leftarrow> resource_component_remove_from_rt od pd_component pid s;
        s \<leftarrow> pd_destroy E od (pd_mark_linked_for_deletion n) (pd_component_sweep (on_pd_registry_delete E n)) pid s;
        clear_pending_work pid s })"

definition pd_registry_delete ::
    "'w env \<Rightarrow> nat \<Rightarrow> pd_component_registry_entry_t \<Rightarrow> 'w gpi_server \<Rightarrow> 'w gpi_server option" where
  "pd_registry_delete E n e s =
     resource_registry_delete (comp_reg pd_component) (comp_set_reg pd_component_update)
       (Some (on_pd_registry_delete E n)) e s"

definition pd_component_terminate ::
    "'w env \<Rightarrow> nat \<Rightarrow> gpi_obj_id_t \<Rightarrow> 'w gpi_server \<Rightarrow> (int \<times> 'w gpi_server) option" where
  "pd_component_terminate E n pid s =
     (case pd_component_registry_get_entry_by_id pid s of
        None \<Rightarrow> Some (UNKNOWN_ERR, s)
      | Some _ \<Rightarrow> do {
          let s = pd_write pid (\<lambda>p. p\<lparr>exit_code := PD_TERMINATED_CODE, deletion_depth := 0\<rparr>) s;
          e \<leftarrow> pd_component_registry_get_entry_by_id pid s;
          s \<leftarrow> pd_registry_delete E n e s;
          Some (0, s) })"

end
