(* ===== verification/Objects.thy ===== *)
theory Objects
  imports Pd_Destroy
begin

section \<open>Creating objects\<close>

text \<open>
  Allocation of an object in a component (\<open>resource_component_allocate\<close>) and the constructors it
  runs: memory objects, endpoints, processors, address spaces and resource spaces; then the regions
  of address spaces: reserving, attaching and copying. A constructor receives the ID of the entry it
  fills.
\<close>

subsection \<open>Allocation (resource\_component\_utils.c, pd\_component.c)\<close>

definition pd_add_resource_by_id ::
    "'w env \<Rightarrow> gpi_obj_id_t \<Rightarrow> gpi_res_id_t \<Rightarrow> cptr \<Rightarrow> cptr \<Rightarrow> cptr \<Rightarrow> 'w gpi_server \<Rightarrow> (int \<times> 'w gpi_server) option"
  where
  "pd_add_resource_by_id E pid rid slot_RT slot_PD slot_serverPD s =
     (case pd_component_registry_get_entry_by_id pid s of
        None \<Rightarrow> Some (UNKNOWN_ERR, s)
      | Some _ \<Rightarrow> on_pd pid (pd_add_resource E rid slot_RT slot_PD slot_serverPD) s)"

text \<open>The results are the error, the ID of the entry (\<open>None\<close> where it is not written) and the
  capability (0 where it is not written). \<open>blank\<close> is the zeroed entry, \<open>set_oid\<close> stores the ID in the
  object, \<open>new_obj\<close> is the constructor, and \<open>want_cap\<close> says whether the caller passed a pointer for the
  capability. The source tests that pointer, and not the capability, for NULL.\<close>

definition resource_component_allocate ::
    "'w env \<Rightarrow> ('a node, 'w) comp_get \<Rightarrow> ('a node, 'w) comp_upd \<Rightarrow> 'a node \<Rightarrow>
     (gpi_obj_id_t \<Rightarrow> 'a node \<Rightarrow> 'a node) \<Rightarrow>
     (gpi_obj_id_t \<Rightarrow> 'w gpi_server \<Rightarrow> (int \<times> 'w gpi_server) option) \<Rightarrow>
     gpi_obj_id_t \<Rightarrow> gpi_obj_id_t \<Rightarrow> bool \<Rightarrow> bool \<Rightarrow> 'w gpi_server \<Rightarrow>
     (int \<times> gpi_obj_id_t option \<times> cptr \<times> 'w gpi_server) option" where
  "resource_component_allocate E getc upd blank set_oid new_obj client_id oid forge want_cap s =
     (let (r, s) = kern E (Obj Calloc) s in
      if val r = 0 then Some (1, None, 0, s)
      else do {
        (resource_id, s) \<leftarrow>
          (if oid = BADGE_OBJ_ID_NULL then do {
             found \<leftarrow> resource_registry_insert_new_id (comp_reg getc s) blank;
             (new_id, reg) \<leftarrow> found;
             Some (ucast new_id, comp_set_reg upd reg s) }
           else do {
             reg \<leftarrow> resource_registry_insert (comp_reg getc s) (blank\<lparr>object_id := ucast oid\<rparr>);
             Some (oid, comp_set_reg upd reg s) });
        let s = entry_update upd (set_oid resource_id) resource_id s;
        (error, s) \<leftarrow> (if forge then Some (0, s) else new_obj resource_id s);
        if error \<noteq> 0 then Some (error, Some resource_id, 0, s)
        else do {
          (ok, ret_cap, s) \<leftarrow>
            (if want_cap then
               (case pd_component_registry_get_entry_by_id client_id s of
                  None \<Rightarrow> Some (False, 0, s)
                | Some pd_data \<Rightarrow> do {
                    (cap, w) \<leftarrow> resource_component_make_badged_ep E Server_Vka (pd_vka (pd pd_data))
                      (server_ep (getc s)) (comp_type (getc s)) (comp_space_id (getc s)) resource_id client_id
                      (world s);
                    Some (True, cap, s\<lparr>world := w\<rparr>) })
             else Some (True, 0, s));
          if \<not> ok then Some (1, Some resource_id, ret_cap, s)
          else if client_id = rt_pd_id s \<and> comp_type (getc s) = GPICAP_TYPE_RESSPC
          then Some (0, Some resource_id, ret_cap, s)
          else do {
            let slot_rt = (if want_cap \<and> client_id = rt_pd_id s then ret_cap else seL4_CapNull);
            let slot_pd = (if want_cap \<and> client_id \<noteq> rt_pd_id s then ret_cap else seL4_CapNull);
            (error, s) \<leftarrow> pd_add_resource_by_id E client_id
              (make_res_id (comp_type (getc s)) (comp_space_id (getc s)) resource_id) slot_rt slot_pd slot_rt s;
            Some (error, Some resource_id, ret_cap, s) } } })"

subsection \<open>Memory objects (mo\_obj.c, mo\_component.c)\<close>

definition mo_write :: "gpi_obj_id_t \<Rightarrow> (mo_t \<Rightarrow> mo_t) \<Rightarrow> 'w gpi_server \<Rightarrow> 'w gpi_server" where
  "mo_write mid f s = entry_update mo_component_update (\<lambda>e. e\<lparr>mo := f (mo e)\<rparr>) mid s"

definition blank_mo :: mo_component_registry_entry_t where
  "blank_mo = \<lparr>object_id = 0, count = 0, mo = \<lparr>mo_obj_id = 0, frame_caps_in_root_task = [], frame_paddrs = [],
     vka_objects = None, num_pages = 0, mo_page_bits = 0\<rparr>\<rparr>"

definition set_frame :: "nat \<Rightarrow> cptr \<Rightarrow> u64 \<Rightarrow> mo_t \<Rightarrow> mo_t" where
  "set_frame i cap paddr m =
     m\<lparr>vka_objects := map_option (\<lambda>xs. xs[i := cap]) (vka_objects m),
       frame_caps_in_root_task := (frame_caps_in_root_task m)[i := cap],
       frame_paddrs := (frame_paddrs m)[i := paddr]\<rparr>"

text \<open>The loops that allocate the frames; \<open>n\<close> frames from index \<open>i\<close> on are left.\<close>

primrec alloc_frames ::
    "'w env \<Rightarrow> u64 \<Rightarrow> nat \<Rightarrow> nat \<Rightarrow> mo_t \<Rightarrow> 'w gpi_server \<Rightarrow> int \<times> mo_t \<times> 'w gpi_server" where
  "alloc_frames E bits 0 i m s = (0, m, s)"
| "alloc_frames E bits (Suc n) i m s =
     (let (r, s) = kern E (Obj (Vka_alloc_frame bits)) s in
      if err r \<noteq> 0 then (err r, m, s)
      else (let (q, s) = kern E (Obj (Vka_object_paddr (val r))) s
            in alloc_frames E bits n (Suc i) (set_frame i (val r) (val q) m) s))"

primrec alloc_frames_at_paddr ::
    "'w env \<Rightarrow> u64 \<Rightarrow> nat \<Rightarrow> nat \<Rightarrow> u64 \<Rightarrow> mo_t \<Rightarrow> 'w gpi_server \<Rightarrow> int \<times> mo_t \<times> 'w gpi_server" where
  "alloc_frames_at_paddr E bits 0 i curr_paddr m s = (0, m, s)"
| "alloc_frames_at_paddr E bits (Suc n) i curr_paddr m s =
     (let (r, s) = kern E (Obj (Vka_alloc_frame_at bits curr_paddr)) s in
      if err r \<noteq> 0 then (err r, m, s)
      else alloc_frames_at_paddr E bits n (Suc i) (curr_paddr + 2 ^ unat bits) (set_frame i (val r) curr_paddr m) s)"

definition mo_new ::
    "'w env \<Rightarrow> u32 \<Rightarrow> u64 \<Rightarrow> u64 \<Rightarrow> gpi_obj_id_t \<Rightarrow> 'w gpi_server \<Rightarrow> (int \<times> 'w gpi_server) option" where
  "mo_new E pages bits paddr mid s = do {
     e \<leftarrow> resource_component_registry_get_by_id mo_component mid s;
     let n = unat pages;
     let m = (mo e)\<lparr>num_pages := pages, mo_page_bits := bits\<rparr>;
     let s = mo_write mid (\<lambda>_. m) s;
     let (a, s) = kern E (Obj Calloc) s;
     let (b, s) = kern E (Obj Calloc) s;
     let (c, s) = kern E (Obj Calloc) s;
     if val a = 0 \<or> val b = 0 \<or> val c = 0
     then Some (UNKNOWN_ERR, mo_write mid (\<lambda>m. m
       \<lparr>frame_caps_in_root_task := (if val a = 0 then [] else replicate n 0),
        frame_paddrs := (if val b = 0 then [] else replicate n 0),
        vka_objects := (if val c = 0 then None else Some (replicate n 0))\<rparr>) s)
     else do {
       let m = m\<lparr>frame_caps_in_root_task := replicate n 0, frame_paddrs := replicate n 0,
                 vka_objects := Some (replicate n 0)\<rparr>;
       let (error, m, s) = (if paddr \<noteq> 0 then alloc_frames_at_paddr E bits n 0 paddr m s
                            else alloc_frames E bits n 0 m s);
       let s = mo_write mid (\<lambda>_. m) s;
       if error \<noteq> 0 then Some (error, s)
       else pd_add_resource_by_id E (rt_pd_id s)
              (make_res_id GPICAP_TYPE_MO (comp_space_id (mo_component s)) mid)
              seL4_CapNull seL4_CapNull seL4_CapNull s } }"

definition mo_allocate ::
    "'w env \<Rightarrow> (gpi_obj_id_t \<Rightarrow> 'w gpi_server \<Rightarrow> (int \<times> 'w gpi_server) option) \<Rightarrow> gpi_obj_id_t \<Rightarrow> bool \<Rightarrow> bool \<Rightarrow>
     'w gpi_server \<Rightarrow> (int \<times> gpi_obj_id_t option \<times> cptr \<times> 'w gpi_server) option" where
  "mo_allocate E new_obj client_id forge want_cap s =
     resource_component_allocate E mo_component mo_component_update blank_mo
       (\<lambda>i e. e\<lparr>mo := (mo e)\<lparr>mo_obj_id := i\<rparr>\<rparr>) new_obj client_id BADGE_OBJ_ID_NULL forge want_cap s"

definition mo_component_allocate_rt ::
    "'w env \<Rightarrow> u32 \<Rightarrow> 'w gpi_server \<Rightarrow> (int \<times> gpi_obj_id_t option \<times> 'w gpi_server) option" where
  "mo_component_allocate_rt E pages s = do {
     (error, new_entry, cap, s) \<leftarrow> mo_allocate E (mo_new E pages (seL4_PageBits E) 0) (rt_pd_id s) False False s;
     if error \<noteq> 0 then Some (error, None, s) else Some (0, new_entry, s) }"

text \<open>The physical addresses are read from the kernel one by one.\<close>

fun cap_paddrs :: "'w env \<Rightarrow> cptr list \<Rightarrow> 'w gpi_server \<Rightarrow> u64 list \<times> 'w gpi_server" where
  "cap_paddrs E [] s = ([], s)"
| "cap_paddrs E (c # cs) s =
     (let (r, s) = kern E (Vspace (GetCapPaddr c)) s; (ps, s) = cap_paddrs E cs s in (val r # ps, s))"

definition forge_mo_cap_from_frames ::
    "'w env \<Rightarrow> cptr list \<Rightarrow> gpi_obj_id_t \<Rightarrow> 'w gpi_server \<Rightarrow> (int \<times> gpi_obj_id_t option \<times> cptr \<times> 'w gpi_server) option"
  where
  "forge_mo_cap_from_frames E caps client_id s = do {
     (error, new_entry, cap, s) \<leftarrow> mo_allocate E (\<lambda>_ s. Some (0, s)) client_id True True s;
     if error \<noteq> 0 then Some (error, None, cap, s)
     else do {
       mid \<leftarrow> new_entry;
       let (a, s) = kern E (Obj Calloc) s;
       let (b, s) = kern E (Obj Calloc) s;
       c_assert (val a \<noteq> 0);
       c_assert (val b \<noteq> 0);
       let (paddrs, s) = cap_paddrs E caps s;
       let s = mo_write mid (\<lambda>m. m\<lparr>frame_caps_in_root_task := caps, frame_paddrs := paddrs,
                 mo_page_bits := seL4_PageBits E, num_pages := of_nat (length caps)\<rparr>) s;
       (error, s) \<leftarrow> pd_add_resource_by_id E (rt_pd_id s)
         (make_res_id GPICAP_TYPE_MO (comp_space_id (mo_component s)) mid) seL4_CapNull seL4_CapNull seL4_CapNull s;
       if error \<noteq> 0 then Some (error, None, cap, s) else Some (0, Some mid, cap, s) } }"

subsection \<open>Endpoints and processors (endpoint\_component.c, cpu\_obj.c)\<close>

definition ep_new :: "'w env \<Rightarrow> gpi_obj_id_t \<Rightarrow> 'w gpi_server \<Rightarrow> (int \<times> 'w gpi_server) option" where
  "ep_new E eid s =
     (let (r, s) = kern E (Obj Vka_alloc_endpoint) s in
      Some (err r, if err r = 0 then entry_update ep_component_update
          (\<lambda>e. e\<lparr>ep := (ep e)\<lparr>endpoint_in_RT := val r\<rparr>\<rparr>) eid s else s))"

definition blank_ep :: ep_component_registry_entry_t where
  "blank_ep = \<lparr>object_id = 0, count = 0, ep = \<lparr>ep_id = 0, endpoint_in_RT = 0\<rparr>\<rparr>"

definition ep_allocate ::
    "'w env \<Rightarrow> gpi_obj_id_t \<Rightarrow> bool \<Rightarrow> 'w gpi_server \<Rightarrow> (int \<times> gpi_obj_id_t option \<times> cptr \<times> 'w gpi_server) option" where
  "ep_allocate E client_id forge s =
     resource_component_allocate E ep_component ep_component_update blank_ep
       (\<lambda>i e. e\<lparr>ep := (ep e)\<lparr>ep_id := i\<rparr>\<rparr>) (ep_new E) client_id BADGE_OBJ_ID_NULL forge True s"

definition cpu_new :: "'w env \<Rightarrow> gpi_obj_id_t \<Rightarrow> 'w gpi_server \<Rightarrow> (int \<times> 'w gpi_server) option" where
  "cpu_new E cid s =
     (let (r, s) = kern E (Obj Vka_alloc_tcb) s in
      if err r \<noteq> 0 then Some (err r, s)
      else
        (let s = cpu_write cid (\<lambda>c. c\<lparr>tcb := val r\<rparr>) s; (a, s) = kern E (Obj Calloc) s in
         if val a = 0 then Some (UNKNOWN_ERR, s)
         else Some (0, cpu_write cid (\<lambda>c. c\<lparr>ipc_buf_mo := 0\<rparr>) s)))"

definition blank_cpu :: cpu_component_registry_entry_t where
  "blank_cpu = \<lparr>object_id = 0, count = 0, cpu = \<lparr>cpu_id = 0, tcb = 0, ipc_buf_addr = 0, ipc_buf_mo = 0,
     ipc_frame_cap = 0, binded_ads_id = 0, tls_base = 0, cpu_cspace = 0, cspace_guard = 0, cpu_fault_ep = 0,
     vcpu = 0\<rparr>\<rparr>"

definition cpu_component_allocate ::
    "'w env \<Rightarrow> gpi_obj_id_t \<Rightarrow> 'w gpi_server \<Rightarrow> (int \<times> gpi_obj_id_t option \<times> cptr \<times> 'w gpi_server) option" where
  "cpu_component_allocate E client_id s =
     resource_component_allocate E cpu_component cpu_component_update blank_cpu
       (\<lambda>i e. e\<lparr>cpu := (cpu e)\<lparr>cpu_id := i\<rparr>\<rparr>) (cpu_new E) client_id BADGE_OBJ_ID_NULL False True s"

subsection \<open>Resource spaces (resource\_space\_component.c)\<close>

definition resspc_new ::
    "gpi_cap_t \<Rightarrow> cptr \<Rightarrow> gpi_obj_id_t \<Rightarrow> gpi_space_id_t \<Rightarrow> 'w gpi_server \<Rightarrow> (int \<times> 'w gpi_server) option" where
  "resspc_new type raw_ep manager sid s =
     Some (0, space_write sid (\<lambda>x. x\<lparr>map_spaces := [], resource_type := type, space_server_ep := raw_ep,
       space_pd_id := manager, space_to_delete := False, space_deleting := False, space_deletion_depth := 0,
       dont_notify := False\<rparr>) s)"

definition blank_space :: resspc_component_registry_entry_t where
  "blank_space = \<lparr>object_id = 0, count = 0, space = \<lparr>space_id = 0, resource_type = 0, space_server_ep = 0,
     map_spaces = [], space_pd_id = 0, space_to_delete = False, cleanup_policy = False, space_deleting = False,
     space_deletion_depth = 0, dont_notify = False\<rparr>\<rparr>"

definition resspc_allocate ::
    "'w env \<Rightarrow> gpi_cap_t \<Rightarrow> cptr \<Rightarrow> gpi_obj_id_t \<Rightarrow> gpi_obj_id_t \<Rightarrow> bool \<Rightarrow> 'w gpi_server \<Rightarrow>
     (int \<times> gpi_space_id_t option \<times> cptr \<times> 'w gpi_server) option" where
  "resspc_allocate E type raw_ep manager client_id want_cap s =
     resource_component_allocate E resspc_component resspc_component_update blank_space
       (\<lambda>i e. e\<lparr>space := (space e)\<lparr>space_id := i\<rparr>\<rparr>) (resspc_new type raw_ep manager) client_id
       BADGE_OBJ_ID_NULL False want_cap s"

definition resspc_component_map_space ::
    "gpi_space_id_t \<Rightarrow> gpi_space_id_t \<Rightarrow> 'w gpi_server \<Rightarrow> int \<times> 'w gpi_server" where
  "resspc_component_map_space src dest s =
     (case resource_space_get_entry_by_id src s of
        None \<Rightarrow> (UNKNOWN_ERR, s)
      | Some _ \<Rightarrow>
          (case resource_space_get_entry_by_id dest s of
             None \<Rightarrow> (UNKNOWN_ERR, s)
           | Some _ \<Rightarrow> (0, space_write src (\<lambda>x. x\<lparr>map_spaces := map_spaces x @ [dest]\<rparr>) s)))"

end
