(* ===== verification/Ads_Component.thy ===== *)
theory Ads_Component
  imports Objects
begin

section \<open>Address spaces and virtual memory regions (ads\_obj.c, ads\_component.c)\<close>

text \<open>
  Address spaces (ADS) and the regions (VMR) in them. A region is a node of the attach registry, with
  its address as the key; a second registry maps short IDs to addresses. The handlers serve the
  requests of clients. The configuration is the one for ARM.
\<close>

subsection \<open>Construction\<close>

definition ads_initialize :: "'w env \<Rightarrow> gpi_obj_id_t \<Rightarrow> 'w gpi_server \<Rightarrow> (int \<times> 'w gpi_server) option" where
  "ads_initialize E aid s =
     (let s = ads_write aid (\<lambda>a. a\<lparr>attach_registry := resource_registry_initialize (BADGE_MAX - 1),
            attach_id_to_vaddr_map := resource_registry_initialize (ucast (BADGE_OBJ_ID_NULL - 1))\<rparr>) s
      in pd_add_resource_by_id E (rt_pd_id s) (make_res_id GPICAP_TYPE_ADS (comp_space_id (ads_component s)) aid)
           seL4_CapNull seL4_CapNull seL4_CapNull s)"

text \<open>Assigning an ASID: a full pool is replaced by a new one.\<close>

definition assign_asid :: "'w env \<Rightarrow> cptr \<Rightarrow> 'w gpi_server \<Rightarrow> int \<times> 'w gpi_server" where
  "assign_asid E root s =
     (let (r, s) = kern E (Vspace (Assign_asid_pool (pool (ads_component s)) root)) s in
      if err r \<noteq> seL4_DeleteFirst E then (err r, s)
      else
        (let (ut, s) = kern E (Obj (Vka_alloc_untyped (seL4_PageBits E))) s in
         if err ut \<noteq> 0 then (err ut, s)
         else
           (let (dest, s) = kern E (Cap (Vka_cspace_alloc Server_Vka)) s in
            if err dest \<noteq> 0 then (err dest, s)
            else
              (let (r, s) = kern E (Vspace (ASIDControl_MakePool (val ut) (val dest))) s in
               if err r \<noteq> 0 then (err r, s)
               else
                 (let s = ads_component_update (\<lambda>c. c\<lparr>pool := val dest\<rparr>) s;
                      (r, s) = kern E (Vspace (Assign_asid_pool (pool (ads_component s)) root)) s
                  in (err r, s))))))"

definition ads_new :: "'w env \<Rightarrow> gpi_obj_id_t \<Rightarrow> 'w gpi_server \<Rightarrow> (int \<times> 'w gpi_server) option" where
  "ads_new E aid s =
     (let (a, s) = kern E (Obj Calloc) s; s = ads_write aid (\<lambda>x. x\<lparr>vspace := val a\<rparr>) s in
      if val a = 0 then Some (UNKNOWN_ERR, s)
      else (let (b, s) = kern E (Obj Calloc) s in
      if val b = 0 then Some (UNKNOWN_ERR, s)
      else (let (c, s) = kern E (Obj Calloc) s in
      if val c = 0 then Some (UNKNOWN_ERR, s)
      else (let (root, s) = kern E (Obj Vka_alloc_vspace_root) s in
      if err root \<noteq> 0 then Some (err root, kern0 E (Obj (Vka_free_object seL4_CapNull)) s)
      else (let (d, s) = kern E (Obj Calloc) s in
      if val d = 0 then Some (UNKNOWN_ERR, kern0 E (Obj (Vka_free_object (val root))) s)
      else (let (error, s) = assign_asid E (val root) s in
      if error \<noteq> 0 then Some (error, kern0 E (Obj (Vka_free_object (val root))) s)
      else (let (r, s) = kern E (Vspace (Get_vspace (val root))) s in
      if err r \<noteq> 0 then Some (err r, kern0 E (Obj (Vka_free_object (val root))) s)
      else ads_initialize E aid (ads_write aid (\<lambda>x. x\<lparr>root_page_dir := val root\<rparr>) s))))))))"

definition blank_ads :: ads_component_registry_entry_t where
  "blank_ads = \<lparr>object_id = 0, count = 0, ads = \<lparr>ads_id = 0, vspace = 0, root_page_dir = 0,
     attach_registry = resource_registry_initialize 0, attach_id_to_vaddr_map = resource_registry_initialize 0\<rparr>\<rparr>"

subsection \<open>Regions\<close>

definition blank_attach :: attach_node_t where
  "blank_attach = \<lparr>object_id = 0, count = 0, vaddr = 0, map_entry = 0, res = 0, vmr_type = 0, n_pages = 0,
     page_bits = 0, cacheable = False, rights = seL4_AllRights, mo_attached = False, mo_offset = 0, mo_id = 0,
     frame_caps = None, n_frames = 0\<rparr>"

text \<open>When the reservation fails, the source jumps to its error label past the initialization of the
  variables the label reads: \<open>None\<close>. The second result is the key of the new region.\<close>

definition ads_reserve ::
    "'w env \<Rightarrow> 'w hold_cb \<Rightarrow> gpi_obj_id_t \<Rightarrow> u64 \<Rightarrow> u32 \<Rightarrow> u64 \<Rightarrow> int \<Rightarrow> bool \<Rightarrow> cap_rights \<Rightarrow> 'w gpi_server \<Rightarrow>
     (int \<times> u64 \<times> 'w gpi_server) option" where
  "ads_reserve E od aid va pages bits vtype cache rts s = do {
     entry \<leftarrow> resource_component_registry_get_by_id ads_component aid s;
     let cache = (if vtype = RES_TYPE_DEVICE E then False else cache);
     let target = vspace (ads entry);
     let size = ucast pages * 2 ^ unat bits;
     let (r, s) = kern E (Vspace (if va = 0 then Reserve_range_aligned target size bits rts cache
                                  else Reserve_range_at target va size rts cache)) s;
     let va = (if va = 0 then val2 r else va);
     c_assert (val r \<noteq> 0);
     let s = kern0 E (Vspace (Reservation_set_type (val r) vtype)) s;
     let (a, s) = kern E (Obj Calloc) s;
     let (b, s) = kern E (Obj Calloc) s;
     if val a = 0 \<or> val b = 0 then Some (UNKNOWN_ERR, 0, s)
     else do {
       found \<leftarrow> resource_registry_insert_new_id (attach_map_get aid s) \<lparr>object_id = 0, count = 0, map_vaddr = va\<rparr>;
       (map_id, map_reg) \<leftarrow> found;
       let s = attach_map_set aid map_reg s;
       reg \<leftarrow> resource_registry_insert (attach_get aid s)
         (blank_attach\<lparr>object_id := va, res := val r, vaddr := va, map_entry := map_id, vmr_type := vtype,
           n_pages := pages, page_bits := bits, cacheable := cache, rights := rts\<rparr>);
       let s = attach_set aid reg s;
       (error, s) \<leftarrow> pd_add_resource_by_id E (rt_pd_id s) (make_res_id GPICAP_TYPE_VMR aid (ucast map_id))
         seL4_CapNull seL4_CapNull seL4_CapNull s;
       if error = 0 then Some (0, va, s)
       else do {
         node \<leftarrow> resource_registry_get_by_id (attach_get aid s) va;
         s \<leftarrow> attach_delete E od aid node s;
         Some (error, 0, s) } } }"

definition ads_get_res_by_type :: "ads_t \<Rightarrow> int \<Rightarrow> attach_node_t list" where
  "ads_get_res_by_type a vtype = filter (\<lambda>n. vmr_type n = vtype) (head (attach_registry a))"

text \<open>The loop over the frames; the capabilities copied so far are the accumulator.\<close>

fun copy_frame_caps_for_mapping ::
    "'w env \<Rightarrow> cptr list \<Rightarrow> cptr list \<Rightarrow> 'w gpi_server \<Rightarrow> int \<times> cptr list \<times> 'w gpi_server" where
  "copy_frame_caps_for_mapping E [] dest_caps s = (0, dest_caps, s)"
| "copy_frame_caps_for_mapping E (c # cs) dest_caps s =
     (let (r, s) = kern E (Cap (Vka_cspace_alloc Server_Vka)) s in
      if err r \<noteq> 0 then (err r, dest_caps, s)
      else
        (let (q, s) = kern E (Cap (Vka_cnode_copy (Server_Vka, val r) (Server_Vka, c))) s in
         if err q \<noteq> 0 then (err q, dest_caps, s)
         else copy_frame_caps_for_mapping E cs (dest_caps @ [val r]) s))"

definition attach_write :: "gpi_obj_id_t \<Rightarrow> u64 \<Rightarrow> (attach_node_t \<Rightarrow> attach_node_t) \<Rightarrow> 'w gpi_server \<Rightarrow> 'w gpi_server"
  where
  "attach_write aid va f s =
     attach_set aid ((attach_get aid s)\<lparr>head := node_update f (head (attach_get aid s)) va\<rparr>) s"

definition ads_attach_to_res ::
    "'w env \<Rightarrow> gpi_obj_id_t \<Rightarrow> u64 \<Rightarrow> u64 \<Rightarrow> mo_t \<Rightarrow> 'w gpi_server \<Rightarrow> (int \<times> 'w gpi_server) option" where
  "ads_attach_to_res E aid va offset m s = do {
     entry \<leftarrow> resource_component_registry_get_by_id ads_component aid s;
     reservation \<leftarrow> resource_registry_get_by_id (attach_get aid s) va;
     if mo_page_bits m \<noteq> page_bits reservation then Some (UNKNOWN_ERR, s)
     else do {
       let n = unat (num_pages m);
       let (a, s) = kern E (Obj Calloc) s;
       c_assert (n = 0 \<or> val a \<noteq> 0);
       c_assert (n \<le> length (frame_caps_in_root_task m));
       let (error, caps, s) = copy_frame_caps_for_mapping E (take n (frame_caps_in_root_task m)) [] s;
       let caps = caps @ replicate (n - length caps) 0;
       let s = attach_write aid va (\<lambda>x. x\<lparr>frame_caps := (if val a = 0 then None else Some caps)\<rparr>) s;
       if error \<noteq> 0 then Some (error, s)
       else do {
         let (r, s) = kern E (Vspace (Map_pages (vspace (ads entry)) caps (vaddr reservation + offset)
                        (num_pages m) (mo_page_bits m) (res reservation))) s;
         if err r \<noteq> 0 then Some (err r, s)
         else Some (resource_component_inc mo_component mo_component_update (mo_obj_id m)
           (attach_write aid va (\<lambda>x. x\<lparr>mo_attached := True, mo_offset := offset, mo_id := mo_obj_id m,
              n_frames := num_pages m\<rparr>) s)) } } }"

definition ads_attach ::
    "'w env \<Rightarrow> 'w hold_cb \<Rightarrow> gpi_obj_id_t \<Rightarrow> u64 \<Rightarrow> mo_t \<Rightarrow> bool \<Rightarrow> cap_rights \<Rightarrow> int \<Rightarrow> 'w gpi_server \<Rightarrow>
     (int \<times> u64 \<times> 'w gpi_server) option" where
  "ads_attach E od aid va m cache rts vtype s = do {
     (error, key, s) \<leftarrow> ads_reserve E od aid va (num_pages m) (mo_page_bits m) vtype cache rts s;
     if error \<noteq> 0 then Some (1, va, s)
     else do {
       (error, s) \<leftarrow> ads_attach_to_res E aid key 0 m s;
       if error \<noteq> 0 then Some (1, va, s)
       else do {
         node \<leftarrow> resource_registry_get_by_id (attach_get aid s) key;
         Some (0, vaddr node, s) } } }"

definition ads_component_attach ::
    "'w env \<Rightarrow> 'w hold_cb \<Rightarrow> gpi_obj_id_t \<Rightarrow> gpi_obj_id_t \<Rightarrow> int \<Rightarrow> u64 \<Rightarrow> 'w gpi_server \<Rightarrow>
     (int \<times> u64 \<times> 'w gpi_server) option" where
  "ads_component_attach E od aid mid vtype va s =
     (case resource_component_registry_get_by_id ads_component aid s of
        None \<Rightarrow> Some (UNKNOWN_ERR, va, s)
      | Some _ \<Rightarrow>
          (case resource_component_registry_get_by_id mo_component mid s of
             None \<Rightarrow> Some (UNKNOWN_ERR, va, s)
           | Some mo_reg \<Rightarrow>
               (let vtype = (if vtype \<le> RES_TYPE_NONE E \<or> vtype \<ge> RES_TYPE_MAX E then RES_TYPE_GENERIC E else vtype)
                in ads_attach E od aid va (mo mo_reg) True seL4_AllRights vtype s)))"

definition ads_component_attach_to_rt ::
    "'w env \<Rightarrow> 'w hold_cb \<Rightarrow> gpi_obj_id_t \<Rightarrow> 'w gpi_server \<Rightarrow> (int \<times> u64 \<times> 'w gpi_server) option" where
  "ads_component_attach_to_rt E od mid s =
     ads_component_attach E od (rt_ads_id s) mid (RES_TYPE_GENERIC E) 0 s"

subsection \<open>Copies\<close>

text \<open>The loop of \<open>ads_shallow_copy\<close> over the source regions, by their keys.\<close>

fun shallow_copy_loop ::
    "'w env \<Rightarrow> 'w hold_cb \<Rightarrow> gpi_obj_id_t \<Rightarrow> gpi_obj_id_t \<Rightarrow> u64 \<Rightarrow> bool \<Rightarrow> u64 list \<Rightarrow> 'w gpi_server \<Rightarrow>
     (int \<times> 'w gpi_server) option" where
  "shallow_copy_loop E od src dst dest_start single [] s = Some (0, s)"
| "shallow_copy_loop E od src dst dest_start single (k # ks) s = do {
     src_attach_node \<leftarrow> resource_registry_get_by_id (attach_get src s) k;
     let attach_vaddr = (if dest_start \<noteq> 0 \<and> single then dest_start else vaddr src_attach_node);
     (error, key, s) \<leftarrow> ads_reserve E od dst attach_vaddr (n_pages src_attach_node) (page_bits src_attach_node)
       (vmr_type src_attach_node) (cacheable src_attach_node) (rights src_attach_node) s;
     if error \<noteq> 0 then Some (error, s)
     else if \<not> mo_attached src_attach_node then Some (UNKNOWN_ERR, s)
     else
       (case resource_component_registry_get_by_id mo_component (mo_id src_attach_node) s of
          None \<Rightarrow> Some (UNKNOWN_ERR, s)
        | Some old_mo \<Rightarrow> do {
            (error, s) \<leftarrow> ads_attach_to_res E dst key (mo_offset src_attach_node) (mo old_mo) s;
            if error \<noteq> 0 then Some (error, s)
            else shallow_copy_loop E od src dst dest_start single ks s }) }"

definition ads_shallow_copy ::
    "'w env \<Rightarrow> 'w hold_cb \<Rightarrow> gpi_obj_id_t \<Rightarrow> gpi_obj_id_t \<Rightarrow> u64 \<Rightarrow> u64 \<Rightarrow> int \<Rightarrow> 'w gpi_server \<Rightarrow>
     (int \<times> 'w gpi_server) option" where
  "ads_shallow_copy E od src dst start dest_start vtype s =
     (if vtype \<le> RES_TYPE_NONE E \<or> vtype \<ge> RES_TYPE_MAX E then Some (UNKNOWN_ERR, s)
      else do {
        src_entry \<leftarrow> resource_component_registry_get_by_id ads_component src s;
        let src_attaches = (if start = 0 \<and> vtype \<noteq> RES_TYPE_SHARED_FRAMES E \<and> vtype \<noteq> RES_TYPE_GENERIC E
          then ads_get_res_by_type (ads src_entry) vtype
          else (case ads_get_res_by_vaddr (ads src_entry) start of None \<Rightarrow> [] | Some n \<Rightarrow> [n]));
        if src_attaches = [] then Some (UNKNOWN_ERR, s)
        else if length src_attaches > 1 \<and> dest_start \<noteq> 0 then Some (UNKNOWN_ERR, s)
        else shallow_copy_loop E od src dst dest_start (length src_attaches = 1) (keys src_attaches) s })"

subsection \<open>Allocation\<close>

definition create_vmr_space ::
    "'w env \<Rightarrow> gpi_obj_id_t \<Rightarrow> 'w gpi_server \<Rightarrow> (int \<times> gpi_space_id_t option \<times> 'w gpi_server) option" where
  "create_vmr_space E client_id s = do {
     (error, space_entry, cap, s) \<leftarrow> resspc_allocate E GPICAP_TYPE_VMR (server_ep_obj s) (rt_pd_id s) (rt_pd_id s) False s;
     if error \<noteq> 0 then Some (error, None, s)
     else do {
       sid \<leftarrow> space_entry;
       (error, s) \<leftarrow>
         (if client_id \<noteq> rt_pd_id s then
            (case pd_component_registry_get_entry_by_id client_id s of
               None \<Rightarrow> Some (UNKNOWN_ERR, s)
             | Some _ \<Rightarrow> on_pd client_id (pd_add_rde E GPICAP_TYPE_VMR ''VMR'' sid (server_ep (ads_component s))) s)
          else Some (0, s));
       if error \<noteq> 0 then Some (error, Some sid, s)
       else (let (error, s) = resspc_component_map_space sid (comp_space_id (mo_component s)) s
             in Some (error, Some sid, s)) } }"

definition ads_component_allocate ::
    "'w env \<Rightarrow> gpi_obj_id_t \<Rightarrow> 'w gpi_server \<Rightarrow> (int \<times> gpi_obj_id_t option \<times> cptr \<times> 'w gpi_server) option" where
  "ads_component_allocate E client_id s = do {
     (error, space_entry, s) \<leftarrow> create_vmr_space E client_id s;
     if error \<noteq> 0 then Some (error, None, 0, s)
     else do {
       sid \<leftarrow> space_entry;
       (error, new_entry, cap, s) \<leftarrow> resource_component_allocate E ads_component ads_component_update blank_ads
         (\<lambda>i e. e\<lparr>ads := (ads e)\<lparr>ads_id := i\<rparr>\<rparr>) (ads_new E) client_id sid False True s;
       if error \<noteq> 0 then Some (error, None, cap, s) else Some (0, new_entry, cap, s) } }"

subsection \<open>Requests\<close>

text \<open>A reply: the error code and the fields of the reply message, in their order; fields that are
  not written are 0.\<close>

record reply =
  errorCode :: int
  reply_fields :: "u64 list"

abbreviation error_reply :: "int \<Rightarrow> reply" where "error_reply e \<equiv> \<lparr>errorCode = e, reply_fields = []\<rparr>"

definition handle_ads_allocation :: "'w env \<Rightarrow> u64 \<Rightarrow> 'w gpi_server \<Rightarrow> (reply \<times> 'w gpi_server) option" where
  "handle_ads_allocation E badge s = do {
     (error, new_entry, ret_cap, s) \<leftarrow> ads_component_allocate E (get_client_id_from_badge badge) s;
     if error \<noteq> 0 then Some (error_reply error, s)
     else do { aid \<leftarrow> new_entry; Some (\<lparr>errorCode = 0, reply_fields = [ucast aid, ret_cap]\<rparr>, s) } }"

definition DIV_ROUND_UP :: "u64 \<Rightarrow> u64 \<Rightarrow> u64" where
  "DIV_ROUND_UP n d = (n + d - 1) div d"

definition handle_vmr_reserve_req ::
    "'w env \<Rightarrow> 'w hold_cb \<Rightarrow> u64 \<Rightarrow> u64 \<Rightarrow> u64 \<Rightarrow> u64 \<Rightarrow> int \<Rightarrow> 'w gpi_server \<Rightarrow> (reply \<times> 'w gpi_server) option" where
  "handle_vmr_reserve_req E od badge va bytes bits vtype s =
     (let client_id = get_client_id_from_badge badge;
          pages = (ucast (DIV_ROUND_UP bytes (2 ^ unat bits)) :: u32);
          aid = get_space_id_from_badge badge in
      case resource_component_registry_get_by_id ads_component aid s of
        None \<Rightarrow> Some (error_reply UNKNOWN_ERR, s)
      | Some _ \<Rightarrow>
          (case pd_component_registry_get_entry_by_id client_id s of
             None \<Rightarrow> Some (error_reply UNKNOWN_ERR, s)
           | Some pd_data \<Rightarrow> do {
               (error, key, s) \<leftarrow> ads_reserve E od aid va pages bits vtype True seL4_AllRights s;
               if error \<noteq> 0 then Some (error_reply error, s)
               else do {
                 reservation \<leftarrow> resource_registry_get_by_id (attach_get aid s) key;
                 (ret_cap, w) \<leftarrow> resource_component_make_badged_ep E Server_Vka (pd_vka (pd pd_data))
                   (server_ep (ads_component s)) GPICAP_TYPE_VMR aid (ucast (map_entry reservation)) client_id (world s);
                 let s = s\<lparr>world := w\<rparr>;
                 if ret_cap = seL4_CapNull then Some (error_reply UNKNOWN_ERR, s)
                 else Some (\<lparr>errorCode = 0, reply_fields = [vaddr reservation, ret_cap]\<rparr>, s) } }))"

definition handle_vmr_attach_no_reserve_req ::
    "'w env \<Rightarrow> 'w hold_cb \<Rightarrow> ipc \<Rightarrow> u64 \<Rightarrow> u64 \<Rightarrow> int \<Rightarrow> 'w gpi_server \<Rightarrow> (reply \<times> 'w gpi_server) option" where
  "handle_vmr_attach_no_reserve_req E od m badge va vtype s =
     (if \<not> sel4gpi_rpc_check_cap m GPICAP_TYPE_MO then Some (error_reply UNKNOWN_ERR, s)
      else
        (let mo_badge = seL4_GetBadge m 0;
             mid = get_object_id_from_badge mo_badge;
             aid = get_space_id_from_badge badge in
         if get_cap_type_from_badge mo_badge \<noteq> GPICAP_TYPE_MO then Some (error_reply UNKNOWN_ERR, s)
         else do {
           (error, va, s) \<leftarrow> ads_component_attach E od aid mid vtype va s;
           Some (\<lparr>errorCode = error, reply_fields = [va]\<rparr>, s) }))"

definition handle_vmr_attach_req ::
    "'w env \<Rightarrow> ipc \<Rightarrow> u64 \<Rightarrow> u64 \<Rightarrow> 'w gpi_server \<Rightarrow> (reply \<times> 'w gpi_server) option" where
  "handle_vmr_attach_req E m badge offset s =
     (if \<not> sel4gpi_rpc_check_cap m GPICAP_TYPE_MO then Some (error_reply UNKNOWN_ERR, s)
      else
        (let reservation_id = get_object_id_from_badge badge;
             mo_badge = seL4_GetBadge m 0;
             mid = get_object_id_from_badge mo_badge;
             aid = get_space_id_from_badge badge in
         if get_cap_type_from_badge mo_badge \<noteq> GPICAP_TYPE_MO then Some (error_reply UNKNOWN_ERR, s)
         else
           (case resource_component_registry_get_by_id ads_component aid s of
              None \<Rightarrow> Some (error_reply UNKNOWN_ERR, s)
            | Some ads_entry \<Rightarrow>
                (case (resource_component_registry_get_by_id mo_component mid s,
                       ads_get_res_by_id (ads ads_entry) reservation_id) of
                   (Some mo_reg, Some reservation) \<Rightarrow> do {
                     (error, s) \<leftarrow> ads_attach_to_res E aid (object_id reservation) offset (mo mo_reg) s;
                     Some (error_reply error, s) }
                 | _ \<Rightarrow> Some (error_reply UNKNOWN_ERR, s)))))"

definition handle_vmr_delete_by_vaddr_req ::
    "'w env \<Rightarrow> 'w hold_cb \<Rightarrow> u64 \<Rightarrow> u64 \<Rightarrow> 'w gpi_server \<Rightarrow> (reply \<times> 'w gpi_server) option" where
  "handle_vmr_delete_by_vaddr_req E od badge va s = do {
     (error, s) \<leftarrow> ads_component_rm_by_vaddr E od (get_space_id_from_badge badge) va s;
     Some (error_reply error, s) }"

definition handle_vmr_delete_req ::
    "'w env \<Rightarrow> 'w hold_cb \<Rightarrow> u64 \<Rightarrow> 'w gpi_server \<Rightarrow> (reply \<times> 'w gpi_server) option" where
  "handle_vmr_delete_req E od badge s = do {
     (error, s) \<leftarrow> ads_component_rm_by_id E od (get_space_id_from_badge badge) (get_object_id_from_badge badge) s;
     Some (error_reply error, s) }"

text \<open>Not implemented: the handler stops the program.\<close>

definition handle_vmr_disconnect_req :: "u64 \<Rightarrow> 'w gpi_server \<Rightarrow> (reply \<times> 'w gpi_server) option" where
  "handle_vmr_disconnect_req badge s = None"

definition handle_copy_req ::
    "'w env \<Rightarrow> 'w hold_cb \<Rightarrow> ipc \<Rightarrow> u64 \<Rightarrow> u64 \<Rightarrow> u64 \<Rightarrow> int \<Rightarrow> 'w gpi_server \<Rightarrow> (reply \<times> 'w gpi_server) option" where
  "handle_copy_req E od m badge src_vaddr dest_vaddr vtype s =
     (if \<not> sel4gpi_rpc_check_cap m GPICAP_TYPE_ADS then Some (error_reply UNKNOWN_ERR, s)
      else
        (case resource_component_registry_get_by_badge ads_component badge s of
           None \<Rightarrow> Some (error_reply UNKNOWN_ERR, s)
         | Some src_ads \<Rightarrow> do {
             let dst_badge = seL4_GetBadge m 0;
             c_assert (get_cap_type_from_badge dst_badge = GPICAP_TYPE_ADS);
             case resource_component_registry_get_by_badge ads_component dst_badge s of
               None \<Rightarrow> Some (error_reply UNKNOWN_ERR, s)
             | Some dst_ads \<Rightarrow> do {
                 (error, s) \<leftarrow> ads_shallow_copy E od (ads_id (ads src_ads)) (ads_id (ads dst_ads)) src_vaddr
                   dest_vaddr vtype s;
                 Some (error_reply error, s) } }))"

definition handle_get_res_request :: "u64 \<Rightarrow> int \<Rightarrow> 'w gpi_server \<Rightarrow> reply" where
  "handle_get_res_request badge vtype s =
     (case resource_component_registry_get_by_badge ads_component badge s of
        None \<Rightarrow> error_reply UNKNOWN_ERR
      | Some target_ads \<Rightarrow>
          (case ads_get_res_by_type (ads target_ads) vtype of
             [] \<Rightarrow> error_reply 0
           | r # _ \<Rightarrow> \<lparr>errorCode = 0, reply_fields = [vaddr r, ucast (n_pages r), page_bits r]\<rparr>))"

definition handle_disconnect_request ::
    "'w hold_cb \<Rightarrow> u64 \<Rightarrow> 'w gpi_server \<Rightarrow> (reply \<times> 'w gpi_server) option" where
  "handle_disconnect_request od badge s =
     (let client_id = get_client_id_from_badge badge in
      case pd_component_registry_get_entry_by_id client_id s of
        None \<Rightarrow> Some (error_reply UNKNOWN_ERR, s)
      | Some _ \<Rightarrow> do {
          (error, s) \<leftarrow> pd_remove_resource od client_id
            (make_res_id GPICAP_TYPE_ADS (comp_space_id (ads_component s)) (get_object_id_from_badge badge)) s;
          Some (error_reply error, s) })"

end
