(* ===== verification/Pd_Component.thy ===== *)
theory Pd_Component
  imports Ads_Component
begin

section \<open>Requests to protection domains (pd\_component.c, pd\_obj.c)\<close>

text \<open>
  Creating a PD, sending capabilities to it, sharing directory entries and resources, the queue of
  work for resource servers and the three operations that wait for them: sending a resource,
  terminating a PD and extracting the model. \<open>n\<close> bounds the recursions of the clean-up code.
\<close>

subsection \<open>Creation\<close>

text \<open>The shared data is in a memory object that the client provides: the root task finds there what
  the client has written, and overwrites only the directory, its counter and the ID of the PD.\<close>

definition pd_new ::
    "'w env \<Rightarrow> 'w hold_cb \<Rightarrow> gpi_obj_id_t option \<Rightarrow> gpi_obj_id_t \<Rightarrow> 'w gpi_server \<Rightarrow> (int \<times> 'w gpi_server) option" where
  "pd_new E od osm_data_mo pid s = (case osm_data_mo of
       None \<Rightarrow> Some (UNKNOWN_ERR, s)
     | Some mid \<Rightarrow> do {
         let s = pd_write pid (\<lambda>p. p\<lparr>shared_data_mo_id := mid\<rparr>) s;
         (error, va, s) \<leftarrow> ads_component_attach_to_rt E od mid s;
         if error \<noteq> 0 then Some (error, s)
         else do {
           let s = pd_write pid (\<lambda>p. pd_initialize_registries (p\<lparr>shared_data := va\<rparr>)) s;
           let s = pd_write pid (\<lambda>p. p\<lparr>shared := (mo_contents E mid (world s))\<lparr>rde_count := 0,
             rde := replicate (unat GPICAP_TYPE_MAX) (replicate MAX_NS_PER_RDE empty_rde),
             pd_conn_id := pd_id p\<rparr>\<rparr>) s;
           (error, s) \<leftarrow> on_pd pid (pd_setup_cspace E) s;
           if error \<noteq> 0 then Some (error, s)
           else do {
             let s = pd_write pid (pd_set_name ''PD'') s;
             let (r, s) = kern E (Obj Vka_alloc_notification) s;
             if err r \<noteq> 0 then Some (err r, s)
             else do {
               let s = pd_write pid (\<lambda>p. p\<lparr>notification := val r\<rparr>) s;
               let (dest, s) = kern E (Cap (Vka_cspace_alloc Server_Vka)) s;
               if err dest \<noteq> 0 then Some (err dest, s)
               else do {
                 let (q, s) = kern E (Cap (Vka_cnode_mint (Server_Vka, val dest) (Server_Vka, val r)
                                seL4_NoRead NOTIF_BADGE)) s;
                 if err q \<noteq> 0 then Some (err q, s)
                 else Some (0, pd_write pid (\<lambda>p. p\<lparr>badged_notification := val dest\<rparr>) s) } } } } })"

definition pd_component_allocate ::
    "'w env \<Rightarrow> 'w hold_cb \<Rightarrow> gpi_obj_id_t \<Rightarrow> gpi_obj_id_t option \<Rightarrow> 'w gpi_server \<Rightarrow>
     (int \<times> gpi_obj_id_t option \<times> cptr \<times> 'w gpi_server) option" where
  "pd_component_allocate E od client_id init_data_mo s = do {
     (error, new_entry, ret_cap, s) \<leftarrow> resource_component_allocate E pd_component pd_component_update blank_pd
       (\<lambda>i e. e\<lparr>pd := (pd e)\<lparr>pd_id := i\<rparr>\<rparr>) (pd_new E od init_data_mo) client_id BADGE_OBJ_ID_NULL False True s;
     if error \<noteq> 0 then Some (error, None, ret_cap, s)
     else do {
       pid \<leftarrow> new_entry;
       Some (0, Some pid, ret_cap,
         entry_update pd_component_update (\<lambda>e. e\<lparr>pending_work := (\<lambda>_. Some [])\<rparr>) pid s) } }"

definition handle_pd_allocation ::
    "'w env \<Rightarrow> 'w hold_cb \<Rightarrow> ipc \<Rightarrow> u64 \<Rightarrow> 'w gpi_server \<Rightarrow> (reply \<times> 'w gpi_server) option" where
  "handle_pd_allocation E od m badge s =
     (if \<not> sel4gpi_rpc_check_cap m GPICAP_TYPE_MO then Some (error_reply UNKNOWN_ERR, s)
      else
        (case resource_component_registry_get_by_badge mo_component (seL4_GetBadge m 0) s of
           None \<Rightarrow> Some (error_reply UNKNOWN_ERR, s)
         | Some osm_mo_entry \<Rightarrow> do {
             (error, new_entry, ret_cap, s) \<leftarrow> pd_component_allocate E od (get_client_id_from_badge badge)
               (Some (mo_obj_id (mo osm_mo_entry))) s;
             if error \<noteq> 0 then Some (error_reply error, s)
             else do { pid \<leftarrow> new_entry; Some (\<lparr>errorCode = 0, reply_fields = [ret_cap, ucast pid]\<rparr>, s) } }))"

subsection \<open>Termination\<close>

text \<open>The results are the reply and whether to send it. A saved reply capability is answered later.\<close>

definition handle_terminate_req ::
    "'w env \<Rightarrow> nat \<Rightarrow> u64 \<Rightarrow> 'w gpi_server \<Rightarrow> (reply \<times> bool \<times> 'w gpi_server) option" where
  "handle_terminate_req E n badge s =
     (if pending_termination s then
        Some (error_reply PdComponentError_OPERATION_IN_PROGRESS, True, s\<lparr>starting_termination := False\<rparr>)
      else
        (case pd_component_registry_get_entry_by_badge badge s of
           None \<Rightarrow> Some (error_reply UNKNOWN_ERR, True, s\<lparr>starting_termination := False\<rparr>)
         | Some _ \<Rightarrow> do {
             (error, s) \<leftarrow> pd_component_terminate E n (get_object_id_from_badge badge)
               (s\<lparr>starting_termination := True\<rparr>);
             if error \<noteq> 0 then Some (error_reply error, True, s\<lparr>starting_termination := False\<rparr>)
             else if pd_termination_n_missing s > 0 then
               (let (r, s) = kern E (Cap (Vka_cspace_alloc Server_Vka)) s;
                    s = kern0 E (Ipc (SaveCaller (val r))) s
                in Some (error_reply 0, False, s\<lparr>pd_termination_reply := val r, pending_termination := True,
                     starting_termination := False\<rparr>))
             else Some (error_reply 0, True, s\<lparr>starting_termination := False\<rparr>) }))"

definition handle_exit_req ::
    "'w env \<Rightarrow> nat \<Rightarrow> u64 \<Rightarrow> int \<Rightarrow> 'w gpi_server \<Rightarrow> 'w gpi_server option" where
  "handle_exit_req E n badge code s =
     (case pd_component_registry_get_entry_by_badge badge s of
        None \<Rightarrow> Some s
      | Some client_data \<Rightarrow> do {
          let pid = ucast (object_id client_data);
          let s = pd_write pid (\<lambda>p. p\<lparr>exit_code := code, deletion_depth := 0\<rparr>) s;
          let s = kern0 E (Ipc Mutex_lock) s;
          e \<leftarrow> pd_component_registry_get_entry_by_id pid s;
          s \<leftarrow> pd_registry_delete E n e s;
          Some (kern0 E (Ipc Mutex_unlock) s) })"

subsection \<open>Slots\<close>

definition handle_next_slot_req :: "'w env \<Rightarrow> u64 \<Rightarrow> 'w gpi_server \<Rightarrow> (reply \<times> 'w gpi_server) option" where
  "handle_next_slot_req E badge s =
     (case pd_component_registry_get_entry_by_badge badge s of
        None \<Rightarrow> Some (error_reply UNKNOWN_ERR, s)
      | Some client_data \<Rightarrow> do {
          ((error, slot), s) \<leftarrow> on_pd (ucast (object_id client_data)) (pd_next_slot E) s;
          Some (\<lparr>errorCode = error, reply_fields = [slot]\<rparr>, s) })"

definition handle_free_slot_req :: "'w env \<Rightarrow> u64 \<Rightarrow> cptr \<Rightarrow> 'w gpi_server \<Rightarrow> (reply \<times> 'w gpi_server) option" where
  "handle_free_slot_req E badge slot s =
     (case pd_component_registry_get_entry_by_badge badge s of
        None \<Rightarrow> Some (error_reply UNKNOWN_ERR, s)
      | Some client_data \<Rightarrow> do {
          (ignored, s) \<leftarrow> on_pd (ucast (object_id client_data)) (pd_clear_slot E slot) s;
          (error, s) \<leftarrow> on_pd (ucast (object_id client_data)) (pd_free_slot E slot) s;
          Some (error_reply error, s) })"

definition handle_clear_slot_req :: "'w env \<Rightarrow> u64 \<Rightarrow> cptr \<Rightarrow> 'w gpi_server \<Rightarrow> (reply \<times> 'w gpi_server) option" where
  "handle_clear_slot_req E badge slot s =
     (case pd_component_registry_get_entry_by_badge badge s of
        None \<Rightarrow> Some (error_reply UNKNOWN_ERR, s)
      | Some client_data \<Rightarrow> do {
          (error, s) \<leftarrow> on_pd (ucast (object_id client_data)) (pd_clear_slot E slot) s;
          Some (error_reply error, s) })"

subsection \<open>Sending capabilities\<close>

text \<open>Storing a new core capability of a PD; the reference on the old object is given back and the
  result of that is ignored.\<close>

definition pd_set_core_cap ::
    "'w env \<Rightarrow> 'w hold_cb \<Rightarrow> gpi_obj_id_t \<Rightarrow> u64 \<Rightarrow> cptr \<Rightarrow> 'w gpi_server \<Rightarrow> (int \<times> 'w gpi_server) option" where
  "pd_set_core_cap E od pid badge core_cap s = do {
     e \<leftarrow> pd_component_registry_get_entry_by_id pid s;
     c_assert (shared_data (pd e) \<noteq> 0);
     let t = get_cap_type_from_badge badge;
     let cap_id = get_object_id_from_badge badge;
     let sh = shared (pd e);
     let wr = (\<lambda>f. pd_write pid (\<lambda>p. p\<lparr>shared := f (shared p)\<rparr>));
     if t = GPICAP_TYPE_ADS then do {
       let s = wr (\<lambda>x. x\<lparr>ads_conn_id := cap_id, ads_conn_ep := core_cap\<rparr>) s;
       if ads_conn_id sh > 0 then do { (ignored, s) \<leftarrow> ads_dec E od (ads_conn_id sh) s; Some (0, s) } else Some (0, s) }
     else if t = GPICAP_TYPE_PD then Some (0, wr (\<lambda>x. x\<lparr>pd_conn_id := cap_id, pd_conn_ep := core_cap\<rparr>) s)
     else if t = GPICAP_TYPE_CPU then do {
       let s = wr (\<lambda>x. x\<lparr>cpu_conn_id := cap_id, cpu_conn_ep := core_cap\<rparr>) s;
       if cpu_conn_id sh > 0 then do { (ignored, s) \<leftarrow> cpu_dec E od (cpu_conn_id sh) s; Some (0, s) } else Some (0, s) }
     else if t = GPICAP_TYPE_EP then
       (if fault_ep sh \<noteq> seL4_CapNull then Some (UNKNOWN_ERR, s)
        else Some (0, wr (\<lambda>x. x\<lparr>fault_ep := core_cap\<rparr>) s))
     else Some (UNKNOWN_ERR, s) }"

text \<open>Where the capability that is badged for the target comes from: a core component, after taking
  a reference, or the resource server of the sender's resource, which is told about it. The results
  are an early error, the source (\<open>None\<close> for a capability that is not tracked) and whether work is
  pending.\<close>

definition send_cap_source ::
    "'w env \<Rightarrow> gpi_obj_id_t \<Rightarrow> gpi_obj_id_t option \<Rightarrow> cptr \<Rightarrow> u64 \<Rightarrow> bool \<Rightarrow> 'w gpi_server \<Rightarrow>
     (int \<times> cptr option \<times> bool \<times> 'w gpi_server) option" where
  "send_cap_source E to_pd from_pd from_slot badge inc_refcount s =
     (let t = get_cap_type_from_badge badge;
          core = (\<lambda>c src. Some (0, Some src, False,
            if inc_refcount then snd (component_inc c (get_object_id_from_badge badge) s) else s)) in
      if t = GPICAP_TYPE_ADS then core Ads_Component (server_ep (ads_component s))
      else if t = GPICAP_TYPE_MO then core Mo_Component (server_ep (mo_component s))
      else if t = GPICAP_TYPE_CPU then core Cpu_Component (server_ep (cpu_component s))
      else if t = GPICAP_TYPE_PD then core Pd_Component (server_ep (pd_component s))
      else if t = GPICAP_TYPE_EP then core Ep_Component (server_ep (ep_component s))
      else do {
        from_id \<leftarrow> from_pd;
        from_entry \<leftarrow> pd_component_registry_get_entry_by_id from_id s;
        case pd_find_hold_node_by_cptr (pd from_entry) from_slot of
          None \<Rightarrow> Some (0, None, False, s)
        | Some current_cap \<Rightarrow>
            if pending_send_resource s then Some (PdComponentError_OPERATION_IN_PROGRESS, None, False, s)
            else
              (case resource_space_get_entry_by_id (res_space_id (res_id current_cap)) s of
                 None \<Rightarrow> Some (UNKNOWN_ERR, None, False, s)
               | Some space_entry \<Rightarrow>
                   (case pd_component_registry_get_entry_by_id (space_pd_id (space space_entry)) s of
                      None \<Rightarrow> Some (UNKNOWN_ERR, None, False, s)
                    | Some server_data \<Rightarrow>
                        (let (r, s) = kern E (Obj Calloc) s in
                         if val r = 0 then Some (UNKNOWN_ERR, None, False, s)
                         else do {
                           s \<leftarrow> pd_component_queue_notify_send_work E (space_pd_id (space space_entry))
                             \<lparr>work_res_id = res_id current_cap, client_pd_id = to_pd, is_critical = False\<rparr> s;
                           Some (0, Some (space_server_ep (space space_entry)), True, s) }))) })"

text \<open>Both callers pass a pointer for the slot, so the first check of the source never fires. The
  results are the error, the slot and whether work is pending.\<close>

definition pd_send_cap ::
    "'w env \<Rightarrow> 'w hold_cb \<Rightarrow> gpi_obj_id_t \<Rightarrow> gpi_obj_id_t option \<Rightarrow> cptr \<Rightarrow> cptr \<Rightarrow> u64 \<Rightarrow> bool \<Rightarrow> bool \<Rightarrow>
     'w gpi_server \<Rightarrow> (int \<times> cptr \<times> bool \<times> 'w gpi_server) option" where
  "pd_send_cap E od to_pd from_pd from_slot cap badge inc_refcount update_core_cap s = do {
     (error, source, pending, s) \<leftarrow> send_cap_source E to_pd from_pd from_slot badge inc_refcount s;
     if error \<noteq> 0 then Some (error, 0, pending, s)
     else (case source of
         Some src_cap \<Rightarrow> do {
           let rid = make_res_id (get_cap_type_from_badge badge) (get_space_id_from_badge badge)
                       (get_object_id_from_badge badge);
           ((error, new_cap), s) \<leftarrow> on_pd to_pd (pd_badge_and_add_resource E rid src_cap) s;
           if new_cap = seL4_CapNull then Some (UNKNOWN_ERR, 0, pending, s)
           else do {
             (error, s) \<leftarrow> (if update_core_cap then pd_set_core_cap E od to_pd badge new_cap s else Some (error, s));
             Some (error, new_cap, pending, s) } }
       | None \<Rightarrow> do {
           to_entry \<leftarrow> pd_component_registry_get_entry_by_id to_pd s;
           let (error, dest, w) = resource_component_transfer_cap E Server_Vka (pd_vka (pd to_entry)) cap False 0
                                    (world s);
           Some (error, if error = 0 then dest else 0, pending, s\<lparr>world := w\<rparr>) }) }"

definition handle_send_cap_req ::
    "'w env \<Rightarrow> 'w hold_cb \<Rightarrow> ipc \<Rightarrow> u64 \<Rightarrow> cptr \<Rightarrow> cptr \<Rightarrow> bool \<Rightarrow> 'w gpi_server \<Rightarrow>
     (reply \<times> bool \<times> 'w gpi_server) option" where
  "handle_send_cap_req E od m badge received_cap slot is_core_cap s =
     (let client_id = get_client_id_from_badge badge; target_id = get_object_id_from_badge badge in
      case (pd_component_registry_get_entry_by_id client_id s, pd_component_registry_get_entry_by_id target_id s) of
        (Some _, Some _) \<Rightarrow> do {
          (error, new_slot, async, s) \<leftarrow> pd_send_cap E od target_id (Some client_id) slot received_cap
            (seL4_GetBadge m 0) True is_core_cap s;
          if async \<and> error = 0 then
            (let (r, s) = kern E (Cap (Vka_cspace_alloc Server_Vka)) (s\<lparr>pending_send_resource := True\<rparr>);
                 s = kern0 E (Ipc (SaveCaller (val r))) s
             in Some (error_reply 0, False, s\<lparr>send_resource_reply := val r\<rparr>))
          else Some (\<lparr>errorCode = error, reply_fields = [new_slot]\<rparr>, True, s) }
      | _ \<Rightarrow> Some (error_reply UNKNOWN_ERR, True, s))"

subsection \<open>The resource directory\<close>

definition handle_share_rde_req ::
    "'w env \<Rightarrow> u64 \<Rightarrow> gpi_cap_t \<Rightarrow> gpi_space_id_t \<Rightarrow> 'w gpi_server \<Rightarrow> (reply \<times> 'w gpi_server) option" where
  "handle_share_rde_req E badge type sid s =
     (case (pd_component_registry_get_entry_by_id (get_client_id_from_badge badge) s,
            pd_component_registry_get_entry_by_badge badge s) of
        (Some client_data, Some target_data) \<Rightarrow> do {
          r \<leftarrow> pd_rde_get (pd client_data) type sid;
          case r of
            None \<Rightarrow> Some (error_reply UNKNOWN_ERR, s)
          | Some r \<Rightarrow> do {
              target_rde \<leftarrow> pd_rde_get (pd target_data) type sid;
              if target_rde \<noteq> None then Some (error_reply 0, s)
              else
                (case resource_space_get_entry_by_id (rde_space_id r) s of
                   None \<Rightarrow> Some (error_reply UNKNOWN_ERR, s)
                 | Some space_data \<Rightarrow> do {
                     (error, s) \<leftarrow> on_pd (ucast (object_id target_data)) (pd_add_rde E type
                       (type_names (shared (pd client_data)) ! unat type) (rde_space_id r)
                       (space_server_ep (space space_data))) s;
                     Some (error_reply error, s) }) } }
      | _ \<Rightarrow> Some (error_reply UNKNOWN_ERR, s))"

definition handle_remove_rde_req ::
    "'w env \<Rightarrow> u64 \<Rightarrow> gpi_cap_t \<Rightarrow> gpi_space_id_t \<Rightarrow> 'w gpi_server \<Rightarrow> (reply \<times> 'w gpi_server) option" where
  "handle_remove_rde_req E badge type sid s =
     (case pd_component_registry_get_entry_by_badge badge s of
        None \<Rightarrow> Some (error_reply UNKNOWN_ERR, s)
      | Some target_data \<Rightarrow> do {
          (error, s) \<leftarrow> on_pd (ucast (object_id target_data)) (pd_remove_rde E type sid) s;
          Some (error_reply error, s) })"

subsection \<open>Sharing resources\<close>

definition handle_give_resource_req ::
    "'w env \<Rightarrow> u64 \<Rightarrow> gpi_obj_id_t \<Rightarrow> gpi_space_id_t \<Rightarrow> gpi_obj_id_t \<Rightarrow> 'w gpi_server \<Rightarrow>
     (reply \<times> 'w gpi_server) option" where
  "handle_give_resource_req E badge recipient_id sid resource_id s =
     (let server_id = get_object_id_from_badge badge in
      case (pd_component_registry_get_entry_by_id server_id s, pd_component_registry_get_entry_by_id recipient_id s,
            resource_space_get_entry_by_id sid s) of
        (Some server_data, Some _, Some space_data) \<Rightarrow> do {
          res_node_id \<leftarrow> compact_res_id (resource_type (space space_data)) sid resource_id;
          case resource_registry_get_by_id (hold_registry (pd server_data)) res_node_id of
            None \<Rightarrow> Some (error_reply UNKNOWN_ERR, s)
          | Some _ \<Rightarrow> do {
              ((error, dest), s) \<leftarrow> on_pd recipient_id (pd_badge_and_add_resource E
                (make_res_id (resource_type (space space_data)) sid resource_id)
                (space_server_ep (space space_data))) s;
              if error \<noteq> 0 then Some (error_reply error, s)
              else Some (\<lparr>errorCode = 0, reply_fields = [dest]\<rparr>, s) } }
      | _ \<Rightarrow> Some (error_reply UNKNOWN_ERR, s))"

text \<open>The error of the last addition is the result; the others are only reported. A resource of a
  type below \<open>GPICAP_TYPE_MAX\<close> with no component is a NULL component that is dereferenced.\<close>

fun pd_bulk_add_resource ::
    "'w env \<Rightarrow> gpi_obj_id_t \<Rightarrow> pd_hold_node_t list \<Rightarrow> int \<Rightarrow> 'w gpi_server \<Rightarrow> (int \<times> 'w gpi_server) option" where
  "pd_bulk_add_resource E pid [] error s = Some (error, s)"
| "pd_bulk_add_resource E pid (n # ns) error s = do {
     space_data \<leftarrow> resource_space_get_entry_by_id (res_space_id (res_id n)) s;
     ((error, dest), s) \<leftarrow> on_pd pid (pd_badge_and_add_resource E (res_id n) (space_server_ep (space space_data))) s;
     s \<leftarrow> (if res_type (res_id n) > GPICAP_TYPE_NONE \<and> res_type (res_id n) < GPICAP_TYPE_MAX then do {
         c \<leftarrow> resource_component_get_context_from_type (res_type (res_id n));
         Some (snd (component_inc c (res_object_id (res_id n)) s)) }
       else Some s);
     pd_bulk_add_resource E pid ns error s }"

text \<open>When one of the first checks fails the source reads the uninitialized list: \<open>None\<close>.\<close>

definition handle_share_resource_type_req ::
    "'w env \<Rightarrow> ipc \<Rightarrow> u64 \<Rightarrow> gpi_cap_t \<Rightarrow> 'w gpi_server \<Rightarrow> (reply \<times> 'w gpi_server) option" where
  "handle_share_resource_type_req E m badge type s = do {
     c_assert (sel4gpi_rpc_check_cap m GPICAP_TYPE_PD);
     src_pd_data \<leftarrow> pd_component_registry_get_entry_by_badge badge s;
     dst_pd_data \<leftarrow> pd_component_registry_get_entry_by_badge (seL4_GetBadge m 0) s;
     c_assert (pd_id (pd src_pd_data) \<noteq> pd_id (pd dst_pd_data));
     c_assert (\<not> (type \<noteq> GPICAP_TYPE_MO \<and> type < GPICAP_TYPE_seL4));
     let resources = pd_get_resources_of_type (pd src_pd_data) type;
     (error, s) \<leftarrow> pd_bulk_add_resource E (ucast (object_id dst_pd_data)) resources 0 s;
     Some (error_reply error, s) }"

subsection \<open>Work for resource servers\<close>

text \<open>The number of object IDs in a reply (the definition of the RPC message).\<close>

definition WORK_BATCH :: nat where "WORK_BATCH = 16"

definition work_action_code :: "PdWorkAction \<Rightarrow> u64" where
  "work_action_code a = (case a of EXTRACT \<Rightarrow> 0 | SEND \<Rightarrow> 1 | FREE \<Rightarrow> 2 | DESTROY \<Rightarrow> 3)"

datatype work_reply = NO_WORK | Work PdWorkAction "pd_work_entry_t list"

text \<open>The actions in the order of their priority; the first list with content is served.\<close>

fun pick_work ::
    "PdWorkAction list \<Rightarrow> pd_component_registry_entry_t \<Rightarrow> (work_reply \<times> pd_component_registry_entry_t) option" where
  "pick_work [] e = Some (NO_WORK, e)"
| "pick_work (a # as) e = do {
     xs \<leftarrow> pending_work e a;
     if xs = [] then pick_work as e
     else Some (Work a (take WORK_BATCH xs), e\<lparr>pending_work := (pending_work e)(a := Some (drop WORK_BATCH xs))\<rparr>) }"

definition handle_get_work_req ::
    "u64 \<Rightarrow> 'w gpi_server \<Rightarrow> (int \<times> work_reply \<times> 'w gpi_server) option" where
  "handle_get_work_req badge s =
     (case pd_component_registry_get_entry_by_badge badge s of
        None \<Rightarrow> Some (UNKNOWN_ERR, NO_WORK, s)
      | Some pd_data \<Rightarrow>
          if get_client_id_from_badge badge \<noteq> get_object_id_from_badge badge then Some (UNKNOWN_ERR, NO_WORK, s)
          else do {
            (w, e) \<leftarrow> pick_work [EXTRACT, SEND, FREE, DESTROY] pd_data;
            Some (0, w, entry_update pd_component_update (\<lambda>_. e) (ucast (object_id pd_data)) s) })"

definition reply_to_saved :: "'w env \<Rightarrow> cptr \<Rightarrow> 'w gpi_server \<Rightarrow> 'w gpi_server" where
  "reply_to_saved E cap s = kern_seq E [Ipc (Rpc_reply GPICAP_TYPE_PD), Ipc (Send_reply cap 0),
     Cap (Vka_cspace_free Server_Vka cap)] s"

text \<open>The counter is a C \<open>int\<close> that is compared with and reduced by a 32-bit unsigned number.\<close>

definition handle_finish_work_req ::
    "'w env \<Rightarrow> PdWorkAction option \<Rightarrow> u32 \<Rightarrow> 'w gpi_server \<Rightarrow> reply \<times> 'w gpi_server" where
  "handle_finish_work_req E work_type n_critical s = (case work_type of
       Some SEND \<Rightarrow>
         if \<not> pending_send_resource s then (error_reply 0, s)
         else (error_reply 0, reply_to_saved E (send_resource_reply s) (s\<lparr>pending_send_resource := False\<rparr>))
     | Some EXTRACT \<Rightarrow> (error_reply UNKNOWN_ERR, s)
     | None \<Rightarrow> (error_reply UNKNOWN_ERR, s)
     | _ \<Rightarrow>
         if \<not> pending_termination s then (error_reply 0, s)
         else
           (let s = s\<lparr>pd_termination_n_missing :=
                  (if n_critical > word_of_int (pd_termination_n_missing s) then 0
                   else sint (word_of_int (pd_termination_n_missing s) - n_critical))\<rparr>
            in if pd_termination_n_missing s = 0
               then (error_reply 0, reply_to_saved E (pd_termination_reply s) (s\<lparr>pending_termination := False\<rparr>))
               else (error_reply 0, s)))"

subsection \<open>Other requests\<close>

definition handle_set_name_req :: "u64 \<Rightarrow> string \<Rightarrow> 'w gpi_server \<Rightarrow> reply \<times> 'w gpi_server" where
  "handle_set_name_req badge name s =
     (case pd_component_registry_get_entry_by_badge badge s of
        None \<Rightarrow> (error_reply UNKNOWN_ERR, s)
      | Some pd_data \<Rightarrow> (error_reply 0, pd_write (ucast (object_id pd_data)) (pd_set_name name) s))"

definition handle_link_child_req ::
    "'w env \<Rightarrow> ipc \<Rightarrow> u64 \<Rightarrow> 'w gpi_server \<Rightarrow> (reply \<times> 'w gpi_server) option" where
  "handle_link_child_req E m badge s =
     (case (pd_component_registry_get_entry_by_badge badge s,
            pd_component_registry_get_entry_by_badge (seL4_GetBadge m 0) s) of
        (Some pd_data, Some _) \<Rightarrow> do {
          (error, s) \<leftarrow> on_pd (ucast (object_id pd_data))
            (pd_add_linkage E (get_object_id_from_badge (seL4_GetBadge m 0))) s;
          Some (error_reply error, s) }
      | _ \<Rightarrow> Some (error_reply UNKNOWN_ERR, s))"

definition handle_ipc_bench_req :: "'w env \<Rightarrow> cptr \<Rightarrow> 'w gpi_server \<Rightarrow> reply \<times> 'w gpi_server" where
  "handle_ipc_bench_req E received_cap s =
     (let (r, s) = kern E (Cap (Vka_cnode_delete (Server_Vka, received_cap))) s in (error_reply (err r), s))"

definition pd_irq_handler_bind ::
    "'w env \<Rightarrow> gpi_obj_id_t \<Rightarrow> int \<Rightarrow> u64 \<Rightarrow> 'w gpi_server \<Rightarrow> (int \<times> cptr \<times> 'w gpi_server) option" where
  "pd_irq_handler_bind E pid irq badge s = do {
     e \<leftarrow> pd_component_registry_get_entry_by_id pid s;
     if badge = 0 \<or> badged_irq_ntfn (pd e) \<noteq> seL4_CapNull then Some (UNKNOWN_ERR, 0, s)
     else
       (let (handler_slot, s) = gpi_get_irq_handler E irq s;
            (dest, s) = kern E (Cap (Vka_cspace_alloc Server_Vka)) s in
        if err dest \<noteq> 0 then Some (err dest, 0, s)
        else
          (let (r, s) = kern E (Cap (Vka_cnode_mint (Server_Vka, val dest) (Server_Vka, notification (pd e))
                          seL4_AllRights badge)) s;
               free_path = (\<lambda>s. if val dest \<noteq> 0 then kern0 E (Cap (Vka_cspace_free Server_Vka (val dest))) s else s) in
           if err r \<noteq> 0 then Some (err r, 0, free_path s)
           else
             (let (r, s) = kern E (Ipc (IRQHandler_SetNotification handler_slot (val dest))) s in
              if err r \<noteq> 0 then Some (err r, 0, free_path s)
              else Some (0, handler_slot,
                pd_write pid (\<lambda>p. p\<lparr>badged_irq_ntfn := val dest, bound_irq := irq\<rparr>) s)))) }"

definition handle_irq_handler_bind_req ::
    "'w env \<Rightarrow> u64 \<Rightarrow> int \<Rightarrow> u64 \<Rightarrow> bool \<Rightarrow> 'w gpi_server \<Rightarrow> (reply \<times> 'w gpi_server) option" where
  "handle_irq_handler_bind_req E badge irq irq_badge copy_to_holder s =
     (let pid = get_object_id_from_badge badge in
      case pd_component_registry_get_entry_by_id pid s of
        None \<Rightarrow> Some (error_reply UNKNOWN_ERR, s)
      | Some pd_data \<Rightarrow> do {
          (error, irq_handler_slot, s) \<leftarrow> pd_irq_handler_bind E pid irq irq_badge s;
          if error \<noteq> 0 then Some (error_reply error, s)
          else
            (let (error, dest, w) = resource_component_transfer_cap E Server_Vka (pd_vka (pd pd_data))
                   irq_handler_slot False 0 (world s);
                 s = s\<lparr>world := w\<rparr> in
             if error \<noteq> 0 then Some (error_reply error, s)
             else if \<not> copy_to_holder then Some (\<lparr>errorCode = 0, reply_fields = [dest]\<rparr>, s)
             else
               (case pd_component_registry_get_entry_by_id (get_client_id_from_badge badge) s of
                  None \<Rightarrow> Some (\<lparr>errorCode = UNKNOWN_ERR, reply_fields = [dest]\<rparr>, s)
                | Some holder \<Rightarrow>
                    (let (error, dest2, w) = resource_component_transfer_cap E Server_Vka (pd_vka (pd holder))
                           irq_handler_slot False 0 (world s)
                     in Some (\<lparr>errorCode = error, reply_fields = [dest, if dest2 = 0 then dest else dest2]\<rparr>,
                          s\<lparr>world := w\<rparr>)))) })"

definition forge_pd_for_root_task :: "'w env \<Rightarrow> gpi_obj_id_t \<Rightarrow> 'w gpi_server \<Rightarrow> 'w gpi_server option" where
  "forge_pd_for_root_task E rt_id s = do {
     let (r, s) = kern E (Obj Calloc) s;
     c_assert (val r \<noteq> 0);
     reg \<leftarrow> resource_registry_insert (comp_reg pd_component s)
       (blank_pd\<lparr>object_id := ucast rt_id, pd := (pd blank_pd)\<lparr>pd_id := rt_id, pd_vka := Some Server_Vka\<rparr>\<rparr>);
     Some (pd_write rt_id pd_initialize_registries (comp_set_reg pd_component_update reg s)) }"

definition pd_component_create_ipc_bench_ep :: "'w env \<Rightarrow> 'w gpi_server \<Rightarrow> (cptr \<times> 'w gpi_server) option" where
  "pd_component_create_ipc_bench_ep E s = do {
     badge \<leftarrow> gpi_new_badge GPICAP_TYPE_PD 0 0 0 0;
     let (error, dest, w) = resource_component_transfer_cap E Server_Vka (Some Server_Vka) (server_ep_obj s) True badge
                              (world s);
     c_assert (dest \<noteq> seL4_CapNull \<and> error = 0);
     Some (dest, s\<lparr>world := w\<rparr>) }"

end
