(* ===== verification/Requests.thy ===== *)
theory Requests
  imports Pd_Component
begin

section \<open>Requests to the other components and the server loop\<close>

text \<open>
  The handlers of memory objects, resource spaces, endpoints and processors, the dispatch of a
  message to a handler in each component, and one turn of the loop of the GPI server.
\<close>

subsection \<open>Memory objects (mo\_component.c)\<close>

definition handle_mo_allocation_request ::
    "'w env \<Rightarrow> u64 \<Rightarrow> u32 \<Rightarrow> u64 \<Rightarrow> u64 \<Rightarrow> 'w gpi_server \<Rightarrow> (reply \<times> 'w gpi_server) option" where
  "handle_mo_allocation_request E badge pages bits paddr s = do {
     (error, new_entry, ret_cap, s) \<leftarrow> mo_allocate E (mo_new E pages bits paddr) (get_client_id_from_badge badge)
       False True s;
     if error \<noteq> 0 then Some (error_reply error, s)
     else do { mid \<leftarrow> new_entry; Some (\<lparr>errorCode = 0, reply_fields = [ucast mid, ret_cap]\<rparr>, s) } }"

definition handle_mo_disconnect_request ::
    "'w hold_cb \<Rightarrow> u64 \<Rightarrow> 'w gpi_server \<Rightarrow> (reply \<times> 'w gpi_server) option" where
  "handle_mo_disconnect_request od badge s =
     (let client_id = get_client_id_from_badge badge in
      case pd_component_registry_get_entry_by_id client_id s of
        None \<Rightarrow> Some (error_reply UNKNOWN_ERR, s)
      | Some _ \<Rightarrow> do {
          (error, s) \<leftarrow> pd_remove_resource od client_id
            (make_res_id GPICAP_TYPE_MO (comp_space_id (mo_component s)) (get_object_id_from_badge badge)) s;
          Some (error_reply error, s) })"

datatype MoMessage = Mo_Alloc u32 u64 u64 | Mo_Disconnect | Mo_Other

definition MO_RPC_MAGIC :: u64 where "MO_RPC_MAGIC = 0x4d4f"

definition mo_component_handle ::
    "'w env \<Rightarrow> nat \<Rightarrow> u64 \<Rightarrow> MoMessage \<Rightarrow> u64 \<Rightarrow> 'w gpi_server \<Rightarrow> (reply \<times> 'w gpi_server) option" where
  "mo_component_handle E n magic msg badge s =
     (if magic \<noteq> MO_RPC_MAGIC then Some (error_reply UNKNOWN_ERR, s)
      else if get_object_id_from_badge badge = BADGE_OBJ_ID_NULL then
        (case msg of Mo_Alloc pages bits paddr \<Rightarrow> handle_mo_allocation_request E badge pages bits paddr s
         | _ \<Rightarrow> Some (error_reply UNKNOWN_ERR, s))
      else
        (case msg of Mo_Disconnect \<Rightarrow> handle_mo_disconnect_request (pd_held_resource_on_delete E n) badge s
         | _ \<Rightarrow> Some (error_reply UNKNOWN_ERR, s)))"

definition mo_component_initialize :: "'w env \<Rightarrow> cptr \<Rightarrow> 'w gpi_server \<Rightarrow> 'w gpi_server option" where
  "mo_component_initialize E raw_ep s = do {
     (error, space_entry, cap, s) \<leftarrow> resspc_allocate E GPICAP_TYPE_MO (server_ep_obj s) (rt_pd_id s) (rt_pd_id s) False s;
     c_assert (error = 0);
     sid \<leftarrow> space_entry;
     Some (mo_component_update (resource_component_initialize GPICAP_TYPE_MO sid raw_ep) s) }"

subsection \<open>Resource spaces (resource\_space\_component.c)\<close>

definition handle_resspc_allocation_request ::
    "'w env \<Rightarrow> ipc \<Rightarrow> u64 \<Rightarrow> string \<Rightarrow> gpi_obj_id_t \<Rightarrow> 'w gpi_server \<Rightarrow> (reply \<times> 'w gpi_server) option" where
  "handle_resspc_allocation_request E m badge tname client_id s =
     (if \<not> sel4gpi_rpc_check_cap m GPICAP_TYPE_EP then Some (error_reply UNKNOWN_ERR, s)
      else
        (let caller_id = get_client_id_from_badge badge in
         case (pd_component_registry_get_entry_by_id caller_id s, pd_component_registry_get_entry_by_id client_id s,
               resource_component_registry_get_by_badge ep_component (seL4_GetBadge m 0) s) of
           (Some server_pd, Some _, Some ep_data) \<Rightarrow> do {
             found \<leftarrow> get_resource_type_code tname (resource_types s);
             (type, types) \<leftarrow> found;
             let s = s\<lparr>resource_types := types\<rparr>;
             (error, space_entry, space_cap, s) \<leftarrow> resspc_allocate E type (endpoint_in_RT (ep ep_data))
               (pd_id (pd server_pd)) (pd_id (pd server_pd)) True s;
             if error \<noteq> 0 then Some (error_reply error, s)
             else do {
               sid \<leftarrow> space_entry;
               (error, s) \<leftarrow> on_pd client_id (pd_add_rde E type tname sid (endpoint_in_RT (ep ep_data))) s;
               if error \<noteq> 0 then Some (error_reply error, s)
               else do {
                 (ignored, s) \<leftarrow> on_pd caller_id (\<lambda>p w. do { p \<leftarrow> pd_add_type_name type tname p; Some (0::int, p, w) }) s;
                 Some (\<lparr>errorCode = 0, reply_fields = [ucast sid, ucast type, space_cap]\<rparr>, s) } } }
         | _ \<Rightarrow> Some (error_reply UNKNOWN_ERR, s)))"

definition handle_create_resource_request ::
    "'w env \<Rightarrow> u64 \<Rightarrow> gpi_obj_id_t \<Rightarrow> 'w gpi_server \<Rightarrow> (reply \<times> 'w gpi_server) option" where
  "handle_create_resource_request E badge oid s =
     (case (resource_space_get_entry_by_id (get_object_id_from_badge badge) s,
            pd_component_registry_get_entry_by_id (get_client_id_from_badge badge) s) of
        (Some space_entry, Some _) \<Rightarrow> do {
          (error, s) \<leftarrow> on_pd (get_client_id_from_badge badge) (pd_add_resource E
            (make_res_id (resource_type (space space_entry)) (space_id (space space_entry)) oid)
            seL4_CapNull seL4_CapNull seL4_CapNull) s;
          Some (error_reply error, s) }
      | _ \<Rightarrow> Some (error_reply UNKNOWN_ERR, s))"

definition handle_delete_resource_request ::
    "'w hold_cb \<Rightarrow> u64 \<Rightarrow> gpi_obj_id_t \<Rightarrow> 'w gpi_server \<Rightarrow> (reply \<times> 'w gpi_server) option" where
  "handle_delete_resource_request od badge oid s =
     (case resource_space_get_entry_by_id (get_object_id_from_badge badge) s of
        None \<Rightarrow> Some (error_reply UNKNOWN_ERR, s)
      | Some space_entry \<Rightarrow> do {
          (error, s) \<leftarrow> pd_component_resource_cleanup od
            (make_res_id (resource_type (space space_entry)) (space_id (space space_entry)) oid) s;
          Some (error_reply error, s) })"

definition handle_revoke_resource_request ::
    "'w hold_cb \<Rightarrow> u64 \<Rightarrow> gpi_obj_id_t \<Rightarrow> gpi_obj_id_t \<Rightarrow> 'w gpi_server \<Rightarrow> (reply \<times> 'w gpi_server) option" where
  "handle_revoke_resource_request od badge oid target_pd_id s =
     (case (resource_space_get_entry_by_id (get_object_id_from_badge badge) s,
            pd_component_registry_get_entry_by_id target_pd_id s) of
        (Some space_entry, Some _) \<Rightarrow> do {
          (error, s) \<leftarrow> pd_remove_resource od target_pd_id
            (make_res_id (resource_type (space space_entry)) (space_id (space space_entry)) oid) s;
          Some (error_reply error, s) }
      | _ \<Rightarrow> Some (error_reply UNKNOWN_ERR, s))"

definition handle_map_space_request :: "u64 \<Rightarrow> gpi_space_id_t \<Rightarrow> 'w gpi_server \<Rightarrow> reply \<times> 'w gpi_server" where
  "handle_map_space_request badge dest s =
     (let (error, s) = resspc_component_map_space (get_object_id_from_badge badge) dest s in (error_reply error, s))"

definition handle_destroy_space_request ::
    "'w env \<Rightarrow> 'w hold_cb \<Rightarrow> u64 \<Rightarrow> 'w gpi_server \<Rightarrow> (reply \<times> 'w gpi_server) option" where
  "handle_destroy_space_request E od badge s =
     (let spc_id = get_object_id_from_badge badge in
      case resource_space_get_entry_by_id spc_id s of
        None \<Rightarrow> Some (error_reply UNKNOWN_ERR, s)
      | Some e \<Rightarrow>
          if space_to_delete (space e) then Some (error_reply UNKNOWN_ERR, s)
          else do {
            let s = space_write spc_id (\<lambda>x. x\<lparr>space_to_delete := True, cleanup_policy := False, dont_notify := True\<rparr>) s;
            (error, s) \<leftarrow> resource_component_delete resspc_component resspc_component_update
              (on_resspc_registry_delete E od) spc_id s;
            Some (error_reply error, s) })"

datatype ResSpcMessage = Spc_Alloc string gpi_obj_id_t | Spc_Create gpi_obj_id_t | Spc_Map gpi_space_id_t
  | Spc_Destroy | Spc_Delete gpi_obj_id_t | Spc_Revoke gpi_obj_id_t gpi_obj_id_t | Spc_Other

definition RESSPC_RPC_MAGIC :: u64 where "RESSPC_RPC_MAGIC = 0x535043"

text \<open>The boolean says whether the receive slot was used.\<close>

definition resspc_component_handle ::
    "'w env \<Rightarrow> nat \<Rightarrow> u64 \<Rightarrow> ResSpcMessage \<Rightarrow> ipc \<Rightarrow> u64 \<Rightarrow> 'w gpi_server \<Rightarrow> (reply \<times> bool \<times> 'w gpi_server) option" where
  "resspc_component_handle E n magic msg m badge s =
     (let od = pd_held_resource_on_delete E n; keep = (\<lambda>(r, s). (r, False, s)) in
      if magic \<noteq> RESSPC_RPC_MAGIC then Some (error_reply UNKNOWN_ERR, False, s)
      else if get_object_id_from_badge badge = BADGE_OBJ_ID_NULL then
        (case msg of
           Spc_Alloc tname client_id \<Rightarrow>
             map_option (\<lambda>(r, s). (r, True, s)) (handle_resspc_allocation_request E m badge tname client_id s)
         | _ \<Rightarrow> Some (error_reply UNKNOWN_ERR, False, s))
      else
        (case msg of
           Spc_Create oid \<Rightarrow> map_option keep (handle_create_resource_request E badge oid s)
         | Spc_Map dest \<Rightarrow> Some (keep (handle_map_space_request badge dest s))
         | Spc_Destroy \<Rightarrow> map_option keep (handle_destroy_space_request E od badge s)
         | Spc_Delete oid \<Rightarrow> map_option keep (handle_delete_resource_request od badge oid s)
         | Spc_Revoke oid target \<Rightarrow> map_option keep (handle_revoke_resource_request od badge oid target s)
         | _ \<Rightarrow> Some (error_reply UNKNOWN_ERR, False, s)))"

text \<open>The space of the resource spaces is a special entry with a fixed ID.\<close>

definition resspc_component_initialize :: "'w env \<Rightarrow> cptr \<Rightarrow> 'w gpi_server \<Rightarrow> 'w gpi_server option" where
  "resspc_component_initialize E raw_ep s = do {
     let s = resspc_component_update (resource_component_initialize GPICAP_TYPE_RESSPC RESSPC_SPACE_ID raw_ep) s;
     let (r, s) = kern E (Obj Calloc) s;
     c_assert (val r \<noteq> 0);
     reg \<leftarrow> resource_registry_insert (comp_reg resspc_component s)
       (blank_space\<lparr>object_id := ucast RESSPC_SPACE_ID,
          space := (space blank_space)\<lparr>space_id := RESSPC_SPACE_ID, space_server_ep := raw_ep\<rparr>\<rparr>);
     Some (comp_set_reg resspc_component_update reg s) }"

subsection \<open>Endpoints (endpoint\_component.c)\<close>

definition ep_component_allocate ::
    "'w env \<Rightarrow> gpi_obj_id_t \<Rightarrow> 'w gpi_server \<Rightarrow> (int \<times> cptr \<times> cptr \<times> gpi_obj_id_t option \<times> 'w gpi_server) option" where
  "ep_component_allocate E client_pd s =
     (case pd_component_registry_get_entry_by_id client_pd s of
        None \<Rightarrow> Some (UNKNOWN_ERR, 0, 0, None, s)
      | Some pd_data \<Rightarrow> do {
          (error, ep_entry, badged, s) \<leftarrow> ep_allocate E client_pd False s;
          if error \<noteq> 0 \<or> badged = seL4_CapNull then Some (UNKNOWN_ERR, 0, badged, None, s)
          else do {
            eid \<leftarrow> ep_entry;
            e \<leftarrow> resource_component_registry_get_by_id ep_component eid s;
            let (error, dest, w) = resource_component_transfer_cap E Server_Vka (pd_vka (pd pd_data))
                                     (endpoint_in_RT (ep e)) False 0 (world s);
            let s = s\<lparr>world := w\<rparr>;
            if error \<noteq> 0 then Some (error, 0, badged, None, s) else Some (0, dest, badged, Some eid, s) } })"

definition handle_ep_allocation :: "'w env \<Rightarrow> u64 \<Rightarrow> 'w gpi_server \<Rightarrow> (reply \<times> 'w gpi_server) option" where
  "handle_ep_allocation E badge s = do {
     (error, ep_in_PD, badged_ep, eid, s) \<leftarrow> ep_component_allocate E (get_client_id_from_badge badge) s;
     Some (\<lparr>errorCode = error, reply_fields = [ep_in_PD, badged_ep]\<rparr>, s) }"

definition handle_ep_disconnect :: "'w hold_cb \<Rightarrow> u64 \<Rightarrow> 'w gpi_server \<Rightarrow> (reply \<times> 'w gpi_server) option" where
  "handle_ep_disconnect od badge s =
     (let client_id = get_client_id_from_badge badge in
      case pd_component_registry_get_entry_by_id client_id s of
        None \<Rightarrow> Some (error_reply UNKNOWN_ERR, s)
      | Some _ \<Rightarrow> do {
          (error, s) \<leftarrow> pd_remove_resource od client_id
            (make_res_id GPICAP_TYPE_EP (comp_space_id (ep_component s)) (get_object_id_from_badge badge)) s;
          Some (error_reply error, s) })"

definition handle_get_raw_endpoint ::
    "'w env \<Rightarrow> ipc \<Rightarrow> u64 \<Rightarrow> bool \<Rightarrow> 'w gpi_server \<Rightarrow> reply \<times> 'w gpi_server" where
  "handle_get_raw_endpoint E m badge for_other_PD s =
     (if \<not> sel4gpi_rpc_check_cap m GPICAP_TYPE_NONE then (error_reply UNKNOWN_ERR, s)
      else
        (case (if for_other_PD then pd_component_registry_get_entry_by_badge (seL4_GetBadge m 0) s
               else pd_component_registry_get_entry_by_id (get_client_id_from_badge badge) s) of
           None \<Rightarrow> (error_reply UNKNOWN_ERR, s)
         | Some pd_data \<Rightarrow>
             (case resource_component_registry_get_by_badge ep_component badge s of
                None \<Rightarrow> (error_reply UNKNOWN_ERR, s)
              | Some ep_data \<Rightarrow>
                  (let (error, dest, w) = resource_component_transfer_cap E Server_Vka (pd_vka (pd pd_data))
                         (endpoint_in_RT (ep ep_data)) False 0 (world s)
                   in (if error \<noteq> 0 then error_reply error else \<lparr>errorCode = 0, reply_fields = [dest]\<rparr>,
                       s\<lparr>world := w\<rparr>)))))"

definition handle_forge_req :: "'w env \<Rightarrow> u64 \<Rightarrow> 'w gpi_server \<Rightarrow> (reply \<times> 'w gpi_server) option" where
  "handle_forge_req E badge s = do {
     (error, new_entry, badged_ep, s) \<leftarrow> ep_allocate E (get_client_id_from_badge badge) True s;
     Some (\<lparr>errorCode = error, reply_fields = [badged_ep]\<rparr>, s) }"

definition handle_badge_req ::
    "'w env \<Rightarrow> 'w hold_cb \<Rightarrow> ipc \<Rightarrow> u64 \<Rightarrow> bool \<Rightarrow> u64 \<Rightarrow> 'w gpi_server \<Rightarrow> (reply \<times> 'w gpi_server) option" where
  "handle_badge_req E od m badge is_core_cap new_badge s =
     (case (resource_component_registry_get_by_badge ep_component badge s,
            pd_component_registry_get_entry_by_badge (seL4_GetBadge m 0) s) of
        (Some ep_data, Some dest_pd) \<Rightarrow> do {
          (error, tracked_slot, pending, s) \<leftarrow> pd_send_cap E od (ucast (object_id dest_pd)) None seL4_CapNull
            seL4_CapNull badge True is_core_cap s;
          if error \<noteq> 0 then Some (error_reply UNKNOWN_ERR, s)
          else
            (let (error, dest, w) = resource_component_transfer_cap E Server_Vka (pd_vka (pd dest_pd))
                   (endpoint_in_RT (ep ep_data)) True new_badge (world s)
             in Some (\<lparr>errorCode = error, reply_fields = (if error = 0 then [tracked_slot, dest] else [])\<rparr>,
                  s\<lparr>world := w\<rparr>)) }
      | _ \<Rightarrow> Some (error_reply UNKNOWN_ERR, s))"

datatype EpMessage = Ep_Alloc | Ep_Disconnect | Ep_Get bool | Ep_Forge | Ep_Badge bool u64 | Ep_Other

definition EP_RPC_MAGIC :: u64 where "EP_RPC_MAGIC = 0x4550"

definition ep_component_handle ::
    "'w env \<Rightarrow> nat \<Rightarrow> u64 \<Rightarrow> EpMessage \<Rightarrow> ipc \<Rightarrow> u64 \<Rightarrow> 'w gpi_server \<Rightarrow> (reply \<times> bool \<times> 'w gpi_server) option" where
  "ep_component_handle E n magic msg m badge s =
     (let od = pd_held_resource_on_delete E n; with_slot = (\<lambda>b (r, s). (r, b, s)) in
      if magic \<noteq> EP_RPC_MAGIC then Some (error_reply UNKNOWN_ERR, False, s)
      else if get_object_id_from_badge badge = BADGE_OBJ_ID_NULL \<and> msg \<noteq> Ep_Alloc \<and> msg \<noteq> Ep_Forge
      then Some (error_reply UNKNOWN_ERR, False, s)
      else
        (case msg of
           Ep_Alloc \<Rightarrow> map_option (with_slot False) (handle_ep_allocation E badge s)
         | Ep_Disconnect \<Rightarrow> map_option (with_slot False) (handle_ep_disconnect od badge s)
         | Ep_Get other \<Rightarrow> Some (with_slot other (handle_get_raw_endpoint E m badge other s))
         | Ep_Forge \<Rightarrow> map_option (with_slot True) (handle_forge_req E badge s)
         | Ep_Badge core b \<Rightarrow> map_option (with_slot False) (handle_badge_req E od m badge core b s)
         | Ep_Other \<Rightarrow> Some (error_reply UNKNOWN_ERR, False, s)))"

end
