(* ===== verification/Cpu_Component.thy ===== *)
theory Cpu_Component
  imports Requests
begin

section \<open>Processors (cpu\_obj.c, cpu\_component.c)\<close>

text \<open>
  A CPU object is a thread with the address space and the IPC buffer it is bound to. Configuring it
  takes references on both and gives back the references on the previous ones.
\<close>

subsection \<open>Objects\<close>

definition cpu_start :: "'w env \<Rightarrow> cpu_t \<Rightarrow> 'w gpi_server \<Rightarrow> int \<times> 'w gpi_server" where
  "cpu_start E c s = (0, kern0 E (Cpu (TCB_Resume (tcb c))) s)"

definition cpu_resume :: "'w env \<Rightarrow> cpu_t \<Rightarrow> 'w gpi_server \<Rightarrow> int \<times> 'w gpi_server" where
  "cpu_resume E c s = (let (r, s) = kern E (Cpu (TCB_Resume (tcb c))) s in (err r, s))"

definition cpu_config_vspace ::
    "'w env \<Rightarrow> gpi_obj_id_t \<Rightarrow> u64 \<Rightarrow> cptr \<Rightarrow> u64 \<Rightarrow> cptr \<Rightarrow> cptr \<Rightarrow> u64 \<Rightarrow> int \<Rightarrow> 'w gpi_server \<Rightarrow>
     (int \<times> 'w gpi_server) option" where
  "cpu_config_vspace E cid vs root_cnode guard fault ipc_frame ipc_addr prio s = do {
     c \<leftarrow> resource_component_registry_get_by_id cpu_component cid s;
     let (r, s) = kern E (Vspace (Vspace_get_root vs)) s;
     let vspace_root = val r;
     if vspace_root = seL4_CapNull then Some (UNKNOWN_ERR, s)
     else do {
       let s = cpu_write cid (\<lambda>c. c\<lparr>cpu_cspace := root_cnode, cspace_guard := guard, cpu_fault_ep := fault,
                 ipc_buf_addr := ipc_addr, ipc_frame_cap := ipc_frame\<rparr>) s;
       let (r, s) = kern E (Cpu (TCB_Configure (tcb (cpu c)) fault root_cnode guard vspace_root ipc_addr ipc_frame)) s;
       if err r \<noteq> 0 then Some (err r, s)
       else (let (r, s) = kern E (Cpu (TCB_SetPriority (tcb (cpu c)) prio)) s in Some (err r, s)) } }"

definition cpu_change_vspace :: "'w env \<Rightarrow> cpu_t \<Rightarrow> u64 \<Rightarrow> 'w gpi_server \<Rightarrow> int \<times> 'w gpi_server" where
  "cpu_change_vspace E c vs s =
     (let (r, s) = kern E (Vspace (Vspace_get_root vs)) s in
      if val r = seL4_CapNull then (UNKNOWN_ERR, s)
      else (let (q, s) = kern E (Cpu (TCB_Configure (tcb c) (cpu_fault_ep c) (cpu_cspace c) (cspace_guard c) (val r)
                  (ipc_buf_addr c) (ipc_frame_cap c))) s
            in (err q, s)))"

definition cpu_bind_notif :: "'w env \<Rightarrow> cpu_t \<Rightarrow> cptr \<Rightarrow> 'w gpi_server \<Rightarrow> int \<times> 'w gpi_server" where
  "cpu_bind_notif E c notif s = (let (r, s) = kern E (Cpu (TCB_BindNotification (tcb c) notif)) s in (err r, s))"

definition cpu_set_tls_base :: "'w env \<Rightarrow> gpi_obj_id_t \<Rightarrow> u64 \<Rightarrow> bool \<Rightarrow> 'w gpi_server \<Rightarrow> (int \<times> 'w gpi_server) option" where
  "cpu_set_tls_base E cid base write_reg s = do {
     c \<leftarrow> resource_component_registry_get_by_id cpu_component cid s;
     let s = cpu_write cid (\<lambda>c. c\<lparr>tls_base := base\<rparr>) s;
     let (r, s) = kern E (Cpu (Init_context_tls_base cid base)) s;
     if err r \<noteq> 0 then Some (err r, s)
     else if write_reg then (let (r, s) = kern E (Cpu (TCB_SetTLSBase (tcb (cpu c)) base)) s in Some (err r, s))
     else Some (0, s) }"

definition cpu_elevate :: "'w env \<Rightarrow> gpi_obj_id_t \<Rightarrow> 'w gpi_server \<Rightarrow> (int \<times> 'w gpi_server) option" where
  "cpu_elevate E cid s = do {
     c \<leftarrow> resource_component_registry_get_by_id cpu_component cid s;
     let (r, s) = kern E (Obj Vka_alloc_vcpu) s;
     if err r \<noteq> 0 then Some (err r, s)
     else (let s = cpu_write cid (\<lambda>c. c\<lparr>vcpu := val r\<rparr>) s;
               (q, s) = kern E (Vcpu (VCPU_SetTCB (val r) (tcb (cpu c)))) s
           in Some (err q, s)) }"

definition cpu_write_registers :: "'w env \<Rightarrow> cpu_t \<Rightarrow> u64 \<Rightarrow> bool \<Rightarrow> 'w gpi_server \<Rightarrow> int \<times> 'w gpi_server" where
  "cpu_write_registers E c num_reg resume s =
     (if num_reg > SEL4_USER_CONTEXT_COUNT E then (1, s)
      else (let (r, s) = kern E (Cpu (TCB_WriteRegisters (tcb c) resume num_reg)) s in (err r, s)))"

subsection \<open>Configuration\<close>

text \<open>The reference on the previous object is given back before the new one is taken; each step may
  leave the function with its error. The result of \<open>cpu_config_vspace\<close> is overwritten.\<close>

definition replace_ipc_buf ::
    "'w env \<Rightarrow> 'w hold_cb \<Rightarrow> gpi_obj_id_t \<Rightarrow> gpi_obj_id_t \<Rightarrow> gpi_obj_id_t option \<Rightarrow> 'w gpi_server \<Rightarrow>
     (int \<times> 'w gpi_server) option" where
  "replace_ipc_buf E od cid old new s = do {
     (error, s) \<leftarrow> (if old \<noteq> 0 then mo_dec E od old s else Some (0, s));
     if error \<noteq> 0 then Some (error, s)
     else do {
       let s = (if old \<noteq> 0 then cpu_write cid (\<lambda>c. c\<lparr>ipc_buf_mo := 0\<rparr>) s else s);
       case new of
         None \<Rightarrow> Some (0, s)
       | Some mid \<Rightarrow> do {
           m \<leftarrow> resource_component_registry_get_by_id mo_component mid s;
           let (error, s) = resource_component_inc mo_component mo_component_update (mo_obj_id (mo m)) s;
           if error \<noteq> 0 then Some (error, s)
           else Some (0, cpu_write cid (\<lambda>c. c\<lparr>ipc_buf_mo := mo_obj_id (mo m)\<rparr>) s) } } }"

definition cpu_component_configure ::
    "'w env \<Rightarrow> 'w hold_cb \<Rightarrow> gpi_obj_id_t \<Rightarrow> gpi_obj_id_t \<Rightarrow> pd_t \<Rightarrow> u64 \<Rightarrow> cptr \<Rightarrow> gpi_obj_id_t option \<Rightarrow> u64 \<Rightarrow> int \<Rightarrow>
     'w gpi_server \<Rightarrow> (int \<times> 'w gpi_server) option" where
  "cpu_component_configure E od cid aid p guard fault ipc_mo ipc_addr prio s = do {
     c \<leftarrow> resource_component_registry_get_by_id cpu_component cid s;
     ipc_buf_frame \<leftarrow> (case ipc_mo of None \<Rightarrow> Some seL4_CapNull
       | Some mid \<Rightarrow> do {
           m \<leftarrow> resource_component_registry_get_by_id mo_component mid s;
           c_assert (frame_caps_in_root_task (mo m) \<noteq> []);
           Some (frame_caps_in_root_task (mo m) ! 0) });
     (error, s) \<leftarrow> replace_ipc_buf E od cid (ipc_buf_mo (cpu c)) ipc_mo s;
     if error \<noteq> 0 then Some (error, s)
     else do {
       (error, s) \<leftarrow> (if binded_ads_id (cpu c) \<noteq> 0 then ads_dec E od (binded_ads_id (cpu c)) s else Some (0, s));
       if error \<noteq> 0 then Some (error, s)
       else do {
         let s = (if binded_ads_id (cpu c) \<noteq> 0 then cpu_write cid (\<lambda>c. c\<lparr>binded_ads_id := 0\<rparr>) s else s);
         a \<leftarrow> resource_component_registry_get_by_id ads_component aid s;
         let s = snd (resource_component_inc ads_component ads_component_update (ads_id (ads a)) s);
         (ignored, s) \<leftarrow> cpu_config_vspace E cid (vspace (ads a)) (cspace p) guard fault ipc_buf_frame ipc_addr prio s;
         let (error, s) = cpu_bind_notif E (cpu c) (notification p) s;
         if error \<noteq> 0 then Some (error, s)
         else Some (0, cpu_write cid (\<lambda>c. c\<lparr>binded_ads_id := ads_id (ads a)\<rparr>) s) } } }"

subsection \<open>Requests\<close>

definition handle_cpu_allocation :: "'w env \<Rightarrow> u64 \<Rightarrow> 'w gpi_server \<Rightarrow> (reply \<times> 'w gpi_server) option" where
  "handle_cpu_allocation E badge s = do {
     (error, new_entry, ret_cap, s) \<leftarrow> cpu_component_allocate E (get_client_id_from_badge badge) s;
     if error \<noteq> 0 then Some (error_reply error, s)
     else do { cid \<leftarrow> new_entry; Some (\<lparr>errorCode = 0, reply_fields = [ret_cap, ucast cid]\<rparr>, s) } }"

definition handle_start_req :: "'w env \<Rightarrow> u64 \<Rightarrow> 'w gpi_server \<Rightarrow> reply \<times> 'w gpi_server" where
  "handle_start_req E badge s =
     (case resource_component_registry_get_by_badge cpu_component badge s of
        None \<Rightarrow> (error_reply UNKNOWN_ERR, s)
      | Some d \<Rightarrow> (let (error, s) = cpu_start E (cpu d) s in (error_reply error, s)))"

definition handle_config_req ::
    "'w env \<Rightarrow> 'w hold_cb \<Rightarrow> ipc \<Rightarrow> u64 \<Rightarrow> u64 \<Rightarrow> cptr \<Rightarrow> u64 \<Rightarrow> int \<Rightarrow> 'w gpi_server \<Rightarrow> (reply \<times> 'w gpi_server) option"
  where
  "handle_config_req E od m badge guard fault ipc_addr prio s =
     (if \<not> sel4gpi_rpc_check_caps_2 m GPICAP_TYPE_PD GPICAP_TYPE_ADS then Some (error_reply UNKNOWN_ERR, s)
      else
        (case (resource_component_registry_get_by_badge cpu_component badge s,
               pd_component_registry_get_entry_by_badge (seL4_GetBadge m 0) s,
               resource_component_registry_get_by_badge ads_component (seL4_GetBadge m 1) s) of
           (Some cpu_data, Some pd_data, Some ads_data) \<Rightarrow> do {
             let ipc_mo_data = resource_component_registry_get_by_badge mo_component (seL4_GetBadge m 2) s;
             (error, s) \<leftarrow> cpu_component_configure E od (ucast (object_id cpu_data)) (ucast (object_id ads_data))
               (pd pd_data) guard fault (map_option (\<lambda>e. ucast (object_id e)) ipc_mo_data) ipc_addr prio s;
             Some (error_reply error, s) }
         | _ \<Rightarrow> Some (error_reply UNKNOWN_ERR, s)))"

definition handle_change_vspace_req ::
    "'w env \<Rightarrow> 'w hold_cb \<Rightarrow> ipc \<Rightarrow> u64 \<Rightarrow> 'w gpi_server \<Rightarrow> (reply \<times> 'w gpi_server) option" where
  "handle_change_vspace_req E od m badge s =
     (let client_id = get_client_id_from_badge badge in
      if \<not> sel4gpi_rpc_check_cap m GPICAP_TYPE_ADS then Some (error_reply UNKNOWN_ERR, s)
      else
        (case (resource_component_registry_get_by_badge cpu_component badge s,
               pd_component_registry_get_entry_by_id client_id s,
               resource_component_registry_get_by_badge ads_component (seL4_GetBadge m 0) s) of
           (Some client_data, Some pd_data, Some ads_data) \<Rightarrow>
             (let (error, s) = cpu_change_vspace E (cpu client_data) (vspace (ads ads_data)) s in
              if error \<noteq> 0 then Some (error_reply error, s)
              else do {
                c_assert (shared_data (pd pd_data) \<noteq> 0);
                let old_ads_id = ads_conn_id (shared (pd pd_data));
                (ignored, s) \<leftarrow> ads_dec E od old_ads_id s;
                ads_data \<leftarrow> resource_component_registry_get_by_id ads_component (ucast (object_id ads_data)) s;
                let new_ads_id = ads_id (ads ads_data);
                let s = snd (resource_component_inc ads_component ads_component_update new_ads_id s);
                let s = pd_write client_id (\<lambda>p. p\<lparr>shared := (shared p)\<lparr>ads_conn_id := new_ads_id\<rparr>\<rparr>) s;
                Some (error_reply 0, cpu_write (ucast (object_id client_data)) (\<lambda>c. c\<lparr>binded_ads_id := new_ads_id\<rparr>) s) })
         | _ \<Rightarrow> Some (error_reply UNKNOWN_ERR, s)))"

definition handle_set_tls_req :: "'w env \<Rightarrow> u64 \<Rightarrow> u64 \<Rightarrow> 'w gpi_server \<Rightarrow> (reply \<times> 'w gpi_server) option" where
  "handle_set_tls_req E badge base s =
     (case resource_component_registry_get_by_badge cpu_component badge s of
        None \<Rightarrow> Some (error_reply UNKNOWN_ERR, s)
      | Some d \<Rightarrow> do {
          (error, s) \<leftarrow> cpu_set_tls_base E (ucast (object_id d)) base False s;
          Some (error_reply error, s) })"

definition handle_elevate_req :: "'w env \<Rightarrow> u64 \<Rightarrow> 'w gpi_server \<Rightarrow> (reply \<times> 'w gpi_server) option" where
  "handle_elevate_req E badge s =
     (case resource_component_registry_get_by_badge cpu_component badge s of
        None \<Rightarrow> Some (error_reply UNKNOWN_ERR, s)
      | Some d \<Rightarrow> do { (error, s) \<leftarrow> cpu_elevate E (ucast (object_id d)) s; Some (error_reply error, s) })"

text \<open>The number of registers that were read is the only field; their values come from the kernel.\<close>

definition handle_read_registers_req :: "'w env \<Rightarrow> u64 \<Rightarrow> 'w gpi_server \<Rightarrow> reply \<times> 'w gpi_server" where
  "handle_read_registers_req E badge s =
     (case resource_component_registry_get_by_badge cpu_component badge s of
        None \<Rightarrow> (error_reply UNKNOWN_ERR, s)
      | Some d \<Rightarrow>
          (let (r, s) = kern E (Cpu (TCB_ReadRegisters (tcb (cpu d)))) s
           in (\<lparr>errorCode = err r, reply_fields = (if err r = 0 then [SEL4_USER_CONTEXT_COUNT E] else [])\<rparr>, s)))"

text \<open>The source compares the ID of the CPU with the ID of the client PD.\<close>

definition handle_suspend_req :: "'w env \<Rightarrow> u64 \<Rightarrow> 'w gpi_server \<Rightarrow> reply \<times> bool \<times> 'w gpi_server" where
  "handle_suspend_req E badge s =
     (case resource_component_registry_get_by_badge cpu_component badge s of
        None \<Rightarrow> (error_reply UNKNOWN_ERR, True, s)
      | Some d \<Rightarrow>
          (let (error, s) = cpu_component_stop E (get_object_id_from_badge badge) s
           in if cpu_id (cpu d) = get_client_id_from_badge badge then (error_reply 0, False, s)
              else (error_reply error, True, s)))"

definition handle_disconnect_req :: "'w hold_cb \<Rightarrow> u64 \<Rightarrow> 'w gpi_server \<Rightarrow> (reply \<times> 'w gpi_server) option" where
  "handle_disconnect_req od badge s =
     (let client_id = get_client_id_from_badge badge in
      case pd_component_registry_get_entry_by_id client_id s of
        None \<Rightarrow> Some (error_reply UNKNOWN_ERR, s)
      | Some _ \<Rightarrow> do {
          (error, s) \<leftarrow> pd_remove_resource od client_id
            (make_res_id GPICAP_TYPE_CPU (comp_space_id (cpu_component s)) (get_object_id_from_badge badge)) s;
          Some (error_reply error, s) })"

definition handle_write_reg_req :: "'w env \<Rightarrow> u64 \<Rightarrow> u64 \<Rightarrow> bool \<Rightarrow> 'w gpi_server \<Rightarrow> reply \<times> 'w gpi_server" where
  "handle_write_reg_req E badge num_reg resume s =
     (case resource_component_registry_get_by_badge cpu_component badge s of
        None \<Rightarrow> (error_reply UNKNOWN_ERR, s)
      | Some d \<Rightarrow> (let (error, s) = cpu_write_registers E (cpu d) num_reg resume s in (error_reply error, s)))"

definition handle_inject_irq_req ::
    "'w env \<Rightarrow> u64 \<Rightarrow> int \<Rightarrow> int \<Rightarrow> int \<Rightarrow> int \<Rightarrow> 'w gpi_server \<Rightarrow> reply \<times> 'w gpi_server" where
  "handle_inject_irq_req E badge virq prio grp idx s =
     (case resource_component_registry_get_by_badge cpu_component badge s of
        None \<Rightarrow> (error_reply UNKNOWN_ERR, s)
      | Some d \<Rightarrow>
          if vcpu (cpu d) = seL4_CapNull then (error_reply 0, s)
          else (let (r, s) = kern E (Vcpu (VCPU_InjectIRQ (vcpu (cpu d)) virq prio grp idx)) s
                in (error_reply (err r), s)))"

definition handle_ack_vppi_req :: "'w env \<Rightarrow> u64 \<Rightarrow> u64 \<Rightarrow> 'w gpi_server \<Rightarrow> reply \<times> 'w gpi_server" where
  "handle_ack_vppi_req E badge irq s =
     (case resource_component_registry_get_by_badge cpu_component badge s of
        None \<Rightarrow> (error_reply UNKNOWN_ERR, s)
      | Some d \<Rightarrow>
          if vcpu (cpu d) = seL4_CapNull then (error_reply 0, s)
          else (let (r, s) = kern E (Vcpu (VCPU_AckVPPI (vcpu (cpu d)) irq)) s in (error_reply (err r), s)))"

definition handle_read_vcpu_req :: "'w env \<Rightarrow> u64 \<Rightarrow> 'w gpi_server \<Rightarrow> reply \<times> 'w gpi_server" where
  "handle_read_vcpu_req E badge s =
     (case resource_component_registry_get_by_badge cpu_component badge s of
        None \<Rightarrow> (error_reply UNKNOWN_ERR, s)
      | Some d \<Rightarrow> (\<lparr>errorCode = 0, reply_fields = [SEL4_VCPU_REG_COUNT E]\<rparr>,
          if vcpu (cpu d) = seL4_CapNull then s else kern0 E (Vcpu (VCPU_ReadRegs (vcpu (cpu d)))) s))"

definition handle_resume_req :: "'w env \<Rightarrow> u64 \<Rightarrow> 'w gpi_server \<Rightarrow> reply \<times> 'w gpi_server" where
  "handle_resume_req E badge s =
     (case resource_component_registry_get_by_badge cpu_component badge s of
        None \<Rightarrow> (error_reply UNKNOWN_ERR, s)
      | Some d \<Rightarrow> (let (error, s) = cpu_resume E (cpu d) s in (error_reply error, s)))"

datatype CpuMessage = Cpu_Alloc | Cpu_Start | Cpu_Config u64 cptr u64 int | Cpu_Change_vspace | Cpu_Tls u64
  | Cpu_Elevate | Cpu_Write_reg u64 bool | Cpu_Read_reg | Cpu_Suspend | Cpu_Disconnect
  | Cpu_Inject_irq int int int int | Cpu_Ack_vppi u64 | Cpu_Read_vcpu | Cpu_Resume | Cpu_Other

definition CPU_RPC_MAGIC :: u64 where "CPU_RPC_MAGIC = 0x435055"

text \<open>The booleans say whether to reply and whether the receive slot was used.\<close>

definition cpu_component_handle ::
    "'w env \<Rightarrow> nat \<Rightarrow> u64 \<Rightarrow> CpuMessage \<Rightarrow> ipc \<Rightarrow> u64 \<Rightarrow> 'w gpi_server \<Rightarrow>
     (reply \<times> bool \<times> bool \<times> 'w gpi_server) option" where
  "cpu_component_handle E n magic msg m badge s =
     (let od = pd_held_resource_on_delete E n; ret = (\<lambda>(r, s). (r, True, False, s)) in
      if magic \<noteq> CPU_RPC_MAGIC then Some (error_reply UNKNOWN_ERR, True, False, s)
      else if get_object_id_from_badge badge = BADGE_OBJ_ID_NULL then
        (case msg of Cpu_Alloc \<Rightarrow> map_option ret (handle_cpu_allocation E badge s)
         | _ \<Rightarrow> Some (error_reply UNKNOWN_ERR, True, False, s))
      else
        (case msg of
           Cpu_Start \<Rightarrow> Some (ret (handle_start_req E badge s))
         | Cpu_Config guard fault ipc_addr prio \<Rightarrow>
             map_option ret (handle_config_req E od m badge guard fault ipc_addr prio s)
         | Cpu_Change_vspace \<Rightarrow>
             map_option (\<lambda>(r, s). (r, True, True, s)) (handle_change_vspace_req E od m badge s)
         | Cpu_Tls base \<Rightarrow> map_option ret (handle_set_tls_req E badge base s)
         | Cpu_Elevate \<Rightarrow> map_option ret (handle_elevate_req E badge s)
         | Cpu_Write_reg num resume \<Rightarrow> Some (ret (handle_write_reg_req E badge num resume s))
         | Cpu_Read_reg \<Rightarrow> Some (ret (handle_read_registers_req E badge s))
         | Cpu_Suspend \<Rightarrow> (case handle_suspend_req E badge s of (r, should_reply, s) \<Rightarrow> Some (r, should_reply, False, s))
         | Cpu_Disconnect \<Rightarrow> map_option ret (handle_disconnect_req od badge s)
         | Cpu_Inject_irq virq prio grp idx \<Rightarrow> Some (ret (handle_inject_irq_req E badge virq prio grp idx s))
         | Cpu_Ack_vppi irq \<Rightarrow> Some (ret (handle_ack_vppi_req E badge irq s))
         | Cpu_Read_vcpu \<Rightarrow> Some (ret (handle_read_vcpu_req E badge s))
         | Cpu_Resume \<Rightarrow> Some (ret (handle_resume_req E badge s))
         | _ \<Rightarrow> Some (error_reply UNKNOWN_ERR, True, False, s)))"

end
