(* ===== verification/Model_Dump.thy ===== *)
theory Model_Dump
  imports Pd_Component
begin

section \<open>Extraction of the model state\<close>

text \<open>
  A PD may ask for the graph of what it and the PDs it knows hold. The root task walks over PDs, holds and
  directories (\<open>pd_dump\<close> of pd\_obj.c and the \<open>*_dump_rr\<close> functions of the components) and asks the resource servers for
  the relations of their resources, by queueing work. It prints the graph when the last of them has sent its part. The dump
  of a PD dumps the PDs it holds; the recursion takes the permitted depth as argument.

  A piece of work is allocated with the size of a \<open>gpi_res_id_t\<close>, which is smaller than the structure; the model has the
  whole structure.
\<close>

abbreviation type_names_of :: "'w gpi_server \<Rightarrow> type_namer" where
  "type_names_of s \<equiv> cap_type_to_str (Some (resource_types s))"

definition mark_extracted :: "nat \<Rightarrow> model_state_t \<Rightarrow> model_state_t" where
  "mark_extracted a ms = upd_node a (\<lambda>n. n\<lparr>extracted := True\<rparr>) ms"

subsection \<open>Objects of the components\<close>

text \<open>Address spaces (ads\_obj.c): the loop over the regions.\<close>

fun dump_regions ::
    "'w env \<Rightarrow> 'w gpi_server \<Rightarrow> gpi_obj_id_t \<Rightarrow> nat \<Rightarrow> nat \<Rightarrow> attach_node_t list \<Rightarrow> model_state_t \<Rightarrow> model_state_t option" where
  "dump_regions E s aid space_node pd_node [] ms = Some ms"
| "dump_regions E s aid space_node pd_node (r # rs) ms = do {
     let N = type_names_of s;
     (vmr_node, ms) \<leftarrow> add_resource_node N (make_res_id GPICAP_TYPE_VMR aid (ucast (map_entry r))) True ms;
     ms \<leftarrow> add_edge GPI_EDGE_TYPE_SUBSET vmr_node space_node ms;
     ms \<leftarrow> add_edge GPI_EDGE_TYPE_HOLD pd_node vmr_node ms;
     ms \<leftarrow> set_node_extra vmr_node (snprintf CSV_MAX_STRING_SIZE (vmr_text E (vaddr r) (vmr_type r) (n_pages r) (page_bits r))) ms;
     ms \<leftarrow> (if mo_attached r then do {
              let rid = make_res_id GPICAP_TYPE_MO (comp_space_id (mo_component s)) (mo_id r);
              found \<leftarrow> get_resource_node N rid ms;
              (mo_node, ms) \<leftarrow> (case found of Some a \<Rightarrow> Some (a, ms) | None \<Rightarrow> add_resource_node N rid False ms);
              add_edge GPI_EDGE_TYPE_MAP vmr_node mo_node ms }
            else Some ms);
     dump_regions E s aid space_node pd_node rs ms }"

definition ads_dump_rr ::
    "'w env \<Rightarrow> 'w gpi_server \<Rightarrow> ads_t \<Rightarrow> nat \<Rightarrow> model_state_t \<Rightarrow> (nat \<times> model_state_t) option" where
  "ads_dump_rr E s a pd_node ms = do {
     let N = type_names_of s;
     found \<leftarrow> get_resource_space_node N GPICAP_TYPE_ADS (ads_id a) ms;
     (space_node, ms) \<leftarrow> (case found of Some x \<Rightarrow> Some (x, ms)
       | None \<Rightarrow> do {
           (x, ms) \<leftarrow> add_resource_space_node N GPICAP_TYPE_ADS (ads_id a) False ms;
           (y, ms) \<leftarrow> add_resource_space_node N GPICAP_TYPE_MO (comp_space_id (mo_component s)) False ms;
           ms \<leftarrow> add_edge GPI_EDGE_TYPE_MAP x y ms;
           Some (x, ms) });
     n \<leftarrow> node_at ms space_node;
     if extracted n then Some (space_node, ms)
     else do {
       (root, ms) \<leftarrow> get_root_node ms;
       ms \<leftarrow> add_edge GPI_EDGE_TYPE_HOLD root space_node ms;
       ms \<leftarrow> dump_regions E s (ads_id a) space_node pd_node (head (attach_registry a)) ms;
       Some (space_node, mark_extracted space_node ms) } }"

text \<open>Memory objects (mo\_obj.c).\<close>

definition mo_extra :: "mo_t \<Rightarrow> string option" where
  "mo_extra x = do {
     c_assert (frame_paddrs x \<noteq> []);
     Some (snprintf CSV_MAX_STRING_SIZE (''0x'' @ hex (unat (hd (frame_paddrs x))) @ ''_'' @
       decimal (length (filter (\<lambda>c. c \<noteq> 0) (take (unat (num_pages x)) (frame_caps_in_root_task x)))) @ ''_'' @
       decimal (unat (mo_page_bits x)))) }"

definition mo_dump_rr :: "'w gpi_server \<Rightarrow> mo_t \<Rightarrow> nat \<Rightarrow> model_state_t \<Rightarrow> (nat \<times> model_state_t) option" where
  "mo_dump_rr s x pd_node ms = do {
     let N = type_names_of s;
     let sid = comp_space_id (mo_component s);
     (root, ms) \<leftarrow> get_root_node ms;
     found \<leftarrow> get_resource_space_node N GPICAP_TYPE_MO sid ms;
     (space_node, ms) \<leftarrow> (case found of Some y \<Rightarrow> Some (y, ms)
       | None \<Rightarrow> do {
           (y, ms) \<leftarrow> add_resource_space_node N GPICAP_TYPE_MO sid False ms;
           ms \<leftarrow> add_edge GPI_EDGE_TYPE_HOLD root y ms;
           Some (y, ms) });
     let rid = make_res_id GPICAP_TYPE_MO sid (mo_obj_id x);
     found \<leftarrow> get_resource_node N rid ms;
     (mo_node, ms) \<leftarrow> (case found of Some y \<Rightarrow> Some (y, ms) | None \<Rightarrow> add_resource_node N rid False ms);
     n \<leftarrow> node_at ms mo_node;
     if extracted n then Some (mo_node, ms)
     else do {
       ms \<leftarrow> add_edge GPI_EDGE_TYPE_HOLD pd_node mo_node ms;
       ms \<leftarrow> add_edge GPI_EDGE_TYPE_SUBSET mo_node space_node ms;
       extra \<leftarrow> mo_extra x;
       ms \<leftarrow> set_node_extra mo_node extra ms;
       Some (mo_node, mark_extracted mo_node ms) } }"

text \<open>Processors (cpu\_obj.c). The space of physical processors is looked up, and would be added, under the type and the ID of the
  space of virtual ones.\<close>

definition cpu_dump_rr :: "'w env \<Rightarrow> 'w gpi_server \<Rightarrow> cpu_t \<Rightarrow> nat \<Rightarrow> model_state_t \<Rightarrow> (nat \<times> model_state_t) option" where
  "cpu_dump_rr E s x pd_node ms = do {
     let N = type_names_of s;
     let sid = comp_space_id (cpu_component s);
     (root, ms) \<leftarrow> get_root_node ms;
     found \<leftarrow> get_resource_space_node N GPICAP_TYPE_CPU sid ms;
     (vspace_node, ms) \<leftarrow> (case found of Some y \<Rightarrow> Some (y, ms)
       | None \<Rightarrow> do {
           (y, ms) \<leftarrow> add_resource_space_node N GPICAP_TYPE_CPU sid False ms;
           ms \<leftarrow> add_edge GPI_EDGE_TYPE_HOLD root y ms;
           Some (y, ms) });
     found \<leftarrow> get_resource_space_node N GPICAP_TYPE_CPU sid ms;
     (pspace_node, ms) \<leftarrow> (case found of Some y \<Rightarrow> Some (y, ms)
       | None \<Rightarrow> do {
           (y, ms) \<leftarrow> add_resource_space_node N GPICAP_TYPE_CPU sid False ms;
           ms \<leftarrow> add_edge GPI_EDGE_TYPE_HOLD root y ms;
           ms \<leftarrow> add_edge GPI_EDGE_TYPE_MAP vspace_node y ms;
           Some (y, ms) });
     let rid = make_res_id GPICAP_TYPE_CPU sid (cpu_id x);
     found \<leftarrow> get_resource_node N rid ms;
     (cpu_node, ms) \<leftarrow> (case found of Some y \<Rightarrow> Some (y, ms) | None \<Rightarrow> add_resource_node N rid False ms);
     n \<leftarrow> node_at ms cpu_node;
     if extracted n then Some (cpu_node, ms)
     else do {
       ms \<leftarrow> (if vcpu x \<noteq> seL4_CapNull then set_node_extra cpu_node ''elevated'' ms else Some ms);
       ms \<leftarrow> add_edge GPI_EDGE_TYPE_HOLD pd_node cpu_node ms;
       ms \<leftarrow> add_edge GPI_EDGE_TYPE_SUBSET cpu_node vspace_node ms;
       (core_node, ms) \<leftarrow> add_resource_node N (make_res_id GPICAP_TYPE_PCPU 1 (ucast (cpu_affinity E (tcb x)))) True ms;
       ms \<leftarrow> add_edge GPI_EDGE_TYPE_MAP cpu_node core_node ms;
       ms \<leftarrow> add_edge GPI_EDGE_TYPE_HOLD root core_node ms;
       ms \<leftarrow> add_edge GPI_EDGE_TYPE_SUBSET core_node pspace_node ms;
       Some (cpu_node, mark_extracted cpu_node ms) } }"

text \<open>Resource spaces (resource\_space\_component.c); the list holds pointers to the spaces that are mapped to.\<close>

fun dump_map_spaces :: "'w gpi_server \<Rightarrow> nat \<Rightarrow> gpi_space_id_t list \<Rightarrow> model_state_t \<Rightarrow> model_state_t option" where
  "dump_map_spaces s space_node [] ms = Some ms"
| "dump_map_spaces s space_node (x # xs) ms = do {
     e \<leftarrow> resource_space_get_entry_by_id x s;
     to_id \<leftarrow> get_resource_space_id (type_names_of s) (resource_type (space e)) (space_id (space e));
     n \<leftarrow> node_at ms space_node;
     ms \<leftarrow> add_edge_by_id GPI_EDGE_TYPE_MAP (node_id n) to_id ms;
     dump_map_spaces s space_node xs ms }"

definition resspc_dump_rr :: "'w gpi_server \<Rightarrow> res_space_t \<Rightarrow> model_state_t \<Rightarrow> (nat \<times> model_state_t) option" where
  "resspc_dump_rr s x ms = do {
     let N = type_names_of s;
     (root, ms) \<leftarrow> get_root_node ms;
     found \<leftarrow> get_resource_space_node N (resource_type x) (space_id x) ms;
     (space_node, ms) \<leftarrow> (case found of Some y \<Rightarrow> Some (y, ms)
       | None \<Rightarrow> add_resource_space_node N (resource_type x) (space_id x) False ms);
     n \<leftarrow> node_at ms space_node;
     if extracted n then Some (space_node, ms)
     else do {
       ms \<leftarrow> dump_map_spaces s space_node (map_spaces x) ms;
       Some (space_node, mark_extracted space_node ms) } }"

subsection \<open>Protection domains (pd\_obj.c)\<close>

type_synonym 'w dumped = "(int \<times> model_state_t \<times> 'w gpi_server) option"

text \<open>Asking a resource server for relations: a work item for the PD \<open>manager\<close>.\<close>

definition queue_extraction ::
    "'w env \<Rightarrow> gpi_obj_id_t \<Rightarrow> gpi_res_id_t \<Rightarrow> gpi_obj_id_t \<Rightarrow> 'w gpi_server \<Rightarrow> (int \<times> 'w gpi_server) option" where
  "queue_extraction E manager rid client s =
     (let (r, s) = kern E (Obj Calloc) s in
      if val r = 0 then Some (UNKNOWN_ERR, s)
      else do {
        s \<leftarrow> pd_component_queue_model_extraction_work E manager \<lparr>work_res_id = rid, client_pd_id = client, is_critical = False\<rparr> s;
        Some (0, s) })"

text \<open>A resource that is not one of the core types.\<close>

definition other_res_dump ::
    "'w env \<Rightarrow> gpi_obj_id_t \<Rightarrow> gpi_res_id_t \<Rightarrow> nat \<Rightarrow> model_state_t \<Rightarrow> 'w gpi_server \<Rightarrow> 'w dumped" where
  "other_res_dump E pid rid pd_node ms s = do {
     let N = type_names_of s;
     found \<leftarrow> get_resource_node N rid ms;
     (res_node, ms) \<leftarrow> (case found of Some y \<Rightarrow> Some (y, ms) | None \<Rightarrow> add_resource_node N rid False ms);
     n \<leftarrow> node_at ms res_node;
     (error, ms, s) \<leftarrow>
       (if extracted n then Some (0, ms, s)
        else (case resource_space_get_entry_by_id (res_space_id rid) s of
          None \<Rightarrow> Some (UNKNOWN_ERR, ms, s)
        | Some e \<Rightarrow> do {
            sid \<leftarrow> get_resource_space_id N (resource_type (space e)) (space_id (space e));
            ms \<leftarrow> add_edge_by_id GPI_EDGE_TYPE_SUBSET (node_id n) sid ms;
            (case pd_component_registry_get_entry_by_id (space_pd_id (space e)) s of
               None \<Rightarrow> Some (UNKNOWN_ERR, ms, s)
             | Some _ \<Rightarrow> do {
                 (error, s) \<leftarrow> (if map_spaces (space e) \<noteq> [] then queue_extraction E (space_pd_id (space e)) rid pid s else Some (0, s));
                 Some (error, if error = 0 then mark_extracted res_node ms else ms, s) }) }));
     if error \<noteq> 0 then Some (error, ms, s)
     else do {
       ms \<leftarrow> add_edge GPI_EDGE_TYPE_HOLD pd_node res_node ms;
       Some (0, ms, s) } }"

text \<open>One held resource. \<open>dump\<close> is the dump of a PD, whose error is ignored.\<close>

definition res_dump ::
    "'w env \<Rightarrow> (gpi_obj_id_t \<Rightarrow> model_state_t \<Rightarrow> 'w gpi_server \<Rightarrow> 'w dumped) \<Rightarrow> gpi_obj_id_t \<Rightarrow> nat \<Rightarrow> pd_hold_node_t \<Rightarrow>
     model_state_t \<Rightarrow> 'w gpi_server \<Rightarrow> 'w dumped" where
  "res_dump E dump pid pd_node h ms s =
     (let rid = res_id h;
          held = (\<lambda>(res_node, ms). do { ms \<leftarrow> add_edge GPI_EDGE_TYPE_HOLD pd_node res_node ms; Some (0, ms, s) }) in
      if res_type rid \<in> {GPICAP_TYPE_NONE, GPICAP_TYPE_seL4, GPICAP_TYPE_VMR, GPICAP_TYPE_EP} then Some (0, ms, s)
      else if res_type rid = GPICAP_TYPE_ADS then
        (case resource_component_registry_get_by_id ads_component (res_object_id rid) s of
           None \<Rightarrow> Some (UNKNOWN_ERR, ms, s)
         | Some e \<Rightarrow> Option.bind (ads_dump_rr E s (ads e) pd_node ms) held)
      else if res_type rid = GPICAP_TYPE_MO then do {
        c_assert (res_space_id rid = comp_space_id (mo_component s));
        (case resource_component_registry_get_by_id mo_component (res_object_id rid) s of
           None \<Rightarrow> Some (UNKNOWN_ERR, ms, s)
         | Some e \<Rightarrow> Option.bind (mo_dump_rr s (mo e) pd_node ms) held) }
      else if res_type rid = GPICAP_TYPE_CPU then
        (case resource_component_registry_get_by_id cpu_component (res_object_id rid) s of
           None \<Rightarrow> Some (UNKNOWN_ERR, ms, s)
         | Some e \<Rightarrow> Option.bind (cpu_dump_rr E s (cpu e) pd_node ms) held)
      else if res_type rid = GPICAP_TYPE_PD then
        (if res_object_id rid = pid then Some (0, ms, s)
         else (case pd_component_registry_get_entry_by_id (res_object_id rid) s of
           None \<Rightarrow> Some (UNKNOWN_ERR, ms, s)
         | Some e \<Rightarrow> do {
             (_, ms, s) \<leftarrow> dump (res_object_id rid) ms s;
             Some (0, ms, s) }))
      else if res_type rid = GPICAP_TYPE_RESSPC then
        (case resource_space_get_entry_by_id (res_object_id rid) s of
           None \<Rightarrow> Some (UNKNOWN_ERR, ms, s)
         | Some e \<Rightarrow> Option.bind (resspc_dump_rr s (space e) ms) held)
      else other_res_dump E pid rid pd_node ms s)"

fun dump_holds ::
    "'w env \<Rightarrow> (gpi_obj_id_t \<Rightarrow> model_state_t \<Rightarrow> 'w gpi_server \<Rightarrow> 'w dumped) \<Rightarrow> gpi_obj_id_t \<Rightarrow> nat \<Rightarrow> pd_hold_node_t list \<Rightarrow>
     model_state_t \<Rightarrow> 'w gpi_server \<Rightarrow> 'w dumped" where
  "dump_holds E dump pid pd_node [] ms s = Some (0, ms, s)"
| "dump_holds E dump pid pd_node (h # hs) ms s = do {
     (error, ms, s) \<leftarrow> res_dump E dump pid pd_node h ms s;
     if error \<noteq> 0 then Some (1, ms, s) else dump_holds E dump pid pd_node hs ms s }"

text \<open>The loop over the directory. The PD of the server is not checked before its queue is used.\<close>

fun dump_rdes ::
    "'w env \<Rightarrow> gpi_obj_id_t \<Rightarrow> nat \<Rightarrow> osmosis_rde_t list \<Rightarrow> model_state_t \<Rightarrow> 'w gpi_server \<Rightarrow> 'w dumped" where
  "dump_rdes E pid pd_node [] ms s = Some (0, ms, s)"
| "dump_rdes E pid pd_node (r # rs) ms s =
     (if rde_type r = GPICAP_TYPE_NONE then dump_rdes E pid pd_node rs ms s
      else (case resource_space_get_entry_by_id (rde_space_id r) s of
        None \<Rightarrow> Some (UNKNOWN_ERR, ms, s)
      | Some rm \<Rightarrow> do {
          n \<leftarrow> node_at ms pd_node;
          ms \<leftarrow> add_request_edge_by_id (node_id n) (get_pd_id (space_pd_id (space rm))) (rde_type r) ms;
          (error, s) \<leftarrow> (if space_pd_id (space rm) \<noteq> rt_pd_id s
            then queue_extraction E (space_pd_id (space rm)) (make_res_id (rde_type r) (rde_space_id r) BADGE_OBJ_ID_NULL) pid s
            else Some (0, s));
          if error \<noteq> 0 then Some (error, ms, s) else dump_rdes E pid pd_node rs ms s }))"

text \<open>At the end the variable \<open>error\<close> is returned, which was never assigned.\<close>

fun pd_dump_internal ::
    "'w env \<Rightarrow> nat \<Rightarrow> gpi_obj_id_t \<Rightarrow> model_state_t \<Rightarrow> 'w gpi_server \<Rightarrow> 'w dumped" where
  "pd_dump_internal E 0 pid ms s = None"
| "pd_dump_internal E (Suc n) pid ms s = do {
     e \<leftarrow> pd_component_registry_get_entry_by_id pid s;
     (case get_pd_node (pd_id (pd e)) ms of
        Some _ \<Rightarrow> Some (0, ms, s)
      | None \<Rightarrow> do {
          (pd_node, ms) \<leftarrow> add_pd_node (pd_name (pd e)) (pd_id (pd e)) True ms;
          c_assert (shared_data (pd e) \<noteq> 0);
          (error, ms, s) \<leftarrow> dump_rdes E (pd_id (pd e)) pd_node (concat (rde (shared (pd e)))) ms s;
          if error \<noteq> 0 then Some (error, ms, s)
          else do {
            (error, ms, s) \<leftarrow> dump_holds E (pd_dump_internal E n) (pd_id (pd e)) pd_node (head (hold_registry (pd e))) ms s;
            Some (if error \<noteq> 0 then 1 else uninit_error E, ms, s) } }) }"

definition pd_dump :: "'w env \<Rightarrow> nat \<Rightarrow> gpi_obj_id_t \<Rightarrow> model_state_t \<Rightarrow> 'w gpi_server \<Rightarrow> 'w dumped" where
  "pd_dump E n pid ms s = do {
     (rt_node, ms) \<leftarrow> get_root_node ms;
     rt_entry \<leftarrow> pd_component_registry_get_entry_by_id (rt_pd_id s) s;
     (error, ms, s) \<leftarrow> dump_holds E (pd_dump_internal E n) (pd_id (pd rt_entry)) rt_node (head (hold_registry (pd rt_entry))) ms s;
     if error \<noteq> 0 then Some (1, ms, s) else pd_dump_internal E n pid ms s }"

subsection \<open>Requests (pd\_component.c)\<close>

definition print_model :: "'w env \<Rightarrow> model_state_t \<Rightarrow> 'w gpi_server \<Rightarrow> 'w gpi_server option" where
  "print_model E ms s = do {
     ls \<leftarrow> print_model_state (type_names_of s) ms;
     destroy_model_state ms;
     Some (kern_seq E (map Console ls) s) }"

text \<open>The results are the reply, whether to send it, and the server.\<close>

definition handle_dump_cap_req :: "'w env \<Rightarrow> nat \<Rightarrow> u64 \<Rightarrow> 'w gpi_server \<Rightarrow> (reply \<times> bool \<times> 'w gpi_server) option" where
  "handle_dump_cap_req E n badge s =
     (if pending_extraction s then Some (error_reply PdComponentError_OPERATION_IN_PROGRESS, True, s)
      else (case pd_component_registry_get_entry_by_badge badge s of
        None \<Rightarrow> Some (error_reply UNKNOWN_ERR, True, s)
      | Some client_data \<Rightarrow> do {
          let (r, s) = kern E (Obj Calloc) s;
          c_assert (val r \<noteq> 0);
          let s = s\<lparr>model_extraction_n_missing := 0\<rparr>;
          (error, ms, s) \<leftarrow> pd_dump E n (ucast (object_id client_data)) (init_model_state (Heap (node_calloc E))) s;
          if error \<noteq> 0 then Some (error_reply error, True, s)
          else if model_extraction_n_missing s > 0 then do {
            let s = s\<lparr>pending_extraction := True, model_state := ms\<rparr>;
            let (r, s) = kern E (Cap (Vka_cspace_alloc Server_Vka)) s;
            let s = kern0 E (Ipc (SaveCaller (val r))) s;
            Some (error_reply 0, False, s\<lparr>model_extraction_reply := val r\<rparr>) }
          else do {
            s \<leftarrow> print_model E ms s;
            Some (error_reply 0, True, s) } }))"

text \<open>The part of a resource server. The components are those in the memory object it sent.\<close>

definition add_subgraph :: "'w env \<Rightarrow> 'w hold_cb \<Rightarrow> ipc \<Rightarrow> 'w gpi_server \<Rightarrow> (int \<times> 'w gpi_server) option" where
  "add_subgraph E od m s =
     (if \<not> sel4gpi_rpc_check_cap m GPICAP_TYPE_MO \<or> get_cap_type_from_badge (seL4_GetBadge m 0) \<noteq> GPICAP_TYPE_MO
      then Some (UNKNOWN_ERR, s)
      else do {
        let mid = get_object_id_from_badge (seL4_GetBadge m 0);
        (error, va, s) \<leftarrow> ads_component_attach_to_rt E od mid s;
        if error \<noteq> 0 then Some (error, s)
        else do {
          ms \<leftarrow> combine_model_states (model_state s)
            \<lparr>ms_nodes = [], ms_edges = [], ms_comps = mo_model E mid (world s), ms_mem = Portable 0 0\<rparr>;
          let s = s\<lparr>model_state := ms\<rparr>;
          ads_component_remove_from_rt E od va s } })"

definition handle_send_subgraph_req ::
    "'w env \<Rightarrow> 'w hold_cb \<Rightarrow> ipc \<Rightarrow> bool \<Rightarrow> u32 \<Rightarrow> 'w gpi_server \<Rightarrow> (reply \<times> 'w gpi_server) option" where
  "handle_send_subgraph_req E od m has_data n_requests s =
     (if \<not> pending_extraction s then Some (error_reply UNKNOWN_ERR, s)
      else do {
        (error, s) \<leftarrow> (if has_data then add_subgraph E od m s else Some (0, s));
        if error \<noteq> 0 then Some (error_reply error, s)
        else do {
          let s = s\<lparr>model_extraction_n_missing := sint (word_of_int (model_extraction_n_missing s) - n_requests)\<rparr>;
          if model_extraction_n_missing s = 0 then do {
            s \<leftarrow> print_model E (model_state s) s;
            Some (error_reply 0, reply_to_saved E (model_extraction_reply s) (s\<lparr>pending_extraction := False\<rparr>)) }
          else Some (error_reply 0, s) } })"

end
