(* ===== verification/Gpi_Server.thy ===== *)
theory Gpi_Server
  imports Cpu_Component Model_Dump
begin

section \<open>Dispatch and start-up (ads\_component.c, pd\_component.c, gpi\_server.c)\<close>

text \<open>
  The dispatch of the messages to the ADS, VMR and PD handlers, the initialization of the components
  in the order of the start-up code, and the choice of the component for a message. The requests that
  load an ELF image (theory Gpi_Elf) or set up a runtime (theory Runtime_Setup) have no constructor here.
\<close>

subsection \<open>Address spaces and regions\<close>

datatype AdsMessage = Ads_Alloc | Ads_Copy u64 u64 int | Ads_Get_res int | Ads_Disconnect
  | Vmr_Attach_no_reserve u64 int | Vmr_Reserve u64 u64 u64 int | Vmr_Delete_by_vaddr u64
  | Vmr_Attach u64 | Vmr_Delete | Ads_Other

definition ADS_RPC_MAGIC :: u64 where "ADS_RPC_MAGIC = 0x414453"
definition VMR_RPC_MAGIC :: u64 where "VMR_RPC_MAGIC = 0x564d52"

text \<open>The boolean says whether the receive slot was used.\<close>

definition vmr_component_handle ::
    "'w env \<Rightarrow> nat \<Rightarrow> u64 \<Rightarrow> AdsMessage \<Rightarrow> ipc \<Rightarrow> u64 \<Rightarrow> 'w gpi_server \<Rightarrow> (reply \<times> bool \<times> 'w gpi_server) option" where
  "vmr_component_handle E n magic msg m badge s =
     (let od = pd_held_resource_on_delete E n; slot = (\<lambda>b (r, s). (r, b, s)) in
      if magic \<noteq> VMR_RPC_MAGIC then Some (error_reply UNKNOWN_ERR, False, s)
      else if get_object_id_from_badge badge = BADGE_OBJ_ID_NULL then
        (case msg of
           Vmr_Attach_no_reserve va t \<Rightarrow>
             map_option (slot True) (handle_vmr_attach_no_reserve_req E od m badge va t s)
         | Vmr_Reserve va bytes bits t \<Rightarrow> map_option (slot False) (handle_vmr_reserve_req E od badge va bytes bits t s)
         | Vmr_Delete_by_vaddr va \<Rightarrow> map_option (slot False) (handle_vmr_delete_by_vaddr_req E od badge va s)
         | _ \<Rightarrow> Some (error_reply UNKNOWN_ERR, False, s))
      else
        (case msg of
           Vmr_Attach offset \<Rightarrow> map_option (slot True) (handle_vmr_attach_req E m badge offset s)
         | Vmr_Delete \<Rightarrow> map_option (slot False) (handle_vmr_delete_req E od badge s)
         | Ads_Disconnect \<Rightarrow> map_option (slot False) (handle_vmr_disconnect_req badge s)
         | _ \<Rightarrow> Some (error_reply UNKNOWN_ERR, False, s)))"

definition ads_component_handle ::
    "'w env \<Rightarrow> nat \<Rightarrow> u64 \<Rightarrow> AdsMessage \<Rightarrow> ipc \<Rightarrow> u64 \<Rightarrow> 'w gpi_server \<Rightarrow> (reply \<times> bool \<times> 'w gpi_server) option" where
  "ads_component_handle E n magic msg m badge s =
     (let od = pd_held_resource_on_delete E n; slot = (\<lambda>b (r, s). (r, b, s)) in
      if get_cap_type_from_badge badge = GPICAP_TYPE_VMR then vmr_component_handle E n magic msg m badge s
      else if magic \<noteq> ADS_RPC_MAGIC then Some (error_reply UNKNOWN_ERR, False, s)
      else if get_object_id_from_badge badge = BADGE_OBJ_ID_NULL \<and>
              get_space_id_from_badge badge = comp_space_id (ads_component s) then
        (case msg of Ads_Alloc \<Rightarrow> map_option (slot False) (handle_ads_allocation E badge s)
         | _ \<Rightarrow> Some (error_reply UNKNOWN_ERR, False, s))
      else
        (case msg of
           Ads_Copy src dest t \<Rightarrow> map_option (slot False) (handle_copy_req E od m badge src dest t s)
         | Ads_Get_res t \<Rightarrow> Some (handle_get_res_request badge t s, False, s)
         | Ads_Disconnect \<Rightarrow> map_option (slot False) (handle_disconnect_request od badge s)
         | _ \<Rightarrow> Some (error_reply UNKNOWN_ERR, False, s)))"

subsection \<open>Protection domains\<close>

datatype PdMessage = Pd_Alloc | Pd_Terminate | Pd_Next_slot | Pd_Free_slot cptr | Pd_Clear_slot cptr
  | Pd_Send_cap cptr bool | Pd_Share_rde gpi_cap_t gpi_space_id_t | Pd_Remove_rde gpi_cap_t gpi_space_id_t
  | Pd_Give_resource gpi_obj_id_t gpi_space_id_t gpi_obj_id_t | Pd_Exit int | Pd_Bench_ipc
  | Pd_Share_res_type gpi_cap_t | Pd_Get_work | Pd_Finish_work "PdWorkAction option" u32
  | Pd_Set_name string | Pd_Link_child | Pd_Irq_bind int u64 bool | Pd_Dump | Pd_Send_subgraph bool u32 | Pd_Other

definition PD_RPC_MAGIC :: u64 where "PD_RPC_MAGIC = 0x5044"

text \<open>What the handler returns: the reply (an ordinary one or a piece of work), whether to send it and
  whether the receive slot was used.\<close>

datatype pd_reply = Plain reply | Work_Reply int work_reply

definition pd_component_handle ::
    "'w env \<Rightarrow> nat \<Rightarrow> u64 \<Rightarrow> PdMessage \<Rightarrow> ipc \<Rightarrow> u64 \<Rightarrow> cptr \<Rightarrow> 'w gpi_server \<Rightarrow>
     (pd_reply \<times> bool \<times> bool \<times> 'w gpi_server) option" where
  "pd_component_handle E n magic msg m badge received_cap s =
     (let od = pd_held_resource_on_delete E n;
          ret = (\<lambda>(r, s). (Plain r, True, False, s));
          bad = (Plain (error_reply UNKNOWN_ERR), True, False, s) in
      if magic \<noteq> PD_RPC_MAGIC then Some bad
      else if get_object_id_from_badge badge = BADGE_OBJ_ID_NULL then
        (case msg of Pd_Alloc \<Rightarrow> map_option ret (handle_pd_allocation E od m badge s) | _ \<Rightarrow> Some bad)
      else
        (case msg of
           Pd_Terminate \<Rightarrow>
             map_option (\<lambda>(r, should_reply, s). (Plain r, should_reply, False, s)) (handle_terminate_req E n badge s)
         | Pd_Next_slot \<Rightarrow> map_option ret (handle_next_slot_req E badge s)
         | Pd_Free_slot slot \<Rightarrow> map_option ret (handle_free_slot_req E badge slot s)
         | Pd_Clear_slot slot \<Rightarrow> map_option ret (handle_clear_slot_req E badge slot s)
         | Pd_Send_cap slot core \<Rightarrow>
             map_option (\<lambda>(r, should_reply, s). (Plain r, should_reply, True, s))
               (handle_send_cap_req E od m badge received_cap slot core s)
         | Pd_Dump \<Rightarrow>
             map_option (\<lambda>(r, should_reply, s). (Plain r, should_reply, False, s)) (handle_dump_cap_req E n badge s)
         | Pd_Share_rde type sid \<Rightarrow> map_option ret (handle_share_rde_req E badge type sid s)
         | Pd_Remove_rde type sid \<Rightarrow> map_option ret (handle_remove_rde_req E badge type sid s)
         | Pd_Give_resource recipient sid oid \<Rightarrow>
             map_option ret (handle_give_resource_req E badge recipient sid oid s)
         | Pd_Exit code \<Rightarrow>
             map_option (\<lambda>s. (Plain (error_reply 0), False, False, s)) (handle_exit_req E n badge code s)
         | Pd_Bench_ipc \<Rightarrow> Some (ret (handle_ipc_bench_req E received_cap s))
         | Pd_Share_res_type type \<Rightarrow> map_option ret (handle_share_resource_type_req E m badge type s)
         | Pd_Get_work \<Rightarrow>
             map_option (\<lambda>(e, w, s). (Work_Reply e w, True, False, s)) (handle_get_work_req badge s)
         | Pd_Send_subgraph has_data k \<Rightarrow> map_option ret (handle_send_subgraph_req E od m has_data k s)
         | Pd_Finish_work type k \<Rightarrow> Some (ret (handle_finish_work_req E type k s))
         | Pd_Set_name name \<Rightarrow> Some (ret (handle_set_name_req badge name s))
         | Pd_Link_child \<Rightarrow> map_option ret (handle_link_child_req E m badge s)
         | Pd_Irq_bind irq b copy \<Rightarrow> map_option ret (handle_irq_handler_bind_req E badge irq b copy s)
         | _ \<Rightarrow> Some bad))"

subsection \<open>Start-up\<close>

definition pd_component_initialize :: "'w env \<Rightarrow> cptr \<Rightarrow> 'w gpi_server \<Rightarrow> 'w gpi_server option" where
  "pd_component_initialize E raw_ep s = do {
     (error, space_entry, cap, s) \<leftarrow> resspc_allocate E GPICAP_TYPE_PD (server_ep_obj s) (rt_pd_id s) (rt_pd_id s) False s;
     c_assert (error = 0);
     sid \<leftarrow> space_entry;
     Some (pd_component_update (resource_component_initialize GPICAP_TYPE_PD sid raw_ep) s) }"

text \<open>The initial ASID pool is the one the kernel provides.\<close>

definition seL4_CapInitThreadASIDPool :: cptr where "seL4_CapInitThreadASIDPool = 6"

definition ads_component_initialize :: "'w env \<Rightarrow> cptr \<Rightarrow> 'w gpi_server \<Rightarrow> 'w gpi_server option" where
  "ads_component_initialize E raw_ep s = do {
     (error, space_entry, cap, s) \<leftarrow> resspc_allocate E GPICAP_TYPE_ADS (server_ep_obj s) (rt_pd_id s) (rt_pd_id s) False s;
     c_assert (error = 0);
     sid \<leftarrow> space_entry;
     Some (ads_component_update
       (\<lambda>c. (resource_component_initialize GPICAP_TYPE_ADS sid raw_ep c)\<lparr>pool := seL4_CapInitThreadASIDPool\<rparr>) s) }"

definition cpu_component_initialize :: "'w env \<Rightarrow> cptr \<Rightarrow> 'w gpi_server \<Rightarrow> 'w gpi_server option" where
  "cpu_component_initialize E raw_ep s = do {
     (error, space_entry, cap, s) \<leftarrow> resspc_allocate E GPICAP_TYPE_CPU (server_ep_obj s) (rt_pd_id s) (rt_pd_id s) False s;
     c_assert (error = 0);
     sid \<leftarrow> space_entry;
     Some (cpu_component_update (resource_component_initialize GPICAP_TYPE_CPU sid raw_ep) s) }"

definition ep_component_initialize :: "'w env \<Rightarrow> cptr \<Rightarrow> 'w gpi_server \<Rightarrow> 'w gpi_server option" where
  "ep_component_initialize E raw_ep s = do {
     (error, space_entry, cap, s) \<leftarrow> resspc_allocate E GPICAP_TYPE_EP (server_ep_obj s) (rt_pd_id s) (rt_pd_id s) False s;
     c_assert (error = 0);
     sid \<leftarrow> space_entry;
     Some (ep_component_update (resource_component_initialize GPICAP_TYPE_EP sid raw_ep) s) }"

text \<open>The part of \<open>gpi_server_parent_spawn_thread\<close> from the resource types to the PD of the root task,
  on a server context whose endpoint has been allocated.\<close>

definition server_components_initialize :: "'w env \<Rightarrow> 'w gpi_server \<Rightarrow> 'w gpi_server option" where
  "server_components_initialize E s = do {
     let raw_ep = server_ep_obj s;
     types \<leftarrow> resource_types_initialize;
     let s = s\<lparr>resource_types := types\<rparr>;
     s \<leftarrow> resspc_component_initialize E raw_ep s;
     s \<leftarrow> pd_component_initialize E raw_ep s;
     s \<leftarrow> ads_component_initialize E raw_ep s;
     s \<leftarrow> mo_component_initialize E raw_ep s;
     s \<leftarrow> cpu_component_initialize E raw_ep s;
     s \<leftarrow> ep_component_initialize E raw_ep s;
     forge_pd_for_root_task E (rt_pd_id s) s }"

subsection \<open>The component for a message\<close>

text \<open>The switch of \<open>gpi_server_main\<close>; any other type panics.\<close>

definition select_component :: "u64 \<Rightarrow> component option" where
  "select_component badge =
     (let t = get_cap_type_from_badge badge in
      if t = GPICAP_TYPE_ADS \<or> t = GPICAP_TYPE_VMR then Some Ads_Component
      else if t = GPICAP_TYPE_MO then Some Mo_Component
      else if t = GPICAP_TYPE_CPU then Some Cpu_Component
      else if t = GPICAP_TYPE_PD then Some Pd_Component
      else if t = GPICAP_TYPE_RESSPC then Some Resspc_Component
      else if t = GPICAP_TYPE_EP then Some Ep_Component
      else None)"

datatype message = Ads_Msg AdsMessage | Mo_Msg MoMessage | Cpu_Msg CpuMessage | Pd_Msg PdMessage
  | Resspc_Msg ResSpcMessage | Ep_Msg EpMessage

text \<open>The second half of \<open>resource_component_handle\<close>: send the reply and get a new receive slot. The
  last result is the receive slot.\<close>

definition finish_request ::
    "'w env \<Rightarrow> gpi_cap_t \<Rightarrow> cptr \<Rightarrow> (pd_reply \<times> bool \<times> bool \<times> 'w gpi_server) \<Rightarrow>
     (pd_reply option \<times> cptr \<times> 'w gpi_server) option" where
  "finish_request E type received_cap = (\<lambda>(r, should_reply, new_slot, s). do {
     (sent, s) \<leftarrow> (if should_reply then do {
         let (q, s) = kern E (Ipc (Rpc_reply type)) s;
         c_assert (err q = 0);
         Some (Some r, kern0 E (Ipc Reply) s) }
       else Some (None, s));
     if new_slot then do {
       let (q, s) = kern E (Cap (Vka_cspace_alloc Server_Vka)) s;
       c_assert (err q = 0);
       Some (sent, val q, s) }
     else Some (sent, received_cap, s) })"

text \<open>The request handlers, with the message that the decoder of the component's RPC messages
  produces.\<close>

definition request_handler ::
    "'w env \<Rightarrow> nat \<Rightarrow> u64 \<Rightarrow> message \<Rightarrow> ipc \<Rightarrow> u64 \<Rightarrow> cptr \<Rightarrow> 'w gpi_server \<Rightarrow>
     (pd_reply \<times> bool \<times> bool \<times> 'w gpi_server) option" where
  "request_handler E n magic msg m badge received_cap s = (case msg of
       Ads_Msg x \<Rightarrow> map_option (\<lambda>(r, b, s). (Plain r, True, b, s)) (ads_component_handle E n magic x m badge s)
     | Mo_Msg x \<Rightarrow> map_option (\<lambda>(r, s). (Plain r, True, False, s)) (mo_component_handle E n magic x badge s)
     | Cpu_Msg x \<Rightarrow> map_option (\<lambda>(r, c, b, s). (Plain r, c, b, s)) (cpu_component_handle E n magic x m badge s)
     | Pd_Msg x \<Rightarrow> pd_component_handle E n magic x m badge received_cap s
     | Resspc_Msg x \<Rightarrow> map_option (\<lambda>(r, b, s). (Plain r, True, b, s)) (resspc_component_handle E n magic x m badge s)
     | Ep_Msg x \<Rightarrow> map_option (\<lambda>(r, b, s). (Plain r, True, b, s)) (ep_component_handle E n magic x m badge s))"

fun message_component :: "message \<Rightarrow> component" where
  "message_component (Ads_Msg _) = Ads_Component"
| "message_component (Mo_Msg _) = Mo_Component"
| "message_component (Cpu_Msg _) = Cpu_Component"
| "message_component (Pd_Msg _) = Pd_Component"
| "message_component (Resspc_Msg _) = Resspc_Component"
| "message_component (Ep_Msg _) = Ep_Component"

text \<open>One turn of the server loop: the badge selects the component, whose decoder must accept the
  message.\<close>

definition gpi_server_turn ::
    "'w env \<Rightarrow> nat \<Rightarrow> u64 \<Rightarrow> message \<Rightarrow> ipc \<Rightarrow> u64 \<Rightarrow> cptr \<Rightarrow> 'w gpi_server \<Rightarrow>
     (pd_reply option \<times> cptr \<times> 'w gpi_server) option" where
  "gpi_server_turn E n magic msg m badge received_cap s = do {
     c \<leftarrow> select_component badge;
     let (q, s) = kern E (Ipc (Rpc_recv (get_cap_type_from_badge badge))) s;
     c_assert (err q = 0 \<and> message_component msg = c);
     r \<leftarrow> request_handler E n magic msg m badge received_cap s;
     finish_request E (get_cap_type_from_badge badge) received_cap r }"

end
