(* ===== verification/Linked_List.thy ===== *)
theory Linked_List
  imports Prelude
begin

section \<open>The doubly linked list (linked_list.c, linked_list.h)\<close>

text \<open>
  The work queues of the PD component, the resource lists of the PD objects and the map-space lists
  of resource spaces are instances of this list. The nodes live in a heap (a map from addresses to
  nodes, undefined where nothing is allocated), a pointer is an \<open>addr option\<close> with \<open>None\<close> for
  NULL, and the list header is passed as the C code receives it, possibly NULL. What \<open>calloc\<close>
  returned is an argument of the operations that allocate. Dereferencing a pointer to memory that
  is not allocated, and a failed assertion, give \<open>None\<close>.

  The lemmas relate the heap to the sequence of data it holds: inserting appends, popping removes
  the first element and frees its node, indexing reads, destroying frees every node.
\<close>

type_synonym addr = nat

record 'd linked_list_node_t =
  data :: 'd
  "next" :: "addr option"
  prev :: "addr option"

record linked_list_t =
  lhead :: "addr option"
  ltail :: "addr option"
  lcount :: u64

type_synonym 'd lheap = "addr \<rightharpoonup> 'd linked_list_node_t"

text \<open>\<open>linked_list_new\<close>: a zeroed header.\<close>

definition linked_list_new :: linked_list_t where
  "linked_list_new = \<lparr>lhead = None, ltail = None, lcount = 0\<rparr>"

definition linked_list_insert ::
    "'d lheap \<Rightarrow> linked_list_t option \<Rightarrow> addr option \<Rightarrow> 'd \<Rightarrow> ('d lheap \<times> linked_list_t option) option"
  where
  [heap_defs]: "linked_list_insert h list calloc_result d =
     (case list of None \<Rightarrow> Some (h, None)
      | Some l \<Rightarrow>
        (case calloc_result of None \<Rightarrow> None
         | Some new_node \<Rightarrow>
           (let h = h(new_node \<mapsto> \<lparr>data = d, next = None, prev = None\<rparr>);
                l = (if lhead l = None then l\<lparr>lhead := Some new_node\<rparr> else l)
            in do {
              h \<leftarrow> (case ltail l of
                     None \<Rightarrow> Some h
                   | Some t \<Rightarrow> do {
                       tn \<leftarrow> h t;
                       let h = h(t \<mapsto> tn\<lparr>next := Some new_node\<rparr>);
                       nn \<leftarrow> h new_node;
                       Some (h(new_node \<mapsto> nn\<lparr>prev := Some t\<rparr>)) });
              Some (h, Some (l\<lparr>ltail := Some new_node, lcount := lcount l + 1\<rparr>)) })))"

text \<open>The data is returned through a pointer; \<open>None\<close> is NULL.\<close>

definition linked_list_pop_head ::
    "'d lheap \<Rightarrow> linked_list_t option \<Rightarrow> ('d option \<times> 'd lheap \<times> linked_list_t option) option" where
  [heap_defs]: "linked_list_pop_head h list =
     (case list of None \<Rightarrow> Some (None, h, None)
      | Some l \<Rightarrow>
        (case lhead l of None \<Rightarrow> Some (None, h, Some l)
         | Some a \<Rightarrow> do {
             n \<leftarrow> h a;
             let l = l\<lparr>lhead := next n, lcount := lcount l - 1\<rparr>;
             (h, l) \<leftarrow> (case next n of
                         Some b \<Rightarrow> do {
                           bn \<leftarrow> h b;
                           Some (h(b \<mapsto> bn\<lparr>prev := None\<rparr>), l) }
                       | None \<Rightarrow> Some (h, l\<lparr>ltail := None\<rparr>));
             Some (Some (data n), h(a := None), Some l) }))"

text \<open>The walk of \<open>linked_list_get_at_idx\<close>: \<open>steps\<close> is \<open>idx - curr_idx\<close>. The outer option is a
  fault, the result of the walk is a pointer.\<close>

fun walk :: "'d lheap \<Rightarrow> nat \<Rightarrow> addr option \<Rightarrow> addr option option" where
  "walk h 0 cur = Some cur"
| "walk h (Suc steps) None = Some None"
| "walk h (Suc steps) (Some a) = do { n \<leftarrow> h a; walk h steps (next n) }"

definition linked_list_get_at_idx :: "'d lheap \<Rightarrow> linked_list_t option \<Rightarrow> u64 \<Rightarrow> 'd option option" where
  [heap_defs]: "linked_list_get_at_idx h list idx =
     (case list of None \<Rightarrow> Some None
      | Some l \<Rightarrow>
        if lhead l \<noteq> None \<and> idx < lcount l then do {
          cur \<leftarrow> walk h (unat idx) (lhead l);
          (case cur of None \<Rightarrow> Some None | Some a \<Rightarrow> do { n \<leftarrow> h a; Some (Some (data n)) }) }
        else Some None)"

text \<open>The loop of \<open>linked_list_destroy\<close>: it returns the heap and the data it freed (empty unless
  \<open>free_data\<close>). A list with a cycle reaches a freed node and faults.\<close>

partial_function (option) destroy_loop ::
    "bool \<Rightarrow> 'd lheap \<Rightarrow> addr option \<Rightarrow> 'd list \<Rightarrow> ('d lheap \<times> 'd list) option" where
  [code]: "destroy_loop free_data h cur freed =
     (case cur of None \<Rightarrow> Some (h, freed)
      | Some a \<Rightarrow> do {
          n \<leftarrow> h a;
          destroy_loop free_data (h(a := None)) (next n)
            (if free_data then freed @ [data n] else freed) })"

definition linked_list_destroy ::
    "'d lheap \<Rightarrow> linked_list_t option \<Rightarrow> bool \<Rightarrow> ('d lheap \<times> 'd list) option" where
  [heap_defs]: "linked_list_destroy h list free_data =
     (case list of None \<Rightarrow> Some (h, []) | Some l \<Rightarrow> destroy_loop free_data h (lhead l) [])"

text \<open>The variadic insertion: the data and what \<open>calloc\<close> returned for each.\<close>

fun linked_list_insert_many ::
    "'d lheap \<Rightarrow> linked_list_t option \<Rightarrow> (addr option \<times> 'd) list \<Rightarrow> ('d lheap \<times> linked_list_t option) option"
  where
  "linked_list_insert_many h list [] = Some (h, list)"
| "linked_list_insert_many h list ((c, d) # args) = do {
     (h, list) \<leftarrow> linked_list_insert h list c d;
     linked_list_insert_many h list args }"

subsection \<open>The heap as a sequence\<close>

text \<open>\<open>segment h p a ns z\<close>: the nodes at addresses \<open>ns\<close> form a chain from \<open>a\<close> whose \<open>prev\<close>
  pointers point back and start with \<open>p\<close>, and which ends with \<open>next = None\<close> and last node \<open>z\<close>.\<close>

fun segment :: "'d lheap \<Rightarrow> addr option \<Rightarrow> addr option \<Rightarrow> addr list \<Rightarrow> bool" where
  "segment h p a [] = (a = None)"
| "segment h p a (x # xs) =
     (a = Some x \<and> (\<exists>n. h x = Some n \<and> prev n = p \<and> segment h (Some x) (next n) xs))"

definition data_at :: "'d lheap \<Rightarrow> addr list \<Rightarrow> 'd list" where
  "data_at h ns = map (\<lambda>a. data (the (h a))) ns"

definition list_rep :: "'d lheap \<Rightarrow> linked_list_t \<Rightarrow> addr list \<Rightarrow> bool" where
  "list_rep h l ns \<longleftrightarrow> segment h None (lhead l) ns \<and> distinct ns \<and>
     ltail l = (if ns = [] then None else Some (last ns)) \<and>
     lcount l = of_nat (length ns) \<and> length ns < 2 ^ 64"

lemma segment_frame:
  "segment h p a ns \<Longrightarrow> (\<And>x. x \<in> set ns \<Longrightarrow> h' x = h x) \<Longrightarrow> segment h' p a ns"
  by (induction ns arbitrary: p a) auto

lemma segment_dom: "segment h p a ns \<Longrightarrow> set ns \<subseteq> dom h"
  by (induction ns arbitrary: p a) auto

lemma segment_unique: "segment h p a ns \<Longrightarrow> segment h p' a ms \<Longrightarrow> ns = ms"
proof (induction ns arbitrary: p p' a ms)
  case Nil
  then show ?case by (cases ms) auto
next
  case (Cons x xs)
  then show ?case by (cases ms) auto
qed

lemma segment_snoc:
  assumes "segment h p a (ns @ [t])" and "x \<notin> set (ns @ [t])" and "distinct (ns @ [t])"
    and "h t = Some tn"
  shows "segment (h(x \<mapsto> \<lparr>data = d, next = None, prev = Some t\<rparr>, t \<mapsto> tn\<lparr>next := Some x\<rparr>)) p a
           (ns @ [t, x])"
  using assms
proof (induction ns arbitrary: p a)
  case Nil
  then show ?case by auto
next
  case (Cons y ys)
  then show ?case by (auto simp: fun_upd_other)
qed

lemma data_at_frame: "(\<And>x. x \<in> set ns \<Longrightarrow> h' x = h x) \<Longrightarrow> data_at h' ns = data_at h ns"
  by (simp add: data_at_def)

lemma list_rep_new: "list_rep h linked_list_new []"
  by (simp add: list_rep_def linked_list_new_def)

lemma insert_rep:
  assumes rep: "list_rep h l ns" and fresh: "h a = None" and len: "length ns + 1 < 2 ^ 64"
  shows "\<exists>h' l'. linked_list_insert h (Some l) (Some a) d = Some (h', Some l') \<and>
     list_rep h' l' (ns @ [a]) \<and> data_at h' (ns @ [a]) = data_at h ns @ [d] \<and>
     (\<forall>x. x \<notin> set (ns @ [a]) \<longrightarrow> h' x = h x)"
proof (cases ns rule: rev_cases)
  case Nil
  then show ?thesis using rep
    by (auto simp: linked_list_insert_def list_rep_def data_at_def)
next
  case (snoc ms t)
  have seg: "segment h None (lhead l) (ms @ [t])" and dist: "distinct (ms @ [t])"
    and tl: "ltail l = Some t" and cnt: "lcount l = of_nat (length ns)"
    using rep snoc by (auto simp: list_rep_def)
  obtain tn where tn: "h t = Some tn" using segment_dom [OF seg] by auto
  have a: "a \<notin> set (ms @ [t])" using segment_dom [OF seg] fresh by auto
  then have ta: "t \<noteq> a" by auto
  have hd: "lhead l \<noteq> None" using seg by (cases ms) auto
  let ?h = "h(a \<mapsto> \<lparr>data = d, next = None, prev = Some t\<rparr>, t \<mapsto> tn\<lparr>next := Some a\<rparr>)"
  have eq: "linked_list_insert h (Some l) (Some a) d =
     Some (?h, Some (l\<lparr>ltail := Some a, lcount := lcount l + 1\<rparr>))"
    using tn ta hd tl by (auto simp: linked_list_insert_def Let_def fun_upd_twist)
  have "segment ?h None (lhead l) (ms @ [t, a])" by (rule segment_snoc [OF seg a dist tn])
  then have "list_rep ?h (l\<lparr>ltail := Some a, lcount := lcount l + 1\<rparr>) (ns @ [a])"
    using snoc dist a cnt len by (auto simp: list_rep_def)
  moreover have "data_at ?h (ns @ [a]) = data_at h ns @ [d]"
    using snoc a tn by (auto simp: data_at_def)
  ultimately show ?thesis using eq snoc by auto
qed

lemma segment_prev_change:
  assumes "segment h p (Some x) (x # xs)" and "h x = Some n" and "x \<notin> set xs"
  shows "segment (h(x \<mapsto> n\<lparr>prev := q\<rparr>)) q (Some x) (x # xs)"
proof -
  have "segment h (Some x) (next n) xs" using assms by simp
  then have "segment (h(x \<mapsto> n\<lparr>prev := q\<rparr>)) (Some x) (next n) xs"
    by (rule segment_frame) (use assms(3) in auto)
  then show ?thesis by simp
qed

lemma pop_head_rep:
  assumes rep: "list_rep h l (a # ns)"
  shows "\<exists>h' l'. linked_list_pop_head h (Some l) = Some (Some (data (the (h a))), h', Some l') \<and>
     list_rep h' l' ns \<and> data_at h' ns = data_at h ns \<and> h' a = None \<and>
     (\<forall>x. x \<notin> set (a # ns) \<longrightarrow> h' x = h x)"
proof -
  from rep obtain n where hd: "lhead l = Some a" and n: "h a = Some n"
    and seg: "segment h (Some a) (next n) ns" and dist: "a \<notin> set ns" "distinct ns"
    and tl: "ltail l = Some (last (a # ns))" and cnt: "lcount l = of_nat (length ns) + 1"
    and len: "length ns + 1 < 2 ^ 64"
    by (auto simp: list_rep_def)
  show ?thesis
  proof (cases ns)
    case Nil
    with seg have "next n = None" by simp
    then show ?thesis using Nil hd n cnt
      by (auto simp: linked_list_pop_head_def list_rep_def data_at_def)
  next
    case (Cons b ms)
    then obtain bn where nx: "next n = Some b" and bn: "h b = Some bn" using seg by auto
    have ab: "a \<noteq> b" using dist Cons by auto
    let ?h = "(h(b \<mapsto> bn\<lparr>prev := None\<rparr>))(a := None)"
    let ?l = "l\<lparr>lhead := Some b, lcount := lcount l - 1\<rparr>"
    have eq: "linked_list_pop_head h (Some l) = Some (Some (data n), ?h, Some ?l)"
      using hd n nx bn by (simp add: linked_list_pop_head_def)
    have "segment (h(b \<mapsto> bn\<lparr>prev := None\<rparr>)) None (Some b) (b # ms)"
      using segment_prev_change [of h "Some a" b ms bn None] seg nx bn dist Cons by auto
    then have "segment ?h None (Some b) ns"
      unfolding Cons by (rule segment_frame) (use Cons dist ab in auto)
    then have "list_rep ?h ?l ns"
      using tl cnt len dist Cons by (auto simp: list_rep_def)
    moreover have "data_at ?h ns = data_at h ns"
      using bn dist Cons by (auto simp: data_at_def)
    ultimately show ?thesis using eq n Cons by auto
  qed
qed

lemma pop_head_empty: "list_rep h l [] \<Longrightarrow> linked_list_pop_head h (Some l) = Some (None, h, Some l)"
  by (simp add: linked_list_pop_head_def list_rep_def)

lemma walk_segment:
  "segment h p a ns \<Longrightarrow> i < length ns \<Longrightarrow> walk h i a = Some (Some (ns ! i))"
proof (induction ns arbitrary: p a i)
  case (Cons x xs)
  then show ?case by (cases i) auto
qed simp

lemma get_at_idx_rep:
  assumes rep: "list_rep h l ns"
  shows "linked_list_get_at_idx h (Some l) i =
     Some (if unat i < length ns then Some (data_at h ns ! unat i) else None)"
proof -
  have seg: "segment h None (lhead l) ns" and cnt: "unat (lcount l) = length ns"
    using rep by (auto simp: list_rep_def unat_of_nat_small)
  have idx: "i < lcount l \<longleftrightarrow> unat i < length ns" by (simp add: word_less_nat_alt cnt)
  show ?thesis
  proof (cases "unat i < length ns")
    case True
    then have "lhead l \<noteq> None" using seg by (cases ns) auto
    moreover obtain n where "h (ns ! unat i) = Some n"
      using True segment_dom [OF seg] nth_mem by blast
    ultimately show ?thesis using True idx walk_segment [OF seg True]
      by (simp add: linked_list_get_at_idx_def data_at_def)
  next
    case False
    then show ?thesis using idx by (simp add: linked_list_get_at_idx_def)
  qed
qed

lemma destroy_segment:
  "segment h p a ns \<Longrightarrow> distinct ns \<Longrightarrow>
   destroy_loop fd h a freed =
     Some (\<lambda>x. if x \<in> set ns then None else h x, freed @ (if fd then data_at h ns else []))"
proof (induction ns arbitrary: h p a freed)
  case Nil
  then show ?case by (subst destroy_loop.simps) (simp add: data_at_def)
next
  case (Cons x xs)
  then obtain n where n: "a = Some x" "h x = Some n" "segment h (Some x) (next n) xs" by auto
  have seg: "segment (h(x := None)) (Some x) (next n) xs"
    using n(3) by (rule segment_frame) (use Cons.prems in auto)
  have dist: "distinct xs" using Cons.prems(2) by simp
  have dat: "data_at (h(x := None)) xs = data_at h xs"
    using Cons.prems by (intro data_at_frame) auto
  have IH: "destroy_loop fd (h(x := None)) (next n) fr =
     Some (\<lambda>y. if y \<in> set xs then None else (h(x := None)) y, fr @ (if fd then data_at h xs else []))"
    for fr using Cons.IH [OF seg dist, of fr] unfolding dat .
  show ?case using n IH [of "freed @ [data n]"] IH [of freed]
    by (subst destroy_loop.simps) (auto simp: data_at_def fun_eq_iff)
qed

lemma destroy_rep:
  "list_rep h l ns \<Longrightarrow> linked_list_destroy h (Some l) fd =
     Some (\<lambda>x. if x \<in> set ns then None else h x, if fd then data_at h ns else [])"
  using destroy_segment [of h None "lhead l" ns fd "[]"]
  by (auto simp: linked_list_destroy_def list_rep_def)

subsection \<open>The queue contract\<close>

text \<open>
  What the clients of the list rely on: a first-in first-out queue. \<open>seq\<close> is the abstract content;
  \<open>ok s x\<close> says that the allocator can supply what inserting \<open>x\<close> in \<open>s\<close> needs.
\<close>

locale fifo_queue =
  fixes seq :: "'s \<Rightarrow> 'd list \<Rightarrow> bool"
    and push :: "'a \<Rightarrow> 'd \<Rightarrow> 's \<Rightarrow> 's option"
    and pop :: "'s \<Rightarrow> ('d option \<times> 's) option"
    and ok :: "'s \<Rightarrow> 'a \<Rightarrow> bool"
  assumes push_appends: "seq s xs \<Longrightarrow> ok s a \<Longrightarrow> \<exists>s'. push a d s = Some s' \<and> seq s' (xs @ [d])"
    and pop_first: "seq s (x # xs) \<Longrightarrow> \<exists>s'. pop s = Some (Some x, s') \<and> seq s' xs"
    and pop_none: "seq s [] \<Longrightarrow> pop s = Some (None, s)"
begin

fun drain :: "nat \<Rightarrow> 's \<Rightarrow> ('d list \<times> 's) option" where
  "drain 0 s = Some ([], s)"
| "drain (Suc n) s = (case pop s of
      Some (Some x, s') \<Rightarrow> (case drain n s' of Some (xs, s'') \<Rightarrow> Some (x # xs, s'') | None \<Rightarrow> None)
    | Some (None, s') \<Rightarrow> Some ([], s')
    | None \<Rightarrow> None)"

text \<open>Everything comes out, once, in the order it went in.\<close>

lemma drain_all: "seq s xs \<Longrightarrow> length xs \<le> n \<Longrightarrow> \<exists>s'. drain n s = Some (xs, s') \<and> seq s' []"
proof (induction n arbitrary: s xs)
  case (Suc n)
  show ?case
  proof (cases xs)
    case Nil
    then show ?thesis using pop_none Suc.prems by auto
  next
    case (Cons x ys)
    then obtain s1 where s1: "pop s = Some (Some x, s1)" "seq s1 ys"
      using pop_first Suc.prems by blast
    then obtain s2 where "drain n s1 = Some (ys, s2)" "seq s2 []"
      using Suc.IH [of s1 ys] Suc.prems Cons by auto
    then show ?thesis using s1 Cons by auto
  qed
qed simp

end

definition ll_seq :: "'d lheap \<times> linked_list_t \<Rightarrow> 'd list \<Rightarrow> bool" where
  "ll_seq s xs \<longleftrightarrow> (\<exists>ns. list_rep (fst s) (snd s) ns \<and> data_at (fst s) ns = xs)"

definition ll_push :: "addr \<Rightarrow> 'd \<Rightarrow> 'd lheap \<times> linked_list_t \<Rightarrow> ('d lheap \<times> linked_list_t) option" where
  "ll_push a d s = (case linked_list_insert (fst s) (Some (snd s)) (Some a) d of
     Some (h, Some l) \<Rightarrow> Some (h, l) | _ \<Rightarrow> None)"

definition ll_pop :: "'d lheap \<times> linked_list_t \<Rightarrow> ('d option \<times> 'd lheap \<times> linked_list_t) option" where
  "ll_pop s = (case linked_list_pop_head (fst s) (Some (snd s)) of
     Some (d, h, Some l) \<Rightarrow> Some (d, h, l) | _ \<Rightarrow> None)"

definition ll_ok :: "'d lheap \<times> linked_list_t \<Rightarrow> addr \<Rightarrow> bool" where
  "ll_ok s a \<longleftrightarrow> fst s a = None \<and> lcount (snd s) < 2 ^ 64 - 1"

interpretation linked_list_queue: fifo_queue ll_seq ll_push ll_pop ll_ok
proof
  fix s :: "'d lheap \<times> linked_list_t" and xs a d x
  obtain h l where s: "s = (h, l)" by (cases s)
  show "\<exists>s'. ll_push a d s = Some s' \<and> ll_seq s' (xs @ [d])" if prem: "ll_seq s xs" "ll_ok s a"
  proof -
    obtain ns where ns: "list_rep h l ns" "data_at h ns = xs" using prem(1) unfolding ll_seq_def s by auto
    have "unat (lcount l) = length ns" using ns(1) by (auto simp: list_rep_def unat_of_nat_small)
    then have "length ns + 1 < 2 ^ 64" using prem(2) s
      by (auto simp: ll_ok_def word_less_nat_alt)
    then obtain h' l' where "linked_list_insert h (Some l) (Some a) d = Some (h', Some l')"
      "list_rep h' l' (ns @ [a])" "data_at h' (ns @ [a]) = xs @ [d]"
      using insert_rep [OF ns(1), of a d] prem(2) s ns(2) by (auto simp: ll_ok_def)
    then show ?thesis using s by (auto simp: ll_push_def ll_seq_def)
  qed
  show "\<exists>s'. ll_pop s = Some (Some x, s') \<and> ll_seq s' xs" if prem: "ll_seq s (x # xs)"
  proof -
    obtain b ns where ns: "list_rep h l (b # ns)" "data (the (h b)) = x" "data_at h ns = xs"
      using prem unfolding ll_seq_def s by (auto simp: data_at_def Cons_eq_map_conv)
    then show ?thesis using pop_head_rep [OF ns(1)] s by (auto simp: ll_pop_def ll_seq_def)
  qed
  show "ll_pop s = Some (None, s)" if "ll_seq s []"
    using that s by (auto simp: ll_seq_def data_at_def ll_pop_def pop_head_empty)
qed

subsection \<open>Properties\<close>

lemma insert_many_rep:
  "list_rep h l ns \<Longrightarrow> distinct (map fst args) \<Longrightarrow> (\<And>a. a \<in> set (map fst args) \<Longrightarrow> h a = None) \<Longrightarrow>
   length ns + length args < 2 ^ 64 \<Longrightarrow>
   \<exists>h' l'. linked_list_insert_many h (Some l) (map (apfst Some) args) = Some (h', Some l') \<and>
     list_rep h' l' (ns @ map fst args) \<and> data_at h' (ns @ map fst args) = data_at h ns @ map snd args"
proof (induction args arbitrary: h l ns)
  case Nil
  then show ?case by simp
next
  case (Cons ad args)
  obtain a d where ad: "ad = (a, d)" by (cases ad)
  obtain h1 l1 where 1: "linked_list_insert h (Some l) (Some a) d = Some (h1, Some l1)"
    "list_rep h1 l1 (ns @ [a])" "data_at h1 (ns @ [a]) = data_at h ns @ [d]"
    "\<forall>x. x \<notin> set (ns @ [a]) \<longrightarrow> h1 x = h x"
    using insert_rep [OF Cons.prems(1), of a d] Cons.prems(3,4) ad by auto
  have "segment h None (lhead l) ns" using Cons.prems(1) by (simp add: list_rep_def)
  then have "set ns \<subseteq> dom h" by (rule segment_dom)
  then have "h1 b = None" if "b \<in> set (map fst args)" for b
    using that 1(4) Cons.prems(2,3) ad by (metis (no_types, lifting) Un_iff domIff distinct.simps(2)
        fst_conv list.set(1,2) list.simps(9) set_append singletonD subsetD list.set_intros(2))
  then obtain h2 l2 where
    "linked_list_insert_many h1 (Some l1) (map (apfst Some) args) = Some (h2, Some l2)"
    "list_rep h2 l2 ((ns @ [a]) @ map fst args)"
    "data_at h2 ((ns @ [a]) @ map fst args) = data_at h1 (ns @ [a]) @ map snd args"
    using Cons.IH [OF 1(2)] Cons.prems(2,4) ad by auto
  then show ?case using 1 ad by simp
qed

text \<open>
  C26: the list is a queue. Whatever it holds, after inserting a sequence of elements (at fresh
  addresses) popping until empty returns the old content followed by the new elements, in order,
  and no operation faults.
\<close>

theorem linked_list_fifo:
  assumes "list_rep h l ns" and "distinct (map fst args)"
    and "\<And>a. a \<in> set (map fst args) \<Longrightarrow> h a = None" and "length ns + length args < 2 ^ 64"
  shows "\<exists>h' l' s. linked_list_insert_many h (Some l) (map (apfst Some) args) = Some (h', Some l') \<and>
     linked_list_queue.drain (length ns + length args) (h', l') = Some (data_at h ns @ map snd args, s) \<and>
     ll_seq s []"
proof -
  obtain h' l' where i:
    "linked_list_insert_many h (Some l) (map (apfst Some) args) = Some (h', Some l')"
    "list_rep h' l' (ns @ map fst args)" "data_at h' (ns @ map fst args) = data_at h ns @ map snd args"
    using insert_many_rep [OF assms] by blast
  then have "ll_seq (h', l') (data_at h ns @ map snd args)" by (auto simp: ll_seq_def)
  moreover have "length (data_at h ns @ map snd args) \<le> length ns + length args"
    by (simp add: data_at_def)
  ultimately show ?thesis using linked_list_queue.drain_all i(1) by blast
qed

theorem linked_list_fifo_witness:
  "\<exists>h' l' s. linked_list_insert_many Map.empty (Some linked_list_new) [(Some 8, ''a''), (Some 4, ''b'')]
      = Some (h', Some l') \<and>
     linked_list_queue.drain (Suc (Suc 0)) (h', l') = Some ([''a'', ''b''], s) \<and> ll_seq s []"
  using linked_list_fifo [OF list_rep_new, of "[(8, ''a''), (4, ''b'')]" Map.empty]
  by (simp add: data_at_def)

text \<open>
  Destroying a list frees exactly its nodes (with \<open>free_data\<close>, exactly its data, each once),
  leaves every other allocation alone and does not fault.
\<close>

theorem linked_list_destroy_frees:
  assumes "list_rep h l ns"
  shows "linked_list_destroy h (Some l) fd =
     Some (\<lambda>x. if x \<in> set ns then None else h x, if fd then data_at h ns else [])"
  by (rule destroy_rep [OF assms])

theorem linked_list_destroy_frees_witness:
  "linked_list_destroy [4 \<mapsto> \<lparr>data = ''a'', next = None, prev = None\<rparr>, 9 \<mapsto> \<lparr>data = ''z'', next = Some 1, prev = None\<rparr>]
     (Some \<lparr>lhead = Some 4, ltail = Some 4, lcount = 1\<rparr>) True =
   Some (\<lambda>x. if x \<in> {4} then None else
      [4 \<mapsto> \<lparr>data = ''a'', next = None, prev = None\<rparr>, 9 \<mapsto> \<lparr>data = ''z'', next = Some 1, prev = None\<rparr>] x, [''a''])"
proof -
  let ?h = "[4 \<mapsto> \<lparr>data = ''a'', next = None, prev = None\<rparr>, 9 \<mapsto> \<lparr>data = ''z'', next = Some 1, prev = None\<rparr>]"
  have rep: "list_rep ?h \<lparr>lhead = Some 4, ltail = Some 4, lcount = 1\<rparr> [4]"
    by (simp add: list_rep_def)
  show ?thesis using linked_list_destroy_frees [OF rep, of True] by (simp add: data_at_def)
qed

end
