(* ===== verification/Pd_Holds.thy ===== *)
theory Pd_Holds
  imports Pd_Obj
begin

section \<open>Held resources\<close>

text \<open>
  The hold registry of a PD counts, for each resource, how many times the resource was given to the
  PD. The lemmas describe adding a resource as an update of that count.
\<close>

subsection \<open>The count of a resource\<close>

text \<open>A node is stored under the compact identifier of its resource.\<close>

definition rid_key :: "gpi_res_id_t \<Rightarrow> u64 option" where
  "rid_key rid = compact_res_id (res_type rid) (res_space_id rid) (res_object_id rid)"

definition hold_wf :: "pd_t \<Rightarrow> bool" where
  "hold_wf p \<longleftrightarrow> registry_wf (hold_registry p) \<and> max_object_id (hold_registry p) = BADGE_MAX - 1 \<and>
     list_all (\<lambda>n. rid_key (res_id n) = Some (object_id n)) (head (hold_registry p))"

definition hold_node :: "pd_t \<Rightarrow> gpi_res_id_t \<Rightarrow> pd_hold_node_t option" where
  "hold_node p rid = Option.bind (rid_key rid) (resource_registry_get_by_id (hold_registry p))"

definition hold_count :: "pd_t \<Rightarrow> gpi_res_id_t \<Rightarrow> u32 option" where
  "hold_count p rid = map_option count (hold_node p rid)"

lemma rid_key_inj: "rid_key rid = Some k \<Longrightarrow> rid_key rid' = Some k \<Longrightarrow> rid = rid'"
  unfolding rid_key_def by (drule (1) compact_res_id_inj) simp

lemma rid_key_bound: "rid_key rid = Some k \<Longrightarrow> k \<le> BADGE_MAX - 1"
proof -
  assume "rid_key rid = Some k"
  then have "k \<noteq> BADGE_MAX"
    by (auto simp: rid_key_def compact_res_id_def gpi_new_badge_def bind_eq_Some_conv NOTIF_BADGE_def)
  moreover have "unat k < 2 ^ 64" using unsigned_less [of k] by simp
  ultimately have "unat k < 2 ^ 64 - 1" by (simp add: BADGE_MAX_def word_unat_eq_iff)
  then show ?thesis by (simp add: BADGE_MAX_def word_less_nat_alt word_le_nat_alt)
qed

lemma rid_key_defined: "(\<exists>k. rid_key rid = Some k) \<longleftrightarrow>
    res_type rid \<le> 0xFF \<and> res_space_id rid \<le> 0xFF \<and> res_object_id rid \<le> 0xFFFFF"
  by (simp add: rid_key_def compact_res_id_defined)

lemma pd_get_resource_hold_node: "rid_key rid = Some k \<Longrightarrow> pd_get_resource rid p = Some (hold_node p rid)"
  by (simp add: pd_get_resource_def hold_node_def rid_key_def)

lemma hold_node_res_id: "hold_wf p \<Longrightarrow> hold_node p rid = Some n \<Longrightarrow> res_id n = rid"
  by (auto simp: hold_wf_def hold_node_def resource_registry_get_by_id_def bind_eq_Some_conv list_all_iff
      dest!: HASH_FIND_Some intro: rid_key_inj)

text \<open>The two branches of \<open>pd_add_resource\<close>: a resource that is held already, and a new one.\<close>

lemma add_resource_again:
  assumes "rid_key rid = Some k" "hold_node p rid = Some n"
  shows "pd_add_resource E rid a b c p w =
    Some (0, p\<lparr>hold_registry := resource_registry_inc (hold_registry p) k\<rparr>, w)"
  using assms
  by (auto simp: pd_add_resource_def rid_key_def hold_node_def resource_registry_get_by_id_def
      dest!: HASH_FIND_Some)

definition new_hold :: "u64 \<Rightarrow> gpi_res_id_t \<Rightarrow> cptr \<Rightarrow> cptr \<Rightarrow> cptr \<Rightarrow> pd_hold_node_t" where
  "new_hold k rid a b c = \<lparr>object_id = k, count = 1, slot_in_PD_Debug = b, slot_in_RT_Debug = a,
     slot_in_ServerPD_Debug = c, res_id = rid\<rparr>"

lemma new_hold_simps [simp]:
  "object_id (new_hold k rid a b c) = k" "count (new_hold k rid a b c) = 1"
  "res_id (new_hold k rid a b c) = rid" "slot_in_PD_Debug (new_hold k rid a b c) = b"
  by (simp_all add: new_hold_def)

lemma add_resource_new:
  assumes "hold_wf p" "rid_key rid = Some k" "hold_node p rid = None"
  shows "pd_add_resource E rid a b c p w =
    (let (r, w') = sys E (Obj Calloc) w in
     if val r = 0 then Some (UNKNOWN_ERR, p, w')
     else Some (0, p\<lparr>hold_registry := (hold_registry p)\<lparr>head := head (hold_registry p) @ [new_hold k rid a b c]\<rparr>\<rparr>, w'))"
  using assms rid_key_bound [of rid k]
  by (auto simp: pd_add_resource_def rid_key_def hold_node_def hold_wf_def resource_registry_insert_def
      HASH_ADD_def new_hold_def Let_def split: prod.split)

lemma hold_wf_inc: "hold_wf p \<Longrightarrow> hold_wf (p\<lparr>hold_registry := resource_registry_inc (hold_registry p) k\<rparr>)"
  using registry_wf_inc [of "hold_registry p" k]
  by (auto simp: hold_wf_def resource_registry_inc_def intro: list_all_node_update)

lemma hold_wf_new:
  "hold_wf p \<Longrightarrow> rid_key rid = Some k \<Longrightarrow> hold_node p rid = None \<Longrightarrow>
   hold_wf (p\<lparr>hold_registry := (hold_registry p)\<lparr>head := head (hold_registry p) @ [new_hold k rid a b c]\<rparr>\<rparr>)"
  using rid_key_bound [of rid k]
  by (auto simp: hold_wf_def registry_wf_def hold_node_def resource_registry_get_by_id_def HASH_FIND_None)

lemma hold_node_inc:
  "rid_key rid = Some k \<Longrightarrow>
   hold_node (p\<lparr>hold_registry := resource_registry_inc (hold_registry p) k\<rparr>) rid' =
     (if rid' = rid then map_option (\<lambda>n. n\<lparr>count := count n + 1\<rparr>) (hold_node p rid) else hold_node p rid')"
  by (cases "rid_key rid'")
    (auto simp: hold_node_def resource_registry_get_by_id_def resource_registry_inc_def
      HASH_FIND_node_update dest: rid_key_inj)

lemma hold_node_new:
  "rid_key rid = Some k \<Longrightarrow> hold_node p rid = None \<Longrightarrow>
   hold_node (p\<lparr>hold_registry := (hold_registry p)\<lparr>head := head (hold_registry p) @ [new_hold k rid a b c]\<rparr>\<rparr>) rid' =
     (if rid' = rid then Some (new_hold k rid a b c) else hold_node p rid')"
  by (cases "rid_key rid'")
    (auto simp: hold_node_def resource_registry_get_by_id_def HASH_FIND_append
      split: option.split dest: rid_key_inj)

text \<open>
  C2: for a resource identifier that fits the fields of a badge, \<open>pd_add_resource\<close> returns. It
  reports an error only if the resource was not held and no memory is left, and then changes
  nothing. Otherwise the number of holds of that resource grows by one (modulo 2^32), the slots
  that were recorded first are kept, no other hold changes and the registry stays well-formed.
\<close>

theorem pd_add_resource_counts:
  assumes wf: "hold_wf p"
    and fits: "res_type rid \<le> 0xFF" "res_space_id rid \<le> 0xFF" "res_object_id rid \<le> 0xFFFFF"
  shows "\<exists>e p' w'. pd_add_resource E rid a b c p w = Some (e, p', w') \<and> hold_wf p' \<and>
    (if e = 0
     then hold_count p' = (hold_count p)(rid \<mapsto> (case hold_count p rid of None \<Rightarrow> 1 | Some m \<Rightarrow> m + 1)) \<and>
       map_option slot_in_PD_Debug (hold_node p' rid) =
         Some (case hold_node p rid of None \<Rightarrow> b | Some n \<Rightarrow> slot_in_PD_Debug n) \<and>
       (\<forall>rid'. rid' \<noteq> rid \<longrightarrow> hold_node p' rid' = hold_node p rid')
     else hold_node p rid = None \<and> val (fst (sys E (Obj Calloc) w)) = 0 \<and> p' = p)"
proof -
  obtain k where k: "rid_key rid = Some k" using fits rid_key_defined by blast
  show ?thesis
  proof (cases "hold_node p rid")
    case (Some n)
    then show ?thesis unfolding add_resource_again [OF k Some]
      using hold_wf_inc [OF wf] k by (auto simp: hold_count_def hold_node_inc fun_eq_iff)
  next
    case None
    obtain r w' where c: "sys E (Obj Calloc) w = (r, w')" by fastforce
    show ?thesis
    proof (cases "val r = 0")
      case True
      then show ?thesis unfolding add_resource_new [OF wf k None] c
        using None wf by (auto simp: PdComponentError_UNKNOWN_def)
    next
      case False
      then show ?thesis unfolding add_resource_new [OF wf k None] c
        using None hold_wf_new [OF wf k None]
        by (auto simp: hold_count_def hold_node_new [OF k None] fun_eq_iff)
    qed
  qed
qed

text \<open>The witness: a PD that holds memory object 7 receives it again.\<close>

definition holding_pd :: pd_t where
  "holding_pd = (pd blank_pd)\<lparr>hold_registry := \<lparr>head = [new_hold 216177180160294919 (make_res_id 3 4 7) 0 50 0],
     max_object_id = BADGE_MAX - 1, id_counter = 0\<rparr>\<rparr>"

lemma holding_pd_wf: "hold_wf holding_pd"
  by (simp add: hold_wf_def holding_pd_def registry_wf_def rid_key_def compact_res_id_def
      gpi_new_badge_def badge_defs badge_const_defs make_res_id_def)

theorem pd_add_resource_counts_witness:
  "\<exists>p' w'. pd_add_resource trace_env (make_res_id 3 4 7) 0 60 0 holding_pd [] = Some (0, p', w') \<and>
     hold_count p' (make_res_id 3 4 7) = Some 2"
proof -
  let ?r = "make_res_id 3 4 7"
  have k: "rid_key ?r = Some 216177180160294919"
    by (simp add: rid_key_def compact_res_id_def gpi_new_badge_def badge_defs badge_const_defs make_res_id_def)
  then have n: "hold_node holding_pd ?r = Some (new_hold 216177180160294919 ?r 0 50 0)"
    by (simp add: hold_node_def holding_pd_def resource_registry_get_by_id_def)
  have "res_type ?r \<le> 0xFF" "res_space_id ?r \<le> 0xFF" "res_object_id ?r \<le> 0xFFFFF"
    by (simp_all add: make_res_id_def)
  moreover have "hold_count holding_pd ?r = Some 1" using n by (simp add: hold_count_def)
  ultimately show ?thesis
    using pd_add_resource_counts [OF holding_pd_wf, of ?r trace_env 0 60 0 "[]"] n by (auto split: if_splits)
qed

end
