(* ===== verification/Directory.thy ===== *)
theory Directory
  imports Pd_Obj
begin

section \<open>The resource directory of a PD\<close>

text \<open>
  The directory (RDE table) of a PD says which resource servers the PD may ask for which type and
  space. The lemmas describe adding an entry as an update of the lookup, and removing entries as an
  operation on the row of the type; both keep the table well-formed and, when they succeed, the
  counter in step with the number of entries in use. An addition whose kernel calls fail does not.
\<close>

subsection \<open>Well-formed directories\<close>

text \<open>The table has one row of eight entries for each type. An entry is free (no type, no space, no
  capability) or has the type of its row.\<close>

definition rde_free :: "osmosis_rde_t \<Rightarrow> bool" where
  "rde_free r \<longleftrightarrow> rde_type r = GPICAP_TYPE_NONE \<and> rde_space_id r \<in> {0, BADGE_SPACE_ID_NULL} \<and> slot_in_PD r = 0"

definition rde_row_wf :: "nat \<Rightarrow> osmosis_rde_t list \<Rightarrow> bool" where
  "rde_row_wf t row \<longleftrightarrow> length row = MAX_NS_PER_RDE \<and>
     list_all (\<lambda>r. rde_free r \<or> t \<noteq> 0 \<and> rde_type r = of_nat t) row"

definition rde_wf :: "pd_t \<Rightarrow> bool" where
  "rde_wf p \<longleftrightarrow> shared_data p \<noteq> 0 \<and> length (rde (shared p)) = unat GPICAP_TYPE_MAX \<and>
     length (type_names (shared p)) = unat GPICAP_TYPE_MAX \<and>
     list_all (\<lambda>t. rde_row_wf t (rde (shared p) ! t)) [0..<unat GPICAP_TYPE_MAX]"

definition row_used :: "osmosis_rde_t list \<Rightarrow> nat" where
  "row_used row = length (filter (\<lambda>r. rde_type r \<noteq> GPICAP_TYPE_NONE) row)"

definition rde_used :: "pd_t \<Rightarrow> nat" where
  "rde_used p = sum_list (map row_used (rde (shared p)))"

lemma unat_cap_max: "unat GPICAP_TYPE_MAX = 17"
  by (simp add: cap_type_defs)

lemma rde_wf_row:
  assumes "rde_wf p" "type < GPICAP_TYPE_MAX"
  shows "rde_row p type = Some (rde (shared p) ! unat type)"
    and "rde_row_wf (unat type) (rde (shared p) ! unat type)"
  using assms by (auto simp: rde_row_def rde_wf_def list_all_iff word_less_nat_alt)

lemma rde_row_out: "rde_wf p \<Longrightarrow> \<not> type < GPICAP_TYPE_MAX \<Longrightarrow> rde_row p type = None"
  by (simp add: rde_row_def rde_wf_def word_less_nat_alt c_assert_def)

text \<open>Replacing one entry by one that is free or of the type of its row.\<close>

lemma row_wf_update:
  "rde_row_wf t row \<Longrightarrow> rde_free r \<or> t \<noteq> 0 \<and> rde_type r = of_nat t \<Longrightarrow> rde_row_wf t (row[i := r])"
  using set_update_subset_insert [of row i r] by (auto simp: rde_row_wf_def list_all_iff)

lemma rde_wf_set:
  assumes "rde_wf p" "type < GPICAP_TYPE_MAX"
    and "rde_free (f (rde (shared p) ! unat type ! i)) \<or>
      type \<noteq> 0 \<and> rde_type (f (rde (shared p) ! unat type ! i)) = type"
  shows "rde_wf (set_rde type i f p)"
proof -
  let ?t = "rde (shared p)"
  let ?row = "(?t ! unat type)[i := f (?t ! unat type ! i)]"
  have row: "rde_row_wf (unat type) ?row"
    by (rule row_wf_update [OF rde_wf_row(2) [OF assms(1,2)]]) (use assms(3) in \<open>auto simp: unat_eq_zero\<close>)
  have "rde_row_wf t (?t[unat type := ?row] ! t)" if "t < unat GPICAP_TYPE_MAX" for t
    using row assms(1) that by (cases "t = unat type") (auto simp: rde_wf_def list_all_iff)
  then show ?thesis using assms(1) by (simp add: rde_wf_def set_rde_def Let_def list_all_iff)
qed

lemma row_set_rde:
  "rde_wf p \<Longrightarrow> type < GPICAP_TYPE_MAX \<Longrightarrow> rde (shared (set_rde type i f p)) ! unat type' =
     (if type' = type then (rde (shared p) ! unat type)[i := f (rde (shared p) ! unat type ! i)]
      else rde (shared p) ! unat type')"
  by (auto simp: set_rde_def Let_def rde_wf_def nth_list_update word_less_nat_alt word_unat_eq_iff)

lemma set_rde_other [simp]:
  "pd_id (set_rde type i f p) = pd_id p" "pd_vka (set_rde type i f p) = pd_vka p"
  "rde_count (shared (set_rde type i f p)) = rde_count (shared p)"
  "shared_data (set_rde type i f p) = shared_data p"
  by (simp_all add: set_rde_def Let_def)

lemma set_rde_twice:
  "rde_wf p \<Longrightarrow> type < GPICAP_TYPE_MAX \<Longrightarrow> i < MAX_NS_PER_RDE \<Longrightarrow>
   set_rde type i g (set_rde type i f p) = set_rde type i (\<lambda>r. g (f r)) p"
  using rde_wf_row(2) [of p type]
  by (auto simp: set_rde_def Let_def rde_wf_def rde_row_wf_def word_less_nat_alt)

lemma row_used_update:
  "i < length row \<Longrightarrow> row_used (row[i := r]) + (if rde_type (row ! i) \<noteq> 0 then 1 else 0) =
     row_used row + (if rde_type r \<noteq> 0 then 1 else 0)"
proof (induction row arbitrary: i)
  case (Cons a row)
  then show ?case
  proof (cases i)
    case (Suc k)
    then show ?thesis using Cons.IH [of k] Cons.prems by (simp add: row_used_def)
  qed (simp add: row_used_def cap_type_defs)
qed simp

lemma used_set:
  assumes "rde_wf p" "type < GPICAP_TYPE_MAX" "i < MAX_NS_PER_RDE"
  shows "rde_used (set_rde type i f p) + (if rde_type (rde (shared p) ! unat type ! i) \<noteq> 0 then 1 else 0)
    = rde_used p + (if rde_type (f (rde (shared p) ! unat type ! i)) \<noteq> 0 then 1 else 0)"
proof -
  let ?t = "rde (shared p)"
  have l: "unat type < length ?t" using assms by (simp add: rde_wf_def word_less_nat_alt)
  then have t: "?t = take (unat type) ?t @ ?t ! unat type # drop (Suc (unat type)) ?t"
    by (simp add: id_take_nth_drop)
  have i: "i < length (?t ! unat type)" using rde_wf_row [OF assms(1,2)] assms(3) by (simp add: rde_row_wf_def)
  have "rde_used p = sum_list (map row_used (take (unat type) ?t)) + row_used (?t ! unat type)
     + sum_list (map row_used (drop (Suc (unat type)) ?t))"
    unfolding rde_used_def by (subst t) simp
  moreover have "rde_used (set_rde type i f p) = sum_list (map row_used (take (unat type) ?t))
     + row_used ((?t ! unat type)[i := f (?t ! unat type ! i)]) + sum_list (map row_used (drop (Suc (unat type)) ?t))"
    unfolding rde_used_def set_rde_def Let_def using l by (simp add: upd_conv_take_nth_drop)
  ultimately show ?thesis using row_used_update [OF i, of "f (?t ! unat type ! i)"] by simp
qed

subsection \<open>The two scans\<close>

definition rde_match :: "gpi_cap_t \<Rightarrow> gpi_space_id_t \<Rightarrow> osmosis_rde_t \<Rightarrow> bool" where
  "rde_match type sid r \<longleftrightarrow> sid = BADGE_SPACE_ID_NULL \<and> rde_type r = type \<or> rde_space_id r = sid"

lemma rde_scan_Cons:
  "rde_scan type sid i (r # row) = (if rde_match type sid r then Some i else rde_scan type sid (Suc i) row)"
  by (auto simp: rde_match_def)

lemma rde_scan_first:
  "k < length row \<Longrightarrow> rde_match type sid (row ! k) \<Longrightarrow> (\<forall>m<k. \<not> rde_match type sid (row ! m)) \<Longrightarrow>
   rde_scan type sid i row = Some (i + k)"
proof (induction row arbitrary: i k)
  case (Cons r row)
  show ?case
  proof (cases k)
    case 0
    then show ?thesis using Cons.prems by (auto simp: rde_match_def)
  next
    case (Suc k')
    have "\<not> rde_match type sid r" using Cons.prems(3) Suc by force
    moreover have "rde_scan type sid (Suc i) row = Some (Suc i + k')"
      using Cons.prems Suc by (intro Cons.IH) auto
    ultimately show ?thesis using Suc by (auto simp: rde_match_def)
  qed
qed simp

lemma rde_scan_None: "rde_scan type sid i row = None \<longleftrightarrow> \<not> list_ex (rde_match type sid) row"
  by (induction type sid i row rule: rde_scan.induct) (auto simp: rde_match_def)

lemma rde_scan_cong:
  "map (rde_match type sid) row = map (rde_match type sid) row' \<Longrightarrow>
   rde_scan type sid i row = rde_scan type sid i row'"
proof (induction row arbitrary: row' i)
  case (Cons r row)
  then obtain r' row'' where "row' = r' # row''" "rde_match type sid r = rde_match type sid r'"
    "map (rde_match type sid) row = map (rde_match type sid) row''" by (cases row') auto
  then show ?case using Cons.IH [of row'' "Suc i"]
    by (simp add: rde_scan_Cons del: rde_scan.simps)
qed simp

lemma rde_scan_SomeD:
  "rde_scan type sid i row = Some j \<Longrightarrow>
   \<exists>k. j = i + k \<and> k < length row \<and> rde_match type sid (row ! k) \<and> (\<forall>m<k. \<not> rde_match type sid (row ! m))"
proof (induction row arbitrary: i)
  case (Cons r row)
  show ?case
  proof (cases "rde_match type sid r")
    case False
    then have "rde_scan type sid (Suc i) row = Some j"
      using Cons.prems by (auto simp: rde_match_def split: if_splits)
    then obtain k where "j = Suc i + k" "k < length row" "rde_match type sid (row ! k)"
      "\<forall>m<k. \<not> rde_match type sid (row ! m)" using Cons.IH by blast
    with False show ?thesis by (intro exI [of _ "Suc k"]) (auto simp: less_Suc_eq_0_disj)
  qed (use Cons.prems in \<open>auto simp: rde_match_def split: if_splits\<close>)
qed simp

lemma rde_free_scan_SomeD:
  "rde_free_scan type sid i row = Some j \<Longrightarrow>
   \<exists>k. j = i + k \<and> k < length row \<and> rde_type (row ! k) = GPICAP_TYPE_NONE \<and>
     (\<forall>m<k. rde_type (row ! m) \<noteq> GPICAP_TYPE_NONE \<and> (rde_type (row ! m) = type \<longrightarrow> rde_space_id (row ! m) \<noteq> sid))"
proof (induction row arbitrary: i)
  case (Cons r row)
  show ?case
  proof (cases "rde_type r = GPICAP_TYPE_NONE \<or> rde_space_id r = sid \<and> rde_type r = type")
    case False
    then have "rde_free_scan type sid (Suc i) row = Some j"
      using Cons.prems by (auto split: if_splits)
    then obtain k where "j = Suc i + k" "k < length row" "rde_type (row ! k) = GPICAP_TYPE_NONE"
      "\<forall>m<k. rde_type (row ! m) \<noteq> GPICAP_TYPE_NONE \<and> (rde_type (row ! m) = type \<longrightarrow> rde_space_id (row ! m) \<noteq> sid)"
      using Cons.IH by blast
    with False show ?thesis by (intro exI [of _ "Suc k"]) (auto simp: less_Suc_eq_0_disj)
  qed (use Cons.prems in \<open>auto split: if_splits\<close>)
qed simp

subsection \<open>Adding an entry\<close>

text \<open>What \<open>pd_add_rde\<close> does on each path.\<close>

definition entry_filled :: "gpi_cap_t \<Rightarrow> gpi_space_id_t \<Rightarrow> cptr \<Rightarrow> osmosis_rde_t \<Rightarrow> osmosis_rde_t" where
  "entry_filled type sid raw_ep r = r\<lparr>rde_space_id := sid, rde_type := type, slot_in_RT := raw_ep\<rparr>"

definition named :: "gpi_cap_t \<Rightarrow> string \<Rightarrow> pd_t \<Rightarrow> pd_t" where
  "named type tname p = p\<lparr>shared := (shared p)\<lparr>type_names := (type_names (shared p))
       [unat type := strncpy tname RESOURCE_TYPE_MAX_STRING_SIZE]\<rparr>\<rparr>"

lemma named_simps [simp]:
  "rde (shared (named type tname p)) = rde (shared p)" "rde_count (shared (named type tname p)) = rde_count (shared p)"
  "pd_id (named type tname p) = pd_id p" "pd_vka (named type tname p) = pd_vka p"
  "rde_wf (named type tname p) = rde_wf p" "rde_used (named type tname p) = rde_used p"
  by (simp_all add: named_def rde_wf_def rde_used_def)

lemma pd_add_rde_cases:
  assumes wf: "rde_wf p" and t: "type < GPICAP_TYPE_MAX" and v: "pd_vka p = Some v"
    and fits: "pd_id p \<le> 0xFFFFF" "sid \<le> 0xFF"
  obtains (refused) "pd_add_rde E type tname sid raw_ep p w = Some (1, p, w)"
      "rde_free_scan type sid 0 (rde (shared p) ! unat type) = None"
  | (failed) idx e w' where "pd_add_rde E type tname sid raw_ep p w =
        Some (e, set_rde type idx (entry_filled type sid raw_ep) (named type tname p), w')" "e \<noteq> 0"
      "\<exists>c w0. err (fst (sys E (Cap c) w0)) = e"
      "rde_free_scan type sid 0 (rde (shared p) ! unat type) = Some idx"
  | (added) idx dest w' p' where "pd_add_rde E type tname sid raw_ep p w =
        Some (0, p'\<lparr>shared := (shared p')\<lparr>rde_count := rde_count (shared p) + 1\<rparr>\<rparr>, w')"
      "p' = set_rde type idx (\<lambda>r. entry_filled type sid raw_ep r\<lparr>slot_in_PD := dest\<rparr>) (named type tname p)"
      "dest = val (fst (sys E (Cap (Vka_cspace_alloc v)) w))"
      "err (fst (sys E (Cap (Vka_cspace_alloc v)) w)) = 0"
      "rde_free_scan type sid 0 (rde (shared p) ! unat type) = Some idx"
proof (cases "rde_free_scan type sid 0 (rde (shared p) ! unat type)")
  case None
  then show thesis using refused rde_wf_row(1) [OF wf t] by (simp add: pd_add_rde_def)
next
  case (Some idx)
  have idx: "idx < MAX_NS_PER_RDE"
    using rde_free_scan_SomeD [OF Some] rde_wf_row(2) [OF wf t] by (auto simp: rde_row_wf_def)
  have "unat type < length (type_names (shared p))" "shared_data p \<noteq> 0"
    using wf t by (auto simp: rde_wf_def word_less_nat_alt)
  then have n: "pd_add_type_name type tname p = Some (named type tname p)"
    by (simp add: pd_add_type_name_def named_def)
  have "type \<le> 0xFF" using t by (simp add: cap_type_defs word_less_nat_alt word_le_nat_alt)
  then obtain b where b: "gpi_new_badge type 0 (pd_id p) sid BADGE_OBJ_ID_NULL = Some b"
    using gpi_new_badge_succeeds [of type 0 "pd_id p" sid BADGE_OBJ_ID_NULL] fits by (auto simp: badge_const_defs)
  obtain r1 w1 where 1: "sys E (Cap (Vka_cspace_alloc v)) w = (r1, w1)" by fastforce
  obtain r2 w2 where 2: "sys E (Cap (Vka_cnode_mint (v, val r1) (Server_Vka, raw_ep) seL4_AllRights b)) w1 = (r2, w2)"
    by fastforce
  note sim = pd_add_rde_def rde_wf_row(1) [OF wf t] Some n v b 1 2 entry_filled_def [abs_def]
  have tw: "set_rde type idx (\<lambda>r. r\<lparr>slot_in_PD := val r1\<rparr>) (set_rde type idx (entry_filled type sid raw_ep) (named type tname p))
    = set_rde type idx (\<lambda>r. entry_filled type sid raw_ep r\<lparr>slot_in_PD := val r1\<rparr>) (named type tname p)"
    using wf t idx by (simp add: set_rde_twice)
  show thesis
  proof (cases "err r1 = 0 \<and> err r2 = 0")
    case True
    show thesis
    proof (rule added)
      show "pd_add_rde E type tname sid raw_ep p w = Some (0, (set_rde type idx
          (\<lambda>r. entry_filled type sid raw_ep r\<lparr>slot_in_PD := val r1\<rparr>) (named type tname p))
          \<lparr>shared := (shared (set_rde type idx
          (\<lambda>r. entry_filled type sid raw_ep r\<lparr>slot_in_PD := val r1\<rparr>) (named type tname p)))
             \<lparr>rde_count := rde_count (shared p) + 1\<rparr>\<rparr>, w2)"
        using True tw by (simp add: sim Let_def)
    qed (use True in \<open>simp_all add: 1 Some\<close>)
  next
    case False
    have "\<exists>c w0. err (fst (sys E (Cap c) w0)) = err r1" "\<exists>c w0. err (fst (sys E (Cap c) w0)) = err r2"
      using 1 2 fst_conv by metis+
    then show thesis
      by (intro failed [of "if err r1 \<noteq> 0 then err r1 else err r2" idx "if err r1 \<noteq> 0 then w1 else w2"])
        (use False in \<open>auto simp: sim Let_def\<close>)
  qed
qed

text \<open>A lookup depends on the row of its type only, and filling a free entry is seen by the lookup of
  the new space and by no other.\<close>

lemma pd_rde_get_row:
  "rde_wf p \<Longrightarrow> type < GPICAP_TYPE_MAX \<Longrightarrow> pd_rde_get p type sid =
     Some (map_option (\<lambda>i. rde (shared p) ! unat type ! i) (rde_scan type sid 0 (rde (shared p) ! unat type)))"
  using rde_wf_row(1) [of p type]
  by (auto simp: pd_rde_get_def pd_rde_find_idx_def split: option.split)

lemma pd_rde_get_out: "rde_wf p \<Longrightarrow> \<not> type < GPICAP_TYPE_MAX \<Longrightarrow> pd_rde_get p type sid = None"
  by (simp add: pd_rde_get_def pd_rde_find_idx_def rde_row_out)

definition real_space :: "gpi_space_id_t \<Rightarrow> bool" where
  "real_space sid \<longleftrightarrow> sid \<noteq> 0 \<and> sid \<noteq> BADGE_SPACE_ID_NULL"

lemma scan_fill_same:
  assumes "rde_free_scan type sid 0 row = Some idx" "rde_row_wf (unat type) row" "real_space sid"
    "rde_space_id r = sid"
  shows "rde_scan type sid 0 (row[idx := r]) = Some idx"
proof -
  have idx: "idx < length row" "rde_type (row ! idx) = GPICAP_TYPE_NONE"
    and before: "\<And>m. m < idx \<Longrightarrow> rde_type (row ! m) \<noteq> GPICAP_TYPE_NONE \<and>
      (rde_type (row ! m) = type \<longrightarrow> rde_space_id (row ! m) \<noteq> sid)"
    using rde_free_scan_SomeD [OF assms(1)] by auto
  have "\<not> rde_match type sid (row ! m)" if "m < idx" for m
  proof -
    have "row ! m \<in> set row" using that idx by simp
    then have "rde_type (row ! m) = type"
      using assms(2) before [OF that] by (auto simp: rde_row_wf_def list_all_iff rde_free_def)
    with before [OF that] assms(3) show ?thesis by (simp add: rde_match_def real_space_def)
  qed
  then show ?thesis using idx assms(4)
    by (intro rde_scan_first [where i = 0 and k = idx, simplified]) (auto simp: rde_match_def)
qed

lemma scan_fill_other:
  assumes "rde_free_scan type sid 0 row = Some idx" "rde_row_wf (unat type) row" "real_space sid'"
    "rde_space_id r = sid" "sid' \<noteq> sid"
  shows "map_option ((!) (row[idx := r])) (rde_scan type sid' 0 (row[idx := r])) =
    map_option ((!) row) (rde_scan type sid' 0 row)"
proof -
  have idx: "idx < length row" "rde_type (row ! idx) = GPICAP_TYPE_NONE"
    using rde_free_scan_SomeD [OF assms(1)] by auto
  have "row ! idx \<in> set row" using idx by simp
  then have fr: "rde_free (row ! idx)" using assms(2) idx(2)
    by (auto simp: rde_row_wf_def list_all_iff rde_free_def cap_type_defs unat_eq_zero)
  then have n: "\<not> rde_match type sid' (row ! idx)" "\<not> rde_match type sid' r"
    using assms(3-5) by (auto simp: rde_match_def rde_free_def real_space_def)
  then have eq: "rde_scan type sid' 0 (row[idx := r]) = rde_scan type sid' 0 row"
    by (intro rde_scan_cong) (simp add: map_update list_update_same_conv idx(1))
  show ?thesis
  proof (cases "rde_scan type sid' 0 row")
    case (Some j)
    then have "rde_match type sid' (row ! j)" using rde_scan_SomeD by fastforce
    with n(1) have "j \<noteq> idx" by auto
    then show ?thesis using eq Some by simp
  qed (simp add: eq)
qed

lemma fill_lookup:
  assumes wf: "rde_wf p" "rde_wf p'" and t: "type < GPICAP_TYPE_MAX" "type \<noteq> 0"
    and free: "rde_free_scan type sid 0 (rde (shared p) ! unat type) = Some idx"
    and row: "rde (shared p') = (rde (shared p))[unat type := (rde (shared p) ! unat type)[idx := r]]"
    and r: "rde_space_id r = sid" "real_space sid"
  shows "pd_rde_get p' type sid = Some (Some r)"
    and "(type', sid') \<noteq> (type, sid) \<Longrightarrow> real_space sid' \<Longrightarrow> pd_rde_get p' type' sid' = pd_rde_get p type' sid'"
proof -
  have l: "unat type < length (rde (shared p))" using wf t by (simp add: rde_wf_def word_less_nat_alt)
  have rw: "rde_row_wf (unat type) (rde (shared p) ! unat type)" using rde_wf_row(2) wf(1) t(1) by blast
  have idx: "idx < length (rde (shared p) ! unat type)" using rde_free_scan_SomeD [OF free] by auto
  show "pd_rde_get p' type sid = Some (Some r)"
    using scan_fill_same [OF free rw r(2,1)] l idx by (simp add: pd_rde_get_row [OF wf(2) t(1)] row)
  assume ne: "(type', sid') \<noteq> (type, sid)" and real: "real_space sid'"
  show "pd_rde_get p' type' sid' = pd_rde_get p type' sid'"
  proof (cases "type' < GPICAP_TYPE_MAX")
    case True
    show ?thesis
    proof (cases "type' = type")
      case same: True
      then show ?thesis using scan_fill_other [OF free rw real r(1)] ne l
        by (simp add: pd_rde_get_row [OF wf(1)] pd_rde_get_row [OF wf(2)] t(1) row comp_def)
    next
      case False
      then show ?thesis using True
        by (simp add: pd_rde_get_row [OF wf(1)] pd_rde_get_row [OF wf(2)] row word_unat_eq_iff)
    qed
  qed (simp add: pd_rde_get_out wf)
qed

lemma rde_wf_count: "rde_wf (p\<lparr>shared := (shared p)\<lparr>rde_count := n\<rparr>\<rparr>) = rde_wf p"
  "rde_used (p\<lparr>shared := (shared p)\<lparr>rde_count := n\<rparr>\<rparr>) = rde_used p"
  by (simp_all add: rde_wf_def rde_used_def)

lemma rde_set_rde: "rde (shared (set_rde type i f p)) =
   (rde (shared p))[unat type := (rde (shared p) ! unat type)[i := f (rde (shared p) ! unat type ! i)]]"
  by (simp add: set_rde_def Let_def)

text \<open>Filling the entry that the scan found keeps the table well-formed and uses one more entry.\<close>

lemma fill_wf:
  assumes wf: "rde_wf p" and t: "type < GPICAP_TYPE_MAX" "type \<noteq> 0"
    and free: "rde_free_scan type sid 0 (rde (shared p) ! unat type) = Some idx"
    and f: "\<And>r. rde_type (f r) = type"
  shows "rde_wf (set_rde type idx f (named type tname p))"
    and "rde_used (set_rde type idx f (named type tname p)) = Suc (rde_used p)"
proof -
  have idx: "idx < MAX_NS_PER_RDE" "rde_type (rde (shared p) ! unat type ! idx) = GPICAP_TYPE_NONE"
    using rde_free_scan_SomeD [OF free] rde_wf_row(2) [OF wf t(1)] by (auto simp: rde_row_wf_def)
  show "rde_wf (set_rde type idx f (named type tname p))" using wf t f by (intro rde_wf_set) auto
  show "rde_used (set_rde type idx f (named type tname p)) = Suc (rde_used p)"
    using used_set [of "named type tname p" type idx f] wf t idx f by (simp add: cap_type_defs)
qed

lemma pd_add_rde_finds:
  assumes wf: "rde_wf p" and t: "type \<noteq> 0" "type < GPICAP_TYPE_MAX" and sid: "sid \<noteq> 0" "sid < BADGE_SPACE_ID_NULL"
    and pd: "pd_vka p = Some v" "pd_id p \<le> 0xFFFFF"
    and ret: "pd_add_rde E type tname sid raw_ep p w = Some (0, p', w')"
  shows "rde_wf p' \<and> rde_used p' = rde_used p + 1 \<and> rde_count (shared p') = rde_count (shared p) + 1 \<and>
    pd_rde_get p' type sid = Some (Some \<lparr>slot_in_RT = raw_ep,
      slot_in_PD = val (fst (sys E (Cap (Vka_cspace_alloc v)) w)), rde_type = type, rde_space_id = sid\<rparr>) \<and>
    (\<forall>type' sid'. (type', sid') \<noteq> (type, sid) \<and> sid' \<noteq> 0 \<and> sid' \<noteq> BADGE_SPACE_ID_NULL \<longrightarrow>
       pd_rde_get p' type' sid' = pd_rde_get p type' sid')"
proof -
  have real: "real_space sid" using sid by (auto simp: real_space_def)
  have le: "sid \<le> 0xFF" using sid by (simp add: badge_const_defs word_less_nat_alt word_le_nat_alt)
  show ?thesis
  proof (rule pd_add_rde_cases [OF wf t(2) pd le, of E tname raw_ep w])
    fix idx dest w2 q
    let ?f = "\<lambda>r. entry_filled type sid raw_ep r\<lparr>slot_in_PD := dest\<rparr>"
    assume eq: "pd_add_rde E type tname sid raw_ep p w =
        Some (0, q\<lparr>shared := (shared q)\<lparr>rde_count := rde_count (shared p) + 1\<rparr>\<rparr>, w2)"
      and q: "q = set_rde type idx ?f (named type tname p)"
      and dest: "dest = val (fst (sys E (Cap (Vka_cspace_alloc v)) w))"
      and free: "rde_free_scan type sid 0 (rde (shared p) ! unat type) = Some idx"
    have p': "p' = q\<lparr>shared := (shared q)\<lparr>rde_count := rde_count (shared p) + 1\<rparr>\<rparr>" using eq ret by simp
    have f: "rde_type (?f r) = type" for r by (simp add: entry_filled_def)
    have wf': "rde_wf p'" "rde_used p' = Suc (rde_used p)"
      unfolding p' rde_wf_count q by (rule fill_wf [OF wf t(2,1) free f])+
    have row: "rde (shared p') = (rde (shared p))[unat type := (rde (shared p) ! unat type)[idx :=
        ?f (rde (shared p) ! unat type ! idx)]]"
      by (simp add: p' q rde_set_rde)
    have "?f r = \<lparr>slot_in_RT = raw_ep, slot_in_PD = dest, rde_type = type, rde_space_id = sid\<rparr>" for r
      by (simp add: entry_filled_def)
    then show ?thesis
      using wf' fill_lookup [OF wf wf'(1) t(2,1) free row _ real] dest
      by (auto simp: p' real_space_def)
  qed (use ret in auto)
qed

text \<open>
  C10: a directory entry that was added is found: after \<open>pd_add_rde\<close> returned 0, the lookup of the
  type and space gives the raw endpoint and the slot that was allocated in the PD. Every other
  lookup of a real space (neither 0 nor the null space) is unchanged, the table is well-formed, one
  more entry is in use and the counter grew by one.
\<close>

theorem pd_add_rde_lookup:
  assumes wf: "rde_wf p" and t: "type \<noteq> 0" "type < GPICAP_TYPE_MAX" and sid: "sid \<noteq> 0" "sid < BADGE_SPACE_ID_NULL"
    and pd: "pd_vka p = Some v" "pd_id p \<le> 0xFFFFF"
    and ret: "pd_add_rde E type tname sid raw_ep p w = Some (0, p', w')"
  shows "rde_wf p' \<and> rde_used p' = rde_used p + 1 \<and> rde_count (shared p') = rde_count (shared p) + 1 \<and>
    pd_rde_get p' type sid = Some (Some \<lparr>slot_in_RT = raw_ep,
      slot_in_PD = val (fst (sys E (Cap (Vka_cspace_alloc v)) w)), rde_type = type, rde_space_id = sid\<rparr>) \<and>
    (\<forall>type' sid'. (type', sid') \<noteq> (type, sid) \<and> sid' \<noteq> 0 \<and> sid' \<noteq> BADGE_SPACE_ID_NULL \<longrightarrow>
       pd_rde_get p' type' sid' = pd_rde_get p type' sid')"
  by (rule pd_add_rde_finds [OF assms])

lemma blank_rde_wf: "shared_data p \<noteq> 0 \<Longrightarrow> shared p = blank_shared \<Longrightarrow> rde_wf p"
  by (simp add: rde_wf_def blank_shared_def list_all_iff rde_row_wf_def rde_free_def empty_rde_def cap_type_defs)

definition new_pd :: pd_t where
  "new_pd = (pd blank_pd)\<lparr>pd_id := 5, pd_vka := Some (Pd_Vka 5), shared_data := 4096\<rparr>"

lemma new_pd_simps: "rde_wf new_pd" "pd_vka new_pd = Some (Pd_Vka 5)" "pd_id new_pd \<le> 0xFFFFF"
  "rde (shared new_pd) = replicate 17 (replicate 8 empty_rde)"
  by (rule blank_rde_wf) (simp_all add: new_pd_def blank_pd_def blank_shared_def unat_cap_max MAX_NS_PER_RDE_def)

lemma new_pd_row: "rde_free_scan 3 4 0 (rde (shared new_pd) ! unat (3::gpi_cap_t)) = Some 0"
proof -
  have "replicate 8 x = x # replicate 7 x" for x :: osmosis_rde_t by (simp add: eval_nat_numeral)
  then show ?thesis by (simp add: new_pd_simps empty_rde_def cap_type_defs)
qed

theorem pd_add_rde_lookup_witness:
  "\<exists>p' w'. pd_add_rde trace_env 3 ''MO'' 4 77 new_pd [] = Some (0, p', w') \<and>
     pd_rde_get p' 3 4 = Some (Some \<lparr>slot_in_RT = 77, slot_in_PD = 1, rde_type = 3, rde_space_id = 4\<rparr>)"
proof -
  have t: "(3::gpi_cap_t) \<noteq> 0" "3 < GPICAP_TYPE_MAX" "(4::gpi_space_id_t) \<noteq> 0" "4 < BADGE_SPACE_ID_NULL"
    by (simp_all add: cap_type_defs badge_const_defs)
  have "(4::gpi_space_id_t) \<le> 0xFF" by simp
  then obtain p' w' where r: "pd_add_rde trace_env 3 ''MO'' 4 77 new_pd [] = Some (0, p', w')"
  proof (rule pd_add_rde_cases [OF new_pd_simps(1) t(2) new_pd_simps(2,3), of 4 trace_env "''MO''" 77 "[]"])
  qed (use new_pd_row in auto)
  show ?thesis
    using pd_add_rde_lookup [OF new_pd_simps(1) t new_pd_simps(2,3) r] r by auto
qed

lemma rde_free_scan_blocked:
  assumes "k < length row" "rde_type (row ! k) = type" "rde_space_id (row ! k) = sid"
    and "\<forall>m<k. rde_type (row ! m) \<noteq> GPICAP_TYPE_NONE"
  shows "rde_free_scan type sid i row = None"
  using assms
proof (induction row arbitrary: i k)
  case (Cons r row)
  show ?case
  proof (cases k)
    case (Suc k')
    have "rde_type r \<noteq> GPICAP_TYPE_NONE" using Cons.prems(4) Suc by force
    moreover have "rde_free_scan type sid (Suc i) row = None"
      using Cons.prems Suc by (intro Cons.IH [of k']) auto
    ultimately show ?thesis by simp
  qed (use Cons.prems in simp)
qed simp

text \<open>
  C34: an addition that the kernel refuses is not undone. If there was room and \<open>pd_add_rde\<close> returns
  an error, the entry is in the table with a null capability slot, where the PD finds it; the
  counter does not include it, and every later attempt to add the same entry is refused as a
  duplicate.
\<close>

theorem pd_add_rde_failure_sticks:
  assumes wf: "rde_wf p" and t: "type \<noteq> 0" "type < GPICAP_TYPE_MAX" and sid: "sid \<noteq> 0" "sid < BADGE_SPACE_ID_NULL"
    and pd: "pd_vka p = Some v" "pd_id p \<le> 0xFFFFF"
    and room: "rde_free_scan type sid 0 (rde (shared p) ! unat type) \<noteq> None"
    and ret: "pd_add_rde E type tname sid raw_ep p w = Some (e, p', w')" "e \<noteq> 0"
  shows "pd_rde_get p' type sid = Some (Some \<lparr>slot_in_RT = raw_ep, slot_in_PD = 0, rde_type = type, rde_space_id = sid\<rparr>) \<and>
    rde_used p' = rde_used p + 1 \<and> rde_count (shared p') = rde_count (shared p) \<and>
    (\<forall>E2 tname2 ep2 w2. pd_add_rde (E2 :: 'v env) type tname2 sid ep2 p' w2 = Some (1, p', w2))"
proof -
  have real: "real_space sid" using sid by (auto simp: real_space_def)
  have le: "sid \<le> 0xFF" using sid by (simp add: badge_const_defs word_less_nat_alt word_le_nat_alt)
  show ?thesis
  proof (rule pd_add_rde_cases [OF wf t(2) pd le, of E tname raw_ep w])
    fix idx e2 w2
    let ?row = "rde (shared p) ! unat type" and ?f = "entry_filled type sid raw_ep"
    assume eq: "pd_add_rde E type tname sid raw_ep p w =
        Some (e2, set_rde type idx (entry_filled type sid raw_ep) (named type tname p), w2)" "e2 \<noteq> 0"
      and free: "rde_free_scan type sid 0 ?row = Some idx"
    have p': "p' = set_rde type idx ?f (named type tname p)" using eq ret by simp
    have f: "rde_type (?f r) = type" for r by (simp add: entry_filled_def)
    have wf': "rde_wf p'" "rde_used p' = Suc (rde_used p)"
      unfolding p' by (rule fill_wf [OF wf t(2,1) free f])+
    have rw: "rde_row_wf (unat type) ?row" using rde_wf_row(2) wf t(2) by blast
    have idx: "idx < length ?row" "rde_type (?row ! idx) = GPICAP_TYPE_NONE"
      "\<forall>m<idx. rde_type (?row ! m) \<noteq> GPICAP_TYPE_NONE"
      using rde_free_scan_SomeD [OF free] by auto
    have "?row ! idx \<in> set ?row" using idx(1) by simp
    then have "slot_in_PD (?row ! idx) = 0" using rw idx(2) t
      by (auto simp: rde_row_wf_def list_all_iff rde_free_def cap_type_defs)
    then have fr: "?f (?row ! idx) = \<lparr>slot_in_RT = raw_ep, slot_in_PD = 0, rde_type = type, rde_space_id = sid\<rparr>"
      by (simp add: entry_filled_def)
    have row: "rde (shared p') = (rde (shared p))[unat type := ?row[idx := ?f (?row ! idx)]]"
      by (simp add: p' rde_set_rde)
    have l: "unat type < length (rde (shared p))" using wf t by (simp add: rde_wf_def word_less_nat_alt)
    have "rde_free_scan type sid 0 (rde (shared p') ! unat type) = None"
      using idx l by (intro rde_free_scan_blocked [of idx]) (auto simp: row fr)
    then have "pd_add_rde E2 type tname2 sid ep2 p' w2 = Some (1, p', w2)" for E2 :: "'v env" and tname2 ep2 w2
      using rde_wf_row(1) [OF wf'(1) t(2)] by (simp add: pd_add_rde_def)
    then show ?thesis
      using wf' fill_lookup(1) [OF wf wf'(1) t(2,1) free row _ real] by (simp add: fr p')
  qed (use ret room in auto)
qed

text \<open>The witness: the allocator of the PD has no slot left.\<close>

definition full_env :: "kcall list env" where
  "full_env = trace_env\<lparr>sys := (\<lambda>c w. (\<lparr>err = 10, val = 0, val2 = 0\<rparr>, w @ [c]))\<rparr>"

theorem pd_add_rde_failure_sticks_witness:
  "\<exists>p' w'. pd_add_rde full_env 3 ''MO'' 4 77 new_pd [] = Some (10, p', w') \<and>
     rde_count (shared p') = 0 \<and> pd_add_rde trace_env 3 ''MO'' 4 77 p' [] = Some (1, p', [])"
proof -
  have t: "(3::gpi_cap_t) \<noteq> 0" "3 < GPICAP_TYPE_MAX" "(4::gpi_space_id_t) \<noteq> 0" "4 < BADGE_SPACE_ID_NULL"
    by (simp_all add: cap_type_defs badge_const_defs)
  have "(4::gpi_space_id_t) \<le> 0xFF" by simp
  then obtain p' w' where r: "pd_add_rde full_env 3 ''MO'' 4 77 new_pd [] = Some (10, p', w')"
  proof (rule pd_add_rde_cases [OF new_pd_simps(1) t(2) new_pd_simps(2,3), of 4 full_env "''MO''" 77 "[]"])
  qed (use new_pd_row in \<open>auto simp: full_env_def\<close>)
  have "rde_count (shared new_pd) = 0" by (simp add: new_pd_def blank_pd_def blank_shared_def)
  then show ?thesis
    using pd_add_rde_failure_sticks [where 'v = "kcall list", OF new_pd_simps(1) t new_pd_simps(2,3) _ r] new_pd_row r by auto
qed

subsection \<open>Removing entries\<close>

definition entry_cleared :: "osmosis_rde_t \<Rightarrow> osmosis_rde_t" where
  "entry_cleared r = r\<lparr>rde_space_id := BADGE_SPACE_ID_NULL, rde_type := GPICAP_TYPE_NONE,
     slot_in_RT := seL4_CapNull, slot_in_PD := seL4_CapNull\<rparr>"

lemma entry_cleared_free: "rde_free (entry_cleared r)"
  by (simp add: entry_cleared_def rde_free_def)

text \<open>The two calls that take back the capability of an entry.\<close>

definition cap_calls_succeed :: "'w env \<Rightarrow> bool" where
  "cap_calls_succeed E \<longleftrightarrow> (\<forall>path w. err (fst (sys E (Cap (Vka_cnode_revoke path)) w)) = 0 \<and>
     err (fst (sys E (Cap (Vka_cnode_delete path)) w)) = 0)"

definition dec_rde_count :: "pd_t \<Rightarrow> pd_t" where
  "dec_rde_count p = p\<lparr>shared := (shared p)\<lparr>rde_count := rde_count (shared p) - 1\<rparr>\<rparr>"

lemma remove_by_idx:
  assumes "rde_wf p" "type < GPICAP_TYPE_MAX" "pd_vka p = Some v"
  obtains (Cleared) w' where "pd_remove_rde_by_idx E type i p w = Some (0, dec_rde_count (set_rde type i entry_cleared p), w')"
    | (Refused) e w' where "pd_remove_rde_by_idx E type i p w = Some (e, p, w')" "e \<noteq> 0" "\<not> cap_calls_succeed E"
proof -
  obtain r1 w1 where 1: "sys E (Cap (Vka_cnode_revoke (v, slot_in_PD (rde (shared p) ! unat type ! i)))) w = (r1, w1)"
    by fastforce
  obtain r2 w2 where 2: "sys E (Cap (Vka_cnode_delete (v, slot_in_PD (rde (shared p) ! unat type ! i)))) w1 = (r2, w2)"
    by fastforce
  have ok: "err r1 = 0" "err r2 = 0" if "cap_calls_succeed E" using that 1 2 unfolding cap_calls_succeed_def by (metis fst_conv)+
  have "pd_remove_rde_by_idx E type i p w = (if err r1 \<noteq> 0 then Some (err r1, p, w1) else if err r2 \<noteq> 0 then Some (err r2, p, w2)
      else Some (0, dec_rde_count (set_rde type i entry_cleared p), w2))"
    using assms(3) 1 2 rde_wf_row(1) [OF assms(1,2)]
    by (simp add: pd_remove_rde_by_idx_def dec_rde_count_def entry_cleared_def [abs_def] Let_def)
  then show thesis using that ok by (cases "err r1 = 0 \<and> err r2 = 0") (auto split: if_splits)
qed

lemma clear_entry:
  assumes "rde_wf p" "type < GPICAP_TYPE_MAX" "i < MAX_NS_PER_RDE" "rde_type (rde (shared p) ! unat type ! i) \<noteq> 0"
    and p': "p' = dec_rde_count (set_rde type i entry_cleared p)"
  shows "rde_wf p'" "Suc (rde_used p') = rde_used p" "rde_count (shared p') = rde_count (shared p) - 1"
    "pd_vka p' = pd_vka p" "rde (shared p') = (rde (shared p))[unat type := (rde (shared p) ! unat type)
       [i := entry_cleared (rde (shared p) ! unat type ! i)]]"
  using rde_wf_set [OF assms(1,2), where f = entry_cleared and i = i] used_set [OF assms(1-3), where f = entry_cleared] assms(4)
  by (simp_all add: p' dec_rde_count_def rde_wf_count entry_cleared_free rde_set_rde)
    (simp_all add: entry_cleared_def cap_type_defs)

text \<open>The specification of a removal on one row: the first entry of the space, or every entry of the
  type when no space is given.\<close>

definition rde_hit :: "gpi_cap_t \<Rightarrow> gpi_space_id_t \<Rightarrow> osmosis_rde_t \<Rightarrow> bool" where
  "rde_hit type sid r \<longleftrightarrow> rde_type r = type \<and> (rde_space_id r = sid \<or> sid = BADGE_SPACE_ID_NULL)"

fun removed_row :: "gpi_cap_t \<Rightarrow> gpi_space_id_t \<Rightarrow> osmosis_rde_t list \<Rightarrow> osmosis_rde_t list" where
  "removed_row type sid [] = []"
| "removed_row type sid (r # row) =
     (if rde_hit type sid r
      then entry_cleared r # (if sid = BADGE_SPACE_ID_NULL then removed_row type sid row else row)
      else r # removed_row type sid row)"

text \<open>What the loop returns, from index \<open>i\<close> on. Without an error the rest of the row is as specified; an error is one of the kernel, and what was
  cleared before it stays cleared and counted.\<close>

definition removal_outcome ::
    "'w env \<Rightarrow> gpi_cap_t \<Rightarrow> gpi_space_id_t \<Rightarrow> nat \<Rightarrow> bool \<Rightarrow> pd_t \<Rightarrow> 'w \<Rightarrow> ((int \<times> bool) \<times> pd_t \<times> 'w) option \<Rightarrow> bool" where
  "removal_outcome E type sid i found p w outcome \<longleftrightarrow> (let row = rde (shared p) ! unat type; hit = list_ex (rde_hit type sid) (drop i row) in
     \<exists>e p' w'. outcome = Some ((e, found \<or> hit), p', w') \<and> rde_wf p' \<and>
       rde_count (shared p') + of_nat (rde_used p) = rde_count (shared p) + of_nat (rde_used p') \<and>
       (e = 0 \<longrightarrow> rde (shared p') = (rde (shared p))[unat type := take i row @ removed_row type sid (drop i row)]) \<and>
       (e \<noteq> 0 \<longrightarrow> hit \<and> \<not> cap_calls_succeed E) \<and> (\<not> hit \<longrightarrow> p' = p \<and> w' = w))"

lemma remove_loop_total:
  assumes t: "type \<noteq> 0" "type < GPICAP_TYPE_MAX" and "rde_wf p" "pd_vka p = Some v" "i + n = MAX_NS_PER_RDE"
  shows "removal_outcome E type sid i found p w (pd_remove_rde_loop E type sid n i found p w)"
  using assms(3-)
proof (induction n arbitrary: i found p w)
  case 0
  then have "length (rde (shared p) ! unat type) = i" using rde_wf_row(2) [OF 0(1) t(2)] by (simp add: rde_row_wf_def)
  then show ?case using 0 by (simp add: removal_outcome_def)
next
  case (Suc n)
  note wf = Suc.prems(1) and v = Suc.prems(2)
  let ?row = "rde (shared p) ! unat type"
  have len: "length ?row = MAX_NS_PER_RDE" "i < length ?row" "unat type < length (rde (shared p))"
    using rde_wf_row(2) [OF wf t(2)] Suc.prems(3) wf t(2) by (auto simp: rde_row_wf_def rde_wf_def word_less_nat_alt)
  have d: "drop i ?row = ?row ! i # drop (Suc i) ?row" using len by (simp add: Cons_nth_drop_Suc)
  have step: "Suc i + n = MAX_NS_PER_RDE" using Suc.prems(3) by auto
  show ?case
  proof (cases "rde_hit type sid (?row ! i)")
    case False
    then have "pd_remove_rde_loop E type sid (Suc n) i found p w = pd_remove_rde_loop E type sid n (Suc i) found p w"
      using rde_wf_row(1) [OF wf t(2)] by (auto simp: rde_hit_def Let_def)
    then show ?thesis using Suc.IH [OF wf v step, of found w] False len(2)
      by (simp add: removal_outcome_def d take_Suc_conv_app_nth)
  next
    case True
    let ?p = "dec_rde_count (set_rde type i entry_cleared p)"
    have ne: "rde_type (?row ! i) \<noteq> 0" using True t(1) by (simp add: rde_hit_def)
    consider (Cleared) w1 where "pd_remove_rde_by_idx E type i p w = Some (0, ?p, w1)"
      | (Refused) e w' where "pd_remove_rde_by_idx E type i p w = Some (e, p, w')" "e \<noteq> 0" "\<not> cap_calls_succeed E"
      by (rule remove_by_idx [OF wf t(2) v, where E = E and i = i and w = w])
    then show ?thesis
    proof cases
      case (Refused e w')
      then show ?thesis using True wf rde_wf_row(1) [OF wf t(2)] by (simp add: removal_outcome_def d rde_hit_def)
    next
      case (Cleared w1)
      have c: "rde_wf ?p" "Suc (rde_used ?p) = rde_used p" "rde_count (shared ?p) = rde_count (shared p) - 1"
        "pd_vka ?p = Some v" "rde (shared ?p) = (rde (shared p))[unat type := ?row[i := entry_cleared (?row ! i)]]"
        using clear_entry [OF wf t(2) _ ne refl] len v by simp_all
      have u: "(of_nat (rde_used p) :: u64) = of_nat (rde_used ?p) + 1" using c(2) by (metis of_nat_Suc add.commute)
      have row2: "rde (shared ?p) ! unat type = take i ?row @ entry_cleared (?row ! i) # drop (Suc i) ?row"
        unfolding c(5) using len(3) upd_conv_take_nth_drop [OF len(2)] by simp
      have go: "pd_remove_rde_loop E type sid (Suc n) i found p w =
          (if sid \<noteq> BADGE_SPACE_ID_NULL then Some ((0, True), ?p, w1) else pd_remove_rde_loop E type sid n (Suc i) True ?p w1)"
        using True Cleared rde_wf_row(1) [OF wf t(2)] by (simp add: rde_hit_def)
      show ?thesis
      proof (cases "sid = BADGE_SPACE_ID_NULL")
        case False
        then show ?thesis unfolding go using c True u len by (simp add: removal_outcome_def d upd_conv_take_nth_drop)
      next
        case null: True
        have tk: "take (Suc i) (rde (shared ?p) ! unat type) = take i ?row @ [entry_cleared (?row ! i)]"
          "drop (Suc i) (rde (shared ?p) ! unat type) = drop (Suc i) ?row" unfolding row2 using len by simp_all
        from Suc.IH [OF c(1,4) step, of True w1] show ?thesis
          unfolding removal_outcome_def Let_def tk go using null c(3,5) True u by (auto simp: d algebra_simps)
      qed
    qed
  qed
qed

lemma remove_loop_spec:
  assumes ok: "cap_calls_succeed E" and t: "type \<noteq> 0" "type < GPICAP_TYPE_MAX"
    and "rde_wf p" "pd_vka p = Some v" "i + n = MAX_NS_PER_RDE" "row = rde (shared p) ! unat type"
  shows "\<exists>p' w'. pd_remove_rde_loop E type sid n i found p w =
        Some ((0, found \<or> list_ex (rde_hit type sid) (drop i row)), p', w') \<and>
      rde_wf p' \<and> rde (shared p') = (rde (shared p))[unat type := take i row @ removed_row type sid (drop i row)] \<and>
      rde_count (shared p') + of_nat (rde_used p) = rde_count (shared p) + of_nat (rde_used p')"
  using remove_loop_total [OF t assms(4-6), of E sid found w] ok assms(7) by (auto simp: removal_outcome_def Let_def)

text \<open>What a removal leaves.\<close>

lemma length_removed_row [simp]: "length (removed_row type sid row) = length row"
  by (induction type sid row rule: removed_row.induct) auto

lemma removed_row_null:
  "removed_row type BADGE_SPACE_ID_NULL row = map (\<lambda>r. if rde_type r = type then entry_cleared r else r) row"
  by (induction row) (auto simp: rde_hit_def)

lemma removed_row_no_hit:
  "type \<noteq> 0 \<Longrightarrow> filter (rde_hit type sid) (map (\<lambda>r. if rde_type r = type then entry_cleared r else r) row) = []"
  by (auto simp: filter_empty_conv rde_hit_def entry_cleared_def cap_type_defs)

lemma removed_row_count:
  "sid \<noteq> BADGE_SPACE_ID_NULL \<Longrightarrow> length (filter (rde_hit type sid) (removed_row type sid row)) =
     length (filter (rde_hit type sid) row) - 1"
  by (induction row) (auto simp: rde_hit_def entry_cleared_def)

text \<open>
  C14: \<open>pd_remove_rde\<close> returns and keeps the table well-formed and the counter in step with the entries in use, whatever the kernel answers. If no
  entry has the type and the space (any space for the null space) it reports an error and changes nothing. If it reports 0, such an entry was there, and
  exactly the first one is cleared, or all of them for the null space; no other entry has changed. With such an entry it fails only if the kernel
  refuses to take a capability back.
\<close>

theorem pd_remove_rde_removes:
  assumes wf: "rde_wf p" and t: "type \<noteq> 0" "type < GPICAP_TYPE_MAX" and v: "pd_vka p = Some v"
  shows "\<exists>e p' w'. pd_remove_rde E type sid p w = Some (e, p', w') \<and> rde_wf p' \<and>
    rde_count (shared p') - of_nat (rde_used p') = rde_count (shared p) - of_nat (rde_used p) \<and>
    (e = 0 \<longrightarrow> list_ex (rde_hit type sid) (rde (shared p) ! unat type) \<and>
       rde (shared p') = (rde (shared p))[unat type := removed_row type sid (rde (shared p) ! unat type)] \<and>
       length (filter (rde_hit type sid) (rde (shared p') ! unat type)) =
         (if sid = BADGE_SPACE_ID_NULL then 0 else length (filter (rde_hit type sid) (rde (shared p) ! unat type)) - 1)) \<and>
    (\<not> list_ex (rde_hit type sid) (rde (shared p) ! unat type) \<longrightarrow> e \<noteq> 0 \<and> p' = p \<and> w' = w) \<and>
    (list_ex (rde_hit type sid) (rde (shared p) ! unat type) \<longrightarrow> cap_calls_succeed E \<longrightarrow> e = 0)"
proof -
  let ?row = "rde (shared p) ! unat type"
  obtain e p' w' where l: "pd_remove_rde_loop E type sid MAX_NS_PER_RDE 0 False p w = Some ((e, list_ex (rde_hit type sid) ?row), p', w')" "rde_wf p'"
      "rde_count (shared p') + of_nat (rde_used p) = rde_count (shared p) + of_nat (rde_used p')"
      "e = 0 \<longrightarrow> rde (shared p') = (rde (shared p))[unat type := removed_row type sid ?row]"
      "e \<noteq> 0 \<longrightarrow> list_ex (rde_hit type sid) ?row \<and> \<not> cap_calls_succeed E" "\<not> list_ex (rde_hit type sid) ?row \<longrightarrow> p' = p \<and> w' = w"
    using remove_loop_total [OF t wf v, of 0 MAX_NS_PER_RDE E sid False w] by (auto simp: removal_outcome_def Let_def)
  have "unat type < length (rde (shared p))" using wf t by (simp add: rde_wf_def word_less_nat_alt)
  then have h: "e = 0 \<longrightarrow> length (filter (rde_hit type sid) (rde (shared p') ! unat type)) =
      (if sid = BADGE_SPACE_ID_NULL then 0 else length (filter (rde_hit type sid) ?row) - 1)"
    using l(4) t(1) by (simp add: removed_row_count removed_row_null removed_row_no_hit)
  have n: "rde_count (shared p') - of_nat (rde_used p') = rde_count (shared p) - of_nat (rde_used p)" using l(3) by (simp add: algebra_simps)
  have "type > 0" using t(1) by (simp add: word_neq_0_conv)
  then have "pd_remove_rde E type sid p w = Some (if e = 0 \<and> \<not> list_ex (rde_hit type sid) ?row then 1 else e, p', w')"
    using l(1) t by (simp add: pd_remove_rde_def cap_type_defs)
  then show ?thesis using l(2,4,5,6) h n by auto
qed

text \<open>The witness: the directory has an entry, for the space 4.\<close>

definition one_entry_pd :: pd_t where
  "one_entry_pd = new_pd\<lparr>shared := (shared new_pd)\<lparr>rde := (rde (shared new_pd))[3 :=
     \<lparr>slot_in_RT = 77, slot_in_PD = 9, rde_type = 3, rde_space_id = 4\<rparr> # replicate 7 empty_rde], rde_count := 1\<rparr>\<rparr>"

theorem pd_remove_rde_removes_witness:
  "\<exists>p' w'. pd_remove_rde trace_env 3 4 one_entry_pd [] = Some (0, p', w') \<and> rde_wf p' \<and> filter (rde_hit 3 4) (rde (shared p') ! 3) = [] \<and>
    (\<exists>e. pd_remove_rde trace_env 3 5 one_entry_pd [] = Some (e, one_entry_pd, []) \<and> e \<noteq> 0)"
proof -
  have t: "(3::gpi_cap_t) \<noteq> 0" "3 < GPICAP_TYPE_MAX" by (simp_all add: cap_type_defs)
  have ok: "cap_calls_succeed trace_env" by (simp add: cap_calls_succeed_def)
  have row: "rde (shared one_entry_pd) ! 3 = \<lparr>slot_in_RT = 77, slot_in_PD = 9, rde_type = 3, rde_space_id = 4\<rparr> # replicate 7 empty_rde"
    by (simp add: one_entry_pd_def new_pd_simps)
  have row3: "rde_row_wf 3 (rde (shared one_entry_pd) ! 3)"
    unfolding row by (simp add: rde_row_wf_def list_all_iff MAX_NS_PER_RDE_def) (simp add: rde_free_def empty_rde_def cap_type_defs)
  have wf: "rde_wf one_entry_pd" using new_pd_simps(1) row3 unfolding one_entry_pd_def
    by (auto simp: rde_wf_def list_all_iff nth_list_update new_pd_simps)
  have v: "pd_vka one_entry_pd = Some (Pd_Vka 5)" by (simp add: one_entry_pd_def new_pd_simps)
  have hit: "rde_hit 3 4 \<lparr>slot_in_RT = 77, slot_in_PD = 9, rde_type = 3, rde_space_id = 4\<rparr>" "\<not> rde_hit 3 k empty_rde"
    "\<not> rde_hit 3 5 \<lparr>slot_in_RT = 77, slot_in_PD = 9, rde_type = 3, rde_space_id = 4\<rparr>" for k
    by (simp_all add: rde_hit_def empty_rde_def badge_const_defs)
  have "list_ex (rde_hit 3 4) (rde (shared one_entry_pd) ! 3)" "\<not> list_ex (rde_hit 3 5) (rde (shared one_entry_pd) ! 3)"
    "length (filter (rde_hit 3 4) (rde (shared one_entry_pd) ! 3)) = 1" unfolding row using hit by (simp_all add: list_ex_iff)
  then show ?thesis
    using pd_remove_rde_removes [OF wf t v, of trace_env 4 "[]"] pd_remove_rde_removes [OF wf t v, of trace_env 5 "[]"] ok
    by (auto simp: badge_const_defs)
qed

end
