(* ===== verification/Component_Refs.thy ===== *)
theory Component_Refs
  imports Release
begin

section \<open>References on the objects of a component\<close>

text \<open>
  The six components differ in their objects and share everything else. The locale is what the shared
  code of \<open>resource_component_utils.c\<close> relies on: a component is a part of the server state that
  can be read and written without touching the outside world. Looking up, taking a reference and
  giving one back are described once, for all components.
\<close>

lemma ucast_32_64_eq [simp]: "(ucast (i :: u32) :: u64) = ucast j \<longleftrightarrow> i = j"
  by (metis ucast_32_64_32)

lemma ucast_32_64_numeral [simp]:
  assumes "numeral n < (2 ^ 32 :: nat)"
  shows "(ucast (i :: u32) :: u64) = numeral n \<longleftrightarrow> i = numeral n"
proof -
  have "unat i < 2 ^ 32" using unsigned_less [of i] by simp
  then have "unat (ucast i :: u64) = unat i" by (simp add: unsigned_ucast_eq take_bit_nat_eq_self)
  moreover have "unat (of_nat (numeral n) :: u64) = numeral n"
    by (rule unat_of_nat_small) (rule less_trans [OF assms], simp)
  moreover have "unat (of_nat (numeral n) :: u32) = numeral n"
    by (rule unat_of_nat_small) (use assms in \<open>simp only: len_num1 len_bit0\<close>, simp)
  ultimately show ?thesis by (simp only: word_unat_eq_iff of_nat_numeral)
qed

lemma ucast_32_64_0 [simp]: "(ucast (i :: u32) :: u64) = 0 \<longleftrightarrow> i = 0"
  using ucast_32_64_eq [of i 0] by simp

lemma ucast_32_64_1 [simp]: "(ucast (i :: u32) :: u64) = 1 \<longleftrightarrow> i = 1"
  using ucast_32_64_eq [of i 1] by simp

locale component_lens =
  fixes getc :: "'w gpi_server \<Rightarrow> 'a node resource_component_context_t"
    and upd :: "('a node resource_component_context_t \<Rightarrow> 'a node resource_component_context_t) \<Rightarrow>
      'w gpi_server \<Rightarrow> 'w gpi_server"
  assumes get_upd: "getc (upd f s) = f (getc s)"
    and upd_upd: "upd f (upd g s) = upd (\<lambda>c. f (g c)) s"
    and upd_world: "world (upd f s) = world s"
    and upd_cong: "f (getc s) = g (getc s) \<Longrightarrow> upd f s = upd g s"
begin

text \<open>The number of references on an object.\<close>

definition refs :: "'w gpi_server \<Rightarrow> gpi_obj_id_t \<Rightarrow> u32 option" where
  "refs s i = map_option count (resource_component_registry_get_by_id getc i s)"

definition obj_wf :: "'w gpi_server \<Rightarrow> bool" where
  "obj_wf s \<longleftrightarrow> registry_wf (registry (getc s))"

lemma get_entry_update:
  "(\<And>n. object_id (f n) = object_id n) \<Longrightarrow>
   resource_component_registry_get_by_id getc j (entry_update upd f i s) =
     (if j = i then map_option f (resource_component_registry_get_by_id getc i s)
      else resource_component_registry_get_by_id getc j s)"
  by (simp add: resource_component_registry_get_by_id_def entry_update_def get_upd
      resource_registry_get_by_id_def HASH_FIND_node_update)

lemma keys_entry_update:
  "(\<And>n. object_id (f n) = object_id n) \<Longrightarrow>
   keys (head (registry (getc (entry_update upd f i s)))) = keys (head (registry (getc s)))"
  by (simp add: entry_update_def get_upd keys_node_update)

lemma get_Some_id:
  "resource_component_registry_get_by_id getc i s = Some n \<Longrightarrow> object_id n = ucast i"
  by (auto simp: resource_component_registry_get_by_id_def resource_registry_get_by_id_def dest: HASH_FIND_Some)

text \<open>\<open>resource_component_inc\<close>: the count of the object, and nothing else.\<close>

lemma inc_found:
  "resource_component_registry_get_by_id getc i s = Some n \<Longrightarrow>
   resource_component_inc getc upd i s = (0, entry_update upd (\<lambda>n. n\<lparr>count := count n + 1\<rparr>) i s)"
  using get_Some_id [of i s n]
  by (auto simp: resource_component_inc_def comp_set_reg_def comp_reg_def resource_registry_inc_def entry_update_def
      intro: upd_cong)

lemma inc_missing:
  "resource_component_registry_get_by_id getc i s = None \<Longrightarrow> resource_component_inc getc upd i s = (1, s)"
  by (simp add: resource_component_inc_def)

text \<open>\<open>resource_component_dec\<close>: only the last reference runs the callback, on the state where the
  count is 0, and the object leaves the registry of the state that the callback returns.\<close>

definition dec_count :: "gpi_obj_id_t \<Rightarrow> 'w gpi_server \<Rightarrow> 'w gpi_server" where
  "dec_count i s = entry_update upd (\<lambda>n. n\<lparr>count := count n - 1\<rparr>) i s"

definition drop_obj :: "gpi_obj_id_t \<Rightarrow> 'w gpi_server \<Rightarrow> 'w gpi_server" where
  "drop_obj i s = upd (\<lambda>c. c\<lparr>registry := (registry c)\<lparr>head := HASH_DEL (head (registry c)) (ucast i)\<rparr>\<rparr>) s"

lemma dec_registry:
  "object_id n = ucast i \<Longrightarrow>
   resource_registry_dec (comp_reg getc) (comp_set_reg upd) (Some cb) n s =
     (if count n = 1 then map_option (drop_obj i) (cb (n\<lparr>count := 0\<rparr>) (dec_count i s)) else Some (dec_count i s))"
proof -
  assume i: "object_id n = ucast i"
  have d: "comp_set_reg upd ((comp_reg getc s)\<lparr>head := node_update (\<lambda>n. n\<lparr>count := count n - 1\<rparr>)
      (head (comp_reg getc s)) (ucast i)\<rparr>) s = dec_count i s"
    unfolding comp_set_reg_def comp_reg_def dec_count_def entry_update_def by (rule upd_cong) simp
  have e: "comp_set_reg upd ((comp_reg getc t)\<lparr>head := HASH_DEL (head (comp_reg getc t)) (ucast i)\<rparr>) t = drop_obj i t" for t
    unfolding comp_set_reg_def comp_reg_def drop_obj_def by (rule upd_cong) simp
  have "count n - 1 = 0 \<longleftrightarrow> count n = 1" by auto
  then show ?thesis
    by (simp add: resource_registry_dec_def resource_registry_delete_def i d e Let_def map_conv_bind_option comp_def)
qed

lemma dec_missing:
  "resource_component_registry_get_by_id getc i s = None \<Longrightarrow> resource_component_dec getc upd cb i s = Some (1, s)"
  by (simp add: resource_component_dec_def)

lemma dec_found:
  "resource_component_registry_get_by_id getc i s = Some n \<Longrightarrow>
   resource_component_dec getc upd cb i s =
     (if count n = 1 then map_option (\<lambda>t. (0, drop_obj i t)) (cb (n\<lparr>count := 0\<rparr>) (dec_count i s))
      else Some (0, dec_count i s))"
  using dec_registry [OF get_Some_id, of i s n cb]
  by (simp add: resource_component_dec_def map_conv_bind_option comp_def)

lemma get_dec_count:
  "resource_component_registry_get_by_id getc j (dec_count i s) =
     (if j = i then map_option (\<lambda>n. n\<lparr>count := count n - 1\<rparr>) (resource_component_registry_get_by_id getc i s)
      else resource_component_registry_get_by_id getc j s)"
  by (simp add: dec_count_def get_entry_update)

lemma get_drop_obj:
  "obj_wf s \<Longrightarrow> resource_component_registry_get_by_id getc j (drop_obj i s) =
     (if j = i then None else resource_component_registry_get_by_id getc j s)"
  by (simp add: obj_wf_def drop_obj_def resource_component_registry_get_by_id_def get_upd
      resource_registry_get_by_id_def HASH_FIND_DEL wf_distinct)

lemma wf_dec_count: "obj_wf s \<Longrightarrow> obj_wf (dec_count i s)"
  by (simp add: obj_wf_def dec_count_def entry_update_def get_upd registry_wf_head_update)

lemma wf_drop_obj: "obj_wf s \<Longrightarrow> obj_wf (drop_obj i s)"
  by (simp add: obj_wf_def drop_obj_def get_upd registry_wf_head_del)

end

interpretation ads_refs: component_lens ads_component ads_component_update
  by unfold_locales (simp_all add: comp_def)

interpretation mo_refs: component_lens mo_component mo_component_update
  by unfold_locales (simp_all add: comp_def)

interpretation cpu_refs: component_lens cpu_component cpu_component_update
  by unfold_locales (simp_all add: comp_def)

interpretation pd_refs: component_lens pd_component pd_component_update
  by unfold_locales (simp_all add: comp_def)

interpretation resspc_refs: component_lens resspc_component resspc_component_update
  by unfold_locales (simp_all add: comp_def)

interpretation ep_refs: component_lens ep_component ep_component_update
  by unfold_locales (simp_all add: comp_def)

text \<open>Writing to the record of a PD.\<close>

lemma get_pd_write:
  "pd_component_registry_get_entry_by_id j (pd_write i f s) =
     (if j = i then map_option (\<lambda>e. e\<lparr>pd := f (pd e)\<rparr>) (pd_component_registry_get_entry_by_id i s)
      else pd_component_registry_get_entry_by_id j s)"
  unfolding pd_write_def by (rule pd_refs.get_entry_update) simp

end
