(* ===== verification/Linked_Pds.thy ===== *)
theory Linked_Pds
  imports Component_Refs Destroy
begin

section \<open>Marking linked PDs\<close>

text \<open>
  A PD can be linked to others, which are to be deleted with it. \<open>pd_mark_linked_for_deletion\<close> walks
  the links: the callback of the link registry marks the linked PD and walks its links in turn. The
  first argument of the model bounds the depth of that recursion, so that a call that never returns
  is \<open>None\<close> for every bound. The lemmas give the two cases: links that never lead back are walked
  completely, a cycle of links is walked for ever.
\<close>

subsection \<open>The links\<close>

text \<open>The live PDs, the links of a PD, and the PDs that are marked.\<close>

definition live :: "'w gpi_server \<Rightarrow> gpi_obj_id_t \<Rightarrow> bool" where
  "live s p \<longleftrightarrow> pd_component_registry_get_entry_by_id p s \<noteq> None"

definition links :: "'w gpi_server \<Rightarrow> gpi_obj_id_t \<Rightarrow> gpi_obj_id_t list" where
  "links s p = map linked_pd_id (head (pd_link_get p s))"

definition marked :: "'w gpi_server \<Rightarrow> gpi_obj_id_t \<Rightarrow> bool" where
  "marked s p \<longleftrightarrow> (\<exists>e. pd_component_registry_get_entry_by_id p s = Some e \<and> to_delete (pd e))"

lemma mark_write:
  "live (pd_write i (\<lambda>p. p\<lparr>to_delete := True\<rparr>) s) j = live s j"
  "links (pd_write i (\<lambda>p. p\<lparr>to_delete := True\<rparr>) s) j = links s j"
  "marked (pd_write i (\<lambda>p. p\<lparr>to_delete := True\<rparr>) s) j \<longleftrightarrow> marked s j \<or> j = i \<and> live s i"
  by (auto simp: live_def links_def marked_def pd_link_get_def get_pd_write split: option.split)

lemma link_set:
  "live (pd_link_set i r s) j = live s j" "marked (pd_link_set i r s) j = marked s j"
  "live s i \<Longrightarrow> pd_link_get j (pd_link_set i r s) = (if j = i then r else pd_link_get j s)"
  by (auto simp: live_def marked_def pd_link_set_def pd_link_get_def get_pd_write split: option.split)

subsection \<open>A loop that removes the first element\<close>

lemma hash_iter_pop:
  assumes step: "\<And>k xs s. I s \<Longrightarrow> ks s = k # xs \<Longrightarrow> \<exists>s'. body k s = Some s' \<and> I s' \<and> ks s' = xs"
    and "I s" "length (ks s) \<le> n"
  shows "\<exists>s'. hash_iter n ks body (case ks s of [] \<Rightarrow> None | k # _ \<Rightarrow> Some k) s = Some s' \<and> I s' \<and> ks s' = []"
  using assms(2-)
proof (induction n arbitrary: s)
  case (Suc n)
  show ?case
  proof (cases "ks s")
    case (Cons k xs)
    then obtain s' where s': "body k s = Some s'" "I s'" "ks s' = xs" using step Suc.prems by blast
    have "length (ks s') \<le> n" using s' Cons Suc.prems by simp
    from Suc.IH [OF s'(2) this] show ?thesis using s' Cons by (simp add: Let_def)
  qed (use Suc.prems in simp)
qed simp

lemma HASH_ITER_pop:
  assumes "\<And>k xs s. I s \<Longrightarrow> ks s = k # xs \<Longrightarrow> \<exists>s'. body k s = Some s' \<and> I s' \<and> ks s' = xs" and "I s"
  shows "\<exists>s'. HASH_ITER ks body s = Some s' \<and> I s' \<and> ks s' = []"
  using hash_iter_pop [of I ks body s "length (ks s)", OF assms]
  by (cases "ks s") (auto simp: HASH_ITER_def)

text \<open>A loop whose rounds, as far as they return, remove the first element and never empty the table
  cannot end. A property that every round keeps holds when the loop returns.\<close>

lemma hash_iter_stuck:
  assumes "\<And>s. I s \<Longrightarrow> ks s \<noteq> []"
    and "\<And>k xs s s'. I s \<Longrightarrow> ks s = k # xs \<Longrightarrow> body k s = Some s' \<Longrightarrow> I s' \<and> ks s' = xs"
    and "I s"
  shows "hash_iter n ks body (case ks s of [] \<Rightarrow> None | k # _ \<Rightarrow> Some k) s = None"
  using assms(3)
proof (induction n arbitrary: s)
  case (Suc n)
  then obtain k xs where ks: "ks s = k # xs" using assms(1) by (cases "ks s") auto
  show ?case
  proof (cases "body k s")
    case (Some s')
    then have "I s'" "ks s' = xs" using assms(2) [OF Suc.prems ks] by auto
    with Suc.IH [of s'] show ?thesis using ks Some by (simp add: Let_def)
  qed (simp add: ks)
qed (use assms(1) in \<open>auto split: list.split\<close>)

lemma HASH_ITER_stuck:
  assumes "\<And>s. I s \<Longrightarrow> ks s \<noteq> []"
    and "\<And>k xs s s'. I s \<Longrightarrow> ks s = k # xs \<Longrightarrow> body k s = Some s' \<Longrightarrow> I s' \<and> ks s' = xs"
    and "I s"
  shows "HASH_ITER ks body s = None"
  using hash_iter_stuck [of I ks body s "length (ks s)", OF assms] assms(1) [OF assms(3)]
  by (cases "ks s") (auto simp: HASH_ITER_def)

lemma hash_iter_keeps:
  assumes "\<And>k s s'. I s \<Longrightarrow> body k s = Some s' \<Longrightarrow> I s'"
  shows "I s \<Longrightarrow> hash_iter n ks body ko s = Some s' \<Longrightarrow> I s'"
proof (induction n arbitrary: ko s)
  case 0
  then show ?case by (cases ko) auto
next
  case (Suc n)
  show ?case
  proof (cases ko)
    case (Some k)
    then obtain t where "body k s = Some t" "hash_iter n ks body (next_key k (ks s)) t = Some s'"
      using Suc.prems(2) by (auto simp: Let_def split: if_splits bind_splits)
    then show ?thesis using Suc.IH assms Suc.prems(1) by blast
  qed (use Suc.prems in simp)
qed

lemma HASH_ITER_keeps:
  assumes "\<And>k s s'. I s \<Longrightarrow> body k s = Some s' \<Longrightarrow> I s'" and "I s" and "HASH_ITER ks body s = Some s'"
  shows "I s'"
proof (cases "ks s")
  case (Cons k xs)
  then have "hash_iter (length (ks s)) ks body (Some k) s = Some s'" using assms(3) by (simp add: HASH_ITER_def)
  then show ?thesis using hash_iter_keeps [of I body s "length (ks s)" ks "Some k" s'] assms(1,2) by blast
qed (use assms in \<open>simp add: HASH_ITER_def\<close>)

subsection \<open>One link\<close>

definition mark_body ::
    "(gpi_obj_id_t \<Rightarrow> 'w gpi_server \<Rightarrow> 'w gpi_server option) \<Rightarrow> gpi_obj_id_t \<Rightarrow> u64 \<Rightarrow> 'w gpi_server \<Rightarrow> 'w gpi_server option"
  where
  "mark_body mark pid k s = do {
     node \<leftarrow> resource_registry_get_by_id (pd_link_get pid s) k;
     resource_registry_delete (pd_link_get pid) (pd_link_set pid) (Some (pd_linkage_on_delete mark)) node s }"

lemma mark_Suc:
  "pd_mark_linked_for_deletion (Suc n) pid s =
     HASH_ITER (link_keys pid) (mark_body (pd_mark_linked_for_deletion n) pid) s"
  by (simp add: mark_body_def [abs_def])

lemma mark_body_first:
  assumes "head (pd_link_get pid s) = node # rest"
  shows "mark_body mark pid (object_id node) s =
    (if live s (linked_pd_id node)
     then do { s \<leftarrow> mark (linked_pd_id node) (pd_write (linked_pd_id node) (\<lambda>p. p\<lparr>to_delete := True\<rparr>) s);
       Some (pd_link_set pid ((pd_link_get pid s)\<lparr>head := HASH_DEL (head (pd_link_get pid s)) (object_id node)\<rparr>) s) }
     else Some (pd_link_set pid ((pd_link_get pid s)\<lparr>head := rest\<rparr>) s))"
  using assms
  by (simp add: mark_body_def resource_registry_get_by_id_def resource_registry_delete_def
      pd_linkage_on_delete_def live_def Let_def split: option.split)

subsection \<open>Cycles\<close>

text \<open>A set of PDs each of which has a link, at any place of its registry, to one of the set.\<close>

definition link_cycle :: "gpi_obj_id_t set \<Rightarrow> 'w gpi_server \<Rightarrow> bool" where
  "link_cycle C s \<longleftrightarrow> (\<forall>p\<in>C. live s p \<and> (\<exists>q\<in>set (links s p). q \<in> C))"

text \<open>The PDs of the set have the same links in both states.\<close>

definition same_links :: "gpi_obj_id_t set \<Rightarrow> 'w gpi_server \<Rightarrow> 'w gpi_server \<Rightarrow> bool" where
  "same_links C s t \<longleftrightarrow> (\<forall>p. live t p = live s p) \<and> (\<forall>p\<in>C. pd_link_get p t = pd_link_get p s)"

lemma same_links_refl: "same_links C s s"
  by (simp add: same_links_def)

lemma same_links_trans: "same_links C s t \<Longrightarrow> same_links C t u \<Longrightarrow> same_links C s u"
  by (simp add: same_links_def)

lemma same_links_write: "same_links C s (pd_write i (\<lambda>p. p\<lparr>to_delete := True\<rparr>) s)"
  by (auto simp: same_links_def live_def pd_link_get_def get_pd_write split: option.split)

lemma same_links_set: "i \<notin> C \<Longrightarrow> same_links C s (pd_link_set i r s)"
  by (auto simp: same_links_def live_def pd_link_set_def pd_link_get_def get_pd_write split: option.split)

lemma same_links_cycle: "same_links C s t \<Longrightarrow> link_cycle C s \<Longrightarrow> link_cycle C t"
  by (simp add: same_links_def link_cycle_def links_def)

lemma linked_live: "q \<in> set (links s p) \<Longrightarrow> live s p"
  by (auto simp: links_def live_def pd_link_get_def resource_registry_initialize_def split: option.splits)

text \<open>One round that returns, at any place of the registry: the link does not lead into the set, and
  the walk from the linked PD left the links of the set alone.\<close>

lemma mark_body_returns:
  assumes b: "mark_body mark pid k s = Some s'" and c: "link_cycle C s"
    and mark: "\<forall>q t u. link_cycle C t \<longrightarrow> mark q t = Some u \<longrightarrow> q \<notin> C \<and> same_links C t u"
  obtains u node where "resource_registry_get_by_id (pd_link_get pid s) k = Some node" "linked_pd_id node \<notin> C"
    "same_links C s u" "s' = pd_link_set pid ((pd_link_get pid u)\<lparr>head := HASH_DEL (head (pd_link_get pid u)) k\<rparr>) u"
proof -
  obtain node where node: "resource_registry_get_by_id (pd_link_get pid s) k = Some node"
    using b by (auto simp: mark_body_def split: bind_splits)
  have k: "object_id node = k" using node HASH_FIND_Some [of _ k node] by (simp add: resource_registry_get_by_id_def)
  let ?q = "linked_pd_id node"
  show ?thesis
  proof (cases "live s ?q")
    case True
    let ?t = "pd_write ?q (\<lambda>p. p\<lparr>to_delete := True\<rparr>) s"
    obtain u where u: "mark ?q ?t = Some u"
      "s' = pd_link_set pid ((pd_link_get pid u)\<lparr>head := HASH_DEL (head (pd_link_get pid u)) k\<rparr>) u"
      using b node k True
      by (auto simp: mark_body_def resource_registry_delete_def pd_linkage_on_delete_def live_def Let_def
          split: option.splits bind_splits)
    have "link_cycle C ?t" using same_links_cycle [OF same_links_write c] .
    then have "?q \<notin> C" "same_links C ?t u" using mark u(1) by blast+
    then show ?thesis using that [OF node _ same_links_trans [OF same_links_write] u(2)] by blast
  next
    case False
    then have "?q \<notin> C" using c by (auto simp: link_cycle_def)
    moreover have "s' = pd_link_set pid ((pd_link_get pid s)\<lparr>head := HASH_DEL (head (pd_link_get pid s)) k\<rparr>) s"
      using b node k False
      by (auto simp: mark_body_def resource_registry_delete_def pd_linkage_on_delete_def live_def Let_def
          split: option.splits bind_splits)
    ultimately show ?thesis using that [OF node _ same_links_refl] by blast
  qed
qed

lemma cycle_unreached:
  fixes s :: "'w gpi_server"
  shows "link_cycle C s \<Longrightarrow> pd_mark_linked_for_deletion n p s = Some s' \<Longrightarrow> p \<notin> C \<and> same_links C s s'"
proof (induction n arbitrary: p s s')
  case (Suc n)
  let ?body = "mark_body (pd_mark_linked_for_deletion n) p"
  have IH: "\<forall>q (t :: 'w gpi_server) u. link_cycle C t \<longrightarrow> pd_mark_linked_for_deletion n q t = Some u \<longrightarrow> q \<notin> C \<and> same_links C t u"
    using Suc.IH by blast
  have run: "HASH_ITER (link_keys p) ?body s = Some s'" using Suc.prems(2) unfolding mark_Suc .
  have "p \<notin> C"
  proof
    assume p: "p \<in> C"
    have round: "link_cycle C u \<and> link_keys p u = xs"
      if c: "link_cycle C t" and ks: "link_keys p t = k # xs" and b: "?body k t = Some u" for k xs u and t :: "'w gpi_server"
    proof -
      obtain v node where v: "resource_registry_get_by_id (pd_link_get p t) k = Some node" "linked_pd_id node \<notin> C"
        "same_links C t v" "u = pd_link_set p ((pd_link_get p v)\<lparr>head := HASH_DEL (head (pd_link_get p v)) k\<rparr>) v"
        by (rule mark_body_returns [OF b c IH])
      obtain rest where hd: "head (pd_link_get p t) = node # rest" "keys rest = xs" "object_id node = k"
        using ks v(1) by (auto simp: link_keys_def resource_registry_get_by_id_def)
      have "live v p" using same_links_cycle [OF v(3) c] p by (simp add: link_cycle_def)
      then have g: "pd_link_get j u = (if j = p then (pd_link_get p v)\<lparr>head := rest\<rparr> else pd_link_get j v)" for j
        using v(3) hd p by (simp add: v(4) link_set same_links_def)
      have "links u j = (if j = p then map linked_pd_id rest else links t j)" if "j \<in> C" for j
        using that v(3) g by (simp add: links_def same_links_def)
      moreover have "links t p = linked_pd_id node # map linked_pd_id rest" using hd by (simp add: links_def)
      moreover have "live u j = live t j" for j using v(3,4) by (simp add: link_set same_links_def)
      moreover have "\<exists>q\<in>set (links t j). q \<in> C" "live t j" if "j \<in> C" for j using c that by (auto simp: link_cycle_def)
      ultimately have "link_cycle C u" using v(2) p unfolding link_cycle_def by force
      moreover have "link_keys p u = xs" using g hd(2) by (simp add: link_keys_def)
      ultimately show ?thesis by simp
    qed
    have "link_keys p t \<noteq> []" if "link_cycle C t" for t
      using that p by (auto simp: link_cycle_def links_def link_keys_def)
    then have "HASH_ITER (link_keys p) ?body s = None"
      by (rule HASH_ITER_stuck [where I = "link_cycle C", OF _ round Suc.prems(1)])
    then show False using run by simp
  qed
  have "same_links C s u" if st: "same_links C s t" and b: "?body k t = Some u" for k u and t :: "'w gpi_server"
  proof -
    obtain v where v: "same_links C t v" "u = pd_link_set p ((pd_link_get p v)\<lparr>head := HASH_DEL (head (pd_link_get p v)) k\<rparr>) v"
      by (rule mark_body_returns [OF b same_links_cycle [OF st Suc.prems(1)] IH])
    show ?thesis unfolding v(2)
      by (rule same_links_trans [OF same_links_trans [OF st v(1)] same_links_set [OF \<open>p \<notin> C\<close>]])
  qed
  then have "same_links C s s'"
    by (rule HASH_ITER_keeps [where I = "same_links C s", OF _ same_links_refl run])
  then show ?case using \<open>p \<notin> C\<close> by simp
qed simp

lemma cycle_diverges: "link_cycle C s \<Longrightarrow> p \<in> C \<Longrightarrow> pd_mark_linked_for_deletion n p s = None"
  using cycle_unreached by (cases "pd_mark_linked_for_deletion n p s") blast+

subsection \<open>Links that do not lead back\<close>

text \<open>\<open>rk\<close> is a rank that decreases along links. A PD whose links have been walked has none left, and
  the live PDs it was linked to are marked and have been walked.\<close>

definition ranked :: "(gpi_obj_id_t \<Rightarrow> nat) \<Rightarrow> 'w gpi_server \<Rightarrow> bool" where
  "ranked rk s \<longleftrightarrow> (\<forall>p. \<forall>q\<in>set (links s p). live s q \<longrightarrow> rk q < rk p)"

definition finished :: "'w gpi_server \<Rightarrow> 'w gpi_server \<Rightarrow> gpi_obj_id_t set \<Rightarrow> bool" where
  "finished s t Q \<longleftrightarrow> (\<forall>q\<in>Q. live s q \<longrightarrow> marked t q \<and> links t q = [])"

definition walked :: "(gpi_obj_id_t \<Rightarrow> nat) \<Rightarrow> nat \<Rightarrow> 'w gpi_server \<Rightarrow> 'w gpi_server \<Rightarrow> bool" where
  "walked rk b s t \<longleftrightarrow> (\<forall>p. live t p = live s p) \<and> (\<forall>p. marked s p \<longrightarrow> marked t p) \<and>
     (\<forall>p. b < rk p \<longrightarrow> pd_link_get p t = pd_link_get p s) \<and>
     (\<forall>p. pd_link_get p t = pd_link_get p s \<or> links t p = [] \<and> finished s t (set (links s p)))"

lemma walked_links: "walked rk b s t \<Longrightarrow> links t p = links s p \<or> links t p = []"
  unfolding walked_def links_def by metis

lemma walked_ranked: "walked rk b s t \<Longrightarrow> ranked rk s \<Longrightarrow> ranked rk t"
  unfolding ranked_def using walked_links [of rk b s t]
  by (metis empty_iff empty_set walked_def)

text \<open>The state of the loop over the links of \<open>pid\<close>: those in \<open>pre\<close> are done.\<close>

definition walking :: "(gpi_obj_id_t \<Rightarrow> nat) \<Rightarrow> gpi_obj_id_t \<Rightarrow> 'w gpi_server \<Rightarrow> 'w gpi_server \<Rightarrow> bool" where
  "walking rk pid s t \<longleftrightarrow> (\<forall>p. live t p = live s p) \<and> (\<forall>p. marked s p \<longrightarrow> marked t p) \<and>
     (\<forall>p. rk pid < rk p \<longrightarrow> pd_link_get p t = pd_link_get p s) \<and>
     (\<forall>p. p \<noteq> pid \<longrightarrow> pd_link_get p t = pd_link_get p s \<or> links t p = [] \<and> finished s t (set (links s p))) \<and>
     (\<exists>pre. links s pid = pre @ links t pid \<and> finished s t (set pre))"

lemma walking_ranked: "walking rk pid s t \<Longrightarrow> ranked rk s \<Longrightarrow> ranked rk t"
proof -
  assume w: "walking rk pid s t" and r: "ranked rk s"
  have "set (links t p) \<subseteq> set (links s p)" for p
  proof (cases "p = pid")
    case True
    obtain pre where "links s pid = pre @ links t pid" using w by (auto simp: walking_def)
    with True show ?thesis by simp
  next
    case False
    then have "links t p = links s p \<or> links t p = []" using w unfolding walking_def links_def by metis
    then show ?thesis by auto
  qed
  then show ?thesis using w r unfolding ranked_def walking_def by blast
qed

lemma finished_mono:
  assumes "finished s t Q" "\<And>p. marked t p \<Longrightarrow> marked u p" "\<And>p. links t p = [] \<Longrightarrow> links u p = []"
  shows "finished s u Q"
  using assms by (auto simp: finished_def)

lemma finished_live: "(\<And>p. live t p = live s p) \<Longrightarrow> finished t u Q = finished s u Q"
  by (simp add: finished_def)

text \<open>One round of the loop, with the recursive call already described.\<close>

lemma walking_step:
  assumes w: "walking rk pid s t" and r: "ranked rk s"
    and hd: "head (pd_link_get pid t) = node # rest" and q: "q = linked_pd_id node" and live: "live t q"
    and rec: "walked rk (rk q) (pd_write q (\<lambda>p. p\<lparr>to_delete := True\<rparr>) t) u" "links u q = []"
  shows "walking rk pid s (pd_link_set pid ((pd_link_get pid u)\<lparr>head := HASH_DEL (head (pd_link_get pid u)) (object_id node)\<rparr>) u)
     \<and> head (pd_link_get pid u) = node # rest \<and> live u pid"
proof -
  let ?t = "pd_write q (\<lambda>p. p\<lparr>to_delete := True\<rparr>) t"
  have lq: "links t pid = q # map linked_pd_id rest" using hd q by (simp add: links_def)
  then have rq: "rk q < rk pid" using walking_ranked [OF w r] live by (simp add: ranked_def)
  have lg: "pd_link_get p ?t = pd_link_get p t" for p
    by (auto simp: pd_link_get_def get_pd_write split: option.split)
  have up: "pd_link_get pid u = pd_link_get pid t" using rec(1) rq by (simp add: walked_def lg)
  have live_pid: "live t pid"
    using hd by (auto simp: live_def pd_link_get_def resource_registry_initialize_def split: option.splits)
  then have lu: "live u pid" using rec(1) by (simp add: walked_def mark_write)
  let ?v = "pd_link_set pid ((pd_link_get pid u)\<lparr>head := HASH_DEL (head (pd_link_get pid u)) (object_id node)\<rparr>) u"
  have hu: "head (pd_link_get pid u) = node # rest" using up hd by simp
  have v: "pd_link_get p ?v = (if p = pid then (pd_link_get pid u)\<lparr>head := rest\<rparr> else pd_link_get p u)" for p
    using link_set(3) [OF lu] hu by simp
  then have lv: "links ?v p = (if p = pid then map linked_pd_id rest else links u p)" for p
    by (simp add: links_def)
  have tu: "links t p = [] \<Longrightarrow> links u p = []" for p
    using walked_links [OF rec(1), of p] by (simp add: mark_write)
  have uv: "links u p = [] \<Longrightarrow> links ?v p = []" for p using lv hu by (auto simp: links_def)
  have mv: "marked u p = marked ?v p" for p by (simp add: link_set)
  have mt: "marked t p \<Longrightarrow> marked u p" for p using rec(1) by (simp add: walked_def mark_write)
  have mq: "marked u q" using rec(1) live by (simp add: walked_def mark_write)
  have lt: "live t p = live s p" for p using w by (simp add: walking_def)
  have lvs: "live ?v p = live s p" for p using rec(1) lt by (simp add: link_set walked_def mark_write)
  have other: "pd_link_get p ?v = pd_link_get p s \<or> links ?v p = [] \<and> finished s ?v (set (links s p))"
    if p: "p \<noteq> pid" for p
  proof (cases "pd_link_get p t = pd_link_get p s")
    case True
    show ?thesis
    proof (cases "pd_link_get p u = pd_link_get p t")
      case False
      then have "links u p = []" "finished ?t u (set (links t p))"
        using rec(1) by (auto simp: walked_def lg mark_write)
      then have "links ?v p = []" "finished ?t ?v (set (links t p))"
        using uv mv finished_mono [of ?t u "set (links t p)" ?v] by auto
      moreover have "finished ?t ?v (set (links t p)) = finished s ?v (set (links t p))"
        by (rule finished_live) (simp add: mark_write lt)
      moreover have "links t p = links s p" using True by (simp add: links_def)
      ultimately show ?thesis by simp
    qed (use True v p in simp)
  next
    case False
    then have "links t p = []" "finished s t (set (links s p))" using w p by (auto simp: walking_def)
    then show ?thesis using tu uv mt mv finished_mono [of s t "set (links s p)" ?v] by auto
  qed
  obtain pre where pre: "links s pid = pre @ links t pid" "finished s t (set pre)"
    using w by (auto simp: walking_def)
  have "finished s ?v (set (pre @ [q]))"
    using finished_mono [OF pre(2), of ?v] tu uv mt mv mq rec(2) by (auto simp: finished_def)
  moreover have "links s pid = (pre @ [q]) @ links ?v pid" using pre(1) lq lv by simp
  ultimately have "\<exists>pre. links s pid = pre @ links ?v pid \<and> finished s ?v (set pre)" by blast
  moreover have "rk pid < rk p \<Longrightarrow> pd_link_get p ?v = pd_link_get p s" for p
    using w rec(1) rq v lg by (auto simp: walking_def walked_def)
  moreover have "marked s p \<Longrightarrow> marked ?v p" for p using w mt mv by (simp add: walking_def)
  ultimately have "walking rk pid s ?v" unfolding walking_def using lvs other by auto
  then show ?thesis using hu lu by simp
qed

lemma walking_skip:
  assumes w: "walking rk pid s t" and hd: "head (pd_link_get pid t) = node # rest"
    and dead: "\<not> live t (linked_pd_id node)"
  shows "walking rk pid s (pd_link_set pid ((pd_link_get pid t)\<lparr>head := rest\<rparr>) t)"
proof -
  let ?v = "pd_link_set pid ((pd_link_get pid t)\<lparr>head := rest\<rparr>) t"
  have "live t pid"
    using hd by (auto simp: live_def pd_link_get_def resource_registry_initialize_def split: option.splits)
  then have v: "pd_link_get p ?v = (if p = pid then (pd_link_get pid t)\<lparr>head := rest\<rparr> else pd_link_get p t)" for p
    by (rule link_set(3))
  then have lv: "links ?v p = (if p = pid then map linked_pd_id rest else links t p)" for p
    by (simp add: links_def)
  have f: "finished s ?v Q" if "finished s t Q" for Q
    by (rule finished_mono [OF that]) (use lv hd in \<open>auto simp: link_set links_def\<close>)
  obtain pre where pre: "links s pid = pre @ links t pid" "finished s t (set pre)"
    using w by (auto simp: walking_def)
  have lt: "live t p = live s p" for p using w by (simp add: walking_def)
  have "finished s ?v (set (pre @ [linked_pd_id node]))"
    using f [OF pre(2)] dead lt by (auto simp: finished_def)
  moreover have "links s pid = (pre @ [linked_pd_id node]) @ links ?v pid"
    using pre(1) hd by (simp add: lv) (simp add: links_def)
  ultimately have "\<exists>pre. links s pid = pre @ links ?v pid \<and> finished s ?v (set pre)" by blast
  moreover have "pd_link_get p ?v = pd_link_get p s \<or> links ?v p = [] \<and> finished s ?v (set (links s p))"
    if "p \<noteq> pid" for p
    using w that f [of "set (links s p)"] by (auto simp: walking_def v lv)
  ultimately show ?thesis using w unfolding walking_def by (auto simp: link_set v)
qed

lemma mark_walks:
  "ranked rk s \<Longrightarrow> rk pid < n \<Longrightarrow>
   \<exists>t. pd_mark_linked_for_deletion n pid s = Some t \<and> walked rk (rk pid) s t \<and> links t pid = []"
proof (induction n arbitrary: pid s)
  case (Suc n)
  note r = Suc.prems(1)
  let ?I = "walking rk pid s"
  have "\<exists>t'. mark_body (pd_mark_linked_for_deletion n) pid k t = Some t' \<and> ?I t' \<and> link_keys pid t' = xs"
    if w: "?I t" and ks: "link_keys pid t = k # xs" for k xs t
  proof -
    obtain node rest where hd: "head (pd_link_get pid t) = node # rest" "object_id node = k" "keys rest = xs"
      using ks by (auto simp: link_keys_def)
    let ?q = "linked_pd_id node"
    have lk: "link_keys pid (pd_link_set pid (R\<lparr>head := rest\<rparr>) u) = xs" if "live u pid" for u R
      using link_set(3) [OF that, of pid] hd(3) by (simp add: link_keys_def)
    have lp: "live t pid"
      using hd by (auto simp: live_def pd_link_get_def resource_registry_initialize_def split: option.splits)
    show ?thesis
    proof (cases "live t ?q")
      case True
      let ?t = "pd_write ?q (\<lambda>p. p\<lparr>to_delete := True\<rparr>) t"
      have rt: "ranked rk t" using walking_ranked [OF w r] .
      then have "rk ?q < rk pid" using True hd by (simp add: ranked_def links_def)
      moreover have "ranked rk ?t" using rt by (simp add: ranked_def mark_write)
      ultimately obtain u where u: "pd_mark_linked_for_deletion n ?q ?t = Some u" "walked rk (rk ?q) ?t u" "links u ?q = []"
        using Suc.IH [of ?t ?q] Suc.prems(2) by auto
      from walking_step [OF w r hd(1) refl True u(2,3)] show ?thesis
        using mark_body_first [OF hd(1), of "pd_mark_linked_for_deletion n"] True u(1) lk [of u] hd(2) by auto
    next
      case False
      then show ?thesis
        using mark_body_first [OF hd(1), of "pd_mark_linked_for_deletion n"] walking_skip [OF w hd(1)] lk [OF lp] hd(2) by auto
    qed
  qed
  moreover have "?I s" by (auto simp: walking_def finished_def)
  ultimately obtain t where t: "pd_mark_linked_for_deletion (Suc n) pid s = Some t" "?I t" "link_keys pid t = []"
    unfolding mark_Suc using HASH_ITER_pop [of ?I "link_keys pid" _ s] by blast
  have l: "links t pid = []" using t(3) by (simp add: link_keys_def links_def)
  then have "walked rk (rk pid) s t" using t(2) unfolding walking_def walked_def by auto
  then show ?case using t(1) l by blast
qed simp

subsection \<open>Properties\<close>

text \<open>The PDs that a PD leads to.\<close>

inductive reaches :: "'w gpi_server \<Rightarrow> gpi_obj_id_t \<Rightarrow> gpi_obj_id_t \<Rightarrow> bool" for s p where
  link: "q \<in> set (links s p) \<Longrightarrow> live s q \<Longrightarrow> reaches s p q"
| trans: "reaches s p q \<Longrightarrow> r \<in> set (links s q) \<Longrightarrow> live s r \<Longrightarrow> reaches s p r"

lemma walked_reaches:
  assumes "walked rk b s t" "links t pid = []" and "reaches s pid q"
  shows "marked t q \<and> links t q = []"
  using assms(3)
proof induction
  case (link q)
  then show ?case using assms(1,2) unfolding walked_def finished_def
    by (metis empty_iff empty_set links_def)
next
  case (trans q r)
  then show ?case using assms(1) unfolding walked_def finished_def
    by (metis empty_iff empty_set links_def)
qed

text \<open>
  C18: if the links lead nowhere back (a rank decreases along them), the walk from a PD ends, with a
  recursion no deeper than the rank of the PD. Every live PD that the links lead to is marked for
  deletion, directly linked or not, and no PD has been removed or unmarked.
\<close>

theorem linked_pds_marked:
  assumes "ranked rk s" and "rk pid < n"
  shows "\<exists>t. pd_mark_linked_for_deletion n pid s = Some t \<and> (\<forall>q. reaches s pid q \<longrightarrow> marked t q) \<and>
    (\<forall>q. live t q = live s q) \<and> (\<forall>q. marked s q \<longrightarrow> marked t q) \<and> links t pid = []"
  using mark_walks [OF assms] walked_reaches by (metis walked_def)

text \<open>
  C37: a cycle of links is walked for ever, because a link is still in its registry while its
  callback runs. If each PD of a set has, at any place of its registry, a link to a live PD of the set
  (a PD linked to itself is enough), the walk from a PD of the set does not return, for any depth of
  recursion; nor does the walk from another PD that has a link to one of the set.
\<close>

theorem link_cycle_never_returns:
  assumes "link_cycle C s" and "p \<in> C \<or> (\<exists>q\<in>set (links s p). q \<in> C)"
  shows "pd_mark_linked_for_deletion n p s = None"
proof -
  have "link_cycle (if p \<in> C then C else insert p C) s"
    using assms linked_live [of _ s p] by (auto simp: link_cycle_def)
  then show ?thesis by (rule cycle_diverges) simp
qed

text \<open>Witnesses: PD 2 is linked to 3 and 4, and 3 to 4. PD 5 is linked first to PD 6, which has no
  links, and then to PD 7, which is linked back to 5; PD 8 is linked to 5.\<close>

definition link_node :: "gpi_obj_id_t \<Rightarrow> pd_link_node_t" where
  "link_node q = \<lparr>object_id = 0, count = 1, linked_pd_id = q\<rparr>"

definition linked_pd :: "gpi_obj_id_t \<Rightarrow> gpi_obj_id_t list \<Rightarrow> pd_component_registry_entry_t" where
  "linked_pd i qs = pd_entry i (\<lambda>p. p\<lparr>linked_registry := (linked_registry p)\<lparr>head := map link_node qs\<rparr>\<rparr>)"

definition linked_tree :: "kcall list gpi_server" where
  "linked_tree = server_with [linked_pd 2 [3, 4], linked_pd 3 [4], linked_pd 4 []]"

definition linked_loop :: "kcall list gpi_server" where
  "linked_loop = server_with [linked_pd 5 [6, 7], linked_pd 6 [], linked_pd 7 [6, 5], linked_pd 8 [5]]"

lemmas linked_sample_defs = links_def live_def pd_link_get_def linked_tree_def linked_loop_def server_with_def
  pd_entry_def linked_pd_def resource_component_registry_get_by_id_def resource_registry_get_by_id_def
  link_node_def resource_registry_initialize_def

lemma linked_tree_links:
  "links linked_tree p = (if p = 2 then [3, 4] else if p = 3 then [4] else [])"
  "live linked_tree p \<longleftrightarrow> p \<in> {0, 2, 3, 4}"
  by (auto simp: linked_sample_defs)

lemma linked_loop_links:
  "links linked_loop p = (if p = 5 then [6, 7] else if p = 7 then [6, 5] else if p = 8 then [5] else [])"
  "live linked_loop p \<longleftrightarrow> p \<in> {0, 5, 6, 7, 8}"
  by (auto simp: linked_sample_defs)

theorem linked_pds_marked_witness:
  "\<exists>t. pd_mark_linked_for_deletion 3 2 linked_tree = Some t \<and> marked t 4"
proof -
  let ?rk = "\<lambda>p. if p = 2 then 2 else if p = 3 then 1 else (0::nat)"
  have "ranked ?rk linked_tree" by (auto simp: ranked_def linked_tree_links)
  moreover have "reaches linked_tree 2 4" by (rule reaches.link) (simp_all add: linked_tree_links)
  ultimately show ?thesis using linked_pds_marked [of ?rk linked_tree 2 3] by auto
qed

theorem link_cycle_never_returns_witness:
  "pd_mark_linked_for_deletion 1000 5 linked_loop = None \<and> pd_mark_linked_for_deletion 1000 8 linked_loop = None"
  using link_cycle_never_returns [of "{5, 7}" linked_loop 5 1000] link_cycle_never_returns [of "{5, 7}" linked_loop 8 1000]
  by (simp add: link_cycle_def linked_loop_links)

end
