(* ===== verification/Mo_Release.thy ===== *)
theory Mo_Release
  imports Linked_Pds Pd_Holds
begin

section \<open>Releasing memory objects\<close>

text \<open>
  What happens to a memory object when a reference on it is given back. The root task holds every
  object without counting, so the callback of its hold registry does nothing and one level of the
  clean-up recursion is enough.
\<close>

subsection \<open>The root task's hold\<close>

text \<open>The root task is the PD that the server context names.\<close>

definition rt_wf :: "'w gpi_server \<Rightarrow> bool" where
  "rt_wf s \<longleftrightarrow> (\<exists>e. pd_component_registry_get_entry_by_id (rt_pd_id s) s = Some e \<and>
     pd_id (pd e) = rt_pd_id s \<and> hold_wf (pd e))"

definition rt_pd :: "'w gpi_server \<Rightarrow> pd_t" where
  "rt_pd s = (case pd_component_registry_get_entry_by_id (rt_pd_id s) s of Some e \<Rightarrow> pd e | None \<Rightarrow> pd blank_pd)"

definition rt_unhold :: "u64 \<Rightarrow> 'w gpi_server \<Rightarrow> 'w gpi_server" where
  "rt_unhold k s = pd_hold_set (rt_pd_id s)
     ((pd_hold_get (rt_pd_id s) s)\<lparr>head := HASH_DEL (head (pd_hold_get (rt_pd_id s) s)) k\<rparr>) s"

lemma rt_callback: "rt_wf s \<Longrightarrow> pd_held_resource_on_delete E (Suc n) (rt_pd_id s) node s = Some s"
  by (auto simp: rt_wf_def held_resource_on_delete_body_def)


lemma remove_resource_from_rt:
  assumes rt: "rt_wf s" and k: "rid_key rid = Some k"
  shows "pd_component_remove_resource_from_rt (pd_held_resource_on_delete E (Suc n)) rid s =
    Some (0, if k \<in> set (keys (head (hold_registry (rt_pd s)))) then rt_unhold k s else s)"
proof -
  from rt obtain e where e: "pd_component_registry_get_entry_by_id (rt_pd_id s) s = Some e"
    by (auto simp: rt_wf_def)
  have g: "pd_hold_get (rt_pd_id s) s = hold_registry (rt_pd s)" using e by (simp add: pd_hold_get_def rt_pd_def)
  show ?thesis
  proof (cases "resource_registry_get_by_id (hold_registry (rt_pd s)) k")
    case None
    then have "k \<notin> set (keys (head (hold_registry (rt_pd s))))"
      by (simp add: resource_registry_get_by_id_def HASH_FIND_None)
    then show ?thesis using None e k g
      by (simp add: pd_component_remove_resource_from_rt_def pd_delete_resource_def rid_key_def)
  next
    case (Some node)
    then have "object_id node = k" "k \<in> set (keys (head (hold_registry (rt_pd s))))"
      using HASH_FIND_Some [of "head (hold_registry (rt_pd s))" k node]
      by (auto simp: resource_registry_get_by_id_def)
    then show ?thesis using Some e k g rt_callback [OF rt]
      by (simp add: pd_component_remove_resource_from_rt_def pd_delete_resource_def rid_key_def
          resource_registry_delete_def rt_unhold_def Let_def)
  qed
qed

text \<open>The only thing that changes is the root task's hold of that resource.\<close>

lemma rt_unhold_frame:
  "world (rt_unhold k s) = world s" "mo_component (rt_unhold k s) = mo_component s"
  "ads_component (rt_unhold k s) = ads_component s" "cpu_component (rt_unhold k s) = cpu_component s"
  "ep_component (rt_unhold k s) = ep_component s" "resspc_component (rt_unhold k s) = resspc_component s"
  "rt_pd_id (rt_unhold k s) = rt_pd_id s"
  by (simp_all add: rt_unhold_def pd_hold_set_def pd_write_def entry_update_def)

lemma rt_unhold_pd:
  assumes "rt_wf s"
  shows "rt_pd (rt_unhold k s) = (rt_pd s)\<lparr>hold_registry := (hold_registry (rt_pd s))
      \<lparr>head := HASH_DEL (head (hold_registry (rt_pd s))) k\<rparr>\<rparr>"
    and "j \<noteq> rt_pd_id s \<Longrightarrow> pd_component_registry_get_entry_by_id j (rt_unhold k s) =
      pd_component_registry_get_entry_by_id j s"
    and "rt_wf (rt_unhold k s)"
proof -
  from assms obtain e where e: "pd_component_registry_get_entry_by_id (rt_pd_id s) s = Some e"
    "pd_id (pd e) = rt_pd_id s" "hold_wf (pd e)" by (auto simp: rt_wf_def)
  show "rt_pd (rt_unhold k s) = (rt_pd s)\<lparr>hold_registry := (hold_registry (rt_pd s))
      \<lparr>head := HASH_DEL (head (hold_registry (rt_pd s))) k\<rparr>\<rparr>"
    using e by (simp add: rt_pd_def rt_unhold_frame) (simp add: rt_unhold_def pd_hold_set_def pd_hold_get_def get_pd_write)
  show "j \<noteq> rt_pd_id s \<Longrightarrow> pd_component_registry_get_entry_by_id j (rt_unhold k s) =
      pd_component_registry_get_entry_by_id j s"
    by (simp add: rt_unhold_def pd_hold_set_def get_pd_write)
  have "hold_wf (pd e\<lparr>hold_registry := hold_registry (pd e)\<lparr>head := HASH_DEL (head (hold_registry (pd e))) k\<rparr>\<rparr>)"
    using e(3) HASH_DEL_subset [of "head (hold_registry (pd e))" k] registry_wf_head_del [of "hold_registry (pd e)" k]
    by (auto simp: hold_wf_def list_all_iff)
  then show "rt_wf (rt_unhold k s)"
    using e unfolding rt_wf_def rt_unhold_frame
    by (simp add: rt_unhold_def pd_hold_set_def pd_hold_get_def get_pd_write)
qed

lemma world_frame:
  "pd_component_registry_get_entry_by_id j (s\<lparr>world := w\<rparr>) = pd_component_registry_get_entry_by_id j s"
  "rt_pd (s\<lparr>world := w\<rparr>) = rt_pd s"
  by (simp_all add: rt_pd_def resource_component_registry_get_by_id_def)

subsection \<open>Memory objects\<close>

definition mo_pages_ok :: "mo_t \<Rightarrow> bool" where
  "mo_pages_ok m \<longleftrightarrow> (case vka_objects m of None \<Rightarrow> True | Some objs \<Rightarrow> unat (num_pages m) \<le> length objs)"

definition mo_frees :: "mo_t \<Rightarrow> kcall list" where
  "mo_frees m = (case vka_objects m of None \<Rightarrow> []
     | Some objs \<Rightarrow> map (\<lambda>obj. Obj (Vka_free_object obj)) (take (unat (num_pages m)) objs))"

lemma mo_destroy_frees: "mo_pages_ok m \<Longrightarrow> mo_destroy E m s = Some (s\<lparr>world := run_calls E (mo_frees m) (world s)\<rparr>)"
proof (cases "vka_objects m")
  case (Some objs)
  assume "mo_pages_ok m"
  then have l: "unat (num_pages m) \<le> length objs" using Some by (simp add: mo_pages_ok_def)
  then have "map (\<lambda>i. Obj (Vka_free_object (objs ! i))) [0..<unat (num_pages m)] = mo_frees m"
    using Some by (intro nth_equalityI) (auto simp: mo_frees_def)
  then show ?thesis using Some l by (simp add: mo_destroy_def kern_seq_world)
qed (simp add: mo_destroy_def mo_frees_def)

lemma dec_count_frame:
  "rt_wf (mo_refs.dec_count i s) = rt_wf s" "rt_pd (mo_refs.dec_count i s) = rt_pd s"
  "pd_component_registry_get_entry_by_id j (mo_refs.dec_count i s) = pd_component_registry_get_entry_by_id j s" "world (mo_refs.dec_count i s) = world s"
  "rt_pd_id (mo_refs.dec_count i s) = rt_pd_id s"
  "comp_type (mo_component (mo_refs.dec_count i s)) = comp_type (mo_component s)"
  "comp_space_id (mo_component (mo_refs.dec_count i s)) = comp_space_id (mo_component s)"
  by (simp_all add: mo_refs.dec_count_def entry_update_def rt_wf_def rt_pd_def resource_component_registry_get_by_id_def)

lemma drop_obj_frame:
  "pd_component_registry_get_entry_by_id j (mo_refs.drop_obj i s) = pd_component_registry_get_entry_by_id j s" "world (mo_refs.drop_obj i s) = world s"
  "rt_pd (mo_refs.drop_obj i s) = rt_pd s"
  by (simp_all add: mo_refs.drop_obj_def rt_pd_def resource_component_registry_get_by_id_def)

definition mo_rid :: "'w gpi_server \<Rightarrow> gpi_obj_id_t \<Rightarrow> gpi_res_id_t" where
  "mo_rid s oid = make_res_id (comp_type (mo_component s)) (comp_space_id (mo_component s)) oid"

text \<open>The last reference: the state after the callback of the registry.\<close>

lemma mo_callback:
  assumes "rt_wf s" "rid_key (mo_rid s (mo_obj_id (mo m))) = Some k" "mo_pages_ok (mo m)"
  shows "on_mo_registry_delete E (pd_held_resource_on_delete E (Suc n)) m s =
    Some ((if k \<in> set (keys (head (hold_registry (rt_pd s)))) then rt_unhold k s else s)
      \<lparr>world := run_calls E (mo_frees (mo m)) (world s)\<rparr>)"
  using remove_resource_from_rt [OF assms(1,2), of E n]
  by (simp add: on_mo_registry_delete_def resource_component_remove_from_rt_def mo_rid_def rt_unhold_frame
      mo_destroy_frees [OF assms(3)])

lemma hold_node_unhold:
  assumes "hold_wf p" "rid_key rid = Some k"
  shows "hold_node (p\<lparr>hold_registry := (hold_registry p)\<lparr>head := HASH_DEL (head (hold_registry p)) k\<rparr>\<rparr>) rid' =
    (if rid' = rid then None else hold_node p rid')"
  using assms rid_key_inj [of rid k rid'] wf_distinct [of "hold_registry p"]
  by (cases "rid_key rid'") (auto simp: hold_node_def resource_registry_get_by_id_def HASH_FIND_DEL hold_wf_def)

lemma rt_hold_wf: "rt_wf s \<Longrightarrow> hold_wf (rt_pd s)"
  by (auto simp: rt_wf_def rt_pd_def)

definition mo_ready :: "'w gpi_server \<Rightarrow> gpi_obj_id_t \<Rightarrow> mo_component_registry_entry_t \<Rightarrow> bool" where
  "mo_ready s oid m \<longleftrightarrow> rt_wf s \<and> registry_wf (registry (mo_component s)) \<and>
     resource_component_registry_get_by_id mo_component oid s = Some m \<and> mo_obj_id (mo m) = oid \<and>
     mo_pages_ok (mo m) \<and> rid_key (mo_rid s oid) \<noteq> None"

lemma mo_dec_shared:
  assumes "mo_ready s oid m" "count m \<noteq> 1"
  shows "\<exists>s'. mo_dec E (pd_held_resource_on_delete E (Suc n)) oid s = Some (0, s') \<and>
    resource_component_registry_get_by_id mo_component oid s' = Some (m\<lparr>count := count m - 1\<rparr>) \<and> world s' = world s \<and> rt_pd s' = rt_pd s \<and>
    (\<forall>j. j \<noteq> oid \<longrightarrow> resource_component_registry_get_by_id mo_component j s' = resource_component_registry_get_by_id mo_component j s) \<and>
    (\<forall>p. pd_component_registry_get_entry_by_id p s' = pd_component_registry_get_entry_by_id p s)"
proof -
  have g: "resource_component_registry_get_by_id mo_component oid s = Some m" using assms(1) by (simp add: mo_ready_def)
  then show ?thesis using mo_refs.dec_found [OF g, of "on_mo_registry_delete E (pd_held_resource_on_delete E (Suc n))"] assms(2)
    by (auto simp: mo_dec_def mo_refs.get_dec_count dec_count_frame)
qed

text \<open>The state in which the callback of the last reference leaves the server.\<close>

definition mo_freed :: "'w env \<Rightarrow> u64 \<Rightarrow> gpi_obj_id_t \<Rightarrow> mo_t \<Rightarrow> 'w gpi_server \<Rightarrow> 'w gpi_server" where
  "mo_freed E k oid x s = (let t = mo_refs.dec_count oid s in
     (if k \<in> set (keys (head (hold_registry (rt_pd t)))) then rt_unhold k t else t)\<lparr>world := run_calls E (mo_frees x) (world t)\<rparr>)"

lemma mo_freed_frame:
  assumes "rt_wf s" "rid_key (mo_rid s oid) = Some k"
  shows "mo_component (mo_freed E k oid x s) = mo_component (mo_refs.dec_count oid s)"
    and "world (mo_freed E k oid x s) = run_calls E (mo_frees x) (world s)"
    and "hold_node (rt_pd (mo_freed E k oid x s)) rid = (if rid = mo_rid s oid then None else hold_node (rt_pd s) rid)"
    and "p \<noteq> rt_pd_id s \<Longrightarrow> pd_component_registry_get_entry_by_id p (mo_freed E k oid x s) = pd_component_registry_get_entry_by_id p s"
proof -
  have rt: "rt_wf (mo_refs.dec_count oid s)" using assms(1) by (simp add: dec_count_frame)
  show "mo_component (mo_freed E k oid x s) = mo_component (mo_refs.dec_count oid s)" by (simp add: mo_freed_def Let_def rt_unhold_frame)
  show "world (mo_freed E k oid x s) = run_calls E (mo_frees x) (world s)" by (simp add: mo_freed_def Let_def dec_count_frame)
  show "p \<noteq> rt_pd_id s \<Longrightarrow> pd_component_registry_get_entry_by_id p (mo_freed E k oid x s) = pd_component_registry_get_entry_by_id p s"
    using rt_unhold_pd(2) [OF rt, of p k] by (auto simp: mo_freed_def Let_def world_frame dec_count_frame)
  show "hold_node (rt_pd (mo_freed E k oid x s)) rid = (if rid = mo_rid s oid then None else hold_node (rt_pd s) rid)"
  proof (cases "k \<in> set (keys (head (hold_registry (rt_pd s))))")
    case True
    then show ?thesis using hold_node_unhold [OF rt_hold_wf [OF assms(1)] assms(2), of rid]
      by (simp add: mo_freed_def Let_def world_frame rt_unhold_pd(1) [OF rt] dec_count_frame)
  next
    case False
    then have "hold_node (rt_pd s) (mo_rid s oid) = None"
      using assms(2) by (simp add: hold_node_def resource_registry_get_by_id_def HASH_FIND_None)
    then show ?thesis using False by (auto simp: mo_freed_def Let_def world_frame dec_count_frame)
  qed
qed

lemma mo_dec_last:
  assumes ready: "mo_ready s oid m" and k: "rid_key (mo_rid s oid) = Some k" and last: "count m = 1"
  shows "mo_dec E (pd_held_resource_on_delete E (Suc n)) oid s = Some (0, mo_refs.drop_obj oid (mo_freed E k oid (mo m) s))"
    and "resource_component_registry_get_by_id mo_component j (mo_refs.drop_obj oid (mo_freed E k oid (mo m) s)) =
      (if j = oid then None else resource_component_registry_get_by_id mo_component j s)"
proof -
  let ?od = "pd_held_resource_on_delete E (Suc n)" and ?t = "mo_refs.dec_count oid s" and ?u = "mo_freed E k oid (mo m) s"
  note r = ready [unfolded mo_ready_def]
  have g: "resource_component_registry_get_by_id mo_component oid s = Some m" using r by simp
  have rt: "rt_wf ?t" "rt_wf s" using r by (simp_all add: dec_count_frame)
  have "rid_key (mo_rid ?t (mo_obj_id (mo (m\<lparr>count := 0\<rparr>)))) = Some k" using k r by (simp add: mo_rid_def dec_count_frame)
  from mo_callback [OF rt(1) this] r have "on_mo_registry_delete E ?od (m\<lparr>count := 0\<rparr>) ?t = Some ?u" by (simp add: mo_freed_def Let_def)
  then show "mo_dec E ?od oid s = Some (0, mo_refs.drop_obj oid ?u)"
    using mo_refs.dec_found [OF g, of "on_mo_registry_delete E ?od"] last by (simp add: mo_dec_def)
  note mo_u = mo_freed_frame(1) [OF rt(2) k, of E "mo m"]
  have "mo_refs.obj_wf ?t" using mo_refs.wf_dec_count [of s oid] r by (simp add: mo_refs.obj_wf_def)
  then have "mo_refs.obj_wf ?u" using mo_u by (simp add: mo_refs.obj_wf_def)
  moreover have "resource_component_registry_get_by_id mo_component j ?u = resource_component_registry_get_by_id mo_component j ?t"
    using mo_u by (simp add: resource_component_registry_get_by_id_def)
  ultimately show "resource_component_registry_get_by_id mo_component j (mo_refs.drop_obj oid ?u) =
      (if j = oid then None else resource_component_registry_get_by_id mo_component j s)"
    by (simp add: mo_refs.get_drop_obj mo_refs.get_dec_count)
qed

text \<open>The frame of a release. Of the server only the world and the entries of the registries of memory objects and of PDs
  change; and of the root task's entry only the entries of its hold registry.\<close>

definition only_entries :: "'w gpi_server \<Rightarrow> 'w gpi_server \<Rightarrow> bool" where
  "only_entries s s' \<longleftrightarrow> s' = s\<lparr>world := world s',
     mo_component := (mo_component s)\<lparr>registry := (registry (mo_component s))\<lparr>head := head (registry (mo_component s'))\<rparr>\<rparr>,
     pd_component := (pd_component s)\<lparr>registry := (registry (pd_component s))\<lparr>head := head (registry (pd_component s'))\<rparr>\<rparr>\<rparr>"

definition only_holds :: "pd_component_registry_entry_t \<Rightarrow> pd_component_registry_entry_t \<Rightarrow> bool" where
  "only_holds e e' \<longleftrightarrow> e' = e\<lparr>pd := (pd e)\<lparr>hold_registry := (hold_registry (pd e))\<lparr>head := head (hold_registry (pd e'))\<rparr>\<rparr>\<rparr>"

lemma only_entries_dec_count: "only_entries s (mo_refs.dec_count i s)"
  unfolding only_entries_def by (rule gpi_server.equality) (simp_all add: mo_refs.dec_count_def entry_update_def)

lemma only_entries_freed: "only_entries s (mo_refs.drop_obj oid (mo_freed E k oid x s))"
  unfolding only_entries_def
  by (rule gpi_server.equality)
    (simp_all add: mo_refs.drop_obj_def mo_freed_def Let_def mo_refs.dec_count_def entry_update_def rt_unhold_def pd_hold_set_def pd_write_def)

lemma only_holds_freed:
  assumes "pd_component_registry_get_entry_by_id (rt_pd_id s) s = Some e"
  shows "\<exists>e'. pd_component_registry_get_entry_by_id (rt_pd_id s) (mo_refs.drop_obj oid (mo_freed E k oid x s)) = Some e' \<and> only_holds e e'"
  using assms
  by (simp add: drop_obj_frame mo_freed_def Let_def world_frame dec_count_frame rt_unhold_def pd_hold_set_def pd_hold_get_def get_pd_write only_holds_def)

text \<open>
  C17: giving back a reference on a memory object always returns. If it was not the last one, the
  count of the object is decremented and nothing else of the server changes. The last one removes the
  object from its registry and from the root task and frees exactly the frames of the object, each once and in
  order. In both cases no other memory object, no other hold of the root task and no other PD changes; of the
  root task's PD nothing but its holds changes, and nothing else of the server: the other components, the other
  fields of these two and the fields of the context are the same. (The server is well formed: the root task's PD and the
  object are registered, the object has its frames and its resource ID can be made a badge.)
\<close>

theorem mo_dec_releases:
  assumes ready: "mo_ready s oid m"
  shows "\<exists>s'. mo_dec E (pd_held_resource_on_delete E (Suc n)) oid s = Some (0, s') \<and>
    (if count m = 1
     then resource_component_registry_get_by_id mo_component oid s' = None \<and>
       world s' = run_calls E (mo_frees (mo m)) (world s) \<and> hold_node (rt_pd s') (mo_rid s oid) = None
     else resource_component_registry_get_by_id mo_component oid s' = Some (m\<lparr>count := count m - 1\<rparr>) \<and>
       world s' = world s \<and> pd_component s' = pd_component s) \<and>
    (\<forall>j. j \<noteq> oid \<longrightarrow> resource_component_registry_get_by_id mo_component j s' =
       resource_component_registry_get_by_id mo_component j s) \<and>
    (\<forall>rid. rid \<noteq> mo_rid s oid \<longrightarrow> hold_node (rt_pd s') rid = hold_node (rt_pd s) rid) \<and>
    (\<forall>p. p \<noteq> rt_pd_id s \<longrightarrow> pd_component_registry_get_entry_by_id p s' = pd_component_registry_get_entry_by_id p s) \<and>
    (\<exists>e e'. pd_component_registry_get_entry_by_id (rt_pd_id s) s = Some e \<and>
       pd_component_registry_get_entry_by_id (rt_pd_id s) s' = Some e' \<and> only_holds e e') \<and>
    only_entries s s'"
proof -
  obtain e where e: "pd_component_registry_get_entry_by_id (rt_pd_id s) s = Some e"
    using ready by (auto simp: mo_ready_def rt_wf_def)
  show ?thesis
  proof (cases "count m = 1")
    case False
    have g: "resource_component_registry_get_by_id mo_component oid s = Some m" using ready by (simp add: mo_ready_def)
    have "mo_dec E (pd_held_resource_on_delete E (Suc n)) oid s = Some (0, mo_refs.dec_count oid s)"
      using mo_refs.dec_found [OF g, of "on_mo_registry_delete E (pd_held_resource_on_delete E (Suc n))"] False by (simp add: mo_dec_def)
    moreover have "pd_component (mo_refs.dec_count oid s) = pd_component s"
      by (simp add: mo_refs.dec_count_def entry_update_def)
    ultimately show ?thesis using False g e only_entries_dec_count [of s oid]
      by (simp add: mo_refs.get_dec_count dec_count_frame) (simp add: only_holds_def)
  next
    case True
    obtain k where k: "rid_key (mo_rid s oid) = Some k" using ready by (auto simp: mo_ready_def)
    have rt: "rt_wf s" using ready by (simp add: mo_ready_def)
    show ?thesis unfolding mo_dec_last(1) [OF ready k True]
      using True mo_dec_last(2) [OF ready k True, where E = E] mo_freed_frame [OF rt k, where E = E and x = "mo m"]
        only_entries_freed [of s oid E k "mo m"] only_holds_freed [OF e, of oid E k "mo m"] e
      by (simp add: drop_obj_frame)
  qed
qed

text \<open>The witness: memory object 7 has two frames and one reference.\<close>

definition mo_entry :: "gpi_obj_id_t \<Rightarrow> u32 \<Rightarrow> cptr list \<Rightarrow> mo_component_registry_entry_t" where
  "mo_entry i c frames = \<lparr>object_id = ucast i, count = c, mo = \<lparr>mo_obj_id = i, frame_caps_in_root_task = frames,
     frame_paddrs = frames, vka_objects = Some frames, num_pages = of_nat (length frames), mo_page_bits = 12\<rparr>\<rparr>"

definition mo_server :: "kcall list gpi_server" where
  "mo_server = (server_with [pd_entry 2 (\<lambda>p. p)])\<lparr>mo_component := (started_component GPICAP_TYPE_MO 4)
     \<lparr>registry := (resource_registry_initialize 0xFFFFE)\<lparr>head := [mo_entry 7 1 [100, 101]]\<rparr>\<rparr>\<rparr>"

lemma mo_server_ready: "mo_ready mo_server 7 (mo_entry 7 1 [100, 101])"
proof -
  have "hold_wf (pd (pd_entry 0 (\<lambda>p. p)))"
    by (simp add: hold_wf_def pd_entry_def resource_registry_initialize_def registry_wf_def badge_const_defs)
  moreover have "rid_key (mo_rid mo_server 7) = Some 216177180160294919" by code_simp
  ultimately show ?thesis
    by (simp add: mo_ready_def rt_wf_def mo_server_def server_with_def resource_component_registry_get_by_id_def
        resource_registry_get_by_id_def registry_wf_def resource_registry_initialize_def mo_pages_ok_def badge_const_defs)
      (simp add: pd_entry_def mo_entry_def)
qed

theorem mo_dec_releases_witness:
  "\<exists>s'. mo_dec trace_env (pd_held_resource_on_delete trace_env 1) 7 mo_server = Some (0, s') \<and>
     resource_component_registry_get_by_id mo_component 7 s' = None \<and>
     world s' = [Obj (Vka_free_object 100), Obj (Vka_free_object 101)] \<and> only_entries mo_server s'"
  using mo_dec_releases [OF mo_server_ready, of trace_env 0]
  by (auto simp: mo_entry_def mo_frees_def mo_server_def server_with_def)

end
