(* ===== verification/Mo_Sharing.thy ===== *)
theory Mo_Sharing
  imports Mo_Release Pd_Component
begin

section \<open>Sharing memory objects\<close>

text \<open>
  Sending a capability takes a reference on the object and adds a hold to the receiving PD. The
  theorem follows a memory object that is sent to the same PD twice, through the destruction of that
  PD: the second reference is never given back.
\<close>

subsection \<open>Sending a memory object\<close>

text \<open>Adding a resource by way of a badged capability: only the hold registry changes.\<close>

lemma badge_and_add_effect:
  assumes wf: "hold_wf p" and k: "rid_key rid = Some k"
    and ret: "pd_badge_and_add_resource E rid raw p w = Some ((0, d), p', w')"
  shows "hold_wf p' \<and> p' = p\<lparr>hold_registry := hold_registry p'\<rparr> \<and>
    keys (head (hold_registry p')) =
      (if hold_node p rid = None then keys (head (hold_registry p)) @ [k] else keys (head (hold_registry p))) \<and>
    res_id (hd (head (hold_registry p'))) = (if hold_node p rid = None \<and> head (hold_registry p) = [] then rid else res_id (hd (head (hold_registry p))))"
proof (cases "hold_node p rid")
  case (Some n)
  have g: "pd_get_resource rid p = Some (Some n)" using pd_get_resource_hold_node [OF k] Some by simp
  have p': "p' = p\<lparr>hold_registry := resource_registry_inc (hold_registry p) k\<rparr>"
    using ret g add_resource_again [OF k Some, of E 0 0 0 w] by (auto simp: pd_badge_and_add_resource_def)
  have h: "res_id (hd (node_update (\<lambda>n. n\<lparr>count := count n + 1\<rparr>) tbl k)) = res_id (hd tbl)" for tbl :: "pd_hold_node_t list"
    by (cases tbl) auto
  show ?thesis unfolding p' using hold_wf_inc [OF wf, of k] Some h
    by (simp add: resource_registry_inc_def keys_node_update)
next
  case None
  have g: "pd_get_resource rid p = Some None" using pd_get_resource_hold_node [OF k] None by simp
  have p': "p' = p\<lparr>hold_registry := (hold_registry p)\<lparr>head := head (hold_registry p) @ [new_hold k rid 0 d 0]\<rparr>\<rparr>"
    using ret g
    by (auto simp: pd_badge_and_add_resource_def bind_eq_Some_conv PdComponentError_UNKNOWN_def Let_def
        add_resource_new [OF wf k None] case_prod_unfold split: if_splits)
  show ?thesis unfolding p' using hold_wf_new [OF wf k None, of 0 d 0] None
    by (auto simp: hd_append)
qed

text \<open>The state after a send: one more reference, and the new contents of the PD.\<close>

definition sent :: "gpi_obj_id_t \<Rightarrow> pd_t \<Rightarrow> 'w \<Rightarrow> gpi_obj_id_t \<Rightarrow> 'w gpi_server \<Rightarrow> 'w gpi_server" where
  "sent p q w oid s = (pd_write p (\<lambda>_. q) (entry_update mo_component_update (\<lambda>n. n\<lparr>count := count n + 1\<rparr>) oid s))\<lparr>world := w\<rparr>"

lemma send_mo_effect:
  assumes b: "get_cap_type_from_badge b = GPICAP_TYPE_MO"
    and m: "resource_component_registry_get_by_id mo_component (get_object_id_from_badge b) s = Some m"
    and e: "pd_component_registry_get_entry_by_id p s = Some e" "hold_wf (pd e)"
    and rid: "rid = make_res_id GPICAP_TYPE_MO (get_space_id_from_badge b) (get_object_id_from_badge b)" "rid_key rid = Some k"
    and ret: "pd_send_cap E od p from slot cap b True False s = Some (0, ns, pend, s')"
  shows "\<exists>p' w'. s' = sent p p' w' (get_object_id_from_badge b) s \<and>
    hold_wf p' \<and> p' = (pd e)\<lparr>hold_registry := hold_registry p'\<rparr> \<and>
    keys (head (hold_registry p')) =
      (if hold_node (pd e) rid = None then keys (head (hold_registry (pd e))) @ [k] else keys (head (hold_registry (pd e)))) \<and>
    res_id (hd (head (hold_registry p'))) =
      (if hold_node (pd e) rid = None \<and> head (hold_registry (pd e)) = [] then rid else res_id (hd (head (hold_registry (pd e)))))"
proof -
  let ?s = "entry_update mo_component_update (\<lambda>n. n\<lparr>count := count n + 1\<rparr>) (get_object_id_from_badge b) s"
  have src: "send_cap_source E p from slot b True s = Some (0, Some (server_ep (mo_component s)), False, ?s)"
    using mo_refs.inc_found [OF m] b by (simp add: send_cap_source_def component_inc_def Let_def cap_type_defs)
  have e': "pd_component_registry_get_entry_by_id p ?s = Some e"
    using e(1) by (simp add: entry_update_def resource_component_registry_get_by_id_def)
  obtain d p' w' where a: "pd_badge_and_add_resource E rid (server_ep (mo_component s)) (pd e) (world ?s) = Some ((0, d), p', w')"
    and s': "s' = (pd_write p (\<lambda>_. p') ?s)\<lparr>world := w'\<rparr>"
    using ret b e' unfolding pd_send_cap_def src rid(1)
    by (auto simp: on_pd_def bind_eq_Some_conv PdComponentError_UNKNOWN_def Let_def split: if_splits)
  show ?thesis using s' badge_and_add_effect [OF e(2) rid(2) a] unfolding sent_def by blast
qed

text \<open>Releasing the only hold of a PD that is being destroyed, when it is a memory object.\<close>

lemma destroy_single_mo_hold:
  assumes hd: "head (pd_hold_get p s) = [node]" and e: "pd_component_registry_get_entry_by_id p s = Some e"
    and p: "pd_id (pd e) \<noteq> rt_pd_id s" "to_delete (pd e)"
    and t: "res_type (res_id node) = GPICAP_TYPE_MO" "res_object_id (res_id node) = oid"
    and dec: "mo_dec E (pd_held_resource_on_delete E n) oid s = Some (0, s')" "pd_hold_get p s' = pd_hold_get p s"
  shows "pd_destroy_holds (pd_held_resource_on_delete E (Suc n)) p s =
    Some (pd_hold_set p ((pd_hold_get p s)\<lparr>head := []\<rparr>) s')"
proof -
  have "pd_held_resource_on_delete E (Suc n) p node s = Some s'"
    using e p t dec(1) by (simp add: held_resource_on_delete_body_def cap_type_defs)
  then show ?thesis
    using hd dec(2) by (simp add: pd_destroy_holds_def HASH_ITER_def hold_keys_def resource_registry_get_by_id_def
        resource_registry_delete_def Let_def del: pd_held_resource_on_delete.simps)
qed

lemma mo_entry_update_frame:
  "rt_pd_id (entry_update mo_component_update f i s) = rt_pd_id s"
  "pd_component_registry_get_entry_by_id j (entry_update mo_component_update f i s) = pd_component_registry_get_entry_by_id j s"
  "world (entry_update mo_component_update f i s) = world s"
  by (simp_all add: entry_update_def resource_component_registry_get_by_id_def)

lemma pd_write_frame:
  "rt_pd_id (pd_write p f s) = rt_pd_id s" "mo_component (pd_write p f s) = mo_component s"
  by (simp_all add: pd_write_def entry_update_def)

text \<open>A send leaves a memory object ready to be released.\<close>

lemma rt_wf_other:
  assumes "rt_pd_id t = rt_pd_id s"
    "pd_component_registry_get_entry_by_id (rt_pd_id s) t = pd_component_registry_get_entry_by_id (rt_pd_id s) s"
  shows "rt_wf t = rt_wf s"
  using assms by (simp add: rt_wf_def)

lemma sent_frame:
  "rt_pd_id (sent p q w oid s) = rt_pd_id s"
  "pd_component_registry_get_entry_by_id j (sent p q w oid s) =
     (if j = p then map_option (\<lambda>e. e\<lparr>pd := q\<rparr>) (pd_component_registry_get_entry_by_id p s)
      else pd_component_registry_get_entry_by_id j s)"
  "mo_rid (sent p q w oid s) i = mo_rid s i"
  by (simp_all add: sent_def pd_write_frame mo_entry_update_frame world_frame get_pd_write mo_rid_def)
    (simp_all add: entry_update_def)

lemma mo_ready_sent:
  "mo_ready s oid m \<Longrightarrow> p \<noteq> rt_pd_id s \<Longrightarrow> mo_ready (sent p q w oid s) oid (m\<lparr>count := count m + 1\<rparr>)"
  using rt_wf_other [of "sent p q w oid s" s] mo_refs.get_entry_update [of "\<lambda>n. n\<lparr>count := count n + 1\<rparr>" oid oid s]
  by (auto simp: mo_ready_def sent_frame)
    (auto simp: sent_def pd_write_frame resource_component_registry_get_by_id_def entry_update_def registry_wf_head_update)

lemma mo_ready_pd_write:
  "mo_ready s oid m \<Longrightarrow> p \<noteq> rt_pd_id s \<Longrightarrow> mo_ready (pd_write p f s) oid m"
  using rt_wf_other [of "pd_write p f s" s] get_pd_write [of "rt_pd_id s" p f s]
  by (auto simp: mo_ready_def pd_write_frame mo_rid_def resource_component_registry_get_by_id_def)

lemma two_sends:
  assumes ready: "mo_ready s oid m" and type: "comp_type (mo_component s) = GPICAP_TYPE_MO"
    and pd: "pd_component_registry_get_entry_by_id p s = Some e" "pd_id (pd e) = p" "p \<noteq> rt_pd_id s"
      "hold_wf (pd e)" "head (hold_registry (pd e)) = []"
    and b: "get_cap_type_from_badge b = GPICAP_TYPE_MO" "get_object_id_from_badge b = oid"
      "get_space_id_from_badge b = comp_space_id (mo_component s)"
    and send1: "pd_send_cap E od p from slot cap b True False s = Some (0, ns1, x1, s1)"
    and send2: "pd_send_cap E od p from slot cap b True False s1 = Some (0, ns2, x2, s2)"
  defines "rid \<equiv> make_res_id GPICAP_TYPE_MO (get_space_id_from_badge b) (get_object_id_from_badge b)"
  shows "\<exists>q k. mo_ready s2 oid (m\<lparr>count := count m + 2\<rparr>) \<and> pd_component_registry_get_entry_by_id p s2 = Some (e\<lparr>pd := q\<rparr>) \<and> pd_id q = p \<and>
    rt_pd_id s2 = rt_pd_id s \<and> keys (head (hold_registry q)) = [k] \<and> res_id (hd (head (hold_registry q))) = rid"
proof -
  note rid_eq = rid_def
  have rid_s: "rid = mo_rid s oid" using b type by (simp add: rid_def mo_rid_def)
  then obtain k where k: "rid_key rid = Some k" using ready by (auto simp: mo_ready_def)
  have m0: "resource_component_registry_get_by_id mo_component (get_object_id_from_badge b) s = Some m"
    using ready b(2) by (simp add: mo_ready_def)
  have "hold_node (pd e) rid = None" using pd(5) k by (simp add: hold_node_def resource_registry_get_by_id_def)
  then obtain p1 w1 where s1: "s1 = sent p p1 w1 oid s" "hold_wf p1" "p1 = (pd e)\<lparr>hold_registry := hold_registry p1\<rparr>"
    "keys (head (hold_registry p1)) = [k]" "res_id (hd (head (hold_registry p1))) = rid"
    using send_mo_effect [OF b(1) m0 pd(1,4) rid_eq [THEN meta_eq_to_obj_eq] k send1] unfolding b(2) pd(5) by auto
  have e1: "pd_component_registry_get_entry_by_id p s1 = Some (e\<lparr>pd := p1\<rparr>)" using pd(1) by (simp add: s1(1) sent_frame)
  have r1: "mo_ready s1 oid (m\<lparr>count := count m + 1\<rparr>)" unfolding s1(1) by (rule mo_ready_sent [OF ready pd(3)])
  then have m1: "resource_component_registry_get_by_id mo_component (get_object_id_from_badge b) s1 = Some (m\<lparr>count := count m + 1\<rparr>)"
    using b(2) by (simp add: mo_ready_def)
  have wf1: "hold_wf (pd (e\<lparr>pd := p1\<rparr>))" using s1(2) by simp
  have "k \<in> set (keys (head (hold_registry p1)))" using s1(4) by simp
  then have "hold_node (pd (e\<lparr>pd := p1\<rparr>)) rid \<noteq> None"
    using k by (simp add: hold_node_def resource_registry_get_by_id_def HASH_FIND_None)
  then obtain p2 w2 where s2: "s2 = sent p p2 w2 oid s1" "hold_wf p2" "p2 = p1\<lparr>hold_registry := hold_registry p2\<rparr>"
    "keys (head (hold_registry p2)) = [k]" "res_id (hd (head (hold_registry p2))) = rid"
    using send_mo_effect [OF b(1) m1 e1 wf1 rid_eq [THEN meta_eq_to_obj_eq] k send2] s1(4,5) unfolding b(2) by auto
  have "mo_ready s2 oid (m\<lparr>count := count m + 2\<rparr>)"
    unfolding s2(1) using mo_ready_sent [OF r1, of p p2 w2] pd(3) by (simp add: s1(1) sent_frame add.assoc)
  moreover have "pd_component_registry_get_entry_by_id p s2 = Some (e\<lparr>pd := p2\<rparr>)" using e1 by (simp add: s2(1) sent_frame)
  moreover have "pd_id p2 = p"
    using arg_cong [OF s2(3), of pd_id] arg_cong [OF s1(3), of pd_id] pd(2) by simp
  moreover have "rt_pd_id s2 = rt_pd_id s" by (simp add: s2(1) s1(1) sent_frame)
  ultimately show ?thesis using s2(4,5) by auto
qed

text \<open>
  C35: a memory object that was sent twice to a PD is not released with the PD. Both sends take a
  reference (and return 0), the PD has one hold with count 2, and destroying the holds gives back a
  single reference: the PD is left with no hold and the object with one reference more than before.
\<close>

theorem mo_sent_twice_leaks:
  assumes ready: "mo_ready s oid m" and type: "comp_type (mo_component s) = GPICAP_TYPE_MO"
    and pd: "pd_component_registry_get_entry_by_id p s = Some e" "pd_id (pd e) = p" "p \<noteq> rt_pd_id s"
      "hold_wf (pd e)" "head (hold_registry (pd e)) = []"
    and b: "get_cap_type_from_badge b = GPICAP_TYPE_MO" "get_object_id_from_badge b = oid"
      "get_space_id_from_badge b = comp_space_id (mo_component s)"
    and few: "count m + 1 \<noteq> 0"
    and send1: "pd_send_cap E od p from slot cap b True False s = Some (0, ns1, x1, s1)"
    and send2: "pd_send_cap E od p from slot cap b True False s1 = Some (0, ns2, x2, s2)"
  shows "\<exists>s3. pd_destroy_holds (pd_held_resource_on_delete E (Suc (Suc n))) p (pd_write p (\<lambda>q. q\<lparr>to_delete := True\<rparr>) s2) = Some s3 \<and>
    resource_component_registry_get_by_id mo_component oid s3 = Some (m\<lparr>count := count m + 1\<rparr>) \<and>
    head (pd_hold_get p s3) = []"
proof -
  let ?s = "pd_write p (\<lambda>q. q\<lparr>to_delete := True\<rparr>) s2"
  from two_sends [OF ready type pd b send1 send2] obtain p2 k where
    r2: "mo_ready s2 oid (m\<lparr>count := count m + 2\<rparr>)" "pd_component_registry_get_entry_by_id p s2 = Some (e\<lparr>pd := p2\<rparr>)" "pd_id p2 = p"
    and rt: "rt_pd_id s2 = rt_pd_id s"
    and one: "keys (head (hold_registry p2)) = [k]"
      "res_id (hd (head (hold_registry p2))) = make_res_id GPICAP_TYPE_MO (get_space_id_from_badge b) (get_object_id_from_badge b)" by auto
  have r3: "mo_ready ?s oid (m\<lparr>count := count m + 2\<rparr>)" using mo_ready_pd_write [OF r2(1)] pd(3) rt by simp
  have e3: "pd_component_registry_get_entry_by_id p ?s = Some (e\<lparr>pd := p2\<lparr>to_delete := True\<rparr>\<rparr>)" using r2(2) by (simp add: get_pd_write)
  have id: "pd_id p2 \<noteq> rt_pd_id ?s" using r2(3) pd(3) rt by (simp add: pd_write_frame)
  have "count m + 1 = (count m + 2) - 1" by simp
  then have c: "count m + 2 \<noteq> 1" using few by (auto simp: add.commute)
  from mo_dec_shared [OF r3, of E n] c obtain s4 where
    d: "mo_dec E (pd_held_resource_on_delete E (Suc n)) oid ?s = Some (0, s4)"
      "resource_component_registry_get_by_id mo_component oid s4 = Some (m\<lparr>count := count m + 1\<rparr>)"
      "pd_component_registry_get_entry_by_id p s4 = pd_component_registry_get_entry_by_id p ?s"
    by auto
  have e4: "pd_component_registry_get_entry_by_id p s4 = Some (e\<lparr>pd := p2\<lparr>to_delete := True\<rparr>\<rparr>)"
    using d(3) e3 by simp
  obtain node where node: "head (pd_hold_get p ?s) = [node]" "res_id node = make_res_id GPICAP_TYPE_MO (get_space_id_from_badge b) (get_object_id_from_badge b)"
    using one e3 by (auto simp: pd_hold_get_def)
  have "pd_hold_get p s4 = pd_hold_get p ?s" using d(3) by (simp add: pd_hold_get_def)
  then have "pd_destroy_holds (pd_held_resource_on_delete E (Suc (Suc n))) p ?s =
      Some (pd_hold_set p ((pd_hold_get p ?s)\<lparr>head := []\<rparr>) s4)"
    using node(2) id b(2) d(1)
    by (intro destroy_single_mo_hold [OF node(1) e3]) (simp_all add: make_res_id_def)
  moreover have "resource_component_registry_get_by_id mo_component oid (pd_hold_set p r s4) =
      Some (m\<lparr>count := count m + 1\<rparr>)" for r
    using d(2) by (simp add: pd_hold_set_def pd_write_frame resource_component_registry_get_by_id_def)
  moreover have "head (pd_hold_get p (pd_hold_set p (r\<lparr>head := []\<rparr>) s4)) = []" for r
    using e4 by (simp add: pd_hold_set_def pd_hold_get_def get_pd_write)
  ultimately show ?thesis by blast
qed

theorem mo_sent_twice_leaks_witness:
  "\<exists>s1 s2 s3 ns1 ns2. pd_send_cap trace_env (\<lambda>_ _ s. Some s) 2 None 0 0 216177180160294919 True False mo_server = Some (0, ns1, False, s1) \<and>
     pd_send_cap trace_env (\<lambda>_ _ s. Some s) 2 None 0 0 216177180160294919 True False s1 = Some (0, ns2, False, s2) \<and>
     pd_destroy_holds (pd_held_resource_on_delete trace_env 2) 2 (pd_write 2 (\<lambda>q. q\<lparr>to_delete := True\<rparr>) s2) = Some s3 \<and>
     resource_component_registry_get_by_id mo_component 7 s3 = Some (mo_entry 7 2 [100, 101])"
proof -
  let ?send = "pd_send_cap trace_env (\<lambda>_ _ s. Some s) 2 None 0 0 216177180160294919 True False"
  have 1: "map_option (\<lambda>(e, ns, x, s). (e, x)) (?send mo_server) = Some (0, False)" by code_simp
  have 2: "map_option (\<lambda>(e, ns, x, s). (e, x)) (Option.bind (?send mo_server) (\<lambda>(e, ns, x, s). ?send s)) = Some (0, False)" by code_simp
  from 1 obtain ns1 s1 where s1: "?send mo_server = Some (0, ns1, False, s1)" by auto
  from 2 s1 obtain ns2 s2 where s2: "?send s1 = Some (0, ns2, False, s2)" by auto
  let ?b = "216177180160294919 :: u64" and ?e = "pd_entry 2 (\<lambda>p. p)"
  have e: "pd_component_registry_get_entry_by_id 2 mo_server = Some ?e"
    by (simp add: mo_server_def server_with_def resource_component_registry_get_by_id_def resource_registry_get_by_id_def)
      (simp add: pd_entry_def)
  have pd: "pd_id (pd ?e) = 2" "2 \<noteq> rt_pd_id mo_server" "hold_wf (pd ?e)" "head (hold_registry (pd ?e)) = []"
    by (simp_all add: hold_wf_def pd_entry_def resource_registry_initialize_def registry_wf_def badge_const_defs
        mo_server_def server_with_def)
  have b: "get_cap_type_from_badge ?b = GPICAP_TYPE_MO" "get_object_id_from_badge ?b = 7"
    "get_space_id_from_badge ?b = comp_space_id (mo_component mo_server)" "comp_type (mo_component mo_server) = GPICAP_TYPE_MO"
    "count (mo_entry 7 1 [100, 101]) + 1 \<noteq> 0" by code_simp+
  obtain s3 where "pd_destroy_holds (pd_held_resource_on_delete trace_env (Suc (Suc 0))) 2 (pd_write 2 (\<lambda>q. q\<lparr>to_delete := True\<rparr>) s2) = Some s3"
     "resource_component_registry_get_by_id mo_component 7 s3 = Some ((mo_entry 7 1 [100, 101])\<lparr>count := count (mo_entry 7 1 [100, 101]) + 1\<rparr>)"
    using mo_sent_twice_leaks [OF mo_server_ready b(4) e pd b(1-3,5) s1 s2, of 0] by blast
  moreover have "(mo_entry 7 1 [100, 101])\<lparr>count := count (mo_entry 7 1 [100, 101]) + 1\<rparr> = mo_entry 7 2 [100, 101]"
    by (simp add: mo_entry_def)
  ultimately show ?thesis unfolding numeral_2_eq_2 using s1 s2 by auto
qed

end
