(* ===== verification/Termination.thy ===== *)
theory Termination
  imports Component_Refs Pd_Component
begin

section \<open>Waiting for resource servers\<close>

text \<open>
  Terminating a PD may leave work for resource servers: freeing resources and destroying spaces. The
  request is answered when all of it has been reported as finished. The root task keeps one counter
  of missing pieces; the pieces themselves are in the work queues of the PDs, and once a server has
  fetched them, nowhere.

  The step relation has the operations that touch the counter or the queues, as the handlers of the
  sources perform them, together with the number of pieces that servers have fetched and not yet
  reported. The invariant is that the counter is the number of critical pieces in the queues plus
  that number.
\<close>

subsection \<open>Critical work in the queues\<close>

definition crit_of :: "pd_work_entry_t list option \<Rightarrow> int" where
  "crit_of q = (case q of None \<Rightarrow> 0 | Some xs \<Rightarrow> critical_count xs)"

definition crit :: "pd_component_registry_entry_t \<Rightarrow> int" where
  "crit e = crit_of (pending_work e FREE) + crit_of (pending_work e DESTROY)"

definition queued_critical :: "'w gpi_server \<Rightarrow> int" where
  "queued_critical s = sum_list (map crit (head (registry (pd_component s))))"

lemma crit_nonneg: "0 \<le> crit e"
  by (simp add: crit_def crit_of_def critical_count_def split: option.split)

lemma queued_nonneg: "0 \<le> queued_critical s"
  unfolding queued_critical_def by (rule sum_list_nonneg) (auto simp: crit_nonneg)

lemma critical_count_append [simp]: "critical_count (xs @ ys) = critical_count xs + critical_count ys"
  by (simp add: critical_count_def)

lemma critical_count_split: "critical_count (take n xs) + critical_count (drop n xs) = critical_count xs"
  by (metis append_take_drop_id critical_count_append)

lemma sum_node_update:
  "HASH_FIND tbl k = Some n \<Longrightarrow>
   sum_list (map (g :: _ \<Rightarrow> int) (node_update f tbl k)) = sum_list (map g tbl) - g n + g (f n)"
  by (induction f tbl k rule: node_update.induct) (auto split: if_splits)

lemma sum_HASH_DEL:
  "HASH_FIND tbl k = Some n \<Longrightarrow> sum_list (map (g :: _ \<Rightarrow> int) (HASH_DEL tbl k)) = sum_list (map g tbl) - g n"
  by (induction tbl k rule: HASH_DEL.induct) (auto split: if_splits)

lemma queued_entry_update:
  "pd_component_registry_get_entry_by_id pid s = Some e \<Longrightarrow>
   queued_critical (entry_update pd_component_update f pid s) = queued_critical s - crit e + crit (f e)"
  by (simp add: queued_critical_def entry_update_def resource_component_registry_get_by_id_def
      resource_registry_get_by_id_def sum_node_update)

lemma queued_drop:
  "pd_component_registry_get_entry_by_id pid s = Some e \<Longrightarrow>
   queued_critical (pd_refs.drop_obj pid s) = queued_critical s - crit e"
  by (simp add: queued_critical_def pd_refs.drop_obj_def resource_component_registry_get_by_id_def
      resource_registry_get_by_id_def sum_HASH_DEL)

lemma queued_cong: "pd_component t = pd_component s \<Longrightarrow> queued_critical t = queued_critical s"
  by (simp add: queued_critical_def)

subsection \<open>The operations\<close>

definition is_release :: "PdWorkAction \<Rightarrow> bool" where
  "is_release a \<longleftrightarrow> a = FREE \<or> a = DESTROY"

definition queue_release_work ::
    "'w env \<Rightarrow> PdWorkAction \<Rightarrow> gpi_obj_id_t \<Rightarrow> pd_work_entry_t \<Rightarrow> 'w gpi_server \<Rightarrow> 'w gpi_server option" where
  "queue_release_work E a = (if a = FREE then pd_component_queue_free_work E else pd_component_queue_destroy_work E)"

lemma crit_queue:
  "is_release a \<Longrightarrow> pending_work e a = Some xs \<Longrightarrow>
   crit (e\<lparr>pending_work := (pending_work e)(a := map_option (\<lambda>xs. xs @ [work]) (pending_work e a))\<rparr>) =
     crit e + (if is_critical work then 1 else 0)"
  by (auto simp: crit_def crit_of_def is_release_def critical_count_def)

lemma queue_effect:
  assumes a: "is_release a" and e: "pd_component_registry_get_entry_by_id pid s = Some e" "pending_work e a = Some xs"
  shows "\<exists>s'. queue_release_work E a pid work s = Some s' \<and>
    pd_termination_n_missing s' = pd_termination_n_missing s + (if starting_termination s then 1 else 0) \<and>
    queued_critical s' = queued_critical s + (if starting_termination s then 1 else 0) \<and>
    pending_termination s' = pending_termination s \<and> starting_termination s' = starting_termination s"
proof -
  define t where "t = (if starting_termination s then s\<lparr>pd_termination_n_missing := pd_termination_n_missing s + 1\<rparr> else s)"
  let ?w = "work\<lparr>is_critical := starting_termination s\<rparr>"
  let ?f = "\<lambda>e. e\<lparr>pending_work := (pending_work e)(a := map_option (\<lambda>xs. xs @ [?w]) (pending_work e a))\<rparr>"
  have q: "queue_release_work E a pid work s = notify_pd E pid (queue_work a pid ?w t)"
    using a by (auto simp: queue_release_work_def is_release_def pd_component_queue_free_work_def
        pd_component_queue_destroy_work_def t_def)
  have et: "pd_component_registry_get_entry_by_id pid t = Some e"
    using e(1) by (simp add: t_def resource_component_registry_get_by_id_def)
  have g: "pd_component_registry_get_entry_by_id pid (queue_work a pid ?w t) = Some (?f e)"
    using et unfolding queue_work_def by (subst pd_refs.get_entry_update) simp_all
  have "queued_critical (queue_work a pid ?w t) = queued_critical t - crit e + crit (?f e)"
    unfolding queue_work_def by (rule queued_entry_update [OF et])
  then have c: "queued_critical (queue_work a pid ?w t) = queued_critical s + (if starting_termination s then 1 else 0)"
    using crit_queue [OF a e(2), of ?w] queued_cong [of t s] by (simp add: t_def)
  show ?thesis unfolding q notify_pd_def using g c
    by (auto simp: kern0_def kern_def queued_critical_def queue_work_def entry_update_def t_def split: prod.split)
qed

text \<open>Fetching work: the critical pieces that are handed out leave the queues.\<close>

definition handed_out :: "work_reply \<Rightarrow> int" where
  "handed_out w = (case w of NO_WORK \<Rightarrow> 0 | Work a xs \<Rightarrow> if is_release a then critical_count xs else 0)"

lemma pick_work_effect:
  "pick_work as e = Some (w, e') \<Longrightarrow> crit e' + handed_out w = crit e \<and> object_id e' = object_id e"
proof (induction as e rule: pick_work.induct)
  case (2 a as e)
  from 2(2) obtain xs where xs: "pending_work e a = Some xs" by (auto simp: bind_eq_Some_conv)
  show ?case
  proof (cases "xs = []")
    case True
    then show ?thesis using 2 xs by simp
  next
    case False
    then show ?thesis using 2(2) xs critical_count_split [of WORK_BATCH xs]
      by (cases a) (auto simp: crit_def crit_of_def handed_out_def is_release_def)
  qed
qed (simp add: handed_out_def)

lemma get_work_effect:
  assumes ret: "handle_get_work_req badge s = Some (er, w, s')"
  shows "queued_critical s' + handed_out w = queued_critical s \<and>
    pd_termination_n_missing s' = pd_termination_n_missing s \<and> pending_termination s' = pending_termination s \<and>
    starting_termination s' = starting_termination s"
proof (cases "pd_component_registry_get_entry_by_badge badge s")
  case None
  then show ?thesis using ret by (auto simp: handle_get_work_req_def handed_out_def)
next
  case (Some e)
  let ?o = "get_object_id_from_badge badge"
  have e: "pd_component_registry_get_entry_by_id ?o s = Some e" "object_id e = ucast ?o"
    using Some pd_refs.get_Some_id [of ?o s e]
    by (auto simp: resource_component_registry_get_by_badge_def resource_registry_get_by_badge_def
        resource_component_registry_get_by_id_def)
  show ?thesis
  proof (cases "get_client_id_from_badge badge = ?o")
    case False
    then show ?thesis using ret Some by (auto simp: handle_get_work_req_def handed_out_def)
  next
    case True
    then obtain e' where p: "pick_work [EXTRACT, SEND, FREE, DESTROY] e = Some (w, e')"
      and s': "s' = entry_update pd_component_update (\<lambda>_. e') ?o s"
      using ret Some e(2) by (auto simp: handle_get_work_req_def bind_eq_Some_conv simp del: pick_work.simps)
    show ?thesis using queued_entry_update [OF e(1), of "\<lambda>_. e'"] pick_work_effect [OF p] s'
      by (simp add: entry_update_def)
  qed
qed

text \<open>Reporting finished work, for a counter that fits a C \<open>int\<close>.\<close>

lemma counter_arith:
  fixes n :: u32
  assumes "0 \<le> N" "N < 2 ^ 31" "int (unat n) \<le> N"
  shows "\<not> n > word_of_int N" and "sint (word_of_int N - n) = N - int (unat n)"
proof -
  have u: "uint (word_of_int N :: u32) = N"
    using assms(1,2) by (simp add: uint_word_of_int take_bit_int_eq_self)
  then show "\<not> n > word_of_int N" using assms(3) by (simp only: word_less_def uint_nat not_less)
  have sw: "sint (word_of_int k :: u32) = signed_take_bit 31 k" for k by (simp add: signed_of_int)
  have w: "word_of_int N - n = word_of_int (N - int (unat n))"
    by (simp only: of_int_diff of_int_of_nat_eq) simp
  have "signed_take_bit 31 (N - int (unat n)) = N - int (unat n)"
    using assms by (intro signed_take_bit_int_eq_self) linarith+
  then show "sint (word_of_int N - n) = N - int (unat n)" by (simp only: w sw)
qed

lemma finish_effect:
  assumes a: "is_release a" and pend: "pending_termination s"
    and N: "0 \<le> pd_termination_n_missing s" "pd_termination_n_missing s < 2 ^ 31"
    and n: "int (unat n) \<le> pd_termination_n_missing s" and ret: "handle_finish_work_req E (Some a) n s = (r, s')"
  shows "pd_termination_n_missing s' = pd_termination_n_missing s - int (unat n) \<and>
    queued_critical s' = queued_critical s \<and> starting_termination s' = starting_termination s \<and>
    (pending_termination s' \<longleftrightarrow> pd_termination_n_missing s \<noteq> int (unat n)) \<and>
    world s' = (if pending_termination s' then world s
      else run_calls E [Ipc (Rpc_reply GPICAP_TYPE_PD), Ipc (Send_reply (pd_termination_reply s) 0),
             Cap (Vka_cspace_free Server_Vka (pd_termination_reply s))] (world s))"
  using a pend ret counter_arith [OF N n]
  by (auto simp: handle_finish_work_req_def is_release_def reply_to_saved_def kern_seq_world queued_critical_def
      Let_def split: if_splits)

text \<open>A destroyed server: its queues are cleared (the end of \<open>on_pd_registry_delete\<close>) and its entry
  leaves the registry.\<close>

lemma clear_effect:
  assumes "pd_component_registry_get_entry_by_id pid s = Some e" "clear_pending_work pid s = Some t"
  shows "pd_termination_n_missing t = pd_termination_n_missing s - crit e \<and> pd_component t = pd_component s \<and>
    pending_termination t = pending_termination s \<and> starting_termination t = starting_termination s \<and> world t = world s"
  using assms by (auto simp: clear_pending_work_def clear_work_list_def bind_eq_Some_conv crit_def crit_of_def)

subsection \<open>The protocol\<close>

text \<open>The second component is the number of critical pieces that servers have fetched and not yet
  reported. A server reports at most what was fetched; the counter stays below the range of \<open>int\<close>.\<close>

inductive term_step :: "'w env \<Rightarrow> 'w gpi_server \<times> int \<Rightarrow> 'w gpi_server \<times> int \<Rightarrow> bool" for E where
  starting: "term_step E (s, out) (s\<lparr>starting_termination := b\<rparr>, out)"
| queue: "is_release a \<Longrightarrow> pd_component_registry_get_entry_by_id pid s = Some e \<Longrightarrow> pending_work e a \<noteq> None \<Longrightarrow>
    pd_termination_n_missing s + 1 < 2 ^ 31 \<Longrightarrow> queue_release_work E a pid work s = Some s' \<Longrightarrow>
    term_step E (s, out) (s', out)"
| pending: "0 < pd_termination_n_missing s \<Longrightarrow>
    term_step E (s, out) (s\<lparr>pending_termination := True, pd_termination_reply := c\<rparr>, out)"
| fetch: "handle_get_work_req badge s = Some (er, w, s') \<Longrightarrow> term_step E (s, out) (s', out + handed_out w)"
| finish: "pending_termination s \<Longrightarrow> is_release a \<Longrightarrow> int (unat n) \<le> out \<Longrightarrow>
    handle_finish_work_req E (Some a) n s = (r, s') \<Longrightarrow> term_step E (s, out) (s', out - int (unat n))"
| gone: "pd_component_registry_get_entry_by_id pid s = Some e \<Longrightarrow> clear_pending_work pid s = Some t \<Longrightarrow>
    term_step E (s, out) (pd_refs.drop_obj pid t, out)"

inductive_cases term_stepE: "term_step E (s, out) y"

definition term_inv :: "'w gpi_server \<times> int \<Rightarrow> bool" where
  "term_inv x \<longleftrightarrow> pd_termination_n_missing (fst x) = queued_critical (fst x) + snd x \<and> 0 \<le> snd x \<and>
     pd_termination_n_missing (fst x) < 2 ^ 31"

lemma handed_out_nonneg: "0 \<le> handed_out w"
  by (simp add: handed_out_def critical_count_def split: work_reply.split)

lemma term_inv_bounds: "term_inv (s, out) \<Longrightarrow> 0 \<le> pd_termination_n_missing s \<and> out \<le> pd_termination_n_missing s"
  using queued_nonneg [of s] by (simp add: term_inv_def)

lemma term_inv_step: "term_step E x y \<Longrightarrow> term_inv x \<Longrightarrow> term_inv y"
proof (induction rule: term_step.induct)
  case (queue a pid s e work s' out)
  then obtain xs where "pending_work e a = Some xs" by auto
  with queue show ?case using queue_effect [OF queue.hyps(1,2), of xs E work] by (auto simp: term_inv_def split: if_splits)
next
  case (fetch badge s er w s' out)
  then show ?case using get_work_effect [OF fetch.hyps] handed_out_nonneg [of w] by (auto simp: term_inv_def)
next
  case (finish s a n out r s')
  note b = term_inv_bounds [OF finish.prems]
  have "pd_termination_n_missing s < 2 ^ 31" using finish.prems by (simp add: term_inv_def)
  then have f: "pd_termination_n_missing s' = pd_termination_n_missing s - int (unat n)" "queued_critical s' = queued_critical s"
    using finish_effect [OF finish.hyps(2,1) _ _ _ finish.hyps(4)] b finish.hyps(3) by auto
  show ?case using finish.prems finish.hyps(3) f unfolding term_inv_def fst_conv snd_conv by (intro conjI; linarith)
next
  case (gone pid s e t out)
  have "pd_component_registry_get_entry_by_id pid t = Some e"
    using gone clear_effect [OF gone.hyps] by (simp add: resource_component_registry_get_by_id_def)
  moreover have "pd_termination_n_missing (pd_refs.drop_obj pid t) = pd_termination_n_missing t"
    by (simp add: pd_refs.drop_obj_def)
  ultimately show ?case using clear_effect [OF gone.hyps] queued_drop [of pid t e] queued_cong [of t s] crit_nonneg [of e] gone.prems
    by (auto simp: term_inv_def)
qed (auto simp: term_inv_def queued_critical_def)

text \<open>A server with nothing to wait for.\<close>

definition term_idle :: "'w gpi_server \<Rightarrow> bool" where
  "term_idle s \<longleftrightarrow> pd_termination_n_missing s = 0 \<and> queued_critical s = 0"

lemma term_reachable_inv: "(term_step E)\<^sup>*\<^sup>* x y \<Longrightarrow> term_inv x \<Longrightarrow> term_inv y"
  by (induction rule: rtranclp_induct) (auto intro: term_inv_step)

lemma term_idle_inv: "term_idle s \<Longrightarrow> term_inv (s, 0)"
  by (simp add: term_idle_def term_inv_def)

subsection \<open>Properties\<close>

text \<open>
  C1: in every state that the protocol reaches, the counter of missing pieces is exactly the number
  of critical pieces in the work queues plus the number that resource servers have fetched and not
  reported.
\<close>

theorem missing_counter_exact:
  assumes "term_idle s0" and "(term_step E)\<^sup>*\<^sup>* (s0, 0) (s, out)"
  shows "pd_termination_n_missing s = queued_critical s + out \<and> 0 \<le> out"
  using term_reachable_inv [OF assms(2) term_idle_inv [OF assms(1)]] by (simp add: term_inv_def)

text \<open>
  C16: a report of finished work ends the pending termination exactly when it is the last one: no
  critical piece is queued and all that were fetched are reported. Then, and only then, the reply is
  sent on the saved capability, once, and its slot is freed.
\<close>

theorem termination_reply_exact:
  assumes idle: "term_idle s0" and reach: "(term_step E)\<^sup>*\<^sup>* (s0, 0) (s, out)" and pend: "pending_termination s"
    and a: "is_release a" and n: "int (unat n) \<le> out" and ret: "handle_finish_work_req E (Some a) n s = (r, s')"
  shows "(\<not> pending_termination s' \<longleftrightarrow> queued_critical s = 0 \<and> out = int (unat n)) \<and>
    world s' = (if pending_termination s' then world s
      else run_calls E [Ipc (Rpc_reply GPICAP_TYPE_PD), Ipc (Send_reply (pd_termination_reply s) 0),
             Cap (Vka_cspace_free Server_Vka (pd_termination_reply s))] (world s))"
proof -
  have inv: "term_inv (s, out)" using term_reachable_inv [OF reach term_idle_inv [OF idle]] .
  note b = term_inv_bounds [OF inv]
  have "pd_termination_n_missing s < 2 ^ 31" using inv by (simp add: term_inv_def)
  then show ?thesis
    using finish_effect [OF a pend _ _ _ ret] b n queued_nonneg [of s] inv by (auto simp: term_inv_def)
qed

text \<open>
  C36: if all the work that is still missing was queued for one resource server and that server is
  destroyed, the termination stays pending although nothing is missing any more. After \<open>clear_pending_work\<close>, with
  which the callback of its deletion ends, the counter is 0, no reply has been sent, and no server is left that would report.
\<close>

theorem dead_server_blocks_reply:
  assumes idle: "term_idle s0" and reach: "(term_step E)\<^sup>*\<^sup>* (s0, 0) (s, 0)" and pend: "pending_termination s"
    and e: "pd_component_registry_get_entry_by_id pid s = Some e" "crit e = queued_critical s"
    and clear: "clear_pending_work pid s = Some t"
  shows "pending_termination t \<and> pd_termination_n_missing t = 0 \<and> queued_critical (pd_refs.drop_obj pid t) = 0 \<and>
    world t = world s"
proof -
  have "term_inv (s, 0)" using term_reachable_inv [OF reach term_idle_inv [OF idle]] .
  moreover have "pd_component_registry_get_entry_by_id pid t = Some e"
    using e clear_effect [OF e(1) clear] by (simp add: resource_component_registry_get_by_id_def)
  ultimately show ?thesis
    using clear_effect [OF e(1) clear] pend e(2) queued_drop [of pid t e] queued_cong [of t s] by (auto simp: term_inv_def)
qed

text \<open>Witnesses: a piece of work is queued for PD 2 during a termination and PD 2 fetches it.\<close>

definition freed_work :: pd_work_entry_t where
  "freed_work = \<lparr>work_res_id = make_res_id 10 7 5, client_pd_id = 0, is_critical = False\<rparr>"

definition term_start :: "kcall list gpi_server" where
  "term_start = server_with [pd_entry 2 (\<lambda>p. p)]"

definition term_waiting :: "kcall list gpi_server" where
  "term_waiting = (the (queue_release_work trace_env FREE 2 freed_work (term_start\<lparr>starting_termination := True\<rparr>)))
     \<lparr>pending_termination := True, pd_termination_reply := 9\<rparr>"

text \<open>The badge of the capability that PD 2 has on itself.\<close>

definition own_badge :: u64 where "own_badge = 0x0600020000200002"

definition term_fetched :: "kcall list gpi_server" where
  "term_fetched = (case handle_get_work_req own_badge term_waiting of Some (_, _, s) \<Rightarrow> s)"

lemma term_start_idle: "term_idle term_start"
  by code_simp

lemma term_waiting_reached: "(term_step trace_env)\<^sup>*\<^sup>* (term_start, 0) (term_waiting, 0)"
proof -
  let ?s1 = "term_start\<lparr>starting_termination := True\<rparr>"
  have 1: "term_step trace_env (term_start, 0) (?s1, 0)" by (rule term_step.starting)
  have e: "pd_component_registry_get_entry_by_id 2 ?s1 = Some (pd_entry 2 (\<lambda>p. p))"
    by (simp add: term_start_def server_with_def resource_component_registry_get_by_id_def resource_registry_get_by_id_def)
      (simp add: pd_entry_def)
  have w: "pending_work (pd_entry 2 (\<lambda>p. p)) FREE = Some []" by (simp add: pd_entry_def)
  have fr: "is_release FREE" by (simp add: is_release_def)
  obtain s2 where s2: "queue_release_work trace_env FREE 2 freed_work ?s1 = Some s2" "pd_termination_n_missing s2 = 1"
    using queue_effect [OF fr e w, of trace_env freed_work] by (auto simp: term_start_def server_with_def)
  have 2: "term_step trace_env (?s1, 0) (s2, 0)"
    by (rule term_step.queue [OF fr e _ _ s2(1)]) (simp_all add: w term_start_def server_with_def)
  have 3: "term_step trace_env (s2, 0) (term_waiting, 0)"
    using term_step.pending [of s2 trace_env 0 9] s2 by (simp add: term_waiting_def)
  show ?thesis using 1 2 3 by (meson converse_rtranclp_into_rtranclp rtranclp.rtrancl_refl)
qed

lemma term_fetched_reached: "(term_step trace_env)\<^sup>*\<^sup>* (term_start, 0) (term_fetched, 1)"
proof -
  have "map_option (\<lambda>(er, w, s). handed_out w) (handle_get_work_req own_badge term_waiting) = Some 1" by code_simp
  then obtain er w s where g: "handle_get_work_req own_badge term_waiting = Some (er, w, s)" "handed_out w = 1" by auto
  then have "term_step trace_env (term_waiting, 0) (term_fetched, 1)"
    using term_step.fetch [OF g(1), of trace_env 0] by (simp add: term_fetched_def)
  with term_waiting_reached show ?thesis by (rule rtranclp.rtrancl_into_rtrancl)
qed

theorem missing_counter_exact_witness: "pd_termination_n_missing term_fetched = queued_critical term_fetched + 1"
  using missing_counter_exact [OF term_start_idle term_fetched_reached] by simp

theorem termination_reply_exact_witness:
  "\<not> pending_termination (snd (handle_finish_work_req trace_env (Some FREE) 1 term_fetched)) \<and>
   Ipc (Send_reply 9 0) \<in> set (world (snd (handle_finish_work_req trace_env (Some FREE) 1 term_fetched)))"
proof -
  have a: "is_release FREE" by (simp add: is_release_def)
  have f: "pending_termination term_fetched" "queued_critical term_fetched = 0" "pd_termination_reply term_fetched = 9"
    by code_simp+
  have n: "int (unat (1 :: u32)) \<le> 1" by simp
  show ?thesis
    using termination_reply_exact [OF term_start_idle term_fetched_reached f(1) a n prod.collapse [symmetric]] f by auto
qed

theorem dead_server_blocks_reply_witness:
  "\<exists>t. clear_pending_work 2 term_waiting = Some t \<and> pending_termination t \<and> pd_termination_n_missing t = 0"
proof -
  have f: "pending_termination term_waiting" by code_simp
  have "map_option (\<lambda>e. (crit e, queued_critical term_waiting)) (pd_component_registry_get_entry_by_id 2 term_waiting) = Some (1, 1)"
    by code_simp
  then obtain e where e: "pd_component_registry_get_entry_by_id 2 term_waiting = Some e" "crit e = queued_critical term_waiting"
    by auto
  have "map_option pd_termination_n_missing (clear_pending_work 2 term_waiting) = Some 0" by code_simp
  then obtain t where "clear_pending_work 2 term_waiting = Some t" by auto
  with dead_server_blocks_reply [OF term_start_idle term_waiting_reached f e this] show ?thesis by auto
qed

end
