(* ===== verification/Work_Queue.thy ===== *)
theory Work_Queue
  imports Component_Refs Pd_Component
begin

section \<open>Fetching work\<close>

text \<open>
  A resource server asks for its work in batches. The lemmas describe a batch as a prefix of the
  server's backlog: its four queues one after the other, in the order of their priority.
\<close>

definition queues_exist :: "pd_component_registry_entry_t \<Rightarrow> bool" where
  "queues_exist e \<longleftrightarrow> (\<forall>a. pending_work e a \<noteq> None)"

definition queue_of :: "pd_component_registry_entry_t \<Rightarrow> PdWorkAction \<Rightarrow> pd_work_entry_t list" where
  "queue_of e a = (case pending_work e a of None \<Rightarrow> [] | Some xs \<Rightarrow> xs)"

definition backlog :: "pd_component_registry_entry_t \<Rightarrow> pd_work_entry_t list" where
  "backlog e = queue_of e EXTRACT @ queue_of e SEND @ queue_of e FREE @ queue_of e DESTROY"

definition work_items :: "work_reply \<Rightarrow> pd_work_entry_t list" where
  "work_items w = (case w of NO_WORK \<Rightarrow> [] | Work a xs \<Rightarrow> xs)"

text \<open>The queues that are looked at before one with content are empty, so serving that one serves
  the head of the backlog.\<close>

definition batch_of ::
    "PdWorkAction list \<Rightarrow> pd_component_registry_entry_t \<Rightarrow> work_reply \<Rightarrow> pd_component_registry_entry_t \<Rightarrow> bool" where
  "batch_of as e w e' \<longleftrightarrow> concat (map (queue_of e) as) = work_items w @ concat (map (queue_of e') as) \<and>
    (w = NO_WORK \<longleftrightarrow> concat (map (queue_of e) as) = []) \<and> length (work_items w) \<le> WORK_BATCH \<and>
    queues_exist e' \<and> object_id e' = object_id e \<and> pd e' = pd e \<and>
    (\<forall>a. a \<notin> set as \<longrightarrow> queue_of e' a = queue_of e a) \<and>
    (\<forall>a xs. w = Work a xs \<longrightarrow> xs = take WORK_BATCH (queue_of e a))"

lemma pick_work_prefix:
  assumes "queues_exist e" "distinct as"
  shows "\<exists>w e'. pick_work as e = Some (w, e') \<and> batch_of as e w e'"
  using assms(2)
proof (induction as)
  case Nil
  then show ?case using assms(1) by (auto simp: work_items_def batch_of_def)
next
  case (Cons a as)
  obtain q where q: "pending_work e a = Some q" using assms(1) by (auto simp: queues_exist_def)
  then have qa: "queue_of e a = q" by (simp add: queue_of_def)
  show ?case
  proof (cases "q = []")
    case True
    from Cons obtain w e' where IH: "pick_work as e = Some (w, e')" "batch_of as e w e'" by auto
    moreover have "queue_of e' a = []" using IH(2) Cons.prems qa True by (auto simp: batch_of_def)
    ultimately have "batch_of (a # as) e w e'" using qa True by (auto simp: batch_of_def simp del: concat_eq_Nil_conv)
    then show ?thesis using IH(1) q True by simp
  next
    case False
    let ?e = "e\<lparr>pending_work := (pending_work e)(a := Some (drop WORK_BATCH q))\<rparr>"
    have p: "pick_work (a # as) e = Some (Work a (take WORK_BATCH q), ?e)" using q False by simp
    have o: "queue_of ?e b = queue_of e b" if "b \<noteq> a" for b using that by (simp add: queue_of_def)
    have "map (queue_of ?e) as = map (queue_of e) as" using Cons.prems by (intro map_cong refl o) auto
    then have "concat (map (queue_of ?e) as) = concat (map (queue_of e) as)" by (rule arg_cong)
    moreover have "q @ X = take WORK_BATCH q @ drop WORK_BATCH q @ X" for X by (simp flip: append_assoc)
    moreover have "queue_of ?e a = drop WORK_BATCH q" by (simp add: queue_of_def)
    moreover have "queues_exist ?e" using assms(1) by (simp add: queues_exist_def)
    ultimately have "batch_of (a # as) e (Work a (take WORK_BATCH q)) ?e"
      using False qa o unfolding batch_of_def by (simp add: work_items_def)
    then show ?thesis using p by blast
  qed
qed

lemma backlog_concat: "backlog e = concat (map (queue_of e) [EXTRACT, SEND, FREE, DESTROY])"
  by (simp add: backlog_def)

lemma get_by_badge: "resource_component_registry_get_by_badge getc badge s =
    resource_component_registry_get_by_id getc (get_object_id_from_badge badge) s"
  by (simp add: resource_component_registry_get_by_badge_def resource_registry_get_by_badge_def
      resource_component_registry_get_by_id_def)

text \<open>
  C15: a PD that asks for its own work gets at most 16 pieces, all of one kind, and they are the head
  of its backlog: model extraction first, then sent resources, freed resources and destroyed spaces,
  each in the order in which they were queued. The answer is empty only if there is no work. What
  was handed out has left the queues, the rest is kept in order, and no other PD is touched.
\<close>

theorem get_work_in_order:
  assumes e: "pd_component_registry_get_entry_by_badge badge s = Some e" "queues_exist e"
    and own: "get_client_id_from_badge badge = get_object_id_from_badge badge"
  shows "\<exists>w s' e'. handle_get_work_req badge s = Some (0, w, s') \<and>
    pd_component_registry_get_entry_by_badge badge s' = Some e' \<and> backlog e = work_items w @ backlog e' \<and>
    (w = NO_WORK \<longleftrightarrow> backlog e = []) \<and> length (work_items w) \<le> WORK_BATCH \<and>
    (\<forall>a xs. w = Work a xs \<longrightarrow> xs = take WORK_BATCH (queue_of e a)) \<and> pd e' = pd e \<and> queues_exist e' \<and>
    (\<forall>j. j \<noteq> get_object_id_from_badge badge \<longrightarrow>
       pd_component_registry_get_entry_by_id j s' = pd_component_registry_get_entry_by_id j s)"
proof -
  let ?o = "get_object_id_from_badge badge" and ?as = "[EXTRACT, SEND, FREE, DESTROY]"
  have id: "object_id e = ucast ?o" using e(1) pd_refs.get_Some_id [of ?o s e] by (simp add: get_by_badge)
  obtain w e' where p: "pick_work ?as e = Some (w, e')" "batch_of ?as e w e'"
    using pick_work_prefix [OF e(2), of ?as] by auto
  then have ide: "object_id e' = ucast ?o" using id by (simp add: batch_of_def)
  let ?s = "entry_update pd_component_update (\<lambda>_. e') ?o s"
  have h: "handle_get_work_req badge s = Some (0, w, ?s)"
    using e(1) own p(1) id by (simp add: handle_get_work_req_def del: pick_work.simps)
  have u: "HASH_FIND (node_update (\<lambda>_. e') tbl k) k' = (if k' = k then map_option (\<lambda>_. e') (HASH_FIND tbl k) else HASH_FIND tbl k')"
    if "object_id e' = k" for tbl k k' using that by (induction "\<lambda>_ :: pd_component_registry_entry_t. e'" tbl k rule: node_update.induct) auto
  have g: "pd_component_registry_get_entry_by_id j ?s = (if j = ?o then Some e' else pd_component_registry_get_entry_by_id j s)" for j
    using e(1) u [OF ide, of _ "ucast j"]
    by (auto simp: entry_update_def resource_component_registry_get_by_id_def resource_registry_get_by_id_def get_by_badge)
  show ?thesis using h g p(2) unfolding batch_of_def backlog_concat [symmetric] by (auto simp: get_by_badge)
qed

text \<open>The witness: PD 2 has one sent and two freed resources to handle.\<close>

definition busy_server :: "kcall list gpi_server" where
  "busy_server = server_with [(pd_entry 2 (\<lambda>p. p))\<lparr>pending_work := (\<lambda>a. Some
     (if a = SEND then [\<lparr>work_res_id = make_res_id 10 7 1, client_pd_id = 3, is_critical = False\<rparr>]
      else if a = FREE then [\<lparr>work_res_id = make_res_id 10 7 2, client_pd_id = 0, is_critical = True\<rparr>,
        \<lparr>work_res_id = make_res_id 10 7 3, client_pd_id = 0, is_critical = True\<rparr>]
      else []))\<rparr>]"

theorem get_work_in_order_witness:
  "\<exists>w s'. handle_get_work_req 0x0600020000200002 busy_server = Some (0, w, s') \<and> w \<noteq> NO_WORK \<and> length (work_items w) \<le> 16"
proof -
  have "map_option (\<lambda>e. (queue_of e SEND \<noteq> [], pending_work e EXTRACT = None, pending_work e SEND = None,
      pending_work e FREE = None, pending_work e DESTROY = None))
      (pd_component_registry_get_entry_by_badge 0x0600020000200002 busy_server) = Some (True, False, False, False, False)"
    by code_simp
  then obtain e where e: "pd_component_registry_get_entry_by_badge 0x0600020000200002 busy_server = Some e"
    "queue_of e SEND \<noteq> []" "\<forall>a \<in> {EXTRACT, SEND, FREE, DESTROY}. pending_work e a \<noteq> None" by auto
  have "pending_work e a \<noteq> None" for a using e(3) by (cases a) simp_all
  then have q: "queues_exist e" by (simp add: queues_exist_def)
  have "get_client_id_from_badge 0x0600020000200002 = get_object_id_from_badge 0x0600020000200002" by code_simp
  from get_work_in_order [OF e(1) q this] e(2) show ?thesis
    by (auto simp: backlog_def WORK_BATCH_def)
qed

end
