(* ===== verification/Sweep.thy ===== *)
theory Sweep
  imports Mo_Release Pd_Destroy
begin

section \<open>Sweeping marked PDs\<close>

text \<open>
  \<open>pd_component_sweep\<close> destroys the PDs that are marked for deletion. It iterates with the successor
  saved in advance, and destroying a PD sweeps again, which destroys the other marked PDs, the saved
  successor among them.
\<close>

subsection \<open>Rounds of the loop that change nothing\<close>

lemma hash_iter_skip:
  assumes "distinct (ks s)" "ks s = pre @ xs @ k # ys" "\<And>j. j \<in> set xs \<Longrightarrow> body j s = Some s"
  shows "hash_iter (length xs + n) ks body (Some (hd (xs @ [k]))) s = hash_iter n ks body (Some k) s"
  using assms
proof (induction xs arbitrary: pre)
  case (Cons x xs)
  have "x \<notin> set pre" using Cons.prems(1,2) by auto
  then have nx: "next_key x (ks s) = Some (hd (xs @ [k]))"
    using Cons.prems(2) next_key_split [of x pre "xs @ k # ys"] by (cases xs) auto
  have "hash_iter (length xs + n) ks body (Some (hd (xs @ [k]))) s = hash_iter n ks body (Some k) s"
    using Cons.prems by (intro Cons.IH [of "pre @ [x]"]) auto
  then show ?case using nx Cons.prems by (simp add: Let_def)
qed simp

subsection \<open>Sweeping\<close>

definition due :: "pd_component_registry_entry_t \<Rightarrow> bool" where
  "due e \<longleftrightarrow> to_delete (pd e) \<and> \<not> deleting (pd e)"

definition doomed_entry :: "pd_component_registry_entry_t \<Rightarrow> pd_component_registry_entry_t" where
  "doomed_entry e = e\<lparr>pd := (pd e)\<lparr>exit_code := PD_TERMINATED_CODE, deletion_depth := 0\<rparr>\<rparr>"

definition doom :: "gpi_obj_id_t \<Rightarrow> 'w gpi_server \<Rightarrow> 'w gpi_server" where
  "doom i s = pd_write i (\<lambda>p. p\<lparr>exit_code := PD_TERMINATED_CODE, deletion_depth := 0\<rparr>) s"

text \<open>
  C38: the sweep uses freed memory whenever the destruction of a marked PD removes the PD that
  follows it in the registry. (\<open>cb\<close> is the callback of the PD registry, applied to the entry it
  destroys; \<open>doom\<close> is the state it is applied to.)
\<close>

theorem sweep_uses_freed_successor:
  assumes ks: "pd_keys s = map ucast (ps @ i # i' # qs)" "distinct (pd_keys s)"
    and skip: "\<And>j. j \<in> set ps \<Longrightarrow> \<exists>e. pd_component_registry_get_entry_by_id j s = Some e \<and> \<not> due e"
    and e: "pd_component_registry_get_entry_by_id i s = Some e" "due e" "test_proc_id s \<noteq> pd_id (pd e)"
    and cb: "cb (doomed_entry e) (doom i s) = Some s'" "ucast i' \<notin> set (pd_keys s')"
  shows "pd_component_sweep cb s = None"
proof -
  let ?body = "\<lambda>k s. do {
          e \<leftarrow> pd_component_registry_get_entry_by_id (ucast k) s;
          if to_delete (pd e) \<and> \<not> deleting (pd e) then do {
            c_assert (test_proc_id s \<noteq> pd_id (pd e));
            let s = pd_write (ucast k) (\<lambda>p. p\<lparr>exit_code := PD_TERMINATED_CODE, deletion_depth := 0\<rparr>) s;
            e \<leftarrow> pd_component_registry_get_entry_by_id (ucast k) s;
            resource_registry_delete (comp_reg pd_component) (comp_set_reg pd_component_update) (Some cb) e s }
          else Some s }"
  let ?xs = "map ucast ps :: u64 list" and ?k = "ucast i :: u64" and ?k' = "ucast i' :: u64"
  have body_skip: "?body j s = Some s" if "j \<in> set ?xs" for j
    using that skip by (fastforce simp: due_def)
  have g: "pd_component_registry_get_entry_by_id i (doom i s) = Some (doomed_entry e)"
    using e(1) by (simp add: doom_def get_pd_write doomed_entry_def)
  have body_k: "?body ?k s = Some (comp_set_reg pd_component_update ((comp_reg pd_component s')
      \<lparr>head := HASH_DEL (head (comp_reg pd_component s')) (object_id (doomed_entry e))\<rparr>) s')"
    using e g cb(1) by (simp add: due_def doom_def resource_registry_delete_def Let_def)
  let ?t = "comp_set_reg pd_component_update ((comp_reg pd_component s')
      \<lparr>head := HASH_DEL (head (comp_reg pd_component s')) (object_id (doomed_entry e))\<rparr>) s'"
  have "pd_keys ?t = remove1 (object_id (doomed_entry e)) (pd_keys s')"
    by (simp add: pd_keys_def comp_set_reg_def comp_reg_def keys_HASH_DEL)
  then have gone: "?k' \<notin> set (pd_keys ?t)" using cb(2) by (auto dest: notin_set_remove1)
  have ks': "pd_keys s = [] @ ?xs @ ?k # ?k' # map ucast qs" using ks(1) by simp
  have "?k \<notin> set ?xs" using ks by auto
  then have nx: "next_key ?k (pd_keys s) = Some ?k'" using ks' next_key_split [of ?k ?xs "?k' # map ucast qs"] by simp
  have "length (pd_keys s) = length ?xs + Suc (Suc (length qs))" using ks' by simp
  then have "HASH_ITER pd_keys ?body s = hash_iter (length ?xs + Suc (Suc (length qs))) pd_keys ?body (Some (hd (?xs @ [?k]))) s"
    using ks' by (cases ?xs) (auto simp: HASH_ITER_def)
  also have "\<dots> = hash_iter (Suc (Suc (length qs))) pd_keys ?body (Some ?k) s"
    by (rule hash_iter_skip [where ks = pd_keys and body = ?body, OF ks(2) ks' body_skip])
  also have "\<dots> = hash_iter (Suc (length qs)) pd_keys ?body (Some ?k') ?t"
    using body_k nx ks' by (simp only: hash_iter.simps) (simp add: Let_def)
  also have "\<dots> = None" using gone by simp
  finally show ?thesis by (simp add: pd_component_sweep_def)
qed

text \<open>The witness: PDs 2 and 3 are marked. The code's own callback destroys both when it is called for
  PD 2, and the sweep goes on with PD 3.\<close>

definition attach_entry :: "u64 \<Rightarrow> u64 \<Rightarrow> gpi_obj_id_t \<Rightarrow> attach_node_t" where
  "attach_entry va i m = \<lparr>object_id = va, count = 1, vaddr = va, map_entry = i, res = 1, vmr_type = 1, n_pages = 1,
     page_bits = 12, cacheable = True, rights = seL4_AllRights, mo_attached = True, mo_offset = 0, mo_id = m,
     frame_caps = Some [500 + i], n_frames = 1\<rparr>"

definition rt_ads_entry :: "(u64 \<times> gpi_obj_id_t) list \<Rightarrow> ads_component_registry_entry_t" where
  "rt_ads_entry xs = \<lparr>object_id = 1, count = 1, ads = \<lparr>ads_id = 1, vspace = 1, root_page_dir = 1,
     attach_registry = (resource_registry_initialize (BADGE_MAX - 1))\<lparr>head := map (\<lambda>(i, (va, m)). attach_entry va (of_nat (Suc i)) m) (enumerate 0 xs)\<rparr>,
     attach_id_to_vaddr_map = (resource_registry_initialize 0xFFFFE)\<lparr>head := map (\<lambda>(i, (va, m)). \<lparr>object_id = of_nat (Suc i), count = 1, map_vaddr = va\<rparr>) (enumerate 0 xs)\<rparr>\<rparr>\<rparr>"

definition doomed :: "gpi_obj_id_t \<Rightarrow> pd_component_registry_entry_t" where
  "doomed i = pd_entry i (\<lambda>p. p\<lparr>to_delete := True\<rparr>)"

definition rt_server :: "pd_component_registry_entry_t list \<Rightarrow> kcall list gpi_server" where
  "rt_server pds = (server_with pds)\<lparr>
     ads_component := (started_component GPICAP_TYPE_ADS 3)\<lparr>registry := (resource_registry_initialize 0xFFFFE)\<lparr>head := [rt_ads_entry [(12288, 20), (16384, 21)]]\<rparr>\<rparr>,
     mo_component := (started_component GPICAP_TYPE_MO 4)\<lparr>registry := (resource_registry_initialize 0xFFFFE)\<lparr>head := [mo_entry 20 1 [100], mo_entry 21 1 [101]]\<rparr>\<rparr>\<rparr>"


theorem sweep_uses_freed_successor_witness:
  "pd_component_sweep (on_pd_registry_delete trace_env 5) (rt_server [doomed 2, doomed 3]) = None"
proof -
  let ?s = "rt_server [doomed 2, doomed 3]"
  have ks: "pd_keys ?s = map ucast ([0] @ 2 # 3 # ([] :: gpi_obj_id_t list))" "distinct (pd_keys ?s)" by code_simp+
  have "map_option (\<lambda>e. (due e, test_proc_id ?s = pd_id (pd e))) (pd_component_registry_get_entry_by_id 2 ?s) = Some (True, False)"
    "map_option due (pd_component_registry_get_entry_by_id 0 ?s) = Some False" by code_simp+
  then obtain e e0 where e: "pd_component_registry_get_entry_by_id 2 ?s = Some e" "due e" "test_proc_id ?s \<noteq> pd_id (pd e)"
    "pd_component_registry_get_entry_by_id 0 ?s = Some e0" "\<not> due e0" by auto
  have "map_option (\<lambda>e. map_option pd_keys (on_pd_registry_delete trace_env 5 (doomed_entry e) (doom 2 ?s)))
     (pd_component_registry_get_entry_by_id 2 ?s) = Some (Some [0, 2])" by code_simp
  then obtain s' where s': "on_pd_registry_delete trace_env 5 (doomed_entry e) (doom 2 ?s) = Some s'" "pd_keys s' = [0, 2]"
    using e(1) by auto
  show ?thesis
  proof (rule sweep_uses_freed_successor [where ps = "[0]" and i = 2 and i' = 3 and qs = "[]" and e = e and s' = s'])
    show "pd_keys ?s = map ucast ([0] @ 2 # 3 # ([] :: gpi_obj_id_t list))" by (rule ks(1))
  qed (use ks(2) e s' in auto)
qed

end
