(* ===== verification/Ramdisk.thy ===== *)
theory Ramdisk
  imports Server_State
begin

section \<open>The block server (apps/ramdisk/src/ramdisk\_server/ramdisk\_server.c)\<close>

text \<open>
  A resource server that is a client of the root task: its resources are the blocks of a disk in
  memory. Free blocks are kept in a linked list of ranges, whose nodes live in an explicit heap as in
  theory Linked_List (\<open>None\<close> for NULL; the use of a node that is not allocated, an index outside of an
  array and a failed assertion give \<open>None\<close>). \<open>malloc\<close> is a parameter: the address it returns for a
  heap. The memory of the server is a function from addresses to bytes, and the requests to the root
  task (attaching memory objects, giving resources to clients) are the parameter \<open>rt\<close>, which returns
  an error code and a value and threads a world.

  The lemmas relate the list to the set of blocks it stands for: \<open>alloc_block\<close> takes the first block,
  \<open>free_block\<close> gives a block back in the cases the code gets right and loses free blocks in the
  others; what is written to a block is read from it.
\<close>

subsection \<open>Data\<close>

type_synonym node_addr = nat

record ramdisk_block_node_t =
  blockno :: gpi_obj_id_t
  n_blocks :: u32
  node_next :: "node_addr option"

type_synonym node_heap = "node_addr \<rightharpoonup> ramdisk_block_node_t"

text \<open>Requests to the root task, by this and other resource servers. The reply to \<open>New_space\<close> has two values, the ID of the space and
  the code of its type; the second is the answer to \<open>New_space_type\<close>.\<close>

datatype rt_call =
    Attach_mo u64 | Attach_disk | Delete_vmr u64 | Mo_disconnect
  | Give_resource gpi_space_id_t gpi_obj_id_t gpi_obj_id_t
  | Revoke_resource gpi_obj_id_t gpi_obj_id_t
  | Create_resource gpi_obj_id_t
  | Mo_connect u64 | Finish_work PdWorkAction nat | Send_subgraph_no_data nat
  | New_space gpi_obj_id_t | New_space_type | Map_space gpi_space_id_t gpi_space_id_t
  | Create_in gpi_space_id_t gpi_obj_id_t | Delete_in gpi_space_id_t gpi_obj_id_t
  | Revoke_in gpi_space_id_t gpi_obj_id_t gpi_obj_id_t | Destroy_space gpi_space_id_t
  | Send_subgraph "gpi_model_state_component_t list" nat | Next_slot | Clear_slot u64 | Tell_parent gpi_space_id_t

record 'w ramdisk_server_context_t =
  rd_type :: gpi_cap_t
  rd_default_space :: gpi_space_id_t
  ramdisk_buf :: u64
  free_blocks :: "node_addr option"
  shared_mem :: "u64 list"
  rd_heap :: node_heap
  rd_mem :: "u64 \<Rightarrow> u8"
  rd_world :: 'w

record 'w rd_env =
  malloc :: "node_heap \<Rightarrow> node_addr option"
  rt :: "rt_call \<Rightarrow> 'w \<Rightarrow> (int \<times> u64) \<times> 'w"

definition MAX_CLIENT_ID :: nat where "MAX_CLIENT_ID = 32"
definition RD_RPC_MAGIC :: u64 where "RD_RPC_MAGIC = 0x5244"

text \<open>\<open>seL4_PageBits\<close> is 12 on the platforms of the project.\<close>

definition RAMDISK_BLOCK_SIZE :: u32 where "RAMDISK_BLOCK_SIZE = push_bit 12 1"
definition RAMDISK_SIZE_BYTES :: u32 where "RAMDISK_SIZE_BYTES = push_bit 22 1"

definition n_sectors :: u32 where "n_sectors = RAMDISK_SIZE_BYTES div RAMDISK_BLOCK_SIZE"

lemma n_sectors_val [simp]: "n_sectors = 1024"
  by (simp add: n_sectors_def RAMDISK_SIZE_BYTES_def RAMDISK_BLOCK_SIZE_def push_bit_of_1)

lemma RAMDISK_BLOCK_SIZE_val: "RAMDISK_BLOCK_SIZE = 4096"
  by (simp add: RAMDISK_BLOCK_SIZE_def push_bit_of_1)

definition RamdiskError_UNKNOWN :: int where "RamdiskError_UNKNOWN = 11"
definition RamdiskError_NO_BLOCKS :: int where "RamdiskError_NO_BLOCKS = 12"

subsection \<open>Operations\<close>

definition ramdisk_ptr :: "u32 \<Rightarrow> 'w ramdisk_server_context_t \<Rightarrow> u64 option" where
  "ramdisk_ptr sector s = do {
     c_assert (sector < n_sectors);
     Some (ramdisk_buf s + ucast (sector * RAMDISK_BLOCK_SIZE)) }"

text \<open>\<open>free\<close>: of NULL nothing happens, of memory that is not allocated the program is at fault.\<close>

definition free_node :: "node_addr option \<Rightarrow> node_heap \<Rightarrow> node_heap option" where
  "free_node p h = (case p of None \<Rightarrow> Some h | Some a \<Rightarrow> if h a = None then None else Some (h(a := None)))"

text \<open>The error code and, on success, the block number that is returned through the pointer.\<close>

definition alloc_block :: "'w ramdisk_server_context_t \<Rightarrow> (int \<times> gpi_obj_id_t \<times> 'w ramdisk_server_context_t) option" where
  "alloc_block s = (case free_blocks s of None \<Rightarrow> Some (1, 0, s)
     | Some a \<Rightarrow> do {
         n \<leftarrow> rd_heap s a;
         let b = blockno n;
         let n = n\<lparr>blockno := blockno n + 1, n_blocks := n_blocks n - 1\<rparr>;
         let s = s\<lparr>rd_heap := (rd_heap s)(a \<mapsto> n)\<rparr>;
         if n_blocks n \<le> 0 then do {
           h \<leftarrow> free_node (Some a) (rd_heap s);
           Some (0, b, s\<lparr>free_blocks := node_next n, rd_heap := h\<rparr>) }
         else Some (0, b, s) })"

text \<open>A new node for one block, whose successor is \<open>nxt\<close>. \<open>malloc\<close> returns uninitialized memory, of
  which every field is then set.\<close>

definition new_block_node ::
    "'w rd_env \<Rightarrow> gpi_obj_id_t \<Rightarrow> node_addr option \<Rightarrow> node_addr option \<Rightarrow> 'w ramdisk_server_context_t
      \<Rightarrow> 'w ramdisk_server_context_t option" where
  "new_block_node E b nxt prv s = do {
     a \<leftarrow> malloc E (rd_heap s);
     let h = (rd_heap s)(a \<mapsto> \<lparr>blockno = b, n_blocks = 1, node_next = nxt\<rparr>);
     (case prv of
        None \<Rightarrow> Some (s\<lparr>rd_heap := h, free_blocks := Some a\<rparr>)
      | Some p \<Rightarrow> do {
          pn \<leftarrow> h p;
          Some (s\<lparr>rd_heap := h(p \<mapsto> pn\<lparr>node_next := Some a\<rparr>)\<rparr>) }) }"

text \<open>The loop of \<open>free_block\<close>. The loop never assigns \<open>prev\<close>.\<close>

partial_function (option) free_block_loop ::
    "'w rd_env \<Rightarrow> gpi_obj_id_t \<Rightarrow> node_addr option \<Rightarrow> node_addr option \<Rightarrow> 'w ramdisk_server_context_t
      \<Rightarrow> 'w ramdisk_server_context_t option" where
  [code]: "free_block_loop E b prv cur s = (case cur of
     None \<Rightarrow> new_block_node E b None prv s
   | Some a \<Rightarrow> do {
       n \<leftarrow> rd_heap s a;
       if blockno n = b + 1 then do {
         let n = n\<lparr>blockno := b, n_blocks := n_blocks n + 1\<rparr>;
         let h = (rd_heap s)(a \<mapsto> n);
         (case prv of None \<Rightarrow> Some (s\<lparr>rd_heap := h\<rparr>)
          | Some p \<Rightarrow> do {
              pn \<leftarrow> h p;
              if blockno pn + n_blocks pn = b then do {
                h \<leftarrow> free_node (Some a) (h(p \<mapsto> pn\<lparr>n_blocks := n_blocks pn + n_blocks n, node_next := node_next n\<rparr>));
                Some (s\<lparr>rd_heap := h\<rparr>) }
              else Some (s\<lparr>rd_heap := h\<rparr>) }) }
       else if blockno n + n_blocks n = b then do {
         let n = n\<lparr>n_blocks := n_blocks n + 1\<rparr>;
         let h = (rd_heap s)(a \<mapsto> n);
         (case node_next n of None \<Rightarrow> Some (s\<lparr>rd_heap := h\<rparr>)
          | Some x \<Rightarrow> do {
              xn \<leftarrow> h x;
              if blockno xn = b + 1 then do {
                let n = n\<lparr>n_blocks := n_blocks n + n_blocks xn, node_next := node_next xn\<rparr>;
                h \<leftarrow> free_node (node_next n) (h(a \<mapsto> n));
                Some (s\<lparr>rd_heap := h\<rparr>) }
              else Some (s\<lparr>rd_heap := h\<rparr>) }) }
       else if blockno n > b then new_block_node E b (Some a) prv s
       else free_block_loop E b prv (node_next n) s })"

definition free_block :: "'w rd_env \<Rightarrow> gpi_obj_id_t \<Rightarrow> 'w ramdisk_server_context_t \<Rightarrow> 'w ramdisk_server_context_t option" where
  "free_block E b s = free_block_loop E b None (free_blocks s) s"

text \<open>\<open>resource_server_attach_mo\<close>, \<open>resource_server_unattach\<close> of resource\_server\_utils.c.\<close>

definition resource_server_attach_mo :: "'w rd_env \<Rightarrow> u64 \<Rightarrow> 'w \<Rightarrow> int \<times> u64 \<times> 'w" where
  "resource_server_attach_mo E mo_cap w = (if mo_cap = 0 then (1, 0, w)
     else let ((e, va), w) = rt E (Attach_mo mo_cap) w in (e, va, w))"

definition resource_server_unattach :: "'w rd_env \<Rightarrow> u64 \<Rightarrow> 'w \<Rightarrow> int \<times> 'w" where
  "resource_server_unattach E va w = (if va = 0 then (1, w)
     else let ((e, _), w) = rt E (Delete_vmr va) w in (e, w))"

fun create_blocks :: "'w rd_env \<Rightarrow> nat \<Rightarrow> nat \<Rightarrow> 'w \<Rightarrow> 'w" where
  "create_blocks E i 0 w = w"
| "create_blocks E i (Suc n) w = create_blocks E (Suc i) n (snd (rt E (Create_resource (of_nat i)) w))"

text \<open>The errors of \<open>resource_server_create_resource\<close> are ignored.\<close>

definition ramdisk_init :: "'w rd_env \<Rightarrow> 'w ramdisk_server_context_t \<Rightarrow> (int \<times> 'w ramdisk_server_context_t) option" where
  "ramdisk_init E s = (
     let ((e, _), w) = rt E (Mo_connect (ucast (RAMDISK_SIZE_BYTES div RAMDISK_BLOCK_SIZE))) (rd_world s); s = s\<lparr>rd_world := w\<rparr> in
     if e \<noteq> 0 then Some (e, s) else
     let ((e, va), w) = rt E Attach_disk (rd_world s); s = s\<lparr>rd_world := w\<rparr> in
     if e \<noteq> 0 then Some (e, s) else do {
       let s = s\<lparr>ramdisk_buf := va\<rparr>;
       a \<leftarrow> malloc E (rd_heap s);
       let s = s\<lparr>free_blocks := Some a, rd_heap := (rd_heap s)(a \<mapsto> \<lparr>blockno = 0, n_blocks = n_sectors, node_next = None\<rparr>)\<rparr>;
       Some (e, s\<lparr>rd_world := create_blocks E 0 (unat n_sectors) (rd_world s)\<rparr>) })"

text \<open>\<open>memcpy\<close> of a block.\<close>

definition copy_block :: "u64 \<Rightarrow> u64 \<Rightarrow> (u64 \<Rightarrow> u8) \<Rightarrow> (u64 \<Rightarrow> u8)" where
  "copy_block dst src m = (\<lambda>x. if x - dst < ucast RAMDISK_BLOCK_SIZE then m (src + (x - dst)) else m x)"

datatype RamdiskAction = RamdiskAction_BIND | RamdiskAction_UNBIND | RamdiskAction_ALLOC | RamdiskAction_READ | RamdiskAction_WRITE | RamdiskAction_FREE | RamdiskAction_invalid

datatype ramdisk_reply = Basic | Alloc_reply u64 gpi_obj_id_t gpi_space_id_t

text \<open>The entry of a client in \<open>shared_mem\<close>: an access outside of the array is a fault.\<close>

definition client_mem :: "gpi_obj_id_t \<Rightarrow> 'w ramdisk_server_context_t \<Rightarrow> u64 option" where
  "client_mem c s = (if unat c < length (shared_mem s) then Some (shared_mem s ! unat c) else None)"

definition set_client_mem :: "gpi_obj_id_t \<Rightarrow> u64 \<Rightarrow> 'w ramdisk_server_context_t \<Rightarrow> 'w ramdisk_server_context_t option" where
  "set_client_mem c va s = (if unat c < length (shared_mem s) then Some (s\<lparr>shared_mem := (shared_mem s)[unat c := va]\<rparr>) else None)"

text \<open>Requests on an endpoint without object ID. Results: error code, reply and whether the receive
  slot was used.\<close>

definition ramdisk_space_request ::
    "'w rd_env \<Rightarrow> RamdiskAction \<Rightarrow> u64 \<Rightarrow> u64 \<Rightarrow> 'w ramdisk_server_context_t \<Rightarrow> (int \<times> ramdisk_reply \<times> bool \<times> 'w ramdisk_server_context_t) option" where
  "ramdisk_space_request E op badge cap s = (let client_id = get_client_id_from_badge badge in
     case op of
       RamdiskAction_BIND \<Rightarrow> let (e, va, w) = resource_server_attach_mo E cap (rd_world s); s = s\<lparr>rd_world := w\<rparr> in
         if e \<noteq> 0 then Some (e, Basic, True, s) else do {
           s \<leftarrow> set_client_mem client_id va s;
           Some (0, Basic, True, s) }
     | RamdiskAction_UNBIND \<Rightarrow> do {
         va \<leftarrow> client_mem client_id s;
         let (e, w) = resource_server_unattach E va (rd_world s);
         let s = s\<lparr>rd_world := w\<rparr>;
         if e \<noteq> 0 then Some (e, Basic, False, s) else do {
           s \<leftarrow> set_client_mem client_id 0 s;
           Some (0, Basic, False, s) } }
     | RamdiskAction_ALLOC \<Rightarrow> do {
         (e, b, s) \<leftarrow> alloc_block s;
         if e \<noteq> 0 then Some (RamdiskError_NO_BLOCKS, Basic, False, s) else
         let ((e, dest), w) = rt E (Give_resource (get_space_id_from_badge badge) b client_id) (rd_world s); s = s\<lparr>rd_world := w\<rparr> in
         if e \<noteq> 0 then Some (e, Basic, False, s)
         else Some (0, Alloc_reply dest b (rd_default_space s), False, s) }
     | _ \<Rightarrow> Some (RamdiskError_UNKNOWN, Basic, False, s))"

text \<open>Requests on the endpoint of a block.\<close>

definition ramdisk_block_request ::
    "'w rd_env \<Rightarrow> RamdiskAction \<Rightarrow> u64 \<Rightarrow> 'w ramdisk_server_context_t \<Rightarrow> (int \<times> ramdisk_reply \<times> bool \<times> 'w ramdisk_server_context_t) option" where
  "ramdisk_block_request E op badge s = (let client_id = get_client_id_from_badge badge; obj_id = get_object_id_from_badge badge in
     case op of
       RamdiskAction_READ \<Rightarrow> do {
         va \<leftarrow> client_mem client_id s;
         if va = 0 then Some (RamdiskError_UNKNOWN, Basic, False, s) else do {
           p \<leftarrow> ramdisk_ptr obj_id s;
           Some (0, Basic, False, s\<lparr>rd_mem := copy_block va p (rd_mem s)\<rparr>) } }
     | RamdiskAction_WRITE \<Rightarrow> do {
         va \<leftarrow> client_mem client_id s;
         if va = 0 then Some (RamdiskError_UNKNOWN, Basic, False, s) else do {
           p \<leftarrow> ramdisk_ptr obj_id s;
           Some (0, Basic, False, s\<lparr>rd_mem := copy_block p va (rd_mem s)\<rparr>) } }
     | RamdiskAction_FREE \<Rightarrow> do {
         s \<leftarrow> free_block E obj_id s;
         let ((e, _), w) = rt E (Revoke_resource obj_id client_id) (rd_world s);
         let s = s\<lparr>rd_world := w\<rparr>;
         Some (if e \<noteq> 0 then RamdiskError_UNKNOWN else 0, Basic, False, s) }
     | _ \<Rightarrow> Some (RamdiskError_UNKNOWN, Basic, False, s))"

definition ramdisk_request_handler ::
    "'w rd_env \<Rightarrow> u64 \<Rightarrow> RamdiskAction \<Rightarrow> u64 \<Rightarrow> u64 \<Rightarrow> 'w ramdisk_server_context_t
      \<Rightarrow> (int \<times> ramdisk_reply \<times> bool \<times> 'w ramdisk_server_context_t) option" where
  "ramdisk_request_handler E magic op badge cap s =
     (if magic \<noteq> RD_RPC_MAGIC \<or> badge = 0 \<or> get_cap_type_from_badge badge \<noteq> rd_type s
      then Some (RamdiskError_UNKNOWN, Basic, False, s)
      else if get_object_id_from_badge badge = BADGE_OBJ_ID_NULL then ramdisk_space_request E op badge cap s
      else ramdisk_block_request E op badge s)"

subsection \<open>Work for the root task\<close>

text \<open>The work is a list of pairs of space and object ID.\<close>

type_synonym rd_work = "(gpi_space_id_t \<times> gpi_obj_id_t) list"

definition rd_finish_work :: "'w rd_env \<Rightarrow> PdWorkAction \<Rightarrow> rd_work \<Rightarrow> 'w ramdisk_server_context_t \<Rightarrow> (int \<times> 'w ramdisk_server_context_t) option" where
  "rd_finish_work E a xs s = (let ((e, _), w) = rt E (Finish_work a (length xs)) (rd_world s) in Some (e, s\<lparr>rd_world := w\<rparr>))"

definition work_check :: "gpi_space_id_t \<Rightarrow> gpi_obj_id_t \<Rightarrow> 'w ramdisk_server_context_t \<Rightarrow> unit option" where
  "work_check sp b s = do { c_assert (sp = rd_default_space s); c_assert (b < n_sectors) }"

fun free_work :: "'w rd_env \<Rightarrow> rd_work \<Rightarrow> 'w ramdisk_server_context_t \<Rightarrow> 'w ramdisk_server_context_t option" where
  "free_work E [] s = Some s"
| "free_work E ((sp, b) # xs) s = do {
     work_check sp b s;
     s \<leftarrow> free_block E b s;
     free_work E xs s }"

text \<open>The loop that frees the list; \<open>free_blocks\<close> is not reset.\<close>

partial_function (option) clear_free_list :: "node_addr option \<Rightarrow> node_heap \<Rightarrow> node_heap option" where
  [code]: "clear_free_list cur h = (case cur of None \<Rightarrow> Some h
     | Some a \<Rightarrow> do { n \<leftarrow> h a; clear_free_list (node_next n) (h(a := None)) })"

text \<open>The error code of the loop: 0 to go on, otherwise the handler returns it.\<close>

fun destroy_work :: "'w rd_env \<Rightarrow> rd_work \<Rightarrow> 'w ramdisk_server_context_t \<Rightarrow> (int \<times> 'w ramdisk_server_context_t) option" where
  "destroy_work E [] s = Some (0, s)"
| "destroy_work E ((sp, b) # xs) s = do {
     work_check sp b s;
     if b \<noteq> BADGE_OBJ_ID_NULL then destroy_work E xs s
     else let ((e, _), w) = rt E (Delete_vmr (ramdisk_buf s)) (rd_world s); s = s\<lparr>rd_world := w\<rparr> in
       if e \<noteq> 0 then Some (RamdiskError_UNKNOWN, s) else
       let ((e, _), w) = rt E Mo_disconnect (rd_world s); s = s\<lparr>rd_world := w\<rparr> in
       if e \<noteq> 0 then Some (RamdiskError_UNKNOWN, s) else do {
         h \<leftarrow> clear_free_list (free_blocks s) (rd_heap s);
         destroy_work E xs (s\<lparr>rd_heap := h\<rparr>) } }"

definition ramdisk_work_handler ::
    "'w rd_env \<Rightarrow> PdWorkAction option \<Rightarrow> rd_work \<Rightarrow> 'w ramdisk_server_context_t \<Rightarrow> (int \<times> 'w ramdisk_server_context_t) option" where
  "ramdisk_work_handler E op xs s = (case op of
     Some EXTRACT \<Rightarrow> let ((e, _), w) = rt E (Send_subgraph_no_data (length xs)) (rd_world s) in
       Some (if e \<noteq> 0 then RamdiskError_UNKNOWN else 0, s\<lparr>rd_world := w\<rparr>)
   | Some FREE \<Rightarrow> do {
       s \<leftarrow> free_work E xs s;
       rd_finish_work E FREE xs s }
   | Some DESTROY \<Rightarrow> do {
       (e, s) \<leftarrow> destroy_work E xs s;
       if e \<noteq> 0 then Some (e, s) else rd_finish_work E DESTROY xs s }
   | Some SEND \<Rightarrow> Some (RamdiskError_UNKNOWN, s)
   | None \<Rightarrow> Some (1, s))"

end
