(* ===== verification/Ramdisk_Blocks.thy ===== *)
theory Ramdisk_Blocks
  imports Ramdisk
begin

section \<open>The free list of the block server\<close>

text \<open>
  The list of ranges is related to the set of free blocks. The entries of the list are triples of
  the address of a node, its first block and the number of its blocks.
\<close>

type_synonym range_entry = "node_addr \<times> nat \<times> nat"

fun repr :: "node_heap \<Rightarrow> node_addr option \<Rightarrow> range_entry list \<Rightarrow> bool" where
  "repr h p [] \<longleftrightarrow> p = None"
| "repr h p ((a, x, n) # xs) \<longleftrightarrow> p = Some a \<and> a \<notin> fst ` set xs \<and>
     (\<exists>nd. h a = Some nd \<and> unat (blockno nd) = x \<and> unat (n_blocks nd) = n \<and> repr h (node_next nd) xs)"

fun ranges_wf :: "nat \<Rightarrow> range_entry list \<Rightarrow> bool" where
  "ranges_wf lo [] \<longleftrightarrow> True"
| "ranges_wf lo ((a, x, n) # xs) \<longleftrightarrow> lo \<le> x \<and> 0 < n \<and> x + n \<le> unat n_sectors \<and> ranges_wf (x + n + 1) xs"

fun blocks_of :: "range_entry list \<Rightarrow> nat set" where
  "blocks_of [] = {}"
| "blocks_of ((a, x, n) # xs) = {x ..< x + n} \<union> blocks_of xs"

text \<open>\<open>free_set s S\<close>: the free list is sorted, its ranges do not touch, and they contain the blocks
  \<open>S\<close>.\<close>

definition free_set :: "'w ramdisk_server_context_t \<Rightarrow> nat set \<Rightarrow> bool" where
  "free_set s S \<longleftrightarrow> (\<exists>xs. repr (rd_heap s) (free_blocks s) xs \<and> ranges_wf 0 xs \<and> S = blocks_of xs)"

lemma repr_frame: "repr h p xs \<Longrightarrow> (\<And>a. a \<in> fst ` set xs \<Longrightarrow> h' a = h a) \<Longrightarrow> repr h' p xs"
  by (induction h p xs rule: repr.induct) auto

lemma repr_upd [simp]: "a \<notin> fst ` set xs \<Longrightarrow> repr (h(a := v)) p xs \<longleftrightarrow> repr h p xs"
  by (rule iffI; erule repr_frame; metis fun_upd_other)

lemma repr_alloc: "repr h p xs \<Longrightarrow> a \<in> fst ` set xs \<Longrightarrow> h a \<noteq> None"
  by (induction h p xs rule: repr.induct) auto

lemma ranges_wf_mono: "ranges_wf lo xs \<Longrightarrow> lo' \<le> lo \<Longrightarrow> ranges_wf lo' xs"
  by (cases xs) (auto split: prod.splits)

lemma ranges_wf_bounds: "ranges_wf lo xs \<Longrightarrow> b \<in> blocks_of xs \<Longrightarrow> lo \<le> b \<and> b < unat n_sectors"
  by (induction lo xs rule: ranges_wf.induct) force+

lemma word_at: "unat (w :: u32) = k \<Longrightarrow> w = of_nat k"
  by auto

lemma u32_of_nat_eq: "m < 2 ^ 32 \<Longrightarrow> n < 2 ^ 32 \<Longrightarrow> (of_nat m :: u32) = of_nat n \<longleftrightarrow> m = n"
  by (simp add: word_unat_eq_iff unat_of_nat_small)

lemma u32_of_nat_less: "m < 2 ^ 32 \<Longrightarrow> n < 2 ^ 32 \<Longrightarrow> (of_nat m :: u32) < of_nat n \<longleftrightarrow> m < n"
  by (simp add: word_less_nat_alt unat_of_nat_small)

subsection \<open>Allocation\<close>

text \<open>Allocation takes the lowest free block, and fails exactly when there is none.\<close>

lemma alloc_block_cases:
  assumes "free_set s S"
  shows "(S = {} \<and> alloc_block s = Some (1, 0, s)) \<or>
    (S \<noteq> {} \<and> (\<exists>s'. alloc_block s = Some (0, of_nat (Min S), s') \<and> free_set s' (S - {Min S}) \<and>
      s' = s\<lparr>free_blocks := free_blocks s', rd_heap := rd_heap s'\<rparr>))"
proof -
  obtain xs where xs: "repr (rd_heap s) (free_blocks s) xs" "ranges_wf 0 xs" "S = blocks_of xs"
    using assms by (auto simp: free_set_def)
  show ?thesis
  proof (cases xs)
    case Nil
    then show ?thesis using xs by (auto simp: alloc_block_def)
  next
    case (Cons e ys)
    obtain a x n where e: "e = (a, x, n)" by (cases e)
    obtain nd where nd: "free_blocks s = Some a" "rd_heap s a = Some nd" "unat (blockno nd) = x" "unat (n_blocks nd) = n"
      "repr (rd_heap s) (node_next nd) ys" "a \<notin> fst ` set ys"
      using xs(1) Cons e by auto
    have w: "0 < n" "x + n \<le> 1024" "ranges_wf (x + n + 1) ys" using xs(2) Cons e by auto
    have above: "y \<in> blocks_of ys \<Longrightarrow> x + n < y" for y using ranges_wf_bounds [OF w(3)] by fastforce
    have S: "S = {x ..< x + n} \<union> blocks_of ys" using xs(3) Cons e by simp
    have fin: "finite S" using ranges_wf_bounds [OF xs(2)] xs(3) by (intro finite_subset [of S "{..<unat n_sectors}"]) auto
    have min: "Min S = x" using fin w(1) by (intro Min_eqI) (auto simp: S dest: above)
    have b: "blockno nd = of_nat x" "n_blocks nd = of_nat n" using nd(3,4) by (simp_all add: word_at)
    have S': "S - {x} = {x + 1 ..< x + n} \<union> blocks_of ys" using w(1) above by (force simp: S)
    show ?thesis
    proof (cases "n = 1")
      case True
      have w0: "ranges_wf 0 ys" using w(3) by (rule ranges_wf_mono) simp
      have "alloc_block s = Some (0, of_nat x, s\<lparr>free_blocks := node_next nd, rd_heap := (rd_heap s)(a := None)\<rparr>)"
        using nd b True by (simp add: alloc_block_def Let_def free_node_def)
      moreover have "free_set (s\<lparr>free_blocks := node_next nd, rd_heap := (rd_heap s)(a := None)\<rparr>) (S - {x})"
        unfolding free_set_def using nd(5,6) w0 S' True by (intro exI [of _ ys]) (simp del: fun_upd_apply)
      ultimately show ?thesis using min S w by auto
    next
      case False
      let ?nd = "nd\<lparr>blockno := blockno nd + 1, n_blocks := n_blocks nd - 1\<rparr>"
      have u: "unat (blockno nd + 1) = x + 1" "unat (n_blocks nd - 1) = n - 1"
        using w(1,2) b by (simp_all add: unat_word_ariths unat_of_nat_small unat_sub word_le_nat_alt)
      then have "\<not> n_blocks nd - 1 \<le> 0" using False w(1) by (simp add: word_le_nat_alt)
      then have "alloc_block s = Some (0, of_nat x, s\<lparr>rd_heap := (rd_heap s)(a \<mapsto> ?nd)\<rparr>)"
        using nd b by (simp add: alloc_block_def Let_def)
      moreover have "free_set (s\<lparr>rd_heap := (rd_heap s)(a \<mapsto> ?nd)\<rparr>) (S - {x})"
        unfolding free_set_def using nd w S' False u
        by (intro exI [of _ "(a, x + 1, n - 1) # ys"]) (auto simp: nd)
      ultimately show ?thesis using min S w by auto
    qed
  qed
qed

subsection \<open>Giving a block back\<close>

text \<open>What the loop does to the entries from the current node on: it changes a node of the list, or it
  makes a new first node, before the entries that are left.\<close>

datatype freed_list = In_Place "range_entry list" | New_Head "range_entry list"

fun freed :: "nat \<Rightarrow> range_entry list \<Rightarrow> freed_list" where
  "freed b [] = New_Head []"
| "freed b ((a, x, n) # xs) =
     (if x = b + 1 then In_Place ((a, b, n + 1) # xs)
      else if x + n = b then In_Place (case xs of (a', y, m) # ys \<Rightarrow> if y = b + 1 then (a, x, n + 1 + m) # ys else (a, x, n + 1) # xs
                                       | [] \<Rightarrow> [(a, x, n + 1)])
      else if b < x then New_Head ((a, x, n) # xs)
      else (case freed b xs of In_Place ys \<Rightarrow> In_Place ((a, x, n) # ys) | New_Head ys \<Rightarrow> New_Head ys))"

text \<open>The block closes the gap between two ranges and there is a third one.\<close>

definition fills_gap :: "nat \<Rightarrow> nat set \<Rightarrow> bool" where
  "fills_gap b S \<longleftrightarrow> 0 < b \<and> b - 1 \<in> S \<and> b + 1 \<in> S \<and> (\<exists>x \<in> S. b < x \<and> \<not> {b <.. x} \<subseteq> S)"

lemma freed_addrs: "freed b xs = In_Place ys \<Longrightarrow> fst ` set ys \<subseteq> fst ` set xs"
  by (induction b xs arbitrary: ys rule: freed.induct) (auto split: if_splits list.splits freed_list.splits, force)

lemma fills_gap_tail:
  assumes "ranges_wf lo ((a, x, n) # xs)" "fills_gap b (blocks_of xs)"
  shows "fills_gap b (blocks_of ((a, x, n) # xs))"
proof -
  have "ranges_wf (x + n + 1) xs" using assms(1) by simp
  then have above: "c \<in> blocks_of xs \<Longrightarrow> x + n < c" for c using ranges_wf_bounds by fastforce
  have "x + n < b" using assms(2) above [of "b - 1"] by (simp add: fills_gap_def)
  then show ?thesis using assms(2) by (fastforce simp: fills_gap_def)
qed

lemma fills_gap_third:
  assumes "ranges_wf lo ((a, x, n) # (a', b + 1, m) # e # ys)" "x + n = b"
  shows "fills_gap b (blocks_of ((a, x, n) # (a', b + 1, m) # e # ys))"
proof -
  obtain a'' y k where e: "e = (a'', y, k)" by (cases e)
  have w: "0 < n" "0 < m" "b + 1 + m < y" "0 < k" "ranges_wf (y + k + 1) ys" using assms e by auto
  have "c \<in> blocks_of ys \<Longrightarrow> y + k < c" for c using ranges_wf_bounds [OF w(5)] by fastforce
  then have no: "b + 1 + m \<notin> blocks_of ((a, x, n) # (a', b + 1, m) # e # ys)" using w assms(2) e by force
  have "b + 1 + m \<in> {b <.. y}" using w by simp
  with no have "\<not> {b <.. y} \<subseteq> blocks_of ((a, x, n) # (a', b + 1, m) # e # ys)" by blast
  moreover have "b - 1 \<in> {x ..< x + n}" "0 < b" using w assms(2) by auto
  ultimately show ?thesis using w e unfolding fills_gap_def by (intro conjI bexI [of _ y]) auto
qed

lemma freed_blocks:
  assumes "ranges_wf lo xs" "b \<notin> blocks_of xs" "lo \<le> b" "b < unat n_sectors"
  shows "case freed b xs of
      In_Place ys \<Rightarrow> (b + 1 \<in> blocks_of xs \<or> (lo < b \<and> b - 1 \<in> blocks_of xs)) \<and>
        ranges_wf lo ys \<and> blocks_of ys = insert b (blocks_of xs)
    | New_Head ys \<Rightarrow> \<not> (b + 1 \<in> blocks_of xs \<or> (lo < b \<and> b - 1 \<in> blocks_of xs)) \<and>
        ranges_wf (b + 2) ys \<and> blocks_of ys = {x \<in> blocks_of xs. b < x} \<and> set ys \<subseteq> set xs"
  using assms
proof (induction b xs arbitrary: lo rule: freed.induct)
  case (2 b a x n xs)
  have w: "lo \<le> x" "0 < n" "x + n \<le> 1024" "ranges_wf (x + n + 1) xs" using "2.prems"(1) by auto
  have above: "y \<in> blocks_of xs \<Longrightarrow> x + n < y" for y using ranges_wf_bounds [OF w(4)] by fastforce
  have no: "b \<notin> {x ..< x + n}" "b \<notin> blocks_of xs" using "2.prems"(2) by auto
  consider "x = b + 1" | "x + n = b" | "b + 1 < x" | "x + n < b" using no(1) by force
  then show ?case
  proof cases
    case 1
    then show ?thesis using w "2.prems"(3) by auto
  next
    case 2
    show ?thesis
    proof (cases xs)
      case Nil
      then show ?thesis using 2 w "2.prems"(4) by auto
    next
      case (Cons e ys)
      obtain a' y m where e: "e = (a', y, m)" by (cases e)
      show ?thesis using 2 w Cons e "2.prems"(4) by (auto simp: ranges_wf_mono)
    qed
  next
    case 3
    then have "b - 1 \<notin> blocks_of ((a, x, n) # xs)" "b + 1 \<notin> blocks_of ((a, x, n) # xs)" using above by force+
    moreover have "y \<in> blocks_of xs \<Longrightarrow> b < y" for y using 3 above by fastforce
    ultimately show ?thesis using 3 w above by auto
  next
    case 4
    have lo: "x + n + 1 \<le> b" using 4 by simp
    have adj: "b + 1 \<in> blocks_of xs \<or> (lo < b \<and> b - 1 \<in> blocks_of ((a, x, n) # xs)) \<longleftrightarrow>
      b + 1 \<in> blocks_of xs \<or> (x + n + 1 < b \<and> b - 1 \<in> blocks_of xs)"
      using 4 w above by force
    have nx: "x \<noteq> b + 1" "x + n \<noteq> b" "\<not> b < x" using 4 by auto
    note IH = "2.IH" [OF nx w(4) no(2) lo "2.prems"(4)]
    have low: "{y \<in> blocks_of ((a, x, n) # xs). b < y} = {y \<in> blocks_of xs. b < y}" using 4 by auto
    have b1: "b + 1 \<in> blocks_of ((a, x, n) # xs) \<longleftrightarrow> b + 1 \<in> blocks_of xs" using 4 by auto
    show ?thesis
      using IH nx w adj low b1 by (auto split: freed_list.splits)
  qed
qed auto

lemma new_block_node_head:
  assumes "malloc E (rd_heap s) = Some a" "rd_heap s a = None" "repr (rd_heap s) nxt ys"
  shows "\<exists>h. new_block_node E (of_nat b) nxt None s = Some (s\<lparr>rd_heap := h, free_blocks := Some a\<rparr>) \<and>
    (\<forall>c. c \<noteq> a \<longrightarrow> h c = rd_heap s c) \<and> (b < 2 ^ 32 \<longrightarrow> repr h (Some a) ((a, b, 1) # ys))"
proof -
  have a: "a \<notin> fst ` set ys" using assms(2) repr_alloc [OF assms(3)] by blast
  then show ?thesis using assms by (auto simp: new_block_node_def Let_def unat_of_nat_small)
qed

lemma free_block_loop_spec:
  assumes "repr (rd_heap s) cur xs" "ranges_wf lo xs" "b \<notin> blocks_of xs" "lo \<le> b" "b < unat n_sectors"
    and "\<not> fills_gap b (blocks_of xs)" and m: "malloc E (rd_heap s) = Some a0" "rd_heap s a0 = None"
  shows "\<exists>h f. free_block_loop E (of_nat b) None cur s = Some (s\<lparr>rd_heap := h, free_blocks := f\<rparr>) \<and>
    (\<forall>a. a \<notin> insert a0 (fst ` set xs) \<longrightarrow> h a = rd_heap s a) \<and>
    (case freed b xs of
       In_Place ys \<Rightarrow> f = free_blocks s \<and> repr h cur ys \<and> (\<forall>a. a \<notin> fst ` set xs \<longrightarrow> h a = rd_heap s a)
     | New_Head ys \<Rightarrow> f = Some a0 \<and> repr h f ((a0, b, 1) # ys))"
  using assms(1-6)
proof (induction xs arbitrary: cur lo)
  case Nil
  then show ?case using new_block_node_head [OF m, of None "[]" b] by (subst free_block_loop.simps) auto
next
  case (Cons e xs)
  obtain a x n where e: "e = (a, x, n)" by (cases e)
  obtain nd where nd: "cur = Some a" "rd_heap s a = Some nd" "unat (blockno nd) = x" "unat (n_blocks nd) = n"
    "repr (rd_heap s) (node_next nd) xs" "a \<notin> fst ` set xs"
    using Cons.prems(1) e by auto
  have w: "0 < n" "x + n \<le> 1024" "ranges_wf (x + n + 1) xs" using Cons.prems(2) e by auto
  have bl: "blockno nd = of_nat x" "n_blocks nd = of_nat n" using nd(3,4) by (simp_all add: word_at)
  have b: "b < 1024" using Cons.prems(5) by simp
  have no: "b \<notin> {x ..< x + n}" "b \<notin> blocks_of xs" using Cons.prems(3) e by auto
  have c1: "blockno nd = of_nat b + 1 \<longleftrightarrow> x = b + 1"
    using u32_of_nat_eq [of x "b + 1"] b w bl by (simp add: add.commute)
  have c2: "blockno nd + n_blocks nd = of_nat b \<longleftrightarrow> x + n = b"
    using u32_of_nat_eq [of "x + n" b] b w bl by simp
  have c3: "blockno nd > of_nat b \<longleftrightarrow> b < x"
    using u32_of_nat_less [of b x] b w bl by simp
  have cs: "free_block_loop E (of_nat b) None cur s =
     (if x = b + 1 then Some (s\<lparr>rd_heap := (rd_heap s)(a \<mapsto> nd\<lparr>blockno := of_nat b, n_blocks := n_blocks nd + 1\<rparr>)\<rparr>)
      else if x + n = b then (let n = nd\<lparr>n_blocks := n_blocks nd + 1\<rparr>; h = (rd_heap s)(a \<mapsto> n) in
         (case node_next nd of None \<Rightarrow> Some (s\<lparr>rd_heap := h\<rparr>)
          | Some x \<Rightarrow> do {
              xn \<leftarrow> h x;
              if blockno xn = of_nat b + 1 then do {
                let n = n\<lparr>n_blocks := n_blocks n + n_blocks xn, node_next := node_next xn\<rparr>;
                h \<leftarrow> free_node (node_next n) (h(a \<mapsto> n));
                Some (s\<lparr>rd_heap := h\<rparr>) }
              else Some (s\<lparr>rd_heap := h\<rparr>) }))
      else if b < x then new_block_node E (of_nat b) (Some a) None s
      else free_block_loop E (of_nat b) None (node_next nd) s)"
    unfolding c1 [symmetric] c2 [symmetric] c3 [symmetric]
    by (subst free_block_loop.simps) (use nd in \<open>simp add: Let_def\<close>)
  consider "x = b + 1" | "x + n = b" | "b + 1 < x" | "x + n < b" using no(1) by force
  then show ?case
  proof cases
    case 1
    have "unat (of_nat b :: u32) = b" "unat (n_blocks nd + 1) = n + 1"
      using b w bl by (simp_all add: unat_of_nat_small unat_word_ariths)
    then show ?thesis using 1 cs nd e
      by (intro exI [of _ "(rd_heap s)(a \<mapsto> nd\<lparr>blockno := of_nat b, n_blocks := n_blocks nd + 1\<rparr>)"] exI [of _ "free_blocks s"])
        (auto simp del: fun_upd_apply simp: fun_upd_same fun_upd_other)
  next
    case 2
    let ?n1 = "nd\<lparr>n_blocks := n_blocks nd + 1\<rparr>"
    have u: "unat (n_blocks nd + 1) = n + 1" using w bl by (simp add: unat_of_nat_small unat_word_ariths)
    show ?thesis
    proof (cases xs)
      case Nil
      then show ?thesis using 2 cs nd e w u
        by (intro exI [of _ "(rd_heap s)(a \<mapsto> ?n1)"] exI [of _ "free_blocks s"]) (auto simp: Let_def fun_upd_same fun_upd_other simp del: fun_upd_apply)
    next
      case xs: (Cons e' ys)
      obtain a' y m where e': "e' = (a', y, m)" by (cases e')
      obtain nd' where nd': "node_next nd = Some a'" "rd_heap s a' = Some nd'" "unat (blockno nd') = y" "unat (n_blocks nd') = m"
        "repr (rd_heap s) (node_next nd') ys" "a' \<notin> fst ` set ys" "a' \<noteq> a" "a \<notin> fst ` set ys"
        using nd(5,6) xs e' by auto
      have w': "y + m \<le> 1024" "0 < m" using w(3) xs e' by auto
      have c4: "blockno nd' = of_nat b + 1 \<longleftrightarrow> y = b + 1"
        using u32_of_nat_eq [of y "b + 1"] b w' word_at [OF nd'(3)] by (simp add: add.commute)
      show ?thesis
      proof (cases "y = b + 1")
        case False
        then show ?thesis using 2 cs nd nd' e e' w u xs c4
          by (intro exI [of _ "(rd_heap s)(a \<mapsto> ?n1)"] exI [of _ "free_blocks s"]) (auto simp: Let_def fun_upd_same fun_upd_other simp del: fun_upd_apply)
      next
        case True
        have "ys = []"
        proof (rule ccontr)
          assume "ys \<noteq> []"
          then obtain e'' zs where ys: "ys = e'' # zs" by (cases ys) auto
          have "fills_gap b (blocks_of (e # xs))"
            using fills_gap_third [of lo a x n a' b m e'' zs] Cons.prems(2) 2 True e e' xs ys by simp
          then show False using Cons.prems(6) by simp
        qed
        then have nn: "node_next nd' = None" using nd'(5) by simp
        have "unat (n_blocks nd + 1 + n_blocks nd') = n + 1 + m"
          using w w' u nd'(4) bl True 2 by (simp add: unat_word_ariths unat_of_nat_small)
        then show ?thesis using 2 cs nd nd' e e' w xs c4 True nn \<open>ys = []\<close>
          by (intro exI [of _ "(rd_heap s)(a \<mapsto> ?n1\<lparr>n_blocks := n_blocks nd + 1 + n_blocks nd', node_next := None\<rparr>)"] exI [of _ "free_blocks s"])
            (auto simp: Let_def free_node_def fun_upd_same fun_upd_other simp del: fun_upd_apply)
      qed
    qed
  next
    case 3
    have "repr (rd_heap s) (Some a) ((a, x, n) # xs)" using nd by simp
    from new_block_node_head [OF m this, of b] show ?thesis using 3 cs e b by (auto simp del: repr.simps)
  next
    case 4
    have lo: "x + n + 1 \<le> b" using 4 by simp
    have "\<not> fills_gap b (blocks_of xs)" using Cons.prems(2,6) fills_gap_tail e by blast
    from Cons.IH [OF nd(5) w(3) no(2) lo Cons.prems(5) this]
    obtain h f where h: "free_block_loop E (of_nat b) None (node_next nd) s = Some (s\<lparr>rd_heap := h, free_blocks := f\<rparr>)"
      "\<forall>a. a \<notin> insert a0 (fst ` set xs) \<longrightarrow> h a = rd_heap s a"
      "case freed b xs of
       In_Place ys \<Rightarrow> f = free_blocks s \<and> repr h (node_next nd) ys \<and> (\<forall>a. a \<notin> fst ` set xs \<longrightarrow> h a = rd_heap s a)
     | New_Head ys \<Rightarrow> f = Some a0 \<and> repr h f ((a0, b, 1) # ys)" by auto
    have "freed b xs = In_Place ys \<Longrightarrow> a \<notin> fst ` set ys" for ys using freed_addrs nd(6) by blast
    then show ?thesis using 4 cs h nd e
      by (intro exI [of _ h] exI [of _ f]) (auto split: freed_list.splits simp del: repr.simps simp: repr.simps(2))
  qed
qed

text \<open>What holds of \<open>malloc\<close>: it returns memory that is not in use.\<close>

definition fresh_at :: "'w rd_env \<Rightarrow> 'w ramdisk_server_context_t \<Rightarrow> bool" where
  "fresh_at E s \<longleftrightarrow> (\<exists>a. malloc E (rd_heap s) = Some a \<and> rd_heap s a = None)"

definition blocks_after_free :: "nat \<Rightarrow> nat set \<Rightarrow> nat set" where
  "blocks_after_free b S = insert b (if b + 1 \<in> S \<or> (0 < b \<and> b - 1 \<in> S) then S else {x \<in> S. b < x})"

lemma free_block_spec:
  assumes S: "free_set s S" "b \<notin> S" "b < unat n_sectors" "\<not> fills_gap b S" and m: "fresh_at E s"
  shows "\<exists>h f. free_block E (of_nat b) s = Some (s\<lparr>rd_heap := h, free_blocks := f\<rparr>) \<and>
    free_set (s\<lparr>rd_heap := h, free_blocks := f\<rparr>) (blocks_after_free b S) \<and>
    (finite (dom (rd_heap s)) \<longrightarrow> finite (dom h))"
proof -
  obtain a0 where m: "malloc E (rd_heap s) = Some a0" "rd_heap s a0 = None" using m by (auto simp: fresh_at_def)
  obtain xs where xs: "repr (rd_heap s) (free_blocks s) xs" "ranges_wf 0 xs" "S = blocks_of xs"
    using S(1) by (auto simp: free_set_def)
  have b: "b \<notin> blocks_of xs" "\<not> fills_gap b (blocks_of xs)" using S xs by auto
  obtain h f where h: "free_block E (of_nat b) s = Some (s\<lparr>rd_heap := h, free_blocks := f\<rparr>)"
    "\<forall>a. a \<notin> insert a0 (fst ` set xs) \<longrightarrow> h a = rd_heap s a"
    "case freed b xs of
       In_Place ys \<Rightarrow> f = free_blocks s \<and> repr h (free_blocks s) ys \<and> (\<forall>a. a \<notin> fst ` set xs \<longrightarrow> h a = rd_heap s a)
     | New_Head ys \<Rightarrow> f = Some a0 \<and> repr h f ((a0, b, 1) # ys)"
    using free_block_loop_spec [OF xs(1,2) b(1) le0 S(3) b(2) m] by (auto simp: free_block_def)
  have "dom h \<subseteq> dom (rd_heap s) \<union> insert a0 (fst ` set xs)" using h(2) by (force simp: domIff)
  then have fin: "finite (dom (rd_heap s)) \<longrightarrow> finite (dom h)" by (auto intro: finite_subset)
  note fb = freed_blocks [OF xs(2) b(1) le0 S(3)]
  show ?thesis
  proof (cases "freed b xs")
    case (In_Place ys)
    then have "free_set (s\<lparr>rd_heap := h, free_blocks := f\<rparr>) (blocks_after_free b S)"
      using h(3) fb xs(3) unfolding free_set_def blocks_after_free_def by (intro exI [of _ ys]) auto
    then show ?thesis using h(1) fin by blast
  next
    case (New_Head ys)
    then have "free_set (s\<lparr>rd_heap := h, free_blocks := f\<rparr>) (blocks_after_free b S)"
      using h(3) fb xs(3) S(3) unfolding free_set_def blocks_after_free_def
      by (intro exI [of _ "(a0, b, 1) # ys"]) (auto simp del: repr.simps)
    then show ?thesis using h(1) fin by blast
  qed
qed

text \<open>
  C29: \<open>free_block\<close> adds a block to the free blocks if it is next to a free one, so that it joins the
  range after it or the range before it, or if it is below all free ones, so that it becomes a new first
  range. Any other block becomes a new range at the head of the list, in front of the ranges above it,
  and the free blocks below it are lost: they can never be allocated again, because the loop does not keep
  the previous node. A block that joins two ranges with a further range behind them (\<open>fills_gap\<close>) is
  excluded; it breaks the list, as shown below. A new node needs memory
  (\<open>fresh_at\<close>).
\<close>

theorem free_block_outcome:
  assumes "free_set s S" and "b \<notin> S" and "b < unat n_sectors" and "\<not> fills_gap b S" and "fresh_at E s"
  shows "\<exists>s'. free_block E (of_nat b) s = Some s' \<and>
    free_set s' (if b + 1 \<in> S \<or> (0 < b \<and> b - 1 \<in> S) \<or> (\<forall>x \<in> S. b < x) then insert b S
                 else insert b {x \<in> S. b < x})"
proof -
  have "(\<forall>x \<in> S. b < x) \<Longrightarrow> {x \<in> S. b < x} = S" by auto
  then have eq: "blocks_after_free b S = (if b + 1 \<in> S \<or> (0 < b \<and> b - 1 \<in> S) \<or> (\<forall>x \<in> S. b < x) then insert b S
      else insert b {x \<in> S. b < x})" by (auto simp: blocks_after_free_def)
  show ?thesis unfolding eq [symmetric] using free_block_spec [OF assms] by blast
qed

subsection \<open>Closing a gap\<close>

text \<open>\<open>broken h p xs\<close>: from \<open>p\<close>, the list has the entries \<open>xs\<close> and then a pointer to freed memory.\<close>

fun broken :: "node_heap \<Rightarrow> node_addr option \<Rightarrow> range_entry list \<Rightarrow> bool" where
  "broken h p [] \<longleftrightarrow> (\<exists>z. p = Some z \<and> h z = None)"
| "broken h p ((a, x, n) # xs) \<longleftrightarrow> p = Some a \<and>
     (\<exists>nd. h a = Some nd \<and> unat (blockno nd) = x \<and> unat (n_blocks nd) = n \<and> broken h (node_next nd) xs)"

lemma broken_walk_faults:
  assumes "broken (rd_heap s) p xs" "\<And>a x n. (a, x, n) \<in> set xs \<Longrightarrow> x + n < c" "c + 1 < 2 ^ 32"
  shows "free_block_loop E (of_nat c) prv p s = None"
  using assms
proof (induction xs arbitrary: p)
  case Nil
  then show ?case by (subst free_block_loop.simps) auto
next
  case (Cons e xs)
  obtain a x n where e: "e = (a, x, n)" by (cases e)
  obtain nd where nd: "p = Some a" "rd_heap s a = Some nd" "unat (blockno nd) = x" "unat (n_blocks nd) = n"
    "broken (rd_heap s) (node_next nd) xs" using Cons.prems(1) e by auto
  have lt: "x + n < c" using Cons.prems(2) [of a x n] e by simp
  have bl: "blockno nd = of_nat x" "n_blocks nd = of_nat n" using nd(3,4) by (simp_all add: word_at)
  have "blockno nd \<noteq> of_nat c + 1"
  proof
    assume "blockno nd = of_nat c + 1"
    then have "unat (of_nat c + 1 :: u32) = x" using nd(3) by simp
    then have "(c + 1) mod 2 ^ 32 = x" using Cons.prems(3) by (simp add: unat_word_ariths unat_of_nat_small)
    then show False using lt Cons.prems(3) by simp
  qed
  moreover have "blockno nd + n_blocks nd \<noteq> of_nat c"
    using u32_of_nat_eq [of "x + n" c] lt Cons.prems(3) bl by simp
  moreover have "\<not> blockno nd > of_nat c"
    using u32_of_nat_less [of c x] lt Cons.prems(3) bl by simp
  ultimately have "free_block_loop E (of_nat c) prv p s = free_block_loop E (of_nat c) prv (node_next nd) s"
    by (subst free_block_loop.simps) (simp add: nd)
  also have "\<dots> = None" using Cons.IH [OF nd(5)] Cons.prems(2,3) by auto
  finally show ?case .
qed

lemma gap_breaks_list:
  assumes "repr (rd_heap s) cur xs" "ranges_wf lo xs" "b \<notin> blocks_of xs" "lo \<le> b" "b < unat n_sectors"
    and "fills_gap b (blocks_of xs)"
  shows "\<exists>h ys. free_block_loop E (of_nat b) None cur s = Some (s\<lparr>rd_heap := h\<rparr>) \<and> broken h cur ys \<and>
    (\<forall>a. a \<notin> fst ` set xs \<longrightarrow> h a = rd_heap s a) \<and> (\<forall>(a, x, n) \<in> set ys. \<exists>y \<in> blocks_of xs. x + n \<le> y + 1)"
  using assms
proof (induction xs arbitrary: cur lo)
  case Nil
  then show ?case by (simp add: fills_gap_def)
next
  case (Cons e xs)
  obtain a x n where e: "e = (a, x, n)" by (cases e)
  obtain nd where nd: "cur = Some a" "rd_heap s a = Some nd" "unat (blockno nd) = x" "unat (n_blocks nd) = n"
    "repr (rd_heap s) (node_next nd) xs" "a \<notin> fst ` set xs"
    using Cons.prems(1) e by auto
  have w: "0 < n" "x + n \<le> 1024" "ranges_wf (x + n + 1) xs" using Cons.prems(2) e by auto
  have above: "c \<in> blocks_of xs \<Longrightarrow> x + n < c" for c using ranges_wf_bounds [OF w(3)] by fastforce
  have bl: "blockno nd = of_nat x" "n_blocks nd = of_nat n" using nd(3,4) by (simp_all add: word_at)
  have b: "b < 1024" using Cons.prems(5) by simp
  have no: "b \<notin> {x ..< x + n}" "b \<notin> blocks_of xs" using Cons.prems(3) e by auto
  have gap: "0 < b" "b - 1 \<in> blocks_of (e # xs)" "b + 1 \<in> blocks_of (e # xs)"
      "\<exists>y \<in> blocks_of (e # xs). b < y \<and> \<not> {b <.. y} \<subseteq> blocks_of (e # xs)"
    using Cons.prems(6) by (auto simp: fills_gap_def)
  have c1: "blockno nd = of_nat b + 1 \<longleftrightarrow> x = b + 1"
    using u32_of_nat_eq [of x "b + 1"] b w bl by (simp add: add.commute)
  have c2: "blockno nd + n_blocks nd = of_nat b \<longleftrightarrow> x + n = b"
    using u32_of_nat_eq [of "x + n" b] b w bl by simp
  have c3: "blockno nd > of_nat b \<longleftrightarrow> b < x"
    using u32_of_nat_less [of b x] b w bl by simp
  consider "x + n = b" | "x + n < b" using no gap(1,2) above [of "b - 1"] e by force
  then show ?case
  proof cases
    case 1
    then have b1: "b + 1 \<in> blocks_of xs" using gap(3) e by simp
    then obtain a' y m ys where xs: "xs = (a', y, m) # ys" by (cases xs) auto
    have w': "x + n < y" "0 < m" "y + m \<le> 1024" "ranges_wf (y + m + 1) ys" using w(3) xs by auto
    have above': "c \<in> blocks_of ys \<Longrightarrow> y + m < c" for c using ranges_wf_bounds [OF w'(4)] by fastforce
    have "b + 1 \<in> {y ..< y + m} \<or> b + 1 \<in> blocks_of ys" using b1 xs by simp
    then have y: "y = b + 1" using w'(1) 1 above' [of "b + 1"] by (elim disjE) auto
    have "ys \<noteq> []"
    proof
      assume "ys = []"
      then have S: "blocks_of (e # xs) = {x ..< x + n} \<union> {b + 1 ..< b + 1 + m}" using e xs y by simp
      obtain z where z: "z \<in> blocks_of (e # xs)" "b < z" "\<not> {b <.. z} \<subseteq> blocks_of (e # xs)" using gap(4) by blast
      then have "z < b + 1 + m" using S 1 by auto
      then have "{b <.. z} \<subseteq> {b + 1 ..< b + 1 + m}" by auto
      then show False using z(3) S by blast
    qed
    then obtain a'' e'' ys' where ys: "ys = (a'', e'') # ys'" by (cases ys) auto
    obtain nd' where nd': "node_next nd = Some a'" "rd_heap s a' = Some nd'" "unat (blockno nd') = y" "unat (n_blocks nd') = m"
      "repr (rd_heap s) (node_next nd') ys" "a' \<noteq> a" "a \<notin> fst ` set ys" "a' \<notin> fst ` set ys"
      using nd(5,6) xs by auto
    obtain nd'' where nd'': "node_next nd' = Some a''" "rd_heap s a'' = Some nd''" "a'' \<noteq> a" "a'' \<noteq> a'"
      using nd'(5,7,8) ys by (cases e'') auto
    have c4: "blockno nd' = of_nat b + 1"
      using word_at [OF nd'(3)] y by (simp add: add.commute)
    let ?nd = "nd\<lparr>n_blocks := n_blocks nd + 1 + n_blocks nd', node_next := Some a''\<rparr>"
    let ?h = "(rd_heap s)(a \<mapsto> ?nd, a'' := None)"
    have "x \<noteq> b + 1" using 1 by simp
    then have "free_block_loop E (of_nat b) None cur s = Some (s\<lparr>rd_heap := ?h\<rparr>)"
      using c1 c2 1 by (subst free_block_loop.simps) (simp add: Let_def free_node_def nd(1,2) nd'(1,2,6) nd''(1-4) c4)
    moreover have "unat (n_blocks nd + 1 + n_blocks nd') = n + 1 + m"
      using w w' nd'(4) bl y 1 by (simp add: unat_word_ariths unat_of_nat_small)
    then have "broken ?h cur [(a, x, n + 1 + m)]" using nd nd'' by simp
    moreover have "b + m \<in> blocks_of (e # xs)" using e xs y w'(2) by auto
    then have "\<exists>y \<in> blocks_of (e # xs). x + (n + 1 + m) \<le> y + 1" using 1 by (intro bexI [of _ "b + m"]) auto
    moreover have "\<forall>c. c \<notin> fst ` set (e # xs) \<longrightarrow> ?h c = rd_heap s c" using e xs ys by auto
    ultimately show ?thesis by (intro exI [of _ ?h] exI [of _ "[(a, x, n + 1 + m)]"] conjI) (simp_all del: fun_upd_apply broken.simps)
  next
    case 2
    have lo: "x + n + 1 \<le> b" using 2 by simp
    have "b - 1 \<in> blocks_of xs" "b + 1 \<in> blocks_of xs" using gap(2,3) 2 e w(1) by auto
    moreover obtain z where z: "z \<in> blocks_of (e # xs)" "b < z" "\<not> {b <.. z} \<subseteq> blocks_of (e # xs)" using gap(4) by blast
    then have "z \<in> blocks_of xs" "\<not> {b <.. z} \<subseteq> blocks_of xs" using 2 e by auto
    ultimately have g: "fills_gap b (blocks_of xs)" using gap(1) z(2) unfolding fills_gap_def by blast
    from Cons.IH [OF nd(5) w(3) no(2) lo Cons.prems(5) g] obtain h ys where
      h: "free_block_loop E (of_nat b) None (node_next nd) s = Some (s\<lparr>rd_heap := h\<rparr>)" "broken h (node_next nd) ys"
      "\<forall>a. a \<notin> fst ` set xs \<longrightarrow> h a = rd_heap s a" "\<forall>(a, x, n) \<in> set ys. \<exists>y \<in> blocks_of xs. x + n \<le> y + 1" by auto
    have "x \<noteq> b + 1" "x + n \<noteq> b" "\<not> b < x" using 2 by auto
    then have "free_block_loop E (of_nat b) None cur s = free_block_loop E (of_nat b) None (node_next nd) s"
      using nd c1 c2 c3 by (subst free_block_loop.simps) simp
    moreover have "broken h cur ((a, x, n) # ys)" using h(2,3) nd by simp
    moreover have "x + n - 1 \<in> blocks_of (e # xs)" using e w(1) by auto
    then have "\<exists>y \<in> blocks_of (e # xs). x + n \<le> y + 1" by force
    moreover have "\<forall>(a, x, n) \<in> set ys. \<exists>y \<in> blocks_of (e # xs). x + n \<le> y + 1" using h(4) e by fastforce
    ultimately show ?thesis using h(1,3) e by (intro exI [of _ h] exI [of _ "(a, x, n) # ys"]) auto
  qed
qed

text \<open>
  C39: a block that closes the gap between two ranges, when there is a third range behind
  them (\<open>fills_gap\<close>), makes the list end in freed memory: the code frees the node after the one it merged.
  If a block beyond all free blocks, and not next to one, is freed after that, \<open>free_block\<close> uses the freed memory.
  Without a third range the code frees a null pointer and nothing dangles.
\<close>

theorem free_block_breaks_list:
  assumes S: "free_set s S" and b: "b \<notin> S" "b < unat n_sectors" "fills_gap b S"
    and c: "\<forall>x \<in> S. x + 1 < c" "c < unat n_sectors"
  shows "\<exists>s'. free_block E (of_nat b) s = Some s' \<and> free_block E (of_nat c) s' = None"
proof -
  obtain xs where xs: "repr (rd_heap s) (free_blocks s) xs" "ranges_wf 0 xs" "S = blocks_of xs"
    using S by (auto simp: free_set_def)
  have b': "b \<notin> blocks_of xs" "fills_gap b (blocks_of xs)" using b xs by auto
  obtain h ys where h: "free_block E (of_nat b) s = Some (s\<lparr>rd_heap := h\<rparr>)" "broken h (free_blocks s) ys"
      "\<forall>(a, x, n) \<in> set ys. \<exists>y \<in> blocks_of xs. x + n \<le> y + 1"
    using gap_breaks_list [OF xs(1,2) b'(1) le0 b(2) b'(2), of E] by (auto simp: free_block_def)
  have "x + n < c" if "(a, x, n) \<in> set ys" for a x n
    using h(3) that c(1) xs(3) by fastforce
  then have "free_block_loop E (of_nat c) None (free_blocks s) (s\<lparr>rd_heap := h\<rparr>) = None"
    using h(2) c(2) by (intro broken_walk_faults [of _ _ ys]) auto
  then show ?thesis using h(1) by (auto simp: free_block_def)
qed

subsection \<open>Allocating and giving back\<close>

text \<open>The sequences of requests of a client that allocates a number of blocks and gives them back in
  the order in which it got them, as the file server does.\<close>

fun alloc_many :: "nat \<Rightarrow> 'w ramdisk_server_context_t \<Rightarrow> (gpi_obj_id_t list \<times> 'w ramdisk_server_context_t) option" where
  "alloc_many 0 s = Some ([], s)"
| "alloc_many (Suc k) s = do {
     (e, b, s) \<leftarrow> alloc_block s;
     if e \<noteq> 0 then None else do {
       (bs, s) \<leftarrow> alloc_many k s;
       Some (b # bs, s) } }"

fun free_many :: "'w rd_env \<Rightarrow> gpi_obj_id_t list \<Rightarrow> 'w ramdisk_server_context_t \<Rightarrow> 'w ramdisk_server_context_t option" where
  "free_many E [] s = Some s"
| "free_many E (b # bs) s = do { s \<leftarrow> free_block E b s; free_many E bs s }"

definition malloc_fresh :: "'w rd_env \<Rightarrow> bool" where
  "malloc_fresh E \<longleftrightarrow> (\<forall>h. finite (dom h) \<longrightarrow> (\<exists>a. malloc E h = Some a \<and> h a = None))"

lemma alloc_many_first:
  assumes "free_set s {m ..< unat n_sectors}" "m + k \<le> unat n_sectors" "finite (dom (rd_heap s))"
  shows "\<exists>s'. alloc_many k s = Some (map of_nat [m ..< m + k], s') \<and> free_set s' {m + k ..< unat n_sectors} \<and>
    finite (dom (rd_heap s'))"
  using assms
proof (induction k arbitrary: m s)
  case (Suc k)
  have min: "Min {m ..< unat n_sectors} = m" using Suc.prems(2) by (intro Min_eqI) auto
  then obtain s1 where s1: "alloc_block s = Some (0, of_nat m, s1)" "free_set s1 ({m ..< unat n_sectors} - {m})"
    using alloc_block_cases [OF Suc.prems(1)] Suc.prems(2) by force
  have "dom (rd_heap s1) \<subseteq> dom (rd_heap s)"
    using s1(1) by (auto simp: alloc_block_def free_node_def Let_def split: option.splits bind_splits if_splits)
  then have fin: "finite (dom (rd_heap s1))" using Suc.prems(3) finite_subset by blast
  have eq: "{m ..< unat n_sectors} - {m} = {m + 1 ..< unat n_sectors}" by auto
  have "\<exists>s'. alloc_many k s1 = Some (map of_nat [m + 1 ..< m + 1 + k], s') \<and> free_set s' {m + 1 + k ..< unat n_sectors} \<and>
      finite (dom (rd_heap s'))"
    using Suc.prems(2) s1(2) fin unfolding eq by (intro Suc.IH) auto
  then obtain s' where "alloc_many k s1 = Some (map of_nat [m + 1 ..< m + 1 + k], s')"
    "free_set s' {m + 1 + k ..< unat n_sectors}" "finite (dom (rd_heap s'))" by auto
  then show ?case using s1(1) by (simp add: upt_conv_Cons del: upt_Suc)
qed auto

lemma free_many_first:
  assumes E: "malloc_fresh E" and "free_set s ({m ..< i} \<union> {m + k ..< unat n_sectors})" "m + k \<le> unat n_sectors"
    "m \<le> i" "i \<le> m + k" "finite (dom (rd_heap s))"
  shows "\<exists>s'. free_many E (map of_nat [i ..< m + k]) s = Some s' \<and> free_set s' {m ..< unat n_sectors}"
  using assms(2-)
proof (induction "m + k - i" arbitrary: i s)
  case 0
  then have "i = m + k" by simp
  moreover have "{m ..< m + k} \<union> {m + k ..< unat n_sectors} = {m ..< unat n_sectors}" using 0 by auto
  ultimately show ?case using 0 by simp
next
  case (Suc d)
  let ?S = "{m ..< i} \<union> {m + k ..< unat n_sectors}"
  have i: "i < m + k" using Suc.hyps(2) by simp
  have fresh: "fresh_at E s" using E Suc.prems(5) by (simp add: malloc_fresh_def fresh_at_def)
  have "\<not> fills_gap i ?S"
  proof
    assume "fills_gap i ?S"
    then obtain x where x: "i + 1 \<in> ?S" "x \<in> ?S" "i < x" "\<not> {i <.. x} \<subseteq> ?S" by (auto simp: fills_gap_def)
    then have "i + 1 = m + k" "x < unat n_sectors" using i by auto
    then show False using x(4) by auto
  qed
  moreover have "i \<notin> ?S" "i < unat n_sectors" using i Suc.prems(2) by auto
  ultimately obtain h f where h: "free_block E (of_nat i) s = Some (s\<lparr>rd_heap := h, free_blocks := f\<rparr>)"
      "free_set (s\<lparr>rd_heap := h, free_blocks := f\<rparr>) (blocks_after_free i ?S)" "finite (dom h)"
    using free_block_spec [OF Suc.prems(1) _ _ _ fresh, of i] Suc.prems(5) by auto
  have "blocks_after_free i ?S = {m ..< Suc i} \<union> {m + k ..< unat n_sectors}"
    using i Suc.prems(3) by (auto simp: blocks_after_free_def)
  then have "free_set (s\<lparr>rd_heap := h, free_blocks := f\<rparr>) ({m ..< Suc i} \<union> {m + k ..< unat n_sectors})" using h(2) by simp
  then have "\<exists>s'. free_many E (map of_nat [Suc i ..< m + k]) (s\<lparr>rd_heap := h, free_blocks := f\<rparr>) = Some s' \<and> free_set s' {m ..< unat n_sectors}"
    using Suc.hyps Suc.prems i h(3) by (intro Suc.hyps(1)) auto
  then show ?case using h(1) i by (simp add: upt_conv_Cons del: upt_Suc)
qed

text \<open>
  Blocks that are allocated one after the other from a free list of one range, and given
  back in the same order, are all free again.
\<close>

theorem alloc_free_roundtrip:
  assumes "malloc_fresh E" and "free_set s {m ..< unat n_sectors}" and "m + k \<le> unat n_sectors"
    and "finite (dom (rd_heap s))"
  shows "\<exists>s1 s2. alloc_many k s = Some (map of_nat [m ..< m + k], s1) \<and> free_many E (map of_nat [m ..< m + k]) s1 = Some s2 \<and>
    free_set s2 {m ..< unat n_sectors}"
proof -
  obtain s1 where s1: "alloc_many k s = Some (map of_nat [m ..< m + k], s1)" "free_set s1 {m + k ..< unat n_sectors}"
    "finite (dom (rd_heap s1))" using alloc_many_first [OF assms(2-4)] by auto
  have "\<exists>s2. free_many E (map of_nat [m ..< m + k]) s1 = Some s2 \<and> free_set s2 {m ..< unat n_sectors}"
    using assms s1 by (intro free_many_first) auto
  then show ?thesis using s1(1) by blast
qed

text \<open>Witnesses: a server with a given free list, and a \<open>malloc\<close> that returns the lowest free address.\<close>

definition disk_with :: "(u32 \<times> u32) list \<Rightarrow> unit ramdisk_server_context_t" where
  "disk_with rs = \<lparr>rd_type = 10, rd_default_space = 7, ramdisk_buf = 0x10000000,
     free_blocks = (if rs = [] then None else Some 0), shared_mem = replicate MAX_CLIENT_ID 0,
     rd_heap = map_of (map (\<lambda>(i, x, n). (i, \<lparr>blockno = x, n_blocks = n, node_next = if Suc i < length rs then Some (Suc i) else None\<rparr>))
       (enumerate 0 rs)),
     rd_mem = (\<lambda>_. 0), rd_world = ()\<rparr>"

definition lowest_malloc :: "unit rd_env" where
  "lowest_malloc = \<lparr>malloc = (\<lambda>h. Some (LEAST a. h a = None)), rt = (\<lambda>_ w. ((0, 0), w))\<rparr>"

lemma lowest_malloc_fresh: "malloc_fresh lowest_malloc"
proof -
  have "\<exists>a. h a = None" if "finite (dom h)" for h :: node_heap
    using that ex_new_if_finite [of "dom h"] by auto
  then show ?thesis by (auto simp: malloc_fresh_def lowest_malloc_def intro: LeastI_ex)
qed

lemma disk_with_finite: "finite (dom (rd_heap (disk_with rs)))"
  by (simp add: disk_with_def finite_dom_map_of)

lemma disk_with_fresh: "fresh_at lowest_malloc (disk_with rs)"
  using lowest_malloc_fresh disk_with_finite by (simp add: malloc_fresh_def fresh_at_def)

theorem free_block_outcome_witness:
  "\<exists>s'. free_block lowest_malloc 15 (disk_with [(10, 2), (20, 1)]) = Some s' \<and> free_set s' {15, 20}"
proof -
  have S: "free_set (disk_with [(10, 2), (20, 1)]) {10, 11, 20}"
    unfolding free_set_def by (rule exI [of _ "[(0, 10, 2), (1, 20, 1)]"]) (auto simp: disk_with_def)
  have "insert 15 {x \<in> {10, 11, 20}. 15 < x} = {15, 20 :: nat}" by auto
  moreover have "\<not> (\<forall>x \<in> {10, 11, 20 :: nat}. 15 < x)" by simp
  moreover have "\<not> fills_gap 15 {10, 11, 20}" by (simp add: fills_gap_def)
  ultimately show ?thesis
    using free_block_outcome [OF S _ _ _ disk_with_fresh, of 15] by simp
qed

theorem free_block_breaks_list_witness:
  "\<exists>s'. free_block lowest_malloc 3 (disk_with [(1, 2), (4, 1), (8, 1)]) = Some s' \<and> free_block lowest_malloc 20 s' = None"
proof -
  have S: "free_set (disk_with [(1, 2), (4, 1), (8, 1)]) {1, 2, 4, 8}"
    unfolding free_set_def by (rule exI [of _ "[(0, 1, 2), (1, 4, 1), (2, 8, 1)]"]) (auto simp: disk_with_def)
  have "\<not> {3 <.. 8} \<subseteq> {1, 2, 4, 8 :: nat}" by (auto dest: subsetD [of _ _ 5])
  then have "fills_gap 3 {1, 2, 4, 8}" by (simp add: fills_gap_def)
  then show ?thesis using free_block_breaks_list [OF S, of 3 20 lowest_malloc] by simp
qed

theorem alloc_free_roundtrip_witness:
  "\<exists>s1 s2. alloc_many 512 (disk_with [(0, n_sectors)]) = Some (map of_nat [0 ..< 512], s1) \<and>
     free_many lowest_malloc (map of_nat [0 ..< 512]) s1 = Some s2 \<and> free_set s2 {0 ..< 1024}"
proof -
  have S: "free_set (disk_with [(0, n_sectors)]) {0 ..< unat n_sectors}"
    unfolding free_set_def by (rule exI [of _ "[(0, 0, 1024)]"]) (auto simp: disk_with_def)
  show ?thesis
    using alloc_free_roundtrip [OF lowest_malloc_fresh S _ disk_with_finite, of 512] by simp
qed

end
