(* ===== verification/Block_Cache.thy ===== *)
theory Block_Cache
  imports Prelude
begin

section \<open>The buffer cache of the file system (apps/xv6fs/src/fs\_server/bio.c)\<close>

text \<open>
  The cache is the list of its buffers in the order of \<open>bcache.head.next\<close> to \<open>bcache.head.prev\<close>
  (most recently used first); a pointer to a buffer is its index in \<open>bcache.buf\<close>. The
  locks of the source are empty functions and \<open>holdingsleep\<close> is always true. A block is the
  function from offsets to bytes, 0 from \<open>BSIZE\<close> on. The disk below the cache is a parameter, a
  record of the two operations behind \<open>disk_rw\<close>. A panic is an endless loop, \<open>None\<close>.

  The locale \<open>block_device\<close> states what a disk promises. In it, the cache is shown to be transparent
  as long as the blocks in use fit into it; no operation of the cache writes to the disk unless \<open>bwrite\<close>
  is called.
\<close>

subsection \<open>Blocks\<close>

type_synonym block = "nat \<Rightarrow> u8"

definition BSIZE :: nat where "BSIZE = 4096"

definition MAXOPBLOCKS :: nat where "MAXOPBLOCKS = 10"
definition NBUF :: nat where "NBUF = MAXOPBLOCKS * 3"
definition ROOTDEV :: u32 where "ROOTDEV = 1"

lemma NBUF_val: "NBUF = 30" by (simp add: NBUF_def MAXOPBLOCKS_def)

definition whole_block :: "block \<Rightarrow> block" where
  "whole_block x = (\<lambda>i. if i < BSIZE then x i else 0)"

lemma whole_block_idem [simp]: "whole_block (whole_block x) = whole_block x"
  by (auto simp: whole_block_def)

subsection \<open>State\<close>

record buf =
  bid :: nat
  buf_valid :: bool
  buf_dev :: u32
  buf_blockno :: u32
  refcnt :: u32
  buf_data :: block

record 'd bcache =
  bufs :: "buf list"
  disk :: 'd

text \<open>A read gives the contents or fails (with a warning on the console); the outer \<open>None\<close> is a fault.\<close>

record 'd disk_ops =
  xv6fs_bread :: "u32 \<Rightarrow> 'd \<Rightarrow> (block option \<times> 'd) option"
  xv6fs_bwrite :: "u32 \<Rightarrow> block \<Rightarrow> 'd \<Rightarrow> (bool \<times> 'd) option"

definition upd_buf :: "nat \<Rightarrow> (buf \<Rightarrow> buf) \<Rightarrow> ('d, 'z) bcache_scheme \<Rightarrow> ('d, 'z) bcache_scheme" where
  "upd_buf i f c = c\<lparr>bufs := map (\<lambda>x. if bid x = i then f x else x) (bufs c)\<rparr>"

definition get_buf :: "nat \<Rightarrow> ('d, 'z) bcache_scheme \<Rightarrow> buf option" where
  "get_buf i c = List.find (\<lambda>x. bid x = i) (bufs c)"

subsection \<open>Operations\<close>

text \<open>Each buffer is inserted behind the head. The memory of a static variable is zero.\<close>

definition binit :: "('d, 'z) bcache_scheme \<Rightarrow> ('d, 'z) bcache_scheme" where
  "binit c = c\<lparr>bufs := rev (map (\<lambda>i. \<lparr>bid = i, buf_valid = False, buf_dev = 0, buf_blockno = 0, refcnt = 0, buf_data = (\<lambda>_. 0)\<rparr>) [0 ..< NBUF])\<rparr>"

definition bget :: "u32 \<Rightarrow> u32 \<Rightarrow> ('d, 'z) bcache_scheme \<Rightarrow> (nat \<times> ('d, 'z) bcache_scheme) option" where
  "bget dev b c =
     (case List.find (\<lambda>x. buf_dev x = dev \<and> buf_blockno x = b) (bufs c) of
        Some x \<Rightarrow> Some (bid x, upd_buf (bid x) (\<lambda>x. x\<lparr>refcnt := refcnt x + 1\<rparr>) c)
      | None \<Rightarrow>
        (case List.find (\<lambda>x. refcnt x = 0) (rev (bufs c)) of
           Some x \<Rightarrow> Some (bid x, upd_buf (bid x) (\<lambda>x. x\<lparr>buf_dev := dev, buf_blockno := b, buf_valid := False, refcnt := 1\<rparr>) c)
         | None \<Rightarrow> None))"

text \<open>\<open>disk_rw\<close> of fs\_server.c. A failed read leaves the data of the buffer as it was.\<close>

definition disk_rw :: "'d disk_ops \<Rightarrow> nat \<Rightarrow> bool \<Rightarrow> ('d, 'z) bcache_scheme \<Rightarrow> ('d, 'z) bcache_scheme option" where
  "disk_rw D i write c = do {
     x \<leftarrow> get_buf i c;
     if write then do {
       (_, d) \<leftarrow> xv6fs_bwrite D (buf_blockno x) (buf_data x) (disk c);
       Some (c\<lparr>disk := d\<rparr>) }
     else do {
       (r, d) \<leftarrow> xv6fs_bread D (buf_blockno x) (disk c);
       Some (case r of None \<Rightarrow> c\<lparr>disk := d\<rparr>
             | Some y \<Rightarrow> upd_buf i (\<lambda>x. x\<lparr>buf_data := y\<rparr>) (c\<lparr>disk := d\<rparr>)) } }"

definition bread :: "'d disk_ops \<Rightarrow> u32 \<Rightarrow> u32 \<Rightarrow> ('d, 'z) bcache_scheme \<Rightarrow> (nat \<times> ('d, 'z) bcache_scheme) option" where
  "bread D dev b c = do {
     (i, c) \<leftarrow> bget dev b c;
     x \<leftarrow> get_buf i c;
     if \<not> buf_valid x then do {
       c \<leftarrow> disk_rw D i False c;
       Some (i, upd_buf i (\<lambda>x. x\<lparr>buf_valid := True\<rparr>) c) }
     else Some (i, c) }"

definition bwrite :: "'d disk_ops \<Rightarrow> nat \<Rightarrow> ('d, 'z) bcache_scheme \<Rightarrow> ('d, 'z) bcache_scheme option" where
  "bwrite D i c = disk_rw D i True c"

definition brelse :: "nat \<Rightarrow> ('d, 'z) bcache_scheme \<Rightarrow> ('d, 'z) bcache_scheme option" where
  "brelse i c = (let c = upd_buf i (\<lambda>x. x\<lparr>refcnt := refcnt x - 1\<rparr>) c in do {
     x \<leftarrow> get_buf i c;
     Some (if refcnt x = 0 then c\<lparr>bufs := x # filter (\<lambda>y. bid y \<noteq> i) (bufs c)\<rparr> else c) })"

definition bpin :: "nat \<Rightarrow> ('d, 'z) bcache_scheme \<Rightarrow> ('d, 'z) bcache_scheme" where
  "bpin i c = upd_buf i (\<lambda>x. x\<lparr>refcnt := refcnt x + 1\<rparr>) c"

definition bunpin :: "nat \<Rightarrow> ('d, 'z) bcache_scheme \<Rightarrow> ('d, 'z) bcache_scheme" where
  "bunpin i c = upd_buf i (\<lambda>x. x\<lparr>refcnt := refcnt x - 1\<rparr>) c"

text \<open>The data of a buffer as the file system reads and writes it through \<open>bp->data\<close>.\<close>

definition data_of :: "nat \<Rightarrow> ('d, 'z) bcache_scheme \<Rightarrow> block" where
  "data_of i c = (case get_buf i c of Some x \<Rightarrow> buf_data x | None \<Rightarrow> (\<lambda>_. 0))"

definition set_data :: "nat \<Rightarrow> block \<Rightarrow> ('d, 'z) bcache_scheme \<Rightarrow> ('d, 'z) bcache_scheme" where
  "set_data i y c = upd_buf i (\<lambda>x. x\<lparr>buf_data := y\<rparr>) c"

text \<open>The idiom of the file system: read a block into a buffer, use or change its data, release it.\<close>

definition with_block ::
    "'d disk_ops \<Rightarrow> u32 \<Rightarrow> u32 \<Rightarrow> (block \<Rightarrow> 'r \<times> block) \<Rightarrow> ('d, 'z) bcache_scheme \<Rightarrow> ('r \<times> ('d, 'z) bcache_scheme) option" where
  "with_block D dev b f c = do {
     (i, c) \<leftarrow> bread D dev b c;
     let (r, y) = f (data_of i c);
     c \<leftarrow> brelse i (set_data i y c);
     Some (r, c) }"

definition read_block :: "'d disk_ops \<Rightarrow> u32 \<Rightarrow> u32 \<Rightarrow> ('d, 'z) bcache_scheme \<Rightarrow> (block \<times> ('d, 'z) bcache_scheme) option" where
  "read_block D dev b c = with_block D dev b (\<lambda>x. (x, x)) c"

subsection \<open>The buffers as a map from blocks\<close>

definition used :: "buf \<Rightarrow> bool" where "used x \<longleftrightarrow> buf_dev x \<noteq> 0"

definition lookup :: "u32 \<Rightarrow> buf list \<Rightarrow> buf option" where
  "lookup b xs = List.find (\<lambda>x. buf_dev x = ROOTDEV \<and> buf_blockno x = b) xs"

text \<open>\<open>cache_inv B c\<close>: the blocks in the cache are all in \<open>B\<close>, which fits into the cache, each block has
  one buffer, and the buffers that were never used come last, but for buffers that are held.\<close>

definition bufs_inv :: "u32 set \<Rightarrow> buf list \<Rightarrow> bool" where
  "bufs_inv B xs \<longleftrightarrow> distinct (map bid xs) \<and> length xs = NBUF \<and> finite B \<and> card B \<le> NBUF \<and>
     (\<forall>x \<in> set xs. used x \<longrightarrow> buf_dev x = ROOTDEV \<and> buf_valid x \<and> buf_blockno x \<in> B) \<and>
     (\<forall>x \<in> set xs. \<not> used x \<longrightarrow> refcnt x = 0) \<and>
     distinct (map buf_blockno (filter used xs)) \<and>
     sorted_wrt (\<lambda>x y. used x \<or> \<not> used y \<or> refcnt y \<noteq> 0) xs"

abbreviation cache_inv :: "u32 set \<Rightarrow> ('d, 'z) bcache_scheme \<Rightarrow> bool" where
  "cache_inv B c \<equiv> bufs_inv B (bufs c)"

definition refs :: "('d, 'z) bcache_scheme \<Rightarrow> u32 \<Rightarrow> nat" where
  "refs c b = (case lookup b (bufs c) of Some x \<Rightarrow> unat (refcnt x) | None \<Rightarrow> 0)"

text \<open>The buffer of a block that is held.\<close>

definition holds :: "('d, 'z) bcache_scheme \<Rightarrow> nat \<Rightarrow> u32 \<Rightarrow> bool" where
  "holds c i b \<longleftrightarrow> (\<exists>x. lookup b (bufs c) = Some x \<and> bid x = i \<and> refcnt x \<noteq> 0)"

text \<open>The buffers that stay held.\<close>

definition keeps_held :: "('d, 'z) bcache_scheme \<Rightarrow> ('d, 'z) bcache_scheme \<Rightarrow> bool" where
  "keeps_held c c' \<longleftrightarrow> (\<forall>i b. holds c i b \<longrightarrow> holds c' i b)"

lemma keeps_held_refl [simp]: "keeps_held c c" by (simp add: keeps_held_def)

lemma keeps_held_trans: "keeps_held c c' \<Longrightarrow> keeps_held c' c'' \<Longrightarrow> keeps_held c c''"
  by (simp add: keeps_held_def)

lemma holds_refs: "holds c i b \<Longrightarrow> 0 < refs c b"
  by (auto simp: holds_def refs_def unat_gt_0)

lemma find_skip: "\<forall>y \<in> set us. \<not> P y \<Longrightarrow> List.find P (us @ ys) = List.find P ys"
  by (induction us) auto

lemma find_split:
  assumes "List.find P xs = Some x"
  obtains us vs where "xs = us @ x # vs" "P x" "\<forall>y \<in> set us. \<not> P y"
proof -
  have "\<exists>us vs. xs = us @ x # vs \<and> P x \<and> (\<forall>y \<in> set us. \<not> P y)"
    using assms
  proof (induction xs)
    case (Cons y ys)
    show ?case
    proof (cases "P y")
      case False
      then obtain us vs where "ys = us @ x # vs" "P x" "\<forall>y \<in> set us. \<not> P y" using Cons by auto
      then show ?thesis using False by (intro exI [of _ "y # us"] exI [of _ vs]) simp
    qed (use Cons in \<open>auto intro: exI [of _ "[]"]\<close>)
  qed simp
  then show ?thesis using that by blast
qed

lemma lookup_iff:
  assumes "bufs_inv B xs"
  shows "lookup b xs = Some x \<longleftrightarrow> x \<in> set xs \<and> used x \<and> buf_blockno x = b"
proof -
  have d: "buf_dev y = ROOTDEV \<longleftrightarrow> used y" if "y \<in> set xs" for y
    using assms that by (auto simp: bufs_inv_def used_def ROOTDEV_def)
  have eq: "y = x" if "y \<in> set xs" "x \<in> set xs" "used x" "used y" "buf_blockno y = buf_blockno x" for x y
    using assms that by (auto simp: bufs_inv_def distinct_map inj_on_def)
  have "lookup b xs = Some x \<longrightarrow> x \<in> set xs \<and> used x \<and> buf_blockno x = b"
    using d by (auto simp: lookup_def find_Some_iff in_set_conv_nth)
  moreover have "lookup b xs = Some x" if x: "x \<in> set xs \<and> used x \<and> buf_blockno x = b"
  proof -
    have "lookup b xs \<noteq> None" using x d [of x] by (auto simp: lookup_def find_None_iff)
    then obtain y where y: "lookup b xs = Some y" by blast
    then have "y \<in> set xs" "used y" "buf_blockno y = b" using d by (auto simp: lookup_def find_Some_iff in_set_conv_nth)
    then show ?thesis using eq x y by blast
  qed
  ultimately show ?thesis by blast
qed

lemma lookup_replace:
  assumes "bufs_inv B (us @ x # vs)" "bufs_inv B' ys" "set ys = set (us @ x' # vs)" "bid x' = bid x"
  shows "lookup b ys = (if used x' \<and> buf_blockno x' = b then Some x'
      else if used x \<and> buf_blockno x = b then None else lookup b (us @ x # vs))"
proof -
  have "bid x \<notin> bid ` set (us @ vs)" using assms(1) by (auto simp: bufs_inv_def)
  then have nx: "x \<notin> set (us @ vs)" "x' \<notin> set (us @ vs)" using assms(4) by (metis imageI)+
  have "lookup b ys = Some y \<longleftrightarrow> (if used x' \<and> buf_blockno x' = b then Some x'
      else if used x \<and> buf_blockno x = b then None else lookup b (us @ x # vs)) = Some y" for y
  proof (cases "used x' \<and> buf_blockno x' = b")
    case True
    then have "lookup b ys = Some x'" using assms(3) by (simp add: lookup_iff [OF assms(2)])
    then show ?thesis using True by auto
  next
    case False
    show ?thesis
    proof (cases "used x \<and> buf_blockno x = b")
      case x: True
      have "y \<notin> set (us @ vs) \<or> \<not> used y \<or> buf_blockno y \<noteq> b" for y
      proof -
        have "lookup b (us @ x # vs) = Some x" using x by (simp add: lookup_iff [OF assms(1)])
        moreover have "lookup b (us @ x # vs) = Some y" if "y \<in> set (us @ vs)" "used y" "buf_blockno y = b"
          using that by (auto simp: lookup_iff [OF assms(1)])
        ultimately show ?thesis using nx by auto
      qed
      then show ?thesis using False x assms(3) by (auto simp: lookup_iff [OF assms(2)])
    next
      case nx': False
      then show ?thesis using False assms(3)
        by (auto simp: lookup_iff [OF assms(2)] lookup_iff [OF assms(1)])
    qed
  qed
  then show ?thesis by (metis option.exhaust)
qed

lemma upd_buf_frame [simp]: "disk (upd_buf i f c) = disk c" "bcache.more (upd_buf i f c) = bcache.more c"
  by (simp_all add: upd_buf_def)

lemma upd_buf_split:
  assumes "bufs c = us @ x # vs" "distinct (map bid (bufs c))"
  shows "bufs (upd_buf (bid x) f c) = us @ f x # vs"
proof -
  have "y \<in> set us \<union> set vs \<Longrightarrow> bid y \<noteq> bid x" for y using assms by (auto simp: image_iff)
  then have "map (\<lambda>y. if bid y = bid x then f y else y) us = us" "map (\<lambda>y. if bid y = bid x then f y else y) vs = vs"
    by (auto intro!: map_idI)
  then show ?thesis using assms(1) by (simp add: upd_buf_def)
qed

lemma get_buf_split:
  assumes "bufs c = us @ x # vs" "distinct (map bid (bufs c))"
  shows "get_buf (bid x) c = Some x"
  using assms find_distinct_key [of bid "bufs c" x] by (simp add: get_buf_def)

lemma bufs_inv_replace:
  assumes "bufs_inv B (us @ x # vs)" "bid x' = bid x" "used x'" "buf_dev x' = ROOTDEV" "buf_valid x'" "buf_blockno x' \<in> B"
    "used x \<and> buf_blockno x' = buf_blockno x \<and> (refcnt x \<noteq> 0 \<longrightarrow> refcnt x' \<noteq> 0) \<or>
     refcnt x' \<noteq> 0 \<and> (\<forall>y \<in> set (us @ x # vs). used y \<longrightarrow> buf_blockno y \<noteq> buf_blockno x')"
  shows "bufs_inv B (us @ x' # vs)"
proof -
  let ?R = "\<lambda>x y. used x \<or> \<not> used y \<or> refcnt y \<noteq> 0"
  have i: "distinct (map bid (us @ x # vs))" "length (us @ x # vs) = NBUF" "finite B" "card B \<le> NBUF"
    "\<forall>x \<in> set (us @ x # vs). used x \<longrightarrow> buf_dev x = ROOTDEV \<and> buf_valid x \<and> buf_blockno x \<in> B"
    "\<forall>x \<in> set (us @ x # vs). \<not> used x \<longrightarrow> refcnt x = 0"
    "distinct (map buf_blockno (filter used (us @ x # vs)))" "sorted_wrt ?R (us @ x # vs)"
    using assms(1) unfolding bufs_inv_def by blast+
  have "sorted_wrt ?R (us @ x' # vs)" using i(8) assms(3,7) by (auto simp: sorted_wrt_append)
  moreover have "distinct (map buf_blockno (filter used (us @ x' # vs)))"
    using i(7) assms(3,7) by (elim disjE) (auto split: if_splits)
  ultimately show ?thesis using i assms(2-6) by (auto simp: bufs_inv_def)
qed

lemma bufs_inv_to_front:
  assumes "bufs_inv B (us @ x # vs)" "bid x' = bid x" "used x" "used x'" "buf_dev x' = ROOTDEV" "buf_valid x'"
    "buf_blockno x' = buf_blockno x"
  shows "bufs_inv B (x' # us @ vs)"
proof -
  let ?R = "\<lambda>x y. used x \<or> \<not> used y \<or> refcnt y \<noteq> 0"
  have i: "distinct (map bid (us @ x # vs))" "length (us @ x # vs) = NBUF" "finite B" "card B \<le> NBUF"
    "\<forall>x \<in> set (us @ x # vs). used x \<longrightarrow> buf_dev x = ROOTDEV \<and> buf_valid x \<and> buf_blockno x \<in> B"
    "\<forall>x \<in> set (us @ x # vs). \<not> used x \<longrightarrow> refcnt x = 0"
    "distinct (map buf_blockno (filter used (us @ x # vs)))" "sorted_wrt ?R (us @ x # vs)"
    using assms(1) unfolding bufs_inv_def by blast+
  have "sorted_wrt ?R (x' # us @ vs)" using i(8) assms(4) by (auto simp: sorted_wrt_append)
  moreover have "distinct (map buf_blockno (filter used (x' # us @ vs)))" using i(7) assms(3,4,7) by auto
  moreover have "distinct (map bid (x' # us @ vs))" using i(1) assms(2) by auto
  ultimately show ?thesis using i(2-6) assms(3-7) unfolding bufs_inv_def by auto
qed

subsection \<open>What a disk promises, and what the cache makes of it\<close>

definition view :: "('d \<Rightarrow> u32 \<Rightarrow> block) \<Rightarrow> ('d, 'z) bcache_scheme \<Rightarrow> u32 \<Rightarrow> block" where
  "view contents c b = (case lookup b (bufs c) of Some x \<Rightarrow> buf_data x | None \<Rightarrow> contents (disk c) b)"

locale block_device =
  fixes D :: "'d disk_ops" and contents :: "'d \<Rightarrow> u32 \<Rightarrow> block" and dev_inv :: "'d \<Rightarrow> bool" and dev_size :: nat
  assumes dev_read: "dev_inv d \<Longrightarrow> unat b < dev_size \<Longrightarrow>
      \<exists>d'. xv6fs_bread D b d = Some (Some (contents d b), d') \<and> dev_inv d' \<and> contents d' = contents d"
    and dev_write: "dev_inv d \<Longrightarrow> unat b < dev_size \<Longrightarrow>
      \<exists>d'. xv6fs_bwrite D b x d = Some (True, d') \<and> dev_inv d' \<and> contents d' = (contents d)(b := whole_block x)"
begin

definition good :: "u32 set \<Rightarrow> ('d, 'z) bcache_scheme \<Rightarrow> bool" where
  "good B c \<longleftrightarrow> cache_inv B c \<and> dev_inv (disk c) \<and> (\<forall>b \<in> B. unat b < dev_size)"

lemma bread_cached:
  assumes g: "good B c" and x: "lookup b (bufs c) = Some x" and r: "refs c b + 1 < 2 ^ 32"
  shows "\<exists>i c'. bread D ROOTDEV b c = Some (i, c') \<and> good B c' \<and> holds c' i b \<and> disk c' = disk c \<and>
    refs c' = (refs c)(b := refs c b + 1) \<and> view contents c' = view contents c \<and> data_of i c' = view contents c b \<and>
    bcache.more c' = bcache.more c \<and> keeps_held c c'"
proof -
  have ci: "bufs_inv B (bufs c)" using g by (simp add: good_def)
  have x': "x \<in> set (bufs c)" "used x" "buf_blockno x = b" using x lookup_iff [OF ci] by auto
  then obtain us vs where sp: "bufs c = us @ x # vs" using split_list by metis
  have di: "distinct (map bid (bufs c))" using ci by (simp add: bufs_inv_def)
  have xv: "buf_valid x" "buf_dev x = ROOTDEV" "b \<in> B" using ci x' by (auto simp: bufs_inv_def)
  let ?x = "x\<lparr>refcnt := refcnt x + 1\<rparr>" and ?c = "upd_buf (bid x) (\<lambda>x. x\<lparr>refcnt := refcnt x + 1\<rparr>) c"
  have r1: "unat (refcnt x + 1) = unat (refcnt x) + 1" using r x by (simp add: refs_def unat_word_ariths)
  then have nz: "refcnt x + 1 \<noteq> 0" by (metis Suc_eq_plus1 nat.distinct(1) unat_0)
  have b: "bufs ?c = us @ ?x # vs" using upd_buf_split [OF sp di] by simp
  have inv: "bufs_inv B (us @ ?x # vs)"
    using ci [unfolded sp]
  proof (rule bufs_inv_replace)
    show "used x \<and> buf_blockno ?x = buf_blockno x \<and> (refcnt x \<noteq> 0 \<longrightarrow> refcnt ?x \<noteq> 0) \<or>
      refcnt ?x \<noteq> 0 \<and> (\<forall>y \<in> set (us @ x # vs). used y \<longrightarrow> buf_blockno y \<noteq> buf_blockno ?x)"
      using x'(2) nz by simp
  qed (use x' xv in \<open>simp_all add: used_def\<close>)
  have lk: "lookup b' (bufs ?c) = (if b' = b then Some ?x else lookup b' (bufs c))" for b'
    using lookup_replace [OF ci [unfolded sp] inv, of ?x b'] x' b sp by (auto simp: used_def)
  have gb: "get_buf (bid x) ?c = Some ?x" using get_buf_split [OF b] inv b by (simp add: bufs_inv_def)
  have "bread D ROOTDEV b c = Some (bid x, ?c)"
    using x gb xv by (simp add: bread_def bget_def lookup_def [symmetric])
  moreover have "good B ?c" using g inv b by (simp add: good_def)
  moreover have "holds ?c (bid x) b" using lk nz by (simp add: holds_def)
  moreover have "refs ?c = (refs c)(b := refs c b + 1)" using lk r1 x by (auto simp: refs_def)
  moreover have "view contents ?c = view contents c" using lk x by (auto simp: view_def fun_eq_iff split: option.split)
  moreover have "data_of (bid x) ?c = view contents c b" using gb x by (simp add: data_of_def view_def)
  moreover have "keeps_held c ?c" using lk x nz by (auto simp: keeps_held_def holds_def)
  moreover have "disk ?c = disk c" "bcache.more ?c = bcache.more c" by simp_all
  ultimately show ?thesis by blast
qed

text \<open>There is an unused buffer, and it is the one that is taken.\<close>

lemma spare_buffer:
  assumes ci: "bufs_inv B xs" and b: "b \<in> B" "lookup b xs = None"
  obtains x us vs where "List.find (\<lambda>x. refcnt x = 0) (rev xs) = Some x" "xs = us @ x # vs" "\<not> used x"
proof -
  have i: "length xs = NBUF" "finite B" "card B \<le> NBUF" "distinct (map buf_blockno (filter used xs))"
    "\<forall>x \<in> set xs. used x \<longrightarrow> buf_blockno x \<in> B" "\<forall>x \<in> set xs. \<not> used x \<longrightarrow> refcnt x = 0"
    "sorted_wrt (\<lambda>x y. used x \<or> \<not> used y \<or> refcnt y \<noteq> 0) xs"
    using ci unfolding bufs_inv_def by blast+
  have "b \<notin> set (map buf_blockno (filter used xs))"
  proof
    assume "b \<in> set (map buf_blockno (filter used xs))"
    then obtain x where "x \<in> set xs" "used x" "buf_blockno x = b" by auto
    then have "lookup b xs = Some x" by (simp add: lookup_iff [OF ci])
    with b(2) show False by simp
  qed
  then have "set (map buf_blockno (filter used xs)) \<subseteq> B - {b}" using i(5) by auto
  then have "card (set (map buf_blockno (filter used xs))) \<le> card (B - {b})" using i(2) by (intro card_mono) auto
  also have "\<dots> < card B" using i(2) b(1) by (rule card_Diff1_less)
  finally have "length (filter used xs) < length xs"
    using distinct_card [OF i(4)] i(1,3) by simp
  then obtain y where y: "y \<in> set xs" "\<not> used y" by (metis filter_True less_irrefl)
  then have "refcnt y = 0" using i(6) by blast
  then have "List.find (\<lambda>x. refcnt x = 0) (rev xs) \<noteq> None" using y(1) by (auto simp: find_None_iff)
  then obtain x where x: "List.find (\<lambda>x. refcnt x = 0) (rev xs) = Some x" by blast
  then obtain us vs where us: "rev xs = us @ x # vs" "refcnt x = 0" "\<forall>y \<in> set us. refcnt y \<noteq> 0" by (rule find_split) auto
  then have xs: "xs = rev vs @ x # rev us" by (metis append.assoc append_Cons append_Nil rev_append rev_rev_ident rev_singleton_conv rev.simps(2))
  have "\<not> used x"
  proof
    assume u: "used x"
    have "y \<notin> set us" using us(3) \<open>refcnt y = 0\<close> by blast
    then have "y \<in> set (rev vs)" using y u xs by auto
    then have "used y \<or> \<not> used x \<or> refcnt x \<noteq> 0" using i(7) xs by (auto simp: sorted_wrt_append)
    then show False using u y(2) us(2) by simp
  qed
  then show ?thesis using that x xs by blast
qed

lemma bread_fresh:
  assumes g: "good B c" and b: "b \<in> B" "lookup b (bufs c) = None"
  shows "\<exists>i c'. bread D ROOTDEV b c = Some (i, c') \<and> good B c' \<and> holds c' i b \<and> contents (disk c') = contents (disk c) \<and>
    refs c' = (refs c)(b := refs c b + 1) \<and> view contents c' = view contents c \<and> data_of i c' = view contents c b \<and>
    bcache.more c' = bcache.more c \<and> keeps_held c c'"
proof -
  have ci: "bufs_inv B (bufs c)" and di: "distinct (map bid (bufs c))" using g by (simp_all add: good_def bufs_inv_def)
  obtain x us vs where x: "List.find (\<lambda>x. refcnt x = 0) (rev (bufs c)) = Some x" "bufs c = us @ x # vs" "\<not> used x"
    using spare_buffer [OF ci b] by blast
  have "dev_inv (disk c)" "unat b < dev_size" using g b(1) by (auto simp: good_def)
  from dev_read [OF this] obtain d where d: "xv6fs_bread D b (disk c) = Some (Some (contents (disk c) b), d)" "dev_inv d"
    "contents d = contents (disk c)" by auto
  let ?i = "bid x"
  let ?x1 = "x\<lparr>buf_dev := ROOTDEV, buf_blockno := b, buf_valid := False, refcnt := 1\<rparr>"
  let ?x = "?x1\<lparr>buf_data := contents (disk c) b, buf_valid := True\<rparr>"
  define c1 where "c1 = upd_buf ?i (\<lambda>x. x\<lparr>buf_dev := ROOTDEV, buf_blockno := b, buf_valid := False, refcnt := 1\<rparr>) c"
  define c2 where "c2 = upd_buf ?i (\<lambda>x. x\<lparr>buf_data := contents (disk c) b\<rparr>) (c1\<lparr>disk := d\<rparr>)"
  define c3 where "c3 = upd_buf ?i (\<lambda>x. x\<lparr>buf_valid := True\<rparr>) c2"
  have b1: "bufs c1 = us @ ?x1 # vs" unfolding c1_def using upd_buf_split [OF x(2) di] by simp
  have d1: "distinct (map bid (bufs c1))" using di x(2) b1 by simp
  have b2: "bufs c2 = us @ ?x1\<lparr>buf_data := contents (disk c) b\<rparr> # vs"
    using upd_buf_split [of "c1\<lparr>disk := d\<rparr>" us ?x1 vs] b1 d1 by (simp add: c2_def)
  have b3: "bufs c3 = us @ ?x # vs"
    using upd_buf_split [of c2 us "?x1\<lparr>buf_data := contents (disk c) b\<rparr>" vs] b2 d1 b1 by (simp add: c3_def)
  have g1: "get_buf ?i c1 = Some ?x1" using get_buf_split [OF b1 d1] by simp
  have no: "\<forall>y \<in> set (us @ x # vs). used y \<longrightarrow> buf_blockno y \<noteq> b"
  proof (intro ballI impI notI)
    fix y assume "y \<in> set (us @ x # vs)" "used y" "buf_blockno y = b"
    then have "lookup b (us @ x # vs) = Some y" by (simp add: lookup_iff [OF ci [unfolded x(2)]])
    then show False using b(2) x(2) by simp
  qed
  have inv: "bufs_inv B (us @ ?x # vs)"
    using ci [unfolded x(2)]
  proof (rule bufs_inv_replace)
    show "used x \<and> buf_blockno ?x = buf_blockno x \<and> (refcnt x \<noteq> 0 \<longrightarrow> refcnt ?x \<noteq> 0) \<or>
      refcnt ?x \<noteq> 0 \<and> (\<forall>y \<in> set (us @ x # vs). used y \<longrightarrow> buf_blockno y \<noteq> buf_blockno ?x)"
      using no by simp
  qed (use b(1) in \<open>simp_all add: used_def ROOTDEV_def\<close>)
  have lk: "lookup b' (bufs c3) = (if b' = b then Some ?x else lookup b' (bufs c))" for b'
    using lookup_replace [OF ci [unfolded x(2)] inv, of ?x b'] b3 x(2,3) by (auto simp: used_def ROOTDEV_def)
  have dk: "disk c3 = d" "bcache.more c3 = bcache.more c" by (simp_all add: c3_def c2_def c1_def)
  have "get_buf ?i c3 = Some ?x" using get_buf_split [OF b3] inv b3 by (simp add: bufs_inv_def)
  then have "data_of ?i c3 = view contents c b" using b(2) by (simp add: data_of_def view_def)
  moreover have "bread D ROOTDEV b c = Some (?i, c3)"
    using b(2) x(1) g1 d(1) unfolding c3_def c2_def
    by (simp add: bread_def bget_def lookup_def [symmetric] c1_def [symmetric] disk_rw_def) (simp add: c1_def)
  moreover have "good B c3" using g inv b3 dk d(2) by (simp add: good_def)
  moreover have "holds c3 ?i b" using lk by (simp add: holds_def)
  moreover have "refs c3 = (refs c)(b := refs c b + 1)" using lk b(2) by (auto simp: refs_def)
  moreover have "view contents c3 = view contents c" using lk b(2) dk d(3) by (auto simp: view_def fun_eq_iff split: option.split)
  moreover have "keeps_held c c3" using lk b(2) by (auto simp: keeps_held_def holds_def)
  ultimately show ?thesis using dk d(3) by blast
qed

lemma bread_ok:
  assumes "good B c" "b \<in> B" "refs c b + 1 < 2 ^ 32"
  obtains i c' where "bread D ROOTDEV b c = Some (i, c')" "good B c'" "holds c' i b" "contents (disk c') = contents (disk c)"
    "refs c' = (refs c)(b := refs c b + 1)" "view contents c' = view contents c" "data_of i c' = view contents c b"
    "bcache.more c' = bcache.more c" "keeps_held c c'"
proof (cases "lookup b (bufs c)")
  case None
  then show ?thesis using bread_fresh [OF assms(1,2)] that by auto
next
  case (Some x)
  then show ?thesis using bread_cached [OF assms(1) Some assms(3)] that by auto
qed

lemma set_data_ok:
  assumes g: "good B c" and h: "holds c i b"
  shows "good B (set_data i y c) \<and> holds (set_data i y c) i b \<and> disk (set_data i y c) = disk c \<and>
    refs (set_data i y c) = refs c \<and> view contents (set_data i y c) = (view contents c)(b := y) \<and>
    data_of i (set_data i y c) = y \<and> bcache.more (set_data i y c) = bcache.more c \<and> keeps_held c (set_data i y c)"
proof -
  have ci: "bufs_inv B (bufs c)" and di: "distinct (map bid (bufs c))" using g by (simp_all add: good_def bufs_inv_def)
  obtain x where x: "lookup b (bufs c) = Some x" "bid x = i" "refcnt x \<noteq> 0" using h by (auto simp: holds_def)
  then have x': "x \<in> set (bufs c)" "used x" "buf_blockno x = b" using lookup_iff [OF ci] by auto
  then obtain us vs where sp: "bufs c = us @ x # vs" using split_list by metis
  have xv: "buf_valid x" "buf_dev x = ROOTDEV" "b \<in> B" using ci x' by (auto simp: bufs_inv_def)
  let ?x = "x\<lparr>buf_data := y\<rparr>" and ?c = "set_data i y c"
  have b: "bufs ?c = us @ ?x # vs" using upd_buf_split [OF sp di] x(2) by (simp add: set_data_def)
  have inv: "bufs_inv B (us @ ?x # vs)"
    using ci [unfolded sp] by (rule bufs_inv_replace) (use x' xv in \<open>simp_all add: used_def\<close>)
  have lk: "lookup b' (bufs ?c) = (if b' = b then Some ?x else lookup b' (bufs c))" for b'
    using lookup_replace [OF ci [unfolded sp] inv, of ?x b'] x' b sp by (auto simp: used_def)
  have fr: "disk ?c = disk c" "bcache.more ?c = bcache.more c" by (simp_all add: set_data_def)
  have "get_buf i ?c = Some ?x" using get_buf_split [OF b] inv b x(2) by (simp add: bufs_inv_def)
  then show ?thesis using g inv b lk x fr
    by (auto simp: good_def keeps_held_def holds_def refs_def view_def data_of_def fun_eq_iff split: option.split)
qed

lemma data_of_held:
  assumes "good B c" "holds c i b"
  shows "data_of i c = view contents c b"
proof -
  have ci: "bufs_inv B (bufs c)" using assms(1) by (simp add: good_def)
  obtain x where x: "lookup b (bufs c) = Some x" "bid x = i" using assms(2) by (auto simp: holds_def)
  then have "x \<in> set (bufs c)" using lookup_iff [OF ci] by auto
  then obtain us vs where "bufs c = us @ x # vs" using split_list by metis
  then have "get_buf i c = Some x" using get_buf_split [of c us x vs] ci x(2) by (simp add: bufs_inv_def)
  then show ?thesis using x by (simp add: data_of_def view_def)
qed

lemma brelse_ok:
  assumes g: "good B c" and h: "holds c i b"
  obtains c' where "brelse i c = Some c'" "good B c'" "disk c' = disk c" "refs c' = (refs c)(b := refs c b - 1)"
    "view contents c' = view contents c" "bcache.more c' = bcache.more c"
    "\<And>j b'. holds c j b' \<Longrightarrow> b' \<noteq> b \<or> 1 < refs c b \<Longrightarrow> holds c' j b'"
proof -
  have ci: "bufs_inv B (bufs c)" and di: "distinct (map bid (bufs c))" using g by (simp_all add: good_def bufs_inv_def)
  obtain x where x: "lookup b (bufs c) = Some x" "bid x = i" "refcnt x \<noteq> 0" using h by (auto simp: holds_def)
  then have x': "x \<in> set (bufs c)" "used x" "buf_blockno x = b" using lookup_iff [OF ci] by auto
  then obtain us vs where sp: "bufs c = us @ x # vs" using split_list by metis
  have xv: "buf_valid x" "buf_dev x = ROOTDEV" "b \<in> B" using ci x' by (auto simp: bufs_inv_def)
  have r1: "unat (refcnt x - 1) = unat (refcnt x) - 1"
    using x(3) by (simp add: unat_sub word_le_nat_alt unat_gt_0 Suc_leI)
  let ?x = "x\<lparr>refcnt := refcnt x - 1\<rparr>"
  define c1 where "c1 = upd_buf i (\<lambda>x. x\<lparr>refcnt := refcnt x - 1\<rparr>) c"
  define ys where "ys = (if refcnt x - 1 = 0 then ?x # us @ vs else us @ ?x # vs)"
  have b: "bufs c1 = us @ ?x # vs" using upd_buf_split [OF sp di] x(2) by (simp add: c1_def)
  have g1: "get_buf i c1 = Some ?x" using get_buf_split [OF b] x(2) di sp b by simp
  have fl: "filter (\<lambda>y. bid y \<noteq> i) (bufs c1) = us @ vs"
  proof -
    have "filter (\<lambda>y. bid y \<noteq> i) us = us" "filter (\<lambda>y. bid y \<noteq> i) vs = vs"
      using di sp x(2) by (auto simp: filter_id_conv image_iff)
    then show ?thesis using b x(2) by simp
  qed
  have inv: "bufs_inv B ys"
  proof (cases "refcnt x - 1 = 0")
    case True
    then show ?thesis unfolding ys_def using bufs_inv_to_front [OF ci [unfolded sp], of ?x] x' xv by (simp add: used_def)
  next
    case False
    have "bufs_inv B (us @ ?x # vs)"
      using ci [unfolded sp] by (rule bufs_inv_replace) (use x' xv False in \<open>simp_all add: used_def\<close>)
    then show ?thesis using False by (simp add: ys_def)
  qed
  have lk: "lookup b' ys = (if b' = b then Some ?x else lookup b' (bufs c))" for b'
    using lookup_replace [OF ci [unfolded sp] inv, of ?x b'] x' sp by (auto simp: used_def ys_def)
  have "brelse i c = Some (c1\<lparr>bufs := ys\<rparr>)"
    using g1 fl b by (auto simp: brelse_def c1_def [symmetric] ys_def Let_def)
  moreover have "good B (c1\<lparr>bufs := ys\<rparr>)" using g inv by (simp add: good_def c1_def)
  moreover have "refs (c1\<lparr>bufs := ys\<rparr>) = (refs c)(b := refs c b - 1)" using lk x r1 by (auto simp: refs_def)
  moreover have "view contents (c1\<lparr>bufs := ys\<rparr>) = view contents c"
    using lk x by (auto simp: view_def fun_eq_iff c1_def split: option.split)
  moreover have "disk (c1\<lparr>bufs := ys\<rparr>) = disk c" "bcache.more (c1\<lparr>bufs := ys\<rparr>) = bcache.more c" by (simp_all add: c1_def)
  moreover have "holds (c1\<lparr>bufs := ys\<rparr>) j b'" if "holds c j b'" "b' \<noteq> b \<or> 1 < refs c b" for j b'
  proof (cases "b' = b")
    case True
    then have "unat (refcnt x - 1) \<noteq> 0" using that(2) r1 x by (simp add: refs_def)
    then have "refcnt x - 1 \<noteq> 0" by (metis unat_0)
    then show ?thesis using True that(1) lk x by (simp add: holds_def)
  qed (use that(1) lk in \<open>simp add: holds_def\<close>)
  ultimately show ?thesis using that by blast
qed

lemma with_block_ok:
  assumes "good B c" "b \<in> B" "refs c b + 1 < 2 ^ 32"
  obtains c' where "with_block D ROOTDEV b f c = Some (fst (f (view contents c b)), c')" "good B c'"
    "view contents c' = (view contents c)(b := snd (f (view contents c b)))" "refs c' = refs c"
    "contents (disk c') = contents (disk c)" "bcache.more c' = bcache.more c"
    "keeps_held c c'"
proof -
  obtain i c1 where c1: "bread D ROOTDEV b c = Some (i, c1)" "good B c1" "holds c1 i b" "contents (disk c1) = contents (disk c)"
    "refs c1 = (refs c)(b := refs c b + 1)" "view contents c1 = view contents c" "data_of i c1 = view contents c b"
    "bcache.more c1 = bcache.more c" "keeps_held c c1" using bread_ok [OF assms] .
  let ?y = "snd (f (view contents c b))"
  note c2 = set_data_ok [OF c1(2,3), of ?y]
  obtain c3 where c3: "brelse i (set_data i ?y c1) = Some c3" "good B c3" "disk c3 = disk (set_data i ?y c1)"
    "refs c3 = (refs (set_data i ?y c1))(b := refs (set_data i ?y c1) b - 1)"
    "view contents c3 = view contents (set_data i ?y c1)" "bcache.more c3 = bcache.more (set_data i ?y c1)"
    "\<And>j b'. holds (set_data i ?y c1) j b' \<Longrightarrow> b' \<noteq> b \<or> 1 < refs (set_data i ?y c1) b \<Longrightarrow> holds c3 j b'"
    using brelse_ok c2 by blast
  have "with_block D ROOTDEV b f c = Some (fst (f (view contents c b)), c3)"
    using c1(1,7) c3(1) by (simp add: with_block_def case_prod_beta')
  moreover have "refs c3 = refs c" using c3(4) c2 c1(5) by (simp add: fun_eq_iff)
  moreover have "holds c3 j b'" if h: "holds c j b'" for j b'
  proof (rule c3(7))
    show "holds (set_data i ?y c1) j b'" using h c1(9) c2 by (simp add: keeps_held_def)
    show "b' \<noteq> b \<or> 1 < refs (set_data i ?y c1) b" using holds_refs [OF h] c1(5) c2 by auto
  qed
  then have "keeps_held c c3" by (simp add: keeps_held_def)
  ultimately show ?thesis using that [of c3] c1 c2 c3(2-6) by simp
qed

lemma read_block_ok:
  assumes "good B c" "b \<in> B" "refs c b + 1 < 2 ^ 32"
  obtains c' where "read_block D ROOTDEV b c = Some (view contents c b, c')" "good B c'"
    "view contents c' = view contents c" "refs c' = refs c"
    "contents (disk c') = contents (disk c)" "bcache.more c' = bcache.more c" "keeps_held c c'"
  using with_block_ok [OF assms, of "\<lambda>x. (x, x)"] that by (auto simp: read_block_def)

end

text \<open>A cache that was just initialized.\<close>

lemma binit_lookup [simp]: "lookup b (bufs (binit c)) = None"
  by (auto simp: lookup_def binit_def ROOTDEV_def find_None_iff)

lemma binit_refs [simp]: "refs (binit c) b = 0"
  by (simp add: refs_def)

lemma binit_frame [simp]: "disk (binit c) = disk c" "bcache.more (binit c) = bcache.more c"
  by (simp_all add: binit_def)

lemma binit_view [simp]: "view cs (binit c) b = cs (disk c) b"
  by (simp add: view_def)

lemma binit_inv:
  assumes "finite B" "card B \<le> NBUF"
  shows "cache_inv B (binit c)"
proof -
  have u: "x \<in> set (bufs (binit c)) \<Longrightarrow> \<not> used x \<and> refcnt x = 0" for x by (auto simp: binit_def used_def)
  then have "filter used (bufs (binit c)) = []" by (auto simp: filter_empty_conv)
  moreover have "sorted_wrt (\<lambda>x y. used x \<or> \<not> used y \<or> refcnt y \<noteq> 0) (bufs (binit c))"
    using u by (simp add: sorted_wrt_iff_nth_less)
  moreover have "map bid (bufs (binit c)) = rev [0 ..< NBUF]" by (simp add: binit_def rev_map [symmetric] comp_def)
  then have "distinct (map bid (bufs (binit c)))" by simp
  moreover have "length (bufs (binit c)) = NBUF" by (simp add: binit_def)
  ultimately show ?thesis using assms u unfolding bufs_inv_def by simp
qed

end
