(* ===== verification/Block_Client.thy ===== *)
theory Block_Client
  imports Block_Cache Ramdisk
begin

section \<open>The disk of the file server (apps/xv6fs/src/fs\_server/fs\_server.c, ramdisk\_client.c)\<close>

text \<open>
  The file server keeps a connection to one block of the block server for every block number, and
  shares one page of memory with it. Reading a block is a request on its connection, after which the
  block server has copied it into the page; writing is the copy into the page and a request. The
  state holds the badges of the connections, the address of the page in the block server and the
  block server itself: a request is delivered to its handler and answered.

  The disk is then shown to keep the contract of \<open>block_device\<close>.
\<close>

record 'w fs_disk =
  conns :: "u64 list"
  page :: u64
  ram :: "'w ramdisk_server_context_t"

definition FS_SIZE :: nat where "FS_SIZE = unat (RAMDISK_SIZE_BYTES div RAMDISK_BLOCK_SIZE) div 2"

lemma FS_SIZE_val: "FS_SIZE = 512"
  by (simp add: FS_SIZE_def n_sectors_def [symmetric])

subsection \<open>Requests\<close>

definition ramdisk_client_read :: "'w rd_env \<Rightarrow> u64 \<Rightarrow> 'w ramdisk_server_context_t \<Rightarrow> (bool \<times> 'w ramdisk_server_context_t) option" where
  "ramdisk_client_read E cn s = do {
     (e, _, _, s) \<leftarrow> ramdisk_request_handler E RD_RPC_MAGIC RamdiskAction_READ cn 0 s;
     Some (e \<noteq> 0, s) }"

definition ramdisk_client_write :: "'w rd_env \<Rightarrow> u64 \<Rightarrow> 'w ramdisk_server_context_t \<Rightarrow> (bool \<times> 'w ramdisk_server_context_t) option" where
  "ramdisk_client_write E cn s = do {
     (e, _, _, s) \<leftarrow> ramdisk_request_handler E RD_RPC_MAGIC RamdiskAction_WRITE cn 0 s;
     Some (e \<noteq> 0, s) }"

text \<open>The other requests: \<open>sep\<close> is the badge of the endpoint for the space of blocks, \<open>recv\<close> the slot in which the block server receives the
  capability to the shared page. The connection to a new block is its slot, its space and its number.\<close>

definition ramdisk_client_bind :: "'w rd_env \<Rightarrow> u64 \<Rightarrow> u64 \<Rightarrow> 'w ramdisk_server_context_t \<Rightarrow> (bool \<times> 'w ramdisk_server_context_t) option" where
  "ramdisk_client_bind E sep recv s = do {
     (e, _, _, s) \<leftarrow> ramdisk_request_handler E RD_RPC_MAGIC RamdiskAction_BIND sep recv s;
     Some (e \<noteq> 0, s) }"

definition ramdisk_client_unbind :: "'w rd_env \<Rightarrow> u64 \<Rightarrow> 'w ramdisk_server_context_t \<Rightarrow> (bool \<times> 'w ramdisk_server_context_t) option" where
  "ramdisk_client_unbind E sep s = do {
     (e, _, _, s) \<leftarrow> ramdisk_request_handler E RD_RPC_MAGIC RamdiskAction_UNBIND sep 0 s;
     Some (e \<noteq> 0, s) }"

definition ramdisk_client_alloc_block ::
    "'w rd_env \<Rightarrow> u64 \<Rightarrow> 'w ramdisk_server_context_t
      \<Rightarrow> (bool \<times> (u64 \<times> gpi_space_id_t \<times> gpi_obj_id_t) option \<times> 'w ramdisk_server_context_t) option" where
  "ramdisk_client_alloc_block E sep s = do {
     (e, r, _, s) \<leftarrow> ramdisk_request_handler E RD_RPC_MAGIC RamdiskAction_ALLOC sep 0 s;
     (case r of Basic \<Rightarrow> Some (True, None, s)
      | Alloc_reply slot b sp \<Rightarrow> Some (e \<noteq> 0, Some (slot, sp, b), s)) }"

definition ramdisk_client_free_block :: "'w rd_env \<Rightarrow> u64 \<Rightarrow> 'w ramdisk_server_context_t \<Rightarrow> (bool \<times> 'w ramdisk_server_context_t) option" where
  "ramdisk_client_free_block E cn s = do {
     (e, _, _, s) \<leftarrow> ramdisk_request_handler E RD_RPC_MAGIC RamdiskAction_FREE cn 0 s;
     Some (e \<noteq> 0, s) }"

text \<open>The array of connections has \<open>FS_SIZE\<close> elements.\<close>

definition conn_of :: "u32 \<Rightarrow> 'w fs_disk \<Rightarrow> u64 option" where
  "conn_of b d = (if unat b < length (conns d) then Some (conns d ! unat b) else None)"

definition page_data :: "'w fs_disk \<Rightarrow> block" where
  "page_data d = (\<lambda>i. if i < BSIZE then rd_mem (ram d) (page d + of_nat i) else 0)"

definition fill_page :: "block \<Rightarrow> 'w fs_disk \<Rightarrow> 'w fs_disk" where
  "fill_page y d = d\<lparr>ram := (ram d)\<lparr>rd_mem := (\<lambda>x. if x - page d < of_nat BSIZE then y (unat (x - page d)) else rd_mem (ram d) x)\<rparr>\<rparr>"

definition block_read :: "'w rd_env \<Rightarrow> u32 \<Rightarrow> 'w fs_disk \<Rightarrow> (block option \<times> 'w fs_disk) option" where
  "block_read E b d = do {
     cn \<leftarrow> conn_of b d;
     (error, s) \<leftarrow> ramdisk_client_read E cn (ram d);
     let d = d\<lparr>ram := s\<rparr>;
     Some (if error then None else Some (page_data d), d) }"

definition block_write :: "'w rd_env \<Rightarrow> u32 \<Rightarrow> block \<Rightarrow> 'w fs_disk \<Rightarrow> (bool \<times> 'w fs_disk) option" where
  "block_write E b y d = do {
     cn \<leftarrow> conn_of b d;
     let d = fill_page y d;
     (error, s) \<leftarrow> ramdisk_client_write E cn (ram d);
     Some (\<not> error, d\<lparr>ram := s\<rparr>) }"

definition ram_ops :: "'w rd_env \<Rightarrow> 'w fs_disk disk_ops" where
  "ram_ops E = \<lparr>xv6fs_bread = block_read E, xv6fs_bwrite = block_write E\<rparr>"

subsection \<open>The disk keeps the contract\<close>

definition ram_contents :: "'w fs_disk \<Rightarrow> u32 \<Rightarrow> block" where
  "ram_contents d b = (\<lambda>i. if i < BSIZE \<and> unat b < length (conns d)
     then rd_mem (ram d) (ramdisk_buf (ram d) + ucast (get_object_id_from_badge (conns d ! unat b) * RAMDISK_BLOCK_SIZE) + of_nat i)
     else 0)"

definition conn_ok :: "'w fs_disk \<Rightarrow> u64 \<Rightarrow> bool" where
  "conn_ok d cn \<longleftrightarrow> cn \<noteq> 0 \<and> get_cap_type_from_badge cn = rd_type (ram d) \<and> get_object_id_from_badge cn < n_sectors \<and>
     client_mem (get_client_id_from_badge cn) (ram d) = Some (page d)"

definition ram_inv :: "'w fs_disk \<Rightarrow> bool" where
  "ram_inv d \<longleftrightarrow> length (conns d) = FS_SIZE \<and> (\<forall>cn \<in> set (conns d). conn_ok d cn) \<and>
     distinct (map get_object_id_from_badge (conns d)) \<and> page d \<noteq> 0 \<and>
     unat (page d) + BSIZE \<le> 2 ^ 64 \<and> unat (ramdisk_buf (ram d)) + 2 ^ 22 \<le> 2 ^ 64 \<and>
     (unat (page d) + BSIZE \<le> unat (ramdisk_buf (ram d)) \<or> unat (ramdisk_buf (ram d)) + 2 ^ 22 \<le> unat (page d))"

lemma in_range_iff:
  fixes x p :: u64
  assumes "unat p + n \<le> 2 ^ 64" "n < 2 ^ 64"
  shows "x - p < of_nat n \<longleftrightarrow> unat p \<le> unat x \<and> unat x < unat p + n"
proof -
  have "x - p < of_nat n \<longleftrightarrow> unat (x - p) < n" using assms(2) by (simp add: word_less_nat_alt unat_of_nat_small)
  then show ?thesis using assms(1) unsigned_less [of x] unsigned_less [of p]
    by (auto simp: unat_sub_if' word_le_nat_alt)
qed

lemma sector_offset:
  assumes "k < n_sectors" "i < BSIZE"
  shows "unat (ucast (k * RAMDISK_BLOCK_SIZE) + of_nat i :: u64) = unat k * 4096 + i" "unat k * 4096 + i < 2 ^ 22"
proof -
  have k: "unat k < 1024" using assms(1) by (simp add: word_less_nat_alt)
  then have "unat (ucast (k * RAMDISK_BLOCK_SIZE) :: u64) = unat k * 4096"
    by (simp add: RAMDISK_BLOCK_SIZE_val unsigned_ucast_eq take_bit_nat_eq_self unat_word_ariths)
  then show "unat (ucast (k * RAMDISK_BLOCK_SIZE) + of_nat i :: u64) = unat k * 4096 + i"
    using k assms(2) by (simp add: unat_word_ariths unat_of_nat_small BSIZE_def)
  show "unat k * 4096 + i < 2 ^ 22" using k assms(2) by (simp add: BSIZE_def)
qed

lemma block_size_u64: "(ucast RAMDISK_BLOCK_SIZE :: u64) = of_nat BSIZE"
  by (simp add: RAMDISK_BLOCK_SIZE_val BSIZE_def)

lemma obj_not_null: "k < n_sectors \<Longrightarrow> k \<noteq> BADGE_OBJ_ID_NULL"
  by (auto simp: badge_const_defs word_less_nat_alt)

lemma client_requests:
  assumes "conn_ok d cn" "page d \<noteq> 0"
  defines "p \<equiv> ramdisk_buf (ram d) + ucast (get_object_id_from_badge cn * RAMDISK_BLOCK_SIZE)"
  shows "ramdisk_client_read E cn (ram d) = Some (False, (ram d)\<lparr>rd_mem := copy_block (page d) p (rd_mem (ram d))\<rparr>)"
    and "ramdisk_client_write E cn (ram d) = Some (False, (ram d)\<lparr>rd_mem := copy_block p (page d) (rd_mem (ram d))\<rparr>)"
  using assms(1,2) obj_not_null [of "get_object_id_from_badge cn"]
  by (simp_all add: ramdisk_client_read_def ramdisk_client_write_def ramdisk_request_handler_def ramdisk_block_request_def
      conn_ok_def ramdisk_ptr_def Let_def p_def)

lemma page_read: "i < BSIZE \<Longrightarrow> copy_block (page d) q m (page d + of_nat i) = m (q + of_nat i)"
proof -
  assume i: "i < BSIZE"
  have "(of_nat i :: u64) < of_nat BSIZE" using i by (simp add: word_less_nat_alt unat_of_nat_small BSIZE_def)
  then show ?thesis by (simp add: copy_block_def block_size_u64)
qed

text \<open>The addresses of the page and of the sectors of the disk are different.\<close>

lemma sector_address:
  assumes "ram_inv d" "k < n_sectors" "i < BSIZE"
  shows "unat (ramdisk_buf (ram d) + ucast (k * RAMDISK_BLOCK_SIZE) + of_nat i) = unat (ramdisk_buf (ram d)) + (unat k * 4096 + i)"
proof -
  let ?v = "ucast (k * RAMDISK_BLOCK_SIZE) + of_nat i :: u64" and ?b = "ramdisk_buf (ram d)"
  have "unat ?b + 2 ^ 22 \<le> 2 ^ 64" using assms(1) by (simp add: ram_inv_def)
  then have "unat ?b + unat ?v < 2 ^ 64" using sector_offset [OF assms(2,3)] by simp
  then have "unat (?b + ?v) = unat ?b + unat ?v" by (simp add: unat_word_ariths)
  then show ?thesis using sector_offset [OF assms(2,3)] by (simp add: add.assoc)
qed

lemma sector_not_page:
  assumes d: "ram_inv d" and k: "k < n_sectors" and i: "i < BSIZE"
  shows "\<not> ramdisk_buf (ram d) + ucast (k * RAMDISK_BLOCK_SIZE) + of_nat i - page d < of_nat BSIZE"
proof -
  have "unat (page d) + BSIZE \<le> 2 ^ 64" "BSIZE < 2 ^ 64" using d by (simp_all add: ram_inv_def BSIZE_def)
  from in_range_iff [OF this] show ?thesis
    using d sector_address [OF d k i] sector_offset(2) [OF k i] by (auto simp: ram_inv_def)
qed

lemma sector_ranges:
  assumes d: "ram_inv d" and k: "k < n_sectors" "k' < n_sectors" and i: "i < BSIZE"
  shows "ramdisk_buf (ram d) + ucast (k' * RAMDISK_BLOCK_SIZE) + of_nat i - (ramdisk_buf (ram d) + ucast (k * RAMDISK_BLOCK_SIZE)) < of_nat BSIZE
    \<longleftrightarrow> k = k'"
proof -
  have p: "unat (ramdisk_buf (ram d) + ucast (k * RAMDISK_BLOCK_SIZE)) = unat (ramdisk_buf (ram d)) + unat k * 4096"
    using sector_address [OF d k(1), of 0] by (simp add: BSIZE_def)
  have b: "unat (ramdisk_buf (ram d)) + unat k * 4096 + 4096 \<le> 2 ^ 64" "unat k < 1024"
    using d k(1) by (auto simp: ram_inv_def word_less_nat_alt)
  have "unat (ramdisk_buf (ram d) + ucast (k * RAMDISK_BLOCK_SIZE)) + BSIZE \<le> 2 ^ 64" "BSIZE < 2 ^ 64"
    using b p by (simp_all add: BSIZE_def)
  note r = in_range_iff [OF this]
  have
    "ramdisk_buf (ram d) + ucast (k' * RAMDISK_BLOCK_SIZE) + of_nat i - (ramdisk_buf (ram d) + ucast (k * RAMDISK_BLOCK_SIZE)) < of_nat BSIZE
      \<longleftrightarrow> unat k * 4096 \<le> unat k' * 4096 + i \<and> unat k' * 4096 + i < unat k * 4096 + 4096"
    unfolding r p sector_address [OF d k(2) i] by (simp add: BSIZE_def)
  also have "\<dots> \<longleftrightarrow> unat k = unat k'" using i by (auto simp: BSIZE_def)
  finally show ?thesis by (simp add: word_unat_eq_iff)
qed

text \<open>An update of the memory of the block server keeps the invariant.\<close>

lemma ram_inv_mem [simp]: "ram_inv (d\<lparr>ram := (ram d)\<lparr>rd_mem := m\<rparr>\<rparr>) = ram_inv d"
  by (simp add: ram_inv_def conn_ok_def client_mem_def)

lemma conn_of_ok:
  assumes "ram_inv d" "unat b < FS_SIZE"
  shows "conn_of b d = Some (conns d ! unat b)" "conn_ok d (conns d ! unat b)" "page d \<noteq> 0"
    "get_object_id_from_badge (conns d ! unat b) < n_sectors" "unat b < length (conns d)"
  using assms by (auto simp: ram_inv_def conn_of_def conn_ok_def)

lemma ram_read:
  assumes d: "ram_inv d" and b: "unat b < FS_SIZE"
  shows "\<exists>d'. xv6fs_bread (ram_ops E) b d = Some (Some (ram_contents d b), d') \<and> ram_inv d' \<and> ram_contents d' = ram_contents d"
proof -
  note c = conn_of_ok [OF d b]
  let ?p = "ramdisk_buf (ram d) + ucast (get_object_id_from_badge (conns d ! unat b) * RAMDISK_BLOCK_SIZE)"
  let ?d = "d\<lparr>ram := (ram d)\<lparr>rd_mem := copy_block (page d) ?p (rd_mem (ram d))\<rparr>\<rparr>"
  have "page_data ?d = ram_contents d b"
    using c(5) page_read [of _ d] by (auto simp: page_data_def ram_contents_def fun_eq_iff)
  moreover have "ram_contents ?d = ram_contents d"
  proof (intro ext)
    fix b' i
    show "ram_contents ?d b' i = ram_contents d b' i"
    proof (cases "i < BSIZE \<and> unat b' < length (conns d)")
      case True
      then have "get_object_id_from_badge (conns d ! unat b') < n_sectors" using conn_of_ok(4) [OF d, of b'] d by (simp add: ram_inv_def)
      from sector_not_page [OF d this] show ?thesis using True by (simp add: ram_contents_def copy_block_def block_size_u64)
    qed (auto simp: ram_contents_def)
  qed
  moreover have "block_read E b d = Some (Some (page_data ?d), ?d)"
    using c client_requests(1) [OF c(2,3)] by (simp add: block_read_def Let_def)
  ultimately show ?thesis using d by (intro exI [of _ ?d]) (simp add: ram_ops_def)
qed

lemma ram_write:
  assumes d: "ram_inv d" and b: "unat b < FS_SIZE"
  shows "\<exists>d'. xv6fs_bwrite (ram_ops E) b y d = Some (True, d') \<and> ram_inv d' \<and>
    ram_contents d' = (ram_contents d)(b := whole_block y)"
proof -
  note c = conn_of_ok [OF d b]
  define d1 where "d1 = fill_page y d"
  let ?k = "get_object_id_from_badge (conns d ! unat b)"
  let ?p = "ramdisk_buf (ram d) + ucast (?k * RAMDISK_BLOCK_SIZE)"
  have d1: "ram_inv d1" "page d1 = page d" "conns d1 = conns d" "ramdisk_buf (ram d1) = ramdisk_buf (ram d)"
    using d by (simp_all add: d1_def fill_page_def)
  note c1 = conn_of_ok [OF d1(1) b]
  let ?d = "d1\<lparr>ram := (ram d1)\<lparr>rd_mem := copy_block ?p (page d) (rd_mem (ram d1))\<rparr>\<rparr>"
  have "ram_contents ?d = (ram_contents d)(b := whole_block y)"
  proof (intro ext)
    fix b' i
    show "ram_contents ?d b' i = ((ram_contents d)(b := whole_block y)) b' i"
    proof (cases "i < BSIZE \<and> unat b' < length (conns d)")
      case True
      let ?k' = "get_object_id_from_badge (conns d ! unat b')"
      let ?x = "ramdisk_buf (ram d) + ucast (?k' * RAMDISK_BLOCK_SIZE) + of_nat i"
      have k': "?k' < n_sectors" using True conn_of_ok(4) [OF d, of b'] d by (simp add: ram_inv_def)
      have kk: "?k = ?k' \<longleftrightarrow> b = b'"
        using d True c(5) nth_eq_iff_index_eq [of "map get_object_id_from_badge (conns d)" "unat b" "unat b'"]
        by (auto simp: ram_inv_def word_unat_eq_iff)
      have rng: "?x - ?p < of_nat BSIZE \<longleftrightarrow> b = b'" using sector_ranges [OF d c(4) k', of i] True kk by simp
      have keep: "rd_mem (ram d1) ?x = rd_mem (ram d) ?x"
        using sector_not_page [OF d k', of i] True by (simp add: d1_def fill_page_def)
      have lt: "(of_nat i :: u64) < of_nat BSIZE" "unat (of_nat i :: u64) = i"
        using True by (simp_all add: word_less_nat_alt unat_of_nat_small BSIZE_def)
      have pg: "rd_mem (ram d1) (page d + of_nat i) = y i" using lt by (simp add: d1_def fill_page_def)
      show ?thesis
      proof (cases "b = b'")
        case True': True
        have "?x - ?p = of_nat i" using True' by simp
        then show ?thesis using True True' rng pg d1 lt
          by (simp add: ram_contents_def copy_block_def block_size_u64 whole_block_def)
      next
        case False
        then show ?thesis using True rng keep d1 by (simp add: ram_contents_def copy_block_def block_size_u64)
      qed
    next
      case False
      then show ?thesis using c(5) d1 by (auto simp: ram_contents_def whole_block_def)
    qed
  qed
  moreover have "block_write E b y d = Some (True, ?d)"
    using c c1 client_requests(2) [OF c1(2,3)] d1 by (simp add: block_write_def Let_def d1_def [symmetric])
  ultimately show ?thesis using d1(1) by (intro exI [of _ ?d]) (simp add: ram_ops_def)
qed

interpretation ram: block_device "ram_ops E" ram_contents ram_inv FS_SIZE for E
  by unfold_locales (rule ram_read ram_write; assumption)+

end
