(* ===== verification/Cache_Use.thy ===== *)
theory Cache_Use
  imports Block_Client Ramdisk_Blocks
begin

section \<open>Using the buffer cache\<close>

text \<open>
  Sequences of reads and writes through the cache. As long as the blocks fit into the cache they are
  those of a map from blocks to contents. No write ever reaches the disk, because no caller of the cache
  calls \<open>bwrite\<close>; a block that is pushed out of the cache has its old contents again.
\<close>

datatype block_op = Get u32 | Put u32 block

fun op_block :: "block_op \<Rightarrow> u32" where
  "op_block (Get b) = b"
| "op_block (Put b y) = b"

fun run_ops :: "'d disk_ops \<Rightarrow> block_op list \<Rightarrow> ('d, 'z) bcache_scheme \<Rightarrow> (block list \<times> ('d, 'z) bcache_scheme) option" where
  "run_ops D [] c = Some ([], c)"
| "run_ops D (Get b # ops) c = do {
     (x, c) \<leftarrow> read_block D ROOTDEV b c;
     (xs, c) \<leftarrow> run_ops D ops c;
     Some (x # xs, c) }"
| "run_ops D (Put b y # ops) c = do {
     (_, c) \<leftarrow> with_block D ROOTDEV b (\<lambda>_. ((), y)) c;
     run_ops D ops c }"

text \<open>The same on a map.\<close>

fun map_ops :: "block_op list \<Rightarrow> (u32 \<Rightarrow> block) \<Rightarrow> block list" where
  "map_ops [] m = []"
| "map_ops (Get b # ops) m = m b # map_ops ops m"
| "map_ops (Put b y # ops) m = map_ops ops (m(b := y))"

lemma run_ops_snoc:
  "run_ops D os c = Some (xs, c1) \<Longrightarrow> read_block D ROOTDEV b c1 = Some (x, c2) \<Longrightarrow>
    run_ops D (os @ [Get b]) c = Some (xs @ [x], c2)"
proof (induction os arbitrary: c xs)
  case (Cons p os)
  show ?case
  proof (cases p)
    case (Get k)
    obtain z c' zs where "read_block D ROOTDEV k c = Some (z, c')" "run_ops D os c' = Some (zs, c1)" "xs = z # zs"
      using Cons.prems(1) Get by (auto split: bind_splits)
    then show ?thesis using Cons.IH Cons.prems(2) Get by simp
  next
    case (Put k y)
    obtain c' where "with_block D ROOTDEV k (\<lambda>_. ((), y)) c = Some ((), c')" "run_ops D os c' = Some (xs, c1)"
      using Cons.prems(1) Put by (auto split: bind_splits)
    then show ?thesis using Cons.IH Cons.prems(2) Put by simp
  qed
qed simp

context block_device
begin

lemma run_ops_map:
  assumes "good B c" "op_block ` set ops \<subseteq> B" "refs c = (\<lambda>_. 0)"
  shows "\<exists>c'. run_ops D ops c = Some (map_ops ops (view contents c), c') \<and> contents (disk c') = contents (disk c)"
  using assms
proof (induction ops arbitrary: c)
  case (Cons p ops)
  have r: "refs c b + 1 < 2 ^ 32" for b using Cons.prems(3) by simp
  show ?case
  proof (cases p)
    case (Get b)
    then have "b \<in> B" using Cons.prems(2) by simp
    then obtain c1 where c1: "read_block D ROOTDEV b c = Some (view contents c b, c1)" "good B c1"
      "view contents c1 = view contents c" "refs c1 = refs c" "contents (disk c1) = contents (disk c)"
      using read_block_ok [OF Cons.prems(1) _ r] by metis
    then show ?thesis using Cons.IH [OF c1(2)] Cons.prems Get by auto
  next
    case (Put b y)
    then have "b \<in> B" using Cons.prems(2) by simp
    then obtain c1 where c1: "with_block D ROOTDEV b (\<lambda>_. ((), y)) c = Some ((), c1)" "good B c1"
      "view contents c1 = (view contents c)(b := y)" "refs c1 = refs c" "contents (disk c1) = contents (disk c)"
      using with_block_ok [OF Cons.prems(1) _ r, of b "\<lambda>_. ((), y)"] by (metis fst_conv snd_conv)
    then show ?thesis using Cons.IH [OF c1(2)] Cons.prems Put by (auto simp del: fun_upd_apply)
  qed
qed simp

text \<open>Between operations no buffer is held.\<close>

definition idle :: "('d, 'z) bcache_scheme \<Rightarrow> bool" where
  "idle c \<longleftrightarrow> distinct (map bid (bufs c)) \<and> length (bufs c) = NBUF \<and> dev_inv (disk c) \<and>
     (\<forall>x \<in> set (bufs c). refcnt x = 0 \<and> (buf_dev x = ROOTDEV \<longrightarrow> buf_valid x))"

lemma with_block_idle:
  assumes c: "idle c" and b: "unat b < dev_size" and sp: "bufs c = us @ x # vs"
    and x: "lookup b (bufs c) = Some x \<or> lookup b (bufs c) = None \<and> vs = []"
  shows "\<exists>x' d. with_block D ROOTDEV b f c = Some (fst (f (view contents c b)), c\<lparr>bufs := x' # us @ vs, disk := d\<rparr>) \<and>
    bid x' = bid x \<and> refcnt x' = 0 \<and> buf_dev x' = ROOTDEV \<and> buf_valid x' \<and> buf_blockno x' = b \<and>
    buf_data x' = snd (f (view contents c b)) \<and> dev_inv d \<and> contents d = contents (disk c)"
proof -
  let ?i = "bid x"
  have di: "distinct (map bid (bufs c))" and id: "\<forall>x \<in> set (bufs c). refcnt x = 0 \<and> (buf_dev x = ROOTDEV \<longrightarrow> buf_valid x)"
    and dev: "dev_inv (disk c)" using c by (auto simp: idle_def)
  obtain d where d: "xv6fs_bread D b (disk c) = Some (Some (contents (disk c) b), d)" "dev_inv d" "contents d = contents (disk c)"
    using dev_read [OF dev b] by auto
  define e where "e = (if lookup b (bufs c) = None then d else disk c)"
  define y where "y = x\<lparr>buf_dev := ROOTDEV, buf_blockno := b, buf_valid := True, refcnt := 1, buf_data := view contents c b\<rparr>"
  have rd: "bread D ROOTDEV b c = Some (?i, c\<lparr>bufs := us @ y # vs, disk := e\<rparr>)"
  proof (cases "lookup b (bufs c)")
    case None
    let ?x1 = "x\<lparr>buf_dev := ROOTDEV, buf_blockno := b, buf_valid := False, refcnt := 1\<rparr>"
    define c1 where "c1 = upd_buf ?i (\<lambda>x. x\<lparr>buf_dev := ROOTDEV, buf_blockno := b, buf_valid := False, refcnt := 1\<rparr>) c"
    have "vs = []" using x None by simp
    then have f0: "List.find (\<lambda>x. refcnt x = 0) (rev (bufs c)) = Some x" using sp id by simp
    have b1: "bufs c1 = us @ ?x1 # vs" unfolding c1_def using upd_buf_split [OF sp di] by simp
    have d1: "distinct (map bid (bufs c1))" using di sp b1 by simp
    have g1: "get_buf ?i c1 = Some ?x1" using get_buf_split [OF b1 d1] by simp
    have b2: "bufs (upd_buf ?i (\<lambda>x. x\<lparr>buf_data := contents (disk c) b\<rparr>) (c1\<lparr>disk := d\<rparr>)) = us @ ?x1\<lparr>buf_data := contents (disk c) b\<rparr> # vs"
      using upd_buf_split [of "c1\<lparr>disk := d\<rparr>" us ?x1 vs] b1 d1 by simp
    have "bufs (upd_buf ?i (\<lambda>x. x\<lparr>buf_valid := True\<rparr>) (upd_buf ?i (\<lambda>x. x\<lparr>buf_data := contents (disk c) b\<rparr>) (c1\<lparr>disk := d\<rparr>))) = us @ y # vs"
      using upd_buf_split [OF b2] b2 d1 b1 None by (simp add: y_def view_def)
    then have "upd_buf ?i (\<lambda>x. x\<lparr>buf_valid := True\<rparr>) (upd_buf ?i (\<lambda>x. x\<lparr>buf_data := contents (disk c) b\<rparr>) (c1\<lparr>disk := d\<rparr>)) =
        c\<lparr>bufs := us @ y # vs, disk := d\<rparr>"
      by (simp add: upd_buf_def c1_def)
    then show ?thesis using None f0 g1 d(1)
      by (simp add: bread_def bget_def lookup_def [symmetric] c1_def [symmetric] disk_rw_def e_def) (simp add: c1_def)
  next
    case (Some z)
    then have z: "z = x" "lookup b (bufs c) = Some x" using x by auto
    then have zx: "buf_dev x = ROOTDEV" "buf_blockno x = b" by (auto simp: lookup_def find_Some_iff)
    then have v: "buf_valid x" "refcnt x = 0" using id sp by auto
    let ?x1 = "x\<lparr>refcnt := refcnt x + 1\<rparr>" and ?c = "upd_buf ?i (\<lambda>x. x\<lparr>refcnt := refcnt x + 1\<rparr>) c"
    have y: "?x1 = y" using zx v z by (simp add: y_def view_def)
    have b1: "bufs ?c = us @ ?x1 # vs" using upd_buf_split [OF sp di] by simp
    have g1: "get_buf ?i ?c = Some ?x1" using get_buf_split [OF b1] di sp b1 by simp
    have "?c = c\<lparr>bufs := us @ y # vs, disk := disk c\<rparr>" using b1 y by (simp add: upd_buf_def)
    then show ?thesis using z g1 v by (simp add: bread_def bget_def lookup_def [symmetric] e_def)
  qed
  let ?w = "snd (f (view contents c b))"
  let ?c1 = "c\<lparr>bufs := us @ y # vs, disk := e\<rparr>"
  have iy: "bid y = ?i" by (simp add: y_def)
  have dy: "distinct (map bid (bufs ?c1))" using di sp iy by simp
  have dt: "data_of ?i ?c1 = view contents c b" using get_buf_split [of ?c1 us y vs] dy iy by (simp add: data_of_def y_def)
  have s1: "set_data ?i ?w ?c1 = c\<lparr>bufs := us @ y\<lparr>buf_data := ?w\<rparr> # vs, disk := e\<rparr>"
    using upd_buf_split [of ?c1 us y vs "\<lambda>x. x\<lparr>buf_data := ?w\<rparr>"] dy iy by (simp add: set_data_def upd_buf_def)
  let ?c2 = "c\<lparr>bufs := us @ y\<lparr>buf_data := ?w\<rparr> # vs, disk := e\<rparr>" and ?x' = "y\<lparr>buf_data := ?w, refcnt := 0\<rparr>"
  have u2: "bufs (upd_buf ?i (\<lambda>x. x\<lparr>refcnt := refcnt x - 1\<rparr>) ?c2) = us @ ?x' # vs"
    using upd_buf_split [of ?c2 us "y\<lparr>buf_data := ?w\<rparr>" vs "\<lambda>x. x\<lparr>refcnt := refcnt x - 1\<rparr>"] dy iy by (simp add: y_def)
  have g2: "get_buf ?i (upd_buf ?i (\<lambda>x. x\<lparr>refcnt := refcnt x - 1\<rparr>) ?c2) = Some ?x'"
    using get_buf_split [OF u2] u2 dy iy by simp
  have "filter (\<lambda>y. bid y \<noteq> ?i) us = us" "filter (\<lambda>y. bid y \<noteq> ?i) vs = vs"
    using di sp by (auto simp: filter_id_conv image_iff)
  then have fl: "filter (\<lambda>y. bid y \<noteq> ?i) (us @ ?x' # vs) = us @ vs" using iy by simp
  have "brelse ?i ?c2 = Some (c\<lparr>bufs := ?x' # us @ vs, disk := e\<rparr>)"
    using g2 u2 fl by (simp add: brelse_def Let_def)
  then have "with_block D ROOTDEV b f c = Some (fst (f (view contents c b)), c\<lparr>bufs := ?x' # us @ vs, disk := e\<rparr>)"
    using rd dt s1 by (simp add: with_block_def case_prod_beta' Let_def)
  moreover have "dev_inv e" "contents e = contents (disk c)" using d dev by (auto simp: e_def)
  ultimately show ?thesis by (intro exI [of _ ?x'] exI [of _ e]) (simp add: y_def)
qed

text \<open>The most recently used blocks are the first buffers.\<close>

definition front :: "u32 list \<Rightarrow> ('d, 'z) bcache_scheme \<Rightarrow> bool" where
  "front bs c \<longleftrightarrow> map (\<lambda>x. (buf_dev x, buf_blockno x)) (take (length bs) (bufs c)) = map (Pair ROOTDEV) bs"

lemma with_block_front:
  assumes c: "idle c" and b: "unat b < dev_size" and f: "front bs c" "b \<notin> set bs" "length bs < NBUF"
  shows "\<exists>c'. with_block D ROOTDEV b g c = Some (fst (g (view contents c b)), c') \<and> idle c' \<and> front (b # bs) c' \<and>
    contents (disk c') = contents (disk c)"
proof -
  have len: "length (bufs c) = NBUF" using c by (simp add: idle_def)
  have "\<exists>us x vs. bufs c = us @ x # vs \<and> (lookup b (bufs c) = Some x \<or> lookup b (bufs c) = None \<and> vs = []) \<and> length bs \<le> length us"
  proof (cases "lookup b (bufs c)")
    case None
    have "bufs c \<noteq> []" using len by (auto simp: NBUF_val)
    then obtain us x where us: "bufs c = us @ [x]" by (metis rev_exhaust)
    then have "length bs \<le> length us" using len f(3) by simp
    then show ?thesis using us None by blast
  next
    case (Some x)
    then obtain us vs where us: "bufs c = us @ x # vs" "buf_dev x = ROOTDEV \<and> buf_blockno x = b"
      "\<forall>y \<in> set us. \<not> (buf_dev y = ROOTDEV \<and> buf_blockno y = b)"
      unfolding lookup_def by (rule find_split)
    have "length bs \<le> length us"
    proof (rule ccontr)
      assume "\<not> length bs \<le> length us"
      then have lt: "length us < length bs" by simp
      then have "map (\<lambda>x. (buf_dev x, buf_blockno x)) (take (length bs) (bufs c)) ! length us = (ROOTDEV, b)"
        using us len f(3) by (simp add: nth_append take_Cons')
      then have "bs ! length us = b" using f(1) lt by (simp add: front_def)
      then show False using lt f(2) nth_mem by blast
    qed
    then show ?thesis using us Some by blast
  qed
  then obtain us x vs where sp: "bufs c = us @ x # vs" "lookup b (bufs c) = Some x \<or> lookup b (bufs c) = None \<and> vs = []"
    "length bs \<le> length us" by blast
  obtain x' d where w: "with_block D ROOTDEV b g c = Some (fst (g (view contents c b)), c\<lparr>bufs := x' # us @ vs, disk := d\<rparr>)"
    "bid x' = bid x" "refcnt x' = 0" "buf_dev x' = ROOTDEV" "buf_valid x'" "buf_blockno x' = b" "dev_inv d" "contents d = contents (disk c)"
    using with_block_idle [OF c b sp(1,2), of g] by auto
  have "idle (c\<lparr>bufs := x' # us @ vs, disk := d\<rparr>)" using c w sp(1) by (auto simp: idle_def)
  moreover have "front (b # bs) (c\<lparr>bufs := x' # us @ vs, disk := d\<rparr>)" using f(1) sp(1,3) w by (simp add: front_def)
  ultimately show ?thesis using w(1,8) by (intro exI [of _ "c\<lparr>bufs := x' # us @ vs, disk := d\<rparr>"]) simp
qed

lemma run_gets_front:
  assumes "idle c" "front bs c" "distinct (rev bs @ ks)" "length bs + length ks \<le> NBUF" "\<forall>b \<in> set ks. unat b < dev_size"
  shows "\<exists>xs c'. run_ops D (map Get ks) c = Some (xs, c') \<and> idle c' \<and> front (rev ks @ bs) c' \<and> contents (disk c') = contents (disk c)"
  using assms
proof (induction ks arbitrary: c bs)
  case (Cons k ks)
  obtain c1 where c1: "read_block D ROOTDEV k c = Some (view contents c k, c1)" "idle c1" "front (k # bs) c1"
    "contents (disk c1) = contents (disk c)"
    using with_block_front [OF Cons.prems(1), of k bs "\<lambda>x. (x, x)"] Cons.prems by (auto simp: read_block_def)
  have "\<exists>xs c'. run_ops D (map Get ks) c1 = Some (xs, c') \<and> idle c' \<and> front (rev ks @ k # bs) c' \<and> contents (disk c') = contents (disk c1)"
    using Cons.prems c1 by (intro Cons.IH) auto
  then show ?case using c1 by auto
qed auto

lemma pushed_out:
  assumes c: "idle c" and b: "unat b < dev_size" and ks: "distinct (b # ks)" "length ks = NBUF" "\<forall>k \<in> set ks. unat k < dev_size"
  shows "\<exists>xs c'. run_ops D (Put b y # map Get ks @ [Get b]) c = Some (xs @ [contents (disk c) b], c') \<and>
    contents (disk c') = contents (disk c)"
proof -
  have 0: "front [] c" by (simp add: front_def)
  have n: "length ([] :: u32 list) < NBUF" by (simp add: NBUF_val)
  obtain c1 where c1: "with_block D ROOTDEV b (\<lambda>_. ((), y)) c = Some ((), c1)" "idle c1" "contents (disk c1) = contents (disk c)"
    using with_block_front [OF c b 0 _ n, of "\<lambda>_. ((), y)"] by auto
  have "front [] c1" by (simp add: front_def)
  then obtain xs c2 where c2: "run_ops D (map Get ks) c1 = Some (xs, c2)" "idle c2" "front (rev ks) c2"
    "contents (disk c2) = contents (disk c1)"
    using run_gets_front [OF c1(2), of "[]" ks] ks by auto
  have len: "length (bufs c2) = NBUF" using c2(2) by (simp add: idle_def)
  then have fr: "map (\<lambda>x. (buf_dev x, buf_blockno x)) (bufs c2) = map (Pair ROOTDEV) (rev ks)"
    using c2(3) ks(2) by (simp add: front_def)
  have none: "lookup b (bufs c2) = None"
  proof (rule ccontr)
    assume "lookup b (bufs c2) \<noteq> None"
    then obtain x where "x \<in> set (bufs c2)" "buf_dev x = ROOTDEV" "buf_blockno x = b"
      by (auto simp: lookup_def find_None_iff)
    then have "(ROOTDEV, b) \<in> set (map (\<lambda>x. (buf_dev x, buf_blockno x)) (bufs c2))" by force
    then show False using fr ks(1) by auto
  qed
  then have v: "view contents c2 b = contents (disk c) b" using c2(4) c1(3) by (simp add: view_def)
  have "front [] c2" by (simp add: front_def)
  then obtain c3 where c3: "read_block D ROOTDEV b c2 = Some (contents (disk c) b, c3)" "contents (disk c3) = contents (disk c2)"
    using with_block_front [OF c2(2) b _ _ n, of "\<lambda>x. (x, x)"] v by (auto simp: read_block_def)
  show ?thesis using run_ops_snoc [OF c2(1) c3(1)] c1 c2(4) c3(2) by auto
qed

end

text \<open>
  C5: on at most \<open>NBUF\<close> blocks, a sequence of reads and writes through the cache over the
  block server gives what the same sequence gives on a map that starts with the contents of the disk. The
  disk itself is not changed by any write.
\<close>

theorem cache_is_a_map:
  assumes "ram_inv (disk c)" and "finite B" "card B \<le> NBUF" "\<forall>b \<in> B. unat b < FS_SIZE" and "op_block ` set ops \<subseteq> B"
  shows "\<exists>c'. run_ops (ram_ops E) ops (binit c) = Some (map_ops ops (ram_contents (disk c)), c') \<and>
    ram_contents (disk c') = ram_contents (disk c)"
proof -
  have "ram.good B (binit c)" using assms binit_inv by (simp add: ram.good_def)
  moreover have "refs (binit c) = (\<lambda>_. 0)" by (simp add: fun_eq_iff)
  moreover have "view ram_contents (binit c) = ram_contents (disk c)" by (simp add: fun_eq_iff)
  ultimately show ?thesis using ram.run_ops_map [of B "binit c" ops E] assms(5) by auto
qed

text \<open>
  C40: a block that was written and is pushed out of the cache by \<open>NBUF\<close> other blocks is read
  with the contents it had on the disk before: what was written is lost.
\<close>

theorem pushed_out_block_is_lost:
  assumes "ram_inv (disk c)" and "unat b < FS_SIZE" and "distinct (b # ks)" and "length ks = NBUF" and "\<forall>k \<in> set ks. unat k < FS_SIZE"
  shows "\<exists>xs c'. run_ops (ram_ops E) (Put b y # map Get ks @ [Get b]) (binit c) = Some (xs @ [ram_contents (disk c) b], c') \<and>
    ram_contents (disk c') = ram_contents (disk c)"
proof -
  have b: "bufs (binit c) = rev (map (\<lambda>i. \<lparr>bid = i, buf_valid = False, buf_dev = 0, buf_blockno = 0, refcnt = 0, buf_data = (\<lambda>_. 0)\<rparr>) [0 ..< NBUF])"
    by (simp add: binit_def)
  have "map bid (bufs (binit c)) = rev [0 ..< NBUF]" by (simp add: b rev_map [symmetric] comp_def)
  then have "distinct (map bid (bufs (binit c)))" by simp
  then have "ram.idle (binit c)" using assms(1) by (auto simp: ram.idle_def b ROOTDEV_def)
  from ram.pushed_out [OF this assms(2-5), of E y] show ?thesis by simp
qed

text \<open>Witnesses: the file server as client 2 of a block server with the first half of its blocks.\<close>

definition example_disk :: "unit fs_disk" where
  "example_disk = \<lparr>conns = map (\<lambda>i. the (gpi_new_badge 10 0 2 7 (of_nat i))) [0 ..< 512], page = 0x20000000,
     ram = (disk_with [(512, 512)])\<lparr>shared_mem := (replicate MAX_CLIENT_ID 0)[2 := 0x20000000]\<rparr>\<rparr>"

definition example_cache :: "unit fs_disk bcache" where
  "example_cache = \<lparr>bufs = [], disk = example_disk\<rparr>"

lemma example_conn:
  assumes "i < 512"
  defines "b \<equiv> the (gpi_new_badge 10 0 2 7 (of_nat i))"
  shows "get_object_id_from_badge b = of_nat i" "conn_ok example_disk b"
proof -
  have "(of_nat i :: u32) \<le> 0xFFFFF" using assms by (simp add: word_le_nat_alt unat_of_nat_small)
  then have "gpi_new_badge 10 0 2 7 (of_nat i) = Some b" using gpi_new_badge_succeeds [of 10 0 2 7 "of_nat i"] by (auto simp: b_def)
  note r = gpi_new_badge_reads [OF this]
  show "get_object_id_from_badge b = of_nat i" by (rule r(5))
  have "b \<noteq> 0" using r(1) by (auto simp: badge_defs)
  moreover have "(of_nat i :: u32) < n_sectors" using assms by (simp add: word_less_nat_alt unat_of_nat_small)
  ultimately show "conn_ok example_disk b"
    using r by (simp add: conn_ok_def client_mem_def) (simp add: example_disk_def disk_with_def MAX_CLIENT_ID_def)
qed

lemma example_disk_inv: "ram_inv example_disk"
proof -
  have c: "conns example_disk = map (\<lambda>i. the (gpi_new_badge 10 0 2 7 (of_nat i))) [0 ..< 512]" by (simp add: example_disk_def)
  have "map get_object_id_from_badge (conns example_disk) = map of_nat [0 ..< 512]" unfolding c by (simp add: example_conn(1))
  moreover have "distinct (map (of_nat :: nat \<Rightarrow> u32) [0 ..< 512])" by (auto simp: distinct_map inj_on_def u32_of_nat_eq)
  ultimately have "distinct (map get_object_id_from_badge (conns example_disk))" by simp
  moreover have "\<forall>cn \<in> set (conns example_disk). conn_ok example_disk cn" unfolding c using example_conn(2) by auto
  ultimately show ?thesis by (simp add: ram_inv_def) (simp add: example_disk_def FS_SIZE_val BSIZE_def disk_with_def)
qed

theorem cache_is_a_map_witness:
  "\<exists>c'. run_ops (ram_ops lowest_malloc) [Get 8, Put 8 (\<lambda>_. 1), Put 9 (\<lambda>_. 2), Get 8] (binit example_cache) =
     Some ([ram_contents example_disk 8, (\<lambda>_. 1)], c')"
  using cache_is_a_map [of example_cache "{8, 9}" "[Get 8, Put 8 (\<lambda>_. 1), Put 9 (\<lambda>_. 2), Get 8]" lowest_malloc] example_disk_inv
  by (auto simp: example_cache_def FS_SIZE_val NBUF_val)

theorem pushed_out_block_is_lost_witness:
  "\<exists>xs c'. run_ops (ram_ops lowest_malloc) (Put 8 (\<lambda>_. 1) # map Get (map of_nat [9 ..< 39]) @ [Get 8]) (binit example_cache) =
     Some (xs @ [ram_contents example_disk 8], c')"
proof -
  let ?ks = "map of_nat [9 ..< 39] :: u32 list"
  have d: "distinct (8 # ?ks)" "length ?ks = NBUF" by (simp_all add: NBUF_val upt_rec_numeral)
  have l: "\<forall>k \<in> set ?ks. unat k < FS_SIZE" by (auto simp: FS_SIZE_val unat_of_nat_small)
  have "ram_inv (disk example_cache)" "unat (8 :: u32) < FS_SIZE" using example_disk_inv by (simp_all add: example_cache_def FS_SIZE_val)
  from pushed_out_block_is_lost [OF this d l, of lowest_malloc "\<lambda>_. 1"] show ?thesis by (auto simp: example_cache_def)
qed

end
