(* ===== verification/Xv6_Layout.thy ===== *)
theory Xv6_Layout
  imports Block_Client
begin

unbundle bit_operations_syntax

section \<open>Layout of the file system (apps/xv6fs/include/fs\_server/fs.h, file.h, defs.h)\<close>

text \<open>
  The constants of the layout, the structures on disk as little-endian bytes of a block, and the state
  of the file system: the buffer cache extended by the super block, the inode table and the current
  directory. A pointer to an inode is its index in the table.
\<close>

subsection \<open>Words in a block\<close>

definition get16 :: "block \<Rightarrow> nat \<Rightarrow> u16" where
  "get16 y off = ucast (y off) OR push_bit 8 (ucast (y (off + 1)))"

definition put16 :: "nat \<Rightarrow> u16 \<Rightarrow> block \<Rightarrow> block" where
  "put16 off v y = y(off := ucast v, off + 1 := ucast (drop_bit 8 v))"

definition get32 :: "block \<Rightarrow> nat \<Rightarrow> u32" where
  "get32 y off = ucast (y off) OR push_bit 8 (ucast (y (off + 1))) OR push_bit 16 (ucast (y (off + 2))) OR push_bit 24 (ucast (y (off + 3)))"

definition put32 :: "nat \<Rightarrow> u32 \<Rightarrow> block \<Rightarrow> block" where
  "put32 off v y = y(off := ucast v, off + 1 := ucast (drop_bit 8 v), off + 2 := ucast (drop_bit 16 v), off + 3 := ucast (drop_bit 24 v))"

text \<open>\<open>memset\<close> to zero.\<close>

definition zero_bytes :: "nat \<Rightarrow> nat \<Rightarrow> block \<Rightarrow> block" where
  "zero_bytes off n y = (\<lambda>i. if off \<le> i \<and> i < off + n then 0 else y i)"

text \<open>\<open>memmove\<close> into a block and out of it.\<close>

definition put_bytes :: "nat \<Rightarrow> u8 list \<Rightarrow> block \<Rightarrow> block" where
  "put_bytes off xs y = (\<lambda>i. if off \<le> i \<and> i < off + length xs then xs ! (i - off) else y i)"

definition get_bytes :: "nat \<Rightarrow> nat \<Rightarrow> block \<Rightarrow> u8 list" where
  "get_bytes off n y = map y [off ..< off + n]"

lemma get32_put32 [simp]: "get32 (put32 off v y) off = v"
proof (rule bit_word_eqI)
  fix n assume n: "n < LENGTH(32)"
  consider "n < 8" | "8 \<le> n" "n < 16" | "16 \<le> n" "n < 24" | "24 \<le> n" by linarith
  then show "bit (get32 (put32 off v y) off) n = bit v n"
    using n by cases (auto simp: get32_def put32_def bit_simps)
qed

lemma get16_put16 [simp]: "get16 (put16 off v y) off = v"
  by (rule bit_word_eqI) (auto simp: get16_def put16_def bit_simps)

lemma get32_put32_other: "off + 4 \<le> off' \<or> off' + 4 \<le> off \<Longrightarrow> get32 (put32 off v y) off' = get32 y off'"
  by (auto simp: get32_def put32_def)

lemma get_put_bytes [simp]: "length xs = n \<Longrightarrow> get_bytes off n (put_bytes off xs y) = xs"
  by (auto simp: get_bytes_def put_bytes_def intro: nth_equalityI)

lemma length_get_bytes [simp]: "length (get_bytes off n y) = n"
  by (simp add: get_bytes_def)

subsection \<open>Constants\<close>

definition ROOTINO :: u32 where "ROOTINO = 1"
definition FSMAGIC :: u32 where "FSMAGIC = 0x10203040"
definition NDIRECT :: nat where "NDIRECT = 12"
definition NINDIRECT :: nat where "NINDIRECT = BSIZE div 4"
definition MAXFILE :: nat where "MAXFILE = NDIRECT + NINDIRECT"
definition DINODE_SIZE :: nat where "DINODE_SIZE = 12 + 4 * (NDIRECT + 1)"
definition IPB :: nat where "IPB = BSIZE div DINODE_SIZE"
definition BPB :: nat where "BPB = BSIZE * 8"
definition DIRSIZ :: nat where "DIRSIZ = 14"
definition DIRENT_SIZE :: nat where "DIRENT_SIZE = 2 + DIRSIZ"
definition N_INODES :: nat where "N_INODES = FS_SIZE div 2"
definition T_DIR :: u16 where "T_DIR = 1"
definition T_FILE :: u16 where "T_FILE = 2"
definition T_DEVICE :: u16 where "T_DEVICE = 3"
definition T_SOCK :: u16 where "T_SOCK = 4"

lemmas layout_defs = NDIRECT_def NINDIRECT_def MAXFILE_def DINODE_SIZE_def IPB_def BPB_def DIRSIZ_def DIRENT_SIZE_def BSIZE_def

subsection \<open>State\<close>

record superblock =
  sb_magic :: u32
  sb_size :: u32
  sb_nblocks :: u32
  sb_ninodes :: u32
  sb_nlog :: u32
  sb_logstart :: u32
  sb_inodestart :: u32
  sb_bmapstart :: u32

record inode =
  i_dev :: u32
  i_inum :: u32
  i_ref :: int
  i_valid :: bool
  i_type :: u16
  i_major :: u16
  i_minor :: u16
  i_nlink :: u16
  i_size :: u32
  i_ctime :: int
  i_atime :: int
  i_mtime :: int
  i_addrs :: "u32 list"

record 'd fs = "'d bcache" +
  sb :: superblock
  itable :: "inode list"
  cwd :: "nat option"

definition IBLOCK :: "u32 \<Rightarrow> superblock \<Rightarrow> u32" where
  "IBLOCK i b = i div of_nat IPB + sb_inodestart b"

definition BBLOCK :: "u32 \<Rightarrow> superblock \<Rightarrow> u32" where
  "BBLOCK b bl = b div of_nat BPB + sb_bmapstart bl"

text \<open>The super block and the inodes on disk.\<close>

definition superblock_of :: "block \<Rightarrow> superblock" where
  "superblock_of y = \<lparr>sb_magic = get32 y 0, sb_size = get32 y 4, sb_nblocks = get32 y 8, sb_ninodes = get32 y 12,
     sb_nlog = get32 y 16, sb_logstart = get32 y 20, sb_inodestart = get32 y 24, sb_bmapstart = get32 y 28\<rparr>"

definition get_addrs :: "block \<Rightarrow> nat \<Rightarrow> u32 list" where
  "get_addrs y off = map (\<lambda>j. get32 y (off + 12 + 4 * j)) [0 ..< NDIRECT + 1]"

fun put_addrs :: "nat \<Rightarrow> u32 list \<Rightarrow> block \<Rightarrow> block" where
  "put_addrs off [] y = y"
| "put_addrs off (a # as) y = put_addrs (off + 4) as (put32 off a y)"

text \<open>The offset of an inode in its block.\<close>

definition dinode_off :: "u32 \<Rightarrow> nat" where
  "dinode_off inum = (unat inum mod IPB) * DINODE_SIZE"

end
