(* ===== verification/Xv6_Fs.thy ===== *)
theory Xv6_Fs
  imports Xv6_Layout
begin

unbundle bit_operations_syntax

section \<open>The file system (apps/xv6fs/src/fs\_server/fs.c)\<close>

text \<open>
  Blocks, inodes, their contents, directories and paths. The disk operations \<open>D\<close> are a parameter. \<open>None\<close> is
  a panic (an endless loop in the source) or a fault. Locks do nothing in the source. \<open>map_file_to_block\<close>
  is empty in the configuration of the sources. Buffers of a caller are lists of bytes; a path or name is the
  list of its bytes without the terminating zero.
\<close>

subsection \<open>Blocks\<close>

definition readsb :: "'d disk_ops \<Rightarrow> u32 \<Rightarrow> ('d, 'z) fs_scheme \<Rightarrow> ('d, 'z) fs_scheme option" where
  "readsb D dev s = do {
     (y, s) \<leftarrow> read_block D dev 1 s;
     Some (s\<lparr>sb := superblock_of y\<rparr>) }"

definition xv6fs_bzero :: "'d disk_ops \<Rightarrow> u32 \<Rightarrow> u32 \<Rightarrow> ('d, 'z) fs_scheme \<Rightarrow> ('d, 'z) fs_scheme option" where
  "xv6fs_bzero D dev bno s = do {
     (_, s) \<leftarrow> with_block D dev bno (\<lambda>y. ((), zero_bytes 0 BSIZE y)) s;
     Some s }"

text \<open>The bit of a block in a block of the bitmap.\<close>

definition bit_clear :: "block \<Rightarrow> nat \<Rightarrow> bool" where
  "bit_clear y bi \<longleftrightarrow> y (bi div 8) AND push_bit (bi mod 8) 1 = 0"

definition mark_bit :: "nat \<Rightarrow> block \<Rightarrow> block" where
  "mark_bit bi y = y(bi div 8 := y (bi div 8) OR push_bit (bi mod 8) 1)"

definition unmark_bit :: "nat \<Rightarrow> block \<Rightarrow> block" where
  "unmark_bit bi y = y(bi div 8 := y (bi div 8) AND NOT (push_bit (bi mod 8) 1))"

text \<open>The inner loop of \<open>balloc\<close>: the first clear bit of the next \<open>k\<close>.\<close>

fun bitmap_scan :: "block \<Rightarrow> nat \<Rightarrow> nat \<Rightarrow> nat option" where
  "bitmap_scan y 0 bi = None"
| "bitmap_scan y (Suc k) bi = (if bit_clear y bi then Some bi else bitmap_scan y k (Suc bi))"

lemma BPB_pos [simp]: "0 < BPB" by (simp add: layout_defs)

function balloc_loop :: "'d disk_ops \<Rightarrow> u32 \<Rightarrow> nat \<Rightarrow> nat \<Rightarrow> ('d, 'z) fs_scheme \<Rightarrow> (u32 \<times> ('d, 'z) fs_scheme) option" where
  "balloc_loop D dev sz b s = (if b < sz then do {
       (i, s) \<leftarrow> bread D dev (BBLOCK (of_nat b) (sb s)) s;
       (case bitmap_scan (data_of i s) (min BPB (sz - b)) 0 of
          Some bi \<Rightarrow> do {
            s \<leftarrow> brelse i (set_data i (mark_bit bi (data_of i s)) s);
            s \<leftarrow> xv6fs_bzero D dev (of_nat (b + bi)) s;
            Some (of_nat (b + bi), s) }
        | None \<Rightarrow> do {
            s \<leftarrow> brelse i s;
            balloc_loop D dev sz (b + BPB) s }) }
     else Some (0, s))"
  by pat_completeness auto
termination by (relation "measure (\<lambda>(D, dev, sz, b, s). sz - b)") (auto simp: diff_less_mono2)

definition balloc :: "'d disk_ops \<Rightarrow> u32 \<Rightarrow> ('d, 'z) fs_scheme \<Rightarrow> (u32 \<times> ('d, 'z) fs_scheme) option" where
  "balloc D dev s = balloc_loop D dev (unat (sb_size (sb s))) 0 s"

definition bfree :: "'d disk_ops \<Rightarrow> u32 \<Rightarrow> u32 \<Rightarrow> ('d, 'z) fs_scheme \<Rightarrow> ('d, 'z) fs_scheme option" where
  "bfree D dev b s = do {
     (i, s) \<leftarrow> bread D dev (BBLOCK b (sb s)) s;
     let bi = unat b mod BPB;
     if bit_clear (data_of i s) bi then None
     else brelse i (set_data i (unmark_bit bi (data_of i s)) s) }"

subsection \<open>Inodes\<close>

definition upd_inode :: "nat \<Rightarrow> (inode \<Rightarrow> inode) \<Rightarrow> ('d, 'z) fs_scheme \<Rightarrow> ('d, 'z) fs_scheme" where
  "upd_inode ip f s = s\<lparr>itable := (itable s)[ip := f (itable s ! ip)]\<rparr>"

abbreviation inode_of :: "('d, 'z) fs_scheme \<Rightarrow> nat \<Rightarrow> inode" where
  "inode_of s ip \<equiv> itable s ! ip"

text \<open>The table is searched from the start, for the inode and for the first free entry.\<close>

fun first_index :: "('a \<Rightarrow> bool) \<Rightarrow> 'a list \<Rightarrow> nat option" where
  "first_index P [] = None"
| "first_index P (x # xs) = (if P x then Some 0 else map_option Suc (first_index P xs))"

definition iget :: "u32 \<Rightarrow> u32 \<Rightarrow> ('d, 'z) fs_scheme \<Rightarrow> (nat \<times> ('d, 'z) fs_scheme) option" where
  "iget dev inum s =
     (case first_index (\<lambda>p. i_ref p > 0 \<and> i_dev p = dev \<and> i_inum p = inum) (itable s) of
        Some ip \<Rightarrow> Some (ip, upd_inode ip (\<lambda>p. p\<lparr>i_ref := i_ref p + 1\<rparr>) s)
      | None \<Rightarrow>
        (case first_index (\<lambda>p. i_ref p = 0) (itable s) of
           Some ip \<Rightarrow> Some (ip, upd_inode ip (\<lambda>p. p\<lparr>i_dev := dev, i_inum := inum, i_ref := 1, i_valid := False\<rparr>) s)
         | None \<Rightarrow> None))"

definition idup :: "nat \<Rightarrow> ('d, 'z) fs_scheme \<Rightarrow> ('d, 'z) fs_scheme" where
  "idup ip s = upd_inode ip (\<lambda>p. p\<lparr>i_ref := i_ref p + 1\<rparr>) s"

text \<open>The loop of \<open>ialloc\<close> over the inode numbers.\<close>

fun ialloc_loop :: "'d disk_ops \<Rightarrow> u32 \<Rightarrow> u16 \<Rightarrow> nat \<Rightarrow> nat \<Rightarrow> ('d, 'z) fs_scheme \<Rightarrow> (nat option \<times> ('d, 'z) fs_scheme) option" where
  "ialloc_loop D dev ty 0 inum s = Some (None, s)"
| "ialloc_loop D dev ty (Suc k) inum s = do {
     (free, s) \<leftarrow> with_block D dev (IBLOCK (of_nat inum) (sb s)) (\<lambda>y. let off = dinode_off (of_nat inum) in
       if get16 y off = 0 then (True, put16 off ty (zero_bytes off DINODE_SIZE y)) else (False, y)) s;
     if free then do {
       (ip, s) \<leftarrow> iget dev (of_nat inum) s;
       Some (Some ip, s) }
     else ialloc_loop D dev ty k (Suc inum) s }"

definition ialloc :: "'d disk_ops \<Rightarrow> u32 \<Rightarrow> u16 \<Rightarrow> ('d, 'z) fs_scheme \<Rightarrow> (nat option \<times> ('d, 'z) fs_scheme) option" where
  "ialloc D dev ty s = ialloc_loop D dev ty (unat (sb_ninodes (sb s)) - 1) 1 s"

text \<open>The fields of an inode in its block.\<close>

definition put_dinode :: "nat \<Rightarrow> inode \<Rightarrow> block \<Rightarrow> block" where
  "put_dinode off p y = put_addrs (off + 12) (i_addrs p) (put32 (off + 8) (i_size p) (put16 (off + 6) (i_nlink p)
     (put16 (off + 4) (i_minor p) (put16 (off + 2) (i_major p) (put16 off (i_type p) y)))))"

definition get_dinode :: "nat \<Rightarrow> block \<Rightarrow> inode \<Rightarrow> inode" where
  "get_dinode off y p = p\<lparr>i_type := get16 y off, i_major := get16 y (off + 2), i_minor := get16 y (off + 4),
     i_nlink := get16 y (off + 6), i_size := get32 y (off + 8), i_addrs := get_addrs y off\<rparr>"

definition iupdate :: "'d disk_ops \<Rightarrow> nat \<Rightarrow> ('d, 'z) fs_scheme \<Rightarrow> ('d, 'z) fs_scheme option" where
  "iupdate D ip s = do {
     let p = inode_of s ip;
     (_, s) \<leftarrow> with_block D (i_dev p) (IBLOCK (i_inum p) (sb s)) (\<lambda>y. ((), put_dinode (dinode_off (i_inum p)) p y)) s;
     Some s }"

definition ilock :: "'d disk_ops \<Rightarrow> nat \<Rightarrow> ('d, 'z) fs_scheme \<Rightarrow> ('d, 'z) fs_scheme option" where
  "ilock D ip s = (let p = inode_of s ip in
     if i_ref p < 1 then None
     else if i_valid p then Some s
     else do {
       (y, s) \<leftarrow> read_block D (i_dev p) (IBLOCK (i_inum p) (sb s)) s;
       let p = (get_dinode (dinode_off (i_inum p)) y p)\<lparr>i_valid := True\<rparr>;
       let s = upd_inode ip (\<lambda>_. p) s;
       if i_type p = 0 then None else Some s })"

definition iunlock :: "nat \<Rightarrow> ('d, 'z) fs_scheme \<Rightarrow> ('d, 'z) fs_scheme option" where
  "iunlock ip s = (if i_ref (inode_of s ip) < 1 then None else Some s)"

subsection \<open>Contents of an inode\<close>

text \<open>A block for an entry that is 0: the address (0 if the disk is full) and whether to enter it.\<close>

definition bmap :: "'d disk_ops \<Rightarrow> nat \<Rightarrow> nat \<Rightarrow> ('d, 'z) fs_scheme \<Rightarrow> (u32 \<times> ('d, 'z) fs_scheme) option" where
  "bmap D ip bn s = (let dev = i_dev (inode_of s ip) in
     if bn < NDIRECT then
       if i_addrs (inode_of s ip) ! bn = 0 then do {
         (addr, s) \<leftarrow> balloc D dev s;
         if addr = 0 then Some (0, s)
         else Some (addr, upd_inode ip (\<lambda>p. p\<lparr>i_addrs := (i_addrs p)[bn := addr]\<rparr>) s) }
       else Some (i_addrs (inode_of s ip) ! bn, s)
     else if bn - NDIRECT < NINDIRECT then do {
       (addr, s) \<leftarrow> (if i_addrs (inode_of s ip) ! NDIRECT = 0 then do {
           (addr, s) \<leftarrow> balloc D dev s;
           Some (addr, if addr = 0 then s else upd_inode ip (\<lambda>p. p\<lparr>i_addrs := (i_addrs p)[NDIRECT := addr]\<rparr>) s) }
         else Some (i_addrs (inode_of s ip) ! NDIRECT, s));
       if addr = 0 then Some (0, s) else do {
         (i, s) \<leftarrow> bread D dev addr s;
         let a = get32 (data_of i s) (4 * (bn - NDIRECT));
         if a = 0 then do {
           (addr, s) \<leftarrow> balloc D dev s;
           s \<leftarrow> brelse i (if addr \<noteq> 0 then set_data i (put32 (4 * (bn - NDIRECT)) addr (data_of i s)) s else s);
           Some (addr, s) }
         else do {
           s \<leftarrow> brelse i s;
           Some (a, s) } } }
     else None)"

definition bmap_noalloc :: "'d disk_ops \<Rightarrow> nat \<Rightarrow> nat \<Rightarrow> ('d, 'z) fs_scheme \<Rightarrow> (u32 \<times> ('d, 'z) fs_scheme) option" where
  "bmap_noalloc D ip bn s = (
     if bn < NDIRECT then Some (i_addrs (inode_of s ip) ! bn, s)
     else if bn - NDIRECT < NINDIRECT then
       if i_addrs (inode_of s ip) ! NDIRECT = 0 then Some (0, s)
       else do {
         (y, s) \<leftarrow> read_block D (i_dev (inode_of s ip)) (i_addrs (inode_of s ip) ! NDIRECT) s;
         Some (get32 y (4 * (bn - NDIRECT)), s) }
     else None)"

text \<open>The loops of \<open>itrunc\<close>: over the direct blocks, and over the entries of the indirect block, whose
  buffer is \<open>i\<close>.\<close>

fun itrunc_direct :: "'d disk_ops \<Rightarrow> nat \<Rightarrow> nat \<Rightarrow> nat \<Rightarrow> ('d, 'z) fs_scheme \<Rightarrow> ('d, 'z) fs_scheme option" where
  "itrunc_direct D ip 0 i s = Some s"
| "itrunc_direct D ip (Suc k) i s = (
     if i_addrs (inode_of s ip) ! i \<noteq> 0 then do {
       s \<leftarrow> bfree D (i_dev (inode_of s ip)) (i_addrs (inode_of s ip) ! i) s;
       itrunc_direct D ip k (Suc i) (upd_inode ip (\<lambda>p. p\<lparr>i_addrs := (i_addrs p)[i := 0]\<rparr>) s) }
     else itrunc_direct D ip k (Suc i) s)"

fun itrunc_indirect :: "'d disk_ops \<Rightarrow> u32 \<Rightarrow> nat \<Rightarrow> nat \<Rightarrow> nat \<Rightarrow> ('d, 'z) fs_scheme \<Rightarrow> ('d, 'z) fs_scheme option" where
  "itrunc_indirect D dev i 0 j s = Some s"
| "itrunc_indirect D dev i (Suc k) j s = (let a = get32 (data_of i s) (4 * j) in
     if a \<noteq> 0 then do {
       s \<leftarrow> bfree D dev a s;
       itrunc_indirect D dev i k (Suc j) s }
     else itrunc_indirect D dev i k (Suc j) s)"

definition itrunc :: "'d disk_ops \<Rightarrow> nat \<Rightarrow> ('d, 'z) fs_scheme \<Rightarrow> ('d, 'z) fs_scheme option" where
  "itrunc D ip s = do {
     s \<leftarrow> itrunc_direct D ip NDIRECT 0 s;
     let p = inode_of s ip;
     s \<leftarrow> (if i_addrs p ! NDIRECT \<noteq> 0 then do {
            (i, s) \<leftarrow> bread D (i_dev p) (i_addrs p ! NDIRECT) s;
            s \<leftarrow> itrunc_indirect D (i_dev p) i NINDIRECT 0 s;
            s \<leftarrow> brelse i s;
            s \<leftarrow> bfree D (i_dev p) (i_addrs p ! NDIRECT) s;
            Some (upd_inode ip (\<lambda>p. p\<lparr>i_addrs := (i_addrs p)[NDIRECT := 0]\<rparr>) s) }
          else Some s);
     iupdate D ip (upd_inode ip (\<lambda>p. p\<lparr>i_size := 0\<rparr>) s) }"

definition iput :: "'d disk_ops \<Rightarrow> nat \<Rightarrow> ('d, 'z) fs_scheme \<Rightarrow> ('d, 'z) fs_scheme option" where
  "iput D ip s = do {
     let p = inode_of s ip;
     s \<leftarrow> (if i_ref p = 1 \<and> i_valid p \<and> i_nlink p = 0 then do {
            s \<leftarrow> itrunc D ip s;
            s \<leftarrow> iupdate D ip (upd_inode ip (\<lambda>p. p\<lparr>i_type := 0\<rparr>) s);
            Some (upd_inode ip (\<lambda>p. p\<lparr>i_valid := False\<rparr>) s) }
          else Some s);
     Some (upd_inode ip (\<lambda>p. p\<lparr>i_ref := i_ref p - 1\<rparr>) s) }"

definition iunlockput :: "'d disk_ops \<Rightarrow> nat \<Rightarrow> ('d, 'z) fs_scheme \<Rightarrow> ('d, 'z) fs_scheme option" where
  "iunlockput D ip s = do { s \<leftarrow> iunlock ip s; iput D ip s }"

text \<open>The loop of \<open>readi\<close>: \<open>n\<close> bytes are left. The first bounds check excludes a wrap-around of the
  offset.\<close>

lemma BSIZE_pos [simp]: "0 < BSIZE" by (simp add: BSIZE_def)

function readi_loop :: "'d disk_ops \<Rightarrow> nat \<Rightarrow> nat \<Rightarrow> nat \<Rightarrow> ('d, 'z) fs_scheme \<Rightarrow> (u8 list \<times> ('d, 'z) fs_scheme) option" where
  "readi_loop D ip off n s = (if n = 0 then Some ([], s) else do {
     (addr, s) \<leftarrow> bmap D ip (off div BSIZE) s;
     if addr = 0 then Some ([], s) else do {
       let m = min n (BSIZE - off mod BSIZE);
       (y, s) \<leftarrow> read_block D (i_dev (inode_of s ip)) addr s;
       (xs, s) \<leftarrow> readi_loop D ip (off + m) (n - m) s;
       Some (get_bytes (off mod BSIZE) m y @ xs, s) } })"
  by pat_completeness auto
termination by (relation "measure (\<lambda>(D, ip, off, n, s). n)") auto

definition readi :: "'d disk_ops \<Rightarrow> nat \<Rightarrow> u32 \<Rightarrow> u32 \<Rightarrow> ('d, 'z) fs_scheme \<Rightarrow> (u8 list \<times> ('d, 'z) fs_scheme) option" where
  "readi D ip off n s = (let sz = i_size (inode_of s ip) in
     if off > sz \<or> off + n < off then Some ([], s)
     else readi_loop D ip (unat off) (unat (if off + n > sz then sz - off else n)) s)"

text \<open>The loop of \<open>writei\<close> returns the number of bytes written.\<close>

function writei_loop :: "'d disk_ops \<Rightarrow> nat \<Rightarrow> nat \<Rightarrow> u8 list \<Rightarrow> ('d, 'z) fs_scheme \<Rightarrow> (nat \<times> ('d, 'z) fs_scheme) option" where
  "writei_loop D ip off src s = (if src = [] then Some (0, s) else do {
     (addr, s) \<leftarrow> bmap D ip (off div BSIZE) s;
     if addr = 0 then Some (0, s) else do {
       let m = min (length src) (BSIZE - off mod BSIZE);
       (_, s) \<leftarrow> with_block D (i_dev (inode_of s ip)) addr (\<lambda>y. ((), put_bytes (off mod BSIZE) (take m src) y)) s;
       (t, s) \<leftarrow> writei_loop D ip (off + m) (drop m src) s;
       Some (m + t, s) } })"
  by pat_completeness auto
termination by (relation "measure (\<lambda>(D, ip, off, src, s). length src)") (auto simp: min_def)

definition writei :: "'d disk_ops \<Rightarrow> nat \<Rightarrow> u32 \<Rightarrow> u8 list \<Rightarrow> ('d, 'z) fs_scheme \<Rightarrow> (int \<times> ('d, 'z) fs_scheme) option" where
  "writei D ip off src s = (let n = of_nat (length src) :: u32 in
     if off > i_size (inode_of s ip) \<or> off + n < off then Some (-1, s)
     else if off + n > of_nat (MAXFILE * BSIZE) then Some (-1, s)
     else do {
       (t, s) \<leftarrow> writei_loop D ip (unat off) src s;
       let off = off + of_nat t;
       let s = (if off > i_size (inode_of s ip) then upd_inode ip (\<lambda>p. p\<lparr>i_size := off\<rparr>) s else s);
       s \<leftarrow> iupdate D ip s;
       Some (int t, s) })"

end
