(* ===== verification/Xv6_Dirs.thy ===== *)
theory Xv6_Dirs
  imports Xv6_Fs
begin

unbundle bit_operations_syntax

section \<open>Directories and paths (fs.c), and the calls that change directories (sysfile.c)\<close>

text \<open>
  A loop whose bound is the size of an inode is a partial function: the size is read from the inode in every
  round, as in the source.
\<close>

type_synonym path = "u8 list"

definition slash :: u8 where "slash = 47"

text \<open>A name up to its terminating zero or its maximal length.\<close>

definition cut :: "path \<Rightarrow> path" where
  "cut s = takeWhile (\<lambda>c. c \<noteq> 0) (take DIRSIZ s)"

definition namecmp :: "path \<Rightarrow> path \<Rightarrow> bool" where
  "namecmp s t \<longleftrightarrow> cut s = cut t"

text \<open>A directory entry as bytes.\<close>

definition de_inum :: "u8 list \<Rightarrow> u16" where
  "de_inum de = ucast (de ! 0) OR push_bit 8 (ucast (de ! 1))"

definition de_name :: "u8 list \<Rightarrow> path" where
  "de_name de = drop 2 de"

text \<open>\<open>strncpy\<close> of the name and the inode number.\<close>

definition make_de :: "path \<Rightarrow> u16 \<Rightarrow> u8 list" where
  "make_de name inum = [ucast inum, ucast (drop_bit 8 inum)] @ take DIRSIZ (cut name @ replicate DIRSIZ 0)"

subsection \<open>Looking up and entering names\<close>

partial_function (option) dirlookup_loop ::
    "'d disk_ops \<Rightarrow> nat \<Rightarrow> path \<Rightarrow> u32 \<Rightarrow> ('d, 'z) fs_scheme \<Rightarrow> ((nat \<times> u32) option \<times> ('d, 'z) fs_scheme) option" where
  [code]: "dirlookup_loop D dp name off s = (if off < i_size (inode_of s dp) then do {
       (de, s) \<leftarrow> readi D dp off (of_nat DIRENT_SIZE) s;
       if length de \<noteq> DIRENT_SIZE then None
       else if de_inum de = 0 then dirlookup_loop D dp name (off + of_nat DIRENT_SIZE) s
       else if namecmp name (de_name de) then do {
         (ip, s) \<leftarrow> iget (i_dev (inode_of s dp)) (ucast (de_inum de)) s;
         Some (Some (ip, off), s) }
       else dirlookup_loop D dp name (off + of_nat DIRENT_SIZE) s }
     else Some (None, s))"

text \<open>The inode and the offset of the entry that is returned through \<open>poff\<close>.\<close>

definition dirlookup :: "'d disk_ops \<Rightarrow> nat \<Rightarrow> path \<Rightarrow> ('d, 'z) fs_scheme \<Rightarrow> ((nat \<times> u32) option \<times> ('d, 'z) fs_scheme) option" where
  "dirlookup D dp name s = (if i_type (inode_of s dp) \<noteq> T_DIR then None else dirlookup_loop D dp name 0 s)"

text \<open>NULL at the end, \<open>&null_inode\<close> for an empty entry, or an inode and the name of the entry.\<close>

datatype dir_entry = End_of_dir | Null_inode | Entry nat path

definition dirlookup_idx :: "'d disk_ops \<Rightarrow> nat \<Rightarrow> nat \<Rightarrow> ('d, 'z) fs_scheme \<Rightarrow> (dir_entry \<times> ('d, 'z) fs_scheme) option" where
  "dirlookup_idx D dp idx s = (
     if i_type (inode_of s dp) \<noteq> T_DIR then None
     else let off = of_nat (DIRENT_SIZE * idx) :: u32 in
       if off \<ge> i_size (inode_of s dp) then Some (End_of_dir, s)
       else do {
         (de, s) \<leftarrow> readi D dp off (of_nat DIRENT_SIZE) s;
         if length de \<noteq> DIRENT_SIZE then None
         else if de_inum de = 0 \<or> cut (de_name de) = [] then Some (Null_inode, s)
         else do {
           (ip, s) \<leftarrow> iget (i_dev (inode_of s dp)) (ucast (de_inum de)) s;
           Some (Entry ip (cut (de_name de)), s) } })"

partial_function (option) dirlink_scan ::
    "'d disk_ops \<Rightarrow> nat \<Rightarrow> u32 \<Rightarrow> ('d, 'z) fs_scheme \<Rightarrow> (u32 \<times> ('d, 'z) fs_scheme) option" where
  [code]: "dirlink_scan D dp off s = (if off < i_size (inode_of s dp) then do {
       (de, s) \<leftarrow> readi D dp off (of_nat DIRENT_SIZE) s;
       if length de \<noteq> DIRENT_SIZE then None
       else if de_inum de = 0 then Some (off, s)
       else dirlink_scan D dp (off + of_nat DIRENT_SIZE) s }
     else Some (off, s))"

definition dirlink :: "'d disk_ops \<Rightarrow> nat \<Rightarrow> path \<Rightarrow> u32 \<Rightarrow> ('d, 'z) fs_scheme \<Rightarrow> (int \<times> ('d, 'z) fs_scheme) option" where
  "dirlink D dp name inum s = do {
     (r, s) \<leftarrow> dirlookup D dp name s;
     (case r of
        Some (ip, _) \<Rightarrow> do { s \<leftarrow> iput D ip s; Some (-1, s) }
      | None \<Rightarrow> do {
          (off, s) \<leftarrow> dirlink_scan D dp 0 s;
          (n, s) \<leftarrow> writei D dp off (make_de name (ucast inum)) s;
          Some (if n \<noteq> int DIRENT_SIZE then -1 else 0, s) }) }"

subsection \<open>Paths\<close>

definition skipelem :: "path \<Rightarrow> (path \<times> path) option" where
  "skipelem p = (let p = dropWhile (\<lambda>c. c = slash) p in
     if p = [] then None
     else Some (take DIRSIZ (takeWhile (\<lambda>c. c \<noteq> slash) p),
                dropWhile (\<lambda>c. c = slash) (dropWhile (\<lambda>c. c \<noteq> slash) p)))"

lemma skipelem_shorter:
  assumes "skipelem p = Some (name, rest)"
  shows "length rest < length p"
proof -
  let ?p = "dropWhile (\<lambda>c. c = slash) p"
  have p: "?p \<noteq> []" "rest = dropWhile (\<lambda>c. c = slash) (dropWhile (\<lambda>c. c \<noteq> slash) ?p)"
    using assms by (auto simp: skipelem_def Let_def split: if_splits)
  then obtain c q where q: "?p = c # q" "c \<noteq> slash" using hd_dropWhile [of "\<lambda>c. c = slash" p] by (cases ?p) auto
  have "length rest \<le> length (dropWhile (\<lambda>c. c \<noteq> slash) q)" using p(2) q by (simp add: length_dropWhile_le)
  also have "\<dots> \<le> length q" by (rule length_dropWhile_le)
  also have "\<dots> < length ?p" using q by simp
  also have "\<dots> \<le> length p" by (rule length_dropWhile_le)
  finally show ?thesis .
qed

function namex_loop ::
    "'d disk_ops \<Rightarrow> nat \<Rightarrow> path \<Rightarrow> bool \<Rightarrow> path \<Rightarrow> ('d, 'z) fs_scheme \<Rightarrow> ((nat \<times> path) option \<times> ('d, 'z) fs_scheme) option" where
  "namex_loop D ip p parent name s = (case skipelem p of
     None \<Rightarrow> if parent then do { s \<leftarrow> iput D ip s; Some (None, s) } else Some (Some (ip, name), s)
   | Some (name, rest) \<Rightarrow> do {
       s \<leftarrow> ilock D ip s;
       if i_type (inode_of s ip) \<noteq> T_DIR then do { s \<leftarrow> iunlockput D ip s; Some (None, s) }
       else if parent \<and> rest = [] then do { s \<leftarrow> iunlock ip s; Some (Some (ip, name), s) }
       else do {
         (r, s) \<leftarrow> dirlookup D ip name s;
         s \<leftarrow> iunlockput D ip s;
         (case r of None \<Rightarrow> Some (None, s) | Some (nxt, _) \<Rightarrow> namex_loop D nxt rest parent name s) } })"
  by pat_completeness auto
termination by (relation "measure (\<lambda>(D, ip, p, parent, name, s). length p)") (auto dest: skipelem_shorter)

definition namex :: "'d disk_ops \<Rightarrow> path \<Rightarrow> bool \<Rightarrow> ('d, 'z) fs_scheme \<Rightarrow> ((nat \<times> path) option \<times> ('d, 'z) fs_scheme) option" where
  "namex D p parent s = do {
     (ip, s) \<leftarrow> (if p \<noteq> [] \<and> hd p = slash then iget ROOTDEV ROOTINO s
       else (case cwd s of None \<Rightarrow> None | Some ip \<Rightarrow> Some (ip, idup ip s)));
     namex_loop D ip p parent [] s }"

definition namei :: "'d disk_ops \<Rightarrow> path \<Rightarrow> ('d, 'z) fs_scheme \<Rightarrow> (nat option \<times> ('d, 'z) fs_scheme) option" where
  "namei D p s = do { (r, s) \<leftarrow> namex D p False s; Some (map_option fst r, s) }"

definition nameiparent :: "'d disk_ops \<Rightarrow> path \<Rightarrow> ('d, 'z) fs_scheme \<Rightarrow> ((nat \<times> path) option \<times> ('d, 'z) fs_scheme) option" where
  "nameiparent D p s = namex D p True s"

definition fsinit :: "'d disk_ops \<Rightarrow> u32 \<Rightarrow> ('d, 'z) fs_scheme \<Rightarrow> ('d, 'z) fs_scheme option" where
  "fsinit D dev s = do {
     s \<leftarrow> readsb D dev s;
     if sb_magic (sb s) \<noteq> FSMAGIC then None else do {
       (r, s) \<leftarrow> namei D [slash] s;
       Some (s\<lparr>cwd := r\<rparr>) } }"

text \<open>The loop of \<open>iblocknos\<close>: the block numbers, and whether the buffer was too small.\<close>

fun iblocknos_loop :: "'d disk_ops \<Rightarrow> nat \<Rightarrow> nat \<Rightarrow> nat \<Rightarrow> nat \<Rightarrow> ('d, 'z) fs_scheme \<Rightarrow> (bool \<times> u32 list \<times> ('d, 'z) fs_scheme) option" where
  "iblocknos_loop D ip room 0 bn s = Some (False, [], s)"
| "iblocknos_loop D ip room (Suc k) bn s = do {
     (b, s) \<leftarrow> bmap_noalloc D ip bn s;
     if b = 0 then iblocknos_loop D ip room k (Suc bn) s
     else if room = 0 then Some (True, [], s)
     else do {
       (full, bs, s) \<leftarrow> iblocknos_loop D ip (room - 1) k (Suc bn) s;
       Some (full, b # bs, s) } }"

definition iblocknos :: "'d disk_ops \<Rightarrow> u32 \<Rightarrow> u32 \<Rightarrow> nat \<Rightarrow> ('d, 'z) fs_scheme \<Rightarrow> (int \<times> u32 list \<times> ('d, 'z) fs_scheme) option" where
  "iblocknos D dev inum buf_size s = do {
     (ip, s) \<leftarrow> iget dev inum s;
     s \<leftarrow> ilock D ip s;
     (full, bs, s) \<leftarrow> iblocknos_loop D ip buf_size (unat (i_size (inode_of s ip)) div BSIZE) 0 s;
     if full then do { s \<leftarrow> iunlock ip s; Some (-1, bs, s) }
     else do { s \<leftarrow> iunlockput D ip s; Some (0, bs, s) } }"

subsection \<open>Calls that change directories\<close>

partial_function (option) isdirempty_loop :: "'d disk_ops \<Rightarrow> nat \<Rightarrow> u32 \<Rightarrow> ('d, 'z) fs_scheme \<Rightarrow> (bool \<times> ('d, 'z) fs_scheme) option" where
  [code]: "isdirempty_loop D dp off s = (if off < i_size (inode_of s dp) then do {
       (de, s) \<leftarrow> readi D dp off (of_nat DIRENT_SIZE) s;
       if length de \<noteq> DIRENT_SIZE then None
       else if de_inum de \<noteq> 0 then Some (False, s)
       else isdirempty_loop D dp (off + of_nat DIRENT_SIZE) s }
     else Some (True, s))"

definition isdirempty :: "'d disk_ops \<Rightarrow> nat \<Rightarrow> ('d, 'z) fs_scheme \<Rightarrow> (bool \<times> ('d, 'z) fs_scheme) option" where
  "isdirempty D dp s = isdirempty_loop D dp (2 * of_nat DIRENT_SIZE) s"

definition dot :: path where "dot = [46]"
definition dotdot :: path where "dotdot = [46, 46]"

definition create :: "'d disk_ops \<Rightarrow> path \<Rightarrow> u16 \<Rightarrow> u16 \<Rightarrow> u16 \<Rightarrow> ('d, 'z) fs_scheme \<Rightarrow> (nat option \<times> ('d, 'z) fs_scheme) option" where
  "create D p ty major minor s = do {
     (r, s) \<leftarrow> nameiparent D p s;
     (case r of None \<Rightarrow> Some (None, s)
      | Some (dp, name) \<Rightarrow> do {
          s \<leftarrow> ilock D dp s;
          (e, s) \<leftarrow> dirlookup D dp name s;
          (case e of
             Some (ip, _) \<Rightarrow> do {
               s \<leftarrow> iunlockput D dp s;
               s \<leftarrow> ilock D ip s;
               if ty = T_FILE \<and> (i_type (inode_of s ip) = T_FILE \<or> i_type (inode_of s ip) = T_DEVICE) then Some (Some ip, s)
               else do { s \<leftarrow> iunlockput D ip s; Some (None, s) } }
           | None \<Rightarrow> do {
               (a, s) \<leftarrow> ialloc D (i_dev (inode_of s dp)) ty s;
               (case a of
                  None \<Rightarrow> do { s \<leftarrow> iunlockput D dp s; Some (None, s) }
                | Some ip \<Rightarrow> do {
                    s \<leftarrow> ilock D ip s;
                    s \<leftarrow> iupdate D ip (upd_inode ip (\<lambda>p. p\<lparr>i_major := major, i_minor := minor, i_nlink := 1\<rparr>) s);
                    (ok, s) \<leftarrow> (if ty = T_DIR then do {
                        (e, s) \<leftarrow> dirlink D ip dot (i_inum (inode_of s ip)) s;
                        if e < 0 then Some (False, s)
                        else do {
                          (e, s) \<leftarrow> dirlink D ip dotdot (i_inum (inode_of s dp)) s;
                          Some (\<not> e < 0, s) } }
                      else Some (True, s));
                    (ok, s) \<leftarrow> (if ok then do {
                        (e, s) \<leftarrow> dirlink D dp name (i_inum (inode_of s ip)) s;
                        Some (\<not> e < 0, s) }
                      else Some (False, s));
                    if ok then do {
                      s \<leftarrow> (if ty = T_DIR then iupdate D dp (upd_inode dp (\<lambda>p. p\<lparr>i_nlink := i_nlink p + 1\<rparr>) s) else Some s);
                      s \<leftarrow> iunlockput D dp s;
                      Some (Some ip, s) }
                    else do {
                      s \<leftarrow> iupdate D ip (upd_inode ip (\<lambda>p. p\<lparr>i_nlink := 0\<rparr>) s);
                      s \<leftarrow> iunlockput D ip s;
                      s \<leftarrow> iunlockput D dp s;
                      Some (None, s) } }) }) }) }"

definition ENOENT :: int where "ENOENT = 2"

definition unlink_de :: "'d disk_ops \<Rightarrow> nat \<Rightarrow> path \<Rightarrow> ('d, 'z) fs_scheme \<Rightarrow> (int \<times> ('d, 'z) fs_scheme) option" where
  "unlink_de D dp name s = do {
     s \<leftarrow> ilock D dp s;
     if namecmp name dot \<or> namecmp name dotdot then do { s \<leftarrow> iunlock dp s; Some (-1, s) }
     else do {
       (r, s) \<leftarrow> dirlookup D dp name s;
       (case r of
          None \<Rightarrow> do { s \<leftarrow> iunlock dp s; Some (ENOENT, s) }
        | Some (ip, off) \<Rightarrow> do {
            s \<leftarrow> ilock D ip s;
            if sint (i_nlink (inode_of s ip)) < 1 then None else do {
            (keep, s) \<leftarrow> (if i_type (inode_of s ip) = T_DIR then do {
                (e, s) \<leftarrow> isdirempty D ip s; Some (\<not> e, s) } else Some (False, s));
            if keep then do {
              s \<leftarrow> iunlockput D ip s;
              s \<leftarrow> iunlock dp s;
              Some (-1, s) }
            else do {
              (n, s) \<leftarrow> writei D dp off (replicate DIRENT_SIZE 0) s;
              if n \<noteq> int DIRENT_SIZE then None else do {
                s \<leftarrow> (if i_type (inode_of s ip) = T_DIR then iupdate D dp (upd_inode dp (\<lambda>p. p\<lparr>i_nlink := i_nlink p - 1\<rparr>) s) else Some s);
                s \<leftarrow> iunlock dp s;
                s \<leftarrow> iupdate D ip (upd_inode ip (\<lambda>p. p\<lparr>i_nlink := i_nlink p - 1\<rparr>) s);
                s \<leftarrow> iunlockput D ip s;
                Some (0, s) } } } }) } }"

text \<open>The inode number and whether this is the last link are returned if the caller asks for them; the
  inode is then used without a check that it exists.\<close>

definition xv6fs_sys_unlink ::
    "'d disk_ops \<Rightarrow> path \<Rightarrow> bool \<Rightarrow> ('d, 'z) fs_scheme \<Rightarrow> (int \<times> (u32 \<times> bool) option \<times> ('d, 'z) fs_scheme) option" where
  "xv6fs_sys_unlink D p ask s = do {
     (r, s) \<leftarrow> nameiparent D p s;
     (case r of None \<Rightarrow> Some (-1, None, s)
      | Some (dp, name) \<Rightarrow> do {
          (info, s) \<leftarrow> (if ask then do {
              (e, s) \<leftarrow> dirlookup D dp name s;
              (case e of None \<Rightarrow> None
               | Some (ip, _) \<Rightarrow> do {
                   s \<leftarrow> ilock D ip s;
                   let info = (i_inum (inode_of s ip), i_nlink (inode_of s ip) = 1);
                   s \<leftarrow> iunlockput D ip s;
                   Some (Some info, s) }) }
            else Some (None, s));
          (e, s) \<leftarrow> unlink_de D dp name s;
          if e \<noteq> 0 then do { s \<leftarrow> iput D dp s; Some (-1, info, s) }
          else Some (0, info, s) }) }"

text \<open>Both functions that make a link end like this: \<open>ip\<close> is the inode to link to.\<close>

definition link_inode :: "'d disk_ops \<Rightarrow> nat \<Rightarrow> path \<Rightarrow> ('d, 'z) fs_scheme \<Rightarrow> (int \<times> ('d, 'z) fs_scheme) option" where
  "link_inode D ip p s = do {
     s \<leftarrow> ilock D ip s;
     if i_type (inode_of s ip) = T_DIR then do { s \<leftarrow> iunlockput D ip s; Some (-1, s) }
     else do {
       s \<leftarrow> iupdate D ip (upd_inode ip (\<lambda>q. q\<lparr>i_nlink := i_nlink q + 1\<rparr>) s);
       s \<leftarrow> iunlock ip s;
       (r, s) \<leftarrow> nameiparent D p s;
       (ok, s) \<leftarrow> (case r of None \<Rightarrow> Some (False, s)
         | Some (dp, name) \<Rightarrow> do {
             s \<leftarrow> ilock D dp s;
             (ok, s) \<leftarrow> (if i_dev (inode_of s dp) \<noteq> i_dev (inode_of s ip) then Some (False, s)
               else do { (e, s) \<leftarrow> dirlink D dp name (i_inum (inode_of s ip)) s; Some (\<not> e < 0, s) });
             s \<leftarrow> iunlockput D dp s;
             Some (ok, s) });
       if ok then do { s \<leftarrow> iput D ip s; Some (0, s) }
       else do {
         s \<leftarrow> ilock D ip s;
         s \<leftarrow> iupdate D ip (upd_inode ip (\<lambda>q. q\<lparr>i_nlink := i_nlink q - 1\<rparr>) s);
         s \<leftarrow> iunlockput D ip s;
         Some (-1, s) } } }"

definition xv6fs_sys_dolink :: "'d disk_ops \<Rightarrow> path \<Rightarrow> path \<Rightarrow> ('d, 'z) fs_scheme \<Rightarrow> (int \<times> ('d, 'z) fs_scheme) option" where
  "xv6fs_sys_dolink D old p s = do {
     (r, s) \<leftarrow> namei D old s;
     (case r of None \<Rightarrow> Some (-1, s) | Some ip \<Rightarrow> link_inode D ip p s) }"

definition xv6fs_sys_rename :: "'d disk_ops \<Rightarrow> path \<Rightarrow> path \<Rightarrow> ('d, 'z) fs_scheme \<Rightarrow> (int \<times> ('d, 'z) fs_scheme) option" where
  "xv6fs_sys_rename D p q s = do {
     (r, _, s) \<leftarrow> xv6fs_sys_unlink D q False s;
     if r = 0 \<or> r = ENOENT then do {
       (r, s) \<leftarrow> xv6fs_sys_dolink D p q s;
       if r = 0 then do { (r, _, s) \<leftarrow> xv6fs_sys_unlink D p False s; Some (r, s) }
       else Some (r, s) }
     else Some (r, s) }"

definition xv6fs_sys_mkdir :: "'d disk_ops \<Rightarrow> path \<Rightarrow> ('d, 'z) fs_scheme \<Rightarrow> (int \<times> ('d, 'z) fs_scheme) option" where
  "xv6fs_sys_mkdir D p s = do {
     (r, s) \<leftarrow> create D p T_DIR 0 0 s;
     (case r of None \<Rightarrow> Some (-1, s) | Some ip \<Rightarrow> do { s \<leftarrow> iunlockput D ip s; Some (0, s) }) }"

definition xv6fs_sys_mksock :: "'d disk_ops \<Rightarrow> path \<Rightarrow> ('d, 'z) fs_scheme \<Rightarrow> (int \<times> ('d, 'z) fs_scheme) option" where
  "xv6fs_sys_mksock D p s = do {
     (r, s) \<leftarrow> create D p T_SOCK 0 0 s;
     (case r of None \<Rightarrow> Some (-1, s) | Some ip \<Rightarrow> do { s \<leftarrow> iunlockput D ip s; Some (0, s) }) }"

text \<open>The loop of \<open>clear_dir\<close>, which calls itself for a directory. The type of an entry is tested before
  the inode is locked, that is, before it is read from the disk.\<close>

partial_function (option) clear_dir_loop :: "'d disk_ops \<Rightarrow> nat \<Rightarrow> nat \<Rightarrow> ('d, 'z) fs_scheme \<Rightarrow> (int \<times> ('d, 'z) fs_scheme) option" where
  [code]: "clear_dir_loop D ip i s = do {
     s \<leftarrow> ilock D ip s;
     (e, s) \<leftarrow> dirlookup_idx D ip i s;
     s \<leftarrow> iunlock ip s;
     (case e of
        End_of_dir \<Rightarrow> Some (0, s)
      | Null_inode \<Rightarrow> clear_dir_loop D ip (Suc i) s
      | Entry cp name \<Rightarrow>
          if i_type (inode_of s cp) = 0 \<or> i_inum (inode_of s cp) = 0 then clear_dir_loop D ip (Suc i) s
          else do {
            s \<leftarrow> ilock D cp s;
            if name = dot \<or> name = dotdot then do {
              s \<leftarrow> iunlockput D cp s;
              clear_dir_loop D ip (Suc i) s }
            else if i_type (inode_of s cp) = T_FILE then do {
              s \<leftarrow> iunlockput D cp s;
              (r, s) \<leftarrow> unlink_de D ip name s;
              if r \<noteq> 0 then Some (-1, s) else clear_dir_loop D ip (Suc i) s }
            else if i_type (inode_of s cp) = T_DIR then do {
              s \<leftarrow> iunlock cp s;
              s \<leftarrow> ilock D cp s;
              (r, s) \<leftarrow> clear_dir_loop D cp 0 s;
              s \<leftarrow> iput D cp s;
              if r \<noteq> 0 then Some (-1, s)
              else do {
                (r, s) \<leftarrow> unlink_de D ip name s;
                if r \<noteq> 0 then Some (-1, s) else clear_dir_loop D ip (Suc i) s } }
            else clear_dir_loop D ip (Suc i) s }) }"

definition clear_dir :: "'d disk_ops \<Rightarrow> nat \<Rightarrow> ('d, 'z) fs_scheme \<Rightarrow> (int \<times> ('d, 'z) fs_scheme) option" where
  "clear_dir D ip s = do {
     s \<leftarrow> ilock D ip s;
     if i_type (inode_of s ip) \<noteq> T_DIR then do { s \<leftarrow> iunlockput D ip s; Some (-1, s) }
     else clear_dir_loop D ip 0 s }"

definition xv6fs_sys_rmdir :: "'d disk_ops \<Rightarrow> path \<Rightarrow> bool \<Rightarrow> ('d, 'z) fs_scheme \<Rightarrow> (int \<times> ('d, 'z) fs_scheme) option" where
  "xv6fs_sys_rmdir D p delete_contents s = do {
     (r, s) \<leftarrow> namei D p s;
     (case r of None \<Rightarrow> Some (-1, s)
      | Some ip \<Rightarrow> do {
          s \<leftarrow> ilock D ip s;
          (busy, s) \<leftarrow> (if \<not> delete_contents then do { (e, s) \<leftarrow> isdirempty D ip s; Some (\<not> e, s) } else Some (False, s));
          if busy then do { s \<leftarrow> iunlockput D ip s; Some (-1, s) }
          else do {
            s \<leftarrow> iunlock ip s;
            (c, s) \<leftarrow> clear_dir D ip s;
            if c \<noteq> 0 then None else do {
              s \<leftarrow> iput D ip s;
              (r, _, s) \<leftarrow> xv6fs_sys_unlink D p False s;
              Some (r, s) } } }) }"

end
