(* ===== verification/Xv6_Open.thy ===== *)
theory Xv6_Open
  imports Xv6_Dirs
begin

unbundle bit_operations_syntax

section \<open>Open files (apps/xv6fs/src/fs\_server/file.c and the calls on files of sysfile.c)\<close>

text \<open>
  The heap of file structures is a map from addresses; a pointer to memory that is not allocated is a fault. \<open>malloc\<close> is
  a parameter: the address and the contents of the memory it returns, which is not initialized. The table
  of devices is never filled, so that a device can be neither read nor written. Bytes that a call reads are returned as a list; bytes
  to write are a function from offsets in the buffer of the caller. The reference count of a file, an \<open>int\<close> of the source, is an unbounded
  number here: its overflow after \<open>2 ^ 31\<close> opens of one file is not modelled.
\<close>

datatype file_type = FD_NONE | FD_PIPE | FD_INODE | FD_DEVICE

record file_t =
  f_type :: file_type
  f_id :: u32
  f_ref :: int
  f_readable :: bool
  f_writable :: bool
  f_ip :: nat
  f_off :: u32
  f_major :: u16
  f_flags :: u64

type_synonym file_heap = "nat \<rightharpoonup> file_t"
type_synonym file_malloc = "file_heap \<Rightarrow> (nat \<times> file_t) option"

record 'd ofs = "'d fs" +
  files :: file_heap

record stat =
  st_dev :: u32
  st_ino :: u32
  st_nlink :: u16
  st_size :: u32
  st_blksize :: nat
  st_ctim :: int
  st_atim :: int
  st_mtim :: int

subsection \<open>File structures\<close>

definition set_file :: "nat \<Rightarrow> file_t \<Rightarrow> ('d, 'z) ofs_scheme \<Rightarrow> ('d, 'z) ofs_scheme" where
  "set_file a f s = s\<lparr>files := (files s)(a \<mapsto> f)\<rparr>"

definition filealloc :: "file_malloc \<Rightarrow> ('d, 'z) ofs_scheme \<Rightarrow> nat option \<times> ('d, 'z) ofs_scheme" where
  "filealloc M s = (case M (files s) of None \<Rightarrow> (None, s) | Some (a, g) \<Rightarrow> (Some a, set_file a (g\<lparr>f_ref := 1\<rparr>) s))"

definition filedup :: "nat \<Rightarrow> ('d, 'z) ofs_scheme \<Rightarrow> ('d, 'z) ofs_scheme option" where
  "filedup a s = do {
     f \<leftarrow> files s a;
     if f_ref f < 1 then None else Some (set_file a (f\<lparr>f_ref := f_ref f + 1\<rparr>) s) }"

definition fileclose :: "'d disk_ops \<Rightarrow> nat \<Rightarrow> ('d, 'z) ofs_scheme \<Rightarrow> ('d, 'z) ofs_scheme option" where
  "fileclose D a s = do {
     f \<leftarrow> files s a;
     if f_ref f < 1 then None
     else if f_ref f - 1 > 0 then Some (set_file a (f\<lparr>f_ref := f_ref f - 1\<rparr>) s)
     else (let s = s\<lparr>files := (files s)(a := None)\<rparr> in
       if f_type f = FD_INODE \<or> f_type f = FD_DEVICE then iput D (f_ip f) s else Some s) }"

definition stati :: "nat \<Rightarrow> ('d, 'z) ofs_scheme \<Rightarrow> stat" where
  "stati ip s = (let p = inode_of s ip in \<lparr>st_dev = i_dev p, st_ino = i_inum p, st_nlink = i_nlink p, st_size = i_size p,
     st_blksize = BSIZE, st_ctim = i_ctime p, st_atim = i_atime p, st_mtim = i_mtime p\<rparr>)"

text \<open>The structure that is filled is a local variable; it is not copied to the address of the caller.\<close>

definition filestat :: "'d disk_ops \<Rightarrow> nat \<Rightarrow> ('d, 'z) ofs_scheme \<Rightarrow> (int \<times> ('d, 'z) ofs_scheme) option" where
  "filestat D a s = do {
     f \<leftarrow> files s a;
     if f_type f = FD_INODE \<or> f_type f = FD_DEVICE then do {
       s \<leftarrow> ilock D (f_ip f) s;
       s \<leftarrow> iunlock (f_ip f) s;
       Some (0, s) }
     else Some (-1, s) }"

definition fileread :: "'d disk_ops \<Rightarrow> nat \<Rightarrow> int \<Rightarrow> ('d, 'z) ofs_scheme \<Rightarrow> (int \<times> u8 list \<times> ('d, 'z) ofs_scheme) option" where
  "fileread D a n s = do {
     f \<leftarrow> files s a;
     if \<not> f_readable f then Some (-1, [], s)
     else (case f_type f of
       FD_DEVICE \<Rightarrow> Some (-1, [], s)
     | FD_INODE \<Rightarrow> do {
         s \<leftarrow> ilock D (f_ip f) s;
         (xs, s) \<leftarrow> readi D (f_ip f) (f_off f) (word_of_int n) s;
         let s = (if xs \<noteq> [] then set_file a (f\<lparr>f_off := f_off f + of_nat (length xs)\<rparr>) s else s);
         s \<leftarrow> iunlock (f_ip f) s;
         Some (int (length xs), xs, s) }
     | _ \<Rightarrow> None) }"

definition file_blocknos :: "'d disk_ops \<Rightarrow> nat \<Rightarrow> nat \<Rightarrow> ('d, 'z) ofs_scheme \<Rightarrow> (int \<times> u32 list \<times> ('d, 'z) ofs_scheme) option" where
  "file_blocknos D a buf_size s = do {
     f \<leftarrow> files s a;
     if f_type f = FD_INODE then iblocknos D (scast (f_major f)) (i_inum (inode_of s (f_ip f))) buf_size s else None }"

text \<open>The loop of \<open>filewrite\<close>: \<open>i\<close> bytes are written. It returns the final \<open>i\<close>.\<close>

definition write_max :: nat where
  "write_max = ((MAXOPBLOCKS - 1 - 1 - 2) div 2) * BSIZE"

lemma write_max_pos: "0 < write_max"
  by (simp add: write_max_def MAXOPBLOCKS_def BSIZE_def)

function filewrite_loop :: "'d disk_ops \<Rightarrow> nat \<Rightarrow> nat \<Rightarrow> (nat \<Rightarrow> u8) \<Rightarrow> nat \<Rightarrow> ('d, 'z) ofs_scheme \<Rightarrow> (nat \<times> ('d, 'z) ofs_scheme) option" where
  "filewrite_loop D a n src i s = (if i < n then do {
       f \<leftarrow> files s a;
       let n1 = min (n - i) write_max;
       s \<leftarrow> ilock D (f_ip f) s;
       (r, s) \<leftarrow> writei D (f_ip f) (f_off f) (map src [i ..< i + n1]) s;
       let s = (if r > 0 then set_file a (f\<lparr>f_off := f_off f + word_of_int r\<rparr>) s else s);
       s \<leftarrow> iunlock (f_ip f) s;
       if r \<noteq> int n1 then Some (i, s) else filewrite_loop D a n src (i + n1) s }
     else Some (i, s))"
  by pat_completeness auto
termination
  by (relation "measure (\<lambda>(D, a, n, src, i, s). n - i)") (use write_max_pos in \<open>auto simp: min_def\<close>)

definition filewrite :: "'d disk_ops \<Rightarrow> nat \<Rightarrow> int \<Rightarrow> (nat \<Rightarrow> u8) \<Rightarrow> ('d, 'z) ofs_scheme \<Rightarrow> (int \<times> ('d, 'z) ofs_scheme) option" where
  "filewrite D a n src s = do {
     f \<leftarrow> files s a;
     if \<not> f_writable f then Some (-1, s)
     else (case f_type f of
       FD_DEVICE \<Rightarrow> Some (-1, s)
     | FD_INODE \<Rightarrow> do {
         (i, s) \<leftarrow> filewrite_loop D a (nat n) src 0 s;
         Some (if int i = n then n else -1, s) }
     | _ \<Rightarrow> None) }"

subsection \<open>Calls on files\<close>

definition O_RDONLY :: u32 where "O_RDONLY = 0"
definition O_WRONLY :: u32 where "O_WRONLY = 1"
definition O_RDWR :: u32 where "O_RDWR = 2"
definition O_CREAT :: u32 where "O_CREAT = 0x40"
definition O_APPEND :: u64 where "O_APPEND = 0x400"
definition O_NONBLOCK :: u64 where "O_NONBLOCK = 0x800"
definition O_ASYNC :: u64 where "O_ASYNC = 0x2000"
definition NO_OFFSET :: u32 where "NO_OFFSET = - 1"

definition xv6fs_file_ino :: "nat \<Rightarrow> ('d, 'z) ofs_scheme \<Rightarrow> u32 option" where
  "xv6fs_file_ino a s = do { f \<leftarrow> files s a; Some (i_inum (inode_of s (f_ip f))) }"

definition open_inode :: "'d disk_ops \<Rightarrow> path \<Rightarrow> u32 \<Rightarrow> ('d, 'z) ofs_scheme \<Rightarrow> (nat option \<times> ('d, 'z) ofs_scheme) option" where
  "open_inode D p omode s =
     (if omode AND O_CREAT \<noteq> 0 then create D p T_FILE 0 0 s
      else do {
        (r, s) \<leftarrow> namei D p s;
        (case r of None \<Rightarrow> Some (None, s)
         | Some ip \<Rightarrow> do {
             s \<leftarrow> ilock D ip s;
             if i_type (inode_of s ip) = T_DIR \<and> omode \<noteq> O_RDONLY then do { s \<leftarrow> iunlockput D ip s; Some (None, s) }
             else Some (Some ip, s) }) })"

definition xv6fs_sys_open :: "file_malloc \<Rightarrow> 'd disk_ops \<Rightarrow> path \<Rightarrow> u32 \<Rightarrow> ('d, 'z) ofs_scheme \<Rightarrow> (nat option \<times> ('d, 'z) ofs_scheme) option" where
  "xv6fs_sys_open M D p omode s = do {
     (r, s) \<leftarrow> open_inode D p omode s;
     (case r of None \<Rightarrow> Some (None, s)
      | Some ip \<Rightarrow>
          (case filealloc M s of
             (None, s) \<Rightarrow> do { s \<leftarrow> iunlockput D ip s; Some (None, s) }
           | (Some a, s) \<Rightarrow> do {
               s \<leftarrow> iunlock ip s;
               f \<leftarrow> files s a;
               Some (Some a, set_file a (f\<lparr>f_type := FD_INODE, f_ip := ip, f_id := i_inum (inode_of s ip), f_off := 0,
                 f_readable := (omode AND O_WRONLY = 0), f_writable := (omode AND O_WRONLY \<noteq> 0 \<or> omode AND O_RDWR \<noteq> 0),
                 f_flags := scast omode\<rparr>) s) })) }"

text \<open>The inner loop of \<open>xv6fs_sys_walk\<close>, over a directory in the one that is walked, and the outer loop. The inode numbers of
  the files are returned in order; the array of the caller has no bound here.\<close>

partial_function (option) walk_sub_loop :: "'d disk_ops \<Rightarrow> nat \<Rightarrow> nat \<Rightarrow> ('d, 'z) ofs_scheme \<Rightarrow> (u32 list \<times> ('d, 'z) ofs_scheme) option" where
  [code]: "walk_sub_loop D cp j s = do {
     (e, s) \<leftarrow> dirlookup_idx D cp j s;
     (case e of
        End_of_dir \<Rightarrow> Some ([], s)
      | Null_inode \<Rightarrow> walk_sub_loop D cp (Suc j) s
      | Entry sp name \<Rightarrow>
          if i_type (inode_of s sp) = 0 \<or> i_inum (inode_of s sp) = 0 then walk_sub_loop D cp (Suc j) s
          else do {
            s \<leftarrow> ilock D sp s;
            let ty = i_type (inode_of s sp);
            let found = (if name = dot \<or> name = dotdot \<or> ty \<noteq> T_FILE then [] else [i_inum (inode_of s sp)]);
            if \<not> (name = dot \<or> name = dotdot) \<and> ty = T_DIR then None
            else do {
              s \<leftarrow> iunlockput D sp s;
              (xs, s) \<leftarrow> walk_sub_loop D cp (Suc j) s;
              Some (found @ xs, s) } }) }"

partial_function (option) walk_loop :: "'d disk_ops \<Rightarrow> nat \<Rightarrow> nat \<Rightarrow> ('d, 'z) ofs_scheme \<Rightarrow> (u32 list \<times> ('d, 'z) ofs_scheme) option" where
  [code]: "walk_loop D ip i s = do {
     (e, s) \<leftarrow> dirlookup_idx D ip i s;
     (case e of
        End_of_dir \<Rightarrow> Some ([], s)
      | Null_inode \<Rightarrow> walk_loop D ip (Suc i) s
      | Entry cp name \<Rightarrow>
          if i_type (inode_of s cp) = 0 \<or> i_inum (inode_of s cp) = 0 then walk_loop D ip (Suc i) s
          else do {
            s \<leftarrow> ilock D cp s;
            (found, s) \<leftarrow> (if name = dot \<or> name = dotdot then Some ([], s)
              else if i_type (inode_of s cp) = T_FILE then Some ([i_inum (inode_of s cp)], s)
              else if i_type (inode_of s cp) = T_DIR then walk_sub_loop D cp 0 s
              else Some ([], s));
            s \<leftarrow> iunlockput D cp s;
            (xs, s) \<leftarrow> walk_loop D ip (Suc i) s;
            Some (found @ xs, s) }) }"

definition xv6fs_sys_walk :: "'d disk_ops \<Rightarrow> path \<Rightarrow> ('d, 'z) ofs_scheme \<Rightarrow> (int \<times> u32 list \<times> ('d, 'z) ofs_scheme) option" where
  "xv6fs_sys_walk D p s = do {
     (r, s) \<leftarrow> namei D p s;
     (case r of None \<Rightarrow> Some (-1, [], s)
      | Some ip \<Rightarrow> do {
          s \<leftarrow> ilock D ip s;
          if i_type (inode_of s ip) \<noteq> T_DIR then do { s \<leftarrow> iunlockput D ip s; Some (-1, [], s) }
          else do {
            (xs, s) \<leftarrow> walk_loop D ip 0 s;
            s \<leftarrow> iunlockput D ip s;
            Some (0, xs, s) } }) }"

definition xv6fs_sys_fileclose :: "'d disk_ops \<Rightarrow> nat \<Rightarrow> ('d, 'z) ofs_scheme \<Rightarrow> (int \<times> ('d, 'z) ofs_scheme) option" where
  "xv6fs_sys_fileclose D a s = do { s \<leftarrow> fileclose D a s; Some (0, s) }"

text \<open>A NULL pointer to a file is \<open>None\<close>.\<close>

definition seek_to :: "nat \<Rightarrow> u32 \<Rightarrow> ('d, 'z) ofs_scheme \<Rightarrow> ('d, 'z) ofs_scheme option" where
  "seek_to a off s = (if off \<noteq> NO_OFFSET then do { f \<leftarrow> files s a; Some (set_file a (f\<lparr>f_off := off\<rparr>) s) } else Some s)"

definition xv6fs_sys_read :: "'d disk_ops \<Rightarrow> nat option \<Rightarrow> int \<Rightarrow> u32 \<Rightarrow> ('d, 'z) ofs_scheme \<Rightarrow> (int \<times> u8 list \<times> ('d, 'z) ofs_scheme) option" where
  "xv6fs_sys_read D fp sz off s = (case fp of None \<Rightarrow> Some (-1, [], s)
     | Some a \<Rightarrow> do { s \<leftarrow> seek_to a off s; fileread D a sz s })"

definition xv6fs_sys_write :: "'d disk_ops \<Rightarrow> nat option \<Rightarrow> int \<Rightarrow> (nat \<Rightarrow> u8) \<Rightarrow> u32 \<Rightarrow> ('d, 'z) ofs_scheme \<Rightarrow> (int \<times> ('d, 'z) ofs_scheme) option" where
  "xv6fs_sys_write D fp sz src off s = (case fp of None \<Rightarrow> Some (-1, s)
     | Some a \<Rightarrow> do { s \<leftarrow> seek_to a off s; filewrite D a sz src s })"

definition xv6fs_sys_file_blocknos :: "'d disk_ops \<Rightarrow> nat option \<Rightarrow> nat \<Rightarrow> ('d, 'z) ofs_scheme \<Rightarrow> (int \<times> u32 list \<times> ('d, 'z) ofs_scheme) option" where
  "xv6fs_sys_file_blocknos D fp buf_size s = (case fp of None \<Rightarrow> Some (-1, [], s) | Some a \<Rightarrow> file_blocknos D a buf_size s)"

definition xv6fs_sys_inode_blocknos :: "'d disk_ops \<Rightarrow> u32 \<Rightarrow> nat \<Rightarrow> ('d, 'z) ofs_scheme \<Rightarrow> (int \<times> u32 list \<times> ('d, 'z) ofs_scheme) option" where
  "xv6fs_sys_inode_blocknos D inum buf_size s = iblocknos D ROOTDEV inum buf_size s"

definition xv6fs_sys_fstat :: "file_malloc \<Rightarrow> 'd disk_ops \<Rightarrow> path \<Rightarrow> ('d, 'z) ofs_scheme \<Rightarrow> (int \<times> ('d, 'z) ofs_scheme) option" where
  "xv6fs_sys_fstat M D p s = do {
     (r, s) \<leftarrow> xv6fs_sys_open M D p O_RDONLY s;
     (case r of None \<Rightarrow> Some (-1, s)
      | Some a \<Rightarrow> do {
          (e, s) \<leftarrow> filestat D a s;
          s \<leftarrow> fileclose D a s;
          Some (e, s) }) }"

definition xv6fs_sys_readdirent :: "'d disk_ops \<Rightarrow> nat option \<Rightarrow> u32 \<Rightarrow> ('d, 'z) ofs_scheme \<Rightarrow> (int \<times> u8 list \<times> ('d, 'z) ofs_scheme) option" where
  "xv6fs_sys_readdirent D fp off s = (case fp of None \<Rightarrow> Some (-1, [], s)
     | Some a \<Rightarrow> do {
         f \<leftarrow> files s a;
         if i_type (inode_of s (f_ip f)) \<noteq> T_DIR then Some (-1, [], s)
         else if off \<ge> i_size (inode_of s (f_ip f)) then Some (0, [], s)
         else fileread D a (int DIRENT_SIZE) (set_file a (f\<lparr>f_off := off\<rparr>) s) })"

definition xv6fs_sys_truncate :: "file_malloc \<Rightarrow> 'd disk_ops \<Rightarrow> path \<Rightarrow> ('d, 'z) ofs_scheme \<Rightarrow> (int \<times> ('d, 'z) ofs_scheme) option" where
  "xv6fs_sys_truncate M D p s = do {
     (r, s) \<leftarrow> xv6fs_sys_open M D p O_RDWR s;
     (case r of None \<Rightarrow> Some (-1, s)
      | Some a \<Rightarrow> do {
          f \<leftarrow> files s a;
          s \<leftarrow> itrunc D (f_ip f) s;
          s \<leftarrow> fileclose D a s;
          Some (0, s) }) }"

definition xv6fs_sys_dolink2 :: "'d disk_ops \<Rightarrow> nat \<Rightarrow> path \<Rightarrow> ('d, 'z) ofs_scheme \<Rightarrow> (int \<times> ('d, 'z) ofs_scheme) option" where
  "xv6fs_sys_dolink2 D old p s = do { f \<leftarrow> files s old; link_inode D (f_ip f) p s }"

definition xv6fs_sys_utime :: "file_malloc \<Rightarrow> 'd disk_ops \<Rightarrow> path \<Rightarrow> int \<Rightarrow> ('d, 'z) ofs_scheme \<Rightarrow> (int \<times> ('d, 'z) ofs_scheme) option" where
  "xv6fs_sys_utime M D p t s = do {
     (r, s) \<leftarrow> xv6fs_sys_open M D p O_WRONLY s;
     (case r of None \<Rightarrow> Some (-1, s)
      | Some a \<Rightarrow> do {
          f \<leftarrow> files s a;
          s \<leftarrow> ilock D (f_ip f) s;
          s \<leftarrow> iupdate D (f_ip f) (upd_inode (f_ip f) (\<lambda>p. p\<lparr>i_mtime := t\<rparr>) s);
          s \<leftarrow> iunlock (f_ip f) s;
          s \<leftarrow> fileclose D a s;
          Some (0, s) }) }"

definition xv6fs_sys_stat :: "'d disk_ops \<Rightarrow> nat \<Rightarrow> ('d, 'z) ofs_scheme \<Rightarrow> (int \<times> stat \<times> ('d, 'z) ofs_scheme) option" where
  "xv6fs_sys_stat D a s = do {
     f \<leftarrow> files s a;
     s \<leftarrow> ilock D (f_ip f) s;
     let st = stati (f_ip f) s;
     s \<leftarrow> iunlock (f_ip f) s;
     Some (0, st, s) }"

datatype whence = SEEK_SET | SEEK_CUR | SEEK_END | SEEK_other

definition xv6fs_sys_seek :: "nat option \<Rightarrow> u64 \<Rightarrow> whence \<Rightarrow> ('d, 'z) ofs_scheme \<Rightarrow> (int \<times> ('d, 'z) ofs_scheme) option" where
  "xv6fs_sys_seek fp off w s = (case fp of None \<Rightarrow> Some (-1, s)
     | Some a \<Rightarrow> do {
         f \<leftarrow> files s a;
         let f = (case w of
             SEEK_SET \<Rightarrow> f\<lparr>f_off := ucast off\<rparr>
           | SEEK_CUR \<Rightarrow> f\<lparr>f_off := f_off f + ucast off\<rparr>
           | SEEK_END \<Rightarrow> f\<lparr>f_off := i_size (inode_of s (f_ip f)) + ucast off\<rparr>
           | SEEK_other \<Rightarrow> f);
         Some (sint (f_off f), set_file a f s) })"

text \<open>The commands that change the state; the others only print. The result is always 0, also for \<open>F_GETFL\<close>.\<close>

datatype fcntl_cmd = F_SETFL | F_GETFL | F_other

definition xv6fs_sys_fcntl :: "nat \<Rightarrow> fcntl_cmd \<Rightarrow> u64 \<Rightarrow> ('d, 'z) ofs_scheme \<Rightarrow> (int \<times> ('d, 'z) ofs_scheme) option" where
  "xv6fs_sys_fcntl a cmd arg s = (case cmd of
     F_SETFL \<Rightarrow> do {
       f \<leftarrow> files s a;
       let flags_mask = O_APPEND OR O_ASYNC OR O_NONBLOCK;
       Some (0, set_file a (f\<lparr>f_flags := (f_flags f AND NOT flags_mask) OR (arg AND flags_mask)\<rparr>) s) }
   | F_GETFL \<Rightarrow> do { f \<leftarrow> files s a; Some (0, s) }
   | F_other \<Rightarrow> Some (0, s))"

end
