(* ===== verification/Xv6_Mkfs.thy ===== *)
theory Xv6_Mkfs
  imports Xv6_Dirs
begin

unbundle bit_operations_syntax

section \<open>Making a file system (apps/xv6fs/src/fs\_server/mkfs.c)\<close>

text \<open>
  The disk is written block by block, before the buffer cache is initialized. \<open>junk\<close> is the content of the buffers on the
  stack, which a failed read leaves as it is. The globals of the file are a record over the disk.
\<close>

record dinode =
  d_type :: u16
  d_major :: u16
  d_minor :: u16
  d_nlink :: u16
  d_size :: u32
  d_addrs :: "u32 list"

record 'd mkfs =
  mk_sb :: superblock
  freeinode :: u32
  freeblock :: u32
  mk_disk :: 'd

definition nbitmap :: nat where "nbitmap = FS_SIZE div (BSIZE * 8) + 1"
definition ninodeblocks :: nat where "ninodeblocks = N_INODES div IPB + 1"
definition LOGSIZE :: nat where "LOGSIZE = 0"
definition nmeta :: nat where "nmeta = 2 + LOGSIZE + ninodeblocks + nbitmap"

text \<open>The bytes are stored in little-endian order and read as a word of the machine.\<close>

definition xshort :: "u16 \<Rightarrow> u16" where
  "xshort x = get16 (put16 0 x (\<lambda>_. 0)) 0"

definition xint :: "u32 \<Rightarrow> u32" where
  "xint x = get32 (put32 0 x (\<lambda>_. 0)) 0"

lemma xshort_id [simp]: "xshort x = x" by (simp add: xshort_def)
lemma xint_id [simp]: "xint x = x" by (simp add: xint_def)

subsection \<open>Sectors and inodes\<close>

definition wsect :: "'d disk_ops \<Rightarrow> u32 \<Rightarrow> block \<Rightarrow> 'd mkfs \<Rightarrow> 'd mkfs option" where
  "wsect D sec y m = do { (_, d) \<leftarrow> xv6fs_bwrite D sec y (mk_disk m); Some (m\<lparr>mk_disk := d\<rparr>) }"

definition rsect :: "'d disk_ops \<Rightarrow> block \<Rightarrow> u32 \<Rightarrow> 'd mkfs \<Rightarrow> (block \<times> 'd mkfs) option" where
  "rsect D junk sec m = do {
     (r, d) \<leftarrow> xv6fs_bread D sec (mk_disk m);
     Some (case r of Some y \<Rightarrow> y | None \<Rightarrow> junk, m\<lparr>mk_disk := d\<rparr>) }"

definition write_dinode :: "nat \<Rightarrow> dinode \<Rightarrow> block \<Rightarrow> block" where
  "write_dinode off p y = put_addrs (off + 12) (d_addrs p) (put32 (off + 8) (d_size p) (put16 (off + 6) (d_nlink p)
     (put16 (off + 4) (d_minor p) (put16 (off + 2) (d_major p) (put16 off (d_type p) y)))))"

definition read_dinode :: "nat \<Rightarrow> block \<Rightarrow> dinode" where
  "read_dinode off y = \<lparr>d_type = get16 y off, d_major = get16 y (off + 2), d_minor = get16 y (off + 4), d_nlink = get16 y (off + 6),
     d_size = get32 y (off + 8), d_addrs = get_addrs y off\<rparr>"

definition winode :: "'d disk_ops \<Rightarrow> block \<Rightarrow> u32 \<Rightarrow> dinode \<Rightarrow> 'd mkfs \<Rightarrow> 'd mkfs option" where
  "winode D junk inum p m = do {
     let bn = IBLOCK inum (mk_sb m);
     (y, m) \<leftarrow> rsect D junk bn m;
     wsect D bn (write_dinode (dinode_off inum) p y) m }"

definition rinode :: "'d disk_ops \<Rightarrow> block \<Rightarrow> u32 \<Rightarrow> 'd mkfs \<Rightarrow> (dinode \<times> 'd mkfs) option" where
  "rinode D junk inum m = do {
     (y, m) \<leftarrow> rsect D junk (IBLOCK inum (mk_sb m)) m;
     Some (read_dinode (dinode_off inum) y, m) }"

definition mkfs_ialloc :: "'d disk_ops \<Rightarrow> block \<Rightarrow> u16 \<Rightarrow> 'd mkfs \<Rightarrow> (u32 \<times> 'd mkfs) option" where
  "mkfs_ialloc D junk ty m = do {
     let inum = freeinode m;
     let m = m\<lparr>freeinode := freeinode m + 1\<rparr>;
     m \<leftarrow> winode D junk inum \<lparr>d_type = xshort ty, d_major = 0, d_minor = 0, d_nlink = xshort 1, d_size = xint 0,
       d_addrs = replicate (NDIRECT + 1) 0\<rparr> m;
     Some (inum, m) }"

definition mark_all :: "nat \<Rightarrow> block \<Rightarrow> block" where
  "mark_all n_used y = fold mark_bit [0 ..< n_used] y"

definition mkfs_balloc :: "'d disk_ops \<Rightarrow> nat \<Rightarrow> 'd mkfs \<Rightarrow> 'd mkfs option" where
  "mkfs_balloc D n_used m = (if n_used < BSIZE * 8 then wsect D (sb_bmapstart (mk_sb m)) (mark_all n_used (\<lambda>_. 0)) m else None)"

text \<open>The block for an address that is 0: the next free one.\<close>

definition fresh_block :: "u32 \<Rightarrow> 'd mkfs \<Rightarrow> u32 \<times> 'd mkfs" where
  "fresh_block a m = (if xint a = 0 then (xint (freeblock m), m\<lparr>freeblock := freeblock m + 1\<rparr>) else (a, m))"

lemma next_block: "off < BSIZE + off div BSIZE * BSIZE"
  using dividend_less_div_times [OF BSIZE_pos, of off] .

function iappend_loop :: "'d disk_ops \<Rightarrow> block \<Rightarrow> dinode \<Rightarrow> nat \<Rightarrow> u8 list \<Rightarrow> 'd mkfs \<Rightarrow> (dinode \<times> nat \<times> 'd mkfs) option" where
  "iappend_loop D junk p off xs m = (if xs = [] then Some (p, off, m) else do {
     let fbn = off div BSIZE;
     if \<not> fbn < MAXFILE then None
     else do {
       (x, p, m) \<leftarrow> (if fbn < NDIRECT then
           (let (a, m) = fresh_block (d_addrs p ! fbn) m in Some (xint a, p\<lparr>d_addrs := (d_addrs p)[fbn := a]\<rparr>, m))
         else do {
           let (a, m) = fresh_block (d_addrs p ! NDIRECT) m;
           let p = p\<lparr>d_addrs := (d_addrs p)[NDIRECT := a]\<rparr>;
           (ind, m) \<leftarrow> rsect D junk (xint a) m;
           let e = get32 ind (4 * (fbn - NDIRECT));
           if e = 0 then do {
             let e = xint (freeblock m);
             let m = m\<lparr>freeblock := freeblock m + 1\<rparr>;
             m \<leftarrow> wsect D (xint a) (put32 (4 * (fbn - NDIRECT)) e ind) m;
             Some (xint e, p, m) }
           else Some (xint e, p, m) });
       let n1 = min (length xs) ((fbn + 1) * BSIZE - off);
       (y, m) \<leftarrow> rsect D junk x m;
       m \<leftarrow> wsect D x (put_bytes (off - fbn * BSIZE) (take n1 xs) y) m;
       iappend_loop D junk p (off + n1) (drop n1 xs) m } })"
  by pat_completeness auto
termination by (relation "measure (\<lambda>(D, junk, p, off, xs, m). length xs)") (auto simp: next_block)

definition iappend :: "'d disk_ops \<Rightarrow> block \<Rightarrow> u32 \<Rightarrow> u8 list \<Rightarrow> 'd mkfs \<Rightarrow> 'd mkfs option" where
  "iappend D junk inum xs m = do {
     (p, m) \<leftarrow> rinode D junk inum m;
     (p, off, m) \<leftarrow> iappend_loop D junk p (unat (xint (d_size p))) xs m;
     winode D junk inum (p\<lparr>d_size := xint (of_nat off)\<rparr>) m }"

text \<open>Every block is filled with zeros.\<close>

fun zero_sectors :: "'d disk_ops \<Rightarrow> nat \<Rightarrow> nat \<Rightarrow> 'd mkfs \<Rightarrow> 'd mkfs option" where
  "zero_sectors D 0 i m = Some m"
| "zero_sectors D (Suc k) i m = do { m \<leftarrow> wsect D (of_nat i) (\<lambda>_. 0) m; zero_sectors D k (Suc i) m }"

definition put_superblock :: "superblock \<Rightarrow> block" where
  "put_superblock b = put32 28 (sb_bmapstart b) (put32 24 (sb_inodestart b) (put32 20 (sb_logstart b) (put32 16 (sb_nlog b)
     (put32 12 (sb_ninodes b) (put32 8 (sb_nblocks b) (put32 4 (sb_size b) (put32 0 (sb_magic b) (\<lambda>_. 0))))))))"

definition mkfs_superblock :: superblock where
  "mkfs_superblock = \<lparr>sb_magic = FSMAGIC, sb_size = xint (of_nat FS_SIZE), sb_nblocks = xint (of_nat (FS_SIZE - nmeta)), sb_ninodes = xint (of_nat N_INODES),
     sb_nlog = xint (of_nat LOGSIZE), sb_logstart = xint 2, sb_inodestart = xint (of_nat (2 + LOGSIZE)),
     sb_bmapstart = xint (of_nat (2 + LOGSIZE + ninodeblocks))\<rparr>"

definition init_disk_file :: "'d disk_ops \<Rightarrow> block \<Rightarrow> 'd mkfs \<Rightarrow> (int \<times> 'd mkfs) option" where
  "init_disk_file D junk m =
     (if BSIZE mod DINODE_SIZE \<noteq> 0 \<or> BSIZE mod DIRENT_SIZE \<noteq> 0 then None
      else do {
        let m = m\<lparr>mk_sb := mkfs_superblock, freeblock := of_nat nmeta\<rparr>;
        m \<leftarrow> zero_sectors D FS_SIZE 0 m;
        m \<leftarrow> wsect D 1 (put_superblock (mk_sb m)) m;
        (rootino, m) \<leftarrow> mkfs_ialloc D junk T_DIR m;
        if rootino \<noteq> ROOTINO then None
        else do {
          m \<leftarrow> iappend D junk rootino (make_de dot (xshort (ucast rootino))) m;
          m \<leftarrow> iappend D junk rootino (make_de dotdot (xshort (ucast rootino))) m;
          (din, m) \<leftarrow> rinode D junk rootino m;
          let off = xint (d_size din);
          let off = (off div of_nat BSIZE + 1) * of_nat BSIZE;
          m \<leftarrow> winode D junk rootino (din\<lparr>d_size := xint off\<rparr>) m;
          m \<leftarrow> mkfs_balloc D (unat (freeblock m)) m;
          Some (0, m) } })"

end
