(* ===== verification/Xv6_Alloc.thy ===== *)
theory Xv6_Alloc
  imports Xv6_Dirs Cache_Use
begin

unbundle bit_operations_syntax

section \<open>Allocation of blocks\<close>

text \<open>
  The bitmap as the list of the free blocks. The statements are for a file system whose bitmap is one
  block, which the layout of \<open>mkfs.c\<close> has. What an operation does is stated on the view of the
  cache, as long as the blocks it uses are in the set \<open>B\<close> of at most \<open>NBUF\<close> blocks.
\<close>

subsection \<open>Bits\<close>

lemma bit_clear_iff: "bit_clear y bi \<longleftrightarrow> \<not> bit (y (bi div 8)) (bi mod 8)"
proof -
  have "y (bi div 8) AND push_bit (bi mod 8) 1 = (if bit (y (bi div 8)) (bi mod 8) then push_bit (bi mod 8) 1 else 0)"
    by (rule bit_word_eqI) (auto simp: bit_simps)
  moreover have "(push_bit (bi mod 8) 1 :: u8) \<noteq> 0"
  proof
    assume "(push_bit (bi mod 8) 1 :: u8) = 0"
    then have "bit (push_bit (bi mod 8) 1 :: u8) (bi mod 8) = bit (0 :: u8) (bi mod 8)" by simp
    then show False by (simp add: bit_simps)
  qed
  ultimately show ?thesis by (simp add: bit_clear_def)
qed

lemma div_mod_8: "m div 8 = n div 8 \<Longrightarrow> m mod 8 = n mod 8 \<Longrightarrow> m = (n :: nat)"
  by (metis div_mult_mod_eq)

lemma bit_clear_mark: "bit_clear (mark_bit b y) b' \<longleftrightarrow> b' \<noteq> b \<and> bit_clear y b'"
  by (auto simp: bit_clear_iff mark_bit_def bit_simps dest: div_mod_8)

lemma bit_clear_unmark: "bit_clear (unmark_bit b y) b' \<longleftrightarrow> b' = b \<or> bit_clear y b'"
  by (auto simp: bit_clear_iff unmark_bit_def bit_simps dest: div_mod_8)

lemma bitmap_scan_filter:
  "bitmap_scan y k bi = (case filter (bit_clear y) [bi ..< bi + k] of [] \<Rightarrow> None | b # _ \<Rightarrow> Some b)"
  by (induction y k bi rule: bitmap_scan.induct) (auto simp: upt_conv_Cons simp del: upt_Suc)

subsection \<open>Free blocks\<close>

text \<open>The blocks whose bit is clear, in ascending order.\<close>

definition frees :: "(u32 \<Rightarrow> block) \<Rightarrow> superblock \<Rightarrow> nat list" where
  "frees V b = filter (bit_clear (V (sb_bmapstart b))) [0 ..< unat (sb_size b)]"

definition after_alloc :: "(u32 \<Rightarrow> block) \<Rightarrow> superblock \<Rightarrow> (u32 \<Rightarrow> block)" where
  "after_alloc V b = (let f = hd (frees V b) in
     (V(sb_bmapstart b := mark_bit f (V (sb_bmapstart b))))(of_nat f := zero_bytes 0 BSIZE (V (of_nat f))))"

text \<open>The bitmap is one block, which is itself in use, and so is block 0.\<close>

definition map_ok :: "(u32 \<Rightarrow> block) \<Rightarrow> superblock \<Rightarrow> bool" where
  "map_ok V b \<longleftrightarrow> unat (sb_size b) \<le> BPB \<and> unat (sb_bmapstart b) \<notin> set (frees V b) \<and> 0 \<notin> set (frees V b)"

lemma BBLOCK_first: "unat x < BPB \<Longrightarrow> BBLOCK x b = sb_bmapstart b"
proof -
  assume "unat x < BPB"
  then have "x div of_nat BPB = 0" by (simp add: word_unat_eq_iff unat_div layout_defs)
  then show ?thesis by (simp add: BBLOCK_def)
qed

lemma frees_less: "f \<in> set (frees V b) \<Longrightarrow> f < unat (sb_size b)"
  by (simp add: frees_def)

lemma frees_small: "map_ok V b \<Longrightarrow> f \<in> set (frees V b) \<Longrightarrow> f < 2 ^ 32 \<and> of_nat f \<noteq> sb_bmapstart b \<and> of_nat f \<noteq> (0 :: u32)"
proof -
  assume m: "map_ok V b" and f: "f \<in> set (frees V b)"
  have "f < 2 ^ 32" using frees_less [OF f] m by (simp add: map_ok_def layout_defs)
  moreover have "0 < f" using m f by (cases f) (auto simp: map_ok_def)
  ultimately show ?thesis using m f by (auto simp: map_ok_def word_unat_eq_iff unat_of_nat_small)
qed

lemma frees_after_alloc:
  assumes "map_ok V b" "frees V b \<noteq> []"
  shows "frees (after_alloc V b) b = tl (frees V b)" "map_ok (after_alloc V b) b"
proof -
  let ?y = "V (sb_bmapstart b)" and ?f = "hd (frees V b)"
  have f: "?f \<in> set (frees V b)" using assms(2) by simp
  have "after_alloc V b (sb_bmapstart b) = mark_bit ?f ?y" using frees_small [OF assms(1) f] by (auto simp: after_alloc_def Let_def)
  then have "frees (after_alloc V b) b = filter (\<lambda>x. x \<noteq> ?f \<and> bit_clear ?y x) [0 ..< unat (sb_size b)]"
    by (simp add: frees_def bit_clear_mark cong: filter_cong)
  also have "\<dots> = filter (\<lambda>x. x \<noteq> ?f) (frees V b)" by (simp add: frees_def conj_commute)
  also have "\<dots> = tl (frees V b)"
  proof -
    have "distinct (frees V b)" by (simp add: frees_def)
    then show ?thesis using assms(2) by (cases "frees V b") (auto simp: filter_id_conv)
  qed
  finally show t: "frees (after_alloc V b) b = tl (frees V b)" .
  show "map_ok (after_alloc V b) b" using assms(1) t by (auto simp: map_ok_def dest: list.set_sel(2) [OF assms(2)])
qed

subsection \<open>The allocator\<close>

lemma fs_frame:
  assumes "bcache.more s' = bcache.more (s :: ('d, 'z) fs_scheme)"
  shows "sb s' = sb s" "itable s' = itable s" "cwd s' = cwd s"
  using assms by (cases s; cases s'; simp)+

context block_device
begin

text \<open>What an operation leaves as it was: everything but the contents of blocks.\<close>

definition steps :: "u32 set \<Rightarrow> ('d, 'z) bcache_scheme \<Rightarrow> (u32 \<Rightarrow> block) \<Rightarrow> ('d, 'z) bcache_scheme \<Rightarrow> bool" where
  "steps B s V s' \<longleftrightarrow> good B s' \<and> view contents s' = V \<and> refs s' = refs s \<and> bcache.more s' = bcache.more s \<and>
     contents (disk s') = contents (disk s) \<and> keeps_held s s'"

lemma with_block_steps:
  assumes "good B s" "b \<in> B" "refs s b \<le> 1"
  obtains s' where "with_block D ROOTDEV b f s = Some (fst (f (view contents s b)), s')"
    "steps B s ((view contents s)(b := snd (f (view contents s b)))) s'"
  using with_block_ok [OF assms(1,2), of f] assms(3) that by (auto simp: steps_def)

lemma read_block_steps:
  assumes "good B s" "b \<in> B" "refs s b \<le> 1"
  obtains s' where "read_block D ROOTDEV b s = Some (view contents s b, s')" "steps B s (view contents s) s'"
  using read_block_ok [OF assms(1,2)] assms(3) that by (auto simp: steps_def)

lemma balloc_ok:
  fixes s :: "('d, 'z) fs_scheme"
  assumes g: "good B s" and m: "map_ok (view contents s) (sb s)" and bm: "sb_bmapstart (sb s) \<in> B" and r: "\<forall>b. refs s b \<le> 1"
    and sz: "sb_size (sb s) \<noteq> 0" and sp: "frees (view contents s) (sb s) \<noteq> [] \<longrightarrow> of_nat (hd (frees (view contents s) (sb s))) \<in> B"
  shows "\<exists>s'. balloc D ROOTDEV s = Some (case frees (view contents s) (sb s) of [] \<Rightarrow> 0 | f # _ \<Rightarrow> of_nat f, s') \<and>
    steps B s (if frees (view contents s) (sb s) = [] then view contents s else after_alloc (view contents s) (sb s)) s'"
proof -
  let ?V = "view contents s" and ?bm = "sb_bmapstart (sb s)" and ?sz = "unat (sb_size (sb s))"
  have szB: "?sz \<le> BPB" "0 < ?sz" using m sz by (auto simp: map_ok_def unat_gt_0)
  have r': "refs s b + 1 < 2 ^ 32" for b using r [rule_format, of b] by simp
  obtain i s1 where s1: "bread D ROOTDEV ?bm s = Some (i, s1)" "good B s1" "holds s1 i ?bm" "contents (disk s1) = contents (disk s)"
    "refs s1 = (refs s)(?bm := refs s ?bm + 1)" "view contents s1 = ?V" "data_of i s1 = ?V ?bm" "bcache.more s1 = bcache.more s"
    "keeps_held s s1" using bread_ok [OF g bm r'] .
  have bb: "BBLOCK 0 (sb s) = ?bm" using BBLOCK_first [of 0] by simp
  have scan: "bitmap_scan (data_of i s1) (min BPB ?sz) 0 = (case frees ?V (sb s) of [] \<Rightarrow> None | f # _ \<Rightarrow> Some f)"
    using szB s1(7) by (simp add: bitmap_scan_filter frees_def min_absorb2)
  have m1: "sb s1 = sb s" using fs_frame [OF s1(8)] by simp
  show ?thesis
  proof (cases "frees ?V (sb s)")
    case Nil
    obtain s2 where s2: "brelse i s1 = Some s2" "good B s2" "disk s2 = disk s1" "refs s2 = (refs s1)(?bm := refs s1 ?bm - 1)"
      "view contents s2 = view contents s1" "bcache.more s2 = bcache.more s1"
      "\<And>j b'. holds s1 j b' \<Longrightarrow> b' \<noteq> ?bm \<or> 1 < refs s1 ?bm \<Longrightarrow> holds s2 j b'" using brelse_ok [OF s1(2,3)] by blast
    have "keeps_held s s2" unfolding keeps_held_def
    proof (intro allI impI)
      fix j b' assume h: "holds s j b'"
      show "holds s2 j b'" by (rule s2(7)) (use h s1(9) holds_refs [OF h] s1(5) in \<open>auto simp: keeps_held_def\<close>)
    qed
    have "balloc_loop D ROOTDEV ?sz (0 + BPB) s2 = Some (0, s2)" using szB by (simp add: not_less)
    then have "balloc D ROOTDEV s = Some (0, s2)"
      using s1(1) s2(1) bb scan Nil szB by (simp add: balloc_def balloc_loop.simps [of D ROOTDEV ?sz 0 s] del: balloc_loop.simps)
    moreover have "steps B s ?V s2" using s1(4-8) s2(2-6) \<open>keeps_held s s2\<close> by (simp add: steps_def fun_upd_idem)
    ultimately show ?thesis using Nil by auto
  next
    case (Cons f fs)
    let ?y = "mark_bit f (?V ?bm)"
    note d = set_data_ok [OF s1(2,3), of ?y]
    obtain s2 where s2: "brelse i (set_data i ?y s1) = Some s2" "good B s2" "disk s2 = disk (set_data i ?y s1)"
      "refs s2 = (refs (set_data i ?y s1))(?bm := refs (set_data i ?y s1) ?bm - 1)"
      "view contents s2 = view contents (set_data i ?y s1)" "bcache.more s2 = bcache.more (set_data i ?y s1)"
      "\<And>j b'. holds (set_data i ?y s1) j b' \<Longrightarrow> b' \<noteq> ?bm \<or> 1 < refs (set_data i ?y s1) ?bm \<Longrightarrow> holds s2 j b'"
      using brelse_ok d by blast
    have "keeps_held s s2" unfolding keeps_held_def
    proof (intro allI impI)
      fix j b' assume h: "holds s j b'"
      show "holds s2 j b'" by (rule s2(7)) (use h s1(9) d holds_refs [OF h] s1(5) in \<open>auto simp: keeps_held_def\<close>)
    qed
    then have st: "steps B s (?V(?bm := ?y)) s2" using s1(4-8) s2(2-6) d by (simp add: steps_def fun_upd_idem)
    have f: "of_nat f \<in> B" "f \<in> set (frees ?V (sb s))" using sp Cons by auto
    have nb: "of_nat f \<noteq> ?bm" using frees_small [OF m f(2)] by simp
    have "good B s2" "refs s2 (of_nat f) \<le> 1" using st r by (auto simp: steps_def)
    from with_block_steps [OF this(1) f(1) this(2), of "\<lambda>y. ((), zero_bytes 0 BSIZE y)"]
    obtain s3 where s3: "with_block D ROOTDEV (of_nat f) (\<lambda>y. ((), zero_bytes 0 BSIZE y)) s2 = Some ((), s3)"
      "steps B s2 ((view contents s2)(of_nat f := zero_bytes 0 BSIZE (view contents s2 (of_nat f)))) s3" by auto
    have V3: "(view contents s2)(of_nat f := zero_bytes 0 BSIZE (view contents s2 (of_nat f))) = after_alloc ?V (sb s)"
      using st nb Cons by (simp add: steps_def after_alloc_def Let_def)
    have "balloc D ROOTDEV s = Some (of_nat f, s3)"
      using s1(1,7) s2(1) s3(1) bb scan Cons szB
      by (simp add: balloc_def balloc_loop.simps [of D ROOTDEV ?sz 0 s] xv6fs_bzero_def del: balloc_loop.simps)
    moreover have "steps B s (after_alloc ?V (sb s)) s3" using st s3(2) V3 by (auto simp: steps_def intro: keeps_held_trans)
    ultimately show ?thesis using Cons by auto
  qed
qed

end

end
