(* ===== verification/Xv6_File.thy ===== *)
theory Xv6_File
  imports Xv6_Alloc
begin

unbundle bit_operations_syntax

section \<open>Files as lists of bytes\<close>

text \<open>
  The contents of a file are its bytes up to its size. The pointers of an inode are numbered: those to the
  data blocks \<open>0 ..< MAXFILE\<close>, direct and indirect, and at \<open>MAXFILE\<close> the one to the indirect block. The
  invariant says that the blocks of the file are different from each other, not free, and not the bitmap
  or the block of the inode.
\<close>

definition ptr :: "(u32 \<Rightarrow> block) \<Rightarrow> inode \<Rightarrow> nat \<Rightarrow> u32" where
  "ptr V p n = (if n < NDIRECT then i_addrs p ! n
     else if n = MAXFILE then i_addrs p ! NDIRECT
     else if i_addrs p ! NDIRECT = 0 then 0
     else get32 (V (i_addrs p ! NDIRECT)) (4 * (n - NDIRECT)))"

definition byte_at :: "(u32 \<Rightarrow> block) \<Rightarrow> inode \<Rightarrow> nat \<Rightarrow> u8" where
  "byte_at V p i = (let a = ptr V p (i div BSIZE) in if a = 0 then 0 else V a (i mod BSIZE))"

definition owned :: "(u32 \<Rightarrow> block) \<Rightarrow> inode \<Rightarrow> u32 set" where
  "owned V p = ptr V p ` {.. MAXFILE} - {0}"

definition special :: "superblock \<Rightarrow> inode \<Rightarrow> u32 set" where
  "special b p = {sb_bmapstart b, IBLOCK (i_inum p) b}"

definition file_ok :: "u32 set \<Rightarrow> nat \<Rightarrow> (u32 \<Rightarrow> block) \<Rightarrow> superblock \<Rightarrow> inode \<Rightarrow> bool" where
  "file_ok B k V b p \<longleftrightarrow> length (i_addrs p) = NDIRECT + 1 \<and> map_ok V b \<and> sb_size b \<noteq> 0 \<and>
     special b p \<subseteq> B \<and> sb_bmapstart b \<noteq> IBLOCK (i_inum p) b \<and> (\<forall>x \<in> special b p. unat x \<notin> set (frees V b)) \<and>
     owned V p \<subseteq> B - special b p \<and> (\<forall>x \<in> owned V p. unat x \<notin> set (frees V b)) \<and>
     inj_on (ptr V p) {n. n \<le> MAXFILE \<and> ptr V p n \<noteq> 0} \<and> of_nat ` set (take k (frees V b)) \<subseteq> B"

lemma file_map_ok: "file_ok B k V b p \<Longrightarrow> map_ok V b" by (simp add: file_ok_def)

lemma ptr_owned: "n \<le> MAXFILE \<Longrightarrow> ptr V p n \<noteq> 0 \<Longrightarrow> ptr V p n \<in> owned V p"
  by (auto simp: owned_def)

lemma NDIRECT_less [simp]: "NDIRECT < MAXFILE" "\<not> MAXFILE < NDIRECT" by (simp_all add: layout_defs)

lemma ptr_MAXFILE [simp]: "ptr V p MAXFILE = i_addrs p ! NDIRECT"
  by (simp add: ptr_def layout_defs)

lemma file_ok_less: "file_ok B k V b p \<Longrightarrow> j \<le> k \<Longrightarrow> file_ok B j V b p"
proof -
  assume a: "file_ok B k V b p" "j \<le> k"
  have "set (take j (frees V b)) \<subseteq> set (take k (frees V b))" using a(2) by (rule set_take_subset_set_take)
  then have "of_nat ` set (take j (frees V b)) \<subseteq> (B :: u32 set)" using a(1) unfolding file_ok_def by blast
  then show ?thesis using a(1) by (simp add: file_ok_def)
qed

text \<open>A free block becomes the target of a pointer that was 0.\<close>

lemma file_ok_new:
  assumes f: "file_ok B (Suc k) V b p" and fs: "frees V b = f # fs" "frees V' b = fs"
    and n: "n \<le> MAXFILE" "ptr V p n = 0" and pt: "\<And>m. m \<le> MAXFILE \<Longrightarrow> ptr V' p' m = (if m = n then of_nat f else ptr V p m)"
    and p: "i_inum p' = i_inum p" "length (i_addrs p') = length (i_addrs p)"
  shows "file_ok B k V' b p'" "owned V' p' = insert (of_nat f) (owned V p)"
proof -
  have m: "map_ok V b" using f by (rule file_map_ok)
  have fm: "f < 2 ^ 32" "of_nat f \<noteq> (0 :: u32)" using frees_small [OF m, of f] fs by auto
  have uf: "unat (of_nat f :: u32) = f" using fm by (simp add: unat_of_nat_small)
  have d: "f \<notin> set fs" using fs(1) by (metis distinct.simps(2) distinct_filter distinct_upt frees_def)
  show o: "owned V' p' = insert (of_nat f) (owned V p)"
    using n fm(2) pt by (auto simp: owned_def image_iff)
  have fB: "of_nat f \<in> B" using f fs(1) by (simp add: file_ok_def)
  have no: "of_nat f \<notin> owned V p" "of_nat f \<notin> special b p" using f fs(1) uf by (auto simp: file_ok_def)
  have "inj_on (ptr V' p') {n. n \<le> MAXFILE \<and> ptr V' p' n \<noteq> 0}"
  proof (rule inj_onI)
    fix i j assume i: "i \<in> {n. n \<le> MAXFILE \<and> ptr V' p' n \<noteq> 0}" and j: "j \<in> {n. n \<le> MAXFILE \<and> ptr V' p' n \<noteq> 0}" and e: "ptr V' p' i = ptr V' p' j"
    have "inj_on (ptr V p) {n. n \<le> MAXFILE \<and> ptr V p n \<noteq> 0}" using f by (simp add: file_ok_def)
    then show "i = j" using i j e pt [of i] pt [of j] no(1) ptr_owned [of i V p] ptr_owned [of j V p]
      by (auto simp: inj_on_def split: if_splits)
  qed
  moreover have "special b p' = special b p" using p by (simp add: special_def)
  moreover have "map_ok V' b" using m fs by (auto simp: map_ok_def)
  ultimately show "file_ok B k V' b p'" using f o fB no d uf fs p unfolding file_ok_def by auto
qed

text \<open>What allocation leaves of a file.\<close>

definition touch :: "(u32 \<Rightarrow> block) \<Rightarrow> superblock \<Rightarrow> inode \<Rightarrow> u32 set" where
  "touch V b p = special b p \<union> {x. unat x \<in> set (frees V b)} \<union> owned V p"

definition kept :: "superblock \<Rightarrow> (u32 \<Rightarrow> block) \<Rightarrow> inode \<Rightarrow> (u32 \<Rightarrow> block) \<Rightarrow> inode \<Rightarrow> bool" where
  "kept b V p V' p' \<longleftrightarrow> p' = p\<lparr>i_addrs := i_addrs p'\<rparr> \<and> (\<forall>m < MAXFILE. ptr V p m \<noteq> 0 \<longrightarrow> ptr V' p' m = ptr V p m) \<and>
     (\<forall>x. x \<notin> touch V b p \<longrightarrow> V' x = V x) \<and> touch V' b p' \<subseteq> touch V b p"

definition same_bytes :: "(u32 \<Rightarrow> block) \<Rightarrow> inode \<Rightarrow> (u32 \<Rightarrow> block) \<Rightarrow> inode \<Rightarrow> bool" where
  "same_bytes V p V' p' \<longleftrightarrow> (\<forall>i < MAXFILE * BSIZE. byte_at V' p' i = byte_at V p i)"

lemma kept_refl [simp]: "kept b V p V p" by (simp add: kept_def)

lemma same_bytes_refl [simp]: "same_bytes V p V p" by (simp add: same_bytes_def)

lemma same_bytes_trans: "same_bytes V p V' p' \<Longrightarrow> same_bytes V' p' V'' p'' \<Longrightarrow> same_bytes V p V'' p''"
  by (simp add: same_bytes_def)

lemma kept_trans:
  assumes a: "kept b V p V' p'" and c: "kept b V' p' V'' p''"
  shows "kept b V p V'' p''"
proof -
  have "p'' = p'\<lparr>i_addrs := i_addrs p''\<rparr>" "p' = p\<lparr>i_addrs := i_addrs p'\<rparr>" using a c by (simp_all add: kept_def)
  then have "p'' = p\<lparr>i_addrs := i_addrs p''\<rparr>" by (metis inode.update_convs(13) inode.surjective)
  moreover have "\<forall>m < MAXFILE. ptr V p m \<noteq> 0 \<longrightarrow> ptr V'' p'' m = ptr V p m" using a c by (simp add: kept_def)
  moreover have "\<forall>x. x \<notin> touch V b p \<longrightarrow> V'' x = V x" using a c unfolding kept_def by (metis subsetD)
  moreover have "touch V'' b p'' \<subseteq> touch V b p" using a c unfolding kept_def by blast
  ultimately show ?thesis unfolding kept_def by blast
qed

lemma div_BSIZE_less: "i < MAXFILE * BSIZE \<Longrightarrow> i div BSIZE < MAXFILE"
  by (simp add: less_mult_imp_div_less)

lemma file_grows:
  assumes f: "file_ok B (Suc k) V b p" and fs: "frees V b = f # fs" "frees V' b = fs"
    and n: "n \<le> MAXFILE" "ptr V p n = 0" and pt: "\<And>m. m \<le> MAXFILE \<Longrightarrow> ptr V' p' m = (if m = n then of_nat f else ptr V p m)"
    and p: "p' = p\<lparr>i_addrs := as\<rparr>" "length as = length (i_addrs p)"
    and V: "\<And>x. x \<noteq> of_nat f \<Longrightarrow> x \<noteq> sb_bmapstart b \<Longrightarrow> x \<noteq> i_addrs p ! NDIRECT \<or> x = 0 \<Longrightarrow> V' x = V x"
    and z: "\<And>i. i < BSIZE \<Longrightarrow> V' (of_nat f) i = 0"
  shows "file_ok B k V' b p'" "kept b V p V' p'" "same_bytes V p V' p'"
proof -
  have q: "i_inum p' = i_inum p" "length (i_addrs p') = length (i_addrs p)" using p by auto
  note new = file_ok_new [OF f fs n pt q]
  show "file_ok B k V' b p'" by (rule new)
  have m: "map_ok V b" using f by (rule file_map_ok)
  have uf: "unat (of_nat f :: u32) = f" using frees_small [OF m, of f] fs by (simp add: unat_of_nat_small)
  have no: "of_nat f \<notin> owned V p" using f fs(1) uf by (auto simp: file_ok_def)
  have ow: "x \<noteq> of_nat f \<and> x \<noteq> sb_bmapstart b" if "x \<in> owned V p" for x
    using that f no by (auto simp: file_ok_def special_def)
  have bt: "byte_at V' p' i = byte_at V p i" if i: "i < MAXFILE * BSIZE" for i
  proof -
    let ?d = "i div BSIZE"
    have d: "?d < MAXFILE" using i by (rule div_BSIZE_less)
    show ?thesis
    proof (cases "?d = n")
      case True
      then show ?thesis using n pt [of ?d] z [of "i mod BSIZE"] by (simp add: byte_at_def Let_def)
    next
      case False
      then have e: "ptr V' p' ?d = ptr V p ?d" using pt [of ?d] d by simp
      have "V' (ptr V p ?d) = V (ptr V p ?d)" if nz: "ptr V p ?d \<noteq> 0"
      proof (rule V)
        have "ptr V p ?d \<in> owned V p" using nz d by (auto intro: ptr_owned)
        then show "ptr V p ?d \<noteq> of_nat f" "ptr V p ?d \<noteq> sb_bmapstart b" using ow by auto
        have "inj_on (ptr V p) {n. n \<le> MAXFILE \<and> ptr V p n \<noteq> 0}" using f by (simp add: file_ok_def)
        then show "ptr V p ?d \<noteq> i_addrs p ! NDIRECT \<or> ptr V p ?d = 0"
          using inj_onD [of "ptr V p" "{n. n \<le> MAXFILE \<and> ptr V p n \<noteq> 0}" ?d MAXFILE] nz d by auto
      qed
      then show ?thesis using e by (simp add: byte_at_def Let_def)
    qed
  qed
  have fr: "V' x = V x" if x: "x \<notin> touch V b p" for x
  proof (rule V)
    have "f \<in> set (frees V b)" using fs by simp
    then show "x \<noteq> of_nat f" using x uf by (auto simp: touch_def)
    show "x \<noteq> sb_bmapstart b" using x by (auto simp: touch_def special_def)
    show "x \<noteq> i_addrs p ! NDIRECT \<or> x = 0" using x ptr_owned [of MAXFILE V p] by (auto simp: touch_def)
  qed
  have to: "touch V' b p' \<subseteq> touch V b p"
    using new(2) fs uf p by (auto simp: touch_def special_def)
  have "ptr V' p' m = ptr V p m" if "m < MAXFILE" "ptr V p m \<noteq> 0" for m using that pt [of m] n by auto
  then show "kept b V p V' p'" "same_bytes V p V' p'" using bt fr to p(1) unfolding kept_def same_bytes_def by simp_all
qed

subsection \<open>Blocks of a file\<close>

lemma after_alloc_other: "x \<noteq> sb_bmapstart b \<Longrightarrow> x \<noteq> of_nat (hd (frees V b)) \<Longrightarrow> after_alloc V b x = V x"
  by (simp add: after_alloc_def Let_def)

lemma after_alloc_new: "i < BSIZE \<Longrightarrow> after_alloc V b (of_nat (hd (frees V b))) i = 0"
  by (simp add: after_alloc_def Let_def zero_bytes_def)

lemma ptr_cong:
  "(i_addrs p ! NDIRECT \<noteq> 0 \<Longrightarrow> V' (i_addrs p ! NDIRECT) = V (i_addrs p ! NDIRECT)) \<Longrightarrow> ptr V' p m = ptr V p m"
  by (simp add: ptr_def)

lemma entry_bound: "m < MAXFILE \<Longrightarrow> 4 * (m - NDIRECT) + 3 < BSIZE"
  by (simp add: layout_defs)

lemma get32_zero: "off + 3 < BSIZE \<Longrightarrow> (\<And>i. i < BSIZE \<Longrightarrow> y i = 0) \<Longrightarrow> get32 y off = 0"
  by (simp add: get32_def)

lemma frees_cong: "V' (sb_bmapstart b) = V (sb_bmapstart b) \<Longrightarrow> frees V' b = frees V b"
  by (simp add: frees_def)

text \<open>The facts about the block that is allocated next.\<close>

lemma alloc_facts:
  assumes f: "file_ok B k V b p" and fs: "frees V b = f # fs"
  shows "of_nat f \<noteq> (0 :: u32)" "of_nat f \<noteq> sb_bmapstart b" "of_nat f \<notin> owned V p" "frees (after_alloc V b) b = fs"
    "i_addrs p ! NDIRECT \<noteq> 0 \<Longrightarrow> after_alloc V b (i_addrs p ! NDIRECT) = V (i_addrs p ! NDIRECT)"
    "i_addrs p ! NDIRECT \<noteq> 0 \<Longrightarrow> i_addrs p ! NDIRECT \<noteq> sb_bmapstart b"
proof -
  have m: "map_ok V b" using f by (rule file_map_ok)
  show n: "of_nat f \<noteq> (0 :: u32)" "of_nat f \<noteq> sb_bmapstart b" using frees_small [OF m, of f] fs by auto
  have "unat (of_nat f :: u32) = f" using frees_small [OF m, of f] fs by (simp add: unat_of_nat_small)
  then show no: "of_nat f \<notin> owned V p" using f fs by (auto simp: file_ok_def)
  show "frees (after_alloc V b) b = fs" using frees_after_alloc(1) [OF m] fs by simp
  assume "i_addrs p ! NDIRECT \<noteq> 0"
  then have o: "i_addrs p ! NDIRECT \<in> owned V p" using ptr_owned [of MAXFILE V p] by simp
  then show i: "i_addrs p ! NDIRECT \<noteq> sb_bmapstart b" using f by (auto simp: file_ok_def special_def)
  show "after_alloc V b (i_addrs p ! NDIRECT) = V (i_addrs p ! NDIRECT)"
    using i o no fs by (intro after_alloc_other) auto
qed

lemma set_direct:
  assumes f: "file_ok B (Suc k) V b p" and fs: "frees V b = f # fs" and n: "n < NDIRECT" "i_addrs p ! n = 0"
  defines "p' \<equiv> p\<lparr>i_addrs := (i_addrs p)[n := of_nat f]\<rparr>"
  shows "file_ok B k (after_alloc V b) b p'" "kept b V p (after_alloc V b) p'" "same_bytes V p (after_alloc V b) p'" "ptr (after_alloc V b) p' n = of_nat f"
proof -
  note a = alloc_facts [OF f fs]
  have len: "length (i_addrs p) = NDIRECT + 1" using f by (simp add: file_ok_def)
  have pt: "ptr (after_alloc V b) p' m = (if m = n then of_nat f else ptr V p m)" for m
    using n a(5) len ptr_cong [of p "after_alloc V b" V m] by (auto simp: ptr_def p'_def)
  have nm: "n \<le> MAXFILE" "ptr V p n = 0" using n by (simp_all add: layout_defs ptr_def)
  have V: "after_alloc V b x = V x" if "x \<noteq> of_nat f" "x \<noteq> sb_bmapstart b" for x using that fs after_alloc_other [of x b V] by simp
  have z: "after_alloc V b (of_nat f) i = 0" if "i < BSIZE" for i using after_alloc_new [of i V b] fs that by simp
  show "file_ok B k (after_alloc V b) b p'" "kept b V p (after_alloc V b) p'" "same_bytes V p (after_alloc V b) p'"
    using file_grows [OF f fs a(4) nm pt p'_def [THEN meta_eq_to_obj_eq] _ V z] by simp_all
  show "ptr (after_alloc V b) p' n = of_nat f" using pt by simp
qed

lemma set_indirect:
  assumes f: "file_ok B (Suc k) V b p" and fs: "frees V b = f # fs" and n: "i_addrs p ! NDIRECT = 0"
  defines "p' \<equiv> p\<lparr>i_addrs := (i_addrs p)[NDIRECT := of_nat f]\<rparr>"
  shows "file_ok B k (after_alloc V b) b p'" "kept b V p (after_alloc V b) p'" "same_bytes V p (after_alloc V b) p'"
proof -
  note a = alloc_facts [OF f fs]
  have len: "length (i_addrs p) = NDIRECT + 1" using f by (simp add: file_ok_def)
  have z: "after_alloc V b (of_nat f) i = 0" if "i < BSIZE" for i using after_alloc_new [of i V b] fs that by simp
  have pt: "ptr (after_alloc V b) p' m = (if m = MAXFILE then of_nat f else ptr V p m)" if m: "m \<le> MAXFILE" for m
  proof (cases "m < NDIRECT \<or> m = MAXFILE")
    case False
    then have "get32 (after_alloc V b (of_nat f)) (4 * (m - NDIRECT)) = 0"
      using m z entry_bound [of m] by (intro get32_zero) auto
    then show ?thesis using False n len by (simp add: ptr_def p'_def)
  qed (use len in \<open>auto simp: ptr_def p'_def\<close>)
  have nm: "MAXFILE \<le> MAXFILE" "ptr V p MAXFILE = 0" using n by simp_all
  have V: "after_alloc V b x = V x" if "x \<noteq> of_nat f" "x \<noteq> sb_bmapstart b" for x using that fs after_alloc_other [of x b V] by simp
  show "file_ok B k (after_alloc V b) b p'" "kept b V p (after_alloc V b) p'" "same_bytes V p (after_alloc V b) p'"
    using file_grows [OF f fs a(4) nm pt p'_def [THEN meta_eq_to_obj_eq] _ V z] by simp_all
qed

lemma set_entry:
  assumes f: "file_ok B (Suc k) V b p" and fs: "frees V b = f # fs" and i: "i_addrs p ! NDIRECT \<noteq> 0"
    and n: "NDIRECT \<le> n" "n < MAXFILE" "ptr V p n = 0"
  defines "V' \<equiv> (after_alloc V b)(i_addrs p ! NDIRECT := put32 (4 * (n - NDIRECT)) (of_nat f) (V (i_addrs p ! NDIRECT)))"
  shows "file_ok B k V' b p" "kept b V p V' p" "same_bytes V p V' p" "ptr V' p n = of_nat f"
proof -
  note a = alloc_facts [OF f fs]
  have no: "of_nat f \<noteq> i_addrs p ! NDIRECT" using a(3) i ptr_owned [of MAXFILE V p] by auto
  have pt: "ptr V' p m = (if m = n then of_nat f else ptr V p m)" if m: "m \<le> MAXFILE" for m
  proof (cases "m < NDIRECT \<or> m = MAXFILE \<or> m = n")
    case False
    then have "4 * (n - NDIRECT) + 4 \<le> 4 * (m - NDIRECT) \<or> 4 * (m - NDIRECT) + 4 \<le> 4 * (n - NDIRECT)" using n by linarith
    then show ?thesis using False i by (simp add: ptr_def V'_def get32_put32_other)
  qed (use n i in \<open>auto simp: ptr_def V'_def\<close>)
  have fr: "frees V' b = fs" using a(4) a(6) [OF i] frees_cong [of V' b "after_alloc V b"] by (simp add: V'_def)
  have z: "V' (of_nat f) j = 0" if "j < BSIZE" for j using after_alloc_new [of j V b] fs that no by (simp add: V'_def)
  have V: "V' x = V x" if "x \<noteq> of_nat f" "x \<noteq> sb_bmapstart b" "x \<noteq> i_addrs p ! NDIRECT \<or> x = 0" for x
    using that i fs after_alloc_other [of x b V] by (auto simp: V'_def)
  have nm: "n \<le> MAXFILE" and e: "p = p\<lparr>i_addrs := i_addrs p\<rparr>" using n by simp_all
  show "file_ok B k V' b p" "kept b V p V' p" "same_bytes V p V' p" by (rule file_grows [OF f fs fr nm n(3) pt e refl V z]; assumption)+
  show "ptr V' p n = of_nat f" using pt n by simp
qed

subsection \<open>Operations on a file\<close>

lemma upd_inode_frame [simp]:
  "bufs (upd_inode ip f s) = bufs s" "disk (upd_inode ip f s) = disk s" "sb (upd_inode ip f s) = sb s" "cwd (upd_inode ip f s) = cwd s"
  "itable (upd_inode ip f s) = (itable s)[ip := f (itable s ! ip)]"
  "refs (upd_inode ip f s) = refs s" "view cs (upd_inode ip f s) = view cs s" "holds (upd_inode ip f s) = holds s"
  by (auto simp: upd_inode_def refs_def view_def holds_def fun_eq_iff split: option.split)

context block_device
begin

definition fs_inv :: "u32 set \<Rightarrow> nat \<Rightarrow> nat \<Rightarrow> ('d, 'z) fs_scheme \<Rightarrow> bool" where
  "fs_inv B k ip s \<longleftrightarrow> good B s \<and> refs s = (\<lambda>_. 0) \<and> ip < length (itable s) \<and> i_dev (inode_of s ip) = ROOTDEV \<and>
     file_ok B k (view contents s) (sb s) (inode_of s ip)"

text \<open>What stays of the state, the contents of the file apart.\<close>

definition keeps :: "nat \<Rightarrow> ('d, 'z) fs_scheme \<Rightarrow> ('d, 'z) fs_scheme \<Rightarrow> bool" where
  "keeps ip s s' \<longleftrightarrow> kept (sb s) (view contents s) (inode_of s ip) (view contents s') (inode_of s' ip) \<and> sb s' = sb s \<and> cwd s' = cwd s \<and>
     itable s' = (itable s)[ip := inode_of s' ip] \<and> contents (disk s') = contents (disk s)"

abbreviation same_file :: "nat \<Rightarrow> ('d, 'z) fs_scheme \<Rightarrow> ('d, 'z) fs_scheme \<Rightarrow> bool" where
  "same_file ip s s' \<equiv> same_bytes (view contents s) (inode_of s ip) (view contents s') (inode_of s' ip)"

lemma good_upd_inode [simp]: "good B (upd_inode ip f s) = good B s" by (simp add: good_def)

lemma fs_inv_less: "fs_inv B k ip s \<Longrightarrow> j \<le> k \<Longrightarrow> fs_inv B j ip s"
  using file_ok_less by (auto simp: fs_inv_def)

lemma keeps_refl [simp]: "keeps ip s s" by (simp add: keeps_def)

lemma keeps_trans: "keeps ip s s' \<Longrightarrow> keeps ip s' s'' \<Longrightarrow> keeps ip s s''"
  unfolding keeps_def by (metis kept_trans list_update_overwrite)

lemma steps_trans: "steps B s V s' \<Longrightarrow> steps B s' W s'' \<Longrightarrow> steps B s W s''"
  by (auto simp: steps_def intro: keeps_held_trans)

abbreviation space :: "('d, 'z) fs_scheme \<Rightarrow> nat" where
  "space s \<equiv> length (frees (view contents s) (sb s))"

text \<open>A change of the blocks followed by an update of the inode.\<close>

lemma fs_inv_step:
  fixes s :: "('d, 'z) fs_scheme"
  assumes "fs_inv B j ip s" "steps B s V s1" "file_ok B k V (sb s) p'" "kept (sb s) (view contents s) (inode_of s ip) V p'"
  defines "s' \<equiv> upd_inode ip (\<lambda>_. p') s1"
  shows "fs_inv B k ip s'" "keeps ip s s'" "inode_of s' ip = p'" "sb s' = sb s" "view contents s' = V"
proof -
  have f: "sb s1 = sb s" "itable s1 = itable s" "cwd s1 = cwd s" using assms(2) fs_frame [of s1 s] by (simp_all add: steps_def)
  have "i_dev p' = i_dev (inode_of s ip)" using assms(4) by (metis kept_def inode.select_convs(1) inode.surjective inode.update_convs(13))
  then show "fs_inv B k ip s'" "keeps ip s s'" "inode_of s' ip = p'" "sb s' = sb s" "view contents s' = V"
    using assms f by (simp_all add: fs_inv_def keeps_def steps_def)
qed

lemma fs_inv_same:
  fixes s :: "('d, 'z) fs_scheme"
  assumes "fs_inv B j ip s" "steps B s V s1" "file_ok B k V (sb s) (inode_of s ip)"
    "kept (sb s) (view contents s) (inode_of s ip) V (inode_of s ip)"
  shows "fs_inv B k ip s1" "keeps ip s s1" "inode_of s1 ip = inode_of s ip" "sb s1 = sb s" "view contents s1 = V"
proof -
  have f: "sb s1 = sb s" "itable s1 = itable s" "cwd s1 = cwd s" using assms(2) fs_frame [of s1 s] by (simp_all add: steps_def)
  show "fs_inv B k ip s1" "keeps ip s s1" "inode_of s1 ip = inode_of s ip" "sb s1 = sb s" "view contents s1 = V"
    using assms f by (simp_all add: fs_inv_def keeps_def steps_def)
qed

lemma balloc_file:
  fixes s :: "('d, 'z) fs_scheme"
  assumes "good B s" "\<forall>b. refs s b \<le> 1" "file_ok B (Suc k) (view contents s) (sb s) p"
  obtains (full) s' where "frees (view contents s) (sb s) = []" "balloc D ROOTDEV s = Some (0, s')" "steps B s (view contents s) s'"
    | (new) f fs s' where "frees (view contents s) (sb s) = f # fs" "balloc D ROOTDEV s = Some (of_nat f, s')"
        "steps B s (after_alloc (view contents s) (sb s)) s'"
proof -
  have "map_ok (view contents s) (sb s)" "sb_bmapstart (sb s) \<in> B" "sb_size (sb s) \<noteq> 0"
    "frees (view contents s) (sb s) \<noteq> [] \<longrightarrow> of_nat (hd (frees (view contents s) (sb s))) \<in> B"
    using assms(3) by (auto simp: file_ok_def special_def take_Suc)
  from balloc_ok [OF assms(1) this(1,2) assms(2) this(3,4)] show ?thesis
    using full new by (cases "frees (view contents s) (sb s)") auto
qed

text \<open>The second half of \<open>bmap\<close>: an entry of the indirect block.\<close>

lemma bmap_entry:
  fixes s :: "('d, 'z) fs_scheme"
  assumes i: "fs_inv B (Suc k) ip s" and a: "i_addrs (inode_of s ip) ! NDIRECT \<noteq> 0" and n: "NDIRECT \<le> n" "n < MAXFILE"
  defines "j \<equiv> n - NDIRECT"
  shows "\<exists>r s'. do {
         (i, s) \<leftarrow> bread D ROOTDEV (i_addrs (inode_of s ip) ! NDIRECT) s;
         let a = get32 (data_of i s) (4 * j);
         if a = 0 then do {
           (addr, s) \<leftarrow> balloc D ROOTDEV s;
           s \<leftarrow> brelse i (if addr \<noteq> 0 then set_data i (put32 (4 * j) addr (data_of i s)) s else s);
           Some (addr, s) }
         else do {
           s \<leftarrow> brelse i s;
           Some (a, s) } } = Some (r, s') \<and> fs_inv B k ip s' \<and> keeps ip s s' \<and> same_file ip s s' \<and>
      (if r = 0 then space s = 0 else ptr (view contents s') (inode_of s' ip) n = r) \<and> space s \<le> space s' + 1 \<and>
      (ptr (view contents s) (inode_of s ip) n \<noteq> 0 \<longrightarrow> r = ptr (view contents s) (inode_of s ip) n \<and> steps B s (view contents s) s')"
proof -
  let ?V = "view contents s" and ?p = "inode_of s ip" and ?b = "sb s" and ?ind = "i_addrs (inode_of s ip) ! NDIRECT"
  have g: "good B s" and r0: "refs s = (\<lambda>_. 0)" and f: "file_ok B (Suc k) ?V ?b ?p" using i by (simp_all add: fs_inv_def)
  have o: "?ind \<in> owned ?V ?p" using a ptr_owned [of MAXFILE ?V ?p] by simp
  then have iB: "?ind \<in> B" using f by (auto simp: file_ok_def)
  have "refs s ?ind + 1 < 2 ^ 32" using r0 by simp
  from bread_ok [OF g iB this] obtain x s1 where s1: "bread D ROOTDEV ?ind s = Some (x, s1)" "good B s1" "holds s1 x ?ind"
    "contents (disk s1) = contents (disk s)" "refs s1 = (refs s)(?ind := refs s ?ind + 1)" "view contents s1 = ?V" "data_of x s1 = ?V ?ind"
    "bcache.more s1 = bcache.more s" "keeps_held s s1" by metis
  have e: "get32 (data_of x s1) (4 * j) = ptr ?V ?p n" using n a s1(7) by (simp add: ptr_def j_def)
  have f1: "sb s1 = ?b" "itable s1 = itable s" "cwd s1 = cwd s" using fs_frame [OF s1(8)] by simp_all
  have rel: "\<exists>s3. brelse x s2 = Some s3 \<and> steps B s W s3" if h: "good B s2" "holds s2 x ?ind" "refs s2 = refs s1" "view contents s2 = W"
    "bcache.more s2 = bcache.more s" "contents (disk s2) = contents (disk s)" for s2 W
  proof -
    obtain s3 where "brelse x s2 = Some s3" "good B s3" "disk s3 = disk s2" "refs s3 = (refs s2)(?ind := refs s2 ?ind - 1)"
      "view contents s3 = view contents s2" "bcache.more s3 = bcache.more s2" using brelse_ok [OF h(1,2)] by metis
    moreover have "keeps_held s s3" using r0 holds_refs [of s] by (fastforce simp: keeps_held_def)
    ultimately show ?thesis using h s1(5) r0 by (simp add: steps_def fun_eq_iff)
  qed
  show ?thesis
  proof (cases "ptr ?V ?p n = 0")
    case False
    obtain s2 where s2: "brelse x s1 = Some s2" "steps B s ?V s2" using rel [of s1 ?V] s1 by auto
    have "file_ok B k ?V ?b ?p" using f by (rule file_ok_less) simp
    note fs_inv_same [OF i s2(2) this kept_refl]
    then show ?thesis using s1(1) s2 e False by simp
  next
    case True
    have r1: "\<forall>b. refs s1 b \<le> 1" using s1(5) r0 by simp
    have f': "file_ok B (Suc k) (view contents s1) (sb s1) ?p" using f s1(6) f1 by simp
    from s1(2) r1 f' show ?thesis
    proof (cases rule: balloc_file)
      case (full s2)
      have st: "good B s2" "view contents s2 = ?V" "holds s2 x ?ind" "refs s2 = refs s1" "bcache.more s2 = bcache.more s1"
        "contents (disk s2) = contents (disk s1)" using full(3) s1(3,6) by (auto simp: steps_def keeps_held_def)
      obtain s3 where s3: "brelse x s2 = Some s3" "steps B s ?V s3" using rel [OF st(1,3,4,2)] st s1(4,8) by auto
      have "file_ok B k ?V ?b ?p" using f by (rule file_ok_less) simp
      note fs_inv_same [OF i s3(2) this kept_refl]
      then show ?thesis using s1(1,6) s3 e True full(1,2) f1(1) by simp
    next
      case (new fr frs s2)
      have fs: "frees ?V ?b = fr # frs" using new(1) s1(6) f1(1) by simp
      note al = alloc_facts [OF f fs]
      let ?y = "put32 (4 * j) (of_nat fr) (?V ?ind)"
      have V2: "view contents s2 = after_alloc ?V ?b" using new(3) s1(6) f1(1) by (simp add: steps_def)
      have st: "good B s2" "holds s2 x ?ind" "refs s2 = refs s1" "bcache.more s2 = bcache.more s1"
        "contents (disk s2) = contents (disk s1)" using new(3) s1(3) by (auto simp: steps_def keeps_held_def)
      have d2: "data_of x s2 = ?V ?ind" using data_of_held [OF st(1,2)] V2 al(5) [OF a] by simp
      note sd = set_data_ok [OF st(1,2), of ?y]
      let ?W = "(after_alloc ?V ?b)(?ind := ?y)"
      obtain s3 where s3: "brelse x (set_data x ?y s2) = Some s3" "steps B s ?W s3"
        using rel [of "set_data x ?y s2" ?W] sd st V2 s1(4,8) by auto
      have z: "ptr ?V ?p n = 0" by (rule True)
      note se = set_entry [OF f fs a n z, folded j_def]
      note q = fs_inv_same [OF i s3(2) se(1,2)]
      have fw: "frees ?W ?b = frs" using al(4,6) a frees_cong [of ?W ?b "after_alloc ?V ?b"] by simp
      have "space s \<le> space s3 + 1" using q(4,5) fs fw by simp
      moreover have "ptr (view contents s3) (inode_of s3 ip) n = of_nat fr" "same_file ip s s3" using q(3,5) se(3,4) by simp_all
      ultimately show ?thesis using s1(1) e True new(2) al(1) s3(1) d2 q(1,2) by simp
    qed
  qed
qed

text \<open>The result of \<open>bmap\<close> for pointer \<open>n\<close>, which takes at most \<open>j\<close> blocks.\<close>

definition mapped :: "u32 set \<Rightarrow> nat \<Rightarrow> nat \<Rightarrow> nat \<Rightarrow> nat \<Rightarrow> ('d, 'z) fs_scheme \<Rightarrow> u32 \<Rightarrow> ('d, 'z) fs_scheme \<Rightarrow> bool" where
  "mapped B j k ip n s r s' \<longleftrightarrow> fs_inv B k ip s' \<and> keeps ip s s' \<and> same_file ip s s' \<and>
      (if r = 0 then space s < j else ptr (view contents s') (inode_of s' ip) n = r) \<and> space s \<le> space s' + j \<and>
      (ptr (view contents s) (inode_of s ip) n \<noteq> 0 \<longrightarrow> r = ptr (view contents s) (inode_of s ip) n \<and> steps B s (view contents s) s')"

lemma bmap_direct:
  fixes s :: "('d, 'z) fs_scheme"
  assumes i: "fs_inv B (Suc k) ip s" and nd: "n < NDIRECT"
  shows "\<exists>r s'. bmap D ip n s = Some (r, s') \<and> mapped B 1 k ip n s r s'"
proof -
  let ?V = "view contents s" and ?p = "inode_of s ip" and ?b = "sb s"
  have g: "good B s" and r0: "\<forall>b. refs s b \<le> 1" and f: "file_ok B (Suc k) ?V ?b ?p" and dv: "i_dev ?p = ROOTDEV"
    using i by (simp_all add: fs_inv_def)
  have f0: "file_ok B k ?V ?b ?p" using f by (auto intro: file_ok_less)
  have pn: "ptr ?V ?p n = i_addrs ?p ! n" using nd by (simp add: ptr_def)
  show ?thesis
  proof (cases "i_addrs ?p ! n = 0")
    case False
    have "steps B s ?V s" using g by (simp add: steps_def)
    then show ?thesis using False nd pn fs_inv_less [OF i, of k] by (auto simp: bmap_def mapped_def)
  next
    case True
    from g r0 f show ?thesis
    proof (cases rule: balloc_file)
      case (full s1)
      show ?thesis using fs_inv_same [OF i full(3) f0 kept_refl] full nd dv True pn by (simp add: bmap_def mapped_def)
    next
      case (new fr fs s1)
      let ?p' = "?p\<lparr>i_addrs := (i_addrs ?p)[n := of_nat fr]\<rparr>"
      note a = alloc_facts [OF f new(1)]
      note sd = set_direct [OF f new(1) nd True]
      note q = fs_inv_step [OF i new(3) sd(1,2)]
      have "upd_inode ip (\<lambda>p. p\<lparr>i_addrs := (i_addrs p)[n := of_nat fr]\<rparr>) s1 = upd_inode ip (\<lambda>_. ?p') s1"
        using fs_frame [of s1 s] new(3) by (simp add: upd_inode_def steps_def)
      then have "bmap D ip n s = Some (of_nat fr, upd_inode ip (\<lambda>_. ?p') s1)"
        using nd True dv new(2) a(1) by (simp add: bmap_def)
      moreover have "mapped B 1 k ip n s (of_nat fr) (upd_inode ip (\<lambda>_. ?p') s1)"
        unfolding mapped_def q(3-5) using q(1,2) sd(3,4) a(1,4) new(1) True pn by simp
      ultimately show ?thesis by blast
    qed
  qed
qed

text \<open>The first half of \<open>bmap\<close> for the other pointers: the indirect block.\<close>

lemma bmap_indirect:
  fixes s :: "('d, 'z) fs_scheme"
  assumes i: "fs_inv B (Suc k) ip s"
  shows "\<exists>a s1. (if i_addrs (inode_of s ip) ! NDIRECT = 0 then do {
           (addr, s) \<leftarrow> balloc D ROOTDEV s;
           Some (addr, if addr = 0 then s else upd_inode ip (\<lambda>p. p\<lparr>i_addrs := (i_addrs p)[NDIRECT := addr]\<rparr>) s) }
         else Some (i_addrs (inode_of s ip) ! NDIRECT, s)) = Some (a, s1) \<and> fs_inv B k ip s1 \<and> keeps ip s s1 \<and> same_file ip s s1 \<and>
        a = i_addrs (inode_of s1 ip) ! NDIRECT \<and> (a = 0 \<longrightarrow> space s = 0) \<and> space s \<le> space s1 + 1 \<and>
        (i_addrs (inode_of s ip) ! NDIRECT \<noteq> 0 \<longrightarrow> s1 = s)"
proof (cases "i_addrs (inode_of s ip) ! NDIRECT = 0")
  case False
  then show ?thesis using fs_inv_less [OF i, of k] by simp
next
  case True
  let ?V = "view contents s" and ?p = "inode_of s ip" and ?b = "sb s"
  have g: "good B s" and r0: "\<forall>b. refs s b \<le> 1" and f: "file_ok B (Suc k) ?V ?b ?p" using i by (simp_all add: fs_inv_def)
  have f0: "file_ok B k ?V ?b ?p" using f by (auto intro: file_ok_less)
  from g r0 f show ?thesis
  proof (cases rule: balloc_file)
    case (full s1)
    show ?thesis using fs_inv_same [OF i full(3) f0 kept_refl] full True by simp
  next
    case (new fr fs s1)
    let ?p' = "?p\<lparr>i_addrs := (i_addrs ?p)[NDIRECT := of_nat fr]\<rparr>"
    let ?s' = "upd_inode ip (\<lambda>_. ?p') s1"
    note a = alloc_facts [OF f new(1)]
    note sd = set_indirect [OF f new(1) True]
    note q = fs_inv_step [OF i new(3) sd(1,2)]
    have u: "upd_inode ip (\<lambda>p. p\<lparr>i_addrs := (i_addrs p)[NDIRECT := of_nat fr]\<rparr>) s1 = ?s'"
      using fs_frame [of s1 s] new(3) by (simp add: upd_inode_def steps_def)
    have "of_nat fr = i_addrs (inode_of ?s' ip) ! NDIRECT" unfolding q(3) using f by (simp add: file_ok_def)
    moreover have "same_file ip s ?s'" "space s \<le> space ?s' + 1" unfolding q(3-5) using sd(3) a(4) new(1) by simp_all
    ultimately show ?thesis using q(1,2) True new(2) a(1) u
      by (intro exI [of _ "of_nat fr"] exI [of _ ?s']) (simp del: upd_inode_frame)
  qed
qed

lemma bmap_ok:
  fixes s :: "('d, 'z) fs_scheme"
  assumes i: "fs_inv B (Suc (Suc k)) ip s" and n: "n < MAXFILE"
  shows "\<exists>r s'. bmap D ip n s = Some (r, s') \<and> mapped B 2 k ip n s r s'"
proof (cases "n < NDIRECT")
  case True
  have "fs_inv B (Suc k) ip s" using i by (rule fs_inv_less) simp
  from bmap_direct [OF this True] obtain r s' where "bmap D ip n s = Some (r, s')" "mapped B 1 k ip n s r s'" by blast
  moreover from this(2) have "mapped B 2 k ip n s r s'" by (auto simp: mapped_def split: if_splits)
  ultimately show ?thesis by blast
next
  case False
  then have n': "NDIRECT \<le> n" "n - NDIRECT < NINDIRECT" using n by (simp_all add: MAXFILE_def)
  let ?V = "view contents s" and ?p = "inode_of s ip"
  have dv: "i_dev ?p = ROOTDEV" using i by (simp add: fs_inv_def)
  obtain a s1 where s1: "(if i_addrs ?p ! NDIRECT = 0 then do {
           (addr, s) \<leftarrow> balloc D ROOTDEV s;
           Some (addr, if addr = 0 then s else upd_inode ip (\<lambda>p. p\<lparr>i_addrs := (i_addrs p)[NDIRECT := addr]\<rparr>) s) }
         else Some (i_addrs ?p ! NDIRECT, s)) = Some (a, s1)" "fs_inv B (Suc k) ip s1" "keeps ip s s1" "same_file ip s s1"
    "a = i_addrs (inode_of s1 ip) ! NDIRECT" "a = 0 \<longrightarrow> space s = 0" "space s \<le> space s1 + 1" "i_addrs ?p ! NDIRECT \<noteq> 0 \<longrightarrow> s1 = s"
    using bmap_indirect [OF i] by blast
  have pz: "ptr ?V ?p n \<noteq> 0 \<longrightarrow> i_addrs ?p ! NDIRECT \<noteq> 0" using n' n by (auto simp: ptr_def)
  show ?thesis
  proof (cases "a = 0")
    case True
    then have "bmap D ip n s = Some (0, s1)" using s1(1) n' False dv by (simp add: bmap_def)
    moreover have "fs_inv B k ip s1" using s1(2) by (rule fs_inv_less) simp
    moreover have "ptr ?V ?p n = 0" using pz s1(5,8) True by auto
    ultimately show ?thesis using s1(3,4,6,7) True by (simp add: mapped_def)
  next
    case nz: False
    have nz1: "i_addrs (inode_of s1 ip) ! NDIRECT \<noteq> 0" using nz s1(5) by simp
    from bmap_entry [OF s1(2) nz1 n'(1) n] s1(1,5) n' False dv nz
    obtain r s2 where s2: "bmap D ip n s = Some (r, s2)" "fs_inv B k ip s2" "keeps ip s1 s2" "same_file ip s1 s2"
      "if r = 0 then space s1 = 0 else ptr (view contents s2) (inode_of s2 ip) n = r" "space s1 \<le> space s2 + 1"
      "ptr (view contents s1) (inode_of s1 ip) n \<noteq> 0 \<longrightarrow> r = ptr (view contents s1) (inode_of s1 ip) n \<and> steps B s1 (view contents s1) s2"
      by (auto simp: bmap_def)
    moreover have "keeps ip s s2" using s1(3) s2(3) by (rule keeps_trans)
    moreover have "same_file ip s s2" using s1(4) s2(4) by (rule same_bytes_trans)
    moreover have "if r = 0 then space s < 2 else ptr (view contents s2) (inode_of s2 ip) n = r" using s2(5) s1(7) by (auto split: if_splits)
    ultimately show ?thesis using s1(7,8) pz unfolding mapped_def by (intro exI [of _ r] exI [of _ s2]) auto
  qed
qed

end

end
