(* ===== verification/Xv6_Rw.thy ===== *)
theory Xv6_Rw
  imports Xv6_File
begin

unbundle bit_operations_syntax

section \<open>Reading and writing a file\<close>

text \<open>
  \<open>readi\<close> and \<open>writei\<close> against their specification on the list of the bytes of the file. Every byte below the
  size has a block (\<open>backed\<close>), which \<open>writei\<close> keeps because it never starts beyond the end.
\<close>

definition backed :: "(u32 \<Rightarrow> block) \<Rightarrow> inode \<Rightarrow> bool" where
  "backed V p \<longleftrightarrow> unat (i_size p) \<le> MAXFILE * BSIZE \<and> (\<forall>i < unat (i_size p). ptr V p (i div BSIZE) \<noteq> 0)"

definition file_bytes :: "(u32 \<Rightarrow> block) \<Rightarrow> inode \<Rightarrow> u8 list" where
  "file_bytes V p = map (byte_at V p) [0 ..< unat (i_size p)]"

declare readi_loop.simps [simp del] writei_loop.simps [simp del]

text \<open>The blocks that \<open>n\<close> bytes at an offset are in.\<close>

definition blocks :: "nat \<Rightarrow> nat \<Rightarrow> nat" where
  "blocks off n = (if n = 0 then 0 else (off mod BSIZE + n - 1) div BSIZE + 1)"

lemma blocks_step:
  fixes off n :: nat
  assumes "0 < n"
  defines "m \<equiv> min n (BSIZE - off mod BSIZE)"
  shows "blocks off n = Suc (blocks (off + m) (n - m))"
proof (cases "n \<le> BSIZE - off mod BSIZE")
  case True
  then have "off mod BSIZE + n - 1 < BSIZE" using assms(1) mod_less_divisor [of BSIZE off] by simp
  then show ?thesis using True assms by (simp add: blocks_def m_def)
next
  case False
  let ?r = "off mod BSIZE"
  have r: "?r < BSIZE" by simp
  then have m: "m = BSIZE - ?r" using False by (simp add: m_def)
  have "off + m = off div BSIZE * BSIZE + BSIZE" using m r div_mult_mod_eq [of off BSIZE] by linarith
  then have "(off + m) mod BSIZE = 0" by simp
  moreover have "?r + n - 1 = (n - m - 1) + BSIZE" using False m r by simp
  then have "(?r + n - 1) div BSIZE = Suc ((n - m - 1) div BSIZE)" using div_add_self2 [of BSIZE "n - m - 1"] by simp
  moreover have "m < n" using False m by simp
  ultimately show ?thesis by (simp add: blocks_def)
qed

lemma round_bound: "off mod BSIZE + length (take (min n (BSIZE - off mod BSIZE)) src) \<le> BSIZE"
proof -
  have "length (take (min n (BSIZE - off mod BSIZE)) src) \<le> BSIZE - off mod BSIZE" "off mod BSIZE < BSIZE" by auto
  then show ?thesis by linarith
qed

lemma take_drop_upt: "a \<le> z \<Longrightarrow> take n (drop a [0 ..< z]) = [a ..< a + min n (z - a)]"
  by (cases "n \<le> z - a") (simp_all add: drop_upt take_upt min_def)

lemma in_block:
  assumes "j < BSIZE - off mod BSIZE"
  shows "(off + j) div BSIZE = off div BSIZE" "(off + j) mod BSIZE = off mod BSIZE + j"
proof -
  have "off + j = off div BSIZE * BSIZE + (off mod BSIZE + j)" by simp
  moreover have "off mod BSIZE + j < BSIZE" using assms by simp
  ultimately show "(off + j) div BSIZE = off div BSIZE" "(off + j) mod BSIZE = off mod BSIZE + j"
    by (metis BSIZE_pos add.commute add_0 div_less div_mult_self3 less_not_refl, metis add.commute mod_less mod_mult_self1)
qed

lemma block_bytes:
  assumes "ptr V p (off div BSIZE) = a" "a \<noteq> 0" "m \<le> BSIZE - off mod BSIZE"
  shows "get_bytes (off mod BSIZE) m (V a) = map (byte_at V p) [off ..< off + m]"
proof (rule nth_equalityI)
  fix j assume "j < length (get_bytes (off mod BSIZE) m (V a))"
  then have j: "j < m" by simp
  then have "j < BSIZE - off mod BSIZE" using assms(3) by simp
  from in_block [OF this] show "get_bytes (off mod BSIZE) m (V a) ! j = map (byte_at V p) [off ..< off + m] ! j"
    using j assms by (simp add: get_bytes_def byte_at_def)
qed simp

context block_device
begin

subsection \<open>Reading\<close>

lemma readi_loop_ok:
  fixes s :: "('d, 'z) fs_scheme"
  assumes "fs_inv B 2 ip s" "off + n \<le> MAXFILE * BSIZE"
    "\<And>i. off \<le> i \<Longrightarrow> i < off + n \<Longrightarrow> ptr (view contents s) (inode_of s ip) (i div BSIZE) \<noteq> 0"
  shows "\<exists>s'. readi_loop D ip off n s = Some (map (byte_at (view contents s) (inode_of s ip)) [off ..< off + n], s') \<and>
    steps B s (view contents s) s'"
  using assms
proof (induction n arbitrary: off s rule: less_induct)
  case (less n)
  let ?V = "view contents s" and ?p = "inode_of s ip"
  have g: "good B s" and f: "file_ok B 2 ?V (sb s) ?p" and dv: "i_dev ?p = ROOTDEV" using less.prems(1) by (simp_all add: fs_inv_def)
  show ?case
  proof (cases "n = 0")
    case True
    moreover have "steps B s ?V s" using g by (simp add: steps_def)
    ultimately show ?thesis by (auto simp: readi_loop.simps [of D ip off 0])
  next
    case False
    let ?n = "off div BSIZE" and ?m = "min n (BSIZE - off mod BSIZE)"
    have m: "0 < ?m" using False by simp
    have n: "?n < MAXFILE" using less.prems(2) False by (intro div_BSIZE_less) simp
    have nz: "ptr ?V ?p ?n \<noteq> 0" using less.prems(3) [of off] False by simp
    have "fs_inv B (Suc (Suc 0)) ip s" using less.prems(1) by (simp add: numeral_2_eq_2)
    from bmap_ok [OF this n] nz obtain s1 where s1: "bmap D ip ?n s = Some (ptr ?V ?p ?n, s1)" "steps B s ?V s1"
      by (auto simp: mapped_def)
    note q1 = fs_inv_same [OF less.prems(1) s1(2) f kept_refl]
    have "ptr ?V ?p ?n \<in> B" using nz n ptr_owned [of ?n ?V ?p] f by (auto simp: file_ok_def)
    moreover have "good B s1" "refs s1 (ptr ?V ?p ?n) \<le> 1" using q1(1) by (simp_all add: fs_inv_def)
    ultimately obtain s2 where s2: "read_block D ROOTDEV (ptr ?V ?p ?n) s1 = Some (?V (ptr ?V ?p ?n), s2)" "steps B s1 ?V s2"
      using read_block_steps [of B s1 "ptr ?V ?p ?n"] q1(5) by metis
    have s02: "steps B s ?V s2" using s1(2) s2(2) by (rule steps_trans)
    note q2 = fs_inv_same [OF less.prems(1) s02 f kept_refl]
    have "\<exists>s'. readi_loop D ip (off + ?m) (n - ?m) s2 = Some (map (byte_at ?V ?p) [off + ?m ..< off + ?m + (n - ?m)], s') \<and> steps B s2 ?V s'"
      using less.IH [of "n - ?m" s2 "off + ?m"] m False less.prems(2,3) q2(1,3,5) by (simp add: add.assoc)
    then obtain s3 where s3: "readi_loop D ip (off + ?m) (n - ?m) s2 = Some (map (byte_at ?V ?p) [off + ?m ..< off + n], s3)" "steps B s2 ?V s3"
      by auto
    have "get_bytes (off mod BSIZE) ?m (?V (ptr ?V ?p ?n)) @ map (byte_at ?V ?p) [off + ?m ..< off + n] = map (byte_at ?V ?p) [off ..< off + n]"
      using block_bytes [OF refl nz, of ?m] upt_add_eq_append [of off "off + ?m" "n - ?m"] by (simp flip: map_append)
    then have "readi_loop D ip off n s = Some (map (byte_at ?V ?p) [off ..< off + n], s3)"
      using False s1(1) s2(1) s3(1) nz dv q1(3) by (subst readi_loop.simps) (simp add: Let_def)
    then show ?thesis using steps_trans [OF s02 s3(2)] by blast
  qed
qed

lemma readi_ok:
  fixes s :: "('d, 'z) fs_scheme"
  assumes "fs_inv B 2 ip s" "backed (view contents s) (inode_of s ip)" "off + n \<ge> off"
  shows "\<exists>s'. readi D ip off n s = Some (take (unat n) (drop (unat off) (file_bytes (view contents s) (inode_of s ip))), s') \<and>
    steps B s (view contents s) s'"
proof (cases "off > i_size (inode_of s ip)")
  case True
  then have "steps B s (view contents s) s" "unat (i_size (inode_of s ip)) \<le> unat off"
    using assms(1) by (simp_all add: steps_def fs_inv_def word_less_nat_alt)
  then show ?thesis using True by (simp add: readi_def file_bytes_def)
next
  case False
  let ?sz = "i_size (inode_of s ip)" and ?k = "unat (if off + n > i_size (inode_of s ip) then i_size (inode_of s ip) - off else n)"
  have on: "unat (off + n) = unat off + unat n" using assms(3) by (simp add: unat_plus_simple)
  have o: "off \<le> ?sz" using False by simp
  have k: "?k = min (unat n) (unat ?sz - unat off)"
    using on o by (auto simp: unat_sub word_less_nat_alt word_le_nat_alt min_def)
  have le: "unat off + ?k \<le> unat ?sz" using k o by (simp add: word_le_nat_alt)
  then have "unat off + ?k \<le> MAXFILE * BSIZE" "\<And>i. i < unat off + ?k \<Longrightarrow> ptr (view contents s) (inode_of s ip) (i div BSIZE) \<noteq> 0"
    using assms(2) unfolding backed_def by auto
  with readi_loop_ok [OF assms(1)] obtain s' where "readi_loop D ip (unat off) ?k s =
      Some (map (byte_at (view contents s) (inode_of s ip)) [unat off ..< unat off + ?k], s')" "steps B s (view contents s) s'" by blast
  moreover have "[unat off ..< unat off + ?k] = take (unat n) (drop (unat off) [0 ..< unat ?sz])"
    unfolding k by (rule take_drop_upt [symmetric]) (use o in \<open>simp add: word_le_nat_alt\<close>)
  moreover have "readi D ip off n s = readi_loop D ip (unat off) ?k s" 
    using o assms(3) unfolding readi_def Let_def by (metis leD)
  ultimately show ?thesis unfolding file_bytes_def drop_map take_map by simp
qed

end

subsection \<open>Writing\<close>

text \<open>A change of one block of the file.\<close>

lemma write_block_ok:
  assumes f: "file_ok B k V b p" and n: "off div BSIZE < MAXFILE" and a: "a = ptr V p (off div BSIZE)" "a \<noteq> 0"
    and l: "off mod BSIZE + length xs \<le> BSIZE"
  defines "V' \<equiv> V(a := put_bytes (off mod BSIZE) xs (V a))"
  shows "ptr V' p m = ptr V p m" "file_ok B k V' b p" "kept b V p V' p" "frees V' b = frees V b"
    "i < MAXFILE * BSIZE \<Longrightarrow> byte_at V' p i = (if off \<le> i \<and> i < off + length xs then xs ! (i - off) else byte_at V p i)"
proof -
  let ?n = "off div BSIZE"
  have inj: "inj_on (ptr V p) {n. n \<le> MAXFILE \<and> ptr V p n \<noteq> 0}" using f by (simp add: file_ok_def)
  have o: "a \<in> owned V p" using n a by (auto intro: ptr_owned)
  have ne: "ptr V p m \<noteq> a" if "m \<le> MAXFILE" "m \<noteq> ?n" for m
    using inj_onD [OF inj, of m ?n] that n a by auto
  have "a \<noteq> i_addrs p ! NDIRECT" using ne [of MAXFILE] n by auto
  then show pt: "ptr V' p m = ptr V p m" for m by (intro ptr_cong) (simp add: V'_def)
  have "a \<noteq> sb_bmapstart b" using o f by (auto simp: file_ok_def special_def)
  then show fr: "frees V' b = frees V b" by (intro frees_cong) (simp add: V'_def)
  have pt': "ptr V' p = ptr V p" using pt by blast
  then have ow: "owned V' p = owned V p" by (simp add: owned_def)
  show "file_ok B k V' b p" using f by (simp add: file_ok_def map_ok_def fr ow pt')
  have "V' x = V x" if "x \<notin> touch V b p" for x using that o by (auto simp: V'_def touch_def)
  moreover have "touch V' b p = touch V b p" by (simp add: touch_def fr ow)
  ultimately show "kept b V p V' p" by (simp add: kept_def pt')
  assume i: "i < MAXFILE * BSIZE"
  have e: "byte_at V' p i = (let x = ptr V p (i div BSIZE) in if x = 0 then 0 else V' x (i mod BSIZE))"
    by (simp only: byte_at_def pt')
  let ?j = "i div BSIZE"
  have j: "?j < MAXFILE" using i by (rule div_BSIZE_less)
  have at: "?j = ?n \<and> i mod BSIZE = off mod BSIZE + (i - off)" if "off \<le> i" "i < off + length xs"
    using in_block [of "i - off" off] that l by simp
  show "byte_at V' p i = (if off \<le> i \<and> i < off + length xs then xs ! (i - off) else byte_at V p i)"
  proof (cases "?j = ?n")
    case True
    have "i = ?n * BSIZE + i mod BSIZE" "off = ?n * BSIZE + off mod BSIZE" using True by (metis div_mult_mod_eq)+
    then have "off mod BSIZE \<le> i mod BSIZE \<and> i mod BSIZE < off mod BSIZE + length xs \<longleftrightarrow> off \<le> i \<and> i < off + length xs"
      "i mod BSIZE - off mod BSIZE = i - off" by linarith+
    then show ?thesis using True a unfolding e by (simp add: byte_at_def V'_def put_bytes_def Let_def)
  next
    case False
    then have "ptr V p ?j \<noteq> a" using ne [of ?j] j by simp
    then show ?thesis using False at unfolding e by (auto simp: byte_at_def V'_def Let_def)
  qed
qed

context block_device
begin

definition written :: "u32 set \<Rightarrow> nat \<Rightarrow> nat \<Rightarrow> nat \<Rightarrow> u8 list \<Rightarrow> ('d, 'z) fs_scheme \<Rightarrow> nat \<Rightarrow> ('d, 'z) fs_scheme \<Rightarrow> bool" where
  "written B k ip off src s t s' \<longleftrightarrow> t \<le> length src \<and> (2 * blocks off (length src) \<le> space s \<longrightarrow> t = length src) \<and> fs_inv B k ip s' \<and>
     keeps ip s s' \<and> (\<forall>i < MAXFILE * BSIZE. byte_at (view contents s') (inode_of s' ip) i =
       (if off \<le> i \<and> i < off + t then src ! (i - off) else byte_at (view contents s) (inode_of s ip) i)) \<and>
     (\<forall>i. off \<le> i \<and> i < off + t \<longrightarrow> ptr (view contents s') (inode_of s' ip) (i div BSIZE) \<noteq> 0)"

text \<open>One round of the loop after a block was found.\<close>

lemma written_step:
  fixes s s1 s2 s3 :: "('d, 'z) fs_scheme"
  assumes s1: "mapped B 2 j ip (off div BSIZE) s a s1" "a \<noteq> 0" and l: "off + length src \<le> MAXFILE * BSIZE" "src \<noteq> []"
    and m: "m = min (length src) (BSIZE - off mod BSIZE)"
    and s2: "steps B s1 ((view contents s1)(a := put_bytes (off mod BSIZE) (take m src) (view contents s1 a))) s2"
    and s3: "fs_inv B j ip s2 \<Longrightarrow> written B k ip (off + m) (drop m src) s2 t s3"
  shows "written B k ip off src s (m + t) s3"
proof -
  let ?n = "off div BSIZE" and ?V1 = "view contents s1" and ?p1 = "inode_of s1 ip"
  have i1: "fs_inv B j ip s1" "keeps ip s s1" "same_file ip s s1" "ptr ?V1 ?p1 ?n = a" "space s \<le> space s1 + 2"
    using s1 by (auto simp: mapped_def)
  have f1: "file_ok B j ?V1 (sb s1) ?p1" using i1(1) by (simp add: fs_inv_def)
  have ml: "m \<le> length src" "off mod BSIZE + length (take m src) \<le> BSIZE" "0 < m"
    using round_bound [of off "length src" src] l(2) by (simp_all add: m)
  have n: "?n < MAXFILE" using l by (intro div_BSIZE_less) (cases src; simp)
  note w = write_block_ok [OF f1 n i1(4) [symmetric] s1(2) ml(2)]
  note q = fs_inv_same [OF i1(1) s2 w(2,3)]
  have b3: "written B k ip (off + m) (drop m src) s2 t s3" using s3 q(1) by blast
  have sp: "space s2 = space s1" using w(4) q(4,5) by simp
  have bl: "blocks off (length src) = Suc (blocks (off + m) (length src - m))" using blocks_step [of "length src" off] l(2) m by simp
  have t: "t \<le> length src - m" using b3 by (simp add: written_def)
  have "m + t = length src" if "2 * blocks off (length src) \<le> space s"
    using that bl sp i1(5) b3 ml(1) by (simp add: written_def)
  moreover have "keeps ip s s3" using i1(2) q(2) b3 by (auto simp: written_def intro: keeps_trans)
  moreover have "byte_at (view contents s3) (inode_of s3 ip) i =
      (if off \<le> i \<and> i < off + (m + t) then src ! (i - off) else byte_at (view contents s) (inode_of s ip) i)" if i: "i < MAXFILE * BSIZE" for i
  proof -
    have "byte_at (view contents s3) (inode_of s3 ip) i = (if off + m \<le> i \<and> i < off + m + t then drop m src ! (i - (off + m))
        else byte_at (view contents s2) (inode_of s2 ip) i)" using b3 i unfolding written_def by blast
    moreover have "byte_at (view contents s2) (inode_of s2 ip) i = (if off \<le> i \<and> i < off + m then src ! (i - off)
        else byte_at (view contents s) (inode_of s ip) i)" using w(5) [OF i] q(3,5) ml(1) i1(3) i by (auto simp: same_bytes_def)
    ultimately show ?thesis using ml t by auto
  qed
  moreover have "ptr (view contents s3) (inode_of s3 ip) (i div BSIZE) \<noteq> 0" if i: "off \<le> i" "i < off + (m + t)" for i
  proof (cases "i < off + m")
    case True
    then have "i div BSIZE = ?n" using in_block(1) [of "i - off" off] i(1) m by simp
    moreover have "ptr (view contents s2) (inode_of s2 ip) ?n \<noteq> 0" using w(1) q(3,5) i1(4) s1(2) by simp
    then have "ptr (view contents s3) (inode_of s3 ip) ?n \<noteq> 0" using b3 n by (simp add: written_def keeps_def kept_def)
    ultimately show ?thesis by simp
  qed (use b3 i in \<open>simp add: written_def\<close>)
  ultimately show ?thesis using b3 t ml(1) unfolding written_def by simp
qed

lemma writei_loop_ok:
  fixes s :: "('d, 'z) fs_scheme"
  assumes "fs_inv B (2 * blocks off (length src) + k) ip s" "off + length src \<le> MAXFILE * BSIZE"
  shows "\<exists>t s'. writei_loop D ip off src s = Some (t, s') \<and> written B k ip off src s t s'"
  using assms
proof (induction src arbitrary: off s rule: length_induct)
  case (1 src)
  let ?n = "off div BSIZE" and ?m = "min (length src) (BSIZE - off mod BSIZE)"
  show ?case
  proof (cases "src = []")
    case True
    then show ?thesis using 1(2) by (auto simp: writei_loop.simps [of D ip off "[]"] written_def blocks_def)
  next
    case False
    let ?j = "2 * blocks (off + ?m) (length src - ?m) + k"
    have bl: "blocks off (length src) = Suc (blocks (off + ?m) (length src - ?m))" using blocks_step [of "length src" off] False by simp
    have m: "0 < ?m" using False by simp
    have n: "?n < MAXFILE" using 1(3) False by (intro div_BSIZE_less) (cases src; simp)
    have "fs_inv B (Suc (Suc ?j)) ip s" using 1(2) bl by simp
    from bmap_ok [OF this n] obtain a s1 where s1: "bmap D ip ?n s = Some (a, s1)" "mapped B 2 ?j ip ?n s a s1" by blast
    show ?thesis
    proof (cases "a = 0")
      case True
      then have "writei_loop D ip off src s = Some (0, s1)" using False s1(1) by (subst writei_loop.simps) simp
      moreover have "written B k ip off src s 0 s1"
        using s1(2) True bl fs_inv_less [of B ?j ip s1 k] by (auto simp: written_def mapped_def same_bytes_def)
      ultimately show ?thesis by blast
    next
      case nz: False
      let ?f = "\<lambda>y. ((), put_bytes (off mod BSIZE) (take ?m src) y)"
      have i1: "fs_inv B ?j ip s1" "ptr (view contents s1) (inode_of s1 ip) ?n = a" using s1(2) nz by (simp_all add: mapped_def)
      have "a \<in> owned (view contents s1) (inode_of s1 ip)" using i1(2) nz n ptr_owned [of ?n] by auto
      then have "good B s1" "a \<in> B" "refs s1 a \<le> 1" and dv: "i_dev (inode_of s1 ip) = ROOTDEV"
        using i1(1) by (auto simp: fs_inv_def file_ok_def)
      from with_block_steps [OF this(1-3), of ?f] obtain s2 where s2: "with_block D ROOTDEV a ?f s1 = Some ((), s2)"
        "steps B s1 ((view contents s1)(a := put_bytes (off mod BSIZE) (take ?m src) (view contents s1 a))) s2" by auto
      have IH: "fs_inv B ?j ip s2 \<longrightarrow> (\<exists>t s3. writei_loop D ip (off + ?m) (drop ?m src) s2 = Some (t, s3) \<and> written B k ip (off + ?m) (drop ?m src) s2 t s3)"
        using 1(1) [rule_format, of "drop ?m src" "off + ?m" s2] 1(3) m False by simp
      have w: "writei_loop D ip off src s = Some (?m + t, s3)" if "writei_loop D ip (off + ?m) (drop ?m src) s2 = Some (t, s3)" for t s3
        using that False s1(1) s2(1) nz dv by (subst writei_loop.simps) (simp add: Let_def)
      have "file_ok B ?j (view contents s1) (sb s1) (inode_of s1 ip)" using i1(1) by (simp add: fs_inv_def)
      note wb = write_block_ok [OF this n i1(2) [symmetric] nz round_bound]
      have "fs_inv B ?j ip s2" by (rule fs_inv_same(1) [OF i1(1) s2(2) wb(2,3)])
      then obtain t s3 where t: "writei_loop D ip (off + ?m) (drop ?m src) s2 = Some (t, s3)" "written B k ip (off + ?m) (drop ?m src) s2 t s3"
        using IH by blast
      have "written B k ip off src s (?m + t) s3" by (rule written_step [OF s1(2) nz 1(3) False refl s2(2) t(2)])
      then show ?thesis using w [OF t(1)] by blast
    qed
  qed
qed

end

end
