(* ===== verification/Xv6_Contents.thy ===== *)
theory Xv6_Contents
  imports Xv6_Rw
begin

unbundle bit_operations_syntax

section \<open>Allocation, inodes and files of the file system\<close>

text \<open>
  The statements about the file system over the block server: the allocator, the inode on disk, and
  \<open>readi\<close> and \<open>writei\<close> on the bytes of a file. The blocks an operation uses are in a set \<open>B\<close> of at most \<open>NBUF\<close>
  blocks, so that none is pushed out of the cache during the operation.
\<close>

subsection \<open>Inodes on disk\<close>

lemma get16_put16_other: "off + 2 \<le> off' \<or> off' + 2 \<le> off \<Longrightarrow> get16 (put16 off v y) off' = get16 y off'"
  by (auto simp: get16_def put16_def)

lemma get16_put32_other: "off + 4 \<le> off' \<or> off' + 2 \<le> off \<Longrightarrow> get16 (put32 off v y) off' = get16 y off'"
  by (auto simp: get16_def put32_def)

lemma get32_put16_other: "off + 2 \<le> off' \<or> off' + 4 \<le> off \<Longrightarrow> get32 (put16 off v y) off' = get32 y off'"
  by (auto simp: get32_def put16_def)

lemma put_addrs_other: "i < off \<Longrightarrow> put_addrs off as y i = y i"
  by (induction off as y rule: put_addrs.induct) (auto simp: put32_def)

lemma get32_put_addrs: "j < length as \<Longrightarrow> get32 (put_addrs off as y) (off + 4 * j) = as ! j"
proof (induction as arbitrary: off y j)
  case (Cons a as)
  have "get32 (put_addrs (off + 4) as (put32 off a y)) off = get32 (put32 off a y) off"
    by (simp add: get32_def put_addrs_other)
  moreover have "get32 (put_addrs (off + 4) as z) (off + 4 * Suc i) = as ! i" if "i < length as" for i z
    using Cons.IH [OF that, of "off + 4" z] by (simp add: add.assoc)
  ultimately show ?case using Cons.prems by (cases j) auto
qed simp

lemma get_addrs_put_addrs:
  assumes "length as = NDIRECT + 1"
  shows "get_addrs (put_addrs (off + 12) as y) off = as"
  using assms by (intro nth_equalityI) (auto simp: get_addrs_def get32_put_addrs simp del: upt_Suc)

lemma get_put_addrs_below:
  "off' + 2 \<le> off \<Longrightarrow> get16 (put_addrs off as y) off' = get16 y off'"
  "off' + 4 \<le> off \<Longrightarrow> get32 (put_addrs off as y) off' = get32 y off'"
  by (simp_all add: get16_def get32_def put_addrs_other)

lemma get_put_dinode:
  assumes "length (i_addrs p) = NDIRECT + 1"
  shows "get_dinode off (put_dinode off p y) q = q\<lparr>i_type := i_type p, i_major := i_major p, i_minor := i_minor p,
    i_nlink := i_nlink p, i_size := i_size p, i_addrs := i_addrs p\<rparr>"
  using assms by (simp add: get_dinode_def put_dinode_def get_addrs_put_addrs get_put_addrs_below
      get16_put16_other get16_put32_other get32_put16_other)

lemma put_dinode_self: "length (i_addrs p) = NDIRECT + 1 \<Longrightarrow> get_dinode off (put_dinode off p y) p = p"
  by (simp add: get_put_dinode)

text \<open>The inode in its block does not matter for the contents of the file.\<close>

lemma inode_block_ok:
  fixes y :: block
  assumes f: "file_ok B k V b p" and q: "i_addrs q = i_addrs p" "i_inum q = i_inum p"
  defines "V' \<equiv> V(IBLOCK (i_inum p) b := y)"
  shows "ptr V' q m = ptr V p m" "i < MAXFILE * BSIZE \<Longrightarrow> byte_at V' q i = byte_at V p i" "file_ok B k V' b q" "frees V' b = frees V b" "touch V' b q = touch V b p"
proof -
  have n: "IBLOCK (i_inum p) b \<notin> owned V p" "IBLOCK (i_inum p) b \<noteq> sb_bmapstart b" using f by (auto simp: file_ok_def special_def)
  show pt: "ptr V' q m = ptr V p m" for m
    using n(1) ptr_owned [of MAXFILE V p] q(1) by (auto simp: ptr_def V'_def)
  then have pt': "ptr V' q = ptr V p" by blast
  have "V' (ptr V p (i div BSIZE)) = V (ptr V p (i div BSIZE))" if "ptr V p (i div BSIZE) \<noteq> 0" "i < MAXFILE * BSIZE"
    using n(1) ptr_owned [of "i div BSIZE" V p] that div_BSIZE_less [of i] by (auto simp: V'_def)
  then show "i < MAXFILE * BSIZE \<Longrightarrow> byte_at V' q i = byte_at V p i" by (simp add: byte_at_def pt' Let_def)
  show fr: "frees V' b = frees V b" using n(2) by (intro frees_cong) (simp add: V'_def)
  have ow: "owned V' q = owned V p" "special b q = special b p" by (simp_all add: owned_def pt' special_def q(2))
  show "file_ok B k V' b q" using f by (simp add: file_ok_def map_ok_def fr ow pt' q)
  show "touch V' b q = touch V b p" by (simp add: touch_def fr ow)
qed

subsection \<open>Writing\<close>

lemma splice_bytes:
  assumes "off \<le> unat (i_size p)" "t \<le> length src" "unat (i_size q) = max (off + t) (unat (i_size p))"
    "\<And>i. i < unat (i_size q) \<Longrightarrow> byte_at W q i = (if off \<le> i \<and> i < off + t then src ! (i - off) else byte_at V p i)"
  shows "file_bytes W q = take off (file_bytes V p) @ take t src @ drop (off + t) (file_bytes V p)"
proof (rule nth_equalityI)
  show "length (file_bytes W q) = length (take off (file_bytes V p) @ take t src @ drop (off + t) (file_bytes V p))"
    using assms(1-3) by (simp add: file_bytes_def)
  fix i assume "i < length (file_bytes W q)"
  then have i: "i < unat (i_size q)" by (simp add: file_bytes_def)
  then show "file_bytes W q ! i = (take off (file_bytes V p) @ take t src @ drop (off + t) (file_bytes V p)) ! i"
    using assms(1-3) assms(4) [OF i] by (auto simp: file_bytes_def nth_append min_def max_def split: if_splits)
qed

context block_device
begin

definition wrote :: "u32 set \<Rightarrow> nat \<Rightarrow> nat \<Rightarrow> ('d, 'z) fs_scheme \<Rightarrow> ('d, 'z) fs_scheme \<Rightarrow> bool" where
  "wrote B k ip s s' \<longleftrightarrow> fs_inv B k ip s' \<and> backed (view contents s') (inode_of s' ip) \<and>
     get_dinode (dinode_off (i_inum (inode_of s ip))) (view contents s' (IBLOCK (i_inum (inode_of s ip)) (sb s))) (inode_of s' ip) = inode_of s' ip \<and>
     (\<forall>x. x \<notin> touch (view contents s) (sb s) (inode_of s ip) \<longrightarrow> view contents s' x = view contents s x) \<and>
     itable s' = (itable s)[ip := inode_of s' ip] \<and> sb s' = sb s \<and> contents (disk s') = contents (disk s) \<and>
     inode_of s' ip = (inode_of s ip)\<lparr>i_addrs := i_addrs (inode_of s' ip), i_size := i_size (inode_of s' ip)\<rparr>"

text \<open>The end of \<open>writei\<close>: the size, and the inode on disk.\<close>

lemma writei_end:
  fixes s1 :: "('d, 'z) fs_scheme"
  assumes i: "fs_inv B k ip s1" and q: "q = (inode_of s1 ip)\<lparr>i_size := z\<rparr>"
  obtains s3 where "iupdate D ip (upd_inode ip (\<lambda>_. q) s1) = Some s3" "fs_inv B k ip s3" "inode_of s3 ip = q"
    "view contents s3 = (view contents s1)(IBLOCK (i_inum q) (sb s1) := put_dinode (dinode_off (i_inum q)) q (view contents s1 (IBLOCK (i_inum q) (sb s1))))"
    "sb s3 = sb s1" "itable s3 = (itable s1)[ip := q]" "contents (disk s3) = contents (disk s1)"
proof -
  let ?s2 = "upd_inode ip (\<lambda>_. q) s1" and ?b = "IBLOCK (i_inum q) (sb s1)"
  let ?y = "put_dinode (dinode_off (i_inum q)) q (view contents s1 ?b)"
  have ip: "ip < length (itable s1)" and g: "good B s1" "refs s1 = (\<lambda>_. 0)" and dv: "i_dev (inode_of s1 ip) = ROOTDEV"
    and f: "file_ok B k (view contents s1) (sb s1) (inode_of s1 ip)" using i by (simp_all add: fs_inv_def)
  have q': "inode_of ?s2 ip = q" "i_addrs q = i_addrs (inode_of s1 ip)" "i_inum q = i_inum (inode_of s1 ip)" "i_dev q = ROOTDEV"
    using ip dv by (simp_all add: q)
  have "?b \<in> B" using f q'(3) by (auto simp: file_ok_def special_def)
  with g obtain s3 where s3: "with_block D ROOTDEV ?b (\<lambda>y. ((), put_dinode (dinode_off (i_inum q)) q y)) ?s2 = Some ((), s3)"
    "steps B ?s2 ((view contents s1)(?b := ?y)) s3"
    using with_block_steps [of B ?s2 ?b "\<lambda>y. ((), put_dinode (dinode_off (i_inum q)) q y)"] by auto
  have fr: "sb s3 = sb s1" "itable s3 = (itable s1)[ip := q]" using s3(2) fs_frame [of s3 ?s2] by (simp_all add: steps_def)
  have "iupdate D ip ?s2 = Some s3" using s3(1) q'(1,4) by (simp add: iupdate_def Let_def del: upd_inode_frame(5))
  moreover have "fs_inv B k ip s3"
    using inode_block_ok(3) [OF f q'(2,3), of ?y] s3(2) fr g ip q'(3,4) by (simp add: fs_inv_def steps_def)
  ultimately show ?thesis using that fr s3(2) ip by (simp add: steps_def)
qed

lemma writei_ok:
  fixes s :: "('d, 'z) fs_scheme"
  assumes i: "fs_inv B (2 * blocks (unat off) (length src) + k) ip s" and bk: "backed (view contents s) (inode_of s ip)"
    and o: "off \<le> i_size (inode_of s ip)" and l: "unat off + length src \<le> MAXFILE * BSIZE"
  shows "\<exists>t s'. writei D ip off src s = Some (int t, s') \<and> t \<le> length src \<and>
    (2 * blocks (unat off) (length src) \<le> space s \<longrightarrow> t = length src) \<and>
    file_bytes (view contents s') (inode_of s' ip) = take (unat off) (file_bytes (view contents s) (inode_of s ip)) @ take t src @
      drop (unat off + t) (file_bytes (view contents s) (inode_of s ip)) \<and> wrote B k ip s s'"
proof -
  let ?V = "view contents s" and ?p = "inode_of s ip" and ?o = "unat off"
  obtain t s1 where t: "writei_loop D ip ?o src s = Some (t, s1)" "written B k ip ?o src s t s1" using writei_loop_ok [OF i l] by blast
  let ?V1 = "view contents s1" and ?p1 = "inode_of s1 ip"
  have w: "t \<le> length src" "fs_inv B k ip s1" "keeps ip s s1" "\<And>i. i < MAXFILE * BSIZE \<Longrightarrow> byte_at ?V1 ?p1 i =
      (if ?o \<le> i \<and> i < ?o + t then src ! (i - ?o) else byte_at ?V ?p i)"
    "\<And>i. ?o \<le> i \<Longrightarrow> i < ?o + t \<Longrightarrow> ptr ?V1 ?p1 (i div BSIZE) \<noteq> 0" using t(2) by (simp_all add: written_def)
  have kp: "?p1 = ?p\<lparr>i_addrs := i_addrs ?p1\<rparr>" "\<And>m. m < MAXFILE \<Longrightarrow> ptr ?V ?p m \<noteq> 0 \<Longrightarrow> ptr ?V1 ?p1 m = ptr ?V ?p m"
    "\<And>x. x \<notin> touch ?V (sb s) ?p \<Longrightarrow> ?V1 x = ?V x" "sb s1 = sb s" "itable s1 = (itable s)[ip := ?p1]" "contents (disk s1) = contents (disk s)"
    using w(3) by (simp_all add: keeps_def kept_def)
  have p1: "i_size ?p1 = i_size ?p" "i_inum ?p1 = i_inum ?p" by (subst kp(1), simp)+
  have sz: "unat (off + of_nat n) = ?o + n" if "n \<le> length src" for n
    using that l by (simp add: unat_word_ariths unat_of_nat_small layout_defs)
  define z where "z = max (off + of_nat t) (i_size ?p)"
  have z: "unat z = max (?o + t) (unat (i_size ?p))" using sz [OF w(1)] by (auto simp: z_def max_def word_le_nat_alt)
  define q where "q = ?p1\<lparr>i_size := z\<rparr>"
  obtain s3 where s3: "iupdate D ip (upd_inode ip (\<lambda>_. q) s1) = Some s3" "fs_inv B k ip s3" "inode_of s3 ip = q"
    "view contents s3 = ?V1(IBLOCK (i_inum q) (sb s1) := put_dinode (dinode_off (i_inum q)) q (?V1 (IBLOCK (i_inum q) (sb s1))))"
    "sb s3 = sb s1" "itable s3 = (itable s1)[ip := q]" "contents (disk s3) = contents (disk s1)" using writei_end [OF w(2) q_def] by blast
  have q: "i_addrs q = i_addrs ?p1" "i_inum q = i_inum ?p1" "i_size q = z" by (simp_all add: q_def)
  have f1: "file_ok B k ?V1 (sb s1) ?p1" using w(2) by (simp add: fs_inv_def)
  note ib = inode_block_ok [OF f1 q(1,2), where y = "put_dinode (dinode_off (i_inum q)) q (?V1 (IBLOCK (i_inum q) (sb s1)))", folded q(2), folded s3(4)]
  have "writei D ip off src s = Some (int t, s3)"
  proof -
    have c: "off + of_nat (length src) \<ge> off" "off + of_nat (length src) \<le> of_nat (MAXFILE * BSIZE)"
      using sz [of "length src"] l by (simp_all add: word_le_nat_alt unat_of_nat_small layout_defs)
    have e: "?p1\<lparr>i_size := i_size ?p\<rparr> = ?p1" unfolding p1(1) [symmetric] by simp
    have u: "(if off + of_nat t > i_size ?p1 then upd_inode ip (\<lambda>p. p\<lparr>i_size := off + of_nat t\<rparr>) s1 else s1) = upd_inode ip (\<lambda>_. q) s1"
      unfolding p1 q_def z_def by (auto simp: upd_inode_def max_def not_less e)
    show ?thesis using t(1) s3(1) u c o by (simp add: writei_def Let_def leD)
  qed
  moreover have "file_bytes (view contents s3) (inode_of s3 ip) = take ?o (file_bytes ?V ?p) @ take t src @ drop (?o + t) (file_bytes ?V ?p)"
    unfolding s3(3)
  proof (rule splice_bytes)
    show "?o \<le> unat (i_size ?p)" using o by (simp add: word_le_nat_alt)
    show "unat (i_size q) = max (?o + t) (unat (i_size ?p))" using z q(3) by simp
    fix i assume "i < unat (i_size q)"
    then have "i < MAXFILE * BSIZE" using z q(3) bk l w(1) by (auto simp: backed_def)
    then show "byte_at (view contents s3) q i = (if ?o \<le> i \<and> i < ?o + t then src ! (i - ?o) else byte_at ?V ?p i)"
      using ib(2) w(4) by simp
  qed (rule w(1))
  moreover have "wrote B k ip s s3"
  proof -
    have "ptr (view contents s3) q (i div BSIZE) \<noteq> 0" if "i < unat z" for i
    proof (cases "?o \<le> i \<and> i < ?o + t")
      case False
      then have "i < unat (i_size ?p)" using that z o by (auto simp: word_le_nat_alt)
      then have "ptr ?V ?p (i div BSIZE) \<noteq> 0" "i div BSIZE < MAXFILE" using bk div_BSIZE_less [of i] by (auto simp: backed_def)
      then show ?thesis using kp(2) ib(1) by simp
    qed (use w(5) ib(1) in simp)
    then have "backed (view contents s3) q" using z q(3) bk l w(1) by (auto simp: backed_def)
    moreover have "length (i_addrs q) = NDIRECT + 1" using f1 q(1) by (simp add: file_ok_def)
    then have "get_dinode (dinode_off (i_inum ?p)) (view contents s3 (IBLOCK (i_inum ?p) (sb s))) q = q"
      using s3(4) p1(2) q(2) kp(4) put_dinode_self [of q] by simp
    moreover have "view contents s3 x = ?V x" if "x \<notin> touch ?V (sb s) ?p" for x
      using that kp(3) [OF that] s3(4) p1(2) q(2) kp(4) by (auto simp: touch_def special_def)
    moreover have "itable s3 = (itable s)[ip := q]" using s3(6) kp(5) by (metis list_update_overwrite)
    moreover have "q = ?p\<lparr>i_addrs := i_addrs q, i_size := i_size q\<rparr>" unfolding q_def by (subst kp(1)) simp
    ultimately show ?thesis using s3(2,3,5,7) kp(4,6) by (simp add: wrote_def)
  qed
  ultimately show ?thesis using t(2) by (auto simp: written_def)
qed

end

subsection \<open>Freeing a block\<close>

lemma unmark_mark: "bit_clear y f \<Longrightarrow> unmark_bit f (mark_bit f y) = y"
proof -
  assume c: "bit_clear y f"
  have "(y (f div 8) OR push_bit (f mod 8) 1) AND NOT (push_bit (f mod 8) 1) = y (f div 8)"
    using c by (intro bit_word_eqI) (auto simp: bit_simps bit_clear_iff)
  then show ?thesis by (auto simp: unmark_bit_def mark_bit_def)
qed

context block_device
begin

lemma bfree_ok:
  fixes s :: "('d, 'z) fs_scheme"
  assumes g: "good B s" and bm: "sb_bmapstart (sb s) \<in> B" "unat a < BPB" and r: "refs s = (\<lambda>_. 0)"
  defines "y \<equiv> view contents s (sb_bmapstart (sb s))"
  shows "bit_clear y (unat a) \<Longrightarrow> bfree D ROOTDEV a s = None"
    "\<not> bit_clear y (unat a) \<Longrightarrow> \<exists>s'. bfree D ROOTDEV a s = Some s' \<and> steps B s ((view contents s)(sb_bmapstart (sb s) := unmark_bit (unat a) y)) s'"
proof -
  let ?b = "sb_bmapstart (sb s)"
  have bb: "BBLOCK a (sb s) = ?b" "unat a mod BPB = unat a" using bm(2) by (simp_all add: BBLOCK_first)
  have "refs s ?b + 1 < 2 ^ 32" using r by simp
  from bread_ok [OF g bm(1) this] obtain i s1 where s1: "bread D ROOTDEV ?b s = Some (i, s1)" "good B s1" "holds s1 i ?b"
    "contents (disk s1) = contents (disk s)" "refs s1 = (refs s)(?b := refs s ?b + 1)" "view contents s1 = view contents s" "data_of i s1 = y"
    "bcache.more s1 = bcache.more s" "keeps_held s s1" unfolding y_def by metis
  show "bit_clear y (unat a) \<Longrightarrow> bfree D ROOTDEV a s = None" using s1(1,7) bb by (simp add: bfree_def)
  assume nc: "\<not> bit_clear y (unat a)"
  let ?y = "unmark_bit (unat a) y"
  note d = set_data_ok [OF s1(2,3), of ?y]
  obtain s2 where s2: "brelse i (set_data i ?y s1) = Some s2" "good B s2" "disk s2 = disk (set_data i ?y s1)"
    "refs s2 = (refs (set_data i ?y s1))(?b := refs (set_data i ?y s1) ?b - 1)"
    "view contents s2 = view contents (set_data i ?y s1)" "bcache.more s2 = bcache.more (set_data i ?y s1)" using brelse_ok d by metis
  have "bfree D ROOTDEV a s = Some s2" using s1(1,7) s2(1) bb nc by (simp add: bfree_def)
  moreover have "keeps_held s s2" using r holds_refs [of s] by (fastforce simp: keeps_held_def)
  then have "steps B s ((view contents s)(?b := ?y)) s2" using s1 s2 d r by (simp add: steps_def fun_eq_iff)
  ultimately show "\<exists>s'. bfree D ROOTDEV a s = Some s' \<and> steps B s ((view contents s)(?b := ?y)) s'" by blast
qed

lemma balloc_bfree_ok:
  fixes s :: "('d, 'z) fs_scheme"
  assumes g: "good B s" and m: "map_ok (view contents s) (sb s)" and bm: "sb_bmapstart (sb s) \<in> B" and r: "refs s = (\<lambda>_. 0)"
    and sz: "sb_size (sb s) \<noteq> 0" and fs: "frees (view contents s) (sb s) = f # fs" and f: "of_nat f \<in> B"
  shows "\<exists>s1 s2. balloc D ROOTDEV s = Some (of_nat f, s1) \<and> bfree D ROOTDEV (of_nat f) s1 = Some s2 \<and>
    view contents s2 = (view contents s)(of_nat f := zero_bytes 0 BSIZE (view contents s (of_nat f))) \<and> bfree D ROOTDEV (of_nat f) s2 = None"
proof -
  let ?V = "view contents s" and ?b = "sb_bmapstart (sb s)" and ?a = "of_nat f :: u32"
  have fm: "f < 2 ^ 32" "?a \<noteq> ?b" using frees_small [OF m, of f] fs by auto
  have u: "unat ?a = f" using fm(1) by (simp add: unat_of_nat_small)
  have "f \<in> set (frees ?V (sb s))" using fs by simp
  then have fb: "f < BPB" "bit_clear (?V ?b) f" using m frees_less [of f ?V "sb s"] by (auto simp: frees_def map_ok_def)
  obtain s1 where s1: "balloc D ROOTDEV s = Some (?a, s1)" "steps B s (after_alloc ?V (sb s)) s1"
    using balloc_ok [OF g m bm _ sz] r fs f by auto
  have V1: "view contents s1 = (?V(?b := mark_bit f (?V ?b)))(?a := zero_bytes 0 BSIZE (?V ?a))" and g1: "good B s1" "refs s1 = (\<lambda>_. 0)"
    and b1: "sb s1 = sb s" using s1(2) fs fm(2) r fs_frame [of s1 s] by (simp_all add: steps_def after_alloc_def)
  have "\<not> bit_clear (view contents s1 ?b) (unat ?a)" using V1 fm(2) u by (simp add: bit_clear_mark)
  then obtain s2 where s2: "bfree D ROOTDEV ?a s1 = Some s2" "steps B s1 ((view contents s1)(?b := unmark_bit f (view contents s1 ?b))) s2"
    using bfree_ok(2) [OF g1(1), of ?a] bm fb(1) u b1 g1(2) by auto
  have V2: "view contents s2 = ?V(?a := zero_bytes 0 BSIZE (?V ?a))" using s2(2) V1 fm(2) unmark_mark [OF fb(2)]
    by (auto simp: steps_def fun_eq_iff)
  have g2: "good B s2" "refs s2 = (\<lambda>_. 0)" and b2: "sb s2 = sb s" using s2(2) g1(2) b1 fs_frame [of s2 s1] by (simp_all add: steps_def)
  have "bfree D ROOTDEV ?a s2 = None" using bfree_ok(1) [OF g2(1), of ?a] bm b2 fb u g2(2) V2 fm(2) by simp
  then show ?thesis using s1(1) s2(1) V2 by blast
qed

text \<open>The inode that \<open>iupdate\<close> writes is the one \<open>ilock\<close> reads.\<close>

lemma iupdate_ilock_ok:
  fixes s :: "('d, 'z) fs_scheme"
  assumes i: "fs_inv B k ip s" and p: "i_ref (inode_of s ip) \<ge> 1" "i_type (inode_of s ip) \<noteq> 0"
    and q: "i_dev q = i_dev (inode_of s ip)" "i_inum q = i_inum (inode_of s ip)" "i_ref q = i_ref (inode_of s ip)"
      "i_ctime q = i_ctime (inode_of s ip)" "i_atime q = i_atime (inode_of s ip)" "i_mtime q = i_mtime (inode_of s ip)" "\<not> i_valid q"
  shows "\<exists>s1 s2. iupdate D ip s = Some s1 \<and> ilock D ip (upd_inode ip (\<lambda>_. q) s1) = Some s2 \<and>
    inode_of s2 ip = (inode_of s ip)\<lparr>i_valid := True\<rparr>"
proof -
  let ?p = "inode_of s ip"
  obtain s1 where s1: "iupdate D ip (upd_inode ip (\<lambda>_. ?p) s) = Some s1" "fs_inv B k ip s1" "inode_of s1 ip = ?p"
    "view contents s1 = (view contents s)(IBLOCK (i_inum ?p) (sb s) := put_dinode (dinode_off (i_inum ?p)) ?p (view contents s (IBLOCK (i_inum ?p) (sb s))))"
    "sb s1 = sb s" "itable s1 = (itable s)[ip := ?p]" by (rule writei_end [OF i, of ?p "i_size ?p"]) auto
  have u: "upd_inode ip (\<lambda>_. ?p) s = s" by (simp add: upd_inode_def)
  have f: "file_ok B k (view contents s1) (sb s1) ?p" "ip < length (itable s1)" and g: "good B s1" "refs s1 = (\<lambda>_. 0)" "i_dev ?p = ROOTDEV"
    using s1(2,3) by (simp_all add: fs_inv_def)
  have B: "IBLOCK (i_inum ?p) (sb s) \<in> B" using f(1) s1(5) by (auto simp: file_ok_def special_def)
  let ?s = "upd_inode ip (\<lambda>_. q) s1"
  have "good B ?s" "refs ?s (IBLOCK (i_inum ?p) (sb s)) \<le> 1" using g by simp_all
  then obtain s2 where s2: "read_block D ROOTDEV (IBLOCK (i_inum ?p) (sb s)) ?s = Some (view contents s1 (IBLOCK (i_inum ?p) (sb s)), s2)"
    "steps B ?s (view contents s1) s2" using read_block_steps [of B ?s] B by (metis upd_inode_frame(7))
  have it: "itable s2 = itable ?s" using s2(2) fs_frame [of s2 ?s] by (simp add: steps_def)
  let ?q = "(get_dinode (dinode_off (i_inum ?p)) (view contents s1 (IBLOCK (i_inum ?p) (sb s))) q)\<lparr>i_valid := True\<rparr>"
  have e: "?q = ?p\<lparr>i_valid := True\<rparr>" using f(1) q s1(4) get_put_dinode [of ?p _ _ q]
    by (simp add: file_ok_def)
  have "i_type ?q \<noteq> 0" unfolding e using p(2) by simp
  moreover have "inode_of ?s ip = q" using f(2) by simp
  ultimately have "ilock D ip ?s = Some (upd_inode ip (\<lambda>_. ?q) s2)"
    using s2(1) q p(1) g(3) s1(5) by (simp add: ilock_def Let_def del: upd_inode_frame(5))
  moreover have "inode_of (upd_inode ip (\<lambda>_. ?q) s2) ip = ?q" using it f(2) by simp
  ultimately show ?thesis using s1(1) u e by auto
qed

end

end
