(* ===== verification/Xv6_Use.thy ===== *)
theory Xv6_Use
  imports Xv6_Contents
begin

section \<open>The file system over the block server\<close>

text \<open>
  The statements of the file system with the block server as its disk, and a small file system on which they
  are tried: 16 blocks, of which 8 to 15 are free, with one file of three bytes.
\<close>

abbreviation disk_view :: "('w fs_disk, 'z) fs_scheme \<Rightarrow> u32 \<Rightarrow> block" where
  "disk_view s \<equiv> view ram_contents s"

text \<open>
  The bound of the cache. The file system never writes a buffer back, so a modified block survives only as long as no buffer is
  recycled (\<open>bget\<close> of bio.c); what happens beyond it is the last property of \<open>Cache_Use\<close>. The properties
  here are about the states below the bound: \<open>B\<close> is a set of at most \<open>NBUF\<close> blocks that has every block in the cache and every
  block the operation works on.
\<close>

definition fits_cache :: "u32 set \<Rightarrow> ('w fs_disk, 'z) fs_scheme \<Rightarrow> bool" where
  "fits_cache B s \<longleftrightarrow> finite B \<and> card B \<le> NBUF \<and> (\<forall>x \<in> set (bufs s). used x \<longrightarrow> buf_blockno x \<in> B)"

lemma fits_cacheI: "cache_inv B s \<Longrightarrow> fits_cache B s"
  by (auto simp: fits_cache_def bufs_inv_def)

text \<open>Between operations: the blocks in use fit in the cache, no buffer is held, and the bitmap is in order.\<close>

definition fs_state :: "u32 set \<Rightarrow> ('w fs_disk, 'z) fs_scheme \<Rightarrow> bool" where
  "fs_state B s \<longleftrightarrow> fits_cache B s \<and> cache_inv B s \<and> ram_inv (disk s) \<and> (\<forall>b \<in> B. unat b < FS_SIZE) \<and> refs s = (\<lambda>_. 0) \<and>
     map_ok (disk_view s) (sb s) \<and> sb_bmapstart (sb s) \<in> B \<and> sb_size (sb s) \<noteq> 0"

text \<open>A file in the cache: its inode block, its blocks and the next \<open>k\<close> free blocks are in \<open>B\<close> (\<open>file_ok\<close>).\<close>

definition file_state :: "u32 set \<Rightarrow> nat \<Rightarrow> nat \<Rightarrow> ('w fs_disk, 'z) fs_scheme \<Rightarrow> bool" where
  "file_state B k ip s \<longleftrightarrow> fs_state B s \<and> ip < length (itable s) \<and> i_dev (inode_of s ip) = ROOTDEV \<and>
     file_ok B k (disk_view s) (sb s) (inode_of s ip)"

lemma file_state_iff: "file_state B k ip s = ram.fs_inv B k ip s"
  using fits_cacheI [of B s] by (auto simp: file_state_def fs_state_def ram.fs_inv_def ram.good_def file_ok_def special_def)

text \<open>
  C25: as long as the blocks in the cache, the bitmap block and the block to allocate are at most \<open>NBUF\<close> blocks, \<open>balloc\<close>
  returns the lowest free block, filled with zeros. In the bitmap this block is no longer free and all others are as
  before; no block but the bitmap block and the allocated block changes, and neither does the table of inodes. It returns 0 if no block is free, and then
  no block changes.
\<close>

theorem balloc_lowest_free:
  assumes "fs_state B s" and "frees (disk_view s) (sb s) \<noteq> [] \<Longrightarrow> of_nat (hd (frees (disk_view s) (sb s))) \<in> B"
  shows "\<exists>s'. balloc (ram_ops E) ROOTDEV s = Some (case frees (disk_view s) (sb s) of [] \<Rightarrow> 0 | f # _ \<Rightarrow> of_nat f, s') \<and>
    (frees (disk_view s) (sb s) = [] \<longrightarrow> disk_view s' = disk_view s) \<and>
    frees (disk_view s') (sb s) = tl (frees (disk_view s) (sb s)) \<and> fs_state B s' \<and> sb s' = sb s \<and> itable s' = itable s \<and>
    (\<forall>b. b \<noteq> sb_bmapstart (sb s) \<longrightarrow> disk_view s' b =
       (if b \<in> of_nat ` set (take 1 (frees (disk_view s) (sb s))) then zero_bytes 0 BSIZE (disk_view s b) else disk_view s b))"
proof -
  let ?V = "disk_view s" and ?fs = "frees (disk_view s) (sb s)"
  have g: "ram.good B s" "map_ok ?V (sb s)" "sb_bmapstart (sb s) \<in> B" "\<forall>b. refs s b \<le> 1" "sb_size (sb s) \<noteq> 0"
    and r: "refs s = (\<lambda>_. 0)" using assms(1) by (simp_all add: fs_state_def ram.good_def)
  obtain s' where s': "balloc (ram_ops E) ROOTDEV s = Some (case ?fs of [] \<Rightarrow> 0 | f # _ \<Rightarrow> of_nat f, s')"
    "ram.steps B s (if ?fs = [] then ?V else after_alloc ?V (sb s)) s'" using ram.balloc_ok [OF g, of E] assms(2) by auto
  have fr: "sb s' = sb s" "itable s' = itable s" using s'(2) fs_frame [of s' s] by (simp_all add: ram.steps_def)
  have V': "disk_view s' = (if ?fs = [] then ?V else after_alloc ?V (sb s))" using s'(2) by (simp add: ram.steps_def)
  have st: "ram.good B s'" "refs s' = (\<lambda>_. 0)" using s'(2) r by (simp_all add: ram.steps_def)
  have m: "frees (disk_view s') (sb s) = tl ?fs" "map_ok (disk_view s') (sb s)"
    unfolding V' using g(2) frees_after_alloc [OF g(2)] by auto
  have v: "disk_view s' b = (if b \<in> of_nat ` set (take 1 ?fs) then zero_bytes 0 BSIZE (?V b) else ?V b)" if "b \<noteq> sb_bmapstart (sb s)" for b
    unfolding V' using that by (cases ?fs) (auto simp: after_alloc_def)
  have "fs_state B s'" using st m(2) fr g(3,5) fits_cacheI [of B s'] by (simp add: fs_state_def ram.good_def)
  moreover have "?fs = [] \<longrightarrow> disk_view s' = ?V" using V' by simp
  ultimately show ?thesis using s'(1) m(1) fr v by blast
qed

text \<open>
  A block that is allocated and freed leaves the bitmap as it was; only its contents are zero. To free
  it once more is a panic.
\<close>

theorem balloc_bfree_roundtrip:
  assumes "fs_state B s" and "frees (disk_view s) (sb s) = f # fs" and "of_nat f \<in> B"
  shows "\<exists>s1 s2. balloc (ram_ops E) ROOTDEV s = Some (of_nat f, s1) \<and> bfree (ram_ops E) ROOTDEV (of_nat f) s1 = Some s2 \<and>
    disk_view s2 = (disk_view s)(of_nat f := zero_bytes 0 BSIZE (disk_view s (of_nat f))) \<and>
    bfree (ram_ops E) ROOTDEV (of_nat f) s2 = None"
  using ram.balloc_bfree_ok [OF _ _ _ _ _ assms(2,3), of E] assms(1) by (simp add: fs_state_def ram.good_def)

text \<open>
  C19: as long as the blocks in the cache and the blocks of the file (with the next two free ones) are at most \<open>NBUF\<close> blocks, and
  the end \<open>off + n\<close> of the range does not overflow, \<open>readi\<close> returns the bytes of the file from the offset on, at most
  as many as asked for, and changes no block and no inode.
\<close>

theorem readi_refines:
  assumes "file_state B 2 ip s" and "backed (disk_view s) (inode_of s ip)" and "off + n \<ge> off"
  shows "\<exists>s'. readi (ram_ops E) ip off n s = Some (take (unat n) (drop (unat off) (file_bytes (disk_view s) (inode_of s ip))), s') \<and>
    disk_view s' = disk_view s \<and> itable s' = itable s \<and> sb s' = sb s \<and> refs s' = refs s"
proof -
  have "ram.fs_inv B 2 ip s" using assms(1) by (simp add: file_state_iff)
  from ram.readi_ok [OF this assms(2,3), of E] obtain s' where
    "readi (ram_ops E) ip off n s = Some (take (unat n) (drop (unat off) (file_bytes (disk_view s) (inode_of s ip))), s')"
    "ram.steps B s (disk_view s) s'" by blast
  then show ?thesis using fs_frame [of s' s] by (auto simp: ram.steps_def)
qed

text \<open>
  C3: as long as the blocks in the cache, the blocks of the file and the next free blocks that the bytes may need are at most
  \<open>NBUF\<close> blocks, \<open>writei\<close> at an offset inside the file or at its end, and below the largest file size, replaces the bytes of the file at the
  offset by the first \<open>t\<close> bytes it is given, extending the file at its end, and returns \<open>t\<close>, which is all of them if there are
  twice as many free blocks as the bytes need (each may need one for itself and one for the indirect block). The
  invariant holds again and the inode on disk is the one in the table. No other entry of the table of inodes in memory changes, and no
  block of the disk but the block of the inode, the bitmap block, the blocks of the file and the free blocks.
\<close>

theorem writei_refines:
  assumes "file_state B (2 * blocks (unat off) (length src) + k) ip s" and "backed (disk_view s) (inode_of s ip)"
    and "off \<le> i_size (inode_of s ip)" and "unat off + length src \<le> MAXFILE * BSIZE"
  shows "\<exists>t s'. writei (ram_ops E) ip off src s = Some (int t, s') \<and> t \<le> length src \<and>
    (2 * blocks (unat off) (length src) \<le> length (frees (disk_view s) (sb s)) \<longrightarrow> t = length src) \<and>
    file_bytes (disk_view s') (inode_of s' ip) = take (unat off) (file_bytes (disk_view s) (inode_of s ip)) @ take t src @
      drop (unat off + t) (file_bytes (disk_view s) (inode_of s ip)) \<and>
    file_state B k ip s' \<and> backed (disk_view s') (inode_of s' ip) \<and>
    get_dinode (dinode_off (i_inum (inode_of s ip))) (disk_view s' (IBLOCK (i_inum (inode_of s ip)) (sb s))) (inode_of s' ip) = inode_of s' ip \<and>
    itable s' = (itable s)[ip := inode_of s' ip] \<and>
    (\<forall>x. x \<notin> touch (disk_view s) (sb s) (inode_of s ip) \<longrightarrow> disk_view s' x = disk_view s x)"
  using ram.writei_ok [OF assms(1) [unfolded file_state_iff] assms(2-4), of E] unfolding ram.wrote_def file_state_iff by blast

text \<open>
  The inode that \<open>iupdate\<close> writes is the one \<open>ilock\<close> reads into the entry when it is used anew.
\<close>

theorem iupdate_ilock_roundtrip:
  assumes "file_state B k ip s" and "i_ref (inode_of s ip) \<ge> 1" and "i_type (inode_of s ip) \<noteq> 0"
    and "i_dev q = i_dev (inode_of s ip)" and "i_inum q = i_inum (inode_of s ip)" and "i_ref q = i_ref (inode_of s ip)"
    and "i_ctime q = i_ctime (inode_of s ip)" and "i_atime q = i_atime (inode_of s ip)" and "i_mtime q = i_mtime (inode_of s ip)" and "\<not> i_valid q"
  shows "\<exists>s1 s2. iupdate (ram_ops E) ip s = Some s1 \<and> ilock (ram_ops E) ip (upd_inode ip (\<lambda>_. q) s1) = Some s2 \<and>
    inode_of s2 ip = (inode_of s ip)\<lparr>i_valid := True\<rparr>"
  using ram.iupdate_ilock_ok [OF assms(1) [unfolded file_state_iff] assms(2-)] .

subsection \<open>Witnesses\<close>

definition example_fs_disk :: "unit fs_disk" where
  "example_fs_disk = example_disk\<lparr>ram := (ram example_disk)\<lparr>rd_mem := (\<lambda>x. if x = 0x10005000 then 0xFF
     else if x = 0x10007000 then 10 else if x = 0x10007001 then 20 else if x = 0x10007002 then 30 else 0)\<rparr>\<rparr>"

definition example_inode :: inode where
  "example_inode = \<lparr>i_dev = ROOTDEV, i_inum = 1, i_ref = 1, i_valid = True, i_type = T_FILE, i_major = 0, i_minor = 0, i_nlink = 1,
     i_size = 3, i_ctime = 0, i_atime = 0, i_mtime = 0, i_addrs = 7 # replicate NDIRECT 0\<rparr>"

definition example_fs :: "unit fs_disk fs" where
  "example_fs = binit \<lparr>bufs = [], disk = example_fs_disk,
     sb = \<lparr>sb_magic = FSMAGIC, sb_size = 16, sb_nblocks = 8, sb_ninodes = 64, sb_nlog = 0, sb_logstart = 2, sb_inodestart = 2, sb_bmapstart = 5\<rparr>,
     itable = [example_inode], cwd = None\<rparr>"

definition example_blocks :: "u32 set" where
  "example_blocks = {2, 5, 7, 8, 9, 10, 11, 12, 13, 14, 15}"

lemma example_fs_sels [simp]:
  "sb_size (sb example_fs) = 16" "sb_inodestart (sb example_fs) = 2" "sb_bmapstart (sb example_fs) = 5" "itable example_fs = [example_inode]"
  "disk example_fs = example_fs_disk"
  by (simp_all add: example_fs_def binit_def)

lemma example_contents:
  assumes "b < 512" "i < 4096"
  shows "ram_contents example_fs_disk (of_nat b) i = rd_mem (ram example_fs_disk) (0x10000000 + of_nat (b * 4096 + i))"
proof -
  have c: "conns example_fs_disk ! b = the (gpi_new_badge 10 0 2 7 (of_nat b))" "length (conns example_fs_disk) = 512"
    using assms(1) by (simp_all add: example_fs_disk_def example_disk_def)
  have u: "unat (of_nat b :: u32) = b" using assms(1) by (simp add: unat_of_nat_small)
  have "ucast (of_nat b * RAMDISK_BLOCK_SIZE :: u32) = (of_nat (b * 4096) :: u64)"
    using assms(1) by (simp add: RAMDISK_BLOCK_SIZE_val word_unat_eq_iff unsigned_ucast_eq unat_word_ariths unat_of_nat_small take_bit_nat_eq_self)
  then show ?thesis using assms c u example_conn(1) [OF assms(1)]
    by (simp add: ram_contents_def BSIZE_def example_fs_disk_def example_disk_def disk_with_def)
qed

lemma example_view [simp]: "disk_view example_fs b = ram_contents example_fs_disk b"
  by (simp add: example_fs_def)

lemma example_bytes:
  "ram_contents example_fs_disk 5 0 = 0xFF" "ram_contents example_fs_disk 5 (Suc 0) = 0"
  "ram_contents example_fs_disk 7 0 = 10" "ram_contents example_fs_disk 7 (Suc 0) = 20" "ram_contents example_fs_disk 7 2 = 30"
  using example_contents [of 5 0] example_contents [of 5 1] example_contents [of 7 0] example_contents [of 7 1] example_contents [of 7 2]
  by (simp_all add: example_fs_disk_def)

lemma example_frees: "frees (disk_view example_fs) (sb example_fs) = [8, 9, 10, 11, 12, 13, 14, 15]"
proof -
  have "[0 ..< 16] = [0, 1, 2, 3, 4, 5, 6, 7, 8, 9, 10, 11, 12, 13, 14, 15 :: nat]" by code_simp
  then show ?thesis by (simp add: frees_def bit_clear_def example_bytes)
qed

lemma example_fs_state: "fs_state example_blocks example_fs"
proof -
  have "cache_inv example_blocks example_fs" unfolding example_fs_def by (rule binit_inv) (simp_all add: example_blocks_def NBUF_val)
  moreover have "ram_inv example_fs_disk" using example_disk_inv by (simp add: example_fs_disk_def)
  moreover have "refs example_fs = (\<lambda>_. 0)" by (simp add: example_fs_def fun_eq_iff)
  moreover have "\<forall>b \<in> example_blocks. unat b < FS_SIZE" by (simp add: example_blocks_def FS_SIZE_val)
  moreover have "map_ok (disk_view example_fs) (sb example_fs)" by (simp add: map_ok_def example_frees layout_defs)
  ultimately show ?thesis using fits_cacheI by (simp add: fs_state_def example_blocks_def)
qed

lemma example_ptr: "n \<le> MAXFILE \<Longrightarrow> ptr V example_inode n = (if n = 0 then 7 else 0)"
  by (simp add: ptr_def example_inode_def nth_Cons' NDIRECT_def MAXFILE_def)

lemma example_file_state: "file_state example_blocks 8 0 example_fs"
proof -
  have o: "owned V example_inode = {7}" for V by (auto simp: owned_def example_ptr image_iff)
  have sp: "special (sb example_fs) example_inode = {5, 2}" by (simp add: special_def example_inode_def IBLOCK_def layout_defs)
  have "inj_on (ptr V example_inode) {n. n \<le> MAXFILE \<and> ptr V example_inode n \<noteq> 0}" for V
    by (auto simp: inj_on_def example_ptr)
  moreover have "length (i_addrs example_inode) = NDIRECT + 1" "i_dev example_inode = ROOTDEV" by (simp_all add: example_inode_def)
  moreover have "sb_bmapstart (sb example_fs) \<noteq> IBLOCK (i_inum example_inode) (sb example_fs)"
    by (simp add: example_inode_def IBLOCK_def layout_defs)
  ultimately show ?thesis using example_fs_state
    by (simp add: file_state_def file_ok_def fs_state_def o sp example_frees example_blocks_def)
qed

lemma example_backed: "backed (disk_view example_fs) example_inode"
proof -
  have "unat (i_size example_inode) = 3" by (simp add: example_inode_def)
  then show ?thesis by (auto simp: backed_def example_ptr BSIZE_def MAXFILE_def NDIRECT_def)
qed

lemma example_file_bytes: "file_bytes (disk_view example_fs) example_inode = [10, 20, 30]"
proof -
  have "[0 ..< 3] = [0, 1, 2 :: nat]" by code_simp
  moreover have "unat (i_size example_inode) = 3" by (simp add: example_inode_def)
  ultimately show ?thesis by (simp add: file_bytes_def byte_at_def example_ptr example_bytes BSIZE_def)
qed

theorem balloc_lowest_free_witness: "\<exists>s'. balloc (ram_ops lowest_malloc) ROOTDEV example_fs = Some (8, s')"
  using balloc_lowest_free [OF example_fs_state, of lowest_malloc] by (auto simp: example_frees example_blocks_def)

theorem balloc_bfree_roundtrip_witness:
  "\<exists>s1 s2. balloc (ram_ops lowest_malloc) ROOTDEV example_fs = Some (8, s1) \<and> bfree (ram_ops lowest_malloc) ROOTDEV 8 s1 = Some s2 \<and>
    bfree (ram_ops lowest_malloc) ROOTDEV 8 s2 = None"
  using balloc_bfree_roundtrip [OF example_fs_state example_frees, of lowest_malloc] by (auto simp: example_blocks_def)

theorem readi_refines_witness:
  "\<exists>s'. readi (ram_ops lowest_malloc) 0 1 5 example_fs = Some ([20, 30], s')"
proof -
  have "file_state example_blocks 2 0 example_fs"
    using example_file_state ram.fs_inv_less [of example_blocks 8 0 example_fs 2] by (simp add: file_state_iff)
  from readi_refines [OF this, of 1 5 lowest_malloc] example_backed show ?thesis by (auto simp: example_file_bytes)
qed

theorem writei_refines_witness:
  "\<exists>s'. writei (ram_ops lowest_malloc) 0 2 [1, 2] example_fs = Some (2, s') \<and> file_bytes (disk_view s') (inode_of s' 0) = [10, 20, 1, 2]"
proof -
  have "blocks (unat (2 :: u32)) (length [1, 2 :: u8]) = 1" by (simp add: blocks_def BSIZE_def)
  moreover have "backed (disk_view example_fs) (inode_of example_fs 0)" using example_backed by simp
  ultimately show ?thesis using writei_refines [of example_blocks 2 "[1, 2]" 6 0 example_fs lowest_malloc] example_file_state
    by (auto simp: example_file_bytes example_frees) (auto simp: example_inode_def layout_defs)
qed

theorem iupdate_ilock_roundtrip_witness:
  "\<exists>s1 s2. iupdate (ram_ops lowest_malloc) 0 example_fs = Some s1 \<and>
    ilock (ram_ops lowest_malloc) 0 (upd_inode 0 (\<lambda>_. example_inode\<lparr>i_valid := False, i_type := 0, i_size := 99, i_addrs := []\<rparr>) s1) = Some s2 \<and>
    inode_of s2 0 = example_inode"
  using iupdate_ilock_roundtrip [OF example_file_state, of "example_inode\<lparr>i_valid := False, i_type := 0, i_size := 99, i_addrs := []\<rparr>" lowest_malloc]
  by (simp add: example_inode_def T_FILE_def)

end
