(* ===== verification/Xv6_Boot.thy ===== *)
theory Xv6_Boot
  imports Xv6_Mkfs Xv6_Use
begin

unbundle bit_operations_syntax

section \<open>From an empty disk to a mounted file system\<close>

text \<open>
  What \<open>init_disk_file\<close> writes is a file system: \<open>fsinit\<close> accepts it, the bitmap is in order, and the root
  directory satisfies the invariant of files and has the two entries of an empty directory. So the states the other
  statements speak about are reached.
\<close>

subsection \<open>Blocks as the disk stores them\<close>

lemma get_whole_block:
  "off + 1 < BSIZE \<Longrightarrow> get16 (whole_block y) off = get16 y off"
  "off + 3 < BSIZE \<Longrightarrow> get32 (whole_block y) off = get32 y off"
  by (simp_all add: get16_def get32_def whole_block_def)

lemma put_addrs_above: "off + 4 * length as \<le> i \<Longrightarrow> put_addrs off as y i = y i"
  by (induction off as y rule: put_addrs.induct) (auto simp: put32_def)

lemma read_write_dinode:
  assumes "length (d_addrs p) = NDIRECT + 1" "off + DINODE_SIZE \<le> BSIZE"
  shows "read_dinode off (whole_block (write_dinode off p y)) = p"
proof -
  have "get_addrs (whole_block (write_dinode off p y)) off = get_addrs (write_dinode off p y) off"
    using assms(2) by (auto simp: get_addrs_def get_whole_block DINODE_SIZE_def simp del: upt_Suc)
  also have "\<dots> = d_addrs p" using assms(1) by (simp add: write_dinode_def get_addrs_put_addrs)
  finally show ?thesis using assms(2)
    by (simp add: read_dinode_def DINODE_SIZE_def get_whole_block) (simp add: write_dinode_def get_put_addrs_below
        get16_put16_other get16_put32_other get32_put16_other)
qed

lemma superblock_roundtrip: "superblock_of (whole_block (put_superblock b)) = b"
  by (simp add: superblock_of_def get_whole_block BSIZE_def) (simp add: put_superblock_def get32_put32_other)

lemma bit_clear_mark_all: "bit_clear (mark_all n y) b \<longleftrightarrow> n \<le> b \<and> bit_clear y b"
  by (induction n) (auto simp: mark_all_def bit_clear_mark)

lemma bit_clear_whole_block: "b < BPB \<Longrightarrow> bit_clear (whole_block y) b = bit_clear y b"
  by (simp add: bit_clear_iff whole_block_def BPB_def less_mult_imp_div_less)

subsection \<open>The disk after \<open>init_disk_file\<close>\<close>

definition root_dinode :: "u32 \<Rightarrow> u32 \<Rightarrow> dinode" where
  "root_dinode a n = \<lparr>d_type = T_DIR, d_major = 0, d_minor = 0, d_nlink = 1, d_size = n, d_addrs = a # replicate NDIRECT 0\<rparr>"

lemma root_dinode_size [simp]: "(root_dinode a n)\<lparr>d_size := n'\<rparr> = root_dinode a n'" "d_size (root_dinode a n) = n"
  "length (d_addrs (root_dinode a n)) = NDIRECT + 1" "d_addrs (root_dinode a n) = a # replicate NDIRECT 0"
  by (simp_all add: root_dinode_def)

lemma layout_numbers: "nmeta = 8" "IBLOCK 1 mkfs_superblock = 2" "sb_bmapstart mkfs_superblock = 7" "dinode_off 1 = 64" "dinode_off 1 + DINODE_SIZE \<le> BSIZE"
  by (simp_all add: nmeta_def LOGSIZE_def ninodeblocks_def nbitmap_def N_INODES_def FS_SIZE_val layout_defs IBLOCK_def mkfs_superblock_def dinode_off_def)

declare iappend_loop.simps [simp del] upt_rec_numeral [simp del]

lemma same_cache: "bufs s' = bufs s \<Longrightarrow> disk s' = disk s \<Longrightarrow> refs s' = refs s \<and> view cs s' = view cs s"
  by (simp add: refs_def view_def fun_eq_iff split: option.split)

context block_device
begin

lemma wsect_ok:
  assumes "dev_inv (mk_disk m)" "unat b < dev_size"
  obtains d where "wsect D b y m = Some (m\<lparr>mk_disk := d\<rparr>)" "dev_inv d" "contents d = (contents (mk_disk m))(b := whole_block y)"
  using dev_write [OF assms, of y] that by (auto simp: wsect_def)

lemma rsect_ok:
  assumes "dev_inv (mk_disk m)" "unat b < dev_size"
  obtains d where "rsect D junk b m = Some (contents (mk_disk m) b, m\<lparr>mk_disk := d\<rparr>)" "dev_inv d" "contents d = contents (mk_disk m)"
  using dev_read [OF assms] that by (auto simp: rsect_def)

lemma zero_sectors_ok:
  assumes "dev_inv (mk_disk m)" "i + k \<le> dev_size" "i + k \<le> 2 ^ 32"
  shows "\<exists>d. zero_sectors D k i m = Some (m\<lparr>mk_disk := d\<rparr>) \<and> dev_inv d \<and>
    contents d = (\<lambda>b. if i \<le> unat b \<and> unat b < i + k then (\<lambda>_. 0) else contents (mk_disk m) b)"
  using assms
proof (induction k arbitrary: i m)
  case 0
  then show ?case by (intro exI [of _ "mk_disk m"]) (auto simp: fun_eq_iff)
next
  case (Suc k)
  have i: "unat (of_nat i :: u32) = i" using Suc.prems(3) by (simp add: unat_of_nat_small)
  obtain d where d: "wsect D (of_nat i) (\<lambda>_. 0) m = Some (m\<lparr>mk_disk := d\<rparr>)" "dev_inv d"
    "contents d = (contents (mk_disk m))(of_nat i := whole_block (\<lambda>_. 0))"
    using wsect_ok [OF Suc.prems(1), of "of_nat i" "\<lambda>_. 0"] i Suc.prems(2) by auto
  have "\<exists>d'. zero_sectors D k (Suc i) (m\<lparr>mk_disk := d\<rparr>) = Some (m\<lparr>mk_disk := d\<rparr>\<lparr>mk_disk := d'\<rparr>) \<and> dev_inv d' \<and>
      contents d' = (\<lambda>b. if Suc i \<le> unat b \<and> unat b < Suc i + k then (\<lambda>_. 0) else contents d b)"
    using Suc.IH [of "m\<lparr>mk_disk := d\<rparr>" "Suc i"] d(2) Suc.prems(2,3) by (simp cong: if_cong)
  then obtain d' where d': "zero_sectors D k (Suc i) (m\<lparr>mk_disk := d\<rparr>) = Some (m\<lparr>mk_disk := d'\<rparr>)" "dev_inv d'"
    "contents d' = (\<lambda>b. if Suc i \<le> unat b \<and> unat b < Suc i + k then (\<lambda>_. 0) else contents d b)" by auto
  have "whole_block (\<lambda>_. 0) = (\<lambda>_. 0)" by (simp add: whole_block_def fun_eq_iff)
  moreover have "b = of_nat i \<longleftrightarrow> unat b = i" for b :: u32 using i by (auto simp: word_unat_eq_iff)
  ultimately have "contents d' = (\<lambda>b. if i \<le> unat b \<and> unat b < i + Suc k then (\<lambda>_. 0) else contents (mk_disk m) b)"
    unfolding d'(3) d(3) by (auto simp: fun_eq_iff)
  then show ?case using d(1) d'(1,2) by (intro exI [of _ d']) simp
qed

lemma winode_ok:
  assumes "dev_inv (mk_disk m)" "unat (IBLOCK inum (mk_sb m)) < dev_size"
  obtains d where "winode D junk inum p m = Some (m\<lparr>mk_disk := d\<rparr>)" "dev_inv d"
    "contents d = (contents (mk_disk m))(IBLOCK inum (mk_sb m) :=
       whole_block (write_dinode (dinode_off inum) p (contents (mk_disk m) (IBLOCK inum (mk_sb m)))))"
proof -
  obtain d where d: "rsect D junk (IBLOCK inum (mk_sb m)) m = Some (contents (mk_disk m) (IBLOCK inum (mk_sb m)), m\<lparr>mk_disk := d\<rparr>)" "dev_inv d"
    "contents d = contents (mk_disk m)" using rsect_ok [OF assms] .
  let ?y = "write_dinode (dinode_off inum) p (contents (mk_disk m) (IBLOCK inum (mk_sb m)))"
  have "dev_inv (mk_disk (m\<lparr>mk_disk := d\<rparr>))" using d(2) by simp
  from wsect_ok [OF this assms(2), of ?y] obtain d' where d': "wsect D (IBLOCK inum (mk_sb m)) ?y (m\<lparr>mk_disk := d\<rparr>) = Some (m\<lparr>mk_disk := d'\<rparr>)" "dev_inv d'"
    "contents d' = (contents d)(IBLOCK inum (mk_sb m) := whole_block ?y)" by auto
  show ?thesis using that [of d'] d d' by (simp add: winode_def Let_def)
qed

lemma rinode_ok:
  assumes "dev_inv (mk_disk m)" "unat (IBLOCK inum (mk_sb m)) < dev_size"
  obtains d where "rinode D junk inum m = Some (read_dinode (dinode_off inum) (contents (mk_disk m) (IBLOCK inum (mk_sb m))), m\<lparr>mk_disk := d\<rparr>)"
    "dev_inv d" "contents d = contents (mk_disk m)"
proof -
  obtain d where "rsect D junk (IBLOCK inum (mk_sb m)) m = Some (contents (mk_disk m) (IBLOCK inum (mk_sb m)), m\<lparr>mk_disk := d\<rparr>)" "dev_inv d"
    "contents d = contents (mk_disk m)" using rsect_ok [OF assms] .
  then show ?thesis using that [of d] by (simp add: rinode_def)
qed

text \<open>Appending to a directory that stays within its first block.\<close>

lemma iappend_root:
  assumes m: "dev_inv (mk_disk m)" "mk_sb m = mkfs_superblock" "9 \<le> dev_size" "freeblock m = (if a = 0 then 8 else 9)" "a = 0 \<or> a = 8"
    and r: "read_dinode 64 (contents (mk_disk m) 2) = root_dinode a n" and l: "xs \<noteq> []" "unat n + length xs < BSIZE"
  obtains d where "iappend D junk 1 xs m = Some (m\<lparr>freeblock := 9, mk_disk := d\<rparr>)" "dev_inv d"
    "read_dinode 64 (contents d 2) = root_dinode 8 (n + of_nat (length xs))"
    "contents d 8 = whole_block (put_bytes (unat n) xs (contents (mk_disk m) 8))" "\<And>b. b \<noteq> 2 \<Longrightarrow> b \<noteq> 8 \<Longrightarrow> contents d b = contents (mk_disk m) b"
proof -
  have b: "unat (IBLOCK 1 (mk_sb m)) < dev_size" "unat (8 :: u32) < dev_size" "IBLOCK 1 (mk_sb m) = 2" using m(2,3) layout_numbers(2) by simp_all
  obtain d1 where d1: "rinode D junk 1 m = Some (root_dinode a n, m\<lparr>mk_disk := d1\<rparr>)" "dev_inv d1" "contents d1 = contents (mk_disk m)"
    using rinode_ok [OF m(1) b(1)] r b(3) layout_numbers(4) by metis
  let ?m1 = "m\<lparr>freeblock := 9, mk_disk := d1\<rparr>"
  have fb: "fresh_block a (m\<lparr>mk_disk := d1\<rparr>) = (8, ?m1)" using m(4,5) by (cases "a = 0") (auto simp: fresh_block_def)
  have nb: "unat n div BSIZE = 0" using l by simp
  obtain d2 where d2: "rsect D junk 8 ?m1 = Some (contents (mk_disk m) 8, m\<lparr>freeblock := 9, mk_disk := d2\<rparr>)" "dev_inv d2" "contents d2 = contents (mk_disk m)"
    using rsect_ok [of ?m1 8] d1 b(2) by auto
  let ?m2 = "m\<lparr>freeblock := 9, mk_disk := d2\<rparr>" and ?y = "put_bytes (unat n) xs (contents (mk_disk m) 8)"
  obtain d3 where d3: "wsect D 8 ?y ?m2 = Some (m\<lparr>freeblock := 9, mk_disk := d3\<rparr>)" "dev_inv d3" "contents d3 = (contents (mk_disk m))(8 := whole_block ?y)"
    using wsect_ok [of ?m2 8 ?y] d2 b(2) by auto
  let ?m3 = "m\<lparr>freeblock := 9, mk_disk := d3\<rparr>"
  have ml: "min (length xs) ((unat n div BSIZE + 1) * BSIZE - unat n) = length xs" using l nb by simp
  have "iappend_loop D junk (root_dinode a n) (unat n) xs (m\<lparr>mk_disk := d1\<rparr>) = iappend_loop D junk (root_dinode 8 n) (unat n + length xs) [] ?m3"
    using l(1) ml nb fb d2(1) d3(1)
    by (subst iappend_loop.simps) (simp add: Let_def root_dinode_def NDIRECT_def MAXFILE_def)
  then have lp: "iappend_loop D junk (root_dinode a n) (unat n) xs (m\<lparr>mk_disk := d1\<rparr>) = Some (root_dinode 8 n, unat n + length xs, ?m3)"
    by (simp add: iappend_loop.simps [of D junk "root_dinode 8 n" _ "[]"])
  have sz: "of_nat (unat n + length xs) = n + of_nat (length xs)" by simp
  have "dev_inv (mk_disk ?m3)" "unat (IBLOCK 1 (mk_sb ?m3)) < dev_size" using d3(2) b by simp_all
  from winode_ok [OF this, of junk "root_dinode 8 (n + of_nat (length xs))"] b(3) obtain d4 where
    d4: "winode D junk 1 (root_dinode 8 (n + of_nat (length xs))) ?m3 = Some (m\<lparr>freeblock := 9, mk_disk := d4\<rparr>)" "dev_inv d4"
      "contents d4 = (contents d3)(2 := whole_block (write_dinode 64 (root_dinode 8 (n + of_nat (length xs))) (contents d3 2)))"
    using layout_numbers(4) by auto
  have "iappend D junk 1 xs m = Some (m\<lparr>freeblock := 9, mk_disk := d4\<rparr>)"
    using d1(1) lp d4(1) sz by (simp add: iappend_def)
  moreover have "read_dinode 64 (contents d4 2) = root_dinode 8 (n + of_nat (length xs))"
    unfolding d4(3) using read_write_dinode [of "root_dinode 8 (n + of_nat (length xs))" 64] layout_numbers(4,5) by simp
  ultimately show ?thesis using that [of d4] d4(2,3) d3(3) by auto
qed

lemma init_disk_ok:
  assumes m: "dev_inv (mk_disk m)" "FS_SIZE \<le> dev_size" "freeinode m = 1"
  obtains m' where "init_disk_file D junk m = Some (0, m')" "dev_inv (mk_disk m')" "superblock_of (contents (mk_disk m') 1) = mkfs_superblock"
    "read_dinode 64 (contents (mk_disk m') 2) = root_dinode 8 4096"
    "contents (mk_disk m') 7 = whole_block (mark_all 9 (\<lambda>_. 0))"
    "contents (mk_disk m') 8 = whole_block (put_bytes 16 (make_de dotdot 1) (whole_block (put_bytes 0 (make_de dot 1) (\<lambda>_. 0))))"
proof -
  have sz: "512 \<le> dev_size" using m(2) by (simp add: FS_SIZE_val)
  have bl: "unat (1 :: u32) < dev_size" "unat (2 :: u32) < dev_size" "unat (7 :: u32) < dev_size" using sz by simp_all
  let ?m0 = "m\<lparr>mk_sb := mkfs_superblock, freeblock := of_nat nmeta\<rparr>"
  obtain d1 where d1: "zero_sectors D FS_SIZE 0 ?m0 = Some (?m0\<lparr>mk_disk := d1\<rparr>)" "dev_inv d1" "\<And>b. unat b < 512 \<Longrightarrow> contents d1 b = (\<lambda>_. 0)"
    using zero_sectors_ok [of ?m0 0 FS_SIZE] m(1) sz by (auto simp: FS_SIZE_val)
  let ?m1 = "?m0\<lparr>mk_disk := d1\<rparr>" and ?sb = "whole_block (put_superblock mkfs_superblock)"
  obtain d2 where d2: "wsect D 1 (put_superblock mkfs_superblock) ?m1 = Some (?m0\<lparr>mk_disk := d2\<rparr>)" "dev_inv d2" "contents d2 = (contents d1)(1 := ?sb)"
    using wsect_ok [of ?m1 1 "put_superblock mkfs_superblock"] d1(2) bl(1) by auto
  let ?m2 = "?m0\<lparr>freeinode := 2, mk_disk := d2\<rparr>"
  have "dev_inv (mk_disk ?m2)" "unat (IBLOCK 1 (mk_sb ?m2)) < dev_size" using d2(2) bl(2) layout_numbers(2) by simp_all
  from winode_ok [OF this, of junk "root_dinode 0 0"] obtain d3 where d3: "winode D junk 1 (root_dinode 0 0) ?m2 = Some (?m2\<lparr>mk_disk := d3\<rparr>)" "dev_inv d3"
    "contents d3 = (contents d2)(2 := whole_block (write_dinode 64 (root_dinode 0 0) (contents d2 2)))" using layout_numbers(2,4) by auto
  let ?m3 = "?m2\<lparr>mk_disk := d3\<rparr>"
  have ia: "mkfs_ialloc D junk T_DIR (?m0\<lparr>mk_disk := d2\<rparr>) = Some (1, ?m3)"
    using d3(1) m(3) by (cases m) (simp add: mkfs_ialloc_def Let_def root_dinode_def)
  have r3: "read_dinode 64 (contents d3 2) = root_dinode 0 0"
    using d3(3) read_write_dinode [of "root_dinode 0 0" 64] layout_numbers(4,5) by simp
  have de: "length (make_de nm i) = 16" for nm i by (simp add: make_de_def DIRSIZ_def)
  have dn: "make_de nm i \<noteq> []" for nm i by (simp add: make_de_def)
  obtain d4 where d4: "iappend D junk 1 (make_de dot 1) ?m3 = Some (?m3\<lparr>freeblock := 9, mk_disk := d4\<rparr>)" "dev_inv d4"
    "read_dinode 64 (contents d4 2) = root_dinode 8 16" "contents d4 8 = whole_block (put_bytes 0 (make_de dot 1) (contents d3 8))"
    "\<And>b. b \<noteq> 2 \<Longrightarrow> b \<noteq> 8 \<Longrightarrow> contents d4 b = contents d3 b"
    using iappend_root [of ?m3 0 0 "make_de dot 1" junk] d3(2) sz r3 de dn by (auto simp: layout_numbers BSIZE_def)
  let ?m4 = "?m3\<lparr>freeblock := 9, mk_disk := d4\<rparr>"
  obtain d5 where d5: "iappend D junk 1 (make_de dotdot 1) ?m4 = Some (?m4\<lparr>freeblock := 9, mk_disk := d5\<rparr>)" "dev_inv d5"
    "read_dinode 64 (contents d5 2) = root_dinode 8 32" "contents d5 8 = whole_block (put_bytes 16 (make_de dotdot 1) (contents d4 8))"
    "\<And>b. b \<noteq> 2 \<Longrightarrow> b \<noteq> 8 \<Longrightarrow> contents d5 b = contents d4 b"
    using iappend_root [of ?m4 8 16 "make_de dotdot 1" junk] d4(2,3) sz de dn by (auto simp: BSIZE_def)
  let ?m5 = "?m4\<lparr>freeblock := 9, mk_disk := d5\<rparr>"
  have i5: "dev_inv (mk_disk ?m5)" "unat (IBLOCK 1 (mk_sb ?m5)) < dev_size" using d5(2) bl(2) layout_numbers(2) by simp_all
  from rinode_ok [OF i5, of junk] d5(3) obtain d6 where d6: "rinode D junk 1 ?m5 = Some (root_dinode 8 32, ?m5\<lparr>mk_disk := d6\<rparr>)" "dev_inv d6"
    "contents d6 = contents d5" using layout_numbers(2,4) by auto
  let ?m6 = "?m5\<lparr>mk_disk := d6\<rparr>"
  have i6: "dev_inv (mk_disk ?m6)" "unat (IBLOCK 1 (mk_sb ?m6)) < dev_size" using d6(2) bl(2) layout_numbers(2) by simp_all
  from winode_ok [OF i6, of junk "root_dinode 8 4096"] obtain d7 where d7: "winode D junk 1 (root_dinode 8 4096) ?m6 = Some (?m6\<lparr>mk_disk := d7\<rparr>)" "dev_inv d7"
    "contents d7 = (contents d6)(2 := whole_block (write_dinode 64 (root_dinode 8 4096) (contents d6 2)))" using layout_numbers(2,4) by auto
  let ?m7 = "?m6\<lparr>mk_disk := d7\<rparr>"
  obtain d8 where d8: "wsect D 7 (mark_all 9 (\<lambda>_. 0)) ?m7 = Some (?m7\<lparr>mk_disk := d8\<rparr>)" "dev_inv d8" "contents d8 = (contents d7)(7 := whole_block (mark_all 9 (\<lambda>_. 0)))"
    using wsect_ok [of ?m7 7 "mark_all 9 (\<lambda>_. 0)"] d7(2) bl(3) by auto
  have "init_disk_file D junk m = Some (0, ?m7\<lparr>mk_disk := d8\<rparr>)"
    using d1(1) d2(1) ia d4(1) d5(1) d6(1) d7(1) d8(1) layout_numbers(3)
    by (simp add: init_disk_file_def Let_def ROOTINO_def mkfs_balloc_def layout_defs)
  moreover have "contents d8 1 = ?sb" "contents d8 8 = whole_block (put_bytes 16 (make_de dotdot 1) (whole_block (put_bytes 0 (make_de dot 1) (contents d1 8))))"
    using d2(3) d3(3) d4(4,5) d5(4,5) d6(3) d7(3) d8(3) by simp_all
  moreover have "read_dinode 64 (contents d8 2) = root_dinode 8 4096"
    using d8(3) d7(3) read_write_dinode [of "root_dinode 8 4096" 64] layout_numbers(4,5) by simp
  ultimately show ?thesis using that [of "?m7\<lparr>mk_disk := d8\<rparr>"] d8(2,3) d1(3) [of 8] superblock_roundtrip by simp
qed

lemma fsinit_ok:
  fixes s :: "('d, 'z) fs_scheme"
  assumes g: "good B s" "refs s = (\<lambda>_. 0)" "1 \<in> B" and b: "superblock_of (view contents s 1) = b" "sb_magic b = FSMAGIC"
    and t: "itable s = z # zs" "i_ref z = 0" "\<forall>p \<in> set zs. i_ref p = 0"
  obtains s' where "fsinit D ROOTDEV s = Some s'" "good B s'" "refs s' = (\<lambda>_. 0)" "view contents s' = view contents s" "sb s' = b"
    "cwd s' = Some 0" "itable s' = z\<lparr>i_dev := ROOTDEV, i_inum := ROOTINO, i_ref := 1, i_valid := False\<rparr> # zs"
proof -
  have "refs s 1 \<le> 1" using g(2) by simp
  from read_block_steps [OF g(1,3) this] obtain s1 where s1: "read_block D ROOTDEV 1 s = Some (view contents s 1, s1)" "steps B s (view contents s) s1" by blast
  let ?s = "s1\<lparr>sb := b\<rparr>" and ?p = "z\<lparr>i_dev := ROOTDEV, i_inum := ROOTINO, i_ref := 1, i_valid := False\<rparr>"
  have it: "itable ?s = z # zs" using s1(2) t(1) fs_frame [of s1 s] by (simp add: steps_def)
  have "first_index (\<lambda>p. i_ref p > 0 \<and> i_dev p = ROOTDEV \<and> i_inum p = ROOTINO) zs = None" using t(3) by (induction zs) auto
  then have "iget ROOTDEV ROOTINO ?s = Some (0, upd_inode 0 (\<lambda>p. p\<lparr>i_dev := ROOTDEV, i_inum := ROOTINO, i_ref := 1, i_valid := False\<rparr>) ?s)"
    using it t(2) by (simp add: iget_def)
  then have "namei D [slash] ?s = Some (Some 0, upd_inode 0 (\<lambda>p. p\<lparr>i_dev := ROOTDEV, i_inum := ROOTINO, i_ref := 1, i_valid := False\<rparr>) ?s)"
    by (simp add: namei_def namex_def namex_loop.simps skipelem_def)
  then have "fsinit D ROOTDEV s = Some ((upd_inode 0 (\<lambda>p. p\<lparr>i_dev := ROOTDEV, i_inum := ROOTINO, i_ref := 1, i_valid := False\<rparr>) ?s)\<lparr>cwd := Some 0\<rparr>)"
    using s1(1) b by (simp add: fsinit_def readsb_def)
  moreover let ?s' = "(upd_inode 0 (\<lambda>p. p\<lparr>i_dev := ROOTDEV, i_inum := ROOTINO, i_ref := 1, i_valid := False\<rparr>) ?s)\<lparr>cwd := Some 0\<rparr>"
  have c: "bufs ?s' = bufs s1" "disk ?s' = disk s1" by simp_all
  have "good B ?s'" "refs ?s' = (\<lambda>_. 0)" "view contents ?s' = view contents s"
    using s1(2) g(2) same_cache [OF c] by (simp_all add: steps_def good_def)
  moreover have "sb ?s' = b" "cwd ?s' = Some 0" "itable ?s' = ?p # zs" using it by simp_all
  ultimately show ?thesis using that by blast
qed

lemma ilock_ok:
  fixes s :: "('d, 'z) fs_scheme"
  assumes g: "good B s" "refs s = (\<lambda>_. 0)" and p: "ip < length (itable s)" "inode_of s ip = p" "i_ref p \<ge> 1" "\<not> i_valid p" "i_dev p = ROOTDEV"
    and b: "IBLOCK (i_inum p) (sb s) \<in> B" and d: "read_dinode (dinode_off (i_inum p)) (view contents s (IBLOCK (i_inum p) (sb s))) = d" "d_type d \<noteq> 0"
  obtains s' where "ilock D ip s = Some s'" "good B s'" "refs s' = (\<lambda>_. 0)" "view contents s' = view contents s" "sb s' = sb s"
    "inode_of s' ip = p\<lparr>i_type := d_type d, i_major := d_major d, i_minor := d_minor d, i_nlink := d_nlink d, i_size := d_size d,
      i_addrs := d_addrs d, i_valid := True\<rparr>" "length (itable s') = length (itable s)"
proof -
  have "refs s (IBLOCK (i_inum p) (sb s)) \<le> 1" using g(2) by simp
  from read_block_steps [OF g(1) b this] obtain s1 where s1: "read_block D ROOTDEV (IBLOCK (i_inum p) (sb s)) s = Some (view contents s (IBLOCK (i_inum p) (sb s)), s1)"
    "steps B s (view contents s) s1" by blast
  have f: "sb s1 = sb s" "itable s1 = itable s" using s1(2) fs_frame [of s1 s] by (simp_all add: steps_def)
  let ?q = "p\<lparr>i_type := d_type d, i_major := d_major d, i_minor := d_minor d, i_nlink := d_nlink d, i_size := d_size d, i_addrs := d_addrs d, i_valid := True\<rparr>"
  have q: "(get_dinode (dinode_off (i_inum p)) (view contents s (IBLOCK (i_inum p) (sb s))) p)\<lparr>i_valid := True\<rparr> = ?q"
    using d(1) by (auto simp: get_dinode_def read_dinode_def)
  have "ilock D ip s = Some (upd_inode ip (\<lambda>_. ?q) s1)"
  proof -
    have "i_type (get_dinode (dinode_off (i_inum p)) (view contents s (IBLOCK (i_inum p) (sb s))) p) \<noteq> 0"
      using d by (auto simp: get_dinode_def read_dinode_def)
    then show ?thesis using s1(1) p by (simp add: ilock_def Let_def q)
  qed
  then show ?thesis using that [of "upd_inode ip (\<lambda>_. ?q) s1"] s1(2) f p(1) g(2) by (simp add: steps_def)
qed

end

subsection \<open>The mounted file system\<close>

text \<open>The static variables of fs.c before \<open>fsinit\<close>, over a disk.\<close>

definition null_inode :: inode where
  "null_inode = \<lparr>i_dev = 0, i_inum = 0, i_ref = 0, i_valid = False, i_type = 0, i_major = 0, i_minor = 0, i_nlink = 0,
     i_size = 0, i_ctime = 0, i_atime = 0, i_mtime = 0, i_addrs = replicate (NDIRECT + 1) 0\<rparr>"

definition boot_state :: "'d \<Rightarrow> 'd fs" where
  "boot_state d = binit \<lparr>bufs = [], disk = d,
     sb = \<lparr>sb_magic = 0, sb_size = 0, sb_nblocks = 0, sb_ninodes = 0, sb_nlog = 0, sb_logstart = 0, sb_inodestart = 0, sb_bmapstart = 0\<rparr>,
     itable = replicate N_INODES null_inode, cwd = None\<rparr>"

text \<open>The blocks in use and the next free ones.\<close>

definition root_blocks :: "u32 set" where
  "root_blocks = {1, 2, 7, 8} \<union> of_nat ` {9 ..< 35}"

lemma root_blocks_facts: "finite root_blocks" "card root_blocks \<le> NBUF" "b \<in> root_blocks \<Longrightarrow> unat b < 512"
proof -
  show "finite root_blocks" by (simp add: root_blocks_def)
  have "card root_blocks \<le> card ({1, 2, 7, 8} :: u32 set) + card (of_nat ` {9 ..< 35} :: u32 set)" unfolding root_blocks_def by (rule card_Un_le)
  also have "\<dots> \<le> 4 + 26" by (intro add_mono) (auto intro: order_trans [OF card_image_le])
  finally show "card root_blocks \<le> NBUF" by (simp add: NBUF_val)
  show "b \<in> root_blocks \<Longrightarrow> unat b < 512" by (auto simp: root_blocks_def unat_of_nat_small)
qed

lemma root_frees:
  assumes "V 7 = whole_block (mark_all 9 (\<lambda>_. 0))"
  shows "frees V mkfs_superblock = [9 ..< 512]"
proof -
  have "bit_clear (V 7) b \<longleftrightarrow> 9 \<le> b" if "b < 512" for b
  proof -
    have "b < BPB" using that by (simp add: layout_defs)
    then show ?thesis using assms by (simp add: bit_clear_whole_block bit_clear_mark_all) (simp add: bit_clear_def)
  qed
  then have "filter (bit_clear (V 7)) [0 ..< 512] = filter (\<lambda>b. 9 \<le> b) [0 ..< 512]" by (intro filter_cong) auto
  also have "\<dots> = filter (\<lambda>b. 9 \<le> b) ([0 ..< 9] @ [9 ..< 512])" using upt_add_eq_append [of 0 9 503] by simp
  also have "\<dots> = [9 ..< 512]" by (simp add: filter_empty_conv filter_id_conv del: upt_Suc)
  finally show ?thesis using layout_numbers(3) by (simp add: frees_def) (simp add: mkfs_superblock_def FS_SIZE_val)
qed

lemma root_file_ok:
  assumes "i_addrs p = 8 # replicate NDIRECT 0" "i_inum p = 1" "V 7 = whole_block (mark_all 9 (\<lambda>_. 0))"
  shows "file_ok root_blocks 26 V mkfs_superblock p" "n \<le> MAXFILE \<Longrightarrow> ptr V p n = (if n = 0 then 8 else 0)"
proof -
  show pt: "ptr V p n = (if n = 0 then 8 else 0)" if "n \<le> MAXFILE" for n
    using assms(1) by (simp add: ptr_def nth_Cons' NDIRECT_def MAXFILE_def)
  have o: "owned V p = {8}" by (auto simp: owned_def pt image_iff)
  have inj: "inj_on (ptr V p) {n. n \<le> MAXFILE \<and> ptr V p n \<noteq> 0}" by (auto simp: inj_on_def pt)
  have sp: "special mkfs_superblock p = {7, 2}" using assms(2) layout_numbers(2,3) by (simp add: special_def)
  have fr: "frees V mkfs_superblock = [9 ..< 512]" by (rule root_frees [of V, OF assms(3)])
  have sz: "sb_size mkfs_superblock = 512" by (simp add: mkfs_superblock_def FS_SIZE_val)
  have m: "map_ok V mkfs_superblock" using layout_numbers(3) by (simp add: map_ok_def fr sz) (simp add: layout_defs)
  have "take 26 [9 ..< 512] = [9 ..< 35 :: nat]" by (simp add: take_upt)
  then have "of_nat ` set (take 26 (frees V mkfs_superblock)) \<subseteq> root_blocks" by (auto simp: fr root_blocks_def)
  moreover have "{7, 2, 8} \<subseteq> root_blocks" by (simp add: root_blocks_def)
  ultimately show "file_ok root_blocks 26 V mkfs_superblock p"
    using o inj sp m sz fr assms(1,2) layout_numbers(2,3) by (simp add: file_ok_def)
qed

lemma root_bytes:
  assumes "V 8 = whole_block (put_bytes 16 (make_de dotdot 1) (whole_block (put_bytes 0 (make_de dot 1) (\<lambda>_. 0))))"
    "i_size p = 4096" "\<And>n. n \<le> MAXFILE \<Longrightarrow> ptr V p n = (if n = 0 then 8 else 0)"
  shows "file_bytes V p = make_de dot 1 @ make_de dotdot 1 @ replicate (BSIZE - 32) 0" "backed V p"
proof -
  have de: "length (make_de nm i) = 16" for nm i by (simp add: make_de_def DIRSIZ_def)
  have p0: "ptr V p (i div BSIZE) = 8" if "i < 4096" for i using that assms(3) [of "i div BSIZE"] by (simp add: BSIZE_def)
  show "backed V p" using p0 assms(2) by (simp add: backed_def layout_defs)
  show "file_bytes V p = make_de dot 1 @ make_de dotdot 1 @ replicate (BSIZE - 32) 0"
  proof (rule nth_equalityI)
    fix i assume "i < length (file_bytes V p)"
    then have i: "i < 4096" using assms(2) by (simp add: file_bytes_def)
    then have "file_bytes V p ! i = V 8 i" using p0 [OF i] assms(2) by (simp add: file_bytes_def byte_at_def BSIZE_def)
    also have "\<dots> = (make_de dot 1 @ make_de dotdot 1 @ replicate (BSIZE - 32) 0) ! i"
      unfolding assms(1) using i de by (auto simp: whole_block_def put_bytes_def nth_append BSIZE_def)
    finally show "file_bytes V p ! i = (make_de dot 1 @ make_de dotdot 1 @ replicate (BSIZE - 32) 0) ! i" .
  qed (use assms(2) de in \<open>simp add: file_bytes_def BSIZE_def\<close>)
qed

text \<open>
  C23: on any disk of the block server, \<open>init_disk_file\<close> followed by \<open>fsinit\<close> succeeds; block 9 and all later ones are
  free; and the root directory, once locked, satisfies the invariant of files and consists of the entries \<open>.\<close> and \<open>..\<close>,
  followed by empty entries.
\<close>

theorem mkfs_then_fsinit:
  assumes "ram_inv (mk_disk m)" and "freeinode m = 1"
  shows "\<exists>m' s s'. init_disk_file (ram_ops E) junk m = Some (0, m') \<and> fsinit (ram_ops E) ROOTDEV (boot_state (mk_disk m')) = Some s \<and>
    cwd s = Some 0 \<and> frees (disk_view s) (sb s) = [9 ..< 512] \<and> ilock (ram_ops E) 0 s = Some s' \<and>
    file_state root_blocks 26 0 s' \<and> backed (disk_view s') (inode_of s' 0) \<and> i_type (inode_of s' 0) = T_DIR \<and>
    file_bytes (disk_view s') (inode_of s' 0) = make_de dot 1 @ make_de dotdot 1 @ replicate (BSIZE - 32) 0"
proof -
  obtain m' where m': "init_disk_file (ram_ops E) junk m = Some (0, m')" "ram_inv (mk_disk m')"
    "superblock_of (ram_contents (mk_disk m') 1) = mkfs_superblock" "read_dinode 64 (ram_contents (mk_disk m') 2) = root_dinode 8 4096"
    "ram_contents (mk_disk m') 7 = whole_block (mark_all 9 (\<lambda>_. 0))"
    "ram_contents (mk_disk m') 8 = whole_block (put_bytes 16 (make_de dotdot 1) (whole_block (put_bytes 0 (make_de dot 1) (\<lambda>_. 0))))"
    using ram.init_disk_ok [OF assms(1) _ assms(2), of E junk] by auto
  let ?s0 = "boot_state (mk_disk m')"
  have v0: "disk_view ?s0 = ram_contents (mk_disk m')" "refs ?s0 = (\<lambda>_. 0)" by (simp_all add: boot_state_def fun_eq_iff)
  have g0: "ram.good root_blocks ?s0" unfolding ram.good_def boot_state_def
    using binit_inv [OF root_blocks_facts(1,2)] m'(2) root_blocks_facts(3) by (simp add: FS_SIZE_val)
  have N: "N_INODES = Suc 255" by (simp add: N_INODES_def FS_SIZE_val)
  have it: "itable ?s0 = null_inode # replicate 255 null_inode" 
    unfolding boot_state_def binit_def N replicate_Suc by simp
  have "1 \<in> root_blocks" by (simp add: root_blocks_def)
  moreover have "superblock_of (disk_view ?s0 1) = mkfs_superblock" "sb_magic mkfs_superblock = FSMAGIC"
    using v0(1) m'(3) by (simp_all add: mkfs_superblock_def)
  moreover have "i_ref null_inode = 0" by (simp add: null_inode_def)
  ultimately obtain s where s: "fsinit (ram_ops E) ROOTDEV ?s0 = Some s" "ram.good root_blocks s" "refs s = (\<lambda>_. 0)"
    "disk_view s = ram_contents (mk_disk m')" "sb s = mkfs_superblock" "cwd s = Some 0"
    "itable s = null_inode\<lparr>i_dev := ROOTDEV, i_inum := ROOTINO, i_ref := 1, i_valid := False\<rparr> # replicate 255 null_inode"
    using ram.fsinit_ok [OF g0 v0(2) _ _ _ it, of _ E] v0(1) by auto
  let ?p = "null_inode\<lparr>i_dev := ROOTDEV, i_inum := ROOTINO, i_ref := 1, i_valid := False\<rparr>"
  have p: "0 < length (itable s)" "inode_of s 0 = ?p" "i_ref ?p \<ge> 1" "\<not> i_valid ?p" "i_dev ?p = ROOTDEV" "IBLOCK (i_inum ?p) (sb s) \<in> root_blocks"
    "read_dinode (dinode_off (i_inum ?p)) (disk_view s (IBLOCK (i_inum ?p) (sb s))) = root_dinode 8 4096" "d_type (root_dinode 8 4096) \<noteq> 0"
    using s(4,5,7) layout_numbers(2,4) m'(4) by (simp_all add: ROOTINO_def root_blocks_def root_dinode_def T_DIR_def)
  obtain s' where s': "ilock (ram_ops E) 0 s = Some s'" "ram.good root_blocks s'" "refs s' = (\<lambda>_. 0)" "disk_view s' = disk_view s" "sb s' = sb s"
    "inode_of s' 0 = ?p\<lparr>i_type := T_DIR, i_major := 0, i_minor := 0, i_nlink := 1, i_size := 4096, i_addrs := 8 # replicate NDIRECT 0, i_valid := True\<rparr>"
    "length (itable s') = length (itable s)" using ram.ilock_ok [OF s(2,3) p, of E] by (auto simp: root_dinode_def)
  have V: "disk_view s' 7 = whole_block (mark_all 9 (\<lambda>_. 0))" using s'(4) s(4) m'(5) by simp
  have q: "i_addrs (inode_of s' 0) = 8 # replicate NDIRECT 0" "i_inum (inode_of s' 0) = 1" "i_size (inode_of s' 0) = 4096"
    using s'(6) by (simp_all add: ROOTINO_def)
  note rf = root_file_ok [of _ "disk_view s'", OF q(1,2) V]
  have "disk_view s' 8 = whole_block (put_bytes 16 (make_de dotdot 1) (whole_block (put_bytes 0 (make_de dot 1) (\<lambda>_. 0))))"
    using s'(4) s(4) m'(6) by simp
  note rb = root_bytes [of "disk_view s'", OF this q(3) rf(2)]
  have "file_state root_blocks 26 0 s'" unfolding file_state_iff ram.fs_inv_def
    using s'(2,3,5,6,7) s(5) p(1) rf(1) by simp
  moreover have "frees (disk_view s) (sb s) = [9 ..< 512]" using root_frees [of "disk_view s'"] V s'(4) s(5) by simp
  ultimately show ?thesis using m'(1) s(1,6) s'(1,6) rb by (intro exI [of _ m'] exI [of _ s] exI [of _ s']) simp
qed

theorem mkfs_then_fsinit_witness:
  "\<exists>m' s. init_disk_file (ram_ops lowest_malloc) (\<lambda>_. 0) \<lparr>mk_sb = mkfs_superblock, freeinode = 1, freeblock = 0, mk_disk = example_disk\<rparr> = Some (0, m') \<and>
    fsinit (ram_ops lowest_malloc) ROOTDEV (boot_state (mk_disk m')) = Some s \<and> cwd s = Some 0"
  using mkfs_then_fsinit [of "\<lparr>mk_sb = mkfs_superblock, freeinode = 1, freeblock = 0, mk_disk = example_disk\<rparr>" lowest_malloc "\<lambda>_. 0"] example_disk_inv
  by auto

end
