(* ===== verification/Model_Graph.thy ===== *)
theory Model_Graph
  imports Model_State
begin

section \<open>Model states are graphs\<close>

text \<open>
  The graph of a model state is a map from identifiers to nodes and a set of edges. The invariant \<open>ms_wf\<close> says that
  the tables list every component once, each under its kind, that identifiers and edges are unique, that strings fit their buffers and
  that memory is not exceeded. Every operation keeps it and acts on the graph as an update or a union.
\<close>

named_theorems model_defs \<open>definitions of the operations on model states\<close>

declare comp_at_def [model_defs] node_at_def [model_defs] edge_at_def [model_defs] upd_node_def [model_defs]

fun nodes_in :: "gpi_model_state_component_t list \<Rightarrow> gpi_model_node_t list" where
  "nodes_in [] = []"
| "nodes_in (GPI_MODEL_NODE n # cs) = n # nodes_in cs"
| "nodes_in (GPI_MODEL_EDGE k # cs) = nodes_in cs"

fun edges_in :: "gpi_model_state_component_t list \<Rightarrow> gpi_model_edge_key_t list" where
  "edges_in [] = []"
| "edges_in (GPI_MODEL_NODE n # cs) = edges_in cs"
| "edges_in (GPI_MODEL_EDGE k # cs) = k # edges_in cs"

fun is_node :: "gpi_model_state_component_t \<Rightarrow> bool" where
  "is_node (GPI_MODEL_NODE n) = True"
| "is_node (GPI_MODEL_EDGE k) = False"

definition node_graph :: "gpi_model_state_component_t list \<Rightarrow> string \<rightharpoonup> gpi_model_node_t" where
  "node_graph cs = map_of (map (\<lambda>n. (node_id n, n)) (nodes_in cs))"

abbreviation graph_nodes :: "model_state_t \<Rightarrow> string \<rightharpoonup> gpi_model_node_t" where
  "graph_nodes ms \<equiv> node_graph (ms_comps ms)"

abbreviation graph_edges :: "model_state_t \<Rightarrow> gpi_model_edge_key_t set" where
  "graph_edges ms \<equiv> set (edges_in (ms_comps ms))"

definition fits :: "gpi_model_state_component_t \<Rightarrow> bool" where
  "fits c = (case c of GPI_MODEL_NODE n \<Rightarrow> length (node_id n) < CSV_MAX_STRING_SIZE \<and>
       length (node_data n) \<le> CSV_MAX_STRING_SIZE \<and> length (node_data2 n) < CSV_MAX_STRING_SIZE
     | GPI_MODEL_EDGE k \<Rightarrow> length (edge_from k) < CSV_MAX_STRING_SIZE \<and> length (edge_to k) < CSV_MAX_STRING_SIZE)"

fun in_memory :: "model_mem \<Rightarrow> nat \<Rightarrow> bool" where
  "in_memory (Heap ok) k = True"
| "in_memory (Portable sz n) k \<longleftrightarrow> k = 0 \<or> k * sz < n"

definition unique_comps :: "gpi_model_state_component_t list \<Rightarrow> bool" where
  "unique_comps cs \<longleftrightarrow> distinct (map node_id (nodes_in cs)) \<and> distinct (edges_in cs) \<and> list_all fits cs"

definition ms_wf :: "model_state_t \<Rightarrow> bool" where
  "ms_wf ms \<longleftrightarrow> ms_nodes ms = filter (\<lambda>a. is_node (ms_comps ms ! a)) [0 ..< length (ms_comps ms)] \<and>
     ms_edges ms = filter (\<lambda>a. \<not> is_node (ms_comps ms ! a)) [0 ..< length (ms_comps ms)] \<and>
     unique_comps (ms_comps ms) \<and> in_memory (ms_mem ms) (length (ms_comps ms))"

subsection \<open>Components\<close>

lemma nodes_in_append [simp]: "nodes_in (xs @ ys) = nodes_in xs @ nodes_in ys"
  by (induction xs rule: nodes_in.induct) auto

lemma edges_in_append [simp]: "edges_in (xs @ ys) = edges_in xs @ edges_in ys"
  by (induction xs rule: edges_in.induct) auto

lemma set_nodes_in: "n \<in> set (nodes_in cs) \<longleftrightarrow> GPI_MODEL_NODE n \<in> set cs"
  by (induction cs rule: nodes_in.induct) auto

lemma set_edges_in: "k \<in> set (edges_in cs) \<longleftrightarrow> GPI_MODEL_EDGE k \<in> set cs"
  by (induction cs rule: edges_in.induct) auto

lemma is_node_iff: "is_node c \<longleftrightarrow> (\<exists>n. c = GPI_MODEL_NODE n)" "\<not> is_node c \<longleftrightarrow> (\<exists>k. c = GPI_MODEL_EDGE k)"
  by (cases c; simp)+

lemma node_at_iff: "node_at ms a = Some n \<longleftrightarrow> a < length (ms_comps ms) \<and> ms_comps ms ! a = GPI_MODEL_NODE n"
  by (auto simp: model_defs split: gpi_model_state_component_t.splits)

lemma edge_at_iff: "edge_at ms a = Some k \<longleftrightarrow> a < length (ms_comps ms) \<and> ms_comps ms ! a = GPI_MODEL_EDGE k"
  by (auto simp: model_defs split: gpi_model_state_component_t.splits)

lemma filter_upt_append:
  "filter (\<lambda>a. P ((xs @ [x]) ! a)) [0 ..< Suc (length xs)] = filter (\<lambda>a. P (xs ! a)) [0 ..< length xs] @ (if P x then [length xs] else [])"
proof -
  have "filter (\<lambda>a. P ((xs @ [x]) ! a)) [0 ..< length xs] = filter (\<lambda>a. P (xs ! a)) [0 ..< length xs]"
    by (rule filter_cong) (auto simp: nth_append)
  then show ?thesis by simp
qed

lemma nodes_in_update:
  assumes "a < length cs" "cs ! a = GPI_MODEL_NODE n"
  shows "nodes_in (cs[a := GPI_MODEL_NODE m]) = nodes_in (take a cs) @ m # nodes_in (drop (Suc a) cs)"
    "nodes_in cs = nodes_in (take a cs) @ n # nodes_in (drop (Suc a) cs)"
    "edges_in (cs[a := GPI_MODEL_NODE m]) = edges_in cs"
proof -
  have cs: "cs = take a cs @ GPI_MODEL_NODE n # drop (Suc a) cs" using id_take_nth_drop [OF assms(1)] assms(2) by simp
  show "nodes_in (cs[a := GPI_MODEL_NODE m]) = nodes_in (take a cs) @ m # nodes_in (drop (Suc a) cs)"
    using assms(1) by (simp add: upd_conv_take_nth_drop)
  show "nodes_in cs = nodes_in (take a cs) @ n # nodes_in (drop (Suc a) cs)" by (subst cs) simp
  have "edges_in cs = edges_in (take a cs) @ edges_in (drop (Suc a) cs)" by (subst cs) simp
  then show "edges_in (cs[a := GPI_MODEL_NODE m]) = edges_in cs" using assms(1) by (simp add: upd_conv_take_nth_drop)
qed

subsection \<open>The graph\<close>

lemma node_graph_iff:
  assumes "distinct (map node_id (nodes_in cs))"
  shows "node_graph cs i = Some n \<longleftrightarrow> GPI_MODEL_NODE n \<in> set cs \<and> node_id n = i"
proof -
  have "distinct (map fst (map (\<lambda>n. (node_id n, n)) (nodes_in cs)))" using assms by (simp add: comp_def)
  from map_of_eq_Some_iff [OF this] show ?thesis by (auto simp: node_graph_def set_nodes_in)
qed

lemma id_map_None: "map_of (map (\<lambda>n. (node_id n, n)) ns) i = None \<longleftrightarrow> i \<notin> node_id ` set ns"
  by (induction ns) auto

lemma node_graph_None: "node_graph cs i = None \<longleftrightarrow> i \<notin> node_id ` set (nodes_in cs)"
  by (simp add: node_graph_def id_map_None)

lemma node_graph_append:
  assumes "node_id n \<notin> node_id ` set (nodes_in cs)"
  shows "node_graph (cs @ [GPI_MODEL_NODE n]) = (node_graph cs)(node_id n \<mapsto> n)"
  using assms [folded id_map_None] by (auto simp: node_graph_def map_add_def fun_eq_iff split: option.split)

lemma node_graph_update:
  assumes "distinct (map node_id (nodes_in cs))" "a < length cs" "cs ! a = GPI_MODEL_NODE n" "node_id m = node_id n"
  shows "node_graph (cs[a := GPI_MODEL_NODE m]) = (node_graph cs)(node_id n \<mapsto> m)"
proof -
  let ?M = "\<lambda>ns. map_of (map (\<lambda>n. (node_id n, n)) ns)"
  note u = nodes_in_update(1) [OF assms(2,3), of m] nodes_in_update(2) [OF assms(2,3)]
  have "?M (nodes_in (take a cs)) (node_id n) = None" using assms(1) unfolding u(2) by (simp add: id_map_None)
  then show ?thesis unfolding node_graph_def u using assms(4) by (auto simp: map_add_def fun_eq_iff split: option.split)
qed

lemma ms_wf_init [simp]: "ms_wf (init_model_state m)" "graph_nodes (init_model_state m) = Map.empty" "graph_edges (init_model_state m) = {}"
  by (cases m; simp add: ms_wf_def init_model_state_def unique_comps_def)
    (simp_all add: init_model_state_def node_graph_def)

lemma get_node_Some:
  assumes "ms_wf ms" "get_node ms i = Some a"
  obtains n where "a < length (ms_comps ms)" "ms_comps ms ! a = GPI_MODEL_NODE n" "node_id n = i" "graph_nodes ms i = Some n"
proof -
  obtain n where n: "node_at ms a = Some n" "node_id n = i" using assms(2) by (auto simp: get_node_def find_Some_iff)
  moreover have "graph_nodes ms i = Some n" using n assms(1) nth_mem [of a "ms_comps ms"]
    by (auto simp: node_graph_iff ms_wf_def unique_comps_def node_at_iff)
  ultimately show ?thesis using that by (auto simp: node_at_iff)
qed

lemma get_node_None:
  assumes "ms_wf ms"
  shows "get_node ms i = None \<longleftrightarrow> graph_nodes ms i = None"
proof
  assume "graph_nodes ms i = None"
  then show "get_node ms i = None" using get_node_Some [OF assms, of i] by (metis option.distinct(1) option.exhaust)
next
  assume n: "get_node ms i = None"
  show "graph_nodes ms i = None"
  proof (rule ccontr)
    assume "graph_nodes ms i \<noteq> None"
    then obtain m where "GPI_MODEL_NODE m \<in> set (ms_comps ms)" "node_id m = i"
      using assms by (auto simp: node_graph_iff ms_wf_def unique_comps_def)
    then obtain a where "a < length (ms_comps ms)" "ms_comps ms ! a = GPI_MODEL_NODE m" by (auto simp: in_set_conv_nth)
    moreover from this have "a \<in> set (ms_nodes ms)" using assms by (simp add: ms_wf_def)
    ultimately show False using n \<open>node_id m = i\<close> node_at_iff [of ms a m] by (auto simp: get_node_def find_None_iff)
  qed
qed

lemma find_edge_None:
  assumes "ms_wf ms"
  shows "find_edge ms k = None \<longleftrightarrow> k \<notin> graph_edges ms"
proof -
  have "k \<in> graph_edges ms \<longleftrightarrow> (\<exists>a \<in> set (ms_edges ms). edge_at ms a = Some k)"
    using assms by (auto simp: set_edges_in in_set_conv_nth [of "GPI_MODEL_EDGE k"] ms_wf_def edge_at_iff)
  then show ?thesis by (auto simp: find_edge_def find_None_iff)
qed

subsection \<open>Adding\<close>

text \<open>What a node becomes when it is added.\<close>

definition added_node :: "gpi_node_type_t \<Rightarrow> string \<Rightarrow> string option \<Rightarrow> bool \<Rightarrow> gpi_model_node_t option \<Rightarrow> gpi_model_node_t" where
  "added_node type i data ex old = (case old of
     None \<Rightarrow> \<lparr>node_type = type, node_id = i, node_data = (case data of None \<Rightarrow> [] | Some d \<Rightarrow> strncpy d CSV_MAX_STRING_SIZE),
       node_data2 = [], extracted = ex\<rparr>
   | Some n \<Rightarrow> (case data of None \<Rightarrow> n | Some d \<Rightarrow> if node_data n = [] then n\<lparr>node_data := strncpy d CSV_MAX_STRING_SIZE\<rparr> else n))"

lemma CSV_pos [simp]: "0 < CSV_MAX_STRING_SIZE" by (simp add: CSV_MAX_STRING_SIZE_def)

lemma in_memory_alloc: "alloc_ok m k \<Longrightarrow> in_memory m (Suc k)"
  by (cases m) auto

lemma ms_wf_extend:
  assumes "ms_wf ms" "alloc_ok (ms_mem ms) (length (ms_comps ms))" "fits c"
    "case c of GPI_MODEL_NODE n \<Rightarrow> graph_nodes ms (node_id n) = None | GPI_MODEL_EDGE k \<Rightarrow> k \<notin> graph_edges ms"
  shows "ms_wf (ms\<lparr>ms_comps := ms_comps ms @ [c], ms_nodes := ms_nodes ms @ (if is_node c then [length (ms_comps ms)] else []),
    ms_edges := ms_edges ms @ (if is_node c then [] else [length (ms_comps ms)])\<rparr>)"
  using assms filter_upt_append [of "is_node" "ms_comps ms" c] filter_upt_append [of "\<lambda>c. \<not> is_node c" "ms_comps ms" c]
  by (cases c) (auto simp: ms_wf_def unique_comps_def in_memory_alloc node_graph_None simp del: upt_Suc)

lemma ms_wf_update:
  assumes "ms_wf ms" "node_at ms a = Some n" "node_id (f n) = node_id n" "fits (GPI_MODEL_NODE (f n))"
  shows "ms_wf (upd_node a f ms)" "graph_nodes (upd_node a f ms) = (graph_nodes ms)(node_id n \<mapsto> f n)"
    "graph_edges (upd_node a f ms) = graph_edges ms" "ms_mem (upd_node a f ms) = ms_mem ms"
    "length (ms_comps (upd_node a f ms)) = length (ms_comps ms)" "node_at (upd_node a f ms) a = Some (f n)"
proof -
  have a: "a < length (ms_comps ms)" "ms_comps ms ! a = GPI_MODEL_NODE n" using assms(2) by (auto simp: node_at_iff)
  let ?cs = "(ms_comps ms)[a := GPI_MODEL_NODE (f n)]"
  have u: "upd_node a f ms = ms\<lparr>ms_comps := ?cs\<rparr>" using assms(2) by (simp add: upd_node_def)
  have "is_node (?cs ! b) = is_node (ms_comps ms ! b)" if "b < length (ms_comps ms)" for b
    using a that by (auto simp: nth_list_update)
  then have "filter (\<lambda>b. is_node (?cs ! b)) [0 ..< length (ms_comps ms)] = filter (\<lambda>b. is_node (ms_comps ms ! b)) [0 ..< length (ms_comps ms)]"
    "filter (\<lambda>b. \<not> is_node (?cs ! b)) [0 ..< length (ms_comps ms)] = filter (\<lambda>b. \<not> is_node (ms_comps ms ! b)) [0 ..< length (ms_comps ms)]"
    by (auto intro!: filter_cong)
  moreover have "distinct (map node_id (nodes_in ?cs))" using assms(1,3) nodes_in_update(1) [OF a, of "f n"] nodes_in_update(2) [OF a]
    by (simp add: ms_wf_def unique_comps_def)
  moreover have "list_all fits ?cs" using assms(1,4) a(1) set_update_subset_insert [of "ms_comps ms" a "GPI_MODEL_NODE (f n)"]
    by (auto simp: ms_wf_def unique_comps_def list_all_iff)
  ultimately show "ms_wf (upd_node a f ms)" using assms(1) nodes_in_update(3) [OF a, of "f n"]
    by (simp add: u ms_wf_def unique_comps_def)
  show "graph_nodes (upd_node a f ms) = (graph_nodes ms)(node_id n \<mapsto> f n)"
    using node_graph_update [OF _ a assms(3)] assms(1) by (simp add: u ms_wf_def unique_comps_def)
  show "graph_edges (upd_node a f ms) = graph_edges ms" using nodes_in_update(3) [OF a] by (simp add: u)
  show "node_at (upd_node a f ms) a = Some (f n)" using a by (simp add: u node_at_iff)
qed (simp_all add: upd_node_def split: option.split)


lemma fits_added:
  assumes "length i < CSV_MAX_STRING_SIZE" "\<And>n. old = Some n \<Longrightarrow> fits (GPI_MODEL_NODE n)" "\<And>n. old = Some n \<Longrightarrow> node_id n = i"
  shows "fits (GPI_MODEL_NODE (added_node type i data ex old))" "node_id (added_node type i data ex old) = i"
  using assms by (cases old; cases data; simp add: added_node_def fits_def strncpy_def)+

lemma add_node_graph_all:
  assumes "ms_wf ms" "add_node type i data ex ms = Some (a, ms')"
  shows "ms_wf ms' \<and> graph_nodes ms' = (graph_nodes ms)(i \<mapsto> added_node type i data ex (graph_nodes ms i)) \<and> graph_edges ms' = graph_edges ms \<and>
    node_at ms' a = graph_nodes ms' i \<and> ms_mem ms' = ms_mem ms \<and>
    length (ms_comps ms') = length (ms_comps ms) + (if graph_nodes ms i = None then 1 else 0)"
proof (cases "get_node ms i")
  case None
  then have new: "graph_nodes ms i = None" using get_node_None [OF assms(1)] by simp
  let ?n = "added_node type i data ex None"
  from None assms(2) have ok: "alloc_ok (ms_mem ms) (length (ms_comps ms))" "length i < CSV_MAX_STRING_SIZE" "a = length (ms_comps ms)"
    and ms': "ms' = ms\<lparr>ms_comps := ms_comps ms @ [GPI_MODEL_NODE ?n], ms_nodes := ms_nodes ms @ [length (ms_comps ms)]\<rparr>"
    by (auto simp: add_node_def added_node_def Let_def)
  note n = fits_added [OF ok(2), of None, simplified, of type data ex]
  have "ms_wf ms'" using ms_wf_extend [OF assms(1) ok(1) n(1)] new n(2) by (simp add: ms')
  moreover have "graph_nodes ms' = (graph_nodes ms)(i \<mapsto> ?n)"
    using node_graph_append [of ?n "ms_comps ms"] new n(2) by (simp add: ms' node_graph_None)
  ultimately show ?thesis
    using new ok(3) by (simp add: ms' node_at_iff)
next
  case (Some b)
  then obtain n where n: "b < length (ms_comps ms)" "ms_comps ms ! b = GPI_MODEL_NODE n" "node_id n = i" "graph_nodes ms i = Some n"
    using get_node_Some [OF assms(1)] by blast
  have fn: "fits (GPI_MODEL_NODE n)" using assms(1) n(1,2) nth_mem [OF n(1)] by (auto simp: ms_wf_def unique_comps_def list_all_iff)
  then have li: "length i < CSV_MAX_STRING_SIZE" using n(3) by (simp add: fits_def)
  let ?m = "added_node type i data ex (Some n)"
  have m: "fits (GPI_MODEL_NODE ?m)" "node_id ?m = node_id n" using fits_added [OF li, of "Some n" type data ex] fn n(3) by auto
  have nb: "node_at ms b = Some n" using n by (simp add: node_at_iff)
  have "(ms_comps ms)[b := GPI_MODEL_NODE n] = ms_comps ms" by (metis list_update_id n(2))
  then have ms': "ms' = upd_node b (\<lambda>_. ?m) ms" "a = b" using Some assms(2) nb
    by (auto simp: add_node_def added_node_def upd_node_def split: option.splits)
  show ?thesis
    using ms_wf_update [OF assms(1) nb, of "\<lambda>_. ?m", OF m(2,1)] n(3,4) by (simp add: ms')
qed

lemma add_node_graph:
  assumes "ms_wf ms" "add_node type i data ex ms = Some (a, ms')"
  shows "ms_wf ms'" "graph_nodes ms' = (graph_nodes ms)(i \<mapsto> added_node type i data ex (graph_nodes ms i))" "graph_edges ms' = graph_edges ms"
    "node_at ms' a = graph_nodes ms' i" "ms_mem ms' = ms_mem ms"
    "length (ms_comps ms') = length (ms_comps ms) + (if graph_nodes ms i = None then 1 else 0)"
  using add_node_graph_all [OF assms] by blast+

lemma add_edge_graph_all:
  assumes "ms_wf ms" "internal_add_edge_by_id type i j req ms = Some ms'"
  defines "k \<equiv> \<lparr>edge_type = type, req_type = req, edge_from = i, edge_to = j\<rparr>"
  shows "ms_wf ms' \<and> graph_nodes ms' = graph_nodes ms \<and> graph_edges ms' = insert k (graph_edges ms) \<and> ms_mem ms' = ms_mem ms \<and>
    length (ms_comps ms') = length (ms_comps ms) + (if k \<in> graph_edges ms then 0 else 1) \<and> (\<forall>a n. node_at ms a = Some n \<longrightarrow> node_at ms' a = Some n)"
proof (cases "k \<in> graph_edges ms")
  case True
  then have "ms' = ms" using assms(2) find_edge_None [OF assms(1), of k] by (auto simp: internal_add_edge_by_id_def k_def Let_def split: option.splits)
  then show ?thesis
    using True assms(1) by auto
next
  case False
  then have "find_edge ms k = None" using find_edge_None [OF assms(1)] by simp
  then have ok: "alloc_ok (ms_mem ms) (length (ms_comps ms))" "fits (GPI_MODEL_EDGE k)"
    and ms': "ms' = ms\<lparr>ms_comps := ms_comps ms @ [GPI_MODEL_EDGE k], ms_edges := ms_edges ms @ [length (ms_comps ms)]\<rparr>"
    using assms(2) by (auto simp: internal_add_edge_by_id_def k_def [symmetric] Let_def fits_def) (auto simp: k_def)
  have "ms_wf ms'" using ms_wf_extend [OF assms(1) ok] False by (simp add: ms')
  then show ?thesis
    using False by (auto simp: ms' node_graph_def node_at_iff nth_append)
qed

lemma add_edge_graph:
  assumes "ms_wf ms" "internal_add_edge_by_id type i j req ms = Some ms'"
  defines "k \<equiv> \<lparr>edge_type = type, req_type = req, edge_from = i, edge_to = j\<rparr>"
  shows "ms_wf ms'" "graph_nodes ms' = graph_nodes ms" "graph_edges ms' = insert k (graph_edges ms)" "ms_mem ms' = ms_mem ms"
    "length (ms_comps ms') = length (ms_comps ms) + (if k \<in> graph_edges ms then 0 else 1)"
    "node_at ms a = Some n \<Longrightarrow> node_at ms' a = Some n"
  using add_edge_graph_all [OF assms(1,2)] unfolding k_def by blast+

text \<open>When the operations return.\<close>

lemma add_node_returns:
  assumes "ms_wf ms" "length i < CSV_MAX_STRING_SIZE"
  shows "(\<exists>r. add_node type i data ex ms = Some r) \<longleftrightarrow> graph_nodes ms i \<noteq> None \<or> alloc_ok (ms_mem ms) (length (ms_comps ms))"
  using assms get_node_None [OF assms(1), of i] by (auto simp: add_node_def Let_def c_assert_def split: option.split)

lemma add_edge_returns:
  assumes "ms_wf ms" "length i < CSV_MAX_STRING_SIZE" "length j < CSV_MAX_STRING_SIZE"
  shows "(\<exists>r. internal_add_edge_by_id type i j req ms = Some r) \<longleftrightarrow>
    \<lparr>edge_type = type, req_type = req, edge_from = i, edge_to = j\<rparr> \<in> graph_edges ms \<or> alloc_ok (ms_mem ms) (length (ms_comps ms))"
  using assms find_edge_None [OF assms(1), of "\<lparr>edge_type = type, req_type = req, edge_from = i, edge_to = j\<rparr>"]
  by (auto simp: internal_add_edge_by_id_def Let_def c_assert_def split: option.split)

subsection \<open>Combining\<close>

text \<open>The node of two graphs together: the first wins, but takes over data where it has none.\<close>

fun merged :: "gpi_model_node_t option \<Rightarrow> gpi_model_node_t option \<Rightarrow> gpi_model_node_t option" where
  "merged x None = x"
| "merged None (Some m) = Some (m\<lparr>node_data2 := [], extracted := True\<rparr>)"
| "merged (Some n) (Some m) = Some (if node_data n = [] then n\<lparr>node_data := node_data m\<rparr> else n)"

lemma take_data_text: "length (node_data n) \<le> CSV_MAX_STRING_SIZE \<Longrightarrow> strncpy (data_text n) CSV_MAX_STRING_SIZE = node_data n"
  by (simp add: strncpy_def data_text_def)

lemma added_merged:
  assumes "fits (GPI_MODEL_NODE m)"
  shows "Some (added_node (node_type m) (node_id m) (Some (data_text m)) True old) = merged old (Some m)"
  using assms by (cases old) (auto simp: added_node_def take_data_text fits_def)

lemma node_graph_Cons:
  "node_graph (GPI_MODEL_NODE m # cs) = (node_graph cs)(node_id m \<mapsto> m)" "node_graph (GPI_MODEL_EDGE k # cs) = node_graph cs"
  by (simp_all add: node_graph_def)

lemma combine_items_graph:
  assumes "combine_items cs d = Some d'" "ms_wf d" "unique_comps cs"
  shows "ms_wf d' \<and> graph_edges d' = graph_edges d \<union> set (edges_in cs) \<and> (\<forall>i. graph_nodes d' i = merged (graph_nodes d i) (node_graph cs i))"
  using assms
proof (induction cs arbitrary: d)
  case Nil
  then show ?case by (simp add: node_graph_def)
next
  case (Cons c cs)
  have u: "unique_comps cs" "fits c" using Cons.prems(3) by (cases c; simp add: unique_comps_def)+
  from Cons.prems(1) obtain d1 where d1: "combine_item c d = Some d1" "combine_items cs d1 = Some d'" by (auto simp: bind_eq_Some_conv)
  show ?case
  proof (cases c)
    case (GPI_MODEL_EDGE k)
    have "internal_add_edge_by_id (edge_type k) (edge_from k) (edge_to k) (req_type k) d = Some d1" using d1(1) GPI_MODEL_EDGE by simp
    note e = add_edge_graph [OF Cons.prems(2) this]
    show ?thesis using Cons.IH [OF d1(2) e(1) u(1)] e(2,3) GPI_MODEL_EDGE by (auto simp: node_graph_Cons)
  next
    case (GPI_MODEL_NODE m)
    then obtain a where "add_node (node_type m) (node_id m) (Some (data_text m)) True d = Some (a, d1)" using d1(1) by auto
    note n = add_node_graph [OF Cons.prems(2) this]
    have f: "graph_nodes d1 (node_id m) = merged (graph_nodes d (node_id m)) (Some m)"
      using n(2) added_merged u(2) GPI_MODEL_NODE by simp
    have "node_graph cs (node_id m) = None" using Cons.prems(3) GPI_MODEL_NODE by (simp add: unique_comps_def node_graph_None)
    then have "merged (graph_nodes d1 i) (node_graph cs i) = merged (graph_nodes d i) (node_graph (c # cs) i)" for i
      using f n(2) by (cases "i = node_id m") (auto simp: GPI_MODEL_NODE node_graph_Cons)
    then show ?thesis using Cons.IH [OF d1(2) n(1) u(1)] n(3) GPI_MODEL_NODE by simp
  qed
qed

lemma combine_items_returns:
  assumes "ms_wf d" "unique_comps cs" "\<forall>k < length (ms_comps d) + length cs. alloc_ok (ms_mem d) k"
  shows "\<exists>d'. combine_items cs d = Some d'"
  using assms
proof (induction cs arbitrary: d)
  case Nil
  then show ?case by simp
next
  case (Cons c cs)
  have u: "unique_comps cs" "fits c" using Cons.prems(2) by (cases c; simp add: unique_comps_def)+
  have ok: "alloc_ok (ms_mem d) (length (ms_comps d))" using Cons.prems(3) by simp
  have "\<exists>d1. combine_item c d = Some d1 \<and> ms_wf d1 \<and> ms_mem d1 = ms_mem d \<and> length (ms_comps d1) \<le> Suc (length (ms_comps d))"
  proof (cases c)
    case (GPI_MODEL_EDGE k)
    obtain d1 where e: "internal_add_edge_by_id (edge_type k) (edge_from k) (edge_to k) (req_type k) d = Some d1"
      using add_edge_returns [OF Cons.prems(1), of "edge_from k" "edge_to k" "edge_type k" "req_type k"] u(2) ok GPI_MODEL_EDGE by (auto simp: fits_def)
    show ?thesis using add_edge_graph [OF Cons.prems(1) e] e GPI_MODEL_EDGE by auto
  next
    case (GPI_MODEL_NODE m)
    obtain a d1 where n: "add_node (node_type m) (node_id m) (Some (data_text m)) True d = Some (a, d1)"
      using add_node_returns [OF Cons.prems(1), of "node_id m" "node_type m" "Some (data_text m)" True] u(2) ok GPI_MODEL_NODE by (auto simp: fits_def)
    show ?thesis using add_node_graph [OF Cons.prems(1) n] n GPI_MODEL_NODE by auto
  qed
  then obtain d1 where d1: "combine_item c d = Some d1" "ms_wf d1" "ms_mem d1 = ms_mem d" "length (ms_comps d1) \<le> Suc (length (ms_comps d))" by blast
  then show ?case using Cons.IH [OF d1(2) u(1)] Cons.prems(3) by auto
qed

text \<open>C7: A model state that another process has built in portable memory, and cleaned before it was sent, is combined into a well-formed
  model state that has the edges of both graphs, and of nodes those of both, where a node of the destination is kept and takes over data if
  it had none. With room for all components it returns. The result is again well formed: identifiers and edges are unique and no component is lost.\<close>

theorem combine_is_union:
  assumes "ms_wf dest" "ms_wf src" "ms_mem src = Portable sz n"
    "\<forall>k < length (ms_comps dest) + length (ms_comps src). alloc_ok (ms_mem dest) k"
  shows "\<exists>ms. combine_model_states dest (clean_model_state src) = Some ms \<and> ms_wf ms \<and>
    graph_edges ms = graph_edges dest \<union> graph_edges src \<and> (\<forall>i. graph_nodes ms i = merged (graph_nodes dest i) (graph_nodes src i))"
proof -
  have u: "unique_comps (ms_comps src)" using assms(2) by (simp add: ms_wf_def)
  obtain ms where "combine_items (ms_comps src) dest = Some ms" using combine_items_returns [OF assms(1) u assms(4)] by blast
  with combine_items_graph [OF this assms(1) u] show ?thesis
    by (simp add: combine_model_states_def clean_model_state_def assms(3))
qed

definition example_src :: model_state_t where
  "example_src = \<lparr>ms_nodes = [0, 1], ms_edges = [2], ms_comps =
     [GPI_MODEL_NODE \<lparr>node_type = GPI_NODE_TYPE_RESOURCE, node_id = ''FILE_7_2'', node_data = ''FILE'', node_data2 = [], extracted = True\<rparr>,
      GPI_MODEL_NODE \<lparr>node_type = GPI_NODE_TYPE_PD, node_id = ''PD_3'', node_data = ''fs'', node_data2 = [], extracted = True\<rparr>,
      GPI_MODEL_EDGE \<lparr>edge_type = GPI_EDGE_TYPE_HOLD, req_type = 0, edge_from = ''PD_3'', edge_to = ''FILE_7_2''\<rparr>], ms_mem = Portable 376 16344\<rparr>"

definition example_dest :: model_state_t where
  "example_dest = \<lparr>ms_nodes = [0], ms_edges = [], ms_comps =
     [GPI_MODEL_NODE \<lparr>node_type = GPI_NODE_TYPE_PD, node_id = ''PD_3'', node_data = [], node_data2 = [], extracted = True\<rparr>], ms_mem = Heap (\<lambda>_. True)\<rparr>"

lemma example_wf: "ms_wf example_src" "ms_wf example_dest"
  by (simp_all add: ms_wf_def example_src_def example_dest_def unique_comps_def fits_def CSV_MAX_STRING_SIZE_def upt_rec)

theorem combine_is_union_witness:
  "\<exists>ms. combine_model_states example_dest (clean_model_state example_src) = Some ms \<and>
    graph_nodes ms ''PD_3'' = Some \<lparr>node_type = GPI_NODE_TYPE_PD, node_id = ''PD_3'', node_data = ''fs'', node_data2 = [], extracted = True\<rparr>"
proof -
  obtain ms where "combine_model_states example_dest (clean_model_state example_src) = Some ms"
    "graph_nodes ms ''PD_3'' = merged (graph_nodes example_dest ''PD_3'') (graph_nodes example_src ''PD_3'')"
    using combine_is_union [OF example_wf(2,1), of 376 16344] by (auto simp: example_src_def example_dest_def)
  then show ?thesis by (simp add: example_src_def example_dest_def node_graph_def)
qed

subsection \<open>Memory\<close>

lemma room_iff: "0 < sz \<Longrightarrow> (k + 1) * sz < n \<longleftrightarrow> k < (n - 1) div (sz::nat)"
proof -
  assume sz: "0 < sz"
  have "(k + 1) * sz < n \<longleftrightarrow> (k + 1) * sz \<le> n - 1" using sz by (cases n) auto
  also have "\<dots> \<longleftrightarrow> k + 1 \<le> (n - 1) div sz" using sz by (simp add: less_eq_div_iff_mult_less_eq)
  finally show ?thesis by (simp add: Suc_le_eq)
qed

text \<open>What a process does to a model state while it builds it: nodes and edges are added, and extra text is set on a node.\<close>

datatype model_call =
  Add_Node gpi_node_type_t string "string option" bool
| Add_Edge gpi_edge_type_t string string gpi_cap_t
| Set_Extra nat string

fun do_call :: "model_call \<Rightarrow> model_state_t \<Rightarrow> model_state_t option" where
  "do_call (Add_Node type i data ex) ms = map_option snd (add_node type i data ex ms)"
| "do_call (Add_Edge type i j req) ms = internal_add_edge_by_id type i j req ms"
| "do_call (Set_Extra a x) ms = set_node_extra a x ms"

fun model_calls :: "model_call list \<Rightarrow> model_state_t \<Rightarrow> model_state_t option" where
  "model_calls [] ms = Some ms"
| "model_calls (c # cs) ms = do { ms \<leftarrow> do_call c ms; model_calls cs ms }"

fun call_nodes :: "model_call \<Rightarrow> string set" where
  "call_nodes (Add_Node type i data ex) = {i}"
| "call_nodes c = {}"

fun call_edges :: "model_call \<Rightarrow> gpi_model_edge_key_t set" where
  "call_edges (Add_Edge type i j req) = {\<lparr>edge_type = type, req_type = req, edge_from = i, edge_to = j\<rparr>}"
| "call_edges c = {}"

text \<open>The strings fit their buffers.\<close>

fun short_call :: "model_call \<Rightarrow> bool" where
  "short_call (Add_Node type i data ex) \<longleftrightarrow> length i < CSV_MAX_STRING_SIZE"
| "short_call (Add_Edge type i j req) \<longleftrightarrow> length i < CSV_MAX_STRING_SIZE \<and> length j < CSV_MAX_STRING_SIZE"
| "short_call (Set_Extra a x) \<longleftrightarrow> length x < CSV_MAX_STRING_SIZE"

text \<open>A well-formed state has one component for each node and for each edge of its graph.\<close>

lemma length_comps: "length cs = length (nodes_in cs) + length (edges_in cs)"
  by (induction cs rule: nodes_in.induct) auto

lemma dom_node_graph: "dom (node_graph cs) = set (map node_id (nodes_in cs))"
  using node_graph_None [of cs] by (metis (no_types, lifting) domIff image_set set_eqI)

lemma comps_card:
  assumes "ms_wf ms"
  shows "length (ms_comps ms) = card (dom (graph_nodes ms)) + card (graph_edges ms)"
proof -
  have "distinct (map node_id (nodes_in (ms_comps ms)))" "distinct (edges_in (ms_comps ms))"
    using assms by (auto simp: ms_wf_def unique_comps_def)
  then have "card (dom (graph_nodes ms)) = length (nodes_in (ms_comps ms))" "card (graph_edges ms) = length (edges_in (ms_comps ms))"
    unfolding dom_node_graph using distinct_card by fastforce+
  then show ?thesis using length_comps [of "ms_comps ms"] by simp
qed

lemma finite_graph: "finite (dom (graph_nodes ms))" "finite (graph_edges ms)"
  by (simp_all add: dom_node_graph)

lemma ms_wf_fits: "ms_wf ms \<Longrightarrow> node_at ms a = Some n \<Longrightarrow> fits (GPI_MODEL_NODE n)"
  by (metis (no_types, lifting) list_all_length ms_wf_def node_at_iff unique_comps_def)

lemma set_node_extra_graph:
  assumes "ms_wf ms" "set_node_extra a x ms = Some ms'"
  shows "ms_wf ms' \<and> dom (graph_nodes ms') = dom (graph_nodes ms) \<and> graph_edges ms' = graph_edges ms \<and> ms_mem ms' = ms_mem ms"
proof (cases "node_at ms a")
  case (Some n)
  let ?f = "\<lambda>n. n\<lparr>node_data2 := strncpy x CSV_MAX_STRING_SIZE\<rparr>"
  have ms': "ms' = upd_node a ?f ms" "length x < CSV_MAX_STRING_SIZE"
    using assms(2) by (auto simp: set_node_extra_def)
  then have "fits (GPI_MODEL_NODE (?f n))" using ms_wf_fits [OF assms(1) Some] by (simp add: fits_def strncpy_def)
  note u = ms_wf_update [OF assms(1) Some, of ?f, OF _ this]
  have "graph_nodes ms (node_id n) = Some n"
    using Some assms(1) node_graph_iff [of "ms_comps ms" "node_id n" n] nth_mem [of a "ms_comps ms"]
    by (simp add: node_at_iff ms_wf_def unique_comps_def)
  then show ?thesis unfolding ms'(1) using u by auto
qed (use assms in \<open>auto simp: set_node_extra_def upd_node_def\<close>)

text \<open>One call: it returns exactly if its strings are short and there is room for what it adds.\<close>

lemma do_call_effect:
  assumes "ms_wf ms" "do_call c ms = Some ms'"
  shows "ms_wf ms' \<and> dom (graph_nodes ms') = dom (graph_nodes ms) \<union> call_nodes c \<and> graph_edges ms' = graph_edges ms \<union> call_edges c \<and>
    ms_mem ms' = ms_mem ms"
proof (cases c)
  case (Add_Node type i data ex)
  then obtain a where "add_node type i data ex ms = Some (a, ms')" using assms(2) by auto
  from add_node_graph [OF assms(1) this] show ?thesis using Add_Node by auto
next
  case (Add_Edge type i j req)
  with assms(2) have "internal_add_edge_by_id type i j req ms = Some ms'" by simp
  from add_edge_graph [OF assms(1) this] show ?thesis using Add_Edge by auto
next
  case (Set_Extra a x)
  then show ?thesis using set_node_extra_graph [OF assms(1)] assms(2) by simp
qed

lemma do_call_returns:
  assumes "ms_wf ms"
  shows "(\<exists>ms'. do_call c ms = Some ms') \<longleftrightarrow> short_call c \<and>
    (call_nodes c \<subseteq> dom (graph_nodes ms) \<and> call_edges c \<subseteq> graph_edges ms \<or> alloc_ok (ms_mem ms) (length (ms_comps ms)))"
proof (cases c)
  case (Add_Node type i data ex)
  have "length i < CSV_MAX_STRING_SIZE" if "graph_nodes ms i = Some n" for n
    using that assms by (auto simp: node_graph_iff ms_wf_def unique_comps_def list_all_iff fits_def)
  moreover have "add_node type i data ex ms = None" if "\<not> length i < CSV_MAX_STRING_SIZE" "graph_nodes ms i = None"
    using that get_node_None [OF assms, of i] by (simp add: add_node_def Let_def c_assert_def)
  ultimately show ?thesis using Add_Node add_node_returns [OF assms, of i type data ex] by fastforce
next
  case (Add_Edge type i j req)
  then show ?thesis using add_edge_returns [OF assms, of i j type req] by (auto simp: internal_add_edge_by_id_def c_assert_def)
qed (auto simp: set_node_extra_def c_assert_def)

lemma model_calls_outcome:
  assumes "ms_wf ms" "ms_mem ms = Portable sz n" "0 < sz" "length (ms_comps ms) \<le> (n - 1) div sz"
  defines "K cs \<equiv> card (dom (graph_nodes ms) \<union> \<Union> (call_nodes ` set cs)) + card (graph_edges ms \<union> \<Union> (call_edges ` set cs))"
  shows "case model_calls cs ms of
      None \<Rightarrow> \<not> (list_all short_call cs \<and> K cs \<le> (n - 1) div sz)
    | Some ms' \<Rightarrow> list_all short_call cs \<and> K cs \<le> (n - 1) div sz \<and> ms_wf ms' \<and>
        dom (graph_nodes ms') = dom (graph_nodes ms) \<union> \<Union> (call_nodes ` set cs) \<and> graph_edges ms' = graph_edges ms \<union> \<Union> (call_edges ` set cs)"
  using assms(1-4) unfolding K_def
proof (induction cs arbitrary: ms)
  case Nil
  then show ?case using comps_card [OF Nil(1)] by simp
next
  case (Cons c cs)
  let ?N = "dom (graph_nodes ms)" and ?E = "graph_edges ms"
  have fin: "finite (?N \<union> (call_nodes c \<union> \<Union> (call_nodes ` set cs)))" "finite (?E \<union> (call_edges c \<union> \<Union> (call_edges ` set cs)))"
  proof -
    have "finite (call_nodes c)" "finite (call_edges c)" for c by (cases c; simp)+
    then show "finite (?N \<union> (call_nodes c \<union> \<Union> (call_nodes ` set cs)))" "finite (?E \<union> (call_edges c \<union> \<Union> (call_edges ` set cs)))"
      using finite_graph by auto
  qed
  have room: "alloc_ok (ms_mem ms) (length (ms_comps ms)) \<longleftrightarrow> length (ms_comps ms) < (n - 1) div sz"
    using room_iff [OF Cons.prems(3)] by (simp add: Cons.prems(2))
  show ?case
  proof (cases "do_call c ms")
    case None
    then have "\<not> short_call c \<or> (\<not> call_nodes c \<subseteq> ?N \<or> \<not> call_edges c \<subseteq> ?E) \<and> \<not> length (ms_comps ms) < (n - 1) div sz"
      using do_call_returns [OF Cons.prems(1), of c] room by simp
    moreover have new: "card ?N + card ?E < card (?N \<union> (call_nodes c \<union> \<Union> (call_nodes ` set cs))) + card (?E \<union> (call_edges c \<union> \<Union> (call_edges ` set cs)))"
      if "\<not> call_nodes c \<subseteq> ?N \<or> \<not> call_edges c \<subseteq> ?E"
      using that
    proof
      assume "\<not> call_nodes c \<subseteq> ?N"
      then show ?thesis by (intro add_less_le_mono psubset_card_mono card_mono fin) auto
    next
      assume "\<not> call_edges c \<subseteq> ?E"
      then show ?thesis by (intro add_le_less_mono psubset_card_mono card_mono fin) auto
    qed
    ultimately have "\<not> short_call c \<or> (n - 1) div sz < card (?N \<union> (call_nodes c \<union> \<Union> (call_nodes ` set cs))) + card (?E \<union> (call_edges c \<union> \<Union> (call_edges ` set cs)))"
      using new comps_card [OF Cons.prems(1)] by linarith
    then show ?thesis using None by auto
  next
    case (Some ms')
    note e = do_call_effect [OF Cons.prems(1) Some, THEN conjunct1]
      do_call_effect [OF Cons.prems(1) Some, THEN conjunct2]
    have short: "short_call c" and "call_nodes c \<subseteq> ?N \<and> call_edges c \<subseteq> ?E \<or> length (ms_comps ms) < (n - 1) div sz"
      using do_call_returns [OF Cons.prems(1), of c] room Some by auto
    moreover have "card (?N \<union> call_nodes c) + card (?E \<union> call_edges c) \<le> Suc (card ?N + card ?E)"
      by (cases c) (auto simp: card_insert_if finite_graph)
    ultimately have "length (ms_comps ms') \<le> (n - 1) div sz"
      using comps_card [OF Cons.prems(1)] comps_card [OF e(1)] e(2) Cons.prems(4) by (auto simp: Un_absorb2)
    from Cons.IH [OF e(1) _ Cons.prems(3) this] e(2) Cons.prems(2) show ?thesis
      using Some short by (auto simp: Un_assoc split: option.splits)
  qed
qed

text \<open>C22: A process builds a model state in a portable memory of \<open>n\<close> bytes by any sequence of calls. With components of \<open>sz\<close> bytes the
  memory is good for \<open>(n - 1) div sz\<close> of them, one less than fit when \<open>n\<close> is a multiple of \<open>sz\<close>. The calls return exactly if all strings fit their
  buffers and the number of different identifiers and of different edges together is at most that; otherwise an assertion stops the process. If they
  return, the graph has exactly the nodes and edges that were added, each in one component.\<close>

theorem portable_memory_bound:
  assumes "0 < sz"
  defines "N cs \<equiv> \<Union> (call_nodes ` set cs)" and "Es cs \<equiv> \<Union> (call_edges ` set cs)"
  shows "case model_calls cs (init_model_state (Portable sz n)) of
      None \<Rightarrow> \<not> (list_all short_call cs \<and> card (N cs) + card (Es cs) \<le> (n - 1) div sz)
    | Some ms \<Rightarrow> list_all short_call cs \<and> card (N cs) + card (Es cs) \<le> (n - 1) div sz \<and> ms_wf ms \<and>
        dom (graph_nodes ms) = N cs \<and> graph_edges ms = Es cs \<and> length (ms_comps ms) = card (N cs) + card (Es cs)"
proof -
  have "length (ms_comps (init_model_state (Portable sz n))) \<le> (n - 1) div sz" "ms_mem (init_model_state (Portable sz n)) = Portable sz n"
    by (simp_all add: init_model_state_def)
  then show ?thesis unfolding N_def Es_def
    using model_calls_outcome [of "init_model_state (Portable sz n)" sz n cs] assms(1) comps_card by (auto split: option.splits)
qed

text \<open>The witness: in memory for two components, a PD and a file can be added, the PD also twice, but not an edge between them.\<close>

theorem portable_memory_bound_witness:
  "(\<exists>ms. model_calls [Add_Node GPI_NODE_TYPE_PD ''PD_3'' None True, Add_Node GPI_NODE_TYPE_RESOURCE ''FILE_7_2'' (Some ''FILE'') True,
     Add_Node GPI_NODE_TYPE_PD ''PD_3'' (Some ''fs'') True, Set_Extra 0 ''x''] (init_model_state (Portable 376 1000)) = Some ms \<and> length (ms_comps ms) = 2) \<and>
   model_calls [Add_Node GPI_NODE_TYPE_PD ''PD_3'' None True, Add_Node GPI_NODE_TYPE_RESOURCE ''FILE_7_2'' (Some ''FILE'') True,
     Add_Edge GPI_EDGE_TYPE_HOLD ''PD_3'' ''FILE_7_2'' 0] (init_model_state (Portable 376 1000)) = None"
    (is "(\<exists>ms. model_calls ?cs1 ?ms = Some ms \<and> _) \<and> model_calls ?cs2 _ = None")
proof
  have sz: "0 < (376::nat)" by simp
  have 1: "list_all short_call ?cs1" "\<Union> (call_nodes ` set ?cs1) = {''PD_3'', ''FILE_7_2''}" "\<Union> (call_edges ` set ?cs1) = {}"
    by (auto simp: CSV_MAX_STRING_SIZE_def)
  show "\<exists>ms. model_calls ?cs1 ?ms = Some ms \<and> length (ms_comps ms) = 2"
    using portable_memory_bound [OF sz, of ?cs1 1000] unfolding 1 by (cases "model_calls ?cs1 ?ms") (simp_all del: model_calls.simps add: CSV_MAX_STRING_SIZE_def)
  have 2: "\<Union> (call_nodes ` set ?cs2) = {''PD_3'', ''FILE_7_2''}"
    "\<Union> (call_edges ` set ?cs2) = {\<lparr>edge_type = GPI_EDGE_TYPE_HOLD, req_type = 0, edge_from = ''PD_3'', edge_to = ''FILE_7_2''\<rparr>}"
    by auto
  show "model_calls ?cs2 ?ms = None"
    using portable_memory_bound [OF sz, of ?cs2 1000] unfolding 2 by (cases "model_calls ?cs2 ?ms") (simp_all del: model_calls.simps)
qed

end
