(* ===== verification/Dump_Returns.thy ===== *)
theory Dump_Returns
  imports Model_Dump Model_Graph Component_Refs
begin

section \<open>The dump of a PD returns\<close>

text \<open>
  PDs may hold each other in cycles. The dump of a PD adds its node before it looks at what the PD holds, so a PD is entered at most once
  and a depth above the number of PDs is enough. The lemmas follow the code with a small calculus: \<open>returns m P\<close> says that the
  computation \<open>m\<close> returns a value with \<open>P\<close>; \<open>grows\<close> relates a model state to a later one, in which pointers to nodes are still valid.
\<close>

subsection \<open>Computations that return\<close>

definition returns :: "'a option \<Rightarrow> ('a \<Rightarrow> bool) \<Rightarrow> bool" where
  "returns m P \<longleftrightarrow> (\<exists>x. m = Some x \<and> P x)"

named_theorems returns_intros \<open>rules for computations that return\<close>

lemma returns_Some [returns_intros]: "P x \<Longrightarrow> returns (Some x) P"
  by (simp add: returns_def)

lemma returns_bind [returns_intros]: "returns m (\<lambda>x. returns (f x) P) \<Longrightarrow> returns (Option.bind m f) P"
  by (auto simp: returns_def)

lemma returns_assert [returns_intros]: "b \<Longrightarrow> P () \<Longrightarrow> returns (c_assert b) P"
  by (simp add: returns_def)

lemma returns_if [returns_intros]: "(b \<Longrightarrow> returns m P) \<Longrightarrow> (\<not> b \<Longrightarrow> returns m' P) \<Longrightarrow> returns (if b then m else m') P"
  by simp

lemma returns_case [returns_intros]:
  "returns m P \<Longrightarrow> returns (case None of None \<Rightarrow> m | Some y \<Rightarrow> f y) P"
  "returns (f x) P \<Longrightarrow> returns (case Some x of None \<Rightarrow> m | Some y \<Rightarrow> f y) P"
  by simp_all

lemma returns_option:
  "(x = None \<Longrightarrow> returns m P) \<Longrightarrow> (\<And>y. x = Some y \<Longrightarrow> returns (f y) P) \<Longrightarrow> returns (case x of None \<Rightarrow> m | Some y \<Rightarrow> f y) P"
  by (cases x) auto

lemma returns_prod [returns_intros]: "returns (f a b) P \<Longrightarrow> returns (case (a, b) of (x, y) \<Rightarrow> f x y) P"
  by simp

lemma returns_Let [returns_intros]: "(\<And>x. x = e \<Longrightarrow> returns (f x) P) \<Longrightarrow> returns (Let e f) P"
  by (simp add: Let_def)

lemma returns_mono: "returns m Q \<Longrightarrow> (\<And>x. Q x \<Longrightarrow> P x) \<Longrightarrow> returns m P"
  by (auto simp: returns_def)

subsection \<open>Growing model states\<close>

definition valid :: "model_state_t \<Rightarrow> nat \<Rightarrow> bool" where
  "valid ms a \<longleftrightarrow> (\<exists>n. node_at ms a = Some n)"

definition roomy :: "model_state_t \<Rightarrow> bool" where
  "roomy ms \<longleftrightarrow> ms_wf ms \<and> ms_mem ms = Heap (\<lambda>_. True)"

definition grows :: "model_state_t \<Rightarrow> model_state_t \<Rightarrow> bool" where
  "grows ms ms' \<longleftrightarrow> roomy ms' \<and> (\<forall>a. valid ms a \<longrightarrow> valid ms' a) \<and> dom (graph_nodes ms) \<subseteq> dom (graph_nodes ms') \<and> graph_edges ms \<subseteq> graph_edges ms'"

lemma grows_refl: "roomy ms \<Longrightarrow> grows ms ms" by (simp add: grows_def)

lemma grows_trans: "grows ms ms1 \<Longrightarrow> grows ms1 ms2 \<Longrightarrow> grows ms ms2" unfolding grows_def by blast

lemma grows_roomy: "grows ms ms' \<Longrightarrow> roomy ms'" by (simp add: grows_def)

lemma grows_valid: "grows ms ms' \<Longrightarrow> valid ms a \<Longrightarrow> valid ms' a" by (simp add: grows_def)

lemma node_id_short: "roomy ms \<Longrightarrow> node_at ms a = Some n \<Longrightarrow> length (node_id n) < CSV_MAX_STRING_SIZE"
  using nth_mem [of a "ms_comps ms"] by (force simp: roomy_def ms_wf_def unique_comps_def list_all_iff node_at_iff fits_def)

lemma add_node_valid:
  assumes "ms_wf ms" "add_node type i data ex ms = Some (a, ms')" "valid ms b"
  shows "valid ms' b"
  using assms(2,3) by (auto simp: valid_def node_at_iff add_node_def upd_node_def Let_def nth_append nth_list_update split: option.splits)

lemma add_node_grows:
  assumes "roomy ms" "length i < CSV_MAX_STRING_SIZE" "\<And>a ms'. grows ms ms' \<Longrightarrow> valid ms' a \<Longrightarrow> i \<in> dom (graph_nodes ms') \<Longrightarrow> P (a, ms')"
  shows "returns (add_node type i data ex ms) P"
proof -
  have w: "ms_wf ms" "ms_mem ms = Heap (\<lambda>_. True)" using assms(1) by (auto simp: roomy_def)
  obtain a ms' where r: "add_node type i data ex ms = Some (a, ms')" using add_node_returns [OF w(1) assms(2), of type data ex] w(2) by auto
  note g = add_node_graph [OF w(1) r]
  have "grows ms ms'" unfolding grows_def roomy_def using g w(2) add_node_valid [OF w(1) r] by auto
  moreover have "valid ms' a" "i \<in> dom (graph_nodes ms')" using g(2,4) by (simp_all add: valid_def)
  ultimately show ?thesis using r assms(3) by (simp add: returns_def)
qed

lemma add_edge_grows:
  assumes "roomy ms" "length i < CSV_MAX_STRING_SIZE" "length j < CSV_MAX_STRING_SIZE" "\<And>ms'. grows ms ms' \<Longrightarrow> P ms'"
  shows "returns (internal_add_edge_by_id type i j req ms) P"
proof -
  have w: "ms_wf ms" "ms_mem ms = Heap (\<lambda>_. True)" using assms(1) by (auto simp: roomy_def)
  obtain ms' where r: "internal_add_edge_by_id type i j req ms = Some ms'" using add_edge_returns [OF w(1) assms(2,3), of type req] w(2) by auto
  note g = add_edge_graph [OF w(1) r]
  have "grows ms ms'" unfolding grows_def roomy_def valid_def using g(1-4) g(6) w(2) by auto
  then show ?thesis using r assms(4) by (simp add: returns_def)
qed

lemma upd_node_valid: "valid ms a \<Longrightarrow> valid (upd_node b f ms) a"
proof (cases "node_at ms b")
  case (Some n)
  then have "upd_node b f ms = ms\<lparr>ms_comps := (ms_comps ms)[b := GPI_MODEL_NODE (f n)]\<rparr>" by (simp add: upd_node_def)
  then show "valid ms a \<Longrightarrow> ?thesis" by (cases "a = b") (auto simp: valid_def node_at_iff)
qed (simp add: upd_node_def)

lemma upd_node_grows:
  assumes "roomy ms" "valid ms a" "\<And>n. node_id (f n) = node_id n" "\<And>n. fits (GPI_MODEL_NODE n) \<Longrightarrow> fits (GPI_MODEL_NODE (f n))"
  shows "grows ms (upd_node a f ms)"
proof -
  obtain n where n: "node_at ms a = Some n" using assms(2) by (auto simp: valid_def)
  have w: "ms_wf ms" using assms(1) by (simp add: roomy_def)
  have "fits (GPI_MODEL_NODE n)" using w n nth_mem [of a "ms_comps ms"] by (force simp: ms_wf_def unique_comps_def list_all_iff node_at_iff)
  note u = ms_wf_update [OF w n, of f, OF assms(3) assms(4) [OF this]]
  show ?thesis using u assms(1) upd_node_valid [of ms _ a f] unfolding grows_def roomy_def by auto
qed

lemma mark_extracted_grows: "roomy ms \<Longrightarrow> valid ms a \<Longrightarrow> grows ms (mark_extracted a ms)"
  unfolding mark_extracted_def by (rule upd_node_grows) (auto simp: fits_def)

text \<open>The operations the dump uses, as rules.\<close>

lemma snprintf_short [simp]: "length (snprintf CSV_MAX_STRING_SIZE x) < CSV_MAX_STRING_SIZE"
  by (simp add: snprintf_def CSV_MAX_STRING_SIZE_def)

lemma get_pd_id_short [simp]: "length (get_pd_id p) < CSV_MAX_STRING_SIZE"
  by (simp add: get_pd_id_def make_node_id_def)

lemma returns_node_at [returns_intros]:
  "roomy ms \<Longrightarrow> valid ms a \<Longrightarrow> (\<And>n. node_at ms a = Some n \<Longrightarrow> length (node_id n) < CSV_MAX_STRING_SIZE \<Longrightarrow> P n) \<Longrightarrow> returns (node_at ms a) P"
  using node_id_short by (auto simp: returns_def valid_def)

lemma returns_add_edge [returns_intros]:
  assumes "roomy ms" "valid ms a" "valid ms b" "\<And>ms'. grows ms ms' \<Longrightarrow> P ms'"
  shows "returns (add_edge type a b ms) P"
  unfolding add_edge_def add_edge_private_def using assms by (auto intro!: returns_intros add_edge_grows)

lemma returns_add_edge_by_id [returns_intros]:
  assumes "roomy ms" "length i < CSV_MAX_STRING_SIZE" "length j < CSV_MAX_STRING_SIZE" "\<And>ms'. grows ms ms' \<Longrightarrow> P ms'"
  shows "returns (add_edge_by_id type i j ms) P" "returns (add_request_edge_by_id i j req ms) P"
  unfolding add_edge_by_id_def add_request_edge_by_id_def using assms by (auto intro!: add_edge_grows)

lemma returns_space_id [returns_intros]:
  "N t \<noteq> None \<Longrightarrow> (\<And>i. length i < CSV_MAX_STRING_SIZE \<Longrightarrow> P i) \<Longrightarrow> returns (get_resource_space_id N t sid) P"
  by (auto simp: get_resource_space_id_def returns_def make_node_id_def)

lemma returns_resource_id [returns_intros]:
  "N (res_type rid) \<noteq> None \<Longrightarrow> (\<And>i. length i < CSV_MAX_STRING_SIZE \<Longrightarrow> P i) \<Longrightarrow> returns (get_resource_id N rid) P"
  by (auto simp: get_resource_id_def returns_def make_node_id_2_def)

lemma returns_add_resource_node [returns_intros]:
  assumes "roomy ms" "N (res_type rid) \<noteq> None" "\<And>a ms'. grows ms ms' \<Longrightarrow> valid ms' a \<Longrightarrow> P (a, ms')"
  shows "returns (add_resource_node N rid ex ms) P"
  unfolding add_resource_node_def using assms by (auto intro!: returns_intros add_node_grows)

lemma returns_add_space_node [returns_intros]:
  assumes "roomy ms" "N t \<noteq> None" "\<And>a ms'. grows ms ms' \<Longrightarrow> valid ms' a \<Longrightarrow> P (a, ms')"
  shows "returns (add_resource_space_node N t sid ex ms) P"
  unfolding add_resource_space_node_def using assms by (auto intro!: returns_intros add_node_grows)

lemma returns_add_pd_node [returns_intros]:
  assumes "roomy ms" "\<And>a ms'. grows ms ms' \<Longrightarrow> valid ms' a \<Longrightarrow> get_pd_id pid \<in> dom (graph_nodes ms') \<Longrightarrow> P (a, ms')"
  shows "returns (add_pd_node nm pid ex ms) P"
  unfolding add_pd_node_def using assms by (auto intro!: add_node_grows)

lemma returns_root_node [returns_intros]:
  assumes "roomy ms" "\<And>a ms'. grows ms ms' \<Longrightarrow> valid ms' a \<Longrightarrow> P (a, ms')"
  shows "returns (get_root_node ms) P"
  unfolding get_root_node_def using assms by (auto intro!: returns_intros)

lemma root_node_added: "roomy ms \<Longrightarrow> \<exists>a ms'. get_root_node ms = Some (a, ms') \<and> grows ms ms' \<and> valid ms' a \<and> get_pd_id 0 \<in> dom (graph_nodes ms')"
  using returns_add_pd_node [of ms 0 "\<lambda>(a, ms'). grows ms ms' \<and> valid ms' a \<and> get_pd_id 0 \<in> dom (graph_nodes ms')"]
  unfolding get_root_node_def by (auto simp: returns_def)

lemma returns_extra [returns_intros]:
  assumes "roomy ms" "valid ms a" "length x < CSV_MAX_STRING_SIZE" "\<And>ms'. grows ms ms' \<Longrightarrow> P ms'"
  shows "returns (set_node_extra a x ms) P"
proof -
  have "grows ms (upd_node a (\<lambda>n. n\<lparr>node_data2 := strncpy x CSV_MAX_STRING_SIZE\<rparr>) ms)"
    by (rule upd_node_grows [OF assms(1,2)]) (use assms(3) in \<open>auto simp: fits_def strncpy_def\<close>)
  then show ?thesis using assms(3,4) by (simp add: set_node_extra_def returns_def)
qed

lemma get_node_valid: "roomy ms \<Longrightarrow> get_node ms i = Some a \<Longrightarrow> valid ms a"
  using get_node_Some [of ms i a] by (metis node_at_iff roomy_def valid_def)

lemma returns_get_resource_node [returns_intros]:
  assumes "roomy ms" "N (res_type rid) \<noteq> None" "P None" "\<And>a. valid ms a \<Longrightarrow> P (Some a)"
  shows "returns (get_resource_node N rid ms) P"
  using assms get_node_valid [OF assms(1)] by (auto simp: get_resource_node_def get_resource_id_def returns_def) (metis option.exhaust)

lemma returns_get_space_node [returns_intros]:
  assumes "roomy ms" "N t \<noteq> None" "P None" "\<And>a. valid ms a \<Longrightarrow> P (Some a)"
  shows "returns (get_resource_space_node N t sid ms) P"
  using assms get_node_valid [OF assms(1)] by (auto simp: get_resource_space_node_def get_resource_space_id_def returns_def) (metis option.exhaust)


subsection \<open>The objects\<close>

lemma grows_step: "grows ms1 ms2 \<Longrightarrow> grows ms ms1 \<Longrightarrow> grows ms ms2"
  by (rule grows_trans)

lemmas growth = grows_step grows_roomy grows_valid

lemma mark_extracted_step:
  assumes "grows ms ms1" "valid ms1 a" shows "grows ms (mark_extracted a ms1)"
  using mark_extracted_grows [OF grows_roomy [OF assms(1)] assms(2)] assms(1) by (rule grows_step)

lemma mark_extracted_valid: "valid ms a \<Longrightarrow> valid (mark_extracted b ms) a"
  unfolding mark_extracted_def by (rule upd_node_valid)

lemma mark_if:
  "roomy ms \<Longrightarrow> valid ms a \<Longrightarrow> roomy (if b then mark_extracted a ms else ms)"
  "valid ms c \<Longrightarrow> valid (if b then mark_extracted a ms else ms) c"
  "grows ms0 ms \<Longrightarrow> valid ms a \<Longrightarrow> grows ms0 (if b then mark_extracted a ms else ms)"
  by (auto intro: mark_extracted_valid mark_extracted_step grows_roomy mark_extracted_grows)

lemmas marking = mark_extracted_step mark_extracted_valid grows_refl mark_if

lemma res_type_make [simp]: "res_type (make_res_id t sp ob) = t"
  by (simp add: make_res_id_def)

text \<open>The names of the core types are registered.\<close>

definition core_named :: "type_namer \<Rightarrow> bool" where
  "core_named N \<longleftrightarrow> (\<forall>t \<in> {GPICAP_TYPE_ADS, GPICAP_TYPE_VMR, GPICAP_TYPE_MO, GPICAP_TYPE_CPU, GPICAP_TYPE_PCPU}. N t \<noteq> None)"

lemma core_namedD:
  assumes "core_named N"
  shows "N GPICAP_TYPE_ADS \<noteq> None" "N GPICAP_TYPE_VMR \<noteq> None" "N GPICAP_TYPE_MO \<noteq> None" "N GPICAP_TYPE_CPU \<noteq> None" "N GPICAP_TYPE_PCPU \<noteq> None"
  using assms by (auto simp: core_named_def)

lemma dump_regions_returns [returns_intros]:
  assumes "core_named (type_names_of s)" "roomy ms" "valid ms sp" "valid ms pn" "\<And>ms'. grows ms ms' \<Longrightarrow> P ms'"
  shows "returns (dump_regions E s aid sp pn rs ms) P"
  using assms(2-)
proof (induction rs arbitrary: ms)
  case Nil
  then show ?case by (auto intro!: returns_intros grows_refl)
next
  case (Cons r rs)
  note N = core_namedD [OF assms(1)]
  show ?case unfolding dump_regions.simps Let_def
    by (intro returns_intros Cons.IH)
      (assumption | rule Cons.prems N | erule growth | (simp add: N; fail))+
qed

lemma ads_dump_returns [returns_intros]:
  assumes "core_named (type_names_of s)" "roomy ms" "valid ms pn" "\<And>ms' a. grows ms ms' \<Longrightarrow> valid ms' a \<Longrightarrow> P (a, ms')"
  shows "returns (ads_dump_rr E s x pn ms) P"
proof -
  note N = core_namedD [OF assms(1)]
  show ?thesis unfolding ads_dump_rr_def Let_def
    by (intro returns_intros) (assumption | rule assms N | rule marking | erule growth | (simp add: N; fail))+
qed

lemma mo_dump_returns [returns_intros]:
  assumes "core_named (type_names_of s)" "roomy ms" "valid ms pn" "frame_paddrs x \<noteq> []"
    "\<And>ms' a. grows ms ms' \<Longrightarrow> valid ms' a \<Longrightarrow> P (a, ms')"
  shows "returns (mo_dump_rr s x pn ms) P"
proof -
  note N = core_namedD [OF assms(1)]
  show ?thesis unfolding mo_dump_rr_def mo_extra_def Let_def
    by (intro returns_intros) (assumption | rule assms N | rule marking | erule growth | (simp add: N; fail))+
qed

lemma cpu_dump_returns [returns_intros]:
  assumes "core_named (type_names_of s)" "roomy ms" "valid ms pn" "\<And>ms' a. grows ms ms' \<Longrightarrow> valid ms' a \<Longrightarrow> P (a, ms')"
  shows "returns (cpu_dump_rr E s x pn ms) P"
proof -
  note N = core_namedD [OF assms(1)]
  show ?thesis unfolding cpu_dump_rr_def Let_def
    by (intro returns_intros) (assumption | rule assms N | rule marking | erule growth | (simp add: N CSV_MAX_STRING_SIZE_def; fail))+
qed

text \<open>A resource space whose name is known and whose mapped spaces exist.\<close>

definition space_ok :: "'w gpi_server \<Rightarrow> res_space_t \<Rightarrow> bool" where
  "space_ok s x \<longleftrightarrow> type_names_of s (resource_type x) \<noteq> None \<and>
     (\<forall>y \<in> set (map_spaces x). \<exists>e. resource_space_get_entry_by_id y s = Some e \<and> type_names_of s (resource_type (space e)) \<noteq> None)"

lemma dump_map_spaces_returns [returns_intros]:
  assumes "\<forall>y \<in> set xs. \<exists>e. resource_space_get_entry_by_id y s = Some e \<and> type_names_of s (resource_type (space e)) \<noteq> None"
    "roomy ms" "valid ms sp" "\<And>ms'. grows ms ms' \<Longrightarrow> P ms'"
  shows "returns (dump_map_spaces s sp xs ms) P"
  using assms
proof (induction xs arbitrary: ms)
  case Nil
  then show ?case by (auto intro!: returns_intros grows_refl)
next
  case (Cons x xs)
  then obtain e where e: "resource_space_get_entry_by_id x s = Some e" "type_names_of s (resource_type (space e)) \<noteq> None" by auto
  have xs: "\<forall>y \<in> set xs. \<exists>e. resource_space_get_entry_by_id y s = Some e \<and> type_names_of s (resource_type (space e)) \<noteq> None" using Cons.prems(1) by simp
  show ?case unfolding dump_map_spaces.simps e
    by (intro returns_intros Cons.IH) (assumption | rule Cons.prems e xs | erule growth)+
qed

lemma resspc_dump_returns [returns_intros]:
  assumes "space_ok s x" "roomy ms" "\<And>ms' a. grows ms ms' \<Longrightarrow> valid ms' a \<Longrightarrow> P (a, ms')"
  shows "returns (resspc_dump_rr s x ms) P"
proof -
  note x = assms(1) [unfolded space_ok_def, THEN conjunct1] assms(1) [unfolded space_ok_def, THEN conjunct2]
  show ?thesis unfolding resspc_dump_rr_def Let_def
    by (intro returns_intros) (assumption | rule assms x | rule marking | erule growth)+
qed


subsection \<open>What a dump reads\<close>

text \<open>A dump changes the world, the queues of work and the counter of missing pieces, and nothing of what it reads.\<close>

definition pd_of :: "gpi_obj_id_t \<Rightarrow> 'w gpi_server \<Rightarrow> pd_t option" where
  "pd_of pid s = map_option pd (pd_component_registry_get_entry_by_id pid s)"

definition same_view :: "'w gpi_server \<Rightarrow> 'w gpi_server \<Rightarrow> bool" where
  "same_view s s' \<longleftrightarrow> ads_component s' = ads_component s \<and> mo_component s' = mo_component s \<and> cpu_component s' = cpu_component s \<and>
     resspc_component s' = resspc_component s \<and> resource_types s' = resource_types s \<and> rt_pd_id s' = rt_pd_id s \<and> (\<forall>pid. pd_of pid s' = pd_of pid s)"

lemma same_view_refl [simp]: "same_view s s" by (simp add: same_view_def)

lemma same_view_trans: "same_view s s1 \<Longrightarrow> same_view s1 s2 \<Longrightarrow> same_view s s2" by (simp add: same_view_def)

lemma pd_of_eq: "pd_of pid s = map_option pd (HASH_FIND (head (registry (pd_component s))) (ucast pid))"
  by (simp add: pd_of_def resource_component_registry_get_by_id_def resource_registry_get_by_id_def comp_reg_def)

lemma same_view_kern: "kern E c s = (r, s') \<Longrightarrow> same_view s s'" "same_view s (kern0 E c s)"
  by (auto simp: kern0_def kern_def same_view_def pd_of_eq split: prod.splits)

lemma find_pd_update:
  "(\<And>e. object_id (f e) = object_id e \<and> pd (f e) = pd e) \<Longrightarrow> map_option pd (HASH_FIND (node_update f xs k) i) = map_option pd (HASH_FIND xs i)"
  by (induction xs) (auto simp: HASH_FIND_def)

lemma queue_model_work_returns:
  assumes "pd_of manager s \<noteq> None"
  shows "returns (pd_component_queue_model_extraction_work E manager w s) (same_view s)"
proof -
  let ?s = "queue_work EXTRACT manager w s\<lparr>model_extraction_n_missing := model_extraction_n_missing s + 1\<rparr>"
  have v: "same_view s ?s"
    by (simp add: same_view_def queue_work_def entry_update_def pd_of_eq find_pd_update)
  then have "pd_of manager ?s \<noteq> None" using assms by (simp add: same_view_def)
  then obtain e where "pd_component_registry_get_entry_by_id manager ?s = Some e" by (auto simp: pd_of_def)
  then show ?thesis using same_view_trans [OF v same_view_kern(2)]
    by (simp add: pd_component_queue_model_extraction_work_def notify_pd_def returns_def)
qed

lemma queue_extraction_returns [returns_intros]:
  assumes "pd_of manager s \<noteq> None" "\<And>e s'. same_view s s' \<Longrightarrow> P (e, s')"
  shows "returns (queue_extraction E manager rid client s) P"
proof (cases "kern E (Obj Calloc) s")
  case (Pair r s1)
  have v: "same_view s s1" using same_view_kern(1) [OF Pair] .
  then have "pd_of manager s1 \<noteq> None" using assms(1) by (simp add: same_view_def)
  then obtain s2 where "pd_component_queue_model_extraction_work E manager \<lparr>work_res_id = rid, client_pd_id = client, is_critical = False\<rparr> s1 = Some s2"
    "same_view s s2" using queue_model_work_returns [of manager s1 E] same_view_trans [OF v] unfolding returns_def by blast
  then show ?thesis using assms(2) v Pair by (auto simp: queue_extraction_def returns_def)
qed

text \<open>What has to hold of a server for a dump to return: the names of types that are printed are registered, PDs have their
  shared data and the managers of the spaces in their directories are alive, and held memory objects have frames.\<close>

definition hold_ok :: "'w gpi_server \<Rightarrow> gpi_res_id_t \<Rightarrow> bool" where
  "hold_ok s rid \<longleftrightarrow>
     (res_type rid = GPICAP_TYPE_MO \<longrightarrow> res_space_id rid = comp_space_id (mo_component s) \<and>
        (\<forall>e. resource_component_registry_get_by_id mo_component (res_object_id rid) s = Some e \<longrightarrow> frame_paddrs (mo e) \<noteq> [])) \<and>
     (res_type rid = GPICAP_TYPE_RESSPC \<longrightarrow> (\<forall>e. resource_space_get_entry_by_id (res_object_id rid) s = Some e \<longrightarrow> space_ok s (space e))) \<and>
     type_names_of s (res_type rid) \<noteq> None \<and>
     (\<forall>e. resource_space_get_entry_by_id (res_space_id rid) s = Some e \<longrightarrow> type_names_of s (resource_type (space e)) \<noteq> None)"

definition rde_ok :: "'w gpi_server \<Rightarrow> osmosis_rde_t \<Rightarrow> bool" where
  "rde_ok s r \<longleftrightarrow> (\<forall>e. resource_space_get_entry_by_id (rde_space_id r) s = Some e \<longrightarrow> pd_of (space_pd_id (space e)) s \<noteq> None)"

definition dumpable :: "'w gpi_server \<Rightarrow> bool" where
  "dumpable s \<longleftrightarrow> core_named (type_names_of s) \<and> (\<forall>pid p. pd_of pid s = Some p \<longrightarrow> pd_id p = pid \<and>
     (pid \<noteq> 0 \<longrightarrow> shared_data p \<noteq> 0 \<and> (\<forall>r \<in> set (concat (rde (shared p))). rde_ok s r)) \<and> (\<forall>h \<in> set (head (hold_registry p)). hold_ok s (res_id h)))"

lemma dumpable_view:
  assumes "same_view s s'"
  shows "dumpable s' = dumpable s" "hold_ok s' = hold_ok s" "rde_ok s' = rde_ok s" "type_names_of s' = type_names_of s"
proof -
  have a: "type_names_of s' = type_names_of s" "pd_of pid s' = pd_of pid s" "resource_space_get_entry_by_id i s' = resource_space_get_entry_by_id i s"
    "resource_component_registry_get_by_id mo_component i s' = resource_component_registry_get_by_id mo_component i s" "mo_component s' = mo_component s" for pid i
    using assms by (simp_all add: same_view_def resource_component_registry_get_by_id_def comp_reg_def)
  show h: "hold_ok s' = hold_ok s" "rde_ok s' = rde_ok s" by (simp_all add: fun_eq_iff hold_ok_def rde_ok_def space_ok_def a)
  show "dumpable s' = dumpable s" by (simp add: dumpable_def a h)
  show "type_names_of s' = type_names_of s" by (rule a)
qed


subsection \<open>Protection domains\<close>

text \<open>The result of a part of the dump: an error, a grown model state and a server in which nothing that a dump reads has changed.\<close>

definition dumped_to :: "model_state_t \<Rightarrow> 'w gpi_server \<Rightarrow> int \<times> model_state_t \<times> 'w gpi_server \<Rightarrow> bool" where
  "dumped_to ms s = (\<lambda>(e, ms', s'). grows ms ms' \<and> same_view s s')"

lemma dumped_toI: "grows ms ms' \<Longrightarrow> same_view s s' \<Longrightarrow> dumped_to ms s (e, ms', s')"
  by (simp add: dumped_to_def)

lemma dumped_to_step:
  "dumped_to ms1 s1 (e, ms2, s2) \<Longrightarrow> grows ms ms1 \<Longrightarrow> same_view s s1 \<Longrightarrow> dumped_to ms s (e', ms2, s2)"
  by (auto simp: dumped_to_def intro: grows_trans same_view_trans)

lemma other_res_dump_returns:
  assumes "hold_ok s rid" "roomy ms" "valid ms pn"
  shows "returns (other_res_dump E pid rid pn ms s) (dumped_to ms s)"
proof -
  have N: "type_names_of s (res_type rid) \<noteq> None"
    "\<And>e. resource_space_get_entry_by_id (res_space_id rid) s = Some e \<Longrightarrow> type_names_of s (resource_type (space e)) \<noteq> None"
    using assms(1) by (auto simp: hold_ok_def)
  show ?thesis unfolding other_res_dump_def Let_def
    by (intro returns_intros returns_option)
      (assumption | rule assms N same_view_refl dumped_toI marking | erule growth | (simp add: pd_of_def; fail))+
qed


lemma returns_dumped:
  "returns m (dumped_to ms s) \<Longrightarrow> (\<And>e ms' s'. dumped_to ms s (e, ms', s') \<Longrightarrow> P (e, ms', s')) \<Longrightarrow> returns m P"
  by (auto simp: returns_def)

lemma res_dump_returns:
  assumes "hold_ok s (res_id h)" "core_named (type_names_of s)" "roomy ms" "valid ms pn"
    and dump: "\<And>p. pd_of p s \<noteq> None \<Longrightarrow> returns (dump p ms s) (dumped_to ms s)"
  shows "returns (res_dump E dump pid pn h ms s) (dumped_to ms s)"
proof -
  have h: "res_type (res_id h) = GPICAP_TYPE_MO \<Longrightarrow> res_space_id (res_id h) = comp_space_id (mo_component s)"
    "\<And>e. res_type (res_id h) = GPICAP_TYPE_MO \<Longrightarrow> resource_component_registry_get_by_id mo_component (res_object_id (res_id h)) s = Some e \<Longrightarrow> frame_paddrs (mo e) \<noteq> []"
    "\<And>e. res_type (res_id h) = GPICAP_TYPE_RESSPC \<Longrightarrow> resource_space_get_entry_by_id (res_object_id (res_id h)) s = Some e \<Longrightarrow> space_ok s (space e)"
    using assms(1) by (auto simp: hold_ok_def)
  have d: "returns (Option.bind (dump p ms s) (\<lambda>(_, ms, s). Some (0, ms, s))) (dumped_to ms s)" if "pd_of p s \<noteq> None" for p
    using dump [OF that] by (auto simp: returns_def dumped_to_def)
  show ?thesis unfolding res_dump_def Let_def
    by (intro d other_res_dump_returns returns_intros returns_option)
      (assumption | rule assms h same_view_refl dumped_toI marking | erule growth | (simp add: pd_of_def; fail))+
qed

lemma dump_holds_returns:
  assumes "\<forall>h \<in> set hs. hold_ok s (res_id h)" "core_named (type_names_of s)" "roomy ms" "valid ms pn"
    and dump: "\<And>p ms1 s1. grows ms ms1 \<Longrightarrow> same_view s s1 \<Longrightarrow> pd_of p s1 \<noteq> None \<Longrightarrow> returns (dump p ms1 s1) (dumped_to ms1 s1)"
  shows "returns (dump_holds E dump pid pn hs ms s) (dumped_to ms s)"
  using assms
proof (induction hs arbitrary: ms s)
  case Nil
  then show ?case by (auto intro!: returns_intros dumped_toI grows_refl)
next
  case (Cons h hs)
  have "returns (res_dump E dump pid pn h ms s) (dumped_to ms s)"
    using Cons.prems grows_refl [OF Cons.prems(3)] by (intro res_dump_returns) auto
  then obtain e ms1 s1 where 1: "res_dump E dump pid pn h ms s = Some (e, ms1, s1)" "grows ms ms1" "same_view s s1"
    by (auto simp: returns_def dumped_to_def)
  have "returns (dump_holds E dump pid pn hs ms1 s1) (dumped_to ms1 s1)"
    using Cons.prems 1(2,3) dumpable_view [OF 1(3)] grows_trans [OF 1(2)] same_view_trans [OF 1(3)]
    by (intro Cons.IH) (auto intro: grows_roomy grows_valid)
  then show ?case using 1 by (auto simp: returns_def intro: dumped_toI dumped_to_step)
qed

lemma dump_rdes_returns:
  assumes "\<forall>r \<in> set rs. rde_ok s r" "roomy ms" "valid ms pn"
  shows "returns (dump_rdes E pid pn rs ms s) (dumped_to ms s)"
  using assms
proof (induction rs arbitrary: ms s)
  case Nil
  then show ?case by (auto intro!: returns_intros dumped_toI grows_refl)
next
  case (Cons r rs)
  have "returns (dump_rdes E pid pn rs ms1 s1) (dumped_to ms s)" if "grows ms ms1" "same_view s s1" for ms1 s1
  proof -
    have "returns (dump_rdes E pid pn rs ms1 s1) (dumped_to ms1 s1)"
      using Cons.prems that dumpable_view [OF that(2)] by (intro Cons.IH) (auto intro: grows_roomy grows_valid)
    then show ?thesis using that by (auto intro: returns_dumped dumped_to_step)
  qed
  note step = this
  have m: "resource_space_get_entry_by_id (rde_space_id r) s = Some e \<Longrightarrow> pd_of (space_pd_id (space e)) s \<noteq> None" for e
    using Cons.prems(1) by (auto simp: rde_ok_def)
  show ?case unfolding dump_rdes.simps
    by (intro step returns_intros returns_option)
      (assumption | rule Cons.prems m same_view_refl dumped_toI marking get_pd_id_short | erule growth)+
qed

text \<open>The PDs whose node is missing.\<close>

definition undumped :: "'w gpi_server \<Rightarrow> model_state_t \<Rightarrow> gpi_obj_id_t set" where
  "undumped s ms = {p. pd_of p s \<noteq> None \<and> get_pd_id p \<notin> dom (graph_nodes ms)}"

lemma undumped_less:
  assumes "grows ms ms1" "same_view s s1" "pd_of p s \<noteq> None" "get_pd_id p \<notin> dom (graph_nodes ms)" "get_pd_id p \<in> dom (graph_nodes ms1)"
  shows "card (undumped s1 ms1) < card (undumped s ms)"
proof (rule psubset_card_mono)
  show "undumped s1 ms1 \<subset> undumped s ms"
    using assms by (auto simp: undumped_def grows_def same_view_def)
qed simp

lemma pd_dump_internal_returns:
  assumes "dumpable s" "roomy ms" "card (undumped s ms) < n" "pd_of pid s \<noteq> None" "get_pd_id 0 \<in> dom (graph_nodes ms)"
  shows "returns (pd_dump_internal E n pid ms s) (\<lambda>r. dumped_to ms s r \<and> get_pd_id pid \<in> dom (graph_nodes (fst (snd r))))"
  using assms
proof (induction n arbitrary: pid ms s)
  case (Suc n)
  obtain p where p: "pd_of pid s = Some p" using Suc.prems(4) by auto
  then obtain e where e: "pd_component_registry_get_entry_by_id pid s = Some e" "pd e = p" by (auto simp: pd_of_def)
  have id: "pd_id p = pid" using Suc.prems(1) p by (auto simp: dumpable_def)
  show ?case
  proof (cases "get_pd_node pid ms")
    case (Some a)
    then have "get_pd_id pid \<in> dom (graph_nodes ms)"
      using get_node_None [of ms "get_pd_id pid"] Suc.prems(2) by (auto simp: get_pd_node_def roomy_def)
    then show ?thesis using Some e id grows_refl [OF Suc.prems(2)] by (simp add: returns_def dumped_to_def)
  next
    case None
    then have new: "get_pd_id pid \<notin> dom (graph_nodes ms)"
      using get_node_None [of ms] Suc.prems(2) by (auto simp: get_pd_node_def roomy_def)
    then have "pid \<noteq> 0" using Suc.prems(5) by blast
    then have ok: "pd_id p = pid" "shared_data p \<noteq> 0" "\<forall>r \<in> set (concat (rde (shared p))). rde_ok s r" "\<forall>h \<in> set (head (hold_registry p)). hold_ok s (res_id h)"
      "core_named (type_names_of s)" using Suc.prems(1) p by (auto simp: dumpable_def)
    obtain a ms1 where 1: "add_pd_node (pd_name p) pid True ms = Some (a, ms1)" "grows ms ms1" "valid ms1 a" "get_pd_id pid \<in> dom (graph_nodes ms1)"
      using returns_add_pd_node [OF Suc.prems(2), of pid "\<lambda>(a, ms1). grows ms ms1 \<and> valid ms1 a \<and> get_pd_id pid \<in> dom (graph_nodes ms1)" "pd_name p" True]
      by (auto simp: returns_def)
    obtain e2 ms2 s2 where 2: "dump_rdes E pid a (concat (rde (shared p))) ms1 s = Some (e2, ms2, s2)" "grows ms1 ms2" "same_view s s2"
      using dump_rdes_returns [OF ok(3) grows_roomy [OF 1(2)] 1(3), of E pid] by (auto simp: returns_def dumped_to_def)
    have g: "grows ms ms2" using 1(2) 2(2) by (rule grows_trans)
    have "returns (pd_dump_internal E n q ms3 s3) (dumped_to ms3 s3)" if "grows ms2 ms3" "same_view s2 s3" "pd_of q s3 \<noteq> None" for q ms3 s3
    proof -
      have v: "same_view s s3" "grows ms ms3" using 2(3) that(2) g that(1) by (auto intro: same_view_trans grows_trans)
      have root: "get_pd_id 0 \<in> dom (graph_nodes ms3)" using Suc.prems(5) v(2) unfolding grows_def by blast
      have "get_pd_id pid \<in> dom (graph_nodes ms3)" using 1(4) 2(2) that(1) unfolding grows_def by blast
      then have "card (undumped s3 ms3) < n" using undumped_less [OF v(2,1) Suc.prems(4) new] Suc.prems(3) by simp
      then have "returns (pd_dump_internal E n q ms3 s3) (\<lambda>r. dumped_to ms3 s3 r \<and> get_pd_id q \<in> dom (graph_nodes (fst (snd r))))"
        using Suc.prems(1) dumpable_view(1) [OF v(1)] grows_roomy [OF v(2)] that(3) root by (intro Suc.IH) simp_all
      then show ?thesis by (rule returns_mono) simp
    qed
    then have "returns (dump_holds E (pd_dump_internal E n) pid a (head (hold_registry p)) ms2 s2) (dumped_to ms2 s2)"
      using ok(4,5) dumpable_view [OF 2(3)] grows_roomy [OF g] grows_valid [OF 2(2) 1(3)] by (intro dump_holds_returns) auto
    then obtain e3 ms3 s3 where 3: "dump_holds E (pd_dump_internal E n) pid a (head (hold_registry p)) ms2 s2 = Some (e3, ms3, s3)" "dumped_to ms2 s2 (e3, ms3, s3)"
      by (auto simp: returns_def)
    have "dumped_to ms s (e', ms3, s3)" "dumped_to ms s (e2, ms2, s2)" for e' using dumped_to_step [OF 3(2) g 2(3)] g 2(3) by (auto intro: dumped_toI)
    moreover have "get_pd_id pid \<in> dom (graph_nodes ms2)" "get_pd_id pid \<in> dom (graph_nodes ms3)"
      using 1(4) 2(2) 3(2) unfolding dumped_to_def grows_def prod.case by blast+
    ultimately show ?thesis using e ok(1,2) None 1(1) 2(1) 3(1) by (simp add: returns_def)
  qed
qed simp



definition holds_pd :: "gpi_obj_id_t \<Rightarrow> pd_t \<Rightarrow> pd_t" where
  "holds_pd q p = p\<lparr>hold_registry := (hold_registry p)\<lparr>head := [\<lparr>object_id = ucast q, count = 1, slot_in_PD_Debug = 0, slot_in_RT_Debug = 0,
     slot_in_ServerPD_Debug = 0, res_id = make_res_id GPICAP_TYPE_PD 2 q\<rparr>]\<rparr>\<rparr>"

text \<open>The root task's PD as the server makes it, and two PDs that hold each other.\<close>

definition root_entry :: pd_component_registry_entry_t where
  "root_entry = pd_entry 0 (\<lambda>p. p\<lparr>shared_data := 0\<rparr>)"

definition cyclic_server :: "kcall list gpi_server" where
  "cyclic_server = (server_with [])\<lparr>resource_types := the resource_types_initialize,
     pd_component := (started_component GPICAP_TYPE_PD 2)\<lparr>registry := (resource_registry_initialize 0xFFFFE)
       \<lparr>head := [root_entry, pd_entry 1 (holds_pd 2), pd_entry 2 (holds_pd 1)]\<rparr>\<rparr>\<rparr>"

lemma cyclic_pds: "pd_of p cyclic_server = (if p = 0 then Some (pd root_entry) else if p = 1 then Some (pd (pd_entry 1 (holds_pd 2)))
    else if p = 2 then Some (pd (pd_entry 2 (holds_pd 1))) else None)"
  by (auto simp: pd_of_eq cyclic_server_def root_entry_def HASH_FIND_def pd_entry_def)

lemma cyclic_names: "core_named (type_names_of cyclic_server)" "type_names_of cyclic_server GPICAP_TYPE_PD \<noteq> None"
  by (simp_all add: core_named_def cap_type_to_str_def resource_registry_get_by_id_def HASH_FIND_def cyclic_server_def resource_types_initialize_def insert_resource_type_def
    strncpy_def resource_registry_insert_def resource_registry_initialize_def HASH_ADD_def cap_type_defs badge_const_defs)

lemma cyclic_dumpable: "dumpable cyclic_server"
proof -
  have sp: "resource_space_get_entry_by_id i cyclic_server = None" for i
    by (simp add: resource_component_registry_get_by_id_def resource_registry_get_by_id_def HASH_FIND_def cyclic_server_def server_with_def started_component_def resource_registry_initialize_def)
  have "hold_ok cyclic_server (make_res_id GPICAP_TYPE_PD 2 q)" for q
    using cyclic_names(2) sp by (simp add: hold_ok_def cap_type_defs)
  then show ?thesis using cyclic_names(1) sp
    by (auto simp: dumpable_def cyclic_pds rde_ok_def root_entry_def pd_entry_def holds_pd_def blank_pd_def resource_registry_initialize_def split: if_splits)
qed


end
