(* ===== verification/Resource_Server.thy ===== *)
theory Resource_Server
  imports Ramdisk
begin

section \<open>Resource servers (resource\_server\_utils.c)\<close>

text \<open>
  What every resource server outside of the root task uses: creating and giving resources, new resource spaces, the exchange of
  model states, and the main loop. The requests to the root task are answered by the environment of theory Ramdisk, which also has
  \<open>resource_server_attach_mo\<close> and \<open>resource_server_unattach\<close>.

  The loop is given the handlers of a server as parameters, as in the source. A turn of the loop waits for one message: a notification of
  the root task, after which the server fetches work until there is none, or a request of a client. What is received is an argument.
\<close>

subsection \<open>Resources and spaces\<close>

definition resource_server_create_resource :: "'w rd_env \<Rightarrow> gpi_space_id_t \<Rightarrow> gpi_obj_id_t \<Rightarrow> 'w \<Rightarrow> int \<times> 'w" where
  "resource_server_create_resource E sid oid w = (let ((e, _), w) = rt E (Create_in sid oid) w in (e, w))"

definition resource_server_give_resource ::
    "'w rd_env \<Rightarrow> gpi_space_id_t \<Rightarrow> gpi_obj_id_t \<Rightarrow> gpi_obj_id_t \<Rightarrow> 'w \<Rightarrow> int \<times> u64 \<times> 'w" where
  "resource_server_give_resource E sid oid client w = (let ((e, dest), w) = rt E (Give_resource sid oid client) w in (e, dest, w))"

text \<open>The error, and on success the ID and the type of the space. An error of the request becomes -1.\<close>

definition resource_server_new_res_space :: "'w rd_env \<Rightarrow> gpi_obj_id_t \<Rightarrow> 'w \<Rightarrow> int \<times> (gpi_space_id_t \<times> gpi_cap_t) option \<times> 'w" where
  "resource_server_new_res_space E client w = (
     let ((e, sid), w) = rt E (New_space client) w in
     if e \<noteq> 0 then (-1, None, w)
     else let ((_, type), w) = rt E New_space_type w in (0, Some (ucast sid, ucast type), w))"

subsection \<open>Model extraction\<close>

text \<open>\<open>csz\<close> and \<open>msz\<close> are the sizes of a component and of the header of a model state.\<close>

definition resource_server_extraction_setup :: "'w rd_env \<Rightarrow> nat \<Rightarrow> nat \<Rightarrow> nat \<Rightarrow> 'w \<Rightarrow> int \<times> u64 \<times> model_state_t option \<times> 'w" where
  "resource_server_extraction_setup E csz msz npages w = (
     let ((e, mo_cap), w) = rt E (Mo_connect (of_nat npages)) w in
     if e \<noteq> 0 then (-1, 0, None, w)
     else let (e, va, w) = resource_server_attach_mo E mo_cap w in
       if e \<noteq> 0 then (-1, va, None, w)
       else (0, va, Some (init_model_state (Portable csz (4096 * npages - msz))), w))"

definition resource_server_extraction_finish :: "'w rd_env \<Rightarrow> u64 \<Rightarrow> model_state_t \<Rightarrow> nat \<Rightarrow> 'w \<Rightarrow> int \<times> 'w" where
  "resource_server_extraction_finish E va ms n_requests w = (
     let ((e, _), w) = rt E (Send_subgraph (ms_comps (clean_model_state ms)) n_requests) w in
     if e \<noteq> 0 then (-1, w)
     else let (e, w) = resource_server_unattach E va w in
       if e \<noteq> 0 then (-1, w)
       else let ((e, _), w) = rt E Mo_disconnect w in (if e \<noteq> 0 then -1 else 0, w))"

definition resource_server_extraction_no_data :: "'w rd_env \<Rightarrow> nat \<Rightarrow> 'w \<Rightarrow> int \<times> 'w" where
  "resource_server_extraction_no_data E n_requests w = (let ((e, _), w) = rt E (Send_subgraph_no_data n_requests) w in (e, w))"

subsection \<open>The main loop\<close>

text \<open>A piece of work: the action and, for every item, the space, the object and the client PD. An unknown action is \<open>None\<close>.\<close>

type_synonym work_items = "(gpi_space_id_t \<times> gpi_obj_id_t \<times> gpi_obj_id_t) list"
type_synonym work = "PdWorkAction option \<times> work_items"

text \<open>A server: its state, how it asks for work (an error or the work, \<open>None\<close> when there is none), and its handlers.\<close>

record ('s, 'm, 'r) server_code =
  srv_rt :: "rt_call \<Rightarrow> 's \<Rightarrow> (int \<times> u64) \<times> 's"
  get_work :: "'s \<Rightarrow> (int \<times> work option) \<times> 's"
  init_fn :: "'s \<Rightarrow> (int \<times> 's) option"
  request_handler :: "'m \<Rightarrow> u64 \<Rightarrow> u64 \<Rightarrow> 's \<Rightarrow> ('r \<times> bool \<times> 's) option"
  work_handler :: "work \<Rightarrow> 's \<Rightarrow> (int \<times> 's) option"

text \<open>The inner loop: whether the server goes on. The error of a handler is ignored.\<close>

partial_function (option) work_loop :: "('s, 'm, 'r) server_code \<Rightarrow> 's \<Rightarrow> (bool \<times> 's) option" where
  [code]: "work_loop C s = (let ((e, w), s) = get_work C s in
     if e \<noteq> 0 then Some (False, s)
     else (case w of None \<Rightarrow> Some (True, s)
       | Some x \<Rightarrow> do { (_, s) \<leftarrow> work_handler C x s; work_loop C s }))"

text \<open>One turn: the message is \<open>None\<close> when it cannot be decoded, which fails an assertion. The reply is sent before the
  receive slot is cleared.\<close>

definition resource_server_turn :: "('s, 'm, 'r) server_code \<Rightarrow> u64 \<Rightarrow> 'm option \<Rightarrow> u64 \<Rightarrow> 's \<Rightarrow> (bool \<times> 'r option \<times> 's) option" where
  "resource_server_turn C badge msg recv_slot s =
     (if badge = NOTIF_BADGE then do { (go, s) \<leftarrow> work_loop C s; Some (go, None, s) }
      else do {
        m \<leftarrow> msg;
        (reply, need_new_receive_slot, s) \<leftarrow> request_handler C m badge recv_slot s;
        if need_new_receive_slot then
          (let ((e, _), s) = srv_rt C (Clear_slot recv_slot) s in Some (e = 0, Some reply, s))
        else Some (True, Some reply, s) })"

text \<open>What happens before the loop: the default space, the initialization of the server, the receive slot and the message to the parent. \<open>set_space\<close> stores
  the ID and the type of the default space.\<close>

definition resource_server_startup ::
    "('s, 'm, 'r) server_code \<Rightarrow> gpi_obj_id_t \<Rightarrow> (gpi_space_id_t \<Rightarrow> gpi_cap_t \<Rightarrow> 's \<Rightarrow> 's) \<Rightarrow> 's \<Rightarrow> (u64 option \<times> 's) option" where
  "resource_server_startup C parent set_space s = (
     let ((e, sid), s) = srv_rt C (New_space parent) s in
     if e \<noteq> 0 then Some (None, s)
     else let ((_, type), s) = srv_rt C New_space_type s; s = set_space (ucast sid) (ucast type) s in do {
       (e, s) \<leftarrow> init_fn C s;
       if e \<noteq> 0 then Some (None, s)
       else let ((e, slot), s) = srv_rt C Next_slot s in
         if e \<noteq> 0 then Some (None, s)
         else let (_, s) = srv_rt C (Tell_parent (ucast sid)) s in Some (Some slot, s) })"

end
