(* ===== verification/Fs_Server.thy ===== *)
theory Fs_Server
  imports Xv6_Open Xv6_Mkfs Resource_Server Resource_Component
begin

section \<open>The file server (apps/xv6fs/src/fs\_server/fs\_server.c)\<close>

text \<open>
  A resource server whose resources are open files. It keeps a registry of the open files and one of namespaces, which are
  directories of the file system with a resource space of their own, and uses the blocks of the block server as its disk. The
  requests and the work of the root task are composed from the file system calls of theories Xv6_Dirs and Xv6_Open, the registries and
  the functions for resource servers of theory Resource_Server.

  The world is shared with the block server: it answers the calls of both to the root task. Memory of clients that is
  attached to the server is read and written through it. \<open>malloc\<close> of a file structure and of other structures, the names of resource
  types and the directory of the server's own PD are parameters as well. \<open>None\<close> is a panic, a failed assertion or a fault.
\<close>

subsection \<open>Data\<close>

record file_registry_entry_t = resource_registry_node_t +
  reg_file :: nat

record fs_namespace_entry_t = resource_registry_node_t +
  res_space_conn :: gpi_space_id_t
  ns_prefix :: path

record 'w xv6fs_server_context_t = "'w fs_disk ofs" +
  fs_type :: gpi_cap_t
  fs_default_space :: gpi_space_id_t
  file_registry :: "file_registry_entry_t resource_registry_t"
  ns_registry :: "fs_namespace_entry_t resource_registry_t"
  block_ids :: "gpi_obj_id_t list"
  block_space :: gpi_space_id_t

record 'w fs_env =
  own_rt :: "'w rd_env"
  disk_rt :: "'w rd_env"
  file_mem :: file_malloc
  entry_malloc :: "'w \<Rightarrow> bool"
  mo_load :: "u64 \<Rightarrow> 'w \<Rightarrow> nat \<Rightarrow> u8"
  mo_store :: "u64 \<Rightarrow> u8 list \<Rightarrow> 'w \<Rightarrow> 'w"
  mo_store_stat :: "u64 \<Rightarrow> stat \<Rightarrow> 'w \<Rightarrow> 'w"
  fs_names :: type_namer
  own_pd :: gpi_obj_id_t
  block_type :: gpi_cap_t
  block_default_space :: gpi_space_id_t
  can_request_blocks :: "'w \<Rightarrow> bool"
  rd_ep_badge :: u64
  rd_recv_slot :: u64
  slot_badge :: "u64 \<Rightarrow> 'w \<Rightarrow> u64"
  stack_junk :: block
  component_size :: nat
  model_state_size :: nat

definition MAXPATH :: nat where "MAXPATH = 128"
definition FS_RPC_MAGIC :: u64 where "FS_RPC_MAGIC = 0x4653"
definition FsError_UNKNOWN :: int where "FsError_UNKNOWN = 11"
definition FsError_BADGE :: int where "FsError_BADGE = 12"
definition FsError_NO_FILE :: int where "FsError_NO_FILE = 13"
definition FsError_NO_NS :: int where "FsError_NO_NS = 14"

text \<open>Calls to the root task.\<close>

definition fs_world :: "'w xv6fs_server_context_t \<Rightarrow> 'w" where
  "fs_world s = rd_world (ram (disk s))"

definition set_world :: "'w \<Rightarrow> 'w xv6fs_server_context_t \<Rightarrow> 'w xv6fs_server_context_t" where
  "set_world w s = s\<lparr>disk := (disk s)\<lparr>ram := (ram (disk s))\<lparr>rd_world := w\<rparr>\<rparr>\<rparr>"

definition fs_rt :: "'w fs_env \<Rightarrow> rt_call \<Rightarrow> 'w xv6fs_server_context_t \<Rightarrow> (int \<times> u64) \<times> 'w xv6fs_server_context_t" where
  "fs_rt E c s = (let (r, w) = rt (own_rt E) c (fs_world s) in (r, set_world w s))"

abbreviation fs_disk_ops :: "'w fs_env \<Rightarrow> 'w fs_disk disk_ops" where
  "fs_disk_ops E \<equiv> ram_ops (disk_rt E)"

subsection \<open>Namespaces\<close>

definition path_of :: "string \<Rightarrow> path" where
  "path_of cs = map of_char cs"

definition make_ns_prefix :: "gpi_space_id_t \<Rightarrow> path" where
  "make_ns_prefix nsid = take (MAXPATH - 1) (path_of (''/ns'' @ decimal (unat nsid)))"

definition apply_prefix :: "path \<Rightarrow> path \<Rightarrow> path" where
  "apply_prefix prefix p = take (MAXPATH - 1) (if p \<noteq> [] \<and> hd p = slash then prefix @ p else prefix @ slash # p)"

text \<open>The space and the path that a path means on an endpoint of space \<open>ns_id\<close>; \<open>None\<close> if there is no such namespace.\<close>

definition path_in_ns :: "gpi_space_id_t \<Rightarrow> path \<Rightarrow> 'w xv6fs_server_context_t \<Rightarrow> (gpi_space_id_t \<times> path) option" where
  "path_in_ns ns_id p s =
     (if ns_id = fs_default_space s then Some (fs_default_space s, p)
      else map_option (\<lambda>ns. (res_space_conn ns, apply_prefix (ns_prefix ns) p)) (resource_registry_get_by_id (ns_registry s) (ucast ns_id)))"

subsection \<open>Registries\<close>

text \<open>The loop over the namespaces stops at the first error.\<close>

fun delete_in_namespaces :: "'w fs_env \<Rightarrow> gpi_obj_id_t \<Rightarrow> fs_namespace_entry_t list \<Rightarrow> 'w xv6fs_server_context_t \<Rightarrow> 'w xv6fs_server_context_t" where
  "delete_in_namespaces E inum [] s = s"
| "delete_in_namespaces E inum (ns # nss) s = (let ((e, _), s) = fs_rt E (Delete_in (res_space_conn ns) inum) s in
     if e \<noteq> 0 then s else delete_in_namespaces E inum nss s)"

definition file_registry_entry_on_delete :: "'w fs_env \<Rightarrow> file_registry_entry_t \<Rightarrow> 'w xv6fs_server_context_t \<Rightarrow> 'w xv6fs_server_context_t option" where
  "file_registry_entry_on_delete E node s = do {
     (_, s) \<leftarrow> xv6fs_sys_fileclose (fs_disk_ops E) (reg_file node) s;
     let inum = ucast (object_id node);
     let ((e, _), s) = fs_rt E (Delete_in (fs_default_space s) inum) s;
     Some (if e \<noteq> 0 then s else delete_in_namespaces E inum (head (ns_registry s)) s) }"

definition ns_registry_entry_on_delete :: "fs_namespace_entry_t \<Rightarrow> 'w xv6fs_server_context_t \<Rightarrow> 'w xv6fs_server_context_t option" where
  "ns_registry_entry_on_delete node s = Some s"

definition file_entry_dec :: "'w fs_env \<Rightarrow> file_registry_entry_t \<Rightarrow> 'w xv6fs_server_context_t \<Rightarrow> 'w xv6fs_server_context_t option" where
  "file_entry_dec E n s =
     resource_registry_dec file_registry (\<lambda>r. file_registry_update (\<lambda>_. r)) (Some (file_registry_entry_on_delete E)) n s"

definition file_entry_delete :: "'w fs_env \<Rightarrow> file_registry_entry_t \<Rightarrow> 'w xv6fs_server_context_t \<Rightarrow> 'w xv6fs_server_context_t option" where
  "file_entry_delete E n s =
     resource_registry_delete file_registry (\<lambda>r. file_registry_update (\<lambda>_. r)) (Some (file_registry_entry_on_delete E)) n s"

definition destroy_ns :: "'w fs_env \<Rightarrow> gpi_space_id_t \<Rightarrow> bool \<Rightarrow> 'w xv6fs_server_context_t \<Rightarrow> (int \<times> 'w xv6fs_server_context_t) option" where
  "destroy_ns E ns_id notify_rt s = (case resource_registry_get_by_id (ns_registry s) (ucast ns_id) of
     None \<Rightarrow> Some (FsError_NO_NS, s)
   | Some ns \<Rightarrow> do {
       (e, s) \<leftarrow> xv6fs_sys_rmdir (fs_disk_ops E) (ns_prefix ns) True s;
       if e \<noteq> 0 then Some (FsError_UNKNOWN, s)
       else do {
         let (e, s) = (if notify_rt then let ((e, _), s) = fs_rt E (Destroy_space (res_space_conn ns)) s in (e, s) else (0, s));
         if e \<noteq> 0 then Some (FsError_UNKNOWN, s)
         else do {
           s \<leftarrow> resource_registry_delete ns_registry (\<lambda>r. ns_registry_update (\<lambda>_. r)) (Some ns_registry_entry_on_delete) ns s;
           Some (0, s) } } })"

definition delete_file :: "'w fs_env \<Rightarrow> gpi_obj_id_t \<Rightarrow> 'w xv6fs_server_context_t \<Rightarrow> 'w xv6fs_server_context_t option" where
  "delete_file E inum s = (case resource_registry_get_by_id (file_registry s) (ucast inum) of
     None \<Rightarrow> Some s | Some n \<Rightarrow> file_entry_delete E n s)"

subsection \<open>Requests without an object\<close>

datatype fs_message = Fs_create u64 path | Fs_link path | Fs_read u32 u32 | Fs_write u32 u32 | Fs_close | Fs_unlink path | Fs_stat | Fs_ns | Fs_delete_ns | Fs_none
datatype fs_reply = Fs_basic | Fs_slot u64 | Fs_n u32 | Fs_space gpi_space_id_t

type_synonym 'w fs_result = "(int \<times> fs_reply \<times> bool \<times> 'w xv6fs_server_context_t) option"

definition fs_new_namespace :: "'w fs_env \<Rightarrow> u64 \<Rightarrow> 'w xv6fs_server_context_t \<Rightarrow> 'w fs_result" where
  "fs_new_namespace E badge s = (
     let (e, r, w) = resource_server_new_res_space (own_rt E) (get_client_id_from_badge badge) (fs_world s); s = set_world w s in
     case r of None \<Rightarrow> Some (FsError_UNKNOWN, Fs_basic, False, s)
     | Some (nsid, type) \<Rightarrow>
       let s = s\<lparr>fs_type := type\<rparr>; (_, s) = fs_rt E (Map_space nsid (fs_default_space s)) s in
       if \<not> entry_malloc E (fs_world s) then Some (FsError_UNKNOWN, Fs_basic, False, s)
       else do {
         reg \<leftarrow> resource_registry_insert (ns_registry s)
           \<lparr>object_id = ucast nsid, count = 0, res_space_conn = nsid, ns_prefix = make_ns_prefix nsid\<rparr>;
         let s = s\<lparr>ns_registry := reg\<rparr>;
         (e, s) \<leftarrow> xv6fs_sys_mkdir (fs_disk_ops E) (make_ns_prefix nsid) s;
         Some (if e \<noteq> 0 then (FsError_UNKNOWN, Fs_basic, False, s) else (0, Fs_space nsid, False, s)) })"

text \<open>The end of a request to open a file: the resource is created, in the namespace as well, and given to the client. An error of the
  requests is passed on.\<close>

definition announce_file :: "'w fs_env \<Rightarrow> u64 \<Rightarrow> gpi_space_id_t \<Rightarrow> u32 \<Rightarrow> 'w xv6fs_server_context_t \<Rightarrow> 'w fs_result" where
  "announce_file E badge conn fid s = (
     let (e, w) = resource_server_create_resource (own_rt E) (fs_default_space s) fid (fs_world s); s = set_world w s in
     if e \<noteq> 0 then Some (e, Fs_basic, False, s) else
     let (e, s) = (if get_space_id_from_badge badge \<noteq> fs_default_space s
       then let (e, w) = resource_server_create_resource (own_rt E) conn fid (fs_world s) in (e, set_world w s) else (0, s)) in
     if e \<noteq> 0 then Some (e, Fs_basic, False, s) else
     let (e, dest, w) = resource_server_give_resource (own_rt E) conn fid (get_client_id_from_badge badge) (fs_world s); s = set_world w s in
     Some (if e \<noteq> 0 then (e, Fs_basic, False, s) else (0, Fs_slot dest, False, s)))"

text \<open>The structure of a file that was already open is released again, and the one in the registry gets one more reference.\<close>

definition register_file :: "'w fs_env \<Rightarrow> nat \<Rightarrow> 'w xv6fs_server_context_t \<Rightarrow> (nat option \<times> 'w xv6fs_server_context_t) option" where
  "register_file E a s = do {
     f \<leftarrow> files s a;
     (case resource_registry_get_by_id (file_registry s) (ucast (f_id f)) of
        None \<Rightarrow>
          if \<not> entry_malloc E (fs_world s) then Some (None, s)
          else do {
            reg \<leftarrow> resource_registry_insert (file_registry s) \<lparr>object_id = ucast (f_id f), count = 0, reg_file = a\<rparr>;
            Some (Some a, s\<lparr>file_registry := reg\<rparr>) }
      | Some n \<Rightarrow> do {
          let s = s\<lparr>file_registry := resource_registry_inc (file_registry s) (object_id n)\<rparr>;
          (_, s) \<leftarrow> xv6fs_sys_fileclose (fs_disk_ops E) a s;
          s \<leftarrow> filedup (reg_file n) s;
          Some (Some (reg_file n), s) }) }"

definition fs_open :: "'w fs_env \<Rightarrow> u64 \<Rightarrow> u64 \<Rightarrow> path \<Rightarrow> 'w xv6fs_server_context_t \<Rightarrow> 'w fs_result" where
  "fs_open E badge flags p s = (case path_in_ns (get_space_id_from_badge badge) p s of
     None \<Rightarrow> Some (FsError_NO_NS, Fs_basic, False, s)
   | Some (conn, p) \<Rightarrow> do {
       (r, s) \<leftarrow> xv6fs_sys_open (file_mem E) (fs_disk_ops E) p (ucast flags) s;
       (case r of None \<Rightarrow> Some (FsError_NO_FILE, Fs_basic, False, s)
        | Some a \<Rightarrow> do {
            (r, s) \<leftarrow> register_file E a s;
            (case r of None \<Rightarrow> Some (FsError_UNKNOWN, Fs_basic, False, s)
             | Some a \<Rightarrow> do {
                 f \<leftarrow> files s a;
                 announce_file E badge conn (f_id f) s }) }) })"

definition fs_link_file :: "'w fs_env \<Rightarrow> ipc \<Rightarrow> u64 \<Rightarrow> path \<Rightarrow> 'w xv6fs_server_context_t \<Rightarrow> 'w fs_result" where
  "fs_link_file E m badge p s =
     (if \<not> sel4gpi_rpc_check_cap m (fs_type s) then Some (FsError_BADGE, Fs_basic, False, s)
      else (case path_in_ns (get_space_id_from_badge badge) p s of
        None \<Rightarrow> Some (FsError_NO_NS, Fs_basic, False, s)
      | Some (_, p) \<Rightarrow>
          (case resource_registry_get_by_badge (file_registry s) (seL4_GetBadge m 0) of
             None \<Rightarrow> Some (FsError_BADGE, Fs_basic, False, s)
           | Some n \<Rightarrow> do {
               (e, s) \<leftarrow> xv6fs_sys_dolink2 (fs_disk_ops E) (reg_file n) p s;
               Some (if e \<noteq> 0 then FsError_UNKNOWN else 0, Fs_basic, False, s) })))"

definition fs_unlink_file :: "'w fs_env \<Rightarrow> u64 \<Rightarrow> path \<Rightarrow> 'w xv6fs_server_context_t \<Rightarrow> 'w fs_result" where
  "fs_unlink_file E badge p s = (case path_in_ns (get_space_id_from_badge badge) p s of
     None \<Rightarrow> Some (FsError_NO_NS, Fs_basic, False, s)
   | Some (conn, p) \<Rightarrow> do {
       (e, info, s) \<leftarrow> xv6fs_sys_unlink (fs_disk_ops E) p True s;
       (case info of None \<Rightarrow> Some (FsError_UNKNOWN, Fs_basic, False, s)
        | Some (inum, was_last_link) \<Rightarrow>
            if e \<noteq> 0 then Some (FsError_UNKNOWN, Fs_basic, False, s)
            else let (e, s) = (if get_space_id_from_badge badge \<noteq> fs_default_space s
                then let ((e, _), s) = fs_rt E (Delete_in conn inum) s in (e, s) else (0, s)) in
              if e \<noteq> 0 then Some (FsError_UNKNOWN, Fs_basic, False, s)
              else do {
                s \<leftarrow> (if was_last_link then delete_file E inum s else Some s);
                Some (0, Fs_basic, False, s) }) })"

text \<open>The error code of an unknown request is the variable \<open>error\<close>, which is 0.\<close>

definition fs_space_request :: "'w fs_env \<Rightarrow> fs_message \<Rightarrow> ipc \<Rightarrow> u64 \<Rightarrow> 'w xv6fs_server_context_t \<Rightarrow> 'w fs_result" where
  "fs_space_request E msg m badge s = (case msg of
     Fs_ns \<Rightarrow> fs_new_namespace E badge s
   | Fs_create flags p \<Rightarrow> fs_open E badge flags p s
   | Fs_link p \<Rightarrow> fs_link_file E m badge p s
   | Fs_unlink p \<Rightarrow> fs_unlink_file E badge p s
   | Fs_delete_ns \<Rightarrow> do {
       (e, s) \<leftarrow> destroy_ns E (get_space_id_from_badge badge) True s;
       Some (if e \<noteq> 0 then FsError_UNKNOWN else 0, Fs_basic, False, s) }
   | _ \<Rightarrow> Some (0, Fs_basic, False, s))"

subsection \<open>Requests on a file\<close>

text \<open>Attaching the memory of the client, an operation on it, and detaching it.\<close>

definition with_client_memory ::
    "'w fs_env \<Rightarrow> u64 \<Rightarrow> (u64 \<Rightarrow> 'w xv6fs_server_context_t \<Rightarrow> (fs_reply \<times> 'w xv6fs_server_context_t) option) \<Rightarrow> 'w xv6fs_server_context_t \<Rightarrow> 'w fs_result" where
  "with_client_memory E cap f s = (
     let (e, va, w) = resource_server_attach_mo (own_rt E) cap (fs_world s); s = set_world w s in
     if e \<noteq> 0 then Some (e, Fs_basic, True, s)
     else do {
       (r, s) \<leftarrow> f va s;
       let (e, w) = resource_server_unattach (own_rt E) va (fs_world s);
       let s = set_world w s;
       Some (if e \<noteq> 0 then (e, Fs_basic, True, s) else (0, r, True, s)) })"

definition fs_close_file :: "'w fs_env \<Rightarrow> u64 \<Rightarrow> file_registry_entry_t \<Rightarrow> 'w xv6fs_server_context_t \<Rightarrow> 'w fs_result" where
  "fs_close_file E badge n s = do {
     s \<leftarrow> file_entry_dec E n s;
     (case path_in_ns (get_space_id_from_badge badge) [] s of
        None \<Rightarrow> Some (FsError_NO_NS, Fs_basic, False, s)
      | Some (conn, _) \<Rightarrow>
          let ((e, _), s) = fs_rt E (Revoke_in conn (get_object_id_from_badge badge) (get_client_id_from_badge badge)) s in
          Some (e, Fs_basic, False, s)) }"

definition fs_file_request :: "'w fs_env \<Rightarrow> fs_message \<Rightarrow> u64 \<Rightarrow> u64 \<Rightarrow> 'w xv6fs_server_context_t \<Rightarrow> 'w fs_result" where
  "fs_file_request E msg badge cap s = (case resource_registry_get_by_badge (file_registry s) badge of
     None \<Rightarrow> Some (FsError_BADGE, Fs_basic, False, s)
   | Some n \<Rightarrow> (case msg of
       Fs_read k off \<Rightarrow> with_client_memory E cap (\<lambda>va s. do {
         (r, xs, s) \<leftarrow> xv6fs_sys_read (fs_disk_ops E) (Some (reg_file n)) (sint k) off s;
         Some (Fs_n (word_of_int r), set_world (mo_store E va xs (fs_world s)) s) }) s
     | Fs_write k off \<Rightarrow> with_client_memory E cap (\<lambda>va s. do {
         (r, s) \<leftarrow> xv6fs_sys_write (fs_disk_ops E) (Some (reg_file n)) (sint k) (mo_load E va (fs_world s)) off s;
         Some (Fs_n (word_of_int r), s) }) s
     | Fs_close \<Rightarrow> fs_close_file E badge n s
     | Fs_stat \<Rightarrow> with_client_memory E cap (\<lambda>va s. do {
         (_, st, s) \<leftarrow> xv6fs_sys_stat (fs_disk_ops E) (reg_file n) s;
         Some (Fs_basic, set_world (mo_store_stat E va st (fs_world s)) s) }) s
     | _ \<Rightarrow> Some (FsError_UNKNOWN, Fs_basic, False, s)))"

definition xv6fs_request_handler ::
    "'w fs_env \<Rightarrow> u64 \<Rightarrow> fs_message \<Rightarrow> ipc \<Rightarrow> u64 \<Rightarrow> u64 \<Rightarrow> 'w xv6fs_server_context_t \<Rightarrow> 'w fs_result" where
  "xv6fs_request_handler E magic msg m badge cap s =
     (if magic \<noteq> FS_RPC_MAGIC \<or> badge = 0 \<or> get_cap_type_from_badge badge \<noteq> fs_type s
      then Some (FsError_UNKNOWN, Fs_basic, False, s)
      else if get_object_id_from_badge badge = BADGE_OBJ_ID_NULL then fs_space_request E msg m badge s
      else fs_file_request E msg badge cap s)"

subsection \<open>Extraction of the model state\<close>

fun block_edges :: "'w fs_env \<Rightarrow> string \<Rightarrow> u32 list \<Rightarrow> 'w xv6fs_server_context_t \<Rightarrow> model_state_t \<Rightarrow> model_state_t option" where
  "block_edges E fid [] s ms = Some ms"
| "block_edges E fid (b # bs) s ms = do {
     c_assert (unat b < length (block_ids s));
     bid \<leftarrow> get_resource_id (fs_names E) (make_res_id (block_type E) (block_space s) (block_ids s ! unat b));
     ms \<leftarrow> add_edge_by_id GPI_EDGE_TYPE_MAP fid bid ms;
     block_edges E fid bs s ms }"

text \<open>The node of one file in space \<open>sp\<close>, with its relations.\<close>

definition extract_file_node ::
    "'w fs_env \<Rightarrow> gpi_space_id_t \<Rightarrow> gpi_obj_id_t \<Rightarrow> u32 \<Rightarrow> 'w xv6fs_server_context_t \<Rightarrow> model_state_t \<Rightarrow> (string \<times> model_state_t) option" where
  "extract_file_node E sp client inum s ms = do {
     let N = fs_names E;
     file_space_id \<leftarrow> get_resource_space_id N (fs_type s) (fs_default_space s);
     file_ns_space_id \<leftarrow> get_resource_space_id N (fs_type s) sp;
     (file_node, ms) \<leftarrow> add_resource_node N (make_res_id (fs_type s) (fs_default_space s) inum) True ms;
     n \<leftarrow> node_at ms file_node;
     ms \<leftarrow> add_edge_by_id GPI_EDGE_TYPE_SUBSET (node_id n) file_space_id ms;
     ms \<leftarrow> add_edge_by_id GPI_EDGE_TYPE_HOLD (get_pd_id (own_pd E)) (node_id n) ms;
     ms \<leftarrow> (if sp \<noteq> fs_default_space s then do {
          (file_ns_node, ms) \<leftarrow> add_resource_node N (make_res_id (fs_type s) sp inum) True ms;
          m \<leftarrow> node_at ms file_ns_node;
          ms \<leftarrow> add_edge_by_id GPI_EDGE_TYPE_SUBSET (node_id m) file_ns_space_id ms;
          ms \<leftarrow> add_edge GPI_EDGE_TYPE_MAP file_ns_node file_node ms;
          ms \<leftarrow> add_edge_by_id GPI_EDGE_TYPE_HOLD (get_pd_id (own_pd E)) (node_id m) ms;
          add_edge_by_id GPI_EDGE_TYPE_HOLD (get_pd_id client) (node_id m) ms }
        else add_edge_by_id GPI_EDGE_TYPE_HOLD (get_pd_id client) (node_id n) ms);
     Some (node_id n, ms) }"

text \<open>The loop over the files. The variable \<open>n_blocknos\<close> is the size of the array for the first file and the number of
  blocks of the previous file for every other one.\<close>

fun extract_files ::
    "'w fs_env \<Rightarrow> gpi_space_id_t \<Rightarrow> gpi_obj_id_t \<Rightarrow> u32 list \<Rightarrow> nat \<Rightarrow> model_state_t \<Rightarrow> 'w xv6fs_server_context_t
      \<Rightarrow> (int \<times> model_state_t \<times> 'w xv6fs_server_context_t) option" where
  "extract_files E sp client [] n_blocknos ms s = Some (0, ms, s)"
| "extract_files E sp client (inum # inums) n_blocknos ms s = do {
     (fid, ms) \<leftarrow> extract_file_node E sp client inum s ms;
     (e, bs, s) \<leftarrow> xv6fs_sys_inode_blocknos (fs_disk_ops E) inum n_blocknos s;
     if e \<noteq> 0 then Some (FsError_UNKNOWN, ms, s)
     else do {
       ms \<leftarrow> block_edges E fid bs s ms;
       extract_files E sp client inums (length bs) ms s } }"

text \<open>The loop over the work; the array of inode numbers has 16 elements.\<close>

fun extract_spaces :: "'w fs_env \<Rightarrow> work_items \<Rightarrow> model_state_t \<Rightarrow> 'w xv6fs_server_context_t \<Rightarrow> (int \<times> model_state_t \<times> 'w xv6fs_server_context_t) option" where
  "extract_spaces E [] ms s = Some (0, ms, s)"
| "extract_spaces E ((sp, fileno, client) # xs) ms s =
     (if fileno \<noteq> BADGE_OBJ_ID_NULL then extract_spaces E xs ms s
      else (case path_in_ns sp [slash] s of
        None \<Rightarrow> Some (FsError_NO_NS, ms, s)
      | Some (_, p) \<Rightarrow> do {
          (e, inums, s) \<leftarrow> xv6fs_sys_walk (fs_disk_ops E) p s;
          c_assert (length inums \<le> 16);
          if e \<noteq> 0 then Some (FsError_UNKNOWN, ms, s)
          else do {
            c_assert (entry_malloc E (fs_world s));
            (e, ms, s) \<leftarrow> extract_files E sp client inums 100 ms s;
            if e \<noteq> 0 then Some (e, ms, s) else extract_spaces E xs ms s } }))"

definition extract_work :: "'w fs_env \<Rightarrow> work_items \<Rightarrow> 'w xv6fs_server_context_t \<Rightarrow> (int \<times> 'w xv6fs_server_context_t) option" where
  "extract_work E xs s = (
     let (e, va, r, w) = resource_server_extraction_setup (own_rt E) (component_size E) (model_state_size E) 4 (fs_world s); s = set_world w s in
     case r of None \<Rightarrow> Some (FsError_UNKNOWN, s)
     | Some ms \<Rightarrow> do {
         (e, ms, s) \<leftarrow> extract_spaces E xs ms s;
         if e \<noteq> 0 then Some (e, s)
         else let (e, w) = resource_server_extraction_finish (own_rt E) va ms (length xs) (fs_world s) in
           Some (if e \<noteq> 0 then FsError_UNKNOWN else 0, set_world w s) })"

subsection \<open>Other work\<close>

fun free_files :: "'w fs_env \<Rightarrow> work_items \<Rightarrow> 'w xv6fs_server_context_t \<Rightarrow> 'w xv6fs_server_context_t option" where
  "free_files E [] s = Some s"
| "free_files E ((_, fid, _) # xs) s = do {
     s \<leftarrow> (case resource_registry_get_by_id (file_registry s) (ucast fid) of None \<Rightarrow> Some s | Some n \<Rightarrow> file_entry_dec E n s);
     free_files E xs s }"

text \<open>Giving back the blocks: an error ends the loop, quietly when the block server cannot be reached any more.\<close>

fun release_blocks :: "'w fs_env \<Rightarrow> u64 list \<Rightarrow> 'w xv6fs_server_context_t \<Rightarrow> (int \<times> 'w xv6fs_server_context_t) option" where
  "release_blocks E [] s = Some (0, s)"
| "release_blocks E (cn # cns) s = do {
     (error, r) \<leftarrow> ramdisk_client_free_block (disk_rt E) cn (ram (disk s));
     let s = s\<lparr>disk := (disk s)\<lparr>ram := r\<rparr>\<rparr>;
     if error then Some (if can_request_blocks E (fs_world s) then FsError_UNKNOWN else 0, s)
     else release_blocks E cns s }"

definition destroy_item :: "'w fs_env \<Rightarrow> gpi_space_id_t \<Rightarrow> gpi_obj_id_t \<Rightarrow> 'w xv6fs_server_context_t \<Rightarrow> (int \<times> 'w xv6fs_server_context_t) option" where
  "destroy_item E sp fid s =
     (if fid \<noteq> BADGE_OBJ_ID_NULL then
        (case resource_registry_get_by_id (file_registry s) (ucast fid) of
           None \<Rightarrow> Some (0, s)
         | Some n \<Rightarrow> do { s \<leftarrow> file_entry_delete E n s; Some (0, s) })
      else if sp = fs_default_space s then
        (if can_request_blocks E (fs_world s) then release_blocks E (conns (disk s)) s else Some (0, s))
      else do {
        (e, s) \<leftarrow> destroy_ns E sp False s;
        Some (if e \<noteq> 0 then FsError_UNKNOWN else 0, s) })"

fun destroy_items :: "'w fs_env \<Rightarrow> work_items \<Rightarrow> 'w xv6fs_server_context_t \<Rightarrow> (int \<times> 'w xv6fs_server_context_t) option" where
  "destroy_items E [] s = Some (0, s)"
| "destroy_items E ((sp, fid, _) # xs) s = do {
     (e, s) \<leftarrow> destroy_item E sp fid s;
     if e \<noteq> 0 then Some (e, s) else destroy_items E xs s }"

fun send_files :: "work_items \<Rightarrow> 'w xv6fs_server_context_t \<Rightarrow> int \<times> 'w xv6fs_server_context_t" where
  "send_files [] s = (0, s)"
| "send_files ((_, fid, _) # xs) s = (case resource_registry_get_by_id (file_registry s) (ucast fid) of
     None \<Rightarrow> (FsError_UNKNOWN, s)
   | Some n \<Rightarrow> send_files xs (s\<lparr>file_registry := resource_registry_inc (file_registry s) (object_id n)\<rparr>))"

definition fs_finish_work :: "'w fs_env \<Rightarrow> PdWorkAction \<Rightarrow> work_items \<Rightarrow> 'w xv6fs_server_context_t \<Rightarrow> int \<times> 'w xv6fs_server_context_t" where
  "fs_finish_work E a xs s = (let ((e, _), s) = fs_rt E (Finish_work a (length xs)) s in (e, s))"

definition xv6fs_work_handler :: "'w fs_env \<Rightarrow> work \<Rightarrow> 'w xv6fs_server_context_t \<Rightarrow> (int \<times> 'w xv6fs_server_context_t) option" where
  "xv6fs_work_handler E wk s = (case wk of
     (Some EXTRACT, xs) \<Rightarrow> extract_work E xs s
   | (Some FREE, xs) \<Rightarrow> do {
       s \<leftarrow> free_files E xs s;
       Some (fs_finish_work E FREE xs s) }
   | (Some DESTROY, xs) \<Rightarrow> do {
       (e, s) \<leftarrow> destroy_items E xs s;
       Some (if e \<noteq> 0 then (e, s) else fs_finish_work E DESTROY xs s) }
   | (Some SEND, xs) \<Rightarrow>
       (let (e, s) = send_files xs s in Some (if e \<noteq> 0 then (e, s) else fs_finish_work E SEND xs s))
   | (None, _) \<Rightarrow> Some (1, s))"

subsection \<open>Initialization\<close>

fun init_blocks :: "'w fs_env \<Rightarrow> nat \<Rightarrow> 'w xv6fs_server_context_t \<Rightarrow> (bool \<times> 'w xv6fs_server_context_t) option" where
  "init_blocks E 0 s = Some (False, s)"
| "init_blocks E (Suc k) s = do {
     (error, r, rs) \<leftarrow> ramdisk_client_alloc_block (disk_rt E) (rd_ep_badge E) (ram (disk s));
     let s = s\<lparr>disk := (disk s)\<lparr>ram := rs\<rparr>\<rparr>;
     (case r of None \<Rightarrow> Some (True, s)
      | Some (slot, sp, b) \<Rightarrow>
          let s = s\<lparr>disk := (disk s)\<lparr>conns := conns (disk s) @ [slot_badge E slot (fs_world s)]\<rparr>, block_ids := block_ids s @ [b],
                    block_space := (if block_ids s = [] then sp else block_space s)\<rparr> in
          if error then Some (True, s) else init_blocks E k s) }"

text \<open>The page that is shared with the block server is where the block server attached it. The error of \<open>Map_space\<close> is overwritten.\<close>

definition xv6fs_init :: "'w fs_env \<Rightarrow> 'w xv6fs_server_context_t \<Rightarrow> (int \<times> 'w xv6fs_server_context_t) option" where
  "xv6fs_init E s = (
     let ((e, mo_cap), s) = fs_rt E (Mo_connect 1) s in
     if e \<noteq> 0 then Some (e, s) else
     let ((e, _), s) = fs_rt E (Attach_mo mo_cap) s in
     if e \<noteq> 0 then Some (e, s)
     else do {
       (error, r) \<leftarrow> ramdisk_client_bind (disk_rt E) (rd_ep_badge E) (rd_recv_slot E) (ram (disk s));
       let s = s\<lparr>disk := (disk s)\<lparr>ram := r\<rparr>\<rparr>;
       if error then Some (1, s)
       else do {
         va \<leftarrow> client_mem (get_client_id_from_badge (rd_ep_badge E)) r;
         let s = s\<lparr>disk := (disk s)\<lparr>page := va, conns := []\<rparr>, block_ids := []\<rparr>;
         let (_, s) = fs_rt E (Map_space (fs_default_space s) (block_default_space E)) s;
         (error, s) \<leftarrow> init_blocks E FS_SIZE s;
         if error then Some (1, s)
         else do {
           (e, m) \<leftarrow> init_disk_file (fs_disk_ops E) (stack_junk E) \<lparr>mk_sb = sb s, freeinode = 1, freeblock = 0, mk_disk = disk s\<rparr>;
           let s = s\<lparr>disk := mk_disk m\<rparr>;
           if e \<noteq> 0 then Some (e, s)
           else do {
             s \<leftarrow> fsinit (fs_disk_ops E) ROOTDEV (binit s);
             Some (0, s\<lparr>file_registry := resource_registry_initialize (ucast (BADGE_OBJ_ID_NULL - 1)),
               ns_registry := resource_registry_initialize (ucast (BADGE_SPACE_ID_NULL - 1))\<rparr>) } } } })"

subsection \<open>The server\<close>

text \<open>The handlers, as they are given to \<open>resource_server_start\<close>. \<open>W\<close> is the answer to the request for work.\<close>

definition fs_server_code ::
    "'w fs_env \<Rightarrow> ('w \<Rightarrow> (int \<times> work option) \<times> 'w)
      \<Rightarrow> ('w xv6fs_server_context_t, u64 \<times> fs_message \<times> ipc, int \<times> fs_reply) server_code" where
  "fs_server_code E W = \<lparr>srv_rt = fs_rt E,
     get_work = (\<lambda>s. let (r, w) = W (fs_world s) in (r, set_world w s)),
     init_fn = xv6fs_init E,
     request_handler = (\<lambda>(magic, msg, m) badge cap s. do {
       (e, r, slot_used, s) \<leftarrow> xv6fs_request_handler E magic msg m badge cap s;
       Some ((e, r), slot_used, s) }),
     work_handler = xv6fs_work_handler E\<rparr>"

end
