(* ===== verification/Fs_Frame.thy ===== *)
theory Fs_Frame
  imports Xv6_Open
begin

section \<open>What the calls of the file system leave alone\<close>

text \<open>
  The operations of fs.c and the directory calls of sysfile.c only change the buffers, the disk, the inode table and the superblock. What
  a larger program keeps behind these fields (the file structures, the registries of the file server) is \<open>fs.more\<close>: every
  operation that returns, returns it unchanged. The predicates \<open>frame1\<close> to \<open>frame4\<close> say that the
  state at the end of a result, if there is one, has a property; their rules follow the constructs in which the operations are written.
\<close>

named_theorems frames

definition same :: "'z \<Rightarrow> ('d, 'z) fs_scheme \<Rightarrow> bool" where
  "same z s \<longleftrightarrow> fs.more s = z"

lemma same_update [simp]:
  "same z (s\<lparr>bufs := a\<rparr>) = same z s" "same z (s\<lparr>disk := b\<rparr>) = same z s" "same z (s\<lparr>sb := c\<rparr>) = same z s"
  "same z (s\<lparr>itable := d\<rparr>) = same z s" "same z (s\<lparr>cwd := e\<rparr>) = same z s"
  by (simp_all add: same_def)

definition frame1 :: "('s \<Rightarrow> bool) \<Rightarrow> 's option \<Rightarrow> bool" where
  "frame1 P r \<longleftrightarrow> (\<forall>s. r = Some s \<longrightarrow> P s)"

definition frame2 :: "('s \<Rightarrow> bool) \<Rightarrow> ('a \<times> 's) option \<Rightarrow> bool" where
  "frame2 P r \<longleftrightarrow> (\<forall>x s. r = Some (x, s) \<longrightarrow> P s)"

definition frame3 :: "('s \<Rightarrow> bool) \<Rightarrow> ('a \<times> 'b \<times> 's) option \<Rightarrow> bool" where
  "frame3 P r \<longleftrightarrow> (\<forall>x y s. r = Some (x, y, s) \<longrightarrow> P s)"

definition frame4 :: "('s \<Rightarrow> bool) \<Rightarrow> ('a \<times> 'b \<times> 'c \<times> 's) option \<Rightarrow> bool" where
  "frame4 P r \<longleftrightarrow> (\<forall>x y u s. r = Some (x, y, u, s) \<longrightarrow> P s)"

lemmas frame_defs = frame1_def frame2_def frame3_def frame4_def

lemma frame_Some [simp]:
  "frame1 P None" "frame2 P None" "frame3 P None" "frame4 P None"
  "frame1 P (Some s) \<longleftrightarrow> P s" "frame2 P (Some (x, s)) \<longleftrightarrow> P s" "frame3 P (Some (x, y, s)) \<longleftrightarrow> P s" "frame4 P (Some (x, y, u, s)) \<longleftrightarrow> P s"
  by (simp_all add: frame_defs)

lemma frame_seq1:
  assumes "frame1 P m"
  shows "(\<And>s. P s \<Longrightarrow> frame1 Q (f s)) \<Longrightarrow> frame1 Q (Option.bind m f)"
    and "(\<And>s. P s \<Longrightarrow> frame2 Q (g s)) \<Longrightarrow> frame2 Q (Option.bind m g)"
    and "(\<And>s. P s \<Longrightarrow> frame3 Q (h s)) \<Longrightarrow> frame3 Q (Option.bind m h)"
    and "(\<And>s. P s \<Longrightarrow> frame4 Q (k s)) \<Longrightarrow> frame4 Q (Option.bind m k)"
  using assms by (cases m; auto simp: frame_defs)+

lemma frame_seq2:
  assumes "frame2 P m"
  shows "(\<And>x s. P s \<Longrightarrow> frame1 Q (f (x, s))) \<Longrightarrow> frame1 Q (Option.bind m f)"
    and "(\<And>x s. P s \<Longrightarrow> frame2 Q (g (x, s))) \<Longrightarrow> frame2 Q (Option.bind m g)"
    and "(\<And>x s. P s \<Longrightarrow> frame3 Q (h (x, s))) \<Longrightarrow> frame3 Q (Option.bind m h)"
    and "(\<And>x s. P s \<Longrightarrow> frame4 Q (k (x, s))) \<Longrightarrow> frame4 Q (Option.bind m k)"
  using assms by (cases m; auto simp: frame_defs)+

lemma frame_seq3:
  assumes "frame3 P m"
  shows "(\<And>x y s. P s \<Longrightarrow> frame1 Q (f (x, y, s))) \<Longrightarrow> frame1 Q (Option.bind m f)"
    and "(\<And>x y s. P s \<Longrightarrow> frame2 Q (g (x, y, s))) \<Longrightarrow> frame2 Q (Option.bind m g)"
    and "(\<And>x y s. P s \<Longrightarrow> frame3 Q (h (x, y, s))) \<Longrightarrow> frame3 Q (Option.bind m h)"
    and "(\<And>x y s. P s \<Longrightarrow> frame4 Q (k (x, y, s))) \<Longrightarrow> frame4 Q (Option.bind m k)"
  using assms by (cases m; auto simp: frame_defs)+

lemma frame_pure:
  "(\<And>x. m = Some x \<Longrightarrow> frame1 P (f x)) \<Longrightarrow> frame1 P (Option.bind m f)"
  "(\<And>x. m = Some x \<Longrightarrow> frame2 P (g x)) \<Longrightarrow> frame2 P (Option.bind m g)"
  "(\<And>x. m = Some x \<Longrightarrow> frame3 P (h x)) \<Longrightarrow> frame3 P (Option.bind m h)"
  "(\<And>x. m = Some x \<Longrightarrow> frame4 P (k x)) \<Longrightarrow> frame4 P (Option.bind m k)"
  by (cases m; simp)+

lemmas frame_bind1 = frame_seq1 [where P = P and Q = P for P]
lemmas frame_bind2 = frame_seq2 [where P = P and Q = P for P]
lemmas frame_bind3 = frame_seq3 [where P = P and Q = P for P]
lemmas frame_binds = frame_bind1 frame_bind2 frame_bind3

declare balloc_loop.simps [simp del] readi_loop.simps [simp del] writei_loop.simps [simp del]

subsection \<open>Buffers\<close>

lemma upd_buf_more [simp]: "same z (upd_buf i f s) = same z s" "same z (set_data i y s) = same z s"
  by (simp_all add: upd_buf_def set_data_def)

lemma bget_frame [frames]: "same z s \<Longrightarrow> frame2 (same z) (bget dev b s)"
  by (auto simp: bget_def split: option.split)

lemma disk_rw_frame [frames]: "same z s \<Longrightarrow> frame1 (same z) (disk_rw D i w s)"
  by (auto simp: disk_rw_def frame1_def split: option.splits bind_splits if_splits)

lemma brelse_frame [frames]: "same z s \<Longrightarrow> frame1 (same z) (brelse i s)"
  by (auto simp: brelse_def Let_def frame1_def split: bind_splits if_splits)

lemma bread_frame [frames]: "same z s \<Longrightarrow> frame2 (same z) (bread D dev b s)"
  unfolding bread_def by (rule frame_binds, rule frames, assumption) (auto intro!: frame_pure(2) [where m = "get_buf i c" for i c] frame_bind1 frames)

lemma with_block_frame [frames]: "same z s \<Longrightarrow> frame2 (same z) (with_block D dev b f s)"
  by (auto simp: with_block_def Let_def intro!: frame_binds frames split: prod.split)

lemma read_block_frame [frames]: "same z s \<Longrightarrow> frame2 (same z) (read_block D dev b s)"
  by (simp add: read_block_def frames)

lemma xv6fs_bzero_frame [frames]: "same z s \<Longrightarrow> frame1 (same z) (xv6fs_bzero D dev b s)"
  by (auto simp: xv6fs_bzero_def intro!: frame_binds frames)

lemma balloc_loop_frame [frames]: "same z s \<Longrightarrow> frame2 (same z) (balloc_loop D dev sz b s)"
proof (induction "sz - b" arbitrary: b s rule: less_induct)
  case less
  then show ?case by (subst balloc_loop.simps) (auto intro!: frame_binds frames less(1) simp: diff_less_mono2 split: option.split)
qed

lemma balloc_frame [frames]: "same z s \<Longrightarrow> frame2 (same z) (balloc D dev s)"
  by (simp add: balloc_def frames)

lemma bfree_frame [frames]: "same z s \<Longrightarrow> frame1 (same z) (bfree D dev b s)"
  by (auto simp: bfree_def Let_def intro!: frame_binds frames)

subsection \<open>Inodes\<close>

lemma upd_inode_more [simp]: "same z (upd_inode ip f s) = same z s" "same z (idup ip s) = same z s"
  by (simp_all add: upd_inode_def idup_def)

lemma iget_frame [frames]: "same z s \<Longrightarrow> frame2 (same z) (iget dev inum s)"
  by (auto simp: iget_def split: option.split)

lemma ialloc_loop_frame [frames]: "same z s \<Longrightarrow> frame2 (same z) (ialloc_loop D dev ty k inum s)"
  by (induction k arbitrary: inum s) (auto intro!: frame_binds frames)

lemma ialloc_frame [frames]: "same z s \<Longrightarrow> frame2 (same z) (ialloc D dev ty s)"
  by (simp add: ialloc_def frames)

lemma iupdate_frame [frames]: "same z s \<Longrightarrow> frame1 (same z) (iupdate D ip s)"
  by (auto simp: iupdate_def Let_def intro!: frame_binds frames)

lemma ilock_frame [frames]: "same z s \<Longrightarrow> frame1 (same z) (ilock D ip s)"
  by (auto simp: ilock_def Let_def intro!: frame_binds frames)

lemma iunlock_frame [frames]: "same z s \<Longrightarrow> frame1 (same z) (iunlock ip s)"
  by (simp add: iunlock_def)

lemma bmap_frame [frames]: "same z s \<Longrightarrow> frame2 (same z) (bmap D ip bn s)"
  by (auto simp: bmap_def Let_def intro!: frame_binds frames)

lemma bmap_noalloc_frame [frames]: "same z s \<Longrightarrow> frame2 (same z) (bmap_noalloc D ip bn s)"
  by (auto simp: bmap_noalloc_def intro!: frame_binds frames)

lemma itrunc_direct_frame [frames]: "same z s \<Longrightarrow> frame1 (same z) (itrunc_direct D ip k i s)"
  by (induction k arbitrary: i s) (auto intro!: frame_binds frames)

lemma itrunc_indirect_frame [frames]: "same z s \<Longrightarrow> frame1 (same z) (itrunc_indirect D dev i k j s)"
  by (induction k arbitrary: j s) (auto simp: Let_def intro!: frame_binds frames)

lemma itrunc_frame [frames]: "same z s \<Longrightarrow> frame1 (same z) (itrunc D ip s)"
  by (auto simp: itrunc_def Let_def intro!: frame_binds frames)

lemma iput_frame [frames]: "same z s \<Longrightarrow> frame1 (same z) (iput D ip s)"
  by (auto simp: iput_def Let_def intro!: frame_binds frames)

lemma iunlockput_frame [frames]: "same z s \<Longrightarrow> frame1 (same z) (iunlockput D ip s)"
  by (auto simp: iunlockput_def intro!: frame_binds frames)

lemma readi_loop_frame [frames]: "same z s \<Longrightarrow> frame2 (same z) (readi_loop D ip off n s)"
proof (induction n arbitrary: off s rule: less_induct)
  case (less n)
  then show ?case by (subst readi_loop.simps) (auto simp: Let_def intro!: frame_binds frames)
qed

lemma readi_frame [frames]: "same z s \<Longrightarrow> frame2 (same z) (readi D ip off n s)"
  by (simp add: readi_def Let_def frames)

lemma writei_loop_frame [frames]: "same z s \<Longrightarrow> frame2 (same z) (writei_loop D ip off src s)"
proof (induction "length src" arbitrary: off src s rule: less_induct)
  case less
  then show ?case by (subst writei_loop.simps) (auto simp: Let_def intro!: frame_binds frames)
qed

lemma writei_frame [frames]: "same z s \<Longrightarrow> frame2 (same z) (writei D ip off src s)"
  by (auto simp: writei_def Let_def intro!: frame_binds frames)

subsection \<open>Directories and paths\<close>

text \<open>For a loop that may run for ever, \<open>kept\<close> is what its induction rule shows of a result; a recursive call then has the frame.\<close>

abbreviation kept :: "'z \<Rightarrow> ('d, 'z) fs_scheme \<Rightarrow> 'a \<times> ('d, 'z) fs_scheme \<Rightarrow> bool" where
  "kept z s y \<equiv> same z s \<longrightarrow> same z (snd y)"

lemma frame2_result: "m = Some y \<Longrightarrow> frame2 (same z) m \<Longrightarrow> same z (snd y)"
  by (cases y) (simp add: frame2_def)

lemma frame2_kept: "(\<And>y. m = Some y \<Longrightarrow> kept z s y) \<Longrightarrow> same z s \<Longrightarrow> frame2 (same z) m"
  by (force simp: frame2_def)

lemma dirlookup_loop_frame [frames]: "same z s \<Longrightarrow> frame2 (same z) (dirlookup_loop D dp name off s)"
  apply (rule frame2_kept, rule dirlookup_loop.raw_induct [where P = "\<lambda>D dp name off s. kept z s"])
    subgoal premises step for _ loop
    proof -
      have call: "same z s \<Longrightarrow> frame2 (same z) (loop D dp name off s)" for D dp name off s by (rule frame2_kept [OF step(3)])
      show ?thesis
        by (intro impI, rule frame2_result [OF step(4)]) (auto simp: Let_def intro!: frame_binds frames call split: dir_entry.split)
    qed
  by assumption+

lemma dirlookup_frame [frames]: "same z s \<Longrightarrow> frame2 (same z) (dirlookup D dp name s)"
  by (auto simp: dirlookup_def Let_def intro!: frame_binds frames)

lemma dirlookup_idx_frame [frames]: "same z s \<Longrightarrow> frame2 (same z) (dirlookup_idx D dp idx s)"
  by (auto simp: dirlookup_idx_def Let_def intro!: frame_binds frames)

lemma dirlink_scan_frame [frames]: "same z s \<Longrightarrow> frame2 (same z) (dirlink_scan D dp off s)"
  apply (rule frame2_kept, rule dirlink_scan.raw_induct [where P = "\<lambda>D dp off s. kept z s"])
    subgoal premises step for _ loop
    proof -
      have call: "same z s \<Longrightarrow> frame2 (same z) (loop D dp off s)" for D dp off s by (rule frame2_kept [OF step(3)])
      show ?thesis
        by (intro impI, rule frame2_result [OF step(4)]) (auto simp: Let_def intro!: frame_binds frames call split: dir_entry.split)
    qed
  by assumption+

lemma dirlink_frame [frames]: "same z s \<Longrightarrow> frame2 (same z) (dirlink D dp name inum s)"
  by (auto simp: dirlink_def Let_def intro!: frame_binds frames split: option.split prod.split)

declare namex_loop.simps [simp del]

lemma namex_loop_frame [frames]: "same z s \<Longrightarrow> frame2 (same z) (namex_loop D ip p parent name s)"
proof (induction "length p" arbitrary: ip p parent name s rule: less_induct)
  case less
  have rec: "skipelem p = Some (a, b) \<Longrightarrow> same z t \<Longrightarrow> frame2 (same z) (namex_loop D i b q a t)" for a b i q t
    using less(1) skipelem_shorter by blast
  show ?case using less(2)
    by (subst namex_loop.simps) (auto intro!: frame_binds frames rec split: option.split prod.split)
qed

lemma namex_frame [frames]: "same z s \<Longrightarrow> frame2 (same z) (namex D p parent s)"
  by (auto simp: namex_def Let_def intro!: frame_binds frames split: option.split)

lemma namei_frame [frames]: "same z s \<Longrightarrow> frame2 (same z) (namei D p s)"
  by (auto simp: namei_def Let_def intro!: frame_binds frames)

lemma nameiparent_frame [frames]: "same z s \<Longrightarrow> frame2 (same z) (nameiparent D p s)"
  by (auto simp: nameiparent_def Let_def intro!: frame_binds frames)

lemma readsb_frame [frames]: "same z s \<Longrightarrow> frame1 (same z) (readsb D dev s)"
  by (auto simp: readsb_def intro!: frame_binds frames)

lemma fsinit_frame [frames]: "same z s \<Longrightarrow> frame1 (same z) (fsinit D dev s)"
  by (auto simp: fsinit_def intro!: frame_binds frames)

lemma iblocknos_loop_frame [frames]: "same z s \<Longrightarrow> frame3 (same z) (iblocknos_loop D ip room k bn s)"
  by (induction k arbitrary: room bn s) (auto intro!: frame_binds frames)

lemma iblocknos_frame [frames]: "same z s \<Longrightarrow> frame3 (same z) (iblocknos D dev inum n s)"
  by (auto simp: iblocknos_def Let_def intro!: frame_binds frames)

lemma isdirempty_loop_frame [frames]: "same z s \<Longrightarrow> frame2 (same z) (isdirempty_loop D dp off s)"
  apply (rule frame2_kept, rule isdirempty_loop.raw_induct [where P = "\<lambda>D dp off s. kept z s"])
    subgoal premises step for _ loop
    proof -
      have call: "same z s \<Longrightarrow> frame2 (same z) (loop D dp off s)" for D dp off s by (rule frame2_kept [OF step(3)])
      show ?thesis
        by (intro impI, rule frame2_result [OF step(4)]) (auto simp: Let_def intro!: frame_binds frames call split: dir_entry.split)
    qed
  by assumption+

lemma isdirempty_frame [frames]: "same z s \<Longrightarrow> frame2 (same z) (isdirempty D dp s)"
  by (auto simp: isdirempty_def Let_def intro!: frame_binds frames)

lemma create_frame [frames]: "same z s \<Longrightarrow> frame2 (same z) (create D p ty major minor s)"
  by (auto simp: create_def Let_def intro!: frame_binds frames split: option.split prod.split)

lemma unlink_de_frame [frames]: "same z s \<Longrightarrow> frame2 (same z) (unlink_de D dp name s)"
  by (auto simp: unlink_de_def Let_def intro!: frame_binds frames split: option.split prod.split)

lemma xv6fs_sys_unlink_frame [frames]: "same z s \<Longrightarrow> frame3 (same z) (xv6fs_sys_unlink D p ask s)"
  by (auto simp: xv6fs_sys_unlink_def Let_def intro!: frame_binds frames split: option.split prod.split)

lemma link_inode_frame [frames]: "same z s \<Longrightarrow> frame2 (same z) (link_inode D ip p s)"
  by (auto simp: link_inode_def Let_def intro!: frame_binds frames split: option.split prod.split)

lemma xv6fs_sys_mkdir_frame [frames]: "same z s \<Longrightarrow> frame2 (same z) (xv6fs_sys_mkdir D p s)"
  by (auto simp: xv6fs_sys_mkdir_def Let_def intro!: frame_binds frames split: option.split prod.split)

lemma clear_dir_loop_frame [frames]: "same z s \<Longrightarrow> frame2 (same z) (clear_dir_loop D ip i s)"
  apply (rule frame2_kept, rule clear_dir_loop.raw_induct [where P = "\<lambda>D ip i s. kept z s"])
    subgoal premises step for _ loop
    proof -
      have call: "same z s \<Longrightarrow> frame2 (same z) (loop D ip i s)" for D ip i s by (rule frame2_kept [OF step(3)])
      show ?thesis
        by (intro impI, rule frame2_result [OF step(4)]) (auto simp: Let_def intro!: frame_binds frames call split: dir_entry.split)
    qed
  by assumption+

lemma clear_dir_frame [frames]: "same z s \<Longrightarrow> frame2 (same z) (clear_dir D ip s)"
  by (auto simp: clear_dir_def Let_def intro!: frame_binds frames)

lemma xv6fs_sys_rmdir_frame [frames]: "same z s \<Longrightarrow> frame2 (same z) (xv6fs_sys_rmdir D p c s)"
  by (auto simp: xv6fs_sys_rmdir_def Let_def intro!: frame_binds frames split: option.split prod.split)

lemma walk_sub_loop_frame [frames]: "same z s \<Longrightarrow> frame2 (same z) (walk_sub_loop D cp j s)"
  apply (rule frame2_kept, rule walk_sub_loop.raw_induct [where P = "\<lambda>D cp j s. kept z s"])
    subgoal premises step for _ loop
    proof -
      have call: "same z s \<Longrightarrow> frame2 (same z) (loop D cp j s)" for D cp j s by (rule frame2_kept [OF step(3)])
      show ?thesis
        by (intro impI, rule frame2_result [OF step(4)]) (auto simp: Let_def intro!: frame_binds frames call split: dir_entry.split)
    qed
  by assumption+

lemma walk_loop_frame [frames]: "same z s \<Longrightarrow> frame2 (same z) (walk_loop D ip i s)"
  apply (rule frame2_kept, rule walk_loop.raw_induct [where P = "\<lambda>D ip i s. kept z s"])
    subgoal premises step for _ loop
    proof -
      have call: "same z s \<Longrightarrow> frame2 (same z) (loop D ip i s)" for D ip i s by (rule frame2_kept [OF step(3)])
      show ?thesis
        by (intro impI, rule frame2_result [OF step(4)]) (auto simp: Let_def intro!: frame_binds frames call split: dir_entry.split)
    qed
  by assumption+

lemma xv6fs_sys_walk_frame [frames]: "same z s \<Longrightarrow> frame3 (same z) (xv6fs_sys_walk D p s)"
  by (auto simp: xv6fs_sys_walk_def Let_def intro!: frame_binds frames split: option.split prod.split)

lemma open_inode_frame [frames]: "same z s \<Longrightarrow> frame2 (same z) (open_inode D p omode s)"
  by (auto simp: open_inode_def Let_def intro!: frame_binds frames split: option.split prod.split)

end
