(* ===== verification/Fs_Registry.thy ===== *)
theory Fs_Registry
  imports Fs_Server Fs_Frame
begin

section \<open>The open files of the file server\<close>

text \<open>
  The registry of open files points into the heap of file structures. The invariant says that every entry has a structure of its own, that
  is allocated, is an inode's, has a reference and carries the ID under which it is registered. It holds after the initialization and after every turn of the
  main loop: no request and no work leaves an entry behind whose structure is freed.
\<close>

definition entry_ok :: "file_heap \<Rightarrow> file_registry_entry_t \<Rightarrow> bool" where
  "entry_ok h n \<longleftrightarrow> (case h (reg_file n) of None \<Rightarrow> False
     | Some f \<Rightarrow> f_type f = FD_INODE \<and> 1 \<le> f_ref f \<and> object_id n = ucast (f_id f))"

definition entries_ok :: "file_heap \<Rightarrow> file_registry_entry_t list \<Rightarrow> bool" where
  "entries_ok h ns \<longleftrightarrow> distinct (keys ns) \<and> distinct (map reg_file ns) \<and> list_all (entry_ok h) ns"

definition fs_inv :: "'w xv6fs_server_context_t \<Rightarrow> bool" where
  "fs_inv s \<longleftrightarrow> entries_ok (files s) (head (file_registry s))"

text \<open>Heaps that differ in offsets only.\<close>

definition same_files :: "file_heap \<Rightarrow> file_heap \<Rightarrow> bool" where
  "same_files h h' \<longleftrightarrow> (\<forall>a. map_option (\<lambda>f. f\<lparr>f_off := 0\<rparr>) (h a) = map_option (\<lambda>f. f\<lparr>f_off := 0\<rparr>) (h' a))"

lemma same_files_refl [simp]: "same_files h h"
  by (simp add: same_files_def)

lemma same_files_offset: "same_files h h' \<Longrightarrow> h' a = Some f \<Longrightarrow> same_files h (h'(a \<mapsto> f\<lparr>f_off := x\<rparr>))"
  by (auto simp: same_files_def)

lemma entry_ok_same: "same_files h h' \<Longrightarrow> entry_ok h n = entry_ok h' n"
proof -
  assume "same_files h h'"
  then have "map_option (\<lambda>f. f\<lparr>f_off := 0\<rparr>) (h (reg_file n)) = map_option (\<lambda>f. f\<lparr>f_off := 0\<rparr>) (h' (reg_file n))"
    by (simp add: same_files_def)
  then show ?thesis by (cases "h (reg_file n)"; cases "h' (reg_file n)"; auto simp: entry_ok_def dest: arg_cong [where f = f_type]
      arg_cong [where f = f_ref] arg_cong [where f = f_id])
qed

lemma entry_ok_elsewhere: "reg_file n \<noteq> a \<Longrightarrow> entry_ok (h(a := x)) n = entry_ok h n"
  by (simp add: entry_ok_def)

subsection \<open>File structures\<close>

text \<open>What a call on the level of open files does: the fields behind the heap stay, the heap changes as stated.\<close>

definition malloc_fresh :: "file_malloc \<Rightarrow> bool" where
  "malloc_fresh M \<longleftrightarrow> (\<forall>h a g. M h = Some (a, g) \<longrightarrow> h a = None)"

definition at :: "(file_heap \<Rightarrow> bool) \<Rightarrow> 'z \<Rightarrow> ('d, 'z) ofs_scheme \<Rightarrow> bool" where
  "at H z s \<longleftrightarrow> H (files s) \<and> ofs.more s = z"

lemma at_same: "same (fs.more s) s' \<Longrightarrow> at H z s' = at H z s"
  by (cases s; cases s') (simp add: at_def same_def)

lemma lift_frame:
  assumes "at H z s"
  shows "frame1 (same (fs.more s)) r1 \<Longrightarrow> frame1 (at H z) r1"
    and "frame2 (same (fs.more s)) r2 \<Longrightarrow> frame2 (at H z) r2"
    and "frame3 (same (fs.more s)) r3 \<Longrightarrow> frame3 (at H z) r3"
  using assms by (auto simp: frame_defs at_same)

lemma same_refl [simp]: "same (fs.more s) s"
  by (simp add: same_def)

lemma at_frames [frames]:
  assumes "at H z s"
  shows "frame1 (at H z) (ilock D ip s)" "frame1 (at H z) (iunlock ip s)" "frame1 (at H z) (iput D ip s)"
    and "frame1 (at H z) (iunlockput D ip s)" "frame2 (at H z) (readi D ip off n s)" "frame2 (at H z) (writei D ip off src s)"
    and "frame2 (at H z) (open_inode D p omode s)" "frame2 (at H z) (link_inode D ip p s)"
  by (rule lift_frame [OF assms] frames same_refl)+

lemma set_file_at [simp]: "at H z (set_file a f s) \<longleftrightarrow> H ((files s)(a \<mapsto> f)) \<and> ofs.more s = z"
  by (simp add: at_def set_file_def)

lemma fileclose_at:
  assumes "at ((=) h) z s"
  shows "frame1 (at (\<lambda>h'. \<exists>f. h a = Some f \<and> 1 \<le> f_ref f \<and>
    h' = (if 1 < f_ref f then h(a \<mapsto> f\<lparr>f_ref := f_ref f - 1\<rparr>) else h(a := None))) z) (fileclose D a s)"
  (is "frame1 (at ?H z) _")
proof (cases "h a")
  case None
  then show ?thesis using assms by (simp add: fileclose_def at_def)
next
  case (Some f)
  then have "1 \<le> f_ref f \<Longrightarrow> \<not> 1 < f_ref f \<Longrightarrow> at ?H z (s\<lparr>files := (files s)(a := None)\<rparr>)"
    using assms by (auto simp: at_def)
  then show ?thesis using assms Some by (auto simp: fileclose_def at_def [of "(=) h"] Let_def intro!: frames)
qed

lemma xv6fs_sys_open_at:
  assumes "malloc_fresh M" "at ((=) h) z s" "xv6fs_sys_open M D p omode s = Some (r, s')"
  shows "at (\<lambda>h'. case r of None \<Rightarrow> h' = h
    | Some a \<Rightarrow> h a = None \<and> h' = h(a := h' a) \<and> (\<exists>f. h' a = Some f \<and> f_type f = FD_INODE \<and> f_ref f = 1)) z s'"
proof -
  obtain q t where t: "open_inode D p omode s = Some (q, t)" using assms(3) by (auto simp: xv6fs_sys_open_def split: bind_splits)
  then have at: "at ((=) h) z t" using at_frames(7) [OF assms(2), of D p omode] by (simp add: frame2_def)
  show ?thesis
  proof (cases "q = None \<or> M h = None")
    case True
    then have "r = None \<and> at ((=) h) z s'" using assms(3) t at at_frames(4) [OF at]
      by (auto simp: xv6fs_sys_open_def filealloc_def frame1_def at_def split: bind_splits option.splits)
    then show ?thesis by (auto simp: at_def)
  next
    case False
    then obtain ip a g where q: "q = Some ip" "M h = Some (a, g)" by auto
    then have "h a = None" using assms(1) by (simp add: malloc_fresh_def)
    moreover have "at (\<lambda>h'. h' = h(a \<mapsto> g\<lparr>f_ref := 1\<rparr>)) z (set_file a (g\<lparr>f_ref := 1\<rparr>) t)" using at by (simp add: at_def set_file_def)
    note u = at_frames(2) [OF this, of ip]
    ultimately show ?thesis using assms(3) t at q u
      by (auto simp: xv6fs_sys_open_def filealloc_def frame1_def at_def [of "(=) h"] split: bind_splits) (auto simp: at_def set_file_def)
  qed
qed

lemma seek_to_at: "at (same_files h) z s \<Longrightarrow> frame1 (at (same_files h) z) (seek_to a off s)"
  by (auto simp: seek_to_def at_def set_file_def same_files_offset intro!: frame_pure)

lemma fileread_at:
  assumes "at (same_files h) z s"
  shows "frame3 (at (same_files h) z) (fileread D a n s)"
proof (cases "files s a")
  case None
  then show ?thesis by (simp add: fileread_def)
next
  case (Some f)
  let ?H = "\<lambda>h'. same_files h h' \<and> h' a = Some f"
  have s: "at ?H z s" using assms Some by (simp add: at_def)
  have move: "at (same_files h) z (set_file a (f\<lparr>f_off := x\<rparr>) t)" "at (same_files h) z t" if "at ?H z t" for t x
    using that by (auto simp: at_def set_file_def same_files_offset)
  have inode: "frame3 (at (same_files h) z) (do {
      s \<leftarrow> ilock D (f_ip f) s;
      (xs, s) \<leftarrow> readi D (f_ip f) (f_off f) (word_of_int n) s;
      let s = (if xs \<noteq> [] then set_file a (f\<lparr>f_off := f_off f + of_nat (length xs)\<rparr>) s else s);
      s \<leftarrow> iunlock (f_ip f) s;
      Some (int (length xs), xs, s) })"
    by (rule frame_seq1 [OF at_frames(1) [OF s]], rule frame_seq2 [OF at_frames(5)], assumption, unfold prod.case Let_def,
        rule frame_seq1 [OF at_frames(2)]) (simp_all add: move del: set_file_at)
  show ?thesis using assms Some inode by (simp add: fileread_def split: file_type.split)
qed

declare filewrite_loop.simps [simp del]

lemma filewrite_loop_at: "at (same_files h) z s \<Longrightarrow> frame2 (at (same_files h) z) (filewrite_loop D a n src i s)"
proof (induction "n - i" arbitrary: i s rule: less_induct)
  case less
  show ?case
  proof (cases "i < n")
    case True
    show ?thesis
    proof (cases "files s a")
      case None
      then show ?thesis using True by (subst filewrite_loop.simps) simp
    next
      case (Some f)
      let ?H = "\<lambda>h'. same_files h h' \<and> h' a = Some f"
      have s: "at ?H z s" using less.prems Some by (simp add: at_def)
      have move: "at (same_files h) z (set_file a (f\<lparr>f_off := x\<rparr>) t)" "at (same_files h) z t" if "at ?H z t" for t x
        using that by (auto simp: at_def set_file_def same_files_offset)
      have rec: "at (same_files h) z t \<Longrightarrow> frame2 (at (same_files h) z) (filewrite_loop D a n src (i + min (n - i) write_max) t)" for t
        using less.hyps [of "i + min (n - i) write_max" t] True write_max_pos by linarith
      show ?thesis using True Some
        apply (subst filewrite_loop.simps)
        apply (simp only: if_True bind.bind_lunit Let_def)
        apply (rule frame_seq1 [OF at_frames(1) [OF s]], rule frame_seq2 [OF at_frames(6)], assumption, unfold prod.case Let_def,
            rule frame_seq1 [OF at_frames(2) [where H = "same_files h" and z = z]])
        by (simp_all add: move rec del: set_file_at)
    qed
  qed (use less.prems in \<open>subst filewrite_loop.simps, simp\<close>)
qed

lemma filewrite_at: "at (same_files h) z s \<Longrightarrow> frame2 (at (same_files h) z) (filewrite D a n src s)"
  by (auto simp: filewrite_def intro!: frame_pure(2) [where m = "files s a"] frame_bind2 filewrite_loop_at split: file_type.split)

lemma file_calls_at [frames]:
  assumes "at (same_files h) z s"
  shows "frame3 (at (same_files h) z) (xv6fs_sys_read D (Some a) n off s)"
    and "frame2 (at (same_files h) z) (xv6fs_sys_write D (Some a) n src off s)"
    and "frame3 (at (same_files h) z) (xv6fs_sys_stat D a s)"
    and "frame2 (at (same_files h) z) (xv6fs_sys_dolink2 D a p s)"
  using assms
  by (auto simp: xv6fs_sys_read_def xv6fs_sys_write_def xv6fs_sys_stat_def xv6fs_sys_dolink2_def Let_def
      intro!: frame_pure [where m = "files s a"] frame_bind1 seek_to_at fileread_at filewrite_at at_frames)

subsection \<open>Entries of the registry\<close>

lemma entries_ok_count:
  assumes "\<And>n. object_id (f n) = object_id n" "\<And>n. reg_file (f n) = reg_file n"
  shows "entries_ok h (node_update f ns k) = entries_ok h ns"
proof -
  have "map reg_file (node_update f ns k) = map reg_file ns"
    using assms by (induction f ns k rule: node_update.induct) auto
  moreover have "list_all (entry_ok h) (node_update f ns k) = list_all (entry_ok h) ns"
  proof -
    have "entry_ok h (f n) = entry_ok h n" for n by (cases "h (reg_file n)") (simp_all add: entry_ok_def assms)
    then show ?thesis by (induction ns) simp_all
  qed
  ultimately show ?thesis using assms by (simp add: entries_ok_def keys_node_update)
qed

lemma node_update_mem: "n \<in> set ns \<Longrightarrow> distinct (keys ns) \<Longrightarrow> f n \<in> set (node_update f ns (object_id n))"
  by (induction ns) (auto simp: image_iff)

lemma HASH_DEL_split:
  assumes "distinct (keys ns)" "n \<in> set ns"
  obtains xs ys where "ns = xs @ n # ys" "HASH_DEL ns (object_id n) = xs @ ys"
proof -
  obtain xs ys where ns: "ns = xs @ n # ys" using assms(2) by (meson split_list)
  then have "object_id n \<notin> set (keys xs)" using assms(1) by auto
  then have "HASH_DEL (xs @ n # ys) (object_id n) = xs @ ys" by (induction xs) auto
  then show ?thesis using that ns by blast
qed

lemma entries_ok_delete:
  assumes "entries_ok h ns" "n \<in> set ns"
  shows "entries_ok (h(reg_file n := x)) (HASH_DEL ns (object_id n))"
proof -
  have "distinct (keys ns)" using assms(1) by (simp add: entries_ok_def)
  from HASH_DEL_split [OF this assms(2)] obtain xs ys where ns: "ns = xs @ n # ys" "HASH_DEL ns (object_id n) = xs @ ys" .
  then have "\<forall>m \<in> set (xs @ ys). reg_file m \<noteq> reg_file n" using assms(1) by (auto simp: entries_ok_def) (metis imageI)+
  then show ?thesis using assms(1) ns by (auto simp: entries_ok_def list_all_iff entry_ok_elsewhere)
qed

lemma entries_ok_insert:
  assumes "entries_ok h ns" "h a = None" "entry_ok h' n" "h' = h(a := h' a)" "reg_file n = a" "object_id n \<notin> set (keys ns)"
  shows "entries_ok h' (HASH_ADD ns n)"
proof -
  have "\<forall>m \<in> set ns. reg_file m \<noteq> a" using assms(1,2) by (auto simp: entries_ok_def list_all_iff entry_ok_def split: option.splits)
  then show ?thesis using assms entry_ok_elsewhere [of _ a h "h' a"]
    by (auto simp: entries_ok_def HASH_ADD_def list_all_iff)
qed

lemma entries_ok_other:
  assumes "entries_ok h ns" "h a = None"
  shows "entries_ok (h(a := x)) ns"
proof -
  have "\<forall>m \<in> set ns. reg_file m \<noteq> a" using assms by (auto simp: entries_ok_def list_all_iff entry_ok_def split: option.splits)
  then show ?thesis using assms(1) by (auto simp: entries_ok_def list_all_iff entry_ok_elsewhere)
qed

lemma entries_ok_ref:
  assumes "entries_ok h ns" "h a = Some f" "1 \<le> r"
  shows "entries_ok (h(a \<mapsto> f\<lparr>f_ref := r\<rparr>)) ns"
proof -
  have "entry_ok (h(a \<mapsto> f\<lparr>f_ref := r\<rparr>)) n" if "entry_ok h n" for n
    using that assms(2,3) by (cases "reg_file n = a") (auto simp: entry_ok_def)
  then show ?thesis using assms(1) by (auto simp: entries_ok_def list_all_iff)
qed

subsection \<open>The state of the server\<close>

lemma fs_inv_update [simp]:
  "fs_inv (set_world w s) = fs_inv s" "fs_inv (s\<lparr>disk := d\<rparr>) = fs_inv s" "fs_inv (s\<lparr>fs_type := t\<rparr>) = fs_inv s"
  "fs_inv (s\<lparr>ns_registry := r\<rparr>) = fs_inv s" "fs_inv (snd (fs_rt E c s)) = fs_inv s"
  by (simp_all add: fs_inv_def set_world_def fs_rt_def case_prod_beta Let_def)

lemma fs_rt_inv: "fs_rt E c s = (r, s') \<Longrightarrow> fs_inv s' = fs_inv s"
  by (metis fs_inv_update(5) snd_conv)

lemma fs_inv_more: "same (fs.more s) s' \<Longrightarrow> fs_inv s' = fs_inv s"
  by (cases s; cases s') (simp add: fs_inv_def same_def)

lemma fs_inv_at:
  assumes "at (\<lambda>h. entries_ok h (head (file_registry s))) (ofs.more s) s'"
  shows "fs_inv s'" "file_registry s' = file_registry s" "fs_default_space s' = fs_default_space s"
  using assms by (cases s; cases s'; simp add: at_def fs_inv_def)+

lemma inv_of_same:
  assumes "fs_inv s"
  shows "frame1 (same (fs.more s)) r1 \<Longrightarrow> frame1 fs_inv r1" "frame2 (same (fs.more s)) r2 \<Longrightarrow> frame2 fs_inv r2"
    and "frame3 (same (fs.more s)) r3 \<Longrightarrow> frame3 fs_inv r3"
  using assms by (auto simp: frame_defs fs_inv_more)

lemma inv_of_at:
  assumes "fs_inv s"
  shows "frame2 (at (same_files (files s)) (ofs.more s)) r2 \<Longrightarrow> frame2 fs_inv r2"
    and "frame3 (at (same_files (files s)) (ofs.more s)) r3 \<Longrightarrow> frame3 fs_inv r3"
proof -
  have "fs_inv s'" if "at (same_files (files s)) (ofs.more s) s'" for s'
    by (rule fs_inv_at(1) [of s]) (use that assms in \<open>auto simp: at_def fs_inv_def entries_ok_def list_all_iff entry_ok_same\<close>)
  then show "frame2 (at (same_files (files s)) (ofs.more s)) r2 \<Longrightarrow> frame2 fs_inv r2"
    and "frame3 (at (same_files (files s)) (ofs.more s)) r3 \<Longrightarrow> frame3 fs_inv r3" by (auto simp: frame_defs)
qed

lemma calls_inv [frames]:
  assumes "fs_inv s"
  shows "frame2 fs_inv (xv6fs_sys_rmdir D p c s)" "frame2 fs_inv (xv6fs_sys_mkdir D p s)" "frame3 fs_inv (xv6fs_sys_unlink D p ask s)"
    and "frame3 fs_inv (xv6fs_sys_walk D p s)" "frame3 fs_inv (iblocknos D dev inum n s)"
  by (rule inv_of_same [OF assms] frames same_refl)+

lemma file_calls_inv [frames]:
  assumes "fs_inv s"
  shows "frame3 fs_inv (xv6fs_sys_read D (Some a) k off s)" "frame2 fs_inv (xv6fs_sys_write D (Some a) k src off s)"
    and "frame3 fs_inv (xv6fs_sys_stat D a s)" "frame2 fs_inv (xv6fs_sys_dolink2 D a p s)"
  by (auto intro!: inv_of_at [OF assms] file_calls_at simp: at_def)

subsection \<open>Changes of the registry\<close>

lemma delete_in_namespaces_inv [simp]: "fs_inv (delete_in_namespaces E inum nss s) = fs_inv s"
  by (induction nss arbitrary: s) (auto simp: Let_def fs_rt_inv split: prod.split)

lemma delete_in_namespaces_registry [simp]: "file_registry (delete_in_namespaces E inum nss s) = file_registry s" "files (delete_in_namespaces E inum nss s) = files s"
  by (induction nss arbitrary: s) (auto simp: Let_def fs_rt_def set_world_def split: prod.split)

lemma file_entry_delete_inv [frames]:
  assumes "fs_inv s" "n \<in> set (head (file_registry s))"
  shows "frame1 fs_inv (file_entry_delete E n s)"
  unfolding frame1_def
proof (intro allI impI)
  fix s'
  assume "file_entry_delete E n s = Some s'"
  then obtain t where t: "fileclose (fs_disk_ops E) (reg_file n) s = Some t"
    and s': "files s' = files t" "head (file_registry s') = HASH_DEL (head (file_registry t)) (object_id n)"
    by (auto simp: file_entry_delete_def resource_registry_delete_def file_registry_entry_on_delete_def xv6fs_sys_fileclose_def
        fs_rt_def set_world_def Let_def split: bind_splits prod.splits if_splits)
  have "at ((=) (files s)) (ofs.more s) s" by (simp add: at_def)
  from fileclose_at [OF this, of "reg_file n" "fs_disk_ops E"] t
  have "\<exists>x. files t = (files s)(reg_file n := x)" "ofs.more t = ofs.more s" by (auto simp: frame1_def at_def split: if_splits)
  moreover from this(2) have "file_registry t = file_registry s" by (cases s; cases t) simp
  ultimately show "fs_inv s'" using s' assms entries_ok_delete by (auto simp: fs_inv_def)
qed

lemma file_entry_dec_inv [frames]:
  assumes "fs_inv s" "n \<in> set (head (file_registry s))"
  shows "frame1 fs_inv (file_entry_dec E n s)"
proof -
  let ?f = "\<lambda>n :: file_registry_entry_t. n\<lparr>count := count n - 1\<rparr>"
  let ?s = "s\<lparr>file_registry := (file_registry s)\<lparr>head := node_update ?f (head (file_registry s)) (object_id n)\<rparr>\<rparr>"
  have "fs_inv ?s" using assms(1) by (simp add: fs_inv_def entries_ok_count)
  moreover have "?f n \<in> set (head (file_registry ?s))" using assms node_update_mem [of n _ ?f] by (simp add: fs_inv_def entries_ok_def)
  ultimately show ?thesis using file_entry_delete_inv [of ?s "?f n" E]
    by (auto simp: file_entry_dec_def resource_registry_dec_def Let_def file_entry_delete_def)
qed

lemma registered: "resource_registry_get_by_id r k = Some n \<Longrightarrow> n \<in> set (head r)" "resource_registry_get_by_badge r b = Some n \<Longrightarrow> n \<in> set (head r)"
  by (auto simp: resource_registry_get_by_badge_def resource_registry_get_by_id_def dest: HASH_FIND_Some)

lemma inc_inv: "fs_inv s \<Longrightarrow> fs_inv (s\<lparr>file_registry := resource_registry_inc (file_registry s) k\<rparr>)"
  by (simp add: fs_inv_def resource_registry_inc_def entries_ok_count)

lemma register_file_inv:
  assumes "fs_inv s" "at (\<lambda>h'. files s a = None \<and> h' = (files s)(a := h' a) \<and> (\<exists>f. h' a = Some f \<and> f_type f = FD_INODE \<and> f_ref f = 1)) (ofs.more s) t"
  shows "frame2 fs_inv (register_file E a t)"
proof -
  obtain f where f: "files s a = None" "files t = (files s)(a \<mapsto> f)" "f_type f = FD_INODE" "f_ref f = 1" "ofs.more t = ofs.more s"
    using assms(2) by (auto simp: at_def)
  have reg: "file_registry t = file_registry s" using f(5) by (cases s; cases t) simp
  have ok: "entries_ok (files s) (head (file_registry s))" using assms(1) by (simp add: fs_inv_def)
  show ?thesis
  proof (cases "resource_registry_get_by_id (file_registry s) (ucast (f_id f))")
    case None
    then have new: "ucast (f_id f) \<notin> set (keys (head (file_registry s)))" by (simp add: resource_registry_get_by_id_def HASH_FIND_None)
    have "entries_ok (files t) (HASH_ADD (head (file_registry s)) \<lparr>object_id = ucast (f_id f), count = 1, reg_file = a\<rparr>)"
      by (rule entries_ok_insert [OF ok f(1)]) (use f new in \<open>auto simp: entry_ok_def\<close>)
    moreover have "fs_inv t" using entries_ok_other [OF ok f(1)] f(2) reg by (simp add: fs_inv_def)
    ultimately show ?thesis using None f(2) reg
      by (auto simp: register_file_def resource_registry_insert_def fs_inv_def intro!: frame_pure(2))
  next
    case (Some n)
    let ?t = "t\<lparr>file_registry := resource_registry_inc (file_registry t) (object_id n)\<rparr>"
    have "frame2 fs_inv (do { s \<leftarrow> filedup (reg_file n) u; Some (Some (reg_file n), s) })" if u: "fileclose (fs_disk_ops E) a ?t = Some u" for u
    proof -
      have "at ((=) (files ?t)) (ofs.more ?t) ?t" by (simp add: at_def)
      from fileclose_at [OF this, of a "fs_disk_ops E"] u have "files u = files s" "ofs.more u = ofs.more ?t"
        using f by (auto simp: frame1_def at_def fun_upd_idem_iff)
      moreover from this(2) have "file_registry u = resource_registry_inc (file_registry s) (object_id n)" using reg by (cases u; cases t) simp
      moreover have "entries_ok (files s) (head (resource_registry_inc (file_registry s) (object_id n)))"
        using ok by (simp add: resource_registry_inc_def entries_ok_count)
      ultimately show ?thesis
        by (auto simp: filedup_def set_file_def fs_inv_def intro!: frame_pure(2) entries_ok_ref split: bind_splits)
    qed
    then show ?thesis using Some f(2) reg
      by (auto simp: register_file_def xv6fs_sys_fileclose_def intro!: frame_pure(2) [where m = "fileclose _ _ _"])
  qed
qed

subsection \<open>Requests and work\<close>

lemma destroy_ns_inv [frames]: "fs_inv s \<Longrightarrow> frame2 fs_inv (destroy_ns E sp b s)"
  by (auto simp: destroy_ns_def Let_def resource_registry_delete_def ns_registry_entry_on_delete_def fs_rt_inv
      intro!: frame_bind2 frames split: option.split prod.split)

lemma delete_file_inv [frames]: "fs_inv s \<Longrightarrow> frame1 fs_inv (delete_file E inum s)"
  by (auto simp: delete_file_def intro!: frames dest: registered split: option.split)

lemma announce_file_inv [frames]: "fs_inv s \<Longrightarrow> frame4 fs_inv (announce_file E badge conn fid s)"
  by (auto simp: announce_file_def Let_def split: prod.split)

lemma fs_new_namespace_inv [frames]: "fs_inv s \<Longrightarrow> frame4 fs_inv (fs_new_namespace E badge s)"
  by (auto simp: fs_new_namespace_def Let_def fs_rt_inv intro!: frame_pure(4) [where m = "resource_registry_insert _ _"] frame_bind2 frames
      split: prod.split option.split)

lemma fs_open_inv [frames]:
  assumes "malloc_fresh (file_mem E)" "fs_inv s"
  shows "frame4 fs_inv (fs_open E badge flags p s)"
proof -
  have "frame4 fs_inv (case r of None \<Rightarrow> Some (FsError_NO_FILE, Fs_basic, False, t)
      | Some a \<Rightarrow> do {
          (r, s) \<leftarrow> register_file E a t;
          (case r of None \<Rightarrow> Some (FsError_UNKNOWN, Fs_basic, False, s)
           | Some a \<Rightarrow> do { f \<leftarrow> files s a; announce_file E badge conn (f_id f) s }) })"
    if "xv6fs_sys_open (file_mem E) D q omode s = Some (r, t)" for r t D q omode conn
  proof -
    have "at ((=) (files s)) (ofs.more s) s" by (simp add: at_def)
    note o = xv6fs_sys_open_at [OF assms(1) this that]
    show ?thesis
    proof (cases r)
      case None
      then have "fs_inv t" using o assms(2) by (intro fs_inv_at(1) [of s]) (auto simp: at_def fs_inv_def)
      then show ?thesis using None by simp
    next
      case (Some a)
      then have "frame2 fs_inv (register_file E a t)" using o by (intro register_file_inv [OF assms(2)]) simp
      then show ?thesis using Some
        by (auto intro!: frame_bind2 frame_pure(4) [where m = "files _ _"] frames split: option.split)
    qed
  qed
  then show ?thesis using assms(2)
    by (auto simp: fs_open_def intro!: frame_pure(4) [where m = "xv6fs_sys_open _ _ _ _ _"] split: option.split)
qed

lemma fs_link_file_inv [frames]: "fs_inv s \<Longrightarrow> frame4 fs_inv (fs_link_file E m badge p s)"
  by (auto simp: fs_link_file_def intro!: frame_bind2 frames split: option.split)

lemma fs_unlink_file_inv [frames]: "fs_inv s \<Longrightarrow> frame4 fs_inv (fs_unlink_file E badge p s)"
  by (auto simp: fs_unlink_file_def Let_def fs_rt_inv intro!: frame_bind3 frame_bind1 frames split: option.split prod.split)

lemma with_client_memory_inv:
  assumes "fs_inv s" "\<And>va s. fs_inv s \<Longrightarrow> frame2 fs_inv (f va s)"
  shows "frame4 fs_inv (with_client_memory E cap f s)"
  using assms by (auto simp: with_client_memory_def Let_def intro!: frame_bind2 split: prod.split)

lemma fs_close_file_inv [frames]: "fs_inv s \<Longrightarrow> n \<in> set (head (file_registry s)) \<Longrightarrow> frame4 fs_inv (fs_close_file E badge n s)"
  by (auto simp: fs_close_file_def Let_def fs_rt_inv intro!: frame_bind1 frames split: option.split prod.split)

lemma xv6fs_request_handler_inv:
  assumes "malloc_fresh (file_mem E)" "fs_inv s"
  shows "frame4 fs_inv (xv6fs_request_handler E magic msg m badge cap s)"
proof -
  have "frame4 fs_inv (fs_space_request E msg m badge s)" using assms
    by (auto simp: fs_space_request_def intro!: frame_bind2 frames split: fs_message.split)
  moreover have "frame4 fs_inv (fs_file_request E msg badge cap s)" using assms(2)
    by (auto simp: fs_file_request_def intro!: with_client_memory_inv frame_bind2 frame_bind3 frames dest: registered split: fs_message.split option.split)
  ultimately show ?thesis using assms(2) by (simp add: xv6fs_request_handler_def)
qed

lemma extract_files_inv [frames]: "fs_inv s \<Longrightarrow> frame3 fs_inv (extract_files E sp client inums n ms s)"
  by (induction inums arbitrary: n ms s)
    (auto simp: xv6fs_sys_inode_blocknos_def intro!: frame_pure(3) [where m = "extract_file_node _ _ _ _ _ _"] frame_bind3
      frame_pure(3) [where m = "block_edges _ _ _ _ _"] frames)

lemma extract_spaces_inv [frames]: "fs_inv s \<Longrightarrow> frame3 fs_inv (extract_spaces E xs ms s)"
  by (induction xs arbitrary: ms s)
    (auto intro!: frame_pure(3) [where m = "c_assert _"] frame_bind3 frames split: option.split)

lemma extract_work_inv [frames]: "fs_inv s \<Longrightarrow> frame2 fs_inv (extract_work E xs s)"
  by (auto simp: extract_work_def Let_def intro!: frame_bind3 frames split: option.split prod.split)

lemma free_files_inv [frames]: "fs_inv s \<Longrightarrow> frame1 fs_inv (free_files E xs s)"
  by (induction xs arbitrary: s) (auto intro!: frame_bind1 frames dest: registered split: option.split)

lemma release_blocks_inv [frames]: "fs_inv s \<Longrightarrow> frame2 fs_inv (release_blocks E cns s)"
  by (induction cns arbitrary: s) (auto simp: Let_def intro!: frame_pure(2))

lemma destroy_item_inv [frames]: "fs_inv s \<Longrightarrow> frame2 fs_inv (destroy_item E sp fid s)"
  by (auto simp: destroy_item_def intro!: frame_bind1 frame_bind2 frames dest: registered split: option.split)

lemma destroy_items_inv [frames]: "fs_inv s \<Longrightarrow> frame2 fs_inv (destroy_items E xs s)"
  by (induction xs arbitrary: s) (auto intro!: frame_bind2 frames)

lemma send_files_inv: "fs_inv s \<Longrightarrow> fs_inv (snd (send_files xs s))"
  by (induction xs arbitrary: s) (auto simp: inc_inv split: option.split)

lemma frame2_pair: "frame2 P (Some y) \<longleftrightarrow> P (snd y)"
  by (cases y) simp

lemma xv6fs_work_handler_inv:
  assumes "fs_inv s"
  shows "frame2 fs_inv (xv6fs_work_handler E wk s)"
proof -
  have fin: "fs_inv (snd (fs_finish_work E a xs s)) = fs_inv s" for a xs s
    by (auto simp: fs_finish_work_def Let_def fs_rt_inv split: prod.split)
  show ?thesis using assms send_files_inv [OF assms, of "snd wk"]
    by (cases wk) (auto simp: xv6fs_work_handler_def frame2_pair fin intro!: frame_bind1 frame_bind2 frames
        split: option.split PdWorkAction.split prod.split)
qed

lemma work_loop_inv:
  assumes "work_loop (fs_server_code E W) s = Some (go, s')" "fs_inv s"
  shows "fs_inv s'"
proof -
  have "fs_server_code E W = fs_server_code E W \<longrightarrow> fs_inv s \<longrightarrow> fs_inv (snd (go, s'))"
  proof (rule work_loop.raw_induct [where P = "\<lambda>C s y. C = fs_server_code E W \<longrightarrow> fs_inv s \<longrightarrow> fs_inv (snd y)", OF _ assms(1)], intro impI)
    fix loop C s y
    assume hyp: "\<And>C s y. loop C s = Some y \<Longrightarrow> C = fs_server_code E W \<longrightarrow> fs_inv s \<longrightarrow> fs_inv (snd y)"
      and body: "(let ((e, w), s) = get_work C s in
        if e \<noteq> 0 then Some (False, s) else (case w of None \<Rightarrow> Some (True, s)
          | Some x \<Rightarrow> do { (_, s) \<leftarrow> work_handler C x s; loop C s })) = Some y"
      and C: "C = fs_server_code E W" and inv: "fs_inv s"
    obtain e wk w where W: "W (fs_world s) = ((e, wk), w)" by (metis prod.collapse)
    have t: "fs_inv (set_world w s)" using inv by simp
    show "fs_inv (snd y)"
    proof (cases "e = 0 \<and> wk \<noteq> None")
      case False
      then show ?thesis using body W inv by (cases wk) (auto simp: C fs_server_code_def split: if_splits)
    next
      case True
      then obtain x r u where "xv6fs_work_handler E x (set_world w s) = Some (r, u)" "loop C u = Some y"
        using body W by (auto simp: C fs_server_code_def split: bind_splits)
      then show ?thesis using hyp [of C u y] C xv6fs_work_handler_inv [OF t, of E x] by (simp add: frame2_def)
    qed
  qed
  then show ?thesis using assms(2) by simp
qed

text \<open>C6: the registry of open files always points to live file structures. The initialization establishes the invariant, and every turn of the main loop of the
  file server (a request of any client, or all the work of the root task) that returns preserves it: the entries have distinct IDs and distinct
  structures, and each structure is allocated, belongs to an inode, has at least one reference and the ID of its entry. \<open>malloc\<close> is assumed to return memory that is not in use.\<close>

theorem open_files_allocated:
  assumes "malloc_fresh (file_mem E)"
  shows "(xv6fs_init E s = Some (0, s') \<longrightarrow> fs_inv s') \<and>
    (fs_inv s \<and> resource_server_turn (fs_server_code E W) badge msg slot s = Some (go, r, s') \<longrightarrow> fs_inv s')"
proof (intro conjI impI)
  assume "xv6fs_init E s = Some (0, s')"
  then have "head (file_registry s') = []"
    by (auto simp: xv6fs_init_def Let_def resource_registry_initialize_def split: prod.splits if_splits bind_splits)
  then show "fs_inv s'" by (simp add: fs_inv_def entries_ok_def)
next
  assume a: "fs_inv s \<and> resource_server_turn (fs_server_code E W) badge msg slot s = Some (go, r, s')"
  have "frame4 fs_inv (xv6fs_request_handler E magic q m badge cap s)" for magic q m cap
    using xv6fs_request_handler_inv [OF assms] a by blast
  then show "fs_inv s'" using a work_loop_inv [of E W s _ s']
    by (auto simp: resource_server_turn_def fs_server_code_def [of E W] frame4_def Let_def fs_rt_inv split: if_splits bind_splits prod.splits)
qed

text \<open>A server with one open file, whose only client closes it: the entry and the structure are gone together.\<close>

definition example_rt :: "unit rd_env" where
  "example_rt = \<lparr>malloc = (\<lambda>_. None), rt = (\<lambda>_ w. ((0, 0), w))\<rparr>"

definition example_fs_env :: "unit fs_env" where
  "example_fs_env = \<lparr>own_rt = example_rt, disk_rt = example_rt, file_mem = (\<lambda>_. None), entry_malloc = (\<lambda>_. True), mo_load = (\<lambda>_ _ _. 0),
     mo_store = (\<lambda>_ _ w. w), mo_store_stat = (\<lambda>_ _ w. w), fs_names = (\<lambda>_. None), own_pd = 3, block_type = 11, block_default_space = 5,
     can_request_blocks = (\<lambda>_. True), rd_ep_badge = 1, rd_recv_slot = 1, slot_badge = (\<lambda>_ _. 1), stack_junk = (\<lambda>_. 0), component_size = 380, model_state_size = 40\<rparr>"

definition example_file :: file_t where
  "example_file = \<lparr>f_type = FD_INODE, f_id = 4, f_ref = 1, f_readable = True, f_writable = True, f_ip = 0, f_off = 0, f_major = 0, f_flags = 2\<rparr>"

definition example_inode :: inode where
  "example_inode = \<lparr>i_dev = 1, i_inum = 4, i_ref = 1, i_valid = True, i_type = T_FILE, i_major = 0, i_minor = 0, i_nlink = 1, i_size = 0,
     i_ctime = 0, i_atime = 0, i_mtime = 0, i_addrs = replicate (NDIRECT + 1) 0\<rparr>"

definition example_fs_server :: "unit xv6fs_server_context_t" where
  "example_fs_server = \<lparr>bufs = [], disk = \<lparr>conns = [], page = 0, ram = \<lparr>rd_type = 11, rd_default_space = 5, ramdisk_buf = 0, free_blocks = None,
       shared_mem = [], rd_heap = Map.empty, rd_mem = (\<lambda>_. 0), rd_world = ()\<rparr>\<rparr>, sb = mkfs_superblock, itable = [example_inode], cwd = None,
     files = [7 \<mapsto> example_file], fs_type = 12, fs_default_space = 6,
     file_registry = \<lparr>head = [\<lparr>object_id = 4, count = 1, reg_file = 7\<rparr>], max_object_id = 1000, id_counter = 0\<rparr>,
     ns_registry = \<lparr>head = [], max_object_id = 1000, id_counter = 0\<rparr>, block_ids = [], block_space = 5\<rparr>"

definition close_badge :: u64 where "close_badge = 0x0C00060000900004"

lemma close_badge_fields: "get_cap_type_from_badge close_badge = 12" "get_space_id_from_badge close_badge = 6"
  "get_object_id_from_badge close_badge = 4" "close_badge \<noteq> 0" "close_badge \<noteq> NOTIF_BADGE" "(4 :: u32) \<noteq> BADGE_OBJ_ID_NULL"
  by (simp_all add: close_badge_def badge_defs badge_const_defs)

lemma example_close:
  "resource_server_turn (fs_server_code example_fs_env (\<lambda>w. ((0, None), w))) close_badge
     (Some (FS_RPC_MAGIC, Fs_close, \<lparr>seL4_GetBadge = (\<lambda>_. 0), seL4_GetCap = (\<lambda>_. 0)\<rparr>)) 0 example_fs_server =
   Some (True, Some (0, Fs_basic), example_fs_server\<lparr>itable := [example_inode\<lparr>i_ref := 0\<rparr>], files := Map.empty,
     file_registry := \<lparr>head = [], max_object_id = 1000, id_counter = 0\<rparr>\<rparr>)"
  by (simp add: resource_server_turn_def fs_server_code_def xv6fs_request_handler_def close_badge_fields fs_file_request_def example_fs_server_def
      resource_registry_get_by_badge_def resource_registry_get_by_id_def fs_close_file_def file_entry_dec_def resource_registry_dec_def
      resource_registry_delete_def file_registry_entry_on_delete_def xv6fs_sys_fileclose_def fileclose_def example_file_def example_inode_def iput_def
      upd_inode_def fs_rt_def set_world_def fs_world_def example_fs_env_def example_rt_def path_in_ns_def Let_def)

theorem open_files_allocated_witness:
  "\<exists>s'. fs_inv example_fs_server \<and> resource_server_turn (fs_server_code example_fs_env (\<lambda>w. ((0, None), w))) close_badge
     (Some (FS_RPC_MAGIC, Fs_close, \<lparr>seL4_GetBadge = (\<lambda>_. 0), seL4_GetCap = (\<lambda>_. 0)\<rparr>)) 0 example_fs_server = Some (True, Some (0, Fs_basic), s') \<and>
     fs_inv s' \<and> files s' 7 = None"
proof -
  have "malloc_fresh (file_mem example_fs_env)" by (simp add: malloc_fresh_def example_fs_env_def)
  moreover have "fs_inv example_fs_server"
    by (simp add: fs_inv_def entries_ok_def entry_ok_def example_fs_server_def example_file_def)
  ultimately show ?thesis using open_files_allocated [of example_fs_env example_fs_server] example_close by fastforce
qed

end
