(* ===== verification/Fs_Paths.thy ===== *)
theory Fs_Paths
  imports Fs_Server
begin

section \<open>Paths and namespaces\<close>

text \<open>
  \<open>namex\<close> takes a path apart with \<open>skipelem\<close> while it walks over directories. The reference is a walk over the list of
  names of the path: the non-empty parts between slashes, cut to the length of a name. The names of a path in a namespace are the name of the
  directory of the namespace and the names of the path.
\<close>

fun split_slash :: "path \<Rightarrow> path list" where
  "split_slash [] = [[]]"
| "split_slash (c # p) = (if c = slash then [] # split_slash p else (c # hd (split_slash p)) # tl (split_slash p))"

definition names_of :: "path \<Rightarrow> path list" where
  "names_of p = map (take DIRSIZ) (filter (\<lambda>w. w \<noteq> []) (split_slash p))"

fun walk_names ::
    "'d disk_ops \<Rightarrow> nat \<Rightarrow> path list \<Rightarrow> bool \<Rightarrow> path \<Rightarrow> ('d, 'z) fs_scheme \<Rightarrow> ((nat \<times> path) option \<times> ('d, 'z) fs_scheme) option" where
  "walk_names D ip [] parent name s = (if parent then do { s \<leftarrow> iput D ip s; Some (None, s) } else Some (Some (ip, name), s))"
| "walk_names D ip (n # ns) parent name s = do {
     s \<leftarrow> ilock D ip s;
     if i_type (inode_of s ip) \<noteq> T_DIR then do { s \<leftarrow> iunlockput D ip s; Some (None, s) }
     else if parent \<and> ns = [] then do { s \<leftarrow> iunlock ip s; Some (Some (ip, n), s) }
     else do {
       (r, s) \<leftarrow> dirlookup D ip n s;
       s \<leftarrow> iunlockput D ip s;
       (case r of None \<Rightarrow> Some (None, s) | Some (nxt, _) \<Rightarrow> walk_names D nxt ns parent n s) } }"

definition ns_name :: "gpi_space_id_t \<Rightarrow> path" where
  "ns_name nsid = path_of (''ns'' @ decimal (unat nsid))"

subsection \<open>Names of a path\<close>

lemma split_slash_nonempty [simp]: "split_slash p \<noteq> []"
  by (cases p) auto

lemma names_of_slash [simp]: "names_of (slash # p) = names_of p" "names_of [] = []"
  by (simp_all add: names_of_def)

lemma names_of_drop: "names_of (dropWhile (\<lambda>c. c = slash) p) = names_of p"
  by (induction p) auto

lemma split_slash_word: "slash \<notin> set w \<Longrightarrow> split_slash (w @ slash # p) = w # split_slash p" "slash \<notin> set w \<Longrightarrow> split_slash w = [w]"
  by (induction w) auto

lemma names_of_word:
  assumes "slash \<notin> set w" "w \<noteq> []"
  shows "names_of (w @ slash # p) = take DIRSIZ w # names_of p" "names_of w = [take DIRSIZ w]"
  using assms by (simp_all add: names_of_def split_slash_word)

lemma first_word: "q \<noteq> [] \<Longrightarrow> hd q \<noteq> slash \<Longrightarrow> takeWhile (\<lambda>c. c \<noteq> slash) q \<noteq> []" "slash \<notin> set (takeWhile (\<lambda>c. c \<noteq> slash) q)"
  by (cases q; simp) (auto dest: set_takeWhileD)

lemma after_word: "dropWhile (\<lambda>c. c \<noteq> slash) q = [] \<or> (\<exists>r. dropWhile (\<lambda>c. c \<noteq> slash) q = slash # r)"
  by (induction q) auto

lemma names_of_skipelem:
  "names_of p = (case skipelem p of None \<Rightarrow> [] | Some (n, rest) \<Rightarrow> n # names_of rest)"
proof -
  let ?p = "dropWhile (\<lambda>c. c = slash) p"
  let ?w = "takeWhile (\<lambda>c. c \<noteq> slash) ?p" and ?r = "dropWhile (\<lambda>c. c \<noteq> slash) ?p"
  show ?thesis
  proof (cases "?p = []")
    case True
    then show ?thesis using names_of_drop [of p, unfolded True] by (simp add: skipelem_def)
  next
    case False
    then have w: "?w \<noteq> []" "slash \<notin> set ?w" using first_word [of ?p] hd_dropWhile [OF False] by auto
    have "?p = ?w @ ?r" by simp
    moreover have "?r = [] \<or> (\<exists>q. ?r = slash # q)" by (rule after_word)
    ultimately have "names_of ?p = take DIRSIZ ?w # names_of ?r" using names_of_word [OF w(2,1)] by (metis append_Nil2 names_of_slash)
    moreover have "skipelem p = Some (take DIRSIZ ?w, dropWhile (\<lambda>c. c = slash) ?r)" using False
      by (simp add: skipelem_def Let_def del: dropWhile_eq_Nil_conv)
    ultimately show ?thesis using names_of_drop [of p] names_of_drop [of ?r] by simp
  qed
qed

lemma rest_names:
  assumes "skipelem p = Some (n, rest)"
  shows "rest = [] \<longleftrightarrow> names_of rest = []"
proof -
  have "rest \<noteq> [] \<Longrightarrow> hd rest \<noteq> slash"
    using assms hd_dropWhile [of "\<lambda>c. c = slash"] by (auto simp: skipelem_def Let_def split: if_splits)
  then have "rest \<noteq> [] \<Longrightarrow> skipelem rest \<noteq> None" by (cases rest) (auto simp: skipelem_def Let_def)
  then show ?thesis using names_of_skipelem [of rest] by (auto split: option.splits)
qed

lemma namex_loop_names: "namex_loop D ip p parent name s = walk_names D ip (names_of p) parent name s"
proof (induction "length p" arbitrary: ip p name s rule: less_induct)
  case less
  show ?case
  proof (cases "skipelem p")
    case None
    then show ?thesis using names_of_skipelem [of p] by (subst namex_loop.simps) simp
  next
    case (Some x)
    then obtain n rest where x: "skipelem p = Some (n, rest)" by (cases x) auto
    note rec = less [OF skipelem_shorter [OF x]]
    have "names_of p = n # names_of rest" using x names_of_skipelem [of p] by simp
    then show ?thesis using x rest_names [OF x] by (subst namex_loop.simps, unfold x option.case prod.case rec rest_names [OF x]) simp
  qed
qed

subsection \<open>Namespaces\<close>

lemma decimal_digits: "c \<in> set (decimal n) \<Longrightarrow> of_char c \<in> {48 .. 57 :: nat}"
proof (induction n rule: decimal.induct)
  case (1 n)
  then show ?case by (subst (asm) (2) decimal.simps) (auto split: if_splits)
qed

lemma decimal_length: "n < 10 ^ k \<Longrightarrow> 0 < k \<Longrightarrow> length (decimal n) \<le> k"
proof (induction k arbitrary: n)
  case (Suc k)
  show ?case
  proof (cases "n < 10")
    case True
    then show ?thesis by (simp add: decimal.simps)
  next
    case False
    then have "0 < k" "n div 10 < 10 ^ k" using Suc.prems(1) by (cases k; auto simp: less_mult_imp_div_less mult.commute)+
    then show ?thesis using Suc.IH [of "n div 10"] False by (simp add: decimal.simps [of n])
  qed
qed simp

lemma decimal_inj: "decimal n = decimal m \<Longrightarrow> n = m"
proof (induction n arbitrary: m rule: less_induct)
  case (less n)
  have len: "k \<ge> 10 \<Longrightarrow> length (decimal k) \<ge> 2" for k
    by (subst decimal.simps, subst decimal.simps [of "k div 10"]) auto
  show ?case
  proof (cases "n < 10 \<or> m < 10")
    case True
    then have "n < 10 \<and> m < 10" using less.prems len [of n] len [of m] by (force simp: decimal.simps [of n] decimal.simps [of m] split: if_splits)
    then show ?thesis using less.prems by (simp add: decimal.simps)
  next
    case False
    then have "decimal (n div 10) = decimal (m div 10)" "char_of (48 + n mod 10) = (char_of (48 + m mod 10) :: char)"
      using less.prems by (simp_all add: decimal.simps [of n] decimal.simps [of m])
    moreover from this(2) have "n mod 10 = m mod 10"
      using arg_cong [where f = "of_char :: char \<Rightarrow> nat"] by fastforce
    ultimately show ?thesis using less.IH [of "n div 10" "m div 10"] False by (metis div_mod_decomp linorder_not_less div_less_dividend numeral_One one_less_numeral_iff semiring_norm(76) zero_less_iff_neq_zero less_numeral_extra(3) zero_less_numeral)
  qed
qed

lemma of_char_u8: "(of_char c :: u8) = of_nat (of_char c)" "unat (of_char c :: u8) = of_char c"
proof -
  show e: "(of_char c :: u8) = of_nat (of_char c)" by (simp add: of_nat_of_char)
  then show "unat (of_char c :: u8) = of_char c" by (simp add: unat_of_nat)
qed

lemma ns_name_facts: "slash \<notin> set (ns_name n)" "ns_name n \<noteq> []" "length (ns_name n) \<le> 12"
proof -
  have "slash \<noteq> of_char c" if "c \<in> set (''ns'' @ decimal (unat n))" for c :: char
  proof -
    have "(of_char c :: nat) \<noteq> 47" using that decimal_digits [of c "unat n"] by auto
    then show ?thesis using of_char_u8(2) [of c] by (auto simp: slash_def)
  qed
  then show "slash \<notin> set (ns_name n)" unfolding ns_name_def path_of_def set_map by blast
  show "ns_name n \<noteq> []" by (simp add: ns_name_def path_of_def)
  have "unat n < 10 ^ 10" using unsigned_less [of n] by (rule order.strict_trans2) simp
  then show "length (ns_name n) \<le> 12" using decimal_length [of "unat n" 10] by (simp add: ns_name_def path_of_def)
qed

lemma prefix_path:
  assumes "length p \<le> 113"
  shows "\<exists>q. apply_prefix (make_ns_prefix n) p = slash # ns_name n @ slash # q \<and> names_of q = names_of p"
proof -
  have m: "make_ns_prefix n = slash # ns_name n" using ns_name_facts(3) [of n]
    by (simp add: make_ns_prefix_def ns_name_def path_of_def MAXPATH_def slash_def)
  show ?thesis
  proof (cases "p \<noteq> [] \<and> hd p = slash")
    case True
    then obtain q where "p = slash # q" by (cases p) auto
    then show ?thesis using assms m ns_name_facts(3) [of n] by (auto simp: apply_prefix_def MAXPATH_def)
  next
    case False
    then show ?thesis using assms m ns_name_facts(3) [of n] by (auto simp: apply_prefix_def MAXPATH_def)
  qed
qed

text \<open>C9: equivalence of the path walk with a walk over a list of names: \<open>namex\<close> starts at the root or at the current directory and
  looks up the names of the path (the non-empty parts between slashes, cut to \<open>DIRSIZ\<close>) one after the other. A path of up to 113 bytes that is used in a
  namespace is walked from the root, first into the directory of the namespace and then along its own names, which may include \<open>..\<close>; the directories of two
  namespaces have different names.\<close>

theorem namex_walks_names:
  "namex D p parent s = do {
     (ip, s) \<leftarrow> (if p \<noteq> [] \<and> hd p = slash then iget ROOTDEV ROOTINO s else (case cwd s of None \<Rightarrow> None | Some ip \<Rightarrow> Some (ip, idup ip s)));
     walk_names D ip (names_of p) parent [] s } \<and>
   (length p \<le> 113 \<longrightarrow> namex D (apply_prefix (make_ns_prefix n) p) parent s = do {
     (ip, s) \<leftarrow> iget ROOTDEV ROOTINO s;
     walk_names D ip (ns_name n # names_of p) parent [] s }) \<and>
   (ns_name n = ns_name m \<longrightarrow> n = m)"
proof (intro conjI impI)
  show "namex D p parent s = do {
     (ip, s) \<leftarrow> (if p \<noteq> [] \<and> hd p = slash then iget ROOTDEV ROOTINO s else (case cwd s of None \<Rightarrow> None | Some ip \<Rightarrow> Some (ip, idup ip s)));
     walk_names D ip (names_of p) parent [] s }"
    by (simp only: namex_def namex_loop_names)
next
  assume "length p \<le> 113"
  from prefix_path [OF this, of n] obtain q where q: "apply_prefix (make_ns_prefix n) p = slash # ns_name n @ slash # q" "names_of q = names_of p" by blast
  have "names_of (slash # ns_name n @ slash # q) = ns_name n # names_of p"
    using names_of_word(1) [OF ns_name_facts(1,2), of n q] ns_name_facts(3) [of n] q(2) by (simp add: DIRSIZ_def)
  then show "namex D (apply_prefix (make_ns_prefix n) p) parent s = do {
     (ip, s) \<leftarrow> iget ROOTDEV ROOTINO s;
     walk_names D ip (ns_name n # names_of p) parent [] s }"
    by (simp only: namex_def namex_loop_names q(1)) simp
next
  assume "ns_name n = ns_name m"
  then have "map (of_char :: char \<Rightarrow> u8) (decimal (unat n)) = map of_char (decimal (unat m))" by (simp add: ns_name_def path_of_def)
  moreover have "inj (of_char :: char \<Rightarrow> u8)" by (metis injI of_char_u8(2) of_char_eq_iff)
  ultimately have "decimal (unat n) = decimal (unat m)" by (simp add: inj_map_eq_map)
  then show "n = m" using decimal_inj by (simp add: word_unat_eq_iff)
qed

theorem namex_walks_names_witness:
  "\<forall>D (s :: unit fs). namex D (apply_prefix (make_ns_prefix 7) [46, 46, 47, 97]) False s = do {
     (ip, s) \<leftarrow> iget ROOTDEV ROOTINO s;
     walk_names D ip [[110, 115, 55], dotdot, [97]] False [] s }"
proof -
  have "ns_name 7 = [110, 115, 55]" by (simp add: ns_name_def path_of_def decimal.simps of_char_u8(1))
  moreover have "names_of [46, 46, 47, 97] = [dotdot, [97]]" by (simp add: names_of_def slash_def dotdot_def DIRSIZ_def)
  ultimately show ?thesis
    using namex_walks_names [where p = "[46, 46, 47, 97]" and parent = False and n = 7 and s = "s :: unit fs" for s, THEN conjunct2, THEN conjunct1]
    by (simp del: walk_names.simps)
qed

end
