(* ===== verification/Pd_Utils.thy ===== *)
theory Pd_Utils
  imports Directory
begin

section \<open>The resource directory as its PD sees it (pd\_utils.c)\<close>

text \<open>
  The root task writes the resource directory and the names of the resource types of a PD into a page that is shared with the PD. The client side
  of the library looks up types and endpoints in this page. An index past the end of an array and a failed assertion give \<open>None\<close>.
\<close>

definition sel4gpi_get_binded_ads_id :: "osm_pd_shared_data_t \<Rightarrow> gpi_obj_id_t" where
  "sel4gpi_get_binded_ads_id d = ads_conn_id d"

fun find_name :: "string \<Rightarrow> string list \<Rightarrow> nat \<Rightarrow> nat option" where
  "find_name tname [] i = None"
| "find_name tname (x # xs) i = (if x = tname then Some i else find_name tname xs (Suc i))"

definition sel4gpi_get_resource_type_code :: "osm_pd_shared_data_t \<Rightarrow> string \<Rightarrow> gpi_cap_t" where
  "sel4gpi_get_resource_type_code d tname =
     (case find_name tname (take (unat GPICAP_TYPE_MAX) (type_names d)) 0 of Some i \<Rightarrow> of_nat i | None \<Rightarrow> GPICAP_TYPE_NONE)"

definition sel4gpi_get_resource_type_name :: "osm_pd_shared_data_t \<Rightarrow> gpi_cap_t \<Rightarrow> string option" where
  "sel4gpi_get_resource_type_name d type =
     (if type > GPICAP_TYPE_MAX then Some ''NONE''
      else if unat type < length (type_names d) then Some (type_names d ! unat type) else None)"

text \<open>The entry \<open>rde[type][i]\<close>.\<close>

definition rde_at :: "osm_pd_shared_data_t \<Rightarrow> gpi_cap_t \<Rightarrow> nat \<Rightarrow> osmosis_rde_t option" where
  "rde_at d type i = (if unat type < length (rde d) \<and> i < length (rde d ! unat type) then Some (rde d ! unat type ! i) else None)"

definition sel4gpi_get_rde :: "osm_pd_shared_data_t \<Rightarrow> gpi_cap_t \<Rightarrow> cptr option" where
  "sel4gpi_get_rde d type = (if type = GPICAP_TYPE_NONE then Some seL4_CapNull else map_option slot_in_PD (rde_at d type 0))"

definition sel4gpi_can_request_type :: "osm_pd_shared_data_t \<Rightarrow> string \<Rightarrow> bool option" where
  "sel4gpi_can_request_type d tname = (let cap_type = sel4gpi_get_resource_type_code d tname in
     if cap_type = GPICAP_TYPE_NONE then Some False else map_option (\<lambda>c. c \<noteq> seL4_CapNull) (sel4gpi_get_rde d cap_type))"

definition sel4gpi_get_default_space_id :: "osm_pd_shared_data_t \<Rightarrow> gpi_cap_t \<Rightarrow> gpi_space_id_t option" where
  "sel4gpi_get_default_space_id d type = map_option rde_space_id (rde_at d type 0)"

fun find_space :: "gpi_space_id_t \<Rightarrow> osmosis_rde_t list \<Rightarrow> cptr" where
  "find_space sid [] = seL4_CapNull"
| "find_space sid (r # rs) = (if rde_space_id r = sid then slot_in_PD r else find_space sid rs)"

definition sel4gpi_get_rde_by_space_id :: "osm_pd_shared_data_t \<Rightarrow> gpi_space_id_t \<Rightarrow> gpi_cap_t \<Rightarrow> cptr option" where
  "sel4gpi_get_rde_by_space_id d sid type = do {
     c_assert (type \<noteq> GPICAP_TYPE_NONE \<and> type \<noteq> GPICAP_TYPE_MAX);
     if sid = BADGE_SPACE_ID_NULL then sel4gpi_get_rde d type
     else do {
       c_assert (unat type < length (rde d));
       Some (find_space sid (rde d ! unat type)) } }"

definition sel4gpi_get_bound_vmr_rde :: "osm_pd_shared_data_t \<Rightarrow> cptr option" where
  "sel4gpi_get_bound_vmr_rde d = sel4gpi_get_rde_by_space_id d (sel4gpi_get_binded_ads_id d) GPICAP_TYPE_VMR"

subsection \<open>The two sides of the directory\<close>

abbreviation slot_of :: "osmosis_rde_t option \<Rightarrow> cptr" where
  "slot_of r \<equiv> (case r of None \<Rightarrow> seL4_CapNull | Some r \<Rightarrow> slot_in_PD r)"

lemma find_space_scan:
  "sid \<noteq> BADGE_SPACE_ID_NULL \<Longrightarrow> find_space sid row = slot_of (map_option (\<lambda>j. row ! (j - i)) (rde_scan type sid i row))"
proof (induction row arbitrary: i)
  case (Cons r row)
  have "(r # row) ! (j - i) = row ! (j - Suc i)" if "rde_scan type sid (Suc i) row = Some j" for j
    using rde_scan_SomeD [OF that] by auto
  then show ?case using Cons.prems Cons.IH [of "Suc i"] by (auto split: option.split)
qed simp

text \<open>
  For the null space the server takes the first entry that is of the type, or was removed, and the client the entry at index 0. They are the
  same as long as the entry at index 0 is one of these whenever there is one. Entries are added at the first free index, and an entry that is
  removed stays marked, so this is kept by additions and removals.
\<close>

definition row_led :: "gpi_cap_t \<Rightarrow> osmosis_rde_t list \<Rightarrow> bool" where
  "row_led type row \<longleftrightarrow> \<not> list_ex (rde_match type BADGE_SPACE_ID_NULL) row \<or> rde_match type BADGE_SPACE_ID_NULL (row ! 0)"

definition rde_led :: "pd_t \<Rightarrow> bool" where
  "rde_led p \<longleftrightarrow> list_all (\<lambda>t. row_led (of_nat t) (rde (shared p) ! t)) [1..<unat GPICAP_TYPE_MAX]"

lemma rde_led_row:
  assumes "rde_led p" "type \<noteq> 0" "type < GPICAP_TYPE_MAX"
  shows "row_led type (rde (shared p) ! unat type)"
proof -
  have "unat type \<in> {1..<unat GPICAP_TYPE_MAX}" using assms(2,3) by (simp add: word_less_nat_alt Suc_le_eq unat_gt_0)
  then show ?thesis using assms(1) by (force simp: rde_led_def list_all_iff)
qed

lemma rde_led_update:
  assumes "rde_wf p" "rde_led p" "row_led type row" "rde (shared p') = (rde (shared p))[unat type := row]"
  shows "rde_led p'"
proof -
  have "row_led (of_nat t) (rde (shared p') ! t)" if "t \<in> {1..<unat GPICAP_TYPE_MAX}" for t
    using assms that by (cases "t = unat type") (auto simp: rde_led_def list_all_iff rde_wf_def)
  then show ?thesis by (simp add: rde_led_def list_all_iff)
qed

lemma row_led_fill:
  assumes "rde_free_scan type sid 0 row = Some k" "rde_type r = type" "rde_row_wf (unat type) row"
  shows "row_led type (row[k := r])"
proof -
  have k: "k < length row" "k \<noteq> 0 \<Longrightarrow> rde_type (row ! 0) \<noteq> GPICAP_TYPE_NONE" using rde_free_scan_SomeD [OF assms(1)] by auto
  then have "row ! 0 \<in> set row" using k(1) by (cases row) auto
  then have "k \<noteq> 0 \<Longrightarrow> rde_type (row ! 0) = type" using k(2) assms(3) by (auto simp: rde_row_wf_def list_all_iff rde_free_def)
  then show ?thesis using k(1) assms(2) by (cases "k = 0") (auto simp: row_led_def rde_match_def)
qed

lemma removed_row_none: "\<not> list_ex (rde_match type BADGE_SPACE_ID_NULL) row \<Longrightarrow> removed_row type sid row = row"
  by (induction row) (auto simp: rde_match_def rde_hit_def)

lemma row_led_removed: "row_led type row \<Longrightarrow> row_led type (removed_row type sid row)"
  by (cases "list_ex (rde_match type BADGE_SPACE_ID_NULL) row"; cases row)
    (auto simp: removed_row_none row_led_def rde_match_def entry_cleared_def)

lemma rde_led_add:
  assumes "rde_wf p" "rde_led p" "type < GPICAP_TYPE_MAX" "pd_vka p = Some v" "pd_id p \<le> 0xFFFFF" "sid \<le> 0xFF"
    and ret: "pd_add_rde E type tname sid raw_ep p w = Some (e, p', w')"
  shows "rde_led p'"
proof -
  let ?row = "rde (shared p) ! unat type"
  have led: "rde_led p'" if "rde_free_scan type sid 0 ?row = Some k" "rde_type (f (?row ! k)) = type"
      "rde (shared p') = rde (shared (set_rde type k f (named type tname p)))" for k f
    using rde_led_update [OF assms(1,2) row_led_fill [OF that(1,2) rde_wf_row(2) [OF assms(1,3)]]] that(3) by (simp add: rde_set_rde)
  show ?thesis
  proof (rule pd_add_rde_cases [OF assms(1,3-6), of E tname raw_ep w])
    fix idx e' w2
    assume "pd_add_rde E type tname sid raw_ep p w = Some (e', set_rde type idx (entry_filled type sid raw_ep) (named type tname p), w2)"
      and free: "rde_free_scan type sid 0 ?row = Some idx"
    then show ?thesis using led [OF free, of "entry_filled type sid raw_ep"] ret by (simp add: entry_filled_def)
  next
    fix idx dest w2 q
    assume "pd_add_rde E type tname sid raw_ep p w = Some (0, q\<lparr>shared := (shared q)\<lparr>rde_count := rde_count (shared p) + 1\<rparr>\<rparr>, w2)"
      and q: "q = set_rde type idx (\<lambda>r. entry_filled type sid raw_ep r\<lparr>slot_in_PD := dest\<rparr>) (named type tname p)"
      and free: "rde_free_scan type sid 0 ?row = Some idx"
    then have "rde (shared p') = rde (shared q)" using ret by auto
    then show ?thesis using led [OF free, of "\<lambda>r. entry_filled type sid raw_ep r\<lparr>slot_in_PD := dest\<rparr>"] q by (simp add: entry_filled_def)
  qed (use ret assms(2) in simp)
qed

lemma rde_led_remove:
  assumes "rde_wf p" "rde_led p" "type \<noteq> 0" "type < GPICAP_TYPE_MAX" "pd_vka p = Some v" "cap_calls_succeed E"
    and ret: "pd_remove_rde E type sid p w = Some (e, p', w')"
  shows "rde_led p'"
proof -
  have "rde (shared p') = (rde (shared p))[unat type := removed_row type sid (rde (shared p) ! unat type)]"
    using remove_loop_spec [OF assms(6,3,4,1,5), of 0 MAX_NS_PER_RDE _ sid False w] ret assms(3)
    by (auto simp: pd_remove_rde_def cap_type_defs c_assert_def split: if_splits)
  then show ?thesis by (rule rde_led_update [OF assms(1,2) row_led_removed [OF rde_led_row [OF assms(2-4)]]])
qed

lemma null_scan:
  assumes "row_led type row" "row \<noteq> []" "\<forall>r\<in>set row. rde_free r \<or> rde_type r = type"
  shows "slot_of (map_option ((!) row) (rde_scan type BADGE_SPACE_ID_NULL 0 row)) = slot_in_PD (row ! 0)"
proof (cases "rde_match type BADGE_SPACE_ID_NULL (row ! 0)")
  case True
  then show ?thesis using rde_scan_first [of 0 row type BADGE_SPACE_ID_NULL 0] assms(2) by simp
next
  case False
  then have no: "\<not> list_ex (rde_match type BADGE_SPACE_ID_NULL) row" using assms(1) by (simp add: row_led_def)
  have "row ! 0 \<in> set row" using assms(2) by simp
  then have "slot_in_PD (row ! 0) = 0" using False assms(3) by (auto simp: rde_match_def rde_free_def)
  then show ?thesis using no rde_scan_None [of type BADGE_SPACE_ID_NULL 0 row] by simp
qed

lemma lookup_alike:
  assumes "rde_wf p" "rde_led p" "type \<noteq> 0" "type < GPICAP_TYPE_MAX"
  shows "sel4gpi_get_rde_by_space_id (shared p) sid type = map_option slot_of (pd_rde_get p type sid)"
proof -
  let ?row = "rde (shared p) ! unat type"
  have l: "unat type < length (rde (shared p))" "length ?row = MAX_NS_PER_RDE" "\<forall>r\<in>set ?row. rde_free r \<or> rde_type r = type"
    using rde_wf_row(2) [OF assms(1,4)] assms(1,4)
    by (auto simp: rde_wf_def rde_row_wf_def list_all_iff word_less_nat_alt)
  have a: "type \<noteq> GPICAP_TYPE_NONE" "type \<noteq> GPICAP_TYPE_MAX" using assms(3,4) by (auto simp: cap_type_defs)
  show ?thesis
  proof (cases "sid = BADGE_SPACE_ID_NULL")
    case True
    have "?row \<noteq> []" using l(2) by (auto simp: MAX_NS_PER_RDE_def)
    then show ?thesis using null_scan [OF rde_led_row [OF assms(2-4)] _ l(3)] l(1) a True
      by (simp add: sel4gpi_get_rde_by_space_id_def sel4gpi_get_rde_def rde_at_def pd_rde_get_row [OF assms(1,4)] length_greater_0_conv [symmetric] del: length_greater_0_conv)
  next
    case False
    then show ?thesis using find_space_scan [OF False, of ?row 0 type] l(1) a
      by (simp add: sel4gpi_get_rde_by_space_id_def pd_rde_get_row [OF assms(1,4)])
  qed
qed

text \<open>
  Client and server read the directory alike. In a well-formed directory where the first entries lead, the endpoint a PD finds for a type
  and a space, the null space included, is the slot of the entry the server finds, or the null capability if the server finds none.
\<close>

theorem client_server_lookup:
  assumes "rde_wf p" "rde_led p" "type \<noteq> 0" "type < GPICAP_TYPE_MAX"
  shows "sel4gpi_get_rde_by_space_id (shared p) sid type = map_option slot_of (pd_rde_get p type sid)"
  by (rule lookup_alike [OF assms])

lemma new_pd_led: "rde_led new_pd"
  by (simp add: rde_led_def list_all_iff new_pd_simps row_led_def list_ex_iff rde_match_def empty_rde_def badge_const_defs unat_cap_max)

theorem client_server_lookup_witness:
  "\<exists>p' w'. pd_add_rde trace_env 3 ''MO'' 4 77 new_pd [] = Some (0, p', w') \<and>
     sel4gpi_get_rde_by_space_id (shared p') 4 3 = map_option slot_of (pd_rde_get p' 3 4)"
proof -
  have t: "(3::gpi_cap_t) \<noteq> 0" "3 < GPICAP_TYPE_MAX" "(4::gpi_space_id_t) \<le> 0xFF" by (simp_all add: cap_type_defs)
  then obtain p' w' where r: "pd_add_rde trace_env 3 ''MO'' 4 77 new_pd [] = Some (0, p', w')" and wf: "rde_wf p'"
  proof (rule_tac pd_add_rde_cases [OF new_pd_simps(1) t(2) new_pd_simps(2,3) t(3), of trace_env "''MO''" 77 "[]"])
    fix idx dest w2 q
    let ?f = "\<lambda>r. entry_filled 3 4 77 r\<lparr>slot_in_PD := dest\<rparr>"
    assume "pd_add_rde trace_env 3 ''MO'' 4 77 new_pd [] = Some (0, q\<lparr>shared := (shared q)\<lparr>rde_count := rde_count (shared new_pd) + 1\<rparr>\<rparr>, w2)"
      and q: "q = set_rde 3 idx ?f (named 3 ''MO'' new_pd)"
      and free: "rde_free_scan 3 4 0 (rde (shared new_pd) ! unat (3::gpi_cap_t)) = Some idx"
    moreover have "rde_wf q" unfolding q by (rule fill_wf [OF new_pd_simps(1) t(2,1) free]) (simp add: entry_filled_def)
    ultimately show thesis using that by (simp add: rde_wf_count)
  qed (use new_pd_row in auto)
  have "rde_led p'" by (rule rde_led_add [OF new_pd_simps(1) new_pd_led t(2) new_pd_simps(2,3) t(3) r])
  then show ?thesis using client_server_lookup [OF wf _ t(1,2)] r by blast
qed

end
