(* ===== verification/Client_Api.thy ===== *)
theory Client_Api
  imports Gpi_Server Pd_Utils
begin

section \<open>The client interface (pd, ads, vmr, mo, cpu, endpoint and resource\_space \_clientapi.c)\<close>

text \<open>
  The functions through which a PD asks the root task for something. Each sends one request over a capability of the PD and unpacks the reply. A request is delivered
  to one turn of the server loop (theory Gpi_Server), so that a call of the client is a step of the server together with what the client makes of the reply.

  The slot of a client connection stands for the connection. The requests that load an ELF image and set up a runtime are in theories Pd_Creation and
  Prepare_Pd; the request that a flag of the build disables (\<open>pd_client_map_resource\<close>) is left out.
\<close>

subsection \<open>Sending a request\<close>

text \<open>
  The environment of a client: the kernel as the server sees it, the depth permitted to the recursions of the server, the badge of the capability in a slot of the client
  if it is one to the server, and the words that earlier messages left in the message buffer of the server.
\<close>

record 'w api_env =
  api_kernel :: "'w env"
  api_depth :: nat
  slot_badge_of :: "cptr \<Rightarrow> 'w \<Rightarrow> u64 option"
  old_words :: "'w \<Rightarrow> nat \<Rightarrow> u64"

text \<open>
  What the receiver of a message reads of the capabilities sent along. Badges and capabilities are the same words of its buffer; the kernel writes the badge there if
  the capability is one to the endpoint that receives the message, and leaves the word alone otherwise.
\<close>

definition received_words :: "(cptr \<Rightarrow> u64 option) \<Rightarrow> (nat \<Rightarrow> u64) \<Rightarrow> cptr list \<Rightarrow> ipc" where
  "received_words badge_of old caps =
     (let word = (\<lambda>i. if i < length caps then (case badge_of (caps ! i) of None \<Rightarrow> old i | Some b \<Rightarrow> b) else old i)
      in \<lparr>seL4_GetBadge = word, seL4_GetCap = word\<rparr>)"

text \<open>The server with its receive slot. The result of a call is \<open>None\<close> if the server stops; the result for the client in it is \<open>None\<close> if the client still waits for
  a reply, or does not return.\<close>

type_synonym 'w rt_server = "cptr \<times> 'w gpi_server"
type_synonym ('a, 'w) api_result = "('a option \<times> 'w rt_server) option"

text \<open>\<open>sel4gpi_rpc_call\<close>: whether the call failed, and the reply. Without a capability to the server the kernel reports an error and the reply stays empty.\<close>

definition sel4gpi_rpc_call ::
    "'w api_env \<Rightarrow> cptr \<Rightarrow> u64 \<Rightarrow> message \<Rightarrow> cptr list \<Rightarrow> 'w rt_server \<Rightarrow> (bool \<times> pd_reply, 'w) api_result" where
  "sel4gpi_rpc_call C e magic msg caps = (\<lambda>(recv, s). case slot_badge_of C e (world s) of
       None \<Rightarrow> Some (Some (True, Plain (error_reply 0)), recv, s)
     | Some badge \<Rightarrow> do {
         (reply, recv, s) \<leftarrow> gpi_server_turn (api_kernel C) (api_depth C) magic msg
            (received_words (\<lambda>c. slot_badge_of C c (world s)) (old_words C (world s)) caps) badge recv s;
         Some (map_option (\<lambda>r. (False, r)) reply, recv, s) })"

text \<open>What the functions do with the reply: the error code, and the fields if there was no error. A field that was not sent is 0.\<close>

fun reply_error :: "pd_reply \<Rightarrow> int" where
  "reply_error (Plain r) = errorCode r"
| "reply_error (Work_Reply e _) = e"

fun reply_field :: "nat \<Rightarrow> pd_reply \<Rightarrow> u64" where
  "reply_field i (Plain r) = (if i < length (reply_fields r) then reply_fields r ! i else 0)"
| "reply_field i (Work_Reply _ _) = 0"

fun reply_work :: "pd_reply \<Rightarrow> work_reply" where
  "reply_work (Plain r) = NO_WORK"
| "reply_work (Work_Reply _ w) = w"

definition ret_error :: "bool \<times> pd_reply \<Rightarrow> int" where
  "ret_error = (\<lambda>(failed, r). if failed then 1 else reply_error r)"

definition ret_with :: "(pd_reply \<Rightarrow> 'a) \<Rightarrow> bool \<times> pd_reply \<Rightarrow> int \<times> 'a option" where
  "ret_with f r = (ret_error r, if ret_error r = 0 then Some (f (snd r)) else None)"

definition ask ::
    "('b \<Rightarrow> 'a) \<Rightarrow> ('b, 'w) api_result \<Rightarrow> ('a, 'w) api_result" where
  "ask f = map_option (\<lambda>(r, srv). (map_option f r, srv))"

subsection \<open>Memory objects\<close>

text \<open>A connection is returned as its slot and the ID of the object. Page bits travel as 32 bits.\<close>

definition mo_connect :: "'w api_env \<Rightarrow> cptr \<Rightarrow> u32 \<Rightarrow> u64 \<Rightarrow> u64 \<Rightarrow> 'w rt_server \<Rightarrow> (int \<times> (cptr \<times> gpi_obj_id_t) option, 'w) api_result" where
  "mo_connect C server pages bits paddr srv =
     ask (ret_with (\<lambda>r. (reply_field 1 r, ucast (reply_field 0 r))))
       (sel4gpi_rpc_call C server MO_RPC_MAGIC (Mo_Msg (Mo_Alloc pages (ucast (ucast bits :: u32)) paddr)) [] srv)"

definition mo_component_client_connect :: "'w api_env \<Rightarrow> cptr \<Rightarrow> u32 \<Rightarrow> u64 \<Rightarrow> 'w rt_server \<Rightarrow> (int \<times> (cptr \<times> gpi_obj_id_t) option, 'w) api_result" where
  "mo_component_client_connect C server pages bits srv = mo_connect C server pages bits 0 srv"

definition mo_component_client_connect_paddr ::
    "'w api_env \<Rightarrow> cptr \<Rightarrow> u32 \<Rightarrow> u64 \<Rightarrow> u64 \<Rightarrow> 'w rt_server \<Rightarrow> (int \<times> (cptr \<times> gpi_obj_id_t) option, 'w) api_result" where
  "mo_component_client_connect_paddr C server pages bits paddr srv = mo_connect C server pages bits paddr srv"

definition mo_component_client_disconnect :: "'w api_env \<Rightarrow> cptr \<Rightarrow> 'w rt_server \<Rightarrow> (int, 'w) api_result" where
  "mo_component_client_disconnect C conn srv = ask ret_error (sel4gpi_rpc_call C conn MO_RPC_MAGIC (Mo_Msg Mo_Disconnect) [] srv)"

subsection \<open>Address spaces and regions\<close>

definition ads_component_client_connect :: "'w api_env \<Rightarrow> cptr \<Rightarrow> 'w rt_server \<Rightarrow> (int \<times> (cptr \<times> gpi_obj_id_t) option, 'w) api_result" where
  "ads_component_client_connect C server srv =
     ask (ret_with (\<lambda>r. (reply_field 1 r, ucast (reply_field 0 r)))) (sel4gpi_rpc_call C server ADS_RPC_MAGIC (Ads_Msg Ads_Alloc) [] srv)"

definition ads_client_disconnect :: "'w api_env \<Rightarrow> cptr \<Rightarrow> 'w rt_server \<Rightarrow> (int, 'w) api_result" where
  "ads_client_disconnect C conn srv = ask ret_error (sel4gpi_rpc_call C conn ADS_RPC_MAGIC (Ads_Msg Ads_Disconnect) [] srv)"

definition ads_client_bind_cpu :: "cptr \<Rightarrow> cptr \<Rightarrow> int" where "ads_client_bind_cpu conn cpu_cap = 0"

text \<open>The number of pages is sent as well; the server does not read it.\<close>

definition ads_client_shallow_copy :: "'w api_env \<Rightarrow> cptr \<Rightarrow> cptr \<Rightarrow> u64 \<Rightarrow> u64 \<Rightarrow> int \<Rightarrow> 'w rt_server \<Rightarrow> (int, 'w) api_result" where
  "ads_client_shallow_copy C src_ads dst_ads start dest_start vtype srv =
     ask ret_error (sel4gpi_rpc_call C src_ads ADS_RPC_MAGIC (Ads_Msg (Ads_Copy start dest_start vtype)) [dst_ads] srv)"

text \<open>Address, number of pages and page bits of the region.\<close>

definition ads_client_get_reservation :: "'w api_env \<Rightarrow> cptr \<Rightarrow> int \<Rightarrow> 'w rt_server \<Rightarrow> (int \<times> (u64 \<times> u64 \<times> u64) option, 'w) api_result" where
  "ads_client_get_reservation C ads_conn rtype srv =
     ask (ret_with (\<lambda>r. (reply_field 0 r, reply_field 1 r, reply_field 2 r)))
       (sel4gpi_rpc_call C ads_conn ADS_RPC_MAGIC (Ads_Msg (Ads_Get_res rtype)) [] srv)"

text \<open>The address and the slot of the region.\<close>

definition vmr_client_reserve :: "'w api_env \<Rightarrow> cptr \<Rightarrow> u64 \<Rightarrow> u64 \<Rightarrow> u64 \<Rightarrow> int \<Rightarrow> 'w rt_server \<Rightarrow> (int \<times> (u64 \<times> cptr) option, 'w) api_result" where
  "vmr_client_reserve C e va bytes bits vtype srv =
     ask (ret_with (\<lambda>r. (reply_field 0 r, reply_field 1 r)))
       (sel4gpi_rpc_call C e VMR_RPC_MAGIC (Ads_Msg (Vmr_Reserve va bytes (ucast (ucast bits :: u32)) vtype)) [] srv)"

definition vmr_client_attach :: "'w api_env \<Rightarrow> cptr \<Rightarrow> cptr \<Rightarrow> u64 \<Rightarrow> 'w rt_server \<Rightarrow> (int, 'w) api_result" where
  "vmr_client_attach C reservation mo_cap offset srv =
     ask ret_error (sel4gpi_rpc_call C reservation VMR_RPC_MAGIC (Ads_Msg (Vmr_Attach offset)) [mo_cap] srv)"

definition vmr_client_attach_no_reserve :: "'w api_env \<Rightarrow> cptr \<Rightarrow> u64 \<Rightarrow> cptr \<Rightarrow> int \<Rightarrow> 'w rt_server \<Rightarrow> (int \<times> u64 option, 'w) api_result" where
  "vmr_client_attach_no_reserve C vmr_rde va mo_cap vtype srv =
     ask (ret_with (reply_field 0)) (sel4gpi_rpc_call C vmr_rde VMR_RPC_MAGIC (Ads_Msg (Vmr_Attach_no_reserve va vtype)) [mo_cap] srv)"

definition vmr_client_delete :: "'w api_env \<Rightarrow> cptr \<Rightarrow> 'w rt_server \<Rightarrow> (int, 'w) api_result" where
  "vmr_client_delete C reservation srv = ask ret_error (sel4gpi_rpc_call C reservation VMR_RPC_MAGIC (Ads_Msg Vmr_Delete) [] srv)"

definition vmr_client_delete_by_vaddr :: "'w api_env \<Rightarrow> cptr \<Rightarrow> u64 \<Rightarrow> 'w rt_server \<Rightarrow> (int, 'w) api_result" where
  "vmr_client_delete_by_vaddr C vmr_rde va srv =
     ask ret_error (sel4gpi_rpc_call C vmr_rde VMR_RPC_MAGIC (Ads_Msg (Vmr_Delete_by_vaddr va)) [] srv)"

text \<open>The request is the one of \<open>vmr_client_delete\<close>.\<close>

definition vmr_client_disconnect :: "'w api_env \<Rightarrow> cptr \<Rightarrow> 'w rt_server \<Rightarrow> (int, 'w) api_result" where
  "vmr_client_disconnect C reservation srv = ask ret_error (sel4gpi_rpc_call C reservation VMR_RPC_MAGIC (Ads_Msg Vmr_Delete) [] srv)"

subsection \<open>CPUs\<close>

definition cpu_component_client_connect :: "'w api_env \<Rightarrow> cptr \<Rightarrow> 'w rt_server \<Rightarrow> (int \<times> (cptr \<times> gpi_obj_id_t) option, 'w) api_result" where
  "cpu_component_client_connect C server srv =
     ask (ret_with (\<lambda>r. (reply_field 0 r, ucast (reply_field 1 r)))) (sel4gpi_rpc_call C server CPU_RPC_MAGIC (Cpu_Msg Cpu_Alloc) [] srv)"

definition cpu_component_client_disconnect :: "'w api_env \<Rightarrow> cptr \<Rightarrow> 'w rt_server \<Rightarrow> (int, 'w) api_result" where
  "cpu_component_client_disconnect C conn srv = ask ret_error (sel4gpi_rpc_call C conn CPU_RPC_MAGIC (Cpu_Msg Cpu_Disconnect) [] srv)"

text \<open>The memory object of the IPC buffer may be missing, or its connection empty.\<close>

definition cpu_client_config ::
    "'w api_env \<Rightarrow> cptr \<Rightarrow> cptr \<Rightarrow> cptr \<Rightarrow> cptr option \<Rightarrow> u64 \<Rightarrow> cptr \<Rightarrow> u64 \<Rightarrow> int \<Rightarrow> 'w rt_server \<Rightarrow> (int, 'w) api_result" where
  "cpu_client_config C cpu_conn ads_conn pd_conn ipc_mo guard fault ipc_addr prio srv =
     ask ret_error (sel4gpi_rpc_call C cpu_conn CPU_RPC_MAGIC (Cpu_Msg (Cpu_Config guard fault ipc_addr prio))
       (case ipc_mo of None \<Rightarrow> [pd_conn, ads_conn] | Some mo_cap \<Rightarrow> if mo_cap \<noteq> 0 then [pd_conn, ads_conn, mo_cap] else [pd_conn, ads_conn]) srv)"

definition cpu_client_change_vspace :: "'w api_env \<Rightarrow> cptr \<Rightarrow> cptr \<Rightarrow> 'w rt_server \<Rightarrow> (int, 'w) api_result" where
  "cpu_client_change_vspace C conn ads_conn srv = ask ret_error (sel4gpi_rpc_call C conn CPU_RPC_MAGIC (Cpu_Msg Cpu_Change_vspace) [ads_conn] srv)"

definition cpu_client_start :: "'w api_env \<Rightarrow> cptr \<Rightarrow> 'w rt_server \<Rightarrow> (int, 'w) api_result" where
  "cpu_client_start C conn srv = ask ret_error (sel4gpi_rpc_call C conn CPU_RPC_MAGIC (Cpu_Msg Cpu_Start) [] srv)"

definition cpu_client_elevate_privileges :: "'w api_env \<Rightarrow> cptr \<Rightarrow> 'w rt_server \<Rightarrow> (int, 'w) api_result" where
  "cpu_client_elevate_privileges C conn srv = ask ret_error (sel4gpi_rpc_call C conn CPU_RPC_MAGIC (Cpu_Msg Cpu_Elevate) [] srv)"

definition cpu_client_set_tls_base :: "'w api_env \<Rightarrow> cptr \<Rightarrow> u64 \<Rightarrow> 'w rt_server \<Rightarrow> (int, 'w) api_result" where
  "cpu_client_set_tls_base C cpu_conn addr srv = ask ret_error (sel4gpi_rpc_call C cpu_conn CPU_RPC_MAGIC (Cpu_Msg (Cpu_Tls addr)) [] srv)"

definition cpu_client_suspend :: "'w api_env \<Rightarrow> cptr \<Rightarrow> 'w rt_server \<Rightarrow> (int, 'w) api_result" where
  "cpu_client_suspend C cpu_conn srv = ask ret_error (sel4gpi_rpc_call C cpu_conn CPU_RPC_MAGIC (Cpu_Msg Cpu_Suspend) [] srv)"

text \<open>The values of registers are not part of the model of the server, only how many are sent. They are read whatever the error code of the server.\<close>

definition cpu_client_write_registers :: "'w api_env \<Rightarrow> cptr \<Rightarrow> u64 \<Rightarrow> bool \<Rightarrow> 'w rt_server \<Rightarrow> (int, 'w) api_result" where
  "cpu_client_write_registers C cpu_conn num_reg resume srv =
     ask ret_error (sel4gpi_rpc_call C cpu_conn CPU_RPC_MAGIC (Cpu_Msg (Cpu_Write_reg num_reg resume)) [] srv)"

definition cpu_client_read_registers :: "'w api_env \<Rightarrow> cptr \<Rightarrow> 'w rt_server \<Rightarrow> (int \<times> u64 option, 'w) api_result" where
  "cpu_client_read_registers C cpu_conn srv =
     ask (\<lambda>r. (ret_error r, if fst r then None else Some (reply_field 0 (snd r)))) (sel4gpi_rpc_call C cpu_conn CPU_RPC_MAGIC (Cpu_Msg Cpu_Read_reg) [] srv)"

text \<open>The function has no return statement; only what it copies is known.\<close>

definition cpu_client_read_vcpu_regs :: "'w api_env \<Rightarrow> cptr \<Rightarrow> 'w rt_server \<Rightarrow> (u64 option, 'w) api_result" where
  "cpu_client_read_vcpu_regs C cpu_conn srv =
     ask (\<lambda>r. if fst r then None else Some (reply_field 0 (snd r))) (sel4gpi_rpc_call C cpu_conn CPU_RPC_MAGIC (Cpu_Msg Cpu_Read_vcpu) [] srv)"

definition cpu_client_inject_irq :: "'w api_env \<Rightarrow> cptr \<Rightarrow> int \<Rightarrow> int \<Rightarrow> int \<Rightarrow> int \<Rightarrow> 'w rt_server \<Rightarrow> (int, 'w) api_result" where
  "cpu_client_inject_irq C cpu_conn virq prio grp idx srv =
     ask ret_error (sel4gpi_rpc_call C cpu_conn CPU_RPC_MAGIC (Cpu_Msg (Cpu_Inject_irq virq prio grp idx)) [] srv)"

definition cpu_client_ack_vppi :: "'w api_env \<Rightarrow> cptr \<Rightarrow> u64 \<Rightarrow> 'w rt_server \<Rightarrow> (int, 'w) api_result" where
  "cpu_client_ack_vppi C cpu_conn irq srv = ask ret_error (sel4gpi_rpc_call C cpu_conn CPU_RPC_MAGIC (Cpu_Msg (Cpu_Ack_vppi (ucast (ucast irq :: u32)))) [] srv)"

definition cpu_client_resume :: "'w api_env \<Rightarrow> cptr \<Rightarrow> 'w rt_server \<Rightarrow> (int, 'w) api_result" where
  "cpu_client_resume C cpu_conn srv = ask ret_error (sel4gpi_rpc_call C cpu_conn CPU_RPC_MAGIC (Cpu_Msg Cpu_Resume) [] srv)"

subsection \<open>Endpoints\<close>

text \<open>The slot of the connection and of the endpoint itself.\<close>

definition ep_component_client_connect :: "'w api_env \<Rightarrow> cptr \<Rightarrow> 'w rt_server \<Rightarrow> (int \<times> (cptr \<times> cptr) option, 'w) api_result" where
  "ep_component_client_connect C server srv =
     ask (ret_with (\<lambda>r. (reply_field 1 r, reply_field 0 r))) (sel4gpi_rpc_call C server EP_RPC_MAGIC (Ep_Msg Ep_Alloc) [] srv)"

definition ep_component_client_disconnect :: "'w api_env \<Rightarrow> cptr \<Rightarrow> 'w rt_server \<Rightarrow> (int, 'w) api_result" where
  "ep_component_client_disconnect C conn srv = ask ret_error (sel4gpi_rpc_call C conn EP_RPC_MAGIC (Ep_Msg Ep_Disconnect) [] srv)"

definition get_raw_endpoint :: "'w api_env \<Rightarrow> cptr \<Rightarrow> cptr option \<Rightarrow> 'w rt_server \<Rightarrow> (int \<times> cptr option, 'w) api_result" where
  "get_raw_endpoint C ep_conn target_PD srv =
     ask (ret_with (reply_field 0)) (sel4gpi_rpc_call C ep_conn EP_RPC_MAGIC (Ep_Msg (Ep_Get (target_PD \<noteq> None)))
       (case target_PD of None \<Rightarrow> [] | Some p \<Rightarrow> [p]) srv)"

definition ep_client_get_raw_endpoint :: "'w api_env \<Rightarrow> cptr \<Rightarrow> 'w rt_server \<Rightarrow> (int \<times> cptr option, 'w) api_result" where
  "ep_client_get_raw_endpoint C ep_conn srv = get_raw_endpoint C ep_conn None srv"

definition ep_client_get_raw_endpoint_in_PD :: "'w api_env \<Rightarrow> cptr \<Rightarrow> cptr \<Rightarrow> 'w rt_server \<Rightarrow> (int \<times> cptr option, 'w) api_result" where
  "ep_client_get_raw_endpoint_in_PD C target_PD ep_conn srv = get_raw_endpoint C ep_conn (Some target_PD) srv"

definition ep_client_forge :: "'w api_env \<Rightarrow> cptr \<Rightarrow> cptr \<Rightarrow> 'w rt_server \<Rightarrow> (int \<times> (cptr \<times> cptr) option, 'w) api_result" where
  "ep_client_forge C server ep_to_forge srv =
     ask (ret_with (\<lambda>r. (reply_field 0 r, ep_to_forge))) (sel4gpi_rpc_call C server EP_RPC_MAGIC (Ep_Msg Ep_Forge) [ep_to_forge] srv)"

definition ep_client_badge :: "'w api_env \<Rightarrow> cptr \<Rightarrow> cptr \<Rightarrow> u64 \<Rightarrow> bool \<Rightarrow> 'w rt_server \<Rightarrow> (int \<times> (cptr \<times> cptr) option, 'w) api_result" where
  "ep_client_badge C ep_conn dest_pd badge is_core_cap srv =
     ask (ret_with (\<lambda>r. (reply_field 0 r, reply_field 1 r))) (sel4gpi_rpc_call C ep_conn EP_RPC_MAGIC (Ep_Msg (Ep_Badge is_core_cap badge)) [dest_pd] srv)"

subsection \<open>Resource spaces\<close>

text \<open>The buffer of a name in a message has 41 characters.\<close>

definition RPC_NAME_SIZE :: nat where "RPC_NAME_SIZE = 41"

text \<open>The slot, the ID and the code of the type of the space.\<close>

definition resspc_client_connect ::
    "'w api_env \<Rightarrow> cptr \<Rightarrow> string \<Rightarrow> cptr \<Rightarrow> u64 \<Rightarrow> 'w rt_server \<Rightarrow> (int \<times> (cptr \<times> gpi_space_id_t \<times> gpi_cap_t) option, 'w) api_result" where
  "resspc_client_connect C server rtype resource_server client_id srv = do {
     c_assert (length rtype < RPC_NAME_SIZE);
     ask (ret_with (\<lambda>r. (reply_field 2 r, ucast (reply_field 0 r), ucast (reply_field 1 r))))
       (sel4gpi_rpc_call C server RESSPC_RPC_MAGIC (Resspc_Msg (Spc_Alloc rtype (ucast client_id))) [resource_server] srv) }"

definition resspc_client_map_space :: "'w api_env \<Rightarrow> cptr \<Rightarrow> gpi_space_id_t \<Rightarrow> 'w rt_server \<Rightarrow> (int, 'w) api_result" where
  "resspc_client_map_space C conn sid srv = ask ret_error (sel4gpi_rpc_call C conn RESSPC_RPC_MAGIC (Resspc_Msg (Spc_Map sid)) [] srv)"

definition resspc_client_create_resource :: "'w api_env \<Rightarrow> cptr \<Rightarrow> gpi_obj_id_t \<Rightarrow> 'w rt_server \<Rightarrow> (int, 'w) api_result" where
  "resspc_client_create_resource C conn oid srv = ask ret_error (sel4gpi_rpc_call C conn RESSPC_RPC_MAGIC (Resspc_Msg (Spc_Create oid)) [] srv)"

definition resspc_client_delete_resource :: "'w api_env \<Rightarrow> cptr \<Rightarrow> gpi_obj_id_t \<Rightarrow> 'w rt_server \<Rightarrow> (int, 'w) api_result" where
  "resspc_client_delete_resource C conn oid srv = ask ret_error (sel4gpi_rpc_call C conn RESSPC_RPC_MAGIC (Resspc_Msg (Spc_Delete oid)) [] srv)"

definition resspc_client_revoke_resource :: "'w api_env \<Rightarrow> cptr \<Rightarrow> gpi_obj_id_t \<Rightarrow> gpi_obj_id_t \<Rightarrow> 'w rt_server \<Rightarrow> (int, 'w) api_result" where
  "resspc_client_revoke_resource C conn oid target srv = ask ret_error (sel4gpi_rpc_call C conn RESSPC_RPC_MAGIC (Resspc_Msg (Spc_Revoke oid target)) [] srv)"

definition resspc_client_destroy :: "'w api_env \<Rightarrow> cptr \<Rightarrow> 'w rt_server \<Rightarrow> (int, 'w) api_result" where
  "resspc_client_destroy C conn srv = ask ret_error (sel4gpi_rpc_call C conn RESSPC_RPC_MAGIC (Resspc_Msg Spc_Destroy) [] srv)"

subsection \<open>Protection domains\<close>

definition pd_component_client_connect :: "'w api_env \<Rightarrow> cptr \<Rightarrow> cptr \<Rightarrow> 'w rt_server \<Rightarrow> (int \<times> (cptr \<times> gpi_obj_id_t) option, 'w) api_result" where
  "pd_component_client_connect C server osm_data_mo srv =
     ask (ret_with (\<lambda>r. (reply_field 0 r, ucast (reply_field 1 r)))) (sel4gpi_rpc_call C server PD_RPC_MAGIC (Pd_Msg Pd_Alloc) [osm_data_mo] srv)"

definition pd_client_terminate :: "'w api_env \<Rightarrow> cptr \<Rightarrow> 'w rt_server \<Rightarrow> (int, 'w) api_result" where
  "pd_client_terminate C conn srv = ask ret_error (sel4gpi_rpc_call C conn PD_RPC_MAGIC (Pd_Msg Pd_Terminate) [] srv)"

definition pd_client_dump :: "'w api_env \<Rightarrow> cptr \<Rightarrow> 'w rt_server \<Rightarrow> (int, 'w) api_result" where
  "pd_client_dump C conn srv = ask ret_error (sel4gpi_rpc_call C conn PD_RPC_MAGIC (Pd_Msg Pd_Dump) [] srv)"

definition send_cap_req :: "'w api_env \<Rightarrow> cptr \<Rightarrow> cptr \<Rightarrow> bool \<Rightarrow> 'w rt_server \<Rightarrow> (int \<times> cptr option, 'w) api_result" where
  "send_cap_req C conn cap_to_send is_core srv =
     ask (ret_with (reply_field 0)) (sel4gpi_rpc_call C conn PD_RPC_MAGIC (Pd_Msg (Pd_Send_cap cap_to_send is_core)) [cap_to_send] srv)"

definition pd_client_send_cap :: "'w api_env \<Rightarrow> cptr \<Rightarrow> cptr \<Rightarrow> 'w rt_server \<Rightarrow> (int \<times> cptr option, 'w) api_result" where
  "pd_client_send_cap C conn cap_to_send srv = send_cap_req C conn cap_to_send False srv"

definition pd_client_send_core_cap :: "'w api_env \<Rightarrow> cptr \<Rightarrow> cptr \<Rightarrow> 'w rt_server \<Rightarrow> (int \<times> cptr option, 'w) api_result" where
  "pd_client_send_core_cap C conn cap_to_send srv = send_cap_req C conn cap_to_send True srv"

definition pd_client_next_slot :: "'w api_env \<Rightarrow> cptr \<Rightarrow> 'w rt_server \<Rightarrow> (int \<times> cptr option, 'w) api_result" where
  "pd_client_next_slot C conn srv = ask (ret_with (reply_field 0)) (sel4gpi_rpc_call C conn PD_RPC_MAGIC (Pd_Msg Pd_Next_slot) [] srv)"

text \<open>The slot is not put into the message, which asks for slot 0.\<close>

definition pd_client_free_slot :: "'w api_env \<Rightarrow> cptr \<Rightarrow> cptr \<Rightarrow> 'w rt_server \<Rightarrow> (int, 'w) api_result" where
  "pd_client_free_slot C conn slot srv = ask ret_error (sel4gpi_rpc_call C conn PD_RPC_MAGIC (Pd_Msg (Pd_Free_slot 0)) [] srv)"

definition pd_client_clear_slot :: "'w api_env \<Rightarrow> cptr \<Rightarrow> cptr \<Rightarrow> 'w rt_server \<Rightarrow> (int, 'w) api_result" where
  "pd_client_clear_slot C conn slot srv = ask ret_error (sel4gpi_rpc_call C conn PD_RPC_MAGIC (Pd_Msg (Pd_Clear_slot slot)) [] srv)"

definition pd_client_share_rde :: "'w api_env \<Rightarrow> cptr \<Rightarrow> gpi_cap_t \<Rightarrow> gpi_space_id_t \<Rightarrow> 'w rt_server \<Rightarrow> (int, 'w) api_result" where
  "pd_client_share_rde C target_pd type sid srv = ask ret_error (sel4gpi_rpc_call C target_pd PD_RPC_MAGIC (Pd_Msg (Pd_Share_rde type sid)) [] srv)"

definition pd_client_give_resource ::
    "'w api_env \<Rightarrow> cptr \<Rightarrow> gpi_space_id_t \<Rightarrow> gpi_obj_id_t \<Rightarrow> gpi_obj_id_t \<Rightarrow> 'w rt_server \<Rightarrow> (int \<times> cptr option, 'w) api_result" where
  "pd_client_give_resource C conn sid recipient resource srv =
     ask (ret_with (reply_field 0)) (sel4gpi_rpc_call C conn PD_RPC_MAGIC (Pd_Msg (Pd_Give_resource recipient sid resource)) [] srv)"

definition pd_client_get_work :: "'w api_env \<Rightarrow> cptr \<Rightarrow> 'w rt_server \<Rightarrow> (int \<times> work_reply option, 'w) api_result" where
  "pd_client_get_work C conn srv = ask (ret_with reply_work) (sel4gpi_rpc_call C conn PD_RPC_MAGIC (Pd_Msg Pd_Get_work) [] srv)"

definition pd_client_send_subgraph :: "'w api_env \<Rightarrow> cptr \<Rightarrow> cptr \<Rightarrow> bool \<Rightarrow> u32 \<Rightarrow> 'w rt_server \<Rightarrow> (int, 'w) api_result" where
  "pd_client_send_subgraph C conn mo_conn has_data n_requests srv =
     ask ret_error (sel4gpi_rpc_call C conn PD_RPC_MAGIC (Pd_Msg (Pd_Send_subgraph has_data n_requests)) (if has_data then [mo_conn] else []) srv)"

text \<open>The action of the work and the number of its critical items are sent; an answer without work has neither.\<close>

definition pd_client_finish_work :: "'w api_env \<Rightarrow> cptr \<Rightarrow> work_reply \<Rightarrow> 'w rt_server \<Rightarrow> (int, 'w) api_result" where
  "pd_client_finish_work C conn work srv =
     ask ret_error (sel4gpi_rpc_call C conn PD_RPC_MAGIC (Pd_Msg (case work of
         NO_WORK \<Rightarrow> Pd_Finish_work None 0
       | Work a ws \<Rightarrow> Pd_Finish_work (Some a) (of_nat (length (filter is_critical ws))))) [] srv)"

text \<open>A reply to the exit message is fatal.\<close>

definition pd_client_exit :: "'w api_env \<Rightarrow> cptr \<Rightarrow> int \<Rightarrow> 'w rt_server \<Rightarrow> (unit, 'w) api_result" where
  "pd_client_exit C conn code srv = do {
     (r, srv) \<leftarrow> sel4gpi_rpc_call C conn PD_RPC_MAGIC (Pd_Msg (Pd_Exit code)) [] srv;
     c_assert (r = None);
     Some (None, srv) }"

definition pd_client_remove_rde :: "'w api_env \<Rightarrow> cptr \<Rightarrow> gpi_cap_t \<Rightarrow> gpi_space_id_t \<Rightarrow> 'w rt_server \<Rightarrow> (int, 'w) api_result" where
  "pd_client_remove_rde C conn type sid srv = ask ret_error (sel4gpi_rpc_call C conn PD_RPC_MAGIC (Pd_Msg (Pd_Remove_rde type sid)) [] srv)"

definition pd_client_bench_ipc :: "'w api_env \<Rightarrow> cptr \<Rightarrow> cptr \<Rightarrow> bool \<Rightarrow> 'w rt_server \<Rightarrow> (int, 'w) api_result" where
  "pd_client_bench_ipc C conn dummy_send_cap cap_transfer srv =
     ask ret_error (sel4gpi_rpc_call C conn PD_RPC_MAGIC (Pd_Msg Pd_Bench_ipc) (if cap_transfer then [dummy_send_cap] else []) srv)"

definition pd_client_share_resource_by_type :: "'w api_env \<Rightarrow> cptr \<Rightarrow> cptr \<Rightarrow> gpi_cap_t \<Rightarrow> 'w rt_server \<Rightarrow> (int, 'w) api_result" where
  "pd_client_share_resource_by_type C src_pd dest_pd rtype srv =
     ask ret_error (sel4gpi_rpc_call C src_pd PD_RPC_MAGIC (Pd_Msg (Pd_Share_res_type rtype)) [dest_pd] srv)"

definition pd_client_link_child :: "'w api_env \<Rightarrow> cptr \<Rightarrow> cptr \<Rightarrow> 'w rt_server \<Rightarrow> (int, 'w) api_result" where
  "pd_client_link_child C parent child srv = ask ret_error (sel4gpi_rpc_call C parent PD_RPC_MAGIC (Pd_Msg Pd_Link_child) [child] srv)"

definition pd_client_set_name :: "'w api_env \<Rightarrow> cptr \<Rightarrow> string \<Rightarrow> 'w rt_server \<Rightarrow> (int, 'w) api_result" where
  "pd_client_set_name C conn name srv = do {
     c_assert (length name < RPC_NAME_SIZE);
     ask ret_error (sel4gpi_rpc_call C conn PD_RPC_MAGIC (Pd_Msg (Pd_Set_name name)) [] srv) }"

text \<open>The two slots are written unless the call itself failed, whatever the error code of the server.\<close>

definition pd_client_irq_handler_bind :: "'w api_env \<Rightarrow> cptr \<Rightarrow> int \<Rightarrow> u64 \<Rightarrow> bool \<Rightarrow> 'w rt_server \<Rightarrow> (int \<times> (cptr \<times> cptr) option, 'w) api_result" where
  "pd_client_irq_handler_bind C pd_conn irq badge copy_to_holder srv =
     ask (\<lambda>r. (ret_error r, if fst r then None else Some (reply_field 0 (snd r), reply_field 1 (snd r))))
       (sel4gpi_rpc_call C pd_conn PD_RPC_MAGIC (Pd_Msg (Pd_Irq_bind irq badge copy_to_holder)) [] srv)"

end
