(* ===== verification/Fs_Client.thy ===== *)
theory Fs_Client
  imports Fs_Server Client_Api
begin

unbundle bit_operations_syntax

section \<open>The client of the file server (apps/xv6fs/src/fs\_client/fs\_client.c)\<close>

text \<open>
  The system calls on files of a process that uses the file server. The client keeps a table of file descriptors, each with the capability to an open file, an
  offset and flags; names and descriptors become requests to the server, and the bytes of a file pass through a page of memory that is sent along with
  every request. A request is delivered to one turn of the main loop of the server (theories Resource_Server, Fs_Server), whose state is threaded
  through the calls.

  The badge of a capability of the client to the server, the words of earlier messages in the buffer of the server, the memory of the client and its directory are read from the world. A C \<open>int\<close> argument is a 32-bit word, to be read
  as a signed number. \<open>None\<close> is a failed assertion or a server that does not answer.
\<close>

subsection \<open>Data\<close>

record xv6fs_client_context_t =
  cf_ep :: cptr
  cf_offset :: u64
  cf_flags :: u64

record fs_client =
  fd_table :: "xv6fs_client_context_t list"
  dev_null_fd :: int
  file_cap_type :: gpi_cap_t
  cl_space_id :: gpi_space_id_t
  cl_server_ep :: cptr
  cl_shared_mem :: cptr
  cl_shared_vaddr :: u64

record 'w cl_env =
  srv :: "'w fs_env"
  srv_work :: "'w \<Rightarrow> (int \<times> work option) \<times> 'w"
  srv_recv :: u64
  ep_badge :: "cptr \<Rightarrow> 'w \<Rightarrow> u64 option"
  srv_old_words :: "'w \<Rightarrow> nat \<Rightarrow> u64"
  cl_load :: "u64 \<Rightarrow> 'w \<Rightarrow> nat \<Rightarrow> u8"
  cl_store :: "u64 \<Rightarrow> u8 list \<Rightarrow> 'w \<Rightarrow> 'w"
  cl_load_stat :: "u64 \<Rightarrow> 'w \<Rightarrow> stat"
  cl_shared_data :: "'w \<Rightarrow> osm_pd_shared_data_t"
  cl_rt :: "rt_call \<Rightarrow> 'w \<Rightarrow> (int \<times> u64) \<times> 'w"

type_synonym ('a, 'w) cl_result = "('a \<times> fs_client \<times> 'w xv6fs_server_context_t) option"

definition FD_TABLE_SIZE :: nat where "FD_TABLE_SIZE = 32"
definition FD_FIRST :: nat where "FD_FIRST = 5"
definition DEV_NULL_PATH :: path where "DEV_NULL_PATH = path_of ''/dev/null''"
definition ENOENT :: int where "ENOENT = 2"
definition EINVAL :: int where "EINVAL = 22"
definition AT_FDCWD :: int where "AT_FDCWD = -100"
definition AT_SYMLINK_NOFOLLOW :: u32 where "AT_SYMLINK_NOFOLLOW = 0x100"
definition R_OK :: u32 where "R_OK = 4"
definition W_OK :: u32 where "W_OK = 2"

subsection \<open>File descriptors\<close>

definition xv6fs_null_client_context :: xv6fs_client_context_t where
  "xv6fs_null_client_context = \<lparr>cf_ep = 0, cf_offset = 0, cf_flags = 0\<rparr>"

definition fd_init :: "fs_client \<Rightarrow> fs_client" where
  "fd_init c = c\<lparr>fd_table := replicate FD_TABLE_SIZE xv6fs_null_client_context, dev_null_fd := 4\<rparr>"

text \<open>The loop of \<open>fd_bind\<close> over the rest of the table, from descriptor \<open>i\<close> on.\<close>

fun fd_free :: "nat \<Rightarrow> xv6fs_client_context_t list \<Rightarrow> nat option" where
  "fd_free i [] = None"
| "fd_free i (f # fs) = (if cf_ep f = 0 then Some i else fd_free (Suc i) fs)"

definition fd_bind :: "cptr \<Rightarrow> fs_client \<Rightarrow> int \<times> fs_client" where
  "fd_bind file_cap c = (case fd_free FD_FIRST (drop FD_FIRST (fd_table c)) of
     None \<Rightarrow> (-1, c)
   | Some i \<Rightarrow> (int i, c\<lparr>fd_table := (fd_table c)[i := (fd_table c ! i)\<lparr>cf_ep := file_cap, cf_offset := 0\<rparr>]\<rparr>))"

definition fd_get :: "int \<Rightarrow> fs_client \<Rightarrow> xv6fs_client_context_t option" where
  "fd_get fd c = (if 0 \<le> fd \<and> fd < int FD_TABLE_SIZE
     then (let f = fd_table c ! nat fd in if cf_ep f = 0 then None else Some f) else None)"

definition fd_close :: "int \<Rightarrow> fs_client \<Rightarrow> fs_client" where
  "fd_close fd c = (if 0 \<le> fd \<and> fd < int FD_TABLE_SIZE
     then c\<lparr>fd_table := (fd_table c)[nat fd := xv6fs_null_client_context]\<rparr> else c)"

text \<open>A write through the pointer that \<open>fd_get\<close> returned.\<close>

definition fd_set :: "int \<Rightarrow> (xv6fs_client_context_t \<Rightarrow> xv6fs_client_context_t) \<Rightarrow> fs_client \<Rightarrow> fs_client" where
  "fd_set fd f c = c\<lparr>fd_table := (fd_table c)[nat fd := f (fd_table c ! nat fd)]\<rparr>"

subsection \<open>Requests\<close>

text \<open>\<open>sel4gpi_rpc_call\<close> on an endpoint of the server: whether the call failed, and the reply, which is zero if it did.\<close>

definition fs_rpc_call ::
    "'w cl_env \<Rightarrow> cptr \<Rightarrow> fs_message \<Rightarrow> cptr list \<Rightarrow> 'w xv6fs_server_context_t \<Rightarrow> ((bool \<times> int \<times> fs_reply) \<times> 'w xv6fs_server_context_t) option" where
  "fs_rpc_call C e msg caps s = (case ep_badge C e (fs_world s) of
     None \<Rightarrow> Some ((True, 0, Fs_basic), s)
   | Some badge \<Rightarrow> do {
       (_, reply, s) \<leftarrow> resource_server_turn (fs_server_code (srv C) (srv_work C)) badge
          (Some (FS_RPC_MAGIC, msg, received_words (\<lambda>c. ep_badge C c (fs_world s)) (srv_old_words C (fs_world s)) caps)) (srv_recv C) s;
       (e, r) \<leftarrow> reply;
       Some ((False, e, r), s) })"

text \<open>The fields of a reply; a field that was not sent is 0.\<close>

fun reply_slot :: "fs_reply \<Rightarrow> u64" where "reply_slot (Fs_slot d) = d" | "reply_slot _ = 0"
fun reply_n :: "fs_reply \<Rightarrow> u32" where "reply_n (Fs_n n) = n" | "reply_n _ = 0"
fun reply_space :: "fs_reply \<Rightarrow> gpi_space_id_t" where "reply_space (Fs_space i) = i" | "reply_space _ = 0"

subsection \<open>Namespaces and files\<close>

definition xv6fs_client_set_namespace :: "'w cl_env \<Rightarrow> gpi_space_id_t \<Rightarrow> fs_client \<Rightarrow> 'w xv6fs_server_context_t \<Rightarrow> (int, 'w) cl_result" where
  "xv6fs_client_set_namespace C ns_id c s = do {
     let c = c\<lparr>cl_space_id := ns_id\<rparr>;
     server_ep \<leftarrow> sel4gpi_get_rde_by_space_id (cl_shared_data C (fs_world s)) (cl_space_id c) (file_cap_type c);
     Some (0, c\<lparr>cl_server_ep := server_ep\<rparr>, s) }"

definition xv6fs_client_get_file :: "int \<Rightarrow> fs_client \<Rightarrow> int \<times> cptr option" where
  "xv6fs_client_get_file fd c = (case fd_get fd c of None \<Rightarrow> (-1, None) | Some f \<Rightarrow> (0, Some (cf_ep f)))"

definition xv6fs_client_link_file :: "'w cl_env \<Rightarrow> cptr \<Rightarrow> path \<Rightarrow> fs_client \<Rightarrow> 'w xv6fs_server_context_t \<Rightarrow> (int, 'w) cl_result" where
  "xv6fs_client_link_file C file pathname c s = do {
     c_assert (length pathname \<le> MAXPATH);
     ((error, e, _), s) \<leftarrow> fs_rpc_call C (cl_server_ep c) (Fs_link (take MAXPATH pathname)) [file] s;
     Some (if error \<or> e \<noteq> 0 then 1 else 0, c, s) }"

definition xv6fs_client_new_ns :: "'w cl_env \<Rightarrow> fs_client \<Rightarrow> 'w xv6fs_server_context_t \<Rightarrow> (int \<times> gpi_space_id_t option, 'w) cl_result" where
  "xv6fs_client_new_ns C c s = do {
     ((error, e, r), s) \<leftarrow> fs_rpc_call C (cl_server_ep c) Fs_ns [] s;
     let e = (if error then 1 else e);
     Some ((e, if e = 0 then Some (reply_space r) else None), c, s) }"

definition xv6fs_client_delete_ns :: "'w cl_env \<Rightarrow> cptr \<Rightarrow> fs_client \<Rightarrow> 'w xv6fs_server_context_t \<Rightarrow> (int, 'w) cl_result" where
  "xv6fs_client_delete_ns C ns_ep c s = do {
     ((error, e, _), s) \<leftarrow> fs_rpc_call C ns_ep Fs_delete_ns [] s;
     Some (if error then 1 else e, c, s) }"

subsection \<open>Calls on files\<close>

text \<open>The flags are sign extended to the 64 bits of the message.\<close>

definition xv6fs_libc_open :: "'w cl_env \<Rightarrow> path \<Rightarrow> u32 \<Rightarrow> fs_client \<Rightarrow> 'w xv6fs_server_context_t \<Rightarrow> (int, 'w) cl_result" where
  "xv6fs_libc_open C pathname flags c s = do {
     c_assert (length pathname \<le> MAXPATH);
     if pathname = DEV_NULL_PATH then Some (dev_null_fd c, c, s)
     else do {
       ((error, e, r), s) \<leftarrow> fs_rpc_call C (cl_server_ep c) (Fs_create (scast flags) (take MAXPATH pathname)) [] s;
       if error \<or> e \<noteq> 0 then Some (-1, c, s)
       else let (fd, c) = fd_bind (reply_slot r) c in Some (fd, c, s) } }"

text \<open>The result, and the bytes that are written to the buffer of the caller.\<close>

definition xv6fs_libc_pread ::
    "'w cl_env \<Rightarrow> int \<Rightarrow> u32 \<Rightarrow> u32 \<Rightarrow> fs_client \<Rightarrow> 'w xv6fs_server_context_t \<Rightarrow> (int \<times> u8 list, 'w) cl_result" where
  "xv6fs_libc_pread C fd cnt offset c s =
     (if cnt > RAMDISK_BLOCK_SIZE then Some ((-1, []), c, s)
      else if fd = dev_null_fd c then Some ((-1, []), c, s)
      else (case fd_get fd c of None \<Rightarrow> Some ((-1, []), c, s)
        | Some file \<Rightarrow> do {
            ((error, e, r), s) \<leftarrow> fs_rpc_call C (cf_ep file) (Fs_read cnt offset) [cl_shared_mem c] s;
            if error \<or> e \<noteq> 0 then Some ((-1, []), c, s)
            else let bytes_read = sint (reply_n r) in
              Some ((bytes_read, if bytes_read > 0 then map (cl_load C (cl_shared_vaddr c) (fs_world s)) [0 ..< nat bytes_read] else []), c, s) }))"

definition xv6fs_libc_read :: "'w cl_env \<Rightarrow> int \<Rightarrow> u32 \<Rightarrow> fs_client \<Rightarrow> 'w xv6fs_server_context_t \<Rightarrow> (int \<times> u8 list, 'w) cl_result" where
  "xv6fs_libc_read C fd cnt c s = (case fd_get fd c of None \<Rightarrow> Some ((-1, []), c, s)
     | Some file \<Rightarrow> do {
         ((bytes_read, xs), c, s) \<leftarrow> xv6fs_libc_pread C fd cnt (ucast (cf_offset file)) c s;
         Some ((bytes_read, xs),
           if bytes_read > 0 then fd_set fd (\<lambda>f. f\<lparr>cf_offset := cf_offset f + word_of_int bytes_read\<rparr>) c else c, s) })"

text \<open>\<open>buf\<close> are the bytes at the address of the caller, of which the first \<open>cnt\<close> are written.\<close>

definition xv6fs_libc_write :: "'w cl_env \<Rightarrow> int \<Rightarrow> (nat \<Rightarrow> u8) \<Rightarrow> u32 \<Rightarrow> fs_client \<Rightarrow> 'w xv6fs_server_context_t \<Rightarrow> (int, 'w) cl_result" where
  "xv6fs_libc_write C fd buf cnt c s =
     (if fd = dev_null_fd c then Some (0, c, s)
      else if cnt > RAMDISK_BLOCK_SIZE then Some (-1, c, s)
      else (case fd_get fd c of None \<Rightarrow> Some (-1, c, s)
        | Some file \<Rightarrow> do {
            let s = (if sint cnt > 0 then set_world (cl_store C (cl_shared_vaddr c) (map buf [0 ..< unat cnt]) (fs_world s)) s else s);
            ((error, e, r), s) \<leftarrow> fs_rpc_call C (cf_ep file) (Fs_write cnt (ucast (cf_offset file))) [cl_shared_mem c] s;
            if error \<or> e \<noteq> 0 then Some (-1, c, s)
            else let bytes_written = sint (reply_n r) in
              Some (bytes_written,
                if bytes_written > 0 then fd_set fd (\<lambda>f. f\<lparr>cf_offset := cf_offset f + word_of_int bytes_written\<rparr>) c else c, s) }))"

definition xv6fs_libc_close :: "'w cl_env \<Rightarrow> int \<Rightarrow> fs_client \<Rightarrow> 'w xv6fs_server_context_t \<Rightarrow> (int, 'w) cl_result" where
  "xv6fs_libc_close C fd c s =
     (if fd = dev_null_fd c then Some (0, c, s)
      else (case fd_get fd c of None \<Rightarrow> Some (-1, c, s)
        | Some file \<Rightarrow> do {
            ((error, e, _), s) \<leftarrow> fs_rpc_call C (cf_ep file) Fs_close [] s;
            if error \<or> e \<noteq> 0 then Some (-1, c, s) else Some (0, fd_close fd c, s) }))"

text \<open>The offset is kept in 64 bits and returned as an \<open>int\<close>.\<close>

definition xv6fs_libc_lseek :: "int \<Rightarrow> u64 \<Rightarrow> whence \<Rightarrow> fs_client \<Rightarrow> int \<times> fs_client" where
  "xv6fs_libc_lseek fd off w c = (case fd_get fd c of None \<Rightarrow> (-1, c)
     | Some file \<Rightarrow>
         let ret = (\<lambda>c. (sint (ucast (cf_offset (fd_table c ! nat fd)) :: u32), c)) in
         (case w of
            SEEK_SET \<Rightarrow> ret (fd_set fd (\<lambda>f. f\<lparr>cf_offset := off\<rparr>) c)
          | SEEK_CUR \<Rightarrow> ret (fd_set fd (\<lambda>f. f\<lparr>cf_offset := cf_offset f + off\<rparr>) c)
          | _ \<Rightarrow> (-1, c)))"

definition xv6fs_libc_getcwd :: "nat \<Rightarrow> u8 list" where
  "xv6fs_libc_getcwd sz = take sz (path_of ''/'' @ replicate sz 0)"

text \<open>The result, and the structure that is written for the caller.\<close>

definition xv6fs_libc_fstat :: "'w cl_env \<Rightarrow> int \<Rightarrow> fs_client \<Rightarrow> 'w xv6fs_server_context_t \<Rightarrow> (int \<times> stat option, 'w) cl_result" where
  "xv6fs_libc_fstat C fd c s = (case fd_get fd c of None \<Rightarrow> Some ((-1, None), c, s)
     | Some file \<Rightarrow> do {
         ((error, e, _), s) \<leftarrow> fs_rpc_call C (cf_ep file) Fs_stat [cl_shared_mem c] s;
         if error \<or> e \<noteq> 0 then Some ((-1, None), c, s)
         else Some ((0, Some (cl_load_stat C (cl_shared_vaddr c) (fs_world s))), c, s) })"

definition xv6fs_libc_stat :: "'w cl_env \<Rightarrow> path \<Rightarrow> fs_client \<Rightarrow> 'w xv6fs_server_context_t \<Rightarrow> (int \<times> stat option, 'w) cl_result" where
  "xv6fs_libc_stat C pathname c s = do {
     (fd, c, s) \<leftarrow> xv6fs_libc_open C pathname O_RDWR c s;
     if fd = -1 then Some ((- ENOENT, None), c, s)
     else do {
       ((error, st), c, s) \<leftarrow> xv6fs_libc_fstat C fd c s;
       (_, c, s) \<leftarrow> xv6fs_libc_close C fd c s;
       Some ((error, st), c, s) } }"

text \<open>Every command returns 0; for \<open>F_GETLK\<close> the lock of the caller is marked as free, which the boolean says.\<close>

datatype client_fcntl = CL_SETFL | CL_GETFL | CL_GETLK | CL_SETLK | CL_unsupported

definition xv6fs_libc_fcntl :: "int \<Rightarrow> client_fcntl \<Rightarrow> u64 \<Rightarrow> fs_client \<Rightarrow> (int \<times> bool) \<times> fs_client" where
  "xv6fs_libc_fcntl fd cmd arg c = (case fd_get fd c of None \<Rightarrow> ((-1, False), c)
     | Some file \<Rightarrow> (case cmd of
         CL_SETFL \<Rightarrow> let flags_mask = O_APPEND OR O_ASYNC OR O_NONBLOCK in
           ((0, False), fd_set fd (\<lambda>f. f\<lparr>cf_flags := (cf_flags f AND NOT flags_mask) OR (arg AND flags_mask)\<rparr>) c)
       | CL_GETLK \<Rightarrow> ((0, True), c)
       | _ \<Rightarrow> ((0, False), c)))"

definition xv6fs_libc_unlink :: "'w cl_env \<Rightarrow> path \<Rightarrow> fs_client \<Rightarrow> 'w xv6fs_server_context_t \<Rightarrow> (int, 'w) cl_result" where
  "xv6fs_libc_unlink C pathname c s = do {
     c_assert (length pathname \<le> MAXPATH);
     let s = set_world (cl_store C (cl_shared_vaddr c) (pathname @ [0]) (fs_world s)) s;
     ((error, e, _), s) \<leftarrow> fs_rpc_call C (cl_server_ep c) (Fs_unlink (take MAXPATH pathname)) [] s;
     Some (if error \<or> e \<noteq> 0 then -1 else 0, c, s) }"

text \<open>The descriptor is closed twice, and the result is 1 if the file can be opened.\<close>

definition xv6fs_libc_access :: "'w cl_env \<Rightarrow> path \<Rightarrow> u32 \<Rightarrow> fs_client \<Rightarrow> 'w xv6fs_server_context_t \<Rightarrow> (int, 'w) cl_result" where
  "xv6fs_libc_access C pathname amode c s = do {
     let flags = (if amode AND R_OK \<noteq> 0 then (if amode AND W_OK \<noteq> 0 then O_RDWR else O_RDONLY) else 0);
     (fd, c, s) \<leftarrow> xv6fs_libc_open C pathname flags c s;
     (_, c, s) \<leftarrow> xv6fs_libc_close C fd c s;
     if fd \<noteq> -1 then do {
       (_, c, s) \<leftarrow> xv6fs_libc_close C fd c s;
       Some (1, c, s) }
     else Some (0, c, s) }"

definition xv6fs_libc_faccessat :: "'w cl_env \<Rightarrow> int \<Rightarrow> path \<Rightarrow> u32 \<Rightarrow> u32 \<Rightarrow> fs_client \<Rightarrow> 'w xv6fs_server_context_t \<Rightarrow> (int, 'w) cl_result" where
  "xv6fs_libc_faccessat C dirfd filename amode flags c s =
     (if dirfd \<noteq> AT_FDCWD then Some (- EINVAL, c, s)
      else if flags \<noteq> 0 \<and> flags \<noteq> AT_SYMLINK_NOFOLLOW then Some (- EINVAL, c, s)
      else xv6fs_libc_access C filename amode c s)"

text \<open>Calls that do nothing.\<close>

definition xv6fs_libc_fsync :: "int \<Rightarrow> int" where "xv6fs_libc_fsync fd = 0"
definition xv6fs_libc_fchmod :: "int \<Rightarrow> u32 \<Rightarrow> int" where "xv6fs_libc_fchmod fd mode = 0"
definition xv6fs_libc_chown :: "path \<Rightarrow> u32 \<Rightarrow> u32 \<Rightarrow> int" where "xv6fs_libc_chown p uid gid = 0"
definition xv6fs_libc_geteuid :: int where "xv6fs_libc_geteuid = 1"

subsection \<open>System calls\<close>

text \<open>The entry points that check or convert their arguments; the others pass them on.\<close>

definition xv6fs_muslcsys_openat :: "'w cl_env \<Rightarrow> int \<Rightarrow> path \<Rightarrow> u32 \<Rightarrow> fs_client \<Rightarrow> 'w xv6fs_server_context_t \<Rightarrow> (int, 'w) cl_result" where
  "xv6fs_muslcsys_openat C dirfd pathname flags c s =
     (if dirfd \<noteq> AT_FDCWD then Some (- EINVAL, c, s) else xv6fs_libc_open C pathname flags c s)"

definition xv6fs_muslcsys_write :: "'w cl_env \<Rightarrow> int \<Rightarrow> (nat \<Rightarrow> u8) \<Rightarrow> u64 \<Rightarrow> fs_client \<Rightarrow> 'w xv6fs_server_context_t \<Rightarrow> (int, 'w) cl_result" where
  "xv6fs_muslcsys_write C fd buf cnt c s = xv6fs_libc_write C fd buf (ucast cnt) c s"

definition xv6fs_muslcsys_read :: "'w cl_env \<Rightarrow> int \<Rightarrow> u64 \<Rightarrow> fs_client \<Rightarrow> 'w xv6fs_server_context_t \<Rightarrow> (int \<times> u8 list, 'w) cl_result" where
  "xv6fs_muslcsys_read C fd cnt c s = xv6fs_libc_read C fd (ucast cnt) c s"

definition xv6fs_muslcsys_pread :: "'w cl_env \<Rightarrow> int \<Rightarrow> u64 \<Rightarrow> u64 \<Rightarrow> fs_client \<Rightarrow> 'w xv6fs_server_context_t \<Rightarrow> (int \<times> u8 list, 'w) cl_result" where
  "xv6fs_muslcsys_pread C fd sz ofs c s = xv6fs_libc_pread C fd (ucast sz) (ucast ofs) c s"

definition xv6fs_muslcsys_writev :: int where "xv6fs_muslcsys_writev = -1"
definition xv6fs_muslcsys_readv :: int where "xv6fs_muslcsys_readv = -1"
definition xv6fs_muslcsys__llseek :: int where "xv6fs_muslcsys__llseek = -1"

definition xv6fs_muslcsys_fstatat ::
    "'w cl_env \<Rightarrow> int \<Rightarrow> path \<Rightarrow> u32 \<Rightarrow> fs_client \<Rightarrow> 'w xv6fs_server_context_t \<Rightarrow> (int \<times> stat option, 'w) cl_result" where
  "xv6fs_muslcsys_fstatat C dirfd p flags c s =
     (if dirfd \<noteq> AT_FDCWD then Some ((- EINVAL, None), c, s)
      else if flags \<noteq> 0 \<and> flags \<noteq> AT_SYMLINK_NOFOLLOW then Some ((- EINVAL, None), c, s)
      else xv6fs_libc_stat C p c s)"

definition xv6fs_muslcsys_getcwd :: "nat \<Rightarrow> int \<times> u8 list" where
  "xv6fs_muslcsys_getcwd sz = (1, xv6fs_libc_getcwd sz)"

definition xv6fs_muslcsys_unlinkat :: "'w cl_env \<Rightarrow> int \<Rightarrow> path \<Rightarrow> u32 \<Rightarrow> fs_client \<Rightarrow> 'w xv6fs_server_context_t \<Rightarrow> (int, 'w) cl_result" where
  "xv6fs_muslcsys_unlinkat C dirfd p flags c s =
     (if dirfd \<noteq> AT_FDCWD then Some (- EINVAL, c, s)
      else if flags \<noteq> 0 then Some (- EINVAL, c, s)
      else xv6fs_libc_unlink C p c s)"

subsection \<open>Initialization\<close>

text \<open>The requests for a memory object of one page and for attaching it go to the root task. A NULL result of \<open>malloc\<close> would be written to; the
  table of system calls of the C library is not part of the model.\<close>

definition xv6fs_client_init :: "'w cl_env \<Rightarrow> fs_client \<Rightarrow> 'w xv6fs_server_context_t \<Rightarrow> (int, 'w) cl_result" where
  "xv6fs_client_init C c s =
     (if cl_shared_vaddr c \<noteq> 0 then Some (0, c, s)
      else do {
        let c = c\<lparr>file_cap_type := sel4gpi_get_resource_type_code (cl_shared_data C (fs_world s)) ''FILE''\<rparr>;
        (_, c, s) \<leftarrow> xv6fs_client_set_namespace C BADGE_SPACE_ID_NULL c s;
        let ((error, mo_cap), w) = cl_rt C (Mo_connect 1) (fs_world s);
        let s = set_world w s;
        if error \<noteq> 0 then Some (error, c, s)
        else do {
          let c = c\<lparr>cl_shared_mem := mo_cap\<rparr>;
          let ((error, va), w) = cl_rt C (Attach_mo (cl_shared_mem c)) (fs_world s);
          let s = set_world w s;
          if error \<noteq> 0 then Some (error, c, s)
          else Some (0, fd_init (c\<lparr>cl_shared_vaddr := va\<rparr>), s) } })"

end
