(* ===== verification/Fs_Client_Io.thy ===== *)
theory Fs_Client_Io
  imports Fs_Client Fs_Registry Xv6_Use
begin

section \<open>Reading and writing through the client\<close>

text \<open>
  A read or write of a process goes through the client, the page of memory it shares with the server, the main loop and the handler of the
  server, the file structure, the inode, the buffer cache and the block server. The lemmas follow the request through these layers.
\<close>

subsection \<open>An open file in the server\<close>

text \<open>The badge leads to an entry of the registry, whose file structure is open for reading and writing on an inode that is in use and has been read.\<close>

definition open_file :: "u32 set \<Rightarrow> nat \<Rightarrow> u64 \<Rightarrow> nat \<Rightarrow> nat \<Rightarrow> 'w xv6fs_server_context_t \<Rightarrow> bool" where
  "open_file B k badge a ip s \<longleftrightarrow>
     badge \<noteq> NOTIF_BADGE \<and> badge \<noteq> 0 \<and> get_cap_type_from_badge badge = fs_type s \<and> get_object_id_from_badge badge \<noteq> BADGE_OBJ_ID_NULL \<and>
     map_option reg_file (resource_registry_get_by_badge (file_registry s) badge) = Some a \<and>
     (\<exists>f. files s a = Some f \<and> f_type f = FD_INODE \<and> f_readable f \<and> f_writable f \<and> f_ip f = ip) \<and>
     i_valid (inode_of s ip) \<and> 1 \<le> i_ref (inode_of s ip) \<and> file_state B k ip s \<and> backed (disk_view s) (inode_of s ip)"

abbreviation bytes_of :: "'w xv6fs_server_context_t \<Rightarrow> nat \<Rightarrow> u8 list" where
  "bytes_of s ip \<equiv> file_bytes (disk_view s) (inode_of s ip)"

lemma ram_inv_world [simp]: "ram_inv (d\<lparr>ram := (ram d)\<lparr>rd_world := w\<rparr>\<rparr>) = ram_inv d"
  by (simp add: ram_inv_def conn_ok_def client_mem_def)

lemma ram_contents_world [simp]: "ram_contents (d\<lparr>ram := (ram d)\<lparr>rd_world := w\<rparr>\<rparr>) = ram_contents d"
  by (simp add: ram_contents_def fun_eq_iff)

lemma view_world [simp]: "disk_view (set_world w s) = disk_view s"
  by (simp add: set_world_def view_def fun_eq_iff split: option.split)

lemma view_file [simp]: "disk_view (set_file a f s) = disk_view s"
  by (simp add: set_file_def view_def fun_eq_iff split: option.split)

lemma world_simps [simp]:
  "itable (set_world w s) = itable s" "sb (set_world w s) = sb s" "files (set_world w s) = files s" "fs_type (set_world w s) = fs_type s"
  "file_registry (set_world w s) = file_registry s" "fs_world (set_world w s) = w" "set_world v (set_world w s) = set_world v s"
  "refs (set_world w s) = refs s" "bufs (set_world w s) = bufs s" "disk (set_world w s) = (disk s)\<lparr>ram := (ram (disk s))\<lparr>rd_world := w\<rparr>\<rparr>"
  by (simp_all add: set_world_def fs_world_def refs_def fun_eq_iff split: option.split)

lemma file_simps [simp]:
  "itable (set_file a f s) = itable s" "sb (set_file a f s) = sb s" "files (set_file a f s) = (files s)(a \<mapsto> f)" "refs (set_file a f s) = refs s"
  "bufs (set_file a f s) = bufs s" "disk (set_file a f s) = disk s"
  by (simp_all add: set_file_def refs_def fun_eq_iff split: option.split)

lemma server_file_simps [simp]:
  fixes s :: "'w xv6fs_server_context_t"
  shows "file_registry (set_file a f s) = file_registry s" "fs_type (set_file a f s) = fs_type s"
  by (simp_all add: set_file_def)

lemma file_state_simps [simp]:
  "file_state B k ip (set_world w s) = file_state B k ip s" "file_state B k ip (set_file a f s) = file_state B k ip s"
  by (simp_all add: file_state_def fs_state_def fits_cache_def)

lemma open_file_world [simp]: "open_file B k badge a ip (set_world w s) = open_file B k badge a ip s"
  by (simp add: open_file_def)

text \<open>What the operations of the file system do not touch.\<close>

lemma same_server:
  fixes s s' :: "'w xv6fs_server_context_t"
  assumes "same (fs.more s) s'"
  shows "files s' = files s" "file_registry s' = file_registry s" "fs_type s' = fs_type s"
  using assms by (cases s; cases s'; simp add: same_def)+

lemma file_state_less: "file_state B k ip s \<Longrightarrow> j \<le> k \<Longrightarrow> file_state B j ip s"
  using ram.fs_inv_less by (simp add: file_state_iff)

lemma open_file_less: "open_file B k badge a ip s \<Longrightarrow> j \<le> k \<Longrightarrow> open_file B j badge a ip s"
  using file_state_less by (auto simp: open_file_def)

lemma open_file_seek: "open_file B k badge a ip s \<Longrightarrow> files s a = Some f \<Longrightarrow> open_file B k badge a ip (set_file a (f\<lparr>f_off := x\<rparr>) s)"
  by (auto simp: open_file_def)

lemma open_file_same:
  fixes s s' :: "'w xv6fs_server_context_t"
  assumes "open_file B k badge a ip s" "same (fs.more s) s'" "i_valid (inode_of s' ip)" "1 \<le> i_ref (inode_of s' ip)" "file_state B j ip s'"
    "backed (disk_view s') (inode_of s' ip)"
  shows "open_file B j badge a ip s'"
  using assms same_server [OF assms(2)] by (simp add: open_file_def)

subsection \<open>Reading\<close>

lemma readi_server:
  fixes s :: "'w xv6fs_server_context_t"
  assumes "open_file B k badge a ip s" "2 \<le> k" "off + n \<ge> off"
  shows "\<exists>s'. readi (ram_ops R) ip off n s = Some (take (unat n) (drop (unat off) (bytes_of s ip)), s') \<and>
    open_file B k badge a ip s' \<and> bytes_of s' ip = bytes_of s ip \<and> files s' = files s"
proof -
  have st: "ram.fs_inv B k ip s" "backed (disk_view s) (inode_of s ip)" using assms(1) by (simp_all add: open_file_def file_state_iff)
  obtain s' where s': "readi (ram_ops R) ip off n s = Some (take (unat n) (drop (unat off) (bytes_of s ip)), s')" "ram.steps B s (disk_view s) s'"
    using ram.readi_ok [OF ram.fs_inv_less [OF st(1) assms(2)] st(2) assms(3), of R] by blast
  have fr: "same (fs.more s) s'" using readi_frame [of "fs.more s" s "ram_ops R" ip off n] s'(1) by (simp add: frame_defs)
  have eq: "sb s' = sb s" "itable s' = itable s" "disk_view s' = disk_view s"
    using s'(2) fs_frame [of s' s] by (simp_all add: ram.steps_def)
  have "ram.fs_inv B k ip s'" using st(1) s'(2) eq by (simp add: ram.fs_inv_def ram.steps_def)
  then show ?thesis using s'(1) open_file_same [OF assms(1) fr, of k] assms(1) eq same_server [OF fr]
    by (auto simp: open_file_def file_state_iff)
qed

lemma fs_read_server:
  fixes s :: "'w xv6fs_server_context_t"
  assumes "open_file B k badge a ip s" "2 \<le> k" "off \<noteq> NO_OFFSET" "off + word_of_int n \<ge> off"
  defines "xs \<equiv> take (unat (word_of_int n :: u32)) (drop (unat off) (bytes_of s ip))"
  shows "\<exists>s'. xv6fs_sys_read (ram_ops R) (Some a) n off s = Some (int (length xs), xs, s') \<and>
    open_file B k badge a ip s' \<and> bytes_of s' ip = bytes_of s ip"
proof -
  obtain f where f: "files s a = Some f" "f_type f = FD_INODE" "f_readable f" "f_ip f = ip" using assms(1) by (auto simp: open_file_def)
  let ?f = "f\<lparr>f_off := off\<rparr>"
  let ?s = "set_file a ?f s"
  have o: "open_file B k badge a ip ?s" using open_file_seek [OF assms(1) f(1)] .
  then have v: "i_valid (inode_of ?s ip)" "1 \<le> i_ref (inode_of ?s ip)" by (simp_all add: open_file_def)
  obtain s1 where s1: "readi (ram_ops R) ip off (word_of_int n) ?s = Some (xs, s1)" "open_file B k badge a ip s1" "bytes_of s1 ip = bytes_of s ip"
      "files s1 = files ?s" using readi_server [OF o assms(2,4), of R] by (auto simp: xs_def)
  have i: "1 \<le> i_ref (inode_of s1 ip)" using s1(2) by (simp add: open_file_def)
  let ?s2 = "if xs \<noteq> [] then set_file a (?f\<lparr>f_off := off + of_nat (length xs)\<rparr>) s1 else s1"
  have "xv6fs_sys_read (ram_ops R) (Some a) n off s = Some (int (length xs), xs, ?s2)"
    using f v i s1(1) assms(3) by (auto simp: xv6fs_sys_read_def seek_to_def fileread_def ilock_def iunlock_def Let_def)
  moreover have "open_file B k badge a ip ?s2" using s1(2,4) open_file_seek [OF s1(2), of ?f] by simp
  moreover have "bytes_of ?s2 ip = bytes_of s ip" using s1(3) by simp
  ultimately show ?thesis by blast
qed

subsection \<open>Writing\<close>

lemma writei_server:
  fixes s :: "'w xv6fs_server_context_t"
  assumes "open_file B (2 * blocks (unat off) (length src) + k) badge a ip s" and "off \<le> i_size (inode_of s ip)"
    and "unat off + length src \<le> MAXFILE * BSIZE" and "2 * blocks (unat off) (length src) \<le> length (frees (disk_view s) (sb s))"
  shows "\<exists>s'. writei (ram_ops R) ip off src s = Some (int (length src), s') \<and> open_file B k badge a ip s' \<and> files s' = files s \<and>
    bytes_of s' ip = take (unat off) (bytes_of s ip) @ src @ drop (unat off + length src) (bytes_of s ip)"
proof -
  have st: "ram.fs_inv B (2 * blocks (unat off) (length src) + k) ip s" "backed (disk_view s) (inode_of s ip)"
    using assms(1) by (simp_all add: open_file_def file_state_iff)
  obtain s' where s': "writei (ram_ops R) ip off src s = Some (int (length src), s')" "ram.wrote B k ip s s'"
      "bytes_of s' ip = take (unat off) (bytes_of s ip) @ src @ drop (unat off + length src) (bytes_of s ip)"
    using ram.writei_ok [OF st assms(2,3), of R] assms(4) by auto
  have fr: "same (fs.more s) s'" using writei_frame [of "fs.more s" s "ram_ops R" ip off src] s'(1) by (simp add: frame_defs)
  have q: "inode_of s' ip = (inode_of s ip)\<lparr>i_addrs := i_addrs (inode_of s' ip), i_size := i_size (inode_of s' ip)\<rparr>"
    using s'(2) by (simp add: ram.wrote_def)
  have "i_valid (inode_of s' ip) = i_valid (inode_of s ip)" "i_ref (inode_of s' ip) = i_ref (inode_of s ip)" by (subst q, simp)+
  then have "open_file B k badge a ip s'"
    using open_file_same [OF assms(1) fr, of k] assms(1) s'(2) by (simp add: open_file_def file_state_iff ram.wrote_def)
  then show ?thesis using s'(1,3) same_server [OF fr] by blast
qed

lemma fs_write_server:
  fixes s :: "'w xv6fs_server_context_t"
  assumes "open_file B (2 * blocks (unat off) n + k) badge a ip s" and "off \<noteq> NO_OFFSET" "n \<le> write_max" and "off \<le> i_size (inode_of s ip)"
    and "unat off + n \<le> MAXFILE * BSIZE" and "2 * blocks (unat off) n \<le> length (frees (disk_view s) (sb s))"
  shows "\<exists>s'. xv6fs_sys_write (ram_ops R) (Some a) (int n) src off s = Some (int n, s') \<and> open_file B k badge a ip s' \<and>
    bytes_of s' ip = take (unat off) (bytes_of s ip) @ map src [0 ..< n] @ drop (unat off + n) (bytes_of s ip)"
proof -
  obtain f where f: "files s a = Some f" "f_type f = FD_INODE" "f_writable f" "f_ip f = ip" using assms(1) by (auto simp: open_file_def)
  let ?f = "f\<lparr>f_off := off\<rparr>"
  let ?s = "set_file a ?f s"
  have o: "open_file B (2 * blocks (unat off) n + k) badge a ip ?s" using open_file_seek [OF assms(1) f(1)] .
  then have v: "i_valid (inode_of ?s ip)" "1 \<le> i_ref (inode_of ?s ip)" by (simp_all add: open_file_def)
  show ?thesis
  proof (cases "n = 0")
    case True
    have "xv6fs_sys_write (ram_ops R) (Some a) (int n) src off s = Some (int n, ?s)"
      using True f assms(2) by (simp add: xv6fs_sys_write_def seek_to_def filewrite_def)
    then show ?thesis using open_file_less [OF o, of k] True by simp
  next
    case False
    obtain s1 where s1: "writei (ram_ops R) ip off (map src [0 ..< n]) ?s = Some (int n, s1)" "open_file B k badge a ip s1" "files s1 = files ?s"
        "bytes_of s1 ip = take (unat off) (bytes_of s ip) @ map src [0 ..< n] @ drop (unat off + n) (bytes_of s ip)"
      using writei_server [of B off "map src [0 ..< n]" k badge a ip ?s R] o assms(4-6) by auto
    have i: "1 \<le> i_ref (inode_of s1 ip)" using s1(2) by (simp add: open_file_def)
    let ?s2 = "set_file a (?f\<lparr>f_off := off + word_of_int (int n)\<rparr>) s1"
    have "filewrite_loop (ram_ops R) a n src n u = Some (n, u)" for u :: "'w xv6fs_server_context_t" by (subst filewrite_loop.simps) simp
    then have "filewrite_loop (ram_ops R) a n src 0 ?s = Some (n, ?s2)"
      using False f v i s1(1) assms(3) by (subst filewrite_loop.simps) (simp add: ilock_def iunlock_def Let_def min_def del: filewrite_loop.simps)
    then have "xv6fs_sys_write (ram_ops R) (Some a) (int n) src off s = Some (int n, ?s2)"
      using f assms(2) by (simp add: xv6fs_sys_write_def seek_to_def filewrite_def del: filewrite_loop.simps)
    moreover have "open_file B k badge a ip ?s2" using s1(2,3) open_file_seek [OF s1(2), of ?f] by simp
    ultimately show ?thesis using s1(4) by auto
  qed
qed

subsection \<open>The shared page\<close>

text \<open>
  What the root task and the kernel promise of the page at address \<open>va\<close> of the client: the capability that arrives in the receive slot of the server is
  attached at some address \<open>pa\<close> of the server, where the same bytes are seen; detaching it and clearing the slot succeed and change no byte; a byte
  that was stored by either side is read by the client.
\<close>

definition shared_page :: "'w cl_env \<Rightarrow> u64 \<Rightarrow> u64 \<Rightarrow> bool" where
  "shared_page C va pa \<longleftrightarrow> srv_recv C \<noteq> 0 \<and> pa \<noteq> 0 \<and>
     (\<forall>w. fst (rt (own_rt (srv C)) (Attach_mo (srv_recv C)) w) = (0, pa) \<and>
       mo_load (srv C) pa (snd (rt (own_rt (srv C)) (Attach_mo (srv_recv C)) w)) = cl_load C va w) \<and>
     (\<forall>w. fst (fst (rt (own_rt (srv C)) (Delete_vmr pa) w)) = 0 \<and> cl_load C va (snd (rt (own_rt (srv C)) (Delete_vmr pa) w)) = cl_load C va w) \<and>
     (\<forall>w. cl_load C va (snd (rt (own_rt (srv C)) (Clear_slot (srv_recv C)) w)) = cl_load C va w) \<and>
     (\<forall>xs w i. i < length xs \<longrightarrow> cl_load C va (cl_store C va xs w) i = xs ! i) \<and>
     (\<forall>xs w i. i < length xs \<longrightarrow> cl_load C va (mo_store (srv C) pa xs w) i = xs ! i)"

text \<open>A request on a file that uses the page, as one turn of the server: the page is attached, \<open>f\<close> runs, the page is detached and the receive slot is cleared.\<close>

lemma file_request_turn:
  assumes page: "shared_page C va pa" and o: "open_file B k badge a ip s" and b: "ep_badge C e (fs_world s) = Some badge"
    and req: "\<And>n u. reg_file n = a \<Longrightarrow> resource_registry_get_by_badge (file_registry u) badge = Some n \<Longrightarrow>
      fs_file_request (srv C) msg badge (srv_recv C) u = with_client_memory (srv C) (srv_recv C) f u"
    and f: "\<And>u. u = set_world (snd (rt (own_rt (srv C)) (Attach_mo (srv_recv C)) (fs_world s))) s \<Longrightarrow> \<exists>t. f pa u = Some (r, t) \<and> P t"
    and P: "\<And>w t. P t \<Longrightarrow> cl_load C va w = cl_load C va (fs_world t) \<Longrightarrow> Q (set_world w t)"
  shows "\<exists>s'. fs_rpc_call C e msg caps s = Some ((False, 0, r), s') \<and> Q s'"
proof -
  let ?R = "own_rt (srv C)" and ?recv = "srv_recv C"
  obtain n where n: "resource_registry_get_by_badge (file_registry s) badge = Some n" "reg_file n = a" using o by (auto simp: open_file_def)
  obtain w1 where w1: "rt ?R (Attach_mo ?recv) (fs_world s) = ((0, pa), w1)"
    using page by (metis shared_page_def prod.collapse)
  obtain t where t: "f pa (set_world w1 s) = Some (r, t)" "P t" using f [of "set_world w1 s"] w1 by auto
  obtain x w2 where w2: "rt ?R (Delete_vmr pa) (fs_world t) = ((0, x), w2)" "cl_load C va w2 = cl_load C va (fs_world t)"
    using page unfolding shared_page_def by (metis prod.collapse)
  obtain y w3 where w3: "rt ?R (Clear_slot ?recv) w2 = (y, w3)" "cl_load C va w3 = cl_load C va w2"
    using page unfolding shared_page_def by (metis prod.collapse)
  have nz: "?recv \<noteq> 0" "pa \<noteq> 0" using page by (simp_all add: shared_page_def)
  have h: "xv6fs_request_handler (srv C) FS_RPC_MAGIC msg m badge ?recv s = Some (0, r, True, set_world w2 t)" for m
    using o req [OF n(2,1)] w1 w2 t nz
    by (simp add: xv6fs_request_handler_def open_file_def with_client_memory_def resource_server_attach_mo_def resource_server_unattach_def)
  have "fs_rpc_call C e msg caps s = Some ((False, 0, r), set_world w3 t)"
    using h b o w3(1) by (cases y) (simp add: fs_rpc_call_def resource_server_turn_def fs_server_code_def fs_rt_def open_file_def)
  then show ?thesis using P [OF t(2), of w3] w2(2) w3(2) by auto
qed

lemma sint_small:
  fixes n :: u32
  assumes "unat n < 2 ^ 31"
  shows "sint n = int (unat n)"
proof -
  have "uint n = int (unat n)" "unat n < 2147483648" using assms by simp_all
  then have "uint n < 2147483648" by linarith
  then have "uint n < 2 ^ 31" by simp
  moreover have "- (2 ^ 31) \<le> uint n" by (rule order_trans [of _ 0]) simp_all
  ultimately have "signed_take_bit 31 (uint n) = uint n" by (intro signed_take_bit_int_eq_self)
  then show ?thesis by (simp add: sint_uint)
qed

lemma rpc_read:
  fixes s :: "'w xv6fs_server_context_t"
  assumes page: "shared_page C va pa" and o: "open_file B k badge a ip s" "2 \<le> k" and b: "ep_badge C e (fs_world s) = Some badge"
    and off: "off \<noteq> NO_OFFSET" "off + n \<ge> off"
  defines "xs \<equiv> take (unat n) (drop (unat off) (bytes_of s ip))"
  shows "\<exists>s'. fs_rpc_call C e (Fs_read n off) caps s = Some ((False, 0, Fs_n (of_nat (length xs))), s') \<and>
    open_file B k badge a ip s' \<and> bytes_of s' ip = bytes_of s ip \<and> map (cl_load C va (fs_world s')) [0 ..< length xs] = xs"
proof -
  define f where "f = (\<lambda>va u. do { (r, xs, s) \<leftarrow> xv6fs_sys_read (fs_disk_ops (srv C)) (Some a) (sint n) off u;
         Some (Fs_n (word_of_int r), set_world (mo_store (srv C) va xs (fs_world s)) s) })"
  let ?Q = "\<lambda>t. open_file B k badge a ip t \<and> bytes_of t ip = bytes_of s ip \<and> map (cl_load C va (fs_world t)) [0 ..< length xs] = xs"
  have "cl_load C va (mo_store (srv C) pa xs w) i = xs ! i" if "i < length xs" for w i using page that by (simp add: shared_page_def)
  then have ld: "map (cl_load C va (mo_store (srv C) pa xs w)) [0 ..< length xs] = xs" for w by (intro nth_equalityI) simp_all
  have "\<exists>t. f pa (set_world w s) = Some (Fs_n (of_nat (length xs)), t) \<and> ?Q t" for w
  proof -
    have "open_file B k badge a ip (set_world w s)" "off + word_of_int (sint n) \<ge> off" using o off by simp_all
    from fs_read_server [OF this(1) o(2) off(1) this(2), of "disk_rt (srv C)"] show ?thesis using ld by (auto simp: f_def xs_def)
  qed
  then show ?thesis
    by (intro file_request_turn [OF page o(1) b, where f = f and P = ?Q]) (auto simp: f_def fs_file_request_def)
qed

lemma rpc_write:
  fixes s :: "'w xv6fs_server_context_t"
  assumes page: "shared_page C va pa" and o: "open_file B (2 * blocks (unat off) (unat n) + k) badge a ip s" and b: "ep_badge C e (fs_world s) = Some badge"
    and n: "n \<le> RAMDISK_BLOCK_SIZE" and off: "off \<noteq> NO_OFFSET" "off \<le> i_size (inode_of s ip)" "unat off + unat n \<le> MAXFILE * BSIZE"
    and room: "2 * blocks (unat off) (unat n) \<le> length (frees (disk_view s) (sb s))"
  shows "\<exists>s'. fs_rpc_call C e (Fs_write n off) caps s = Some ((False, 0, Fs_n n), s') \<and> open_file B k badge a ip s' \<and>
    bytes_of s' ip = take (unat off) (bytes_of s ip) @ map (cl_load C va (fs_world s)) [0 ..< unat n] @ drop (unat off + unat n) (bytes_of s ip)"
proof -
  define f where "f = (\<lambda>va u. do { (r, t) \<leftarrow> xv6fs_sys_write (fs_disk_ops (srv C)) (Some a) (sint n) (mo_load (srv C) va (fs_world u)) off u;
         Some (Fs_n (word_of_int r), t) })"
  let ?Q = "\<lambda>t. open_file B k badge a ip t \<and>
    bytes_of t ip = take (unat off) (bytes_of s ip) @ map (cl_load C va (fs_world s)) [0 ..< unat n] @ drop (unat off + unat n) (bytes_of s ip)"
  have le: "unat n \<le> 4096" using n by (simp add: RAMDISK_BLOCK_SIZE_val word_le_nat_alt)
  then have sn: "sint n = int (unat n)" by (intro sint_small) simp
  have "unat n \<le> write_max" using le by (simp add: write_max_def MAXOPBLOCKS_def BSIZE_def)
  note w = fs_write_server [OF _ off(1) this _ off(3), where k = k and R = "disk_rt (srv C)"]
  have "\<exists>t. f pa (set_world w' s) = Some (Fs_n n, t) \<and> ?Q t" if "mo_load (srv C) pa w' = cl_load C va (fs_world s)" for w'
    using w [of B badge a ip "set_world w' s" "mo_load (srv C) pa w'"] o off room that by (auto simp: f_def sn)
  then show ?thesis
    by (intro file_request_turn [OF page o b, where f = f and P = ?Q])
      (use page in \<open>auto simp: f_def fs_file_request_def shared_page_def\<close>)
qed

subsection \<open>The calls of the client\<close>

text \<open>The descriptor is open with the capability of this badge, at offset \<open>off\<close>.\<close>

definition fd_at :: "'w cl_env \<Rightarrow> fs_client \<Rightarrow> int \<Rightarrow> u64 \<Rightarrow> u32 \<Rightarrow> bool" where
  "fd_at C c fd badge off \<longleftrightarrow> length (fd_table c) = FD_TABLE_SIZE \<and> fd \<noteq> dev_null_fd c \<and> 0 \<le> fd \<and> fd < int FD_TABLE_SIZE \<and>
     (let f = fd_table c ! nat fd in cf_ep f \<noteq> 0 \<and> cf_offset f = ucast off \<and> (\<forall>w. ep_badge C (cf_ep f) w = Some badge))"

lemma fd_at_get: "fd_at C c fd badge off \<Longrightarrow> fd_get fd c = Some (fd_table c ! nat fd)"
  by (simp add: fd_at_def fd_get_def Let_def)

lemma fd_at_set: "fd_at C c fd badge off \<Longrightarrow> f (fd_table c ! nat fd) = (fd_table c ! nat fd)\<lparr>cf_offset := ucast off'\<rparr> \<Longrightarrow>
    fd_at C (fd_set fd f c) fd badge off'"
  by (simp add: fd_at_def fd_set_def Let_def nat_less_iff)

lemma client_lseek:
  assumes "fd_at C c fd badge off0" "unat off < 2 ^ 31"
  shows "\<exists>c'. xv6fs_libc_lseek fd (ucast off) SEEK_SET c = (int (unat off), c') \<and> fd_at C c' fd badge off \<and> cl_shared_vaddr c' = cl_shared_vaddr c"
proof -
  let ?c = "fd_set fd (\<lambda>f. f\<lparr>cf_offset := ucast off\<rparr>) c"
  have "fd_at C ?c fd badge off" by (rule fd_at_set [OF assms(1)]) simp
  moreover have "ucast (ucast off :: u64) = off" by simp
  ultimately show ?thesis using fd_at_get [OF assms(1)] sint_small [OF assms(2)]
    by (simp add: xv6fs_libc_lseek_def fd_at_def Let_def) (simp add: fd_set_def)
qed

lemma word_off_add:
  fixes off n :: u32
  assumes "unat off + unat n < 2 ^ 31"
  shows "off + n \<ge> off" "(ucast off + ucast n :: u64) = ucast (off + n)" "off \<noteq> NO_OFFSET" "unat (off + n) = unat off + unat n"
proof -
  show u: "unat (off + n) = unat off + unat n" using assms by (simp add: unat_word_ariths)
  then show "off + n \<ge> off" by (simp add: word_le_nat_alt)
  show "(ucast off + ucast n :: u64) = ucast (off + n)" using assms u by (simp add: word_unat_eq_iff unat_word_ariths unsigned_ucast_eq take_bit_nat_eq_self)
  have "unat NO_OFFSET = 4294967295" by (simp add: NO_OFFSET_def unsigned_minus_1_eq_mask mask_eq_exp_minus_1)
  then show "off \<noteq> NO_OFFSET" using assms by auto
qed

lemma client_read:
  fixes s :: "'w xv6fs_server_context_t"
  assumes page: "shared_page C (cl_shared_vaddr c) pa" and fd: "fd_at C c fd badge off" and o: "open_file B k badge a ip s" "2 \<le> k"
    and n: "n \<le> RAMDISK_BLOCK_SIZE" "unat off + unat n < 2 ^ 31"
  defines "xs \<equiv> take (unat n) (drop (unat off) (bytes_of s ip))"
  shows "\<exists>c' s'. xv6fs_libc_read C fd n c s = Some ((int (length xs), xs), c', s') \<and> fd_at C c' fd badge (off + of_nat (length xs)) \<and>
    open_file B k badge a ip s' \<and> bytes_of s' ip = bytes_of s ip"
proof -
  let ?f = "fd_table c ! nat fd"
  have b: "ep_badge C (cf_ep ?f) (fs_world s) = Some badge" and off: "(ucast (cf_offset ?f) :: u32) = off" "cf_offset ?f = ucast off" "fd \<noteq> dev_null_fd c"
    using fd by (simp_all add: fd_at_def Let_def)
  obtain s' where s': "fs_rpc_call C (cf_ep ?f) (Fs_read n off) [cl_shared_mem c] s = Some ((False, 0, Fs_n (of_nat (length xs))), s')"
      "open_file B k badge a ip s'" "bytes_of s' ip = bytes_of s ip" "map (cl_load C (cl_shared_vaddr c) (fs_world s')) [0 ..< length xs] = xs"
    using rpc_read [OF page o b word_off_add(3,1) [OF n(2)]] unfolding xs_def by blast
  have l: "length xs \<le> unat n" "unat n \<le> 4096" using n by (simp_all add: xs_def RAMDISK_BLOCK_SIZE_val word_le_nat_alt)
  then have u: "unat (of_nat (length xs) :: u32) = length xs" by (simp add: unat_of_nat_small)
  then have sx: "sint (of_nat (length xs) :: u32) = int (length xs)" using sint_small [of "of_nat (length xs)"] l by simp
  have p: "xv6fs_libc_pread C fd n (ucast (cf_offset ?f)) c s = Some ((int (length xs), xs), c, s')"
    using fd_at_get [OF fd] off n(1) s'(1,4) sx by (auto simp: xv6fs_libc_pread_def Let_def not_less)
  let ?c = "if 0 < int (length xs) then fd_set fd (\<lambda>f. f\<lparr>cf_offset := cf_offset f + word_of_int (int (length xs))\<rparr>) c else c"
  have "of_nat (unat (of_nat (length xs) :: u32)) = (ucast (of_nat (length xs) :: u32) :: u64)" by (rule of_nat_unat)
  then have "(ucast off :: u64) + of_nat (length xs) = ucast (off + of_nat (length xs))"
    using word_off_add(2) [of off "of_nat (length xs)"] l n(2) unfolding u by simp
  then have "fd_at C ?c fd badge (off + of_nat (length xs))" using fd off(2) by (auto intro!: fd_at_set [OF fd])
  then show ?thesis using fd_at_get [OF fd] p s'(2,3) by (simp add: xv6fs_libc_read_def)
qed

lemma client_write:
  fixes s :: "'w xv6fs_server_context_t"
  assumes page: "shared_page C (cl_shared_vaddr c) pa" and fd: "fd_at C c fd badge off"
    and o: "open_file B (2 * blocks (unat off) (unat n) + k) badge a ip s" and n: "n \<le> RAMDISK_BLOCK_SIZE"
    and off: "off \<le> i_size (inode_of s ip)" "unat off + unat n \<le> MAXFILE * BSIZE"
    and room: "2 * blocks (unat off) (unat n) \<le> length (frees (disk_view s) (sb s))"
  shows "\<exists>c' s'. xv6fs_libc_write C fd buf n c s = Some (int (unat n), c', s') \<and> fd_at C c' fd badge (off + n) \<and> cl_shared_vaddr c' = cl_shared_vaddr c \<and>
    open_file B k badge a ip s' \<and> bytes_of s' ip = take (unat off) (bytes_of s ip) @ map buf [0 ..< unat n] @ drop (unat off + unat n) (bytes_of s ip)"
proof -
  let ?f = "fd_table c ! nat fd"
  let ?s = "if sint n > 0 then set_world (cl_store C (cl_shared_vaddr c) (map buf [0 ..< unat n]) (fs_world s)) s else s"
  have f: "ep_badge C (cf_ep ?f) (fs_world ?s) = Some badge" "(ucast (cf_offset ?f) :: u32) = off" "cf_offset ?f = ucast off" "fd \<noteq> dev_null_fd c"
    using fd by (simp_all add: fd_at_def Let_def)
  have lt: "unat off + unat n < 2 ^ 31" using off(2) by (simp add: layout_defs)
  have le: "unat n \<le> 4096" using n by (simp add: RAMDISK_BLOCK_SIZE_val word_le_nat_alt)
  then have sn: "sint n = int (unat n)" by (intro sint_small) simp
  have ld: "map (cl_load C (cl_shared_vaddr c) (fs_world ?s)) [0 ..< unat n] = map buf [0 ..< unat n]"
  proof (cases "unat n = 0")
    case False
    then have "sint n > 0" using sn by linarith
    then show ?thesis using page by (intro nth_equalityI) (simp_all add: shared_page_def)
  qed simp
  have o': "open_file B (2 * blocks (unat off) (unat n) + k) badge a ip ?s" "off \<le> i_size (inode_of ?s ip)"
    "2 * blocks (unat off) (unat n) \<le> length (frees (disk_view ?s) (sb ?s))" "bytes_of ?s ip = bytes_of s ip" using o off room by simp_all
  from rpc_write [OF page o'(1) f(1) n word_off_add(3) [OF lt] o'(2) off(2) o'(3), of "[cl_shared_mem c]", unfolded ld o'(4)]
  obtain s' where s': "fs_rpc_call C (cf_ep ?f) (Fs_write n off) [cl_shared_mem c] ?s = Some ((False, 0, Fs_n n), s')" "open_file B k badge a ip s'"
      "bytes_of s' ip = take (unat off) (bytes_of s ip) @ map buf [0 ..< unat n] @ drop (unat off + unat n) (bytes_of s ip)" by blast
  let ?c = "if 0 < sint n then fd_set fd (\<lambda>f. f\<lparr>cf_offset := cf_offset f + word_of_int (sint n)\<rparr>) c else c"
  have "xv6fs_libc_write C fd buf n c s = Some (int (unat n), ?c, s')"
    using fd_at_get [OF fd] f leD [OF n] s'(1) by (simp add: xv6fs_libc_write_def Let_def sn)
  moreover have "fd_at C ?c fd badge (off + n)"
  proof (cases "0 < sint n")
    case False
    then have "unat n = 0" using sn by linarith
    then show ?thesis using fd by (simp add: unat_eq_zero)
  qed (use f(3) word_off_add(2) [OF lt] sn in \<open>auto intro!: fd_at_set [OF fd]\<close>)
  moreover have "cl_shared_vaddr ?c = cl_shared_vaddr c" by (simp add: fd_set_def)
  ultimately show ?thesis using s'(2,3) by blast
qed

text \<open>
  C4: what a process writes it reads back. A write of at most a page through an open descriptor returns the number of bytes, puts them into the file at the
  offset of the descriptor and leaves the other bytes of the file as they were; after seeking back, a read of as many bytes returns exactly these bytes and
  changes nothing in the file. This holds if the descriptor is open on a file that is open in the server, the offset is not behind the end of the file, the
  file stays within the largest size and there are enough free blocks; and as long as the blocks in the cache, the blocks of the file and the free blocks
  that may be needed are at most \<open>NBUF\<close> (\<open>open_file\<close> has the bound of theory Xv6_Use). It goes through the shared page, the loop and the handler of the server, the buffer cache and the block server.
\<close>

theorem write_read_back:
  assumes "shared_page C (cl_shared_vaddr c) pa" and "fd_at C c fd badge off"
    and "open_file B (2 * blocks (unat off) (unat n) + 2) badge a ip s" and "n \<le> RAMDISK_BLOCK_SIZE"
    and "off \<le> i_size (inode_of s ip)" and "unat off + unat n \<le> MAXFILE * BSIZE"
    and "2 * blocks (unat off) (unat n) \<le> length (frees (disk_view s) (sb s))"
  shows "\<exists>c1 s1 c2 c3 s2. xv6fs_libc_write C fd buf n c s = Some (int (unat n), c1, s1) \<and>
    bytes_of s1 ip = take (unat off) (bytes_of s ip) @ map buf [0 ..< unat n] @ drop (unat off + unat n) (bytes_of s ip) \<and>
    xv6fs_libc_lseek fd (ucast off) SEEK_SET c1 = (int (unat off), c2) \<and>
    xv6fs_libc_read C fd n c2 s1 = Some ((int (unat n), map buf [0 ..< unat n]), c3, s2) \<and>
    bytes_of s2 ip = bytes_of s1 ip \<and> fd_at C c3 fd badge (off + n) \<and> open_file B 2 badge a ip s2"
proof -
  obtain c1 s1 where w: "xv6fs_libc_write C fd buf n c s = Some (int (unat n), c1, s1)" "fd_at C c1 fd badge (off + n)" "cl_shared_vaddr c1 = cl_shared_vaddr c"
      "open_file B 2 badge a ip s1" "bytes_of s1 ip = take (unat off) (bytes_of s ip) @ map buf [0 ..< unat n] @ drop (unat off + unat n) (bytes_of s ip)"
    using client_write [OF assms] by blast
  have lt: "unat off + unat n < 2 ^ 31" using assms(6) by (simp add: layout_defs)
  obtain c2 where l: "xv6fs_libc_lseek fd (ucast off) SEEK_SET c1 = (int (unat off), c2)" "fd_at C c2 fd badge off" "cl_shared_vaddr c2 = cl_shared_vaddr c1"
    using client_lseek [OF w(2), of off] lt by auto
  have "length (bytes_of s ip) = unat (i_size (inode_of s ip))" by (simp add: file_bytes_def)
  then have x: "take (unat n) (drop (unat off) (bytes_of s1 ip)) = map buf [0 ..< unat n]" using assms(5) unfolding w(5) by (simp add: word_le_nat_alt)
  obtain c3 s2 where "xv6fs_libc_read C fd n c2 s1 = Some ((int (unat n), map buf [0 ..< unat n]), c3, s2)" "fd_at C c3 fd badge (off + n)"
      "open_file B 2 badge a ip s2" "bytes_of s2 ip = bytes_of s1 ip"
    using client_read [OF _ l(2) w(4) _ assms(4) lt, of pa, unfolded x] assms(1) l(3) w(3) by auto
  then show ?thesis using w(1,5) l(1) by blast
qed

subsection \<open>An example\<close>

text \<open>The file of three bytes of theory Xv6_Use, open in a server whose world is the contents of the page. Two bytes are written at offset 2.\<close>

definition in_world :: "'w \<Rightarrow> 'v fs_disk \<Rightarrow> 'w fs_disk" where
  "in_world w d = \<lparr>conns = conns d, page = page d, ram = \<lparr>rd_type = rd_type (ram d), rd_default_space = rd_default_space (ram d),
     ramdisk_buf = ramdisk_buf (ram d), free_blocks = free_blocks (ram d), shared_mem = shared_mem (ram d), rd_heap = rd_heap (ram d),
     rd_mem = rd_mem (ram d), rd_world = w\<rparr>\<rparr>"

lemma in_world_same: "ram_inv (in_world w d) = ram_inv d" "ram_contents (in_world w d) = ram_contents d"
  by (simp_all add: in_world_def ram_inv_def conn_ok_def client_mem_def ram_contents_def fun_eq_iff)

definition page_rt :: "(nat \<Rightarrow> u8) rd_env" where
  "page_rt = \<lparr>malloc = (\<lambda>_. None), rt = (\<lambda>c w. ((0, 0x3000), w))\<rparr>"

definition put_bytes :: "u64 \<Rightarrow> u8 list \<Rightarrow> (nat \<Rightarrow> u8) \<Rightarrow> nat \<Rightarrow> u8" where
  "put_bytes va xs w = (\<lambda>i. if i < length xs then xs ! i else w i)"

definition page_fs_env :: "(nat \<Rightarrow> u8) fs_env" where
  "page_fs_env = \<lparr>own_rt = page_rt, disk_rt = page_rt, file_mem = (\<lambda>_. None), entry_malloc = (\<lambda>_. True), mo_load = (\<lambda>_ w. w),
     mo_store = put_bytes, mo_store_stat = (\<lambda>_ _ w. w), fs_names = (\<lambda>_. None), own_pd = 3, block_type = 11, block_default_space = 5,
     can_request_blocks = (\<lambda>_. True), rd_ep_badge = 1, rd_recv_slot = 1, slot_badge = (\<lambda>_ _. 1), stack_junk = (\<lambda>_. 0), component_size = 380, model_state_size = 40\<rparr>"

definition page_env :: "(nat \<Rightarrow> u8) cl_env" where
  "page_env = \<lparr>srv = page_fs_env, srv_work = (\<lambda>w. ((0, None), w)), srv_recv = 20, ep_badge = (\<lambda>_ _. Some close_badge), srv_old_words = (\<lambda>_ _. 0), cl_load = (\<lambda>_ w. w),
     cl_store = put_bytes, cl_load_stat = (\<lambda>_ _. stati 0 example_fs_server), cl_shared_data = (\<lambda>_. blank_shared), cl_rt = (\<lambda>_ w. ((0, 0), w))\<rparr>"

definition page_client :: fs_client where
  "page_client = \<lparr>fd_table = (replicate FD_TABLE_SIZE xv6fs_null_client_context)[6 := \<lparr>cf_ep = 30, cf_offset = 2, cf_flags = 0\<rparr>], dev_null_fd = 4,
     file_cap_type = 12, cl_space_id = 6, cl_server_ep = 29, cl_shared_mem = 31, cl_shared_vaddr = 0x5000\<rparr>"

definition page_server :: "(nat \<Rightarrow> u8) xv6fs_server_context_t" where
  "page_server = \<lparr>bufs = bufs example_fs, disk = in_world (\<lambda>_. 0) (disk example_fs), sb = sb example_fs, itable = itable example_fs, cwd = None,
     files = [7 \<mapsto> example_file], fs_type = 12, fs_default_space = 6,
     file_registry = \<lparr>head = [\<lparr>object_id = 4, count = 1, reg_file = 7\<rparr>], max_object_id = 1000, id_counter = 0\<rparr>,
     ns_registry = \<lparr>head = [], max_object_id = 1000, id_counter = 0\<rparr>, block_ids = [], block_space = 5\<rparr>"

lemma page_server_view: "disk_view page_server = disk_view example_fs" "itable page_server = itable example_fs" "sb page_server = sb example_fs"
  by (simp_all add: page_server_def view_def in_world_same fun_eq_iff split: option.split)

lemma page_server_refs: "refs page_server = refs example_fs"
  by (simp add: page_server_def refs_def fun_eq_iff)

lemma page_server_open: "open_file example_blocks 4 close_badge 7 0 page_server"
proof -
  have "file_state example_blocks 4 0 example_fs" by (rule file_state_less [OF example_file_state]) simp
  then have "file_state example_blocks 4 0 page_server"
    unfolding file_state_def fs_state_def page_server_view page_server_refs by (simp add: page_server_def in_world_same fits_cache_def)
  then show ?thesis using example_backed
    by (simp add: open_file_def page_server_view)
      (simp add: page_server_def close_badge_fields resource_registry_get_by_badge_def resource_registry_get_by_id_def HASH_FIND_def example_file_def
        Xv6_Use.example_inode_def)
qed

theorem write_read_back_witness:
  "\<exists>c1 s1 c2 c3 s2. xv6fs_libc_write page_env 6 (nth [7, 9]) 2 page_client page_server = Some (2, c1, s1) \<and> bytes_of s1 0 = [10, 20, 7, 9] \<and>
    xv6fs_libc_lseek 6 2 SEEK_SET c1 = (2, c2) \<and> xv6fs_libc_read page_env 6 2 c2 s1 = Some ((2, [7, 9]), c3, s2)"
proof -
  have p: "shared_page page_env (cl_shared_vaddr page_client) 0x3000"
    by (simp add: shared_page_def page_env_def page_fs_env_def page_rt_def put_bytes_def)
  have f: "fd_at page_env page_client 6 close_badge 2"
    by (simp add: fd_at_def page_env_def page_client_def FD_TABLE_SIZE_def)
  have b: "blocks (unat (2 :: u32)) (unat (2 :: u32)) = 1" by (simp add: blocks_def BSIZE_def)
  have o: "open_file example_blocks (2 * blocks (unat (2 :: u32)) (unat (2 :: u32)) + 2) close_badge 7 0 page_server" unfolding b using page_server_open by simp
  have y: "bytes_of page_server 0 = [10, 20, 30]" using example_file_bytes by (simp add: page_server_view)
  have l: "(2 :: u32) \<le> RAMDISK_BLOCK_SIZE" "(2 :: u32) \<le> i_size (inode_of page_server 0)" "unat (2 :: u32) + unat (2 :: u32) \<le> MAXFILE * BSIZE"
    "2 * blocks (unat (2 :: u32)) (unat (2 :: u32)) \<le> length (frees (disk_view page_server) (sb page_server))"
    using example_frees unfolding b by (simp_all add: RAMDISK_BLOCK_SIZE_val page_server_view Xv6_Use.example_inode_def layout_defs)
  have m: "map (nth [7, 9 :: u8]) [0 ..< unat (2 :: u32)] = [7, 9]" by (simp add: upt_rec)
  show ?thesis using write_read_back [OF p f o l, of "nth [7, 9]", unfolded m y] by auto
qed

end
