(* ===== verification/Gpi_Elf.thy ===== *)
theory Gpi_Elf
  imports Gpi_Server
begin

unbundle bit_operations_syntax

section \<open>Loading ELF files (gpi\_elf.c, ads\_obj.c, ads\_component.c)\<close>

text \<open>
  Loading an ELF file into an address space. The segments to be loaded become a list of regions, which is sorted; the regions are laid out in reservations of whole
  pages, and the contents are copied through memory that is mapped into the root task for this purpose.

  The ELF library, the archive of files and the sorting macro are parameters. An address is a 64-bit word. Fatal log messages and failed assertions are \<open>None\<close>. The
  maintenance of the instruction cache, which depends on the platform, is left out.
\<close>

subsection \<open>Data\<close>

text \<open>A file as the ELF library presents it. The contents of a segment are at an address of the root task, 0 if there are none. The word in the section \<open>__vsyscall\<close> is 0 if there is no such section; a program header
  is also given as the words of the C structure.\<close>

record elf_phdr =
  p_loadable :: bool
  p_flags :: u64
  p_vaddr :: u64
  p_memsz :: u64
  p_filesz :: u64
  p_segment :: u64

record elf_t =
  elf_phdrs :: "elf_phdr list"
  elf_entry :: u64
  elf_vsyscall :: u64
  elf_phdr_words :: "nat \<Rightarrow> u64 list"

text \<open>The rights to read and to write. \<open>reservation\<close> is the key of the region in the address space, once it is made.\<close>

record sel4gpi_elf_region_t =
  reg_rights :: "bool \<times> bool"
  elf_vstart :: u64
  reservation_vstart :: u64
  reg_size :: u32
  reservation_size :: u64
  reservation_pages :: u32
  reservation :: "u64 option"
  reg_cacheable :: bool
  segment_index :: nat
  executable :: bool
  src :: u64
  src_size :: u64

text \<open>The environment: the kernel, bytes of the memory of the root task, the types of regions, the sorting macro, and the files of the archive.\<close>

record 'w elf_env =
  elf_kernel :: "'w env"
  load_byte :: "u64 \<Rightarrow> 'w \<Rightarrow> u8"
  store_bytes :: "(u64 \<Rightarrow> u8 option) \<Rightarrow> 'w \<Rightarrow> 'w"
  RES_TYPE_CODE :: int
  RES_TYPE_DATA :: int
  quick_sort :: "(sel4gpi_elf_region_t \<Rightarrow> sel4gpi_elf_region_t \<Rightarrow> int option) \<Rightarrow> sel4gpi_elf_region_t list \<Rightarrow> sel4gpi_elf_region_t list option"
  cpio_file :: "string \<Rightarrow> elf_t option"

definition PF_X :: u64 where "PF_X = 1"
definition PF_W :: u64 where "PF_W = 2"
definition PF_R :: u64 where "PF_R = 4"

definition PAGE_SIZE_4K :: u64 where "PAGE_SIZE_4K = 0x1000"

definition PAGE_ALIGN_4K :: "u64 \<Rightarrow> u64" where "PAGE_ALIGN_4K a = a AND NOT (PAGE_SIZE_4K - 1)"

definition ROUND_UP :: "u64 \<Rightarrow> u64 \<Rightarrow> u64" where
  "ROUND_UP n b = (if n mod b = 0 then n else n + (b - n mod b))"

definition rights_from_elf :: "u64 \<Rightarrow> bool \<times> bool" where
  "rights_from_elf permissions = (permissions AND PF_R \<noteq> 0 \<or> permissions AND PF_X \<noteq> 0, permissions AND PF_W \<noteq> 0)"

subsection \<open>The segments of a file\<close>

definition is_executable_segment :: "elf_phdr \<Rightarrow> bool" where
  "is_executable_segment h \<longleftrightarrow> p_flags h AND PF_X \<noteq> 0"

definition count_loadable_regions :: "elf_t \<Rightarrow> nat" where
  "count_loadable_regions f = length (filter p_loadable (elf_phdrs f))"

text \<open>The fields that are not written keep their old, unknown values; here they are empty.\<close>

definition read_region :: "nat \<Rightarrow> elf_phdr \<Rightarrow> sel4gpi_elf_region_t" where
  "read_region i h = \<lparr>reg_rights = rights_from_elf (p_flags h), elf_vstart = p_vaddr h, reservation_vstart = 0, reg_size = ucast (p_memsz h),
     reservation_size = 0, reservation_pages = 0, reservation = None, reg_cacheable = True, segment_index = i, executable = is_executable_segment h,
     src = p_segment h, src_size = p_filesz h\<rparr>"

fun read_headers :: "nat \<Rightarrow> elf_phdr list \<Rightarrow> sel4gpi_elf_region_t list" where
  "read_headers i [] = []"
| "read_headers i (h # hs) = (if p_loadable h then read_region i h # read_headers (Suc i) hs else read_headers (Suc i) hs)"

definition read_regions :: "elf_t \<Rightarrow> nat \<Rightarrow> int \<times> sel4gpi_elf_region_t list" where
  "read_regions f total_regions = (let rs = read_headers 0 (elf_phdrs f) in (if length rs \<noteq> total_regions then 1 else 0, rs))"

text \<open>The order of the regions; segments that overlap are fatal.\<close>

definition compare_regions :: "sel4gpi_elf_region_t \<Rightarrow> sel4gpi_elf_region_t \<Rightarrow> int option" where
  "compare_regions a b =
     (if elf_vstart a + ucast (reg_size a) \<le> elf_vstart b then Some (-1)
      else if elf_vstart b + ucast (reg_size b) \<le> elf_vstart a then Some 1 else None)"

subsection \<open>Layout\<close>

text \<open>\<open>None\<close> is the error, otherwise whether the shared frame moves to the upper region.\<close>

definition cap_writes_check_move_frame :: "bool \<times> bool \<Rightarrow> bool \<times> bool \<Rightarrow> bool option" where
  "cap_writes_check_move_frame a b =
     (if \<not> fst a \<or> \<not> fst b then None else Some (\<not> snd a \<and> snd b))"

definition plan :: "u64 \<Rightarrow> u64 \<Rightarrow> sel4gpi_elf_region_t \<Rightarrow> sel4gpi_elf_region_t" where
  "plan start len r = r\<lparr>reservation_size := len, reservation_pages := ucast (DIV_ROUND_UP len PAGE_SIZE_4K), reservation_vstart := start\<rparr>"

text \<open>The loop: start and size of the previous reservation and its rights, the regions that are done, the last one first, and those to come.\<close>

fun prepare_loop ::
    "u64 \<Rightarrow> u64 \<Rightarrow> bool \<times> bool \<Rightarrow> sel4gpi_elf_region_t list \<Rightarrow> sel4gpi_elf_region_t list \<Rightarrow> (int \<times> sel4gpi_elf_region_t list) option" where
  "prepare_loop prev_start prev_size prev_rights ready [] = Some (0, rev ready)"
| "prepare_loop prev_start prev_size prev_rights ready (r # rs) = do {
     let start = PAGE_ALIGN_4K (elf_vstart r);
     let top = ROUND_UP (elf_vstart r + ucast (reg_size r)) PAGE_SIZE_4K;
     let len = top - start;
     c_assert (len mod PAGE_SIZE_4K = 0);
     if prev_start + prev_size > start then
       (case cap_writes_check_move_frame prev_rights (reg_rights r) of
          None \<Rightarrow> Some (-1, rev ready @ r # rs)
        | Some should_move \<Rightarrow>
            if should_move then
              (case ready of [] \<Rightarrow> None
               | p # ps \<Rightarrow> do {
                   c_assert (reservation_size p \<ge> PAGE_SIZE_4K);
                   prepare_loop start len (reg_rights r)
                     (plan start len r # p\<lparr>reservation_size := reservation_size p - PAGE_SIZE_4K\<rparr> # ps) rs })
            else do {
              let start = ROUND_UP (prev_start + prev_size + 1) PAGE_SIZE_4K;
              let len = top - start;
              c_assert (ROUND_UP (ucast (reg_size r)) PAGE_SIZE_4K - len \<noteq> PAGE_SIZE_4K);
              prepare_loop start len (reg_rights r) (plan start len r # ready) rs })
     else prepare_loop start len (reg_rights r) (plan start len r # ready) rs }"

definition prepare_reservations :: "sel4gpi_elf_region_t list \<Rightarrow> (int \<times> sel4gpi_elf_region_t list) option" where
  "prepare_reservations regions = prepare_loop 0 0 (False, False) [] regions"

subsection \<open>Reservations\<close>

text \<open>A region with an empty reservation is skipped. With \<open>anywhere\<close> the address of the reservation is recorded, which was asked for in any case.\<close>

fun create_reservations ::
    "'w elf_env \<Rightarrow> 'w hold_cb \<Rightarrow> gpi_obj_id_t \<Rightarrow> bool \<Rightarrow> sel4gpi_elf_region_t list \<Rightarrow> 'w gpi_server \<Rightarrow> (int \<times> sel4gpi_elf_region_t list \<times> 'w gpi_server) option" where
  "create_reservations F od loadee anywhere [] s = Some (0, [], s)"
| "create_reservations F od loadee anywhere (r # rs) s =
     (if reservation_size r = 0 then map_option (\<lambda>(e, rs, s). (e, r # rs, s)) (create_reservations F od loadee anywhere rs s)
      else do {
        c_assert (2 ^ unat (seL4_PageBits (elf_kernel F)) = PAGE_SIZE_4K);
        (error, key, s) \<leftarrow> ads_reserve (elf_kernel F) od loadee (reservation_vstart r) (reservation_pages r) (seL4_PageBits (elf_kernel F))
           (if executable r then RES_TYPE_CODE F else RES_TYPE_DATA F) (reg_cacheable r) (seL4_CapRights_new (fst (reg_rights r)) (snd (reg_rights r))) s;
        if error \<noteq> 0 then Some (-1, r # rs, s)
        else do {
          let r = r\<lparr>reservation := Some key\<rparr>;
          r \<leftarrow> (if anywhere then do { node \<leftarrow> resource_registry_get_by_id (attach_get loadee s) key; Some (r\<lparr>reservation_vstart := vaddr node\<rparr>) } else Some r);
          map_option (\<lambda>(e, rs, s). (e, r # rs, s)) (create_reservations F od loadee anywhere rs s) } })"

definition elf_reserve_regions_in_ads ::
    "'w elf_env \<Rightarrow> 'w hold_cb \<Rightarrow> gpi_obj_id_t \<Rightarrow> elf_t \<Rightarrow> nat \<Rightarrow> bool \<Rightarrow> 'w gpi_server \<Rightarrow> (int \<times> sel4gpi_elf_region_t list \<times> 'w gpi_server) option" where
  "elf_reserve_regions_in_ads F od loadee f num_regions mapanywhere s = do {
     let (error, rs) = read_regions f num_regions;
     if error \<noteq> 0 then Some (error, rs, s)
     else do {
       rs \<leftarrow> quick_sort F compare_regions rs;
       (error, rs) \<leftarrow> prepare_reservations rs;
       if error \<noteq> 0 then Some (error, rs, s)
       else create_reservations F od loadee mapanywhere rs s } }"

subsection \<open>Contents\<close>

definition memcpy :: "'w elf_env \<Rightarrow> u64 \<Rightarrow> u64 \<Rightarrow> u64 \<Rightarrow> 'w gpi_server \<Rightarrow> 'w gpi_server" where
  "memcpy F dest from n s = s\<lparr>world := store_bytes F
     (\<lambda>a. if a - dest < n then Some (load_byte F (from + (a - dest)) (world s)) else None) (world s)\<rparr>"

definition memset0 :: "'w elf_env \<Rightarrow> u64 \<Rightarrow> u64 \<Rightarrow> 'w gpi_server \<Rightarrow> 'w gpi_server" where
  "memset0 F dest n s = s\<lparr>world := store_bytes F (\<lambda>a. if a - dest < n then Some 0 else None) (world s)\<rparr>"

text \<open>The lengths wrap around as in the source. A write to an address that is not mapped, which is a fault on the machine, is a write like any other here.\<close>

definition copy_region :: "'w elf_env \<Rightarrow> u64 \<Rightarrow> u64 \<Rightarrow> u64 \<Rightarrow> u64 \<Rightarrow> u64 \<Rightarrow> 'w gpi_server \<Rightarrow> 'w gpi_server" where
  "copy_region F dest from src_file_size src_offset len s =
     (let len_from_src = src_file_size - src_offset;
          (s, len, dest) = (if len_from_src > 0 then (memcpy F dest (from + src_offset) len_from_src s, len - len_from_src, dest + len_from_src) else (s, len, dest))
      in if len > 0 then memset0 F dest len s else s)"

definition seL4_InvalidArgument :: int where "seL4_InvalidArgument = 1"

text \<open>Where the contents of a region go: the address, the number of bytes and the offset into the contents.\<close>

definition region_target :: "u64 \<Rightarrow> sel4gpi_elf_region_t \<Rightarrow> u64 \<times> u64 \<times> u64" where
  "region_target loader_vaddr r =
     (let underflow = reservation_vstart r - elf_vstart r; len = ucast (reg_size r) in
      if sint underflow > 0 then (loader_vaddr, len - underflow, underflow)
      else if sint underflow < 0 then (loader_vaddr - underflow, len, 0)
      else (loader_vaddr, len, 0))"

text \<open>The writes to the memory of one region: what is left over from the previous region, the region itself, and what the next region needs. The results are the error, the
  number of bytes that do not fit and the offset they come from.\<close>

definition write_region ::
    "'w elf_env \<Rightarrow> u64 \<Rightarrow> u64 \<times> u64 \<Rightarrow> sel4gpi_elf_region_t option \<Rightarrow> sel4gpi_elf_region_t \<Rightarrow> sel4gpi_elf_region_t option \<Rightarrow> 'w gpi_server \<Rightarrow>
     (int \<times> (u64 \<times> u64) \<times> 'w gpi_server) option" where
  "write_region F loader_vaddr = (\<lambda>(overflow_bytes, overflow_src_offset) prev r next s. do {
     (loader_ptr, s) \<leftarrow> (if sint overflow_bytes > 0
        then do { p \<leftarrow> prev; Some (loader_vaddr + overflow_bytes, copy_region F loader_vaddr (src p) (src_size p) overflow_src_offset overflow_bytes s) }
        else Some (loader_vaddr, s));
     let (to_write, len, src_offset) = region_target loader_vaddr r;
     let overflow_bytes = (to_write + len) - (loader_vaddr + reservation_size r);
     let (len, overflow_src_offset) = (if sint overflow_bytes > 0 then (len - overflow_bytes, len - overflow_bytes) else (len, overflow_src_offset));
     if to_write < loader_ptr then Some (seL4_InvalidArgument, (overflow_bytes, overflow_src_offset), s)
     else do {
       let s = copy_region F to_write (src r) (src_size r) src_offset len s;
       let loader_ptr = to_write + len;
       (case next of
          None \<Rightarrow> Some (0, (overflow_bytes, overflow_src_offset), s)
        | Some n \<Rightarrow>
            (let next_underflow = reservation_vstart n - elf_vstart n in
             if sint next_underflow > 0 then
               (let to_write = loader_vaddr + reservation_size r - next_underflow in
                if to_write < loader_ptr then Some (seL4_InvalidArgument, (overflow_bytes, overflow_src_offset), s)
                else Some (0, (overflow_bytes, overflow_src_offset), copy_region F to_write (src n) (src_size n) 0 next_underflow s))
             else Some (0, (overflow_bytes, overflow_src_offset), s))) } })"

text \<open>A region whose reservation was skipped has no valid pointer to it.\<close>

fun load_segments ::
    "'w elf_env \<Rightarrow> 'w hold_cb \<Rightarrow> gpi_obj_id_t \<Rightarrow> gpi_obj_id_t \<Rightarrow> u64 \<times> u64 \<Rightarrow> sel4gpi_elf_region_t option \<Rightarrow> sel4gpi_elf_region_t list \<Rightarrow> 'w gpi_server \<Rightarrow>
     (int \<times> 'w gpi_server) option" where
  "load_segments F od loadee loader overflow prev [] s = Some (0, s)"
| "load_segments F od loadee loader overflow prev (r # rs) s =
     (if src r = 0 then Some (1, s)
      else if src_size r > ucast (reg_size r) then Some (seL4_InvalidArgument, s)
      else do {
        (error, mid, s) \<leftarrow> mo_component_allocate_rt (elf_kernel F) (reservation_pages r) s;
        if error \<noteq> 0 then Some (error, s)
        else do {
          mid \<leftarrow> mid;
          m \<leftarrow> resource_component_registry_get_by_id mo_component mid s;
          key \<leftarrow> reservation r;
          (error, s) \<leftarrow> ads_attach_to_res (elf_kernel F) loadee key 0 (mo m) s;
          if error \<noteq> 0 then Some (error, s)
          else do {
            (error, loader_vaddr, s) \<leftarrow> ads_attach (elf_kernel F) od loader 0 (mo m) True (seL4_CapRights_new True True) (RES_TYPE_GENERIC (elf_kernel F)) s;
            if error \<noteq> 0 then Some (error, s)
            else do {
              (error, overflow, s) \<leftarrow> write_region F loader_vaddr overflow prev r (case rs of [] \<Rightarrow> None | n # _ \<Rightarrow> Some n) s;
              if error \<noteq> 0 then Some (error, s)
              else do {
                (error, s) \<leftarrow> ads_rm (elf_kernel F) od loader loader_vaddr s;
                if error \<noteq> 0 then Some (error, s)
                else do {
                  (error, s) \<leftarrow> mo_dec (elf_kernel F) od mid s;
                  if error \<noteq> 0 then Some (error, s)
                  else load_segments F od loadee loader overflow (Some r) rs s } } } } } })"

subsection \<open>Files\<close>

text \<open>An entry point is an address of 32 bits; 0 stands for the error.\<close>

definition entry_point :: "elf_t \<Rightarrow> u64 option" where
  "entry_point f = (if drop_bit 32 (elf_entry f) \<noteq> 0 then Some 0 else do { c_assert (elf_entry f \<noteq> 0); Some (elf_entry f) })"

definition sel4gpi_elf_load_record_regions ::
    "'w elf_env \<Rightarrow> 'w hold_cb \<Rightarrow> gpi_obj_id_t \<Rightarrow> gpi_obj_id_t \<Rightarrow> elf_t \<Rightarrow> bool \<Rightarrow> 'w gpi_server \<Rightarrow> (u64 \<times> 'w gpi_server) option" where
  "sel4gpi_elf_load_record_regions F od loadee loader f mapanywhere s = do {
     (error, rs, s) \<leftarrow> elf_reserve_regions_in_ads F od loadee f (count_loadable_regions f) mapanywhere s;
     if error \<noteq> 0 then Some (0, s)
     else do {
       (error, s) \<leftarrow> load_segments F od loadee loader (0, 0) None rs s;
       if error \<noteq> 0 then Some (0, s)
       else do { e \<leftarrow> entry_point f; Some (e, s) } } }"

definition sel4gpi_elf_load :: "'w elf_env \<Rightarrow> 'w hold_cb \<Rightarrow> gpi_obj_id_t \<Rightarrow> gpi_obj_id_t \<Rightarrow> elf_t \<Rightarrow> 'w gpi_server \<Rightarrow> (u64 \<times> 'w gpi_server) option" where
  "sel4gpi_elf_load F od loadee loader f s = sel4gpi_elf_load_record_regions F od loadee loader f False s"

definition sel4gpi_elf_num_phdrs :: "elf_t \<Rightarrow> nat" where "sel4gpi_elf_num_phdrs f = length (elf_phdrs f)"

text \<open>The fields of a header are copied; a header is the list of the words of the C structure.\<close>

definition sel4gpi_elf_read_phdrs :: "elf_t \<Rightarrow> nat \<Rightarrow> u64 list list" where
  "sel4gpi_elf_read_phdrs f max_phdrs = map (elf_phdr_words f) [0..<min (length (elf_phdrs f)) max_phdrs]"

text \<open>A name that is not in the archive leaves the description of the file undefined. What the setup of a runtime needs later is recorded in the PD.\<close>

definition ads_load_elf ::
    "'w elf_env \<Rightarrow> 'w hold_cb \<Rightarrow> gpi_obj_id_t \<Rightarrow> gpi_obj_id_t \<Rightarrow> gpi_obj_id_t \<Rightarrow> string \<Rightarrow> 'w gpi_server \<Rightarrow> (int \<times> u64 \<times> 'w gpi_server) option" where
  "ads_load_elf F od loadee loader pid image_name s = do {
     f \<leftarrow> cpio_file F image_name;
     (e, s) \<leftarrow> sel4gpi_elf_load F od loadee loader f s;
     if e = 0 then Some (1, e, s)
     else do {
       let s = pd_write pid (\<lambda>p. p\<lparr>sysinfo := elf_vsyscall f, num_elf_phdrs := sel4gpi_elf_num_phdrs f, pd_elf_phdrs := []\<rparr>) s;
       let (r, s) = kern (elf_kernel F) (Obj Calloc) s;
       if val r = 0 then Some (1, e, s)
       else Some (0, e, pd_write pid (\<lambda>p. p\<lparr>pd_elf_phdrs := sel4gpi_elf_read_phdrs f (num_elf_phdrs p), pagesz := PAGE_SIZE_4K\<rparr>) s) } }"

definition ads_component_load_elf ::
    "'w elf_env \<Rightarrow> 'w hold_cb \<Rightarrow> gpi_obj_id_t \<Rightarrow> gpi_obj_id_t \<Rightarrow> string \<Rightarrow> 'w gpi_server \<Rightarrow> (int \<times> u64 \<times> 'w gpi_server) option" where
  "ads_component_load_elf F od aid target_pd image_name s =
     (case resource_component_registry_get_by_id ads_component (rt_ads_id s) s of
        None \<Rightarrow> Some (UNKNOWN_ERR, 0, s)
      | Some _ \<Rightarrow> do {
          (error, e, s) \<leftarrow> ads_load_elf F od aid (rt_ads_id s) target_pd image_name s;
          if error \<noteq> 0 then Some (error, e, s) else Some (0, e, pd_write target_pd (pd_set_name image_name) s) })"

definition handle_load_elf_request ::
    "'w elf_env \<Rightarrow> 'w hold_cb \<Rightarrow> ipc \<Rightarrow> u64 \<Rightarrow> string \<Rightarrow> 'w gpi_server \<Rightarrow> (reply \<times> 'w gpi_server) option" where
  "handle_load_elf_request F od m badge image_name s =
     (if \<not> sel4gpi_rpc_check_cap m GPICAP_TYPE_PD then Some (error_reply UNKNOWN_ERR, s)
      else
        (case (resource_component_registry_get_by_badge ads_component badge s,
               pd_component_registry_get_entry_by_id (get_object_id_from_badge (seL4_GetBadge m 0)) s) of
           (Some target_ads, Some target_pd) \<Rightarrow> do {
             (error, e, s) \<leftarrow> ads_component_load_elf F od (ucast (object_id target_ads)) (ucast (object_id target_pd)) image_name s;
             Some (if error \<noteq> 0 then error_reply error else \<lparr>errorCode = 0, reply_fields = [e]\<rparr>, s) }
         | _ \<Rightarrow> Some (error_reply UNKNOWN_ERR, s)))"

end
