(* ===== verification/Elf_Layout.thy ===== *)
theory Elf_Layout
  imports Gpi_Elf
begin

unbundle bit_operations_syntax

section \<open>The layout of the segments\<close>

text \<open>
  What the reservations of \<open>prepare_reservations\<close> look like: if no two segments share a page, every segment lies in its reservation, reservations are whole pages and do not
  overlap. If a segment that can be written shares a page with one before it that cannot, the page is reserved twice.
\<close>

subsection \<open>Rounding\<close>

lemma unat_page_align: "unat (PAGE_ALIGN_4K a) = unat a div 4096 * 4096"
proof -
  have m: "PAGE_SIZE_4K - 1 = mask 12" by (simp add: PAGE_SIZE_4K_def mask_eq_exp_minus_1)
  have "PAGE_ALIGN_4K a = push_bit 12 (drop_bit 12 a)"
    unfolding PAGE_ALIGN_4K_def m by (rule bit_eqI) (auto simp only: bit_simps not_less le_add_diff_inverse comp_apply)
  moreover have "unat a div 4096 * 4096 < 2 ^ 64" using unsigned_less [of a, where 'a = nat] div_times_less_eq_dividend [of "unat a" 4096] by simp
  ultimately show ?thesis by (simp add: push_bit_eq_mult unat_mult_lem [THEN iffD1] unat_drop_bit_eq drop_bit_eq_div unat_word_ariths)
qed

lemma round_up_nat: "(n + 4095) div 4096 * 4096 = (if n mod 4096 = 0 then n else n + (4096 - n mod 4096))" for n :: nat
proof -
  define q r where "q = n div 4096" and "r = n mod 4096"
  have n: "n = q * 4096 + r" "r < 4096" by (simp_all add: q_def r_def)
  have "(n + 4095) div 4096 = (if r = 0 then q else q + 1)" unfolding n(1) using n(2) by (auto intro!: div_nat_eqI)
  moreover have "r = 0 \<Longrightarrow> q * 4096 = n" "(q + 1) * 4096 = n + (4096 - r)" using n by simp_all
  ultimately show ?thesis unfolding r_def [symmetric] by presburger
qed

lemma unat_round_up:
  assumes "unat a + 4095 < 2 ^ 64"
  shows "unat (ROUND_UP a PAGE_SIZE_4K) = (unat a + 4095) div 4096 * 4096"
proof -
  have m: "unat (a mod 4096) = unat a mod 4096" by (simp add: unat_mod)
  show ?thesis
  proof (cases "unat a mod 4096 = 0")
    case True
    have "a mod 4096 = 0" using m unfolding True by (simp add: unat_eq_0)
    moreover have "unat a = (unat a + 4095) div 4096 * 4096" using True round_up_nat [of "unat a"] by simp
    ultimately show ?thesis by (simp add: ROUND_UP_def PAGE_SIZE_4K_def)
  next
    case False
    then have z: "a mod 4096 \<noteq> 0" using m by (metis unat_0)
    have l: "unat a mod 4096 < 4096" by simp
    have s: "unat (4096 - a mod 4096) = 4096 - unat a mod 4096" using m l by (simp add: unat_sub word_le_nat_alt)
    have "unat a + (4096 - unat a mod 4096) < 2 ^ 64" using False assms by linarith
    then have "unat (a + (4096 - a mod 4096)) = unat a + (4096 - unat a mod 4096)"
      using s unat_add_lem [of a "4096 - a mod 4096"] by simp
    then show ?thesis using z False round_up_nat [of "unat a"] by (simp add: ROUND_UP_def PAGE_SIZE_4K_def)
  qed
qed

subsection \<open>Segments on pages of their own\<close>

definition seg_end :: "sel4gpi_elf_region_t \<Rightarrow> nat" where "seg_end r = unat (elf_vstart r) + unat (reg_size r)"

definition first_page :: "sel4gpi_elf_region_t \<Rightarrow> nat" where "first_page r = unat (elf_vstart r) div 4096"
definition end_page :: "sel4gpi_elf_region_t \<Rightarrow> nat" where "end_page r = (seg_end r + 4095) div 4096"

text \<open>The pages that \<open>ads_reserve\<close> is asked for.\<close>

definition res_first :: "sel4gpi_elf_region_t \<Rightarrow> nat" where "res_first r = unat (reservation_vstart r) div 4096"
definition res_end :: "sel4gpi_elf_region_t \<Rightarrow> nat" where "res_end r = res_first r + unat (reservation_pages r)"

definition in_space :: "sel4gpi_elf_region_t \<Rightarrow> bool" where "in_space r \<longleftrightarrow> seg_end r + 4095 < 2 ^ 64"

lemma unat_u32_u64: "unat (ucast (x :: u32) :: u64) = unat x"
  using unsigned_less [of x, where 'a = nat] by (simp add: unsigned_ucast_eq take_bit_nat_eq_self)

lemma end_word: "in_space r \<Longrightarrow> unat (elf_vstart r + ucast (reg_size r)) = seg_end r"
  unfolding in_space_def seg_end_def using unat_add_lem [of "elf_vstart r" "ucast (reg_size r)"] by (simp add: unat_u32_u64)

lemma layout_words:
  assumes "in_space r"
  shows "unat (PAGE_ALIGN_4K (elf_vstart r)) = first_page r * 4096"
    and "unat (ROUND_UP (elf_vstart r + ucast (reg_size r)) PAGE_SIZE_4K) = end_page r * 4096"
    and "unat (ROUND_UP (elf_vstart r + ucast (reg_size r)) PAGE_SIZE_4K - PAGE_ALIGN_4K (elf_vstart r)) = (end_page r - first_page r) * 4096"
    and "first_page r \<le> end_page r" "end_page r * 4096 < 2 ^ 64" "end_page r - first_page r < 2 ^ 21"
proof -
  show a: "unat (PAGE_ALIGN_4K (elf_vstart r)) = first_page r * 4096" by (simp add: unat_page_align first_page_def)
  show b: "unat (ROUND_UP (elf_vstart r + ucast (reg_size r)) PAGE_SIZE_4K) = end_page r * 4096"
    using assms by (simp add: unat_round_up end_word end_page_def in_space_def)
  show le: "first_page r \<le> end_page r" unfolding first_page_def end_page_def seg_end_def by (rule div_le_mono) simp
  show "unat (ROUND_UP (elf_vstart r + ucast (reg_size r)) PAGE_SIZE_4K - PAGE_ALIGN_4K (elf_vstart r)) = (end_page r - first_page r) * 4096"
    using a b le by (simp add: unat_sub word_le_nat_alt diff_mult_distrib)
  show "end_page r * 4096 < 2 ^ 64" unfolding b [symmetric] using unsigned_less [of "ROUND_UP (elf_vstart r + ucast (reg_size r)) PAGE_SIZE_4K", where 'a = nat] by simp
  have "unat (reg_size r) < 2 ^ 32" using unsigned_less [of "reg_size r", where 'a = nat] by simp
  then show "end_page r - first_page r < 2 ^ 21" unfolding first_page_def end_page_def seg_end_def by simp
qed

lemma plan_pages:
  assumes "unat len = k * 4096" "k < 2 ^ 32" "k * 4096 + 4096 < 2 ^ 64"
  shows "unat (reservation_pages (plan start len r)) = k"
proof -
  have "unat (len + 4096 - 1) = k * 4096 + 4095"
  proof -
    have "len + 4096 - 1 = len + (4095 :: u64)" by simp
    then show ?thesis using assms by (simp add: unat_word_ariths)
  qed
  then have "unat (DIV_ROUND_UP len PAGE_SIZE_4K) = k" by (simp add: DIV_ROUND_UP_def PAGE_SIZE_4K_def unat_div)
  then show ?thesis using assms(2) by (simp add: plan_def unsigned_ucast_eq take_bit_nat_eq_self)
qed

text \<open>The reservation of a region that does not share a page with the one before it.\<close>

definition own_pages :: "sel4gpi_elf_region_t \<Rightarrow> sel4gpi_elf_region_t" where
  "own_pages r = (let start = PAGE_ALIGN_4K (elf_vstart r) in
     plan start (ROUND_UP (elf_vstart r + ucast (reg_size r)) PAGE_SIZE_4K - start) r)"

lemma own_pages_values:
  assumes "in_space r"
  shows "unat (reservation_vstart (own_pages r)) = first_page r * 4096" "unat (reservation_size (own_pages r)) = (end_page r - first_page r) * 4096"
    "unat (reservation_pages (own_pages r)) = end_page r - first_page r"
    "res_first (own_pages r) = first_page r" "res_end (own_pages r) = end_page r"
proof -
  note l = layout_words [OF assms]
  show p: "unat (reservation_pages (own_pages r)) = end_page r - first_page r"
    unfolding own_pages_def Let_def by (rule plan_pages [OF l(3)]) (use l(6) in simp_all)
  show "unat (reservation_vstart (own_pages r)) = first_page r * 4096" "unat (reservation_size (own_pages r)) = (end_page r - first_page r) * 4096"
    using l(1,3) by (simp_all add: own_pages_def plan_def Let_def)
  then show "res_first (own_pages r) = first_page r" by (simp add: res_first_def)
  then show "res_end (own_pages r) = end_page r" using p l(4) by (simp add: res_end_def)
qed

lemma len_whole_pages:
  assumes "in_space r"
  shows "(ROUND_UP (elf_vstart r + ucast (reg_size r)) PAGE_SIZE_4K - PAGE_ALIGN_4K (elf_vstart r)) mod PAGE_SIZE_4K = 0"
proof -
  have "unat ((ROUND_UP (elf_vstart r + ucast (reg_size r)) PAGE_SIZE_4K - PAGE_ALIGN_4K (elf_vstart r)) mod PAGE_SIZE_4K) = 0"
    unfolding unat_mod layout_words(3) [OF assms] by (simp add: PAGE_SIZE_4K_def)
  then show ?thesis by (simp add: unat_eq_0)
qed

lemma prepare_step:
  assumes "in_space r" "\<not> prev_start + prev_size > PAGE_ALIGN_4K (elf_vstart r)"
  shows "prepare_loop prev_start prev_size prev_rights ready (r # rs) =
    prepare_loop (reservation_vstart (own_pages r)) (reservation_size (own_pages r)) (reg_rights r) (own_pages r # ready) rs"
  using assms(2) len_whole_pages [OF assms(1)] by (simp add: own_pages_def plan_def Let_def)

lemma own_pages_top:
  "in_space r \<Longrightarrow> unat (reservation_vstart (own_pages r) + reservation_size (own_pages r)) = end_page r * 4096"
  using layout_words(2) [of r] by (simp add: own_pages_def plan_def Let_def)

lemma prepare_apart:
  assumes "list_all in_space rs" "sorted_wrt (\<lambda>a b. end_page a \<le> first_page b) rs"
    and "list_all (\<lambda>r. unat (prev_start + prev_size) \<le> first_page r * 4096) rs"
  shows "prepare_loop prev_start prev_size prev_rights ready rs = Some (0, rev ready @ map own_pages rs)"
  using assms
proof (induction rs arbitrary: prev_start prev_size prev_rights ready)
  case (Cons r rs)
  have r: "in_space r" using Cons.prems(1) by simp
  have n: "\<not> prev_start + prev_size > PAGE_ALIGN_4K (elf_vstart r)"
    using Cons.prems(3) layout_words(1) [OF r] by (simp add: word_less_nat_alt)
  have "list_all (\<lambda>x. unat (reservation_vstart (own_pages r) + reservation_size (own_pages r)) \<le> first_page x * 4096) rs"
    unfolding own_pages_top [OF r] using Cons.prems(2) by (simp add: list_all_iff)
  from Cons.IH [OF _ _ this] show ?case unfolding prepare_step [OF r n] using Cons.prems by simp
qed simp

text \<open>
  C20: the layout of an ELF file. If the segments are in ascending order, inside of the address space, and no two of them share a page, the layout succeeds and every
  segment gets the whole pages it needs and no more: the reservation starts at a page and has as many pages as its size says, the segment lies in it, and only its
  first and its last page may hold less than a page of the segment. No page belongs to two reservations.
\<close>

theorem reservations_cover_segments:
  assumes "list_all in_space rs" "sorted_wrt (\<lambda>a b. end_page a \<le> first_page b) rs"
  shows "\<exists>rs'. prepare_reservations rs = Some (0, rs') \<and> length rs' = length rs \<and> sorted_wrt (\<lambda>a b. res_end a \<le> res_first b) rs' \<and>
    (\<forall>i < length rs. unat (reservation_vstart (rs' ! i)) = res_first (rs' ! i) * 4096 \<and>
       unat (reservation_size (rs' ! i)) = unat (reservation_pages (rs' ! i)) * 4096 \<and>
       unat (elf_vstart (rs ! i)) \<in> {res_first (rs' ! i) * 4096 ..< res_first (rs' ! i) * 4096 + 4096} \<and>
       res_end (rs' ! i) * 4096 \<in> {seg_end (rs ! i) ..< seg_end (rs ! i) + 4096})"
proof -
  have v: "in_space (rs ! i)" if "i < length rs" for i using assms(1) that by (simp add: list_all_length)
  have p: "prepare_reservations rs = Some (0, map own_pages rs)"
    using prepare_apart [OF assms, of 0 0 "(False, False)" "[]"] by (simp add: prepare_reservations_def list_all_iff)
  have d: "sorted_wrt (\<lambda>a b. res_end a \<le> res_first b) (map own_pages rs)"
    unfolding sorted_wrt_map by (rule sorted_wrt_mono_rel [OF _ assms(2)]) (use assms(1) in \<open>auto simp: list_all_iff own_pages_values\<close>)
  have "unat (elf_vstart r) \<in> {first_page r * 4096 ..< first_page r * 4096 + 4096}" for r
    using div_mult_mod_eq [of "unat (elf_vstart r)" 4096] mod_less_divisor [of 4096 "unat (elf_vstart r)"] unfolding first_page_def by simp
  moreover have "end_page r * 4096 \<in> {seg_end r ..< seg_end r + 4096}" for r
    using round_up_nat [of "seg_end r"] by (auto simp: end_page_def)
  ultimately show ?thesis using p d v by (auto simp: own_pages_values)
qed

text \<open>A segment of code and one of data, on pages of their own.\<close>

definition segment_at :: "u64 \<Rightarrow> u64 \<Rightarrow> u64 \<Rightarrow> sel4gpi_elf_region_t" where
  "segment_at va bytes flags = read_region 0 \<lparr>p_loadable = True, p_flags = flags, p_vaddr = va, p_memsz = bytes, p_filesz = bytes, p_segment = 0x9000\<rparr>"

lemma segment_at_values:
  "elf_vstart (segment_at va bytes flags) = va" "reg_size (segment_at va bytes flags) = ucast bytes" "reg_rights (segment_at va bytes flags) = rights_from_elf flags"
  by (simp_all add: segment_at_def read_region_def)

theorem reservations_cover_segments_witness:
  "\<exists>rs'. prepare_reservations [segment_at 0x400000 0x1234 5, segment_at 0x402100 0x500 6] = Some (0, rs') \<and> length rs' = 2 \<and>
    res_first (rs' ! 0) = 0x400 \<and> res_end (rs' ! 0) = 0x402 \<and> res_first (rs' ! 1) = 0x402 \<and> res_end (rs' ! 1) = 0x403"
proof -
  let ?rs = "[segment_at 0x400000 0x1234 5, segment_at 0x402100 0x500 6]"
  have v: "list_all in_space ?rs" "sorted_wrt (\<lambda>a b. end_page a \<le> first_page b) ?rs"
    by (simp_all add: in_space_def seg_end_def end_page_def first_page_def segment_at_values)
  obtain rs' where r: "prepare_reservations ?rs = Some (0, rs')" "length rs' = 2"
    "\<And>i. i < 2 \<Longrightarrow> unat (elf_vstart (?rs ! i)) \<in> {res_first (rs' ! i) * 4096 ..< res_first (rs' ! i) * 4096 + 4096}"
    "\<And>i. i < 2 \<Longrightarrow> res_end (rs' ! i) * 4096 \<in> {seg_end (?rs ! i) ..< seg_end (?rs ! i) + 4096}"
    using reservations_cover_segments [OF v] by auto
  show ?thesis using r(1,2) r(3) [of 0] r(3) [of 1] r(4) [of 0] r(4) [of 1] by (auto simp: segment_at_values seg_end_def)
qed

text \<open>
  C33: a page that is reserved twice, in a file with two segments. When a segment that can be written begins on the last page of a segment that cannot, the layout succeeds, but the page is in the
  reservations of both: the frame is taken off the size of the first reservation and not off its number of pages, which is what the address space is asked for.
\<close>

theorem shared_page_reserved_twice:
  assumes "in_space a" "in_space b" "seg_end a \<le> unat (elf_vstart b)" "first_page b < end_page a"
    and "reg_rights a = (True, False)" "reg_rights b = (True, True)" "reg_size b \<noteq> 0"
  shows "\<exists>a' b'. prepare_reservations [a, b] = Some (0, [a', b']) \<and> res_first b' \<in> {res_first a' ..< res_end a'} \<and> res_first b' \<in> {res_first b' ..< res_end b'}"
proof -
  have le: "first_page a \<le> first_page b" unfolding first_page_def by (rule div_le_mono) (use assms(3) in \<open>simp add: seg_end_def\<close>)
  have "prepare_reservations [a, b] = prepare_loop (reservation_vstart (own_pages a)) (reservation_size (own_pages a)) (reg_rights a) [own_pages a] [b]"
    unfolding prepare_reservations_def by (rule prepare_step [OF assms(1)]) (simp add: word_less_nat_alt)
  also have "\<dots> = Some (0, [(own_pages a)\<lparr>reservation_size := reservation_size (own_pages a) - PAGE_SIZE_4K\<rparr>, own_pages b])"
  proof -
    have "reservation_vstart (own_pages a) + reservation_size (own_pages a) > PAGE_ALIGN_4K (elf_vstart b)"
      using own_pages_top [OF assms(1)] layout_words(1) [OF assms(2)] assms(4) by (simp add: word_less_nat_alt)
    moreover have "PAGE_SIZE_4K \<le> reservation_size (own_pages a)"
      using own_pages_values(2) [OF assms(1)] le assms(4) by (simp add: word_le_nat_alt PAGE_SIZE_4K_def)
    ultimately show ?thesis using len_whole_pages [OF assms(2)] assms(5,6)
      by (simp add: cap_writes_check_move_frame_def own_pages_def [of b] Let_def)
  qed
  finally have p: "prepare_reservations [a, b] = Some (0, [(own_pages a)\<lparr>reservation_size := reservation_size (own_pages a) - PAGE_SIZE_4K\<rparr>, own_pages b])" .
  have same: "res_first (x\<lparr>reservation_size := k\<rparr>) = res_first x" "res_end (x\<lparr>reservation_size := k\<rparr>) = res_end x" for x k
    by (simp_all add: res_first_def res_end_def)
  have "unat (reg_size b) \<noteq> 0" using assms(7) by (simp add: unat_eq_0)
  then have "first_page b < end_page b" unfolding first_page_def end_page_def seg_end_def by (simp add: less_Suc_eq_le [symmetric]) 
  then show ?thesis using p le assms(4) by (simp add: same own_pages_values assms(1,2))
qed

text \<open>The data begin on the last page of the code.\<close>

theorem shared_page_reserved_twice_witness:
  "\<exists>a' b'. prepare_reservations [segment_at 0x400000 0x1234 5, segment_at 0x401800 0x1000 6] = Some (0, [a', b']) \<and> res_first b' \<in> {res_first a' ..< res_end a'}"
proof -
  have "in_space (segment_at 0x400000 0x1234 5)" "in_space (segment_at 0x401800 0x1000 6)"
    "seg_end (segment_at 0x400000 0x1234 5) \<le> unat (elf_vstart (segment_at 0x401800 0x1000 6))"
    "first_page (segment_at 0x401800 0x1000 6) < end_page (segment_at 0x400000 0x1234 5)"
    "reg_rights (segment_at 0x400000 0x1234 5) = (True, False)" "reg_rights (segment_at 0x401800 0x1000 6) = (True, True)"
    "reg_size (segment_at 0x401800 0x1000 6) \<noteq> 0"
    by (simp_all add: in_space_def seg_end_def end_page_def first_page_def segment_at_values rights_from_elf_def PF_R_def PF_W_def PF_X_def)
  from shared_page_reserved_twice [OF this] show ?thesis by blast
qed

subsection \<open>Copying the contents\<close>

text \<open>Memory keeps what is stored.\<close>

definition byte_memory :: "'w elf_env \<Rightarrow> bool" where
  "byte_memory F \<longleftrightarrow> (\<forall>a m w. load_byte F a (store_bytes F m w) = (case m a of None \<Rightarrow> load_byte F a w | Some b \<Rightarrow> b))"

lemma byte_memoryD: "byte_memory F \<Longrightarrow> load_byte F a (store_bytes F m w) = (case m a of None \<Rightarrow> load_byte F a w | Some b \<Rightarrow> b)"
  by (simp add: byte_memory_def)

text \<open>The range behind the first \<open>k\<close> bytes, seen from its start, when it fits and when its length wraps around.\<close>

lemma rest_range: "k \<le> len \<Longrightarrow> d - k < len - k \<longleftrightarrow> k \<le> d \<and> d < len" for d k len :: u64
  using unsigned_less [of k, where 'a = nat] unsigned_less [of len, where 'a = nat]
  by (cases "k \<le> d") (simp_all add: word_less_nat_alt word_le_nat_alt unat_sub_if_size word_size less_diff_iff)

lemma rest_range_wraps: "len < k \<Longrightarrow> d - k < len - k \<longleftrightarrow> k \<le> d \<or> d < len" for d k len :: u64
  using unsigned_less [of d, where 'a = nat] unsigned_less [of k, where 'a = nat]
  by (cases "k \<le> d") (simp_all add: word_less_nat_alt word_le_nat_alt unat_sub_if_size word_size less_diff_iff)

text \<open>
  C21: what \<open>copy_region\<close> leaves in memory. If the rest of the contents from the offset on is not longer than the range, the range holds it followed by zeroes,
  and no other byte of memory changes. If it is longer, the length of the zeroes wraps around: all of memory is zero afterwards, except for the part of the
  contents that does not belong into the range. This is the case whenever the layout splits the contents of a segment between two reservations.
  (The memory of the model has every address; on the machine the writes would end at the first page that is not mapped.)
\<close>

theorem copy_region_contents:
  assumes "byte_memory F" "off \<le> bytes" "bytes - off \<noteq> 0"
  shows "load_byte F a (world (copy_region F dest from bytes off len s)) =
    (if bytes - off \<le> len
     then if a - dest < bytes - off then load_byte F (from + off + (a - dest)) (world s) else if a - dest < len then 0 else load_byte F a (world s)
     else if len \<le> a - dest \<and> a - dest < bytes - off then load_byte F (from + off + (a - dest)) (world s) else 0)"
proof -
  have k: "bytes - off > 0" using assms(3) by (simp only: word_neq_0_conv)
  have d: "a - (dest + (bytes - off)) = (a - dest) - (bytes - off)" by simp
  have l: "x < y \<Longrightarrow> 0 < y" for x y :: u64 using word_neq_0_conv by force
  have f: "load_byte F a (world (copy_region F dest from bytes off len s)) =
      (if (a - dest) - (bytes - off) < len - (bytes - off) then 0
       else if a - dest < bytes - off then load_byte F (from + off + (a - dest)) (world s) else load_byte F a (world s))"
    using k l by (simp add: copy_region_def memcpy_def memset0_def byte_memoryD [OF assms(1)] d [symmetric] Let_def)
  show ?thesis
  proof (cases "bytes - off \<le> len")
    case True
    show ?thesis unfolding f rest_range [OF True] using True by auto
  next
    case False
    then have w: "len < bytes - off" by simp
    show ?thesis unfolding f rest_range_wraps [OF w] using w by auto
  qed
qed

text \<open>A memory that is the world itself. Of a file of three bytes, the last two and two zeroes are copied; then all three bytes, to a range of two.\<close>

definition mem_elf :: "(u64 \<Rightarrow> u8) env \<Rightarrow> (u64 \<Rightarrow> u8) elf_env" where
  "mem_elf E = \<lparr>elf_kernel = E, load_byte = (\<lambda>a w. w a), store_bytes = (\<lambda>m w a. case m a of None \<Rightarrow> w a | Some b \<Rightarrow> b), RES_TYPE_CODE = 4, RES_TYPE_DATA = 5,
     quick_sort = (\<lambda>_. Some), cpio_file = (\<lambda>_. None)\<rparr>"

theorem copy_region_contents_witness:
  "\<forall>E s. map (\<lambda>a. load_byte (mem_elf E) a (world (copy_region (mem_elf E) 0x100 0x10 3 1 4 s))) [0x100, 0x101, 0x102, 0x103, 0x104] =
     [world s 0x11, world s 0x12, 0, 0, world s 0x104] \<and>
   load_byte (mem_elf E) 0x50 (world (copy_region (mem_elf E) 0x100 0x10 3 0 2 s)) = 0"
proof (intro allI)
  fix E :: "(u64 \<Rightarrow> u8) env" and s :: "(u64 \<Rightarrow> u8) gpi_server"
  have m: "byte_memory (mem_elf E)" by (simp add: byte_memory_def mem_elf_def split: option.split)
  have o: "(1 :: u64) \<le> 3" "(3 :: u64) - 1 \<noteq> 0" "(0 :: u64) \<le> 3" "(3 :: u64) - 0 \<noteq> 0" by simp_all
  have r: "load_byte (mem_elf E) a w = w a" for a w by (simp add: mem_elf_def)
  show "map (\<lambda>a. load_byte (mem_elf E) a (world (copy_region (mem_elf E) 0x100 0x10 3 1 4 s))) [0x100, 0x101, 0x102, 0x103, 0x104] =
     [world s 0x11, world s 0x12, 0, 0, world s 0x104] \<and>
   load_byte (mem_elf E) 0x50 (world (copy_region (mem_elf E) 0x100 0x10 3 0 2 s)) = 0"
    unfolding copy_region_contents [OF m o(1,2)] copy_region_contents [OF m o(3,4)] by (simp add: r)
qed

end
