(* ===== verification/Runtime_Setup.thy ===== *)
theory Runtime_Setup
  imports Gpi_Elf
begin

section \<open>The setup of a runtime (ads\_obj.c, cpu\_obj.c, pd\_component.c)\<close>

text \<open>
  How a PD gets its first stack and registers. A PD into which a file was loaded gets the program headers, the arguments, and the vectors that its runtime reads;
  a PD that runs a function gets the arguments only; a guest gets a virtual CPU and its registers.
\<close>

subsection \<open>The environment\<close>

text \<open>
  The stack of another PD is written by a library (sel4utils): \<open>stack_write\<close> puts words below a stack pointer of an address space, \<open>stack_copy_args\<close> strings; both return the error and the
  new stack pointer, the latter the addresses of the strings too. Parameters are also the alignment of stacks for calls, the types of the entries of
  the auxiliary vector that belong to the system and not to the ELF standard, and the size of a buffer for a number.
\<close>

record 'w runtime_env =
  rt_kernel :: "'w env"
  stack_write :: "gpi_obj_id_t \<Rightarrow> u64 list \<Rightarrow> u64 \<Rightarrow> 'w \<Rightarrow> int \<times> u64 \<times> 'w"
  stack_copy_args :: "gpi_obj_id_t \<Rightarrow> string list \<Rightarrow> u64 \<Rightarrow> 'w \<Rightarrow> int \<times> u64 list \<times> u64 \<times> 'w"
  align_stack :: "u64 \<Rightarrow> u64"
  AT_SEL4_IPC_BUFFER_PTR :: u64
  AT_SEL4_TCB :: u64
  AT_OSM_SHARED_DATA :: u64
  WORD_STRING_SIZE :: nat

definition AT_PHDR :: u64 where "AT_PHDR = 3"
definition AT_PHENT :: u64 where "AT_PHENT = 4"
definition AT_PHNUM :: u64 where "AT_PHNUM = 5"
definition AT_PAGESZ :: u64 where "AT_PAGESZ = 6"
definition AT_SYSINFO :: u64 where "AT_SYSINFO = 32"

definition push :: "'w runtime_env \<Rightarrow> gpi_obj_id_t \<Rightarrow> u64 list \<Rightarrow> u64 \<Rightarrow> 'w gpi_server \<Rightarrow> int \<times> u64 \<times> 'w gpi_server" where
  "push R aid ws sp s = (let (e, sp, w) = stack_write R aid ws sp (world s) in (e, sp, s\<lparr>world := w\<rparr>))"

text \<open>Several writes: the first error ends them.\<close>

fun push_all :: "'w runtime_env \<Rightarrow> gpi_obj_id_t \<Rightarrow> u64 list list \<Rightarrow> u64 \<Rightarrow> 'w gpi_server \<Rightarrow> int \<times> u64 \<times> 'w gpi_server" where
  "push_all R aid [] sp s = (0, sp, s)"
| "push_all R aid (ws # wss) sp s = (let (e, sp, s) = push R aid ws sp s in if e \<noteq> 0 then (e, sp, s) else push_all R aid wss sp s)"

definition copy_args :: "'w runtime_env \<Rightarrow> gpi_obj_id_t \<Rightarrow> string list \<Rightarrow> u64 \<Rightarrow> 'w gpi_server \<Rightarrow> int \<times> u64 list \<times> u64 \<times> 'w gpi_server" where
  "copy_args R aid argv sp s = (let (e, dest, sp, w) = stack_copy_args R aid argv sp (world s) in (e, dest, sp, s\<lparr>world := w\<rparr>))"

text \<open>Where to start such that the stack pointer is aligned after \<open>to_push\<close> bytes.\<close>

definition aligned_start :: "'w runtime_env \<Rightarrow> u64 \<Rightarrow> u64 \<Rightarrow> u64" where
  "aligned_start R sp to_push = (let hypothetical = sp - to_push; rounded = align_stack R hypothetical in sp - (hypothetical - rounded))"

subsection \<open>The stack\<close>

definition aux_vector :: "'w runtime_env \<Rightarrow> pd_t \<Rightarrow> u64 \<Rightarrow> u64 \<Rightarrow> (u64 \<times> u64) list" where
  "aux_vector R p ipc_buf at_phdr =
     [(AT_PAGESZ, pagesz p), (AT_PHDR, at_phdr), (AT_PHNUM, of_nat (num_elf_phdrs p)), (AT_PHENT, 56), (AT_SEL4_IPC_BUFFER_PTR R, ipc_buf),
      (AT_SEL4_TCB R, seL4_CapNull), (AT_OSM_SHARED_DATA R, shared_data_in_PD p)] @ (if sysinfo p \<noteq> 0 then [(AT_SYSINFO, sysinfo p)] else [])"

definition aux_words :: "(u64 \<times> u64) list \<Rightarrow> u64 list" where "aux_words auxv = concat (map (\<lambda>(t, v). [t, v]) auxv)"

text \<open>The environment of the new program is empty. The assertion at the end is part of the function.\<close>

definition ads_write_stack_runtime ::
    "'w runtime_env \<Rightarrow> pd_t \<Rightarrow> gpi_obj_id_t \<Rightarrow> u64 \<Rightarrow> u64 \<Rightarrow> string list \<Rightarrow> 'w gpi_server \<Rightarrow> (int \<times> u64 \<times> 'w gpi_server) option" where
  "ads_write_stack_runtime R p aid ipc_buf stack_top argv s =
     (let (e, at_phdr, s) = push R aid (concat (pd_elf_phdrs p)) (stack_top - 8) s in
      if e \<noteq> 0 then Some (-1, 0, s)
      else
        let auxv = aux_vector R p ipc_buf at_phdr; (e, dest_argv, sp, s) = copy_args R aid argv at_phdr s in
        if e \<noteq> 0 then Some (-1, 0, s)
        else
          let (e, dest_envp, sp, s) = copy_args R aid [] sp s in
          if e \<noteq> 0 then Some (-1, 0, s)
          else
            let to_push = 5 * 8 + 16 * of_nat (length auxv) + 8 * of_nat (length argv) + 0;
                (e, sp, s) = push_all R aid [[0], [0], aux_words auxv, [0], [], [0], dest_argv, [of_nat (length argv)]] (aligned_start R sp to_push) s in
            if e \<noteq> 0 then Some (-1, 0, s) else do { c_assert (sp mod 16 = 0); Some (0, sp, s) })"

definition ads_write_stack_args :: "'w runtime_env \<Rightarrow> gpi_obj_id_t \<Rightarrow> string list \<Rightarrow> u64 \<Rightarrow> 'w gpi_server \<Rightarrow> int \<times> u64 \<times> 'w gpi_server" where
  "ads_write_stack_args R aid argv stack_top s =
     (let (e, dest_argv, sp, s) = copy_args R aid argv stack_top s in
      if e \<noteq> 0 then (e, 0, s)
      else
        let to_push = 8 * 2 + 8 * of_nat (length argv);
            (e, sp, s) = push_all R aid [[0], dest_argv, [of_nat (length argv)]] (aligned_start R sp to_push) s in
        if e \<noteq> 0 then (e, 0, s) else (0, sp, s))"

subsection \<open>Registers\<close>

definition cpu_set_pd_entry_regs :: "'w env \<Rightarrow> gpi_obj_id_t \<Rightarrow> u64 \<Rightarrow> u64 \<Rightarrow> u64 \<Rightarrow> 'w gpi_server \<Rightarrow> (int \<times> 'w gpi_server) option" where
  "cpu_set_pd_entry_regs E cid entry init_stack arg1 s = do {
     c \<leftarrow> resource_component_registry_get_by_id cpu_component cid s;
     let (r, s) = kern E (Vcpu (Init_context cid entry init_stack)) s;
     if err r \<noteq> 0 then Some (err r, s)
     else (let s = kern0 E (Vcpu (Set_arg1 cid arg1)) s;
               (r, s) = kern E (Cpu (TCB_WriteRegisters (tcb (cpu c)) False (SEL4_USER_CONTEXT_COUNT E))) s
           in Some (err r, s)) }"

definition cpu_set_guest_entry_regs :: "'w env \<Rightarrow> gpi_obj_id_t \<Rightarrow> u64 \<Rightarrow> u64 \<Rightarrow> 'w gpi_server \<Rightarrow> (int \<times> 'w gpi_server) option" where
  "cpu_set_guest_entry_regs E cid kernel_entry arg0 s = do {
     c \<leftarrow> resource_component_registry_get_by_id cpu_component cid s;
     let (r, s) = kern E (Vcpu (Init_context_guest cid kernel_entry arg0)) s;
     if err r \<noteq> 0 then Some (err r, s)
     else (let (r, s) = kern E (Cpu (TCB_WriteRegisters (tcb (cpu c)) False (SEL4_USER_CONTEXT_COUNT E))) s in Some (err r, s)) }"

subsection \<open>The request\<close>

text \<open>Numbers become strings in decimal, cut off to fit into their buffers.\<close>

definition word_args_to_strings :: "'w runtime_env \<Rightarrow> u64 list \<Rightarrow> string list" where
  "word_args_to_strings R = map (\<lambda>a. take (WORD_STRING_SIZE R - 1) (decimal (unat a)))"

text \<open>
  The three ways to set up a PD. Errors of the first two, and of the last step of the third, are overwritten by the result of the increments of
  the reference counts that follow.
\<close>

definition setup_elf_pd :: "'w runtime_env \<Rightarrow> pd_t \<Rightarrow> gpi_obj_id_t \<Rightarrow> gpi_obj_id_t \<Rightarrow> u64 list \<Rightarrow> u64 \<Rightarrow> u64 \<Rightarrow> u64 \<Rightarrow> 'w gpi_server \<Rightarrow> (int \<times> 'w gpi_server) option" where
  "setup_elf_pd R p aid cid args stack_top entry ipc_buf s = do {
     (error, init_stack, s) \<leftarrow> ads_write_stack_runtime R p aid ipc_buf stack_top (word_args_to_strings R args) s;
     if error \<noteq> 0 then Some (error, s) else cpu_set_pd_entry_regs (rt_kernel R) cid entry init_stack (OSM_PD_RUNTIME (rt_kernel R)) s }"

definition setup_guest :: "'w runtime_env \<Rightarrow> gpi_obj_id_t \<Rightarrow> u64 list \<Rightarrow> u64 \<Rightarrow> 'w gpi_server \<Rightarrow> (int \<times> 'w gpi_server) option" where
  "setup_guest R cid args entry s = do {
     (error, s) \<leftarrow> cpu_elevate (rt_kernel R) cid s;
     if error \<noteq> 0 then Some (error, s) else cpu_set_guest_entry_regs (rt_kernel R) cid entry (case args of [] \<Rightarrow> 0 | a # _ \<Rightarrow> a) s }"

definition bind_objects :: "gpi_obj_id_t \<Rightarrow> gpi_obj_id_t \<Rightarrow> 'w gpi_server \<Rightarrow> int \<times> 'w gpi_server" where
  "bind_objects aid cid s =
     (let (error, s) = component_inc Ads_Component aid s in if error \<noteq> 0 then (error, s) else component_inc Cpu_Component cid s)"

definition pd_component_runtime_setup ::
    "'w runtime_env \<Rightarrow> gpi_obj_id_t \<Rightarrow> gpi_obj_id_t \<Rightarrow> gpi_obj_id_t \<Rightarrow> u64 list \<Rightarrow> u64 \<Rightarrow> u64 \<Rightarrow> u64 \<Rightarrow> u64 \<Rightarrow> 'w gpi_server \<Rightarrow> (int \<times> 'w gpi_server) option" where
  "pd_component_runtime_setup R pid aid cid args stack_top entry ipc_buf osm_data s = do {
     let s = pd_write pid (\<lambda>p. p\<lparr>shared_data_in_PD := osm_data\<rparr>) s;
     p \<leftarrow> pd_component_registry_get_entry_by_id pid s;
     c \<leftarrow> resource_component_registry_get_by_id cpu_component cid s;
     if num_elf_phdrs (pd p) > 0 then do {
       (_, s) \<leftarrow> setup_elf_pd R (pd p) aid cid args stack_top entry ipc_buf s;
       Some (bind_objects aid cid s) }
     else if vcpu (cpu c) \<noteq> seL4_CapNull then do {
       (_, s) \<leftarrow> setup_guest R cid args entry s;
       Some (bind_objects aid cid s) }
     else
       (case args of
          [] \<Rightarrow> Some (UNKNOWN_ERR, s)
        | fn # args \<Rightarrow>
            let (error, init_stack, s) = ads_write_stack_args R aid (word_args_to_strings R args) stack_top s in
            if error \<noteq> 0 then Some (error, s)
            else do {
              (_, s) \<leftarrow> cpu_set_pd_entry_regs (rt_kernel R) cid entry init_stack fn s;
              Some (bind_objects aid cid s) }) }"

definition handle_runtime_setup_req ::
    "'w runtime_env \<Rightarrow> ipc \<Rightarrow> u64 \<Rightarrow> u64 list \<Rightarrow> u64 \<Rightarrow> u64 \<Rightarrow> u64 \<Rightarrow> u64 \<Rightarrow> 'w gpi_server \<Rightarrow> (reply \<times> 'w gpi_server) option" where
  "handle_runtime_setup_req R m badge args stack_top entry ipc_buf osm_data s =
     (if \<not> sel4gpi_rpc_check_caps_2 m GPICAP_TYPE_ADS GPICAP_TYPE_CPU then Some (error_reply UNKNOWN_ERR, s)
      else
        (case (pd_component_registry_get_entry_by_badge badge s,
               resource_component_registry_get_by_id ads_component (get_object_id_from_badge (seL4_GetBadge m 0)) s,
               resource_component_registry_get_by_id cpu_component (get_object_id_from_badge (seL4_GetBadge m 1)) s) of
           (Some p, Some a, Some c) \<Rightarrow> do {
             (error, s) \<leftarrow> pd_component_runtime_setup R (ucast (object_id p)) (ucast (object_id a)) (ucast (object_id c)) args stack_top entry ipc_buf osm_data s;
             Some (error_reply error, s) }
         | _ \<Rightarrow> Some (error_reply UNKNOWN_ERR, s)))"

end
