(* ===== verification/Runtime_Stack.thy ===== *)
theory Runtime_Stack
  imports Runtime_Setup Component_Refs
begin

section \<open>The first stack of a PD\<close>

text \<open>
  What a program finds on its stack, provided that the library writes what it says: a write that succeeds puts its words right below the stack pointer and keeps those above,
  and for every string there is an address. The memory of an address space is read word by word.
\<close>

definition stack_words :: "(u64 \<Rightarrow> 'w \<Rightarrow> u64) \<Rightarrow> u64 \<Rightarrow> nat \<Rightarrow> 'w \<Rightarrow> u64 list" where
  "stack_words load sp n w = map (\<lambda>i. load (sp + 8 * of_nat i) w) [0..<n]"

definition stack_pushes :: "'w runtime_env \<Rightarrow> gpi_obj_id_t \<Rightarrow> (u64 \<Rightarrow> 'w \<Rightarrow> u64) \<Rightarrow> bool" where
  "stack_pushes R aid load \<longleftrightarrow> (\<forall>ws sp w sp' w'. stack_write R aid ws sp w = (0, sp', w') \<longrightarrow> sp' = sp - 8 * of_nat (length ws) \<and>
     (\<forall>n. length ws + n < 2 ^ 60 \<longrightarrow> stack_words load sp' (length ws + n) w' = ws @ stack_words load sp n w))"

definition args_addressed :: "'w runtime_env \<Rightarrow> gpi_obj_id_t \<Rightarrow> bool" where
  "args_addressed R aid \<longleftrightarrow> (\<forall>argv sp w dest sp' w'. stack_copy_args R aid argv sp w = (0, dest, sp', w') \<longrightarrow> length dest = length argv)"

lemma push_all_words:
  assumes "stack_pushes R aid load" "push_all R aid wss sp s = (0, sp', s')"
  shows "sp' = sp - 8 * of_nat (length (concat wss)) \<and>
    (\<forall>n. length (concat wss) + n < 2 ^ 60 \<longrightarrow> stack_words load sp' (length (concat wss) + n) (world s') = concat (rev wss) @ stack_words load sp n (world s))"
  using assms(2)
proof (induction wss arbitrary: sp s)
  case (Cons ws wss)
  obtain e sp1 w1 where p: "stack_write R aid ws sp (world s) = (e, sp1, w1)" by (metis prod_cases3)
  then have "e = 0" and q: "push_all R aid wss sp1 (s\<lparr>world := w1\<rparr>) = (0, sp', s')" using Cons.prems by (auto simp: push_def split: if_splits)
  then have 1: "sp1 = sp - 8 * of_nat (length ws)" "\<And>n. length ws + n < 2 ^ 60 \<Longrightarrow> stack_words load sp1 (length ws + n) w1 = ws @ stack_words load sp n (world s)"
    using assms(1) p unfolding stack_pushes_def by blast+
  have 2: "stack_words load sp' (length (concat wss) + (length ws + n)) (world s') = concat (rev wss) @ ws @ stack_words load sp n (world s)"
    if "length (concat (ws # wss)) + n < 2 ^ 60" for n
    using conjunct2 [OF Cons.IH [OF q], rule_format, of "length ws + n"] 1(2) [of n] that by simp
  show ?case using Cons.IH [OF q] 1(1) 2 by (simp add: ac_simps algebra_simps)
qed simp

lemma aligned_start_ends: "aligned_start R sp k - k = align_stack R (sp - k)"
  by (simp add: aligned_start_def Let_def)

lemma aux_words_length: "length (aux_words auxv) = 2 * length auxv"
  by (induction auxv) (auto simp: aux_words_def split: prod.split)

lemma aux_vector_length: "length (aux_vector R p ipc_buf at_phdr) \<le> 8"
  by (simp add: aux_vector_def)

text \<open>
  C13: the stack that a loaded program starts with. The function never trips its assertion. If it succeeds, the stack pointer is a multiple of 16, and from
  there upwards are: the number of arguments, an address for each argument, 0, 0 (the environment is empty), the auxiliary vector, and two zeroes. The
  entry of the vector for the program headers is the address where they were written.
\<close>

theorem runtime_stack_layout:
  assumes "stack_pushes R aid load" "args_addressed R aid" "\<And>a. align_stack R a mod 16 = 0" "length argv < 2 ^ 31"
  shows "\<exists>error sp s'. ads_write_stack_runtime R p aid ipc_buf stack_top argv s = Some (error, sp, s') \<and>
    (error = 0 \<longrightarrow> sp mod 16 = 0 \<and> (\<exists>dest_argv auxv. length dest_argv = length argv \<and>
       auxv = aux_vector R p ipc_buf (stack_top - 8 - 8 * of_nat (length (concat (pd_elf_phdrs p)))) \<and>
       stack_words load sp (length argv + 2 * length auxv + 5) (world s') = of_nat (length argv) # dest_argv @ [0, 0] @ aux_words auxv @ [0, 0]))"
proof -
  obtain e1 sp1 s1 where 1: "push R aid (concat (pd_elf_phdrs p)) (stack_top - 8) s = (e1, sp1, s1)" by (metis prod_cases3)
  obtain e2 dest sp2 s2 where 2: "copy_args R aid argv sp1 s1 = (e2, dest, sp2, s2)" by (metis prod_cases4)
  obtain e3 env sp3 s3 where 3: "copy_args R aid [] sp2 s2 = (e3, env, sp3, s3)" by (metis prod_cases4)
  let ?aux = "aux_vector R p ipc_buf sp1" let ?k = "40 + 16 * of_nat (length ?aux) + 8 * of_nat (length argv)"
  let ?blocks = "[[0], [0], aux_words ?aux, [0], [], [0], dest, [of_nat (length argv)]]"
  obtain e4 sp4 s4 where 4: "push_all R aid ?blocks (aligned_start R sp3 ?k) s3 = (e4, sp4, s4)" by (metis prod_cases3)
  have "sp4 = align_stack R (sp3 - ?k) \<and> sp1 = stack_top - 8 - 8 * of_nat (length (concat (pd_elf_phdrs p))) \<and>
    stack_words load sp4 (length argv + 2 * length ?aux + 5) (world s4) = of_nat (length argv) # dest @ [0, 0] @ aux_words ?aux @ [0, 0]"
    if ok: "e1 = 0" "e2 = 0" "e4 = 0" and l: "length dest = length argv"
  proof (intro conjI)
    have c: "length (concat ?blocks) = length argv + 2 * length ?aux + 5" by (simp add: l aux_words_length)
    note all = push_all_words [OF assms(1) 4 [unfolded ok], unfolded c]
    have "length argv + 2 * length ?aux + 5 + 0 < 2 ^ 60" using assms(4) aux_vector_length [of R p ipc_buf sp1] by simp
    then have w: "sp4 = aligned_start R sp3 ?k - 8 * of_nat (length argv + 2 * length ?aux + 5)"
      "stack_words load sp4 (length argv + 2 * length ?aux + 5) (world s4) = concat (rev ?blocks)"
      using conjunct1 [OF all] conjunct2 [OF all, rule_format, of 0] by (simp_all add: stack_words_def)
    have "8 * of_nat (length argv + 2 * length ?aux + 5) = (?k :: u64)" by (simp add: algebra_simps)
    then show "sp4 = align_stack R (sp3 - ?k)" using w(1) aligned_start_ends [of R sp3 ?k] by metis
    show "stack_words load sp4 (length argv + 2 * length ?aux + 5) (world s4) = of_nat (length argv) # dest @ [0, 0] @ aux_words ?aux @ [0, 0]"
      using w(2) by simp
    show "sp1 = stack_top - 8 - 8 * of_nat (length (concat (pd_elf_phdrs p)))"
      using 1 ok(1) assms(1) by (auto simp: push_def stack_pushes_def split: prod.splits)
  qed
  moreover have "length dest = length argv" if "e2 = 0" using 2 that assms(2) unfolding copy_args_def args_addressed_def by (force split: prod.splits)
  moreover have "ads_write_stack_runtime R p aid ipc_buf stack_top argv s =
    (if e1 \<noteq> 0 then Some (-1, 0, s1) else if e2 \<noteq> 0 then Some (-1, 0, s2) else if e3 \<noteq> 0 then Some (-1, 0, s3) else if e4 \<noteq> 0 then Some (-1, 0, s4)
     else do { c_assert (sp4 mod 16 = 0); Some (0, sp4, s4) })"
    by (simp add: ads_write_stack_runtime_def 1 2 3 4 del: push_all.simps)
  ultimately show ?thesis using assms(3) by (cases "e1 = 0 \<and> e2 = 0 \<and> e3 = 0 \<and> e4 = 0") auto
qed

text \<open>A library for a memory of words. Every string is said to be at the stack pointer.\<close>

definition word_runtime :: "(u64 \<Rightarrow> u64) env \<Rightarrow> (u64 \<Rightarrow> u64) runtime_env" where
  "word_runtime E = \<lparr>rt_kernel = E,
     stack_write = (\<lambda>aid ws sp w. let sp' = sp - 8 * of_nat (length ws) in
       (0, sp', \<lambda>a. if (a - sp') mod 8 = 0 \<and> unat (a - sp') div 8 < length ws then ws ! (unat (a - sp') div 8) else w a)),
     stack_copy_args = (\<lambda>aid argv sp w. (0, map (\<lambda>_. sp) argv, sp, w)), align_stack = (\<lambda>a. a AND NOT 15),
     AT_SEL4_IPC_BUFFER_PTR = 64, AT_SEL4_TCB = 65, AT_OSM_SHARED_DATA = 66, WORD_STRING_SIZE = 21\<rparr>"

lemma word_offset: "i < 2 ^ 60 \<Longrightarrow> unat (8 * of_nat i :: u64) = 8 * i"
  by (simp add: unat_word_ariths(2) unat_of_nat mod_less)

lemma word_runtime_pushes: "stack_pushes (word_runtime E) aid (\<lambda>a w. w a)"
  unfolding stack_pushes_def
proof (intro allI impI conjI)
  fix ws :: "u64 list" and sp w sp' w'
  assume "stack_write (word_runtime E) aid ws sp w = (0, sp', w')"
  then have sp: "sp' = sp - 8 * of_nat (length ws)" and
    w: "w' = (\<lambda>a. if (a - sp') mod 8 = 0 \<and> unat (a - sp') div 8 < length ws then ws ! (unat (a - sp') div 8) else w a)"
    by (auto simp: word_runtime_def Let_def)
  show "sp' = sp - 8 * of_nat (length ws)" by (rule sp)
  fix n assume n: "length ws + n < 2 ^ 60"
  have "w' (sp' + 8 * of_nat i) = (ws @ stack_words (\<lambda>a w. w a) sp n w) ! i" if i: "i < length ws + n" for i
  proof -
    have u: "unat (8 * of_nat i :: u64) = 8 * i" using n i by (intro word_offset) simp
    then have "(8 * of_nat i :: u64) mod 8 = 0" by (simp add: word_eq_iff_unsigned unat_mod unsigned_eq_0_iff flip: unat_eq_zero)
    moreover have "sp' + 8 * of_nat i = sp + 8 * of_nat (i - length ws)" if "\<not> i < length ws" using that by (simp add: sp of_nat_diff algebra_simps)
    ultimately show ?thesis using i u by (auto simp: w nth_append stack_words_def algebra_simps)
  qed
  then show "stack_words (\<lambda>a w. w a) sp' (length ws + n) w' = ws @ stack_words (\<lambda>a w. w a) sp n w"
    by (intro nth_equalityI) (auto simp: stack_words_def)
qed

theorem runtime_stack_layout_witness:
  "\<forall>E s. \<exists>error sp s'. ads_write_stack_runtime (word_runtime E) ((pd blank_pd)\<lparr>num_elf_phdrs := 1, pd_elf_phdrs := [[1, 2, 3, 4, 5, 6, 7]], pagesz := 4096\<rparr>) 3 0x7000 0x8000 [''10'', ''11''] s =
     Some (error, sp, s') \<and> error = 0 \<and> sp mod 16 = 0 \<and> world s' sp = 2"
proof (intro allI)
  fix E and s :: "(u64 \<Rightarrow> u64) gpi_server"
  let ?R = "word_runtime E" and ?p = "(pd blank_pd)\<lparr>num_elf_phdrs := 1, pd_elf_phdrs := [[1, 2, 3, 4, 5, 6, 7]], pagesz := 4096\<rparr>"
  have a: "args_addressed ?R 3" by (simp add: args_addressed_def word_runtime_def)
  have m: "align_stack ?R a mod 16 = 0" for a
    by (simp add: word_runtime_def) (simp flip: take_bit_eq_mod [of 4, simplified] add: take_bit_eq_mask mask_eq_exp_minus_1 ac_simps)
  have l: "length [''10'', ''11''] < 2 ^ 31" by simp
  obtain error sp s' where r: "ads_write_stack_runtime ?R ?p 3 0x7000 0x8000 [''10'', ''11''] s = Some (error, sp, s')"
    "error = 0 \<longrightarrow> sp mod 16 = 0 \<and> (\<exists>dest auxv. length dest = length [''10'', ''11''] \<and>
       auxv = aux_vector ?R ?p 0x7000 (0x8000 - 8 - 8 * of_nat (length (concat (pd_elf_phdrs ?p)))) \<and>
       stack_words (\<lambda>a w. w a) sp (length [''10'', ''11''] + 2 * length auxv + 5) (world s') = of_nat (length [''10'', ''11'']) # dest @ [0, 0] @ aux_words auxv @ [0, 0])"
    using runtime_stack_layout [OF word_runtime_pushes a m l, of ?p "0x7000" "0x8000" s] by (elim exE conjE) (rule that)
  have "error = 0" using r(1) by (auto simp: ads_write_stack_runtime_def push_def copy_args_def word_runtime_def Let_def split: bind_splits)
  moreover have "world s' sp = 2" if "stack_words (\<lambda>a w. w a) sp (2 + k + 5) (world s') = 2 # ws" for k ws
    using that by (simp add: stack_words_def upt_conv_Cons)
  ultimately show "\<exists>error sp s'. ads_write_stack_runtime ?R ?p 3 0x7000 0x8000 [''10'', ''11''] s = Some (error, sp, s') \<and> error = 0 \<and> sp mod 16 = 0 \<and> world s' sp = 2"
    using r by auto
qed

subsection \<open>Errors of the setup\<close>

lemma bind_objects_ok:
  assumes "resource_component_registry_get_by_id ads_component aid s = Some a" "resource_component_registry_get_by_id cpu_component cid s = Some c"
  shows "\<exists>s'. bind_objects aid cid s = (0, s') \<and> world s' = world s"
  using assms by (auto simp: bind_objects_def component_inc_def resource_component_inc_def comp_set_reg_def resource_component_registry_get_by_id_def Let_def split: option.split)

text \<open>
  C31: the setup of a loaded program does not report that its stack could not be written. If every write to the stack fails, the setup returns 0. After
  the failed attempt to write the program headers the kernel is not called any more: the registers of the CPU, with the entry point and the stack pointer, are never set.
\<close>

theorem stack_error_lost:
  assumes "pd_component_registry_get_entry_by_id pid s = Some p" "num_elf_phdrs (pd p) > 0"
    and "resource_component_registry_get_by_id ads_component aid s = Some a" "resource_component_registry_get_by_id cpu_component cid s = Some c"
    and "\<And>ws sp w. fst (stack_write R aid ws sp w) \<noteq> 0"
  shows "\<exists>s'. pd_component_runtime_setup R pid aid cid args stack_top entry ipc_buf osm_data s = Some (0, s') \<and>
    world s' = snd (snd (stack_write R aid (concat (pd_elf_phdrs (pd p))) (stack_top - 8) (world s)))"
proof -
  let ?s = "pd_write pid (\<lambda>p. p\<lparr>shared_data_in_PD := osm_data\<rparr>) s"
  obtain e sp w where w: "stack_write R aid (concat (pd_elf_phdrs (pd p))) (stack_top - 8) (world s) = (e, sp, w)" by (metis prod_cases3)
  have e: "e \<noteq> 0" using assms(5) [of "concat (pd_elf_phdrs (pd p))" "stack_top - 8" "world s"] w by simp
  have f: "world ?s = world s" "ads_component ?s = ads_component s" "cpu_component ?s = cpu_component s" by (simp_all add: pd_write_def entry_update_def)
  have "resource_component_registry_get_by_id ads_component aid (?s\<lparr>world := w\<rparr>) = Some a" "resource_component_registry_get_by_id cpu_component cid (?s\<lparr>world := w\<rparr>) = Some c"
    "resource_component_registry_get_by_id cpu_component cid ?s = Some c"
    using assms(3,4) by (simp_all add: resource_component_registry_get_by_id_def f)
  moreover obtain s' where "bind_objects aid cid (?s\<lparr>world := w\<rparr>) = (0, s')" "world s' = w" using bind_objects_ok [OF calculation(1,2)] by auto
  ultimately show ?thesis
    using assms(1,2) e by (simp add: pd_component_runtime_setup_def get_pd_write setup_elf_pd_def ads_write_stack_runtime_def push_def f w)
qed

text \<open>PD 5, into which a file was loaded, with address space 3 and CPU 4. Nothing can be written to its stack.\<close>

definition failing_runtime :: "kcall list runtime_env" where
  "failing_runtime = \<lparr>rt_kernel = trace_env, stack_write = (\<lambda>aid ws sp w. (1, sp, w)), stack_copy_args = (\<lambda>aid argv sp w. (1, [], sp, w)), align_stack = (\<lambda>a. a),
     AT_SEL4_IPC_BUFFER_PTR = 64, AT_SEL4_TCB = 65, AT_OSM_SHARED_DATA = 66, WORD_STRING_SIZE = 21\<rparr>"

definition loaded_server :: "kcall list gpi_server" where
  "loaded_server = (server_with [pd_entry 5 (\<lambda>p. p\<lparr>num_elf_phdrs := 1, pd_elf_phdrs := [[1, 2, 3, 4, 5, 6, 7]]\<rparr>)])
     \<lparr>ads_component := (started_component GPICAP_TYPE_ADS 3)\<lparr>registry := (resource_registry_initialize 0xFFFFE)\<lparr>head := [blank_ads\<lparr>object_id := 3\<rparr>]\<rparr>\<rparr>,
      cpu_component := (started_component GPICAP_TYPE_CPU 5)\<lparr>registry := (resource_registry_initialize 0xFFFFE)\<lparr>head := [blank_cpu\<lparr>object_id := 4\<rparr>]\<rparr>\<rparr>\<rparr>"

theorem stack_error_lost_witness:
  "\<exists>s'. pd_component_runtime_setup failing_runtime 5 3 4 [10] 0x8000 0x400 0x7000 0x6000 loaded_server = Some (0, s') \<and> world s' = []"
proof -
  have p: "pd_component_registry_get_entry_by_id 5 loaded_server = Some (pd_entry 5 (\<lambda>p. p\<lparr>num_elf_phdrs := 1, pd_elf_phdrs := [[1, 2, 3, 4, 5, 6, 7]]\<rparr>))"
    by (simp add: loaded_server_def server_with_def pd_entry_def resource_component_registry_get_by_id_def resource_registry_get_by_id_def)
  have a: "\<exists>a. resource_component_registry_get_by_id ads_component 3 loaded_server = Some a" "\<exists>c. resource_component_registry_get_by_id cpu_component 4 loaded_server = Some c"
    by (simp_all add: loaded_server_def resource_component_registry_get_by_id_def resource_registry_get_by_id_def)
  obtain x y where xy: "resource_component_registry_get_by_id ads_component 3 loaded_server = Some x" "resource_component_registry_get_by_id cpu_component 4 loaded_server = Some y"
    using a by blast
  have "world loaded_server = []" by (simp add: loaded_server_def server_with_def)
  then show ?thesis
    using stack_error_lost [OF p _ xy, of failing_runtime "[10]" "0x8000" "0x400" "0x7000" "0x6000"] by (simp add: failing_runtime_def pd_entry_def)
qed

end
