(* ===== verification/Client_Use.thy ===== *)
theory Client_Use
  imports Client_Api Component_Refs
begin

section \<open>Calls of a client, from request to effect\<close>

text \<open>
  Properties of the client interface (theory Client_Api) together with the server. A space that is shared with a PD is found by this PD in the page of its
  directory. The request for an endpoint in the own PD depends on what earlier messages left in the buffer of the server.
\<close>

subsection \<open>Turns of the server\<close>

lemma kern_world: "kern E c s = (fst (sys E c (world s)), s\<lparr>world := snd (sys E c (world s))\<rparr>)"
  by (simp add: kern_def split: prod.split)

lemma same_world [simp]: "\<exists>w. s = s\<lparr>world := w\<rparr>" for s :: "'w gpi_server"
  by (rule exI [of _ "world s"]) simp

text \<open>After the handler only the world changes, and the reply is sent as it is.\<close>

lemma finish_request_keeps:
  assumes "finish_request E t recv (r, b, new, s) = Some (sent, recv', s')"
  shows "\<exists>w. s' = s\<lparr>world := w\<rparr>" "sent = (if b then Some r else None)"
  using assms by (auto simp: finish_request_def kern_world kern0_def c_assert_def Let_def split: if_splits bind_splits)

text \<open>A call that was answered: the handler of the request ran, on a state that differs in the world.\<close>

lemma call_answered:
  assumes "sel4gpi_rpc_call C e magic msg caps (recv, s) = Some (Some (False, r), recv', s')"
  obtains badge w new s1 w' where "slot_badge_of C e (world s) = Some badge" "select_component badge = Some (message_component msg)"
    "request_handler (api_kernel C) (api_depth C) magic msg
      (received_words (\<lambda>c. slot_badge_of C c (world s)) (old_words C (world s)) caps) badge recv (s\<lparr>world := w\<rparr>) = Some (r, True, new, s1)"
    "s' = s1\<lparr>world := w'\<rparr>"
proof -
  obtain badge where b: "slot_badge_of C e (world s) = Some badge"
    using assms by (auto simp: sel4gpi_rpc_call_def split: option.splits)
  let ?m = "received_words (\<lambda>c. slot_badge_of C c (world s)) (old_words C (world s)) caps"
  let ?w = "snd (sys (api_kernel C) (Ipc (Rpc_recv (get_cap_type_from_badge badge))) (world s))"
  have "\<exists>t. select_component badge = Some (message_component msg) \<and>
      request_handler (api_kernel C) (api_depth C) magic msg ?m badge recv (s\<lparr>world := ?w\<rparr>) = Some t \<and>
      finish_request (api_kernel C) (get_cap_type_from_badge badge) recv t = Some (Some r, recv', s')"
    using assms by (auto simp: sel4gpi_rpc_call_def b gpi_server_turn_def kern_world c_assert_def Let_def split: bind_splits if_splits)
  then obtain q b' new s1 where 1: "select_component badge = Some (message_component msg)"
      "request_handler (api_kernel C) (api_depth C) magic msg ?m badge recv (s\<lparr>world := ?w\<rparr>) = Some (q, b', new, s1)"
      "finish_request (api_kernel C) (get_cap_type_from_badge badge) recv (q, b', new, s1) = Some (Some r, recv', s')"
    by (metis prod_cases4)
  obtain w' where w': "s' = s1\<lparr>world := w'\<rparr>" using finish_request_keeps(1) [OF 1(3)] by blast
  have "b'" "q = r" using finish_request_keeps(2) [OF 1(3)] by (auto split: if_splits)
  then show thesis using that b 1(1,2) w' by simp
qed

lemma ask_Some: "ask f x = Some (Some y, srv) \<longleftrightarrow> (\<exists>r. x = Some (Some r, srv) \<and> y = f r)"
  by (cases srv) (auto simp: ask_def)

subsection \<open>Sharing an entry of the directory\<close>

lemma by_badge: "resource_component_registry_get_by_badge getc badge s = resource_component_registry_get_by_id getc (get_object_id_from_badge badge) s"
  by (simp add: resource_component_registry_get_by_badge_def resource_component_registry_get_by_id_def resource_registry_get_by_badge_def)

lemma get_world [simp]: "resource_component_registry_get_by_id pd_component i (s\<lparr>world := w\<rparr>) = resource_component_registry_get_by_id pd_component i s"
  by (simp add: resource_component_registry_get_by_id_def)

lemma get_on_pd:
  assumes "on_pd i f s = Some (r, s')"
  obtains e p w where "pd_component_registry_get_entry_by_id i s = Some e" "f (pd e) (world s) = Some (r, p, w)"
    "\<And>j. pd_component_registry_get_entry_by_id j s' = (if j = i then Some (e\<lparr>pd := p\<rparr>) else pd_component_registry_get_entry_by_id j s)"
    "resspc_component s' = resspc_component s"
proof -
  obtain e p w where 1: "pd_component_registry_get_entry_by_id i s = Some e" "f (pd e) (world s) = Some (r, p, w)"
    "s' = (pd_write i (\<lambda>_. p) s)\<lparr>world := w\<rparr>"
    using assms by (auto simp: on_pd_def split: bind_splits)
  have "resspc_component s' = resspc_component s" by (simp add: 1(3) pd_write_def entry_update_def)
  then show thesis by (intro that [OF 1(1,2)]) (simp_all add: 1 get_pd_write)
qed

lemma get_id: "pd_component_registry_get_entry_by_id i s = Some e \<Longrightarrow> ucast (object_id e) = i"
  by (auto simp: resource_component_registry_get_by_id_def resource_registry_get_by_id_def dest!: HASH_FIND_Some)

lemma rde_get_match:
  assumes "rde_wf p" "type < GPICAP_TYPE_MAX" "pd_rde_get p type sid = Some (Some q)"
  shows "q \<in> set (rde (shared p) ! unat type)" "rde_match type sid q"
  using assms(3) by (auto simp: pd_rde_get_row [OF assms(1,2)] dest!: rde_scan_SomeD)

lemma rde_get_space:
  assumes "pd_rde_get p type sid = Some (Some q)" "sid \<noteq> BADGE_SPACE_ID_NULL"
  shows "rde_space_id q = sid"
  using assms by (auto simp: pd_rde_get_def pd_rde_find_idx_def rde_match_def split: bind_splits option.splits dest!: rde_scan_SomeD)

text \<open>The IDs of spaces are below the null ID: the registry of spaces is made with \<open>BADGE_SPACE_ID_NULL - 1\<close> as its largest ID. An entry of the
  directory that was removed has the null ID.\<close>

definition space_ids_ok :: "'w gpi_server \<Rightarrow> bool" where
  "space_ids_ok s \<longleftrightarrow> (\<forall>k e. resource_space_get_entry_by_id k s = Some e \<longrightarrow> k \<noteq> 0 \<and> k < BADGE_SPACE_ID_NULL)"

definition no_removed :: "gpi_cap_t \<Rightarrow> pd_t \<Rightarrow> bool" where
  "no_removed type p \<longleftrightarrow> (\<forall>r \<in> set (rde (shared p) ! unat type). rde_space_id r \<noteq> BADGE_SPACE_ID_NULL)"

text \<open>Adding an entry, with success or not, keeps the entries that are found, for a space and for the default space, and what makes the directory
  well-formed. It does not make entries look removed.\<close>

definition keeps_entries :: "pd_t \<Rightarrow> pd_t \<Rightarrow> bool" where
  "keeps_entries p p' \<longleftrightarrow> pd_vka p' = pd_vka p \<and> pd_id p' = pd_id p \<and>
     (\<forall>type sid d. real_space sid \<longrightarrow> pd_rde_get p type sid = Some (Some d) \<longrightarrow> pd_rde_get p' type sid = Some (Some d)) \<and>
     (\<forall>type d. pd_rde_get p type BADGE_SPACE_ID_NULL = Some (Some d) \<longrightarrow> type \<noteq> 0 \<longrightarrow> rde_type d = type \<longrightarrow>
        pd_rde_get p' type BADGE_SPACE_ID_NULL = Some (Some d)) \<and>
     (\<forall>type. no_removed type p \<longrightarrow> no_removed type p')"

lemma keeps_entries_refl [simp]: "keeps_entries p p" by (simp add: keeps_entries_def)

lemma keeps_entries_trans: "keeps_entries p q \<Longrightarrow> keeps_entries q r \<Longrightarrow> keeps_entries p r" by (simp add: keeps_entries_def)

text \<open>The default entry of a row is the first one, and this one is not filled again.\<close>

lemma scan_default:
  assumes "row_led type row" "row \<noteq> []" "rde_scan type BADGE_SPACE_ID_NULL 0 row = Some k"
  shows "k = 0"
proof -
  have "rde_match type BADGE_SPACE_ID_NULL (row ! k)" "k < length row" using rde_scan_SomeD [OF assms(3)] by auto
  then have "rde_match type BADGE_SPACE_ID_NULL (row ! 0)" using assms(1) by (auto simp: row_led_def list_ex_iff)
  then show ?thesis using rde_scan_first [of 0 row type BADGE_SPACE_ID_NULL 0] assms(2,3) by simp
qed

lemma fill_default:
  assumes "row_led type row" "rde_free_scan type sid 0 row = Some idx" "type \<noteq> 0"
    "rde_scan type BADGE_SPACE_ID_NULL 0 row = Some k" "rde_type (row ! k) = type"
  shows "rde_scan type BADGE_SPACE_ID_NULL 0 (row[idx := r]) = Some k" "idx \<noteq> k"
proof -
  have idx: "idx < length row" "rde_type (row ! idx) = GPICAP_TYPE_NONE" using rde_free_scan_SomeD [OF assms(2)] by auto
  then have ne: "row \<noteq> []" by auto
  then have k: "k = 0" "row \<noteq> []" using scan_default [OF assms(1) _ assms(4)] by auto
  show "idx \<noteq> k" using idx(2) assms(3,5) by (auto simp: cap_type_defs)
  then show "rde_scan type BADGE_SPACE_ID_NULL 0 (row[idx := r]) = Some k"
    using rde_scan_first [of 0 "row[idx := r]" type BADGE_SPACE_ID_NULL 0] k assms(5) by (simp add: rde_match_def)
qed

lemma fill_keeps:
  assumes "rde_wf p" "type \<noteq> 0" "type < GPICAP_TYPE_MAX" "real_space sid" "pd_rde_get p type sid = Some None"
    and free: "rde_free_scan type sid 0 (rde (shared p) ! unat type) = Some idx"
    and f: "\<And>r. rde_type (f r) = type" "\<And>r. rde_space_id (f r) = sid"
    and p': "p' = set_rde type idx f (named type tname p) \<or> p' = (set_rde type idx f (named type tname p))\<lparr>shared := (shared (set_rde type idx f (named type tname p)))\<lparr>rde_count := n\<rparr>\<rparr>"
    and led: "rde_led p"
  shows "rde_wf p'" "keeps_entries p p'"
proof -
  let ?row = "rde (shared p) ! unat type"
  show wf': "rde_wf p'" using fill_wf(1) [OF assms(1,3,2) free f(1)] p' by (auto simp: rde_wf_count)
  have row: "rde (shared p') = (rde (shared p))[unat type := ?row[idx := f (?row ! idx)]]"
    using p' by (auto simp: rde_set_rde)
  have l: "unat type < length (rde (shared p))" using assms(1,3) by (simp add: rde_wf_def word_less_nat_alt)
  have "pd_rde_get p' t' sid' = pd_rde_get p t' sid'" if "real_space sid'" "(t', sid') \<noteq> (type, sid)" for t' sid'
    using fill_lookup(2) [OF assms(1) wf' assms(3,2) free row f(2) assms(4) that(2,1)] .
  then have 1: "pd_rde_get p' t' sid' = Some (Some d)" if "real_space sid'" "pd_rde_get p t' sid' = Some (Some d)" for t' sid' d
    using that assms(5) by (cases "(t', sid') = (type, sid)") auto
  have other: "rde (shared p') ! unat t' = rde (shared p) ! unat t'" if "t' \<noteq> type" for t'
    using that by (simp add: row word_unat_eq_iff)
  have 2: "pd_rde_get p' t' BADGE_SPACE_ID_NULL = Some (Some d)"
    if d: "pd_rde_get p t' BADGE_SPACE_ID_NULL = Some (Some d)" "t' \<noteq> 0" "rde_type d = t'" for t' d
  proof -
    have t': "t' < GPICAP_TYPE_MAX" using d(1) pd_rde_get_out [OF assms(1), of t'] by fastforce
    then obtain k where k: "rde_scan t' BADGE_SPACE_ID_NULL 0 (rde (shared p) ! unat t') = Some k" "d = rde (shared p) ! unat t' ! k"
      using d(1) by (auto simp: pd_rde_get_row [OF assms(1)])
    show ?thesis
    proof (cases "t' = type")
      case True
      have "row_led type ?row" by (rule rde_led_row [OF led assms(2,3)])
      from fill_default [OF this free assms(2), of k] show ?thesis
        using k d(3) l True by (auto simp: pd_rde_get_row [OF wf' assms(3)] row)
    qed (use k other t' in \<open>simp add: pd_rde_get_row [OF wf']\<close>)
  qed
  have "no_removed t' p'" if "no_removed t' p" for t'
    using that assms(4) f(2) set_update_subset_insert [of ?row idx "f (?row ! idx)"] other [of t'] l
    by (cases "t' = type") (auto simp: no_removed_def row real_space_def)
  moreover have "pd_vka p' = pd_vka p" "pd_id p' = pd_id p" using p' by auto
  ultimately show "keeps_entries p p'" using 1 2 by (simp add: keeps_entries_def)
qed

text \<open>A PD without an entry for the default space has no entry of the type at all; the first one that is added is its default.\<close>

lemma no_default:
  assumes "rde_wf p" "type < GPICAP_TYPE_MAX" "type \<noteq> 0" "pd_rde_get p type BADGE_SPACE_ID_NULL = Some None"
  shows "r \<in> set (rde (shared p) ! unat type) \<Longrightarrow> rde_type r = GPICAP_TYPE_NONE \<and> rde_space_id r = 0"
    and "real_space sid \<Longrightarrow> pd_rde_get p type sid = Some None"
proof -
  have "\<not> list_ex (rde_match type BADGE_SPACE_ID_NULL) (rde (shared p) ! unat type)"
    using assms(4) rde_scan_None [of type BADGE_SPACE_ID_NULL 0] by (auto simp: pd_rde_get_row [OF assms(1,2)])
  then show all: "r \<in> set (rde (shared p) ! unat type) \<Longrightarrow> rde_type r = GPICAP_TYPE_NONE \<and> rde_space_id r = 0" for r
    using rde_wf_row(2) [OF assms(1,2)] assms(3)
    by (auto simp: list_ex_iff rde_match_def rde_row_wf_def list_all_iff rde_free_def)
  assume "real_space sid"
  then have "\<not> list_ex (rde_match type sid) (rde (shared p) ! unat type)" using all by (auto simp: list_ex_iff rde_match_def real_space_def)
  then show "pd_rde_get p type sid = Some None" using rde_scan_None [of type sid 0] by (simp add: pd_rde_get_row [OF assms(1,2)])
qed

lemma add_default:
  assumes "rde_wf p" "type \<noteq> 0" "type < GPICAP_TYPE_MAX" "pd_rde_get p type BADGE_SPACE_ID_NULL = Some None"
    and "sid \<le> 0xFF" "pd_vka p = Some v" "pd_id p \<le> 0xFFFFF"
    and ret: "pd_add_rde E type tname sid raw p w = Some (0, p', w')"
  shows "\<exists>d. pd_rde_get p' type BADGE_SPACE_ID_NULL = Some (Some d) \<and> rde_type d = type \<and> rde_space_id d = sid"
proof (rule pd_add_rde_cases [OF assms(1,3,6,7,5), of E tname raw w])
  fix idx dest w2 q
  let ?f = "\<lambda>r. entry_filled type sid raw r\<lparr>slot_in_PD := dest\<rparr>" and ?row = "rde (shared p) ! unat type"
  assume "pd_add_rde E type tname sid raw p w = Some (0, q\<lparr>shared := (shared q)\<lparr>rde_count := rde_count (shared p) + 1\<rparr>\<rparr>, w2)"
    and q: "q = set_rde type idx ?f (named type tname p)" and free: "rde_free_scan type sid 0 ?row = Some idx"
  then have p': "p' = q\<lparr>shared := (shared q)\<lparr>rde_count := rde_count (shared p) + 1\<rparr>\<rparr>" using ret by simp
  have f: "rde_type (?f r) = type" "rde_space_id (?f r) = sid" for r by (simp_all add: entry_filled_def)
  have wf': "rde_wf p'" unfolding p' rde_wf_count q by (rule fill_wf(1) [OF assms(1,3,2) free f(1)])
  have idx: "idx < length ?row" "\<forall>m<idx. rde_type (?row ! m) \<noteq> GPICAP_TYPE_NONE" using rde_free_scan_SomeD [OF free] by auto
  then have "idx = 0" using no_default(1) [OF assms(1,3,2,4), of "?row ! 0"] by (cases ?row) auto
  moreover have "rde (shared p') ! unat type = ?row[idx := ?f (?row ! idx)]"
    using assms(1,3) by (simp add: p' q rde_set_rde rde_wf_def word_less_nat_alt)
  ultimately show ?thesis
    using idx(1) f rde_scan_first [of 0 "?row[0 := ?f (?row ! 0)]" type BADGE_SPACE_ID_NULL 0]
    by (simp add: pd_rde_get_row [OF wf' assms(3)] rde_match_def)
qed (use ret in auto)

lemma add_rde_keeps:
  assumes "rde_wf p" "type \<noteq> 0" "type < GPICAP_TYPE_MAX" "real_space sid" "sid \<le> 0xFF" "pd_rde_get p type sid = Some None"
    and "pd_vka p = Some v" "pd_id p \<le> 0xFFFFF" and led: "rde_led p"
    and ret: "pd_add_rde E type tname sid raw p w = Some (e, p', w')"
  shows "rde_wf p' \<and> keeps_entries p p'"
proof (rule pd_add_rde_cases [OF assms(1,3,7,8,5), of E tname raw w])
  fix idx e' w2
  assume "pd_add_rde E type tname sid raw p w = Some (e', set_rde type idx (entry_filled type sid raw) (named type tname p), w2)"
    and free: "rde_free_scan type sid 0 (rde (shared p) ! unat type) = Some idx"
  then have "p' = set_rde type idx (entry_filled type sid raw) (named type tname p)" using ret by simp
  then show ?thesis by (intro conjI fill_keeps [OF assms(1-4,6) free _ _ disjI1 led]) (simp_all add: entry_filled_def)
next
  fix idx dest w2 q
  assume "pd_add_rde E type tname sid raw p w = Some (0, q\<lparr>shared := (shared q)\<lparr>rde_count := rde_count (shared p) + 1\<rparr>\<rparr>, w2)"
    and q: "q = set_rde type idx (\<lambda>r. entry_filled type sid raw r\<lparr>slot_in_PD := dest\<rparr>) (named type tname p)"
    and free: "rde_free_scan type sid 0 (rde (shared p) ! unat type) = Some idx"
  then have "p' = q\<lparr>shared := (shared q)\<lparr>rde_count := rde_count (shared p) + 1\<rparr>\<rparr>" using ret by simp
  then show ?thesis unfolding q by (intro conjI fill_keeps [OF assms(1-4,6) free _ _ disjI2 led]) (simp_all add: entry_filled_def)
qed (use ret assms(1) in simp)

text \<open>
  What a request to share that is answered with 0 achieves, from the directory \<open>p\<close> of the target to \<open>p'\<close>, for the client's PD \<open>c\<close>. There is
  an entry for the space. It is of the type, and for the space asked for, or, if the default space was asked for and the PD had no entry of the type, for the
  default space of the client. The only other case is a request for the default space to a PD from which an entry of the type was removed before: the lookup takes
  the removed entry for one that is there, and nothing is shared.
\<close>

definition reached :: "pd_component_registry_entry_t option \<Rightarrow> gpi_cap_t \<Rightarrow> gpi_space_id_t \<Rightarrow> pd_t \<Rightarrow> pd_t \<Rightarrow> osmosis_rde_t \<Rightarrow> bool" where
  "reached c type sid p p' d \<longleftrightarrow> pd_rde_get p' type sid = Some (Some d) \<and>
     (rde_type d = type \<and> (sid \<noteq> BADGE_SPACE_ID_NULL \<longrightarrow> rde_space_id d = sid) \<and>
        (pd_rde_get p type sid = Some None \<longrightarrow>
          (\<exists>x q. c = Some x \<and> pd_rde_get (pd x) type sid = Some (Some q) \<and> rde_space_id d = rde_space_id q)) \<or>
      sid = BADGE_SPACE_ID_NULL \<and> \<not> no_removed type p \<and> p' = p \<and> slot_in_PD d = 0)"

lemma reached_before:
  assumes "rde_wf p" "type \<noteq> 0" "type < GPICAP_TYPE_MAX" "sid \<noteq> 0" "pd_rde_get p type sid = Some (Some d)"
  shows "reached c type sid p p d"
proof -
  note m = rde_get_match [OF assms(1,3,5)]
  then have r: "rde_free d \<or> rde_type d = type" using rde_wf_row(2) [OF assms(1,3)] by (auto simp: rde_row_wf_def list_all_iff)
  show ?thesis
    using m r assms(4,5) by (auto simp: reached_def rde_match_def rde_free_def no_removed_def)
qed

text \<open>The request, answered: entries are kept, and without an error the PD has an entry for the type and the space.\<close>

lemma share_rde_answered:
  assumes "handle_share_rde_req E badge type sid s = Some (r, s')"
    and "pd_component_registry_get_entry_by_badge badge s = Some e"
    and d: "rde_wf (pd e)" "rde_led (pd e)" "pd_vka (pd e) = Some v" "pd_id (pd e) \<le> 0xFFFFF" "space_ids_ok s"
    and t: "type \<noteq> 0" "type < GPICAP_TYPE_MAX" and sid: "sid \<noteq> 0" "sid \<le> BADGE_SPACE_ID_NULL"
  shows "\<exists>e'. pd_component_registry_get_entry_by_badge badge s' = Some e' \<and> rde_wf (pd e') \<and> rde_led (pd e') \<and> keeps_entries (pd e) (pd e') \<and>
    resspc_component s' = resspc_component s \<and>
    (errorCode r = 0 \<longrightarrow> (\<exists>d. reached (pd_component_registry_get_entry_by_id (get_client_id_from_badge badge) s) type sid (pd e) (pd e') d))"
proof -
  let ?i = "get_object_id_from_badge badge" and ?c = "pd_component_registry_get_entry_by_id (get_client_id_from_badge badge) s"
  have tgt: "pd_component_registry_get_entry_by_id ?i s = Some e" "ucast (object_id e) = ?i" using assms(2) get_id by (auto simp: by_badge)
  consider d where "s' = s" "pd_rde_get (pd e) type sid = Some (Some d)" | "s' = s" "errorCode r \<noteq> 0"
    | c q tname raw sp where "?c = Some c" "pd_rde_get (pd c) type sid = Some (Some q)" "pd_rde_get (pd e) type sid = Some None"
      "resource_space_get_entry_by_id (rde_space_id q) s = Some sp" "on_pd ?i (pd_add_rde E type tname (rde_space_id q) raw) s = Some (errorCode r, s')"
    using assms(1,2) tgt(2) by (auto simp: handle_share_rde_req_def PdComponentError_UNKNOWN_def split: option.splits bind_splits if_splits)
  then show ?thesis
  proof cases
    case 1
    then show ?thesis using assms(2) d reached_before [OF d(1) t sid(1) 1(2), of ?c] by auto
  next
    case 3
    let ?k = "rde_space_id q"
    have k: "?k \<noteq> 0" "?k < BADGE_SPACE_ID_NULL" using d(5) 3(4) by (auto simp: space_ids_ok_def)
    then have real: "real_space ?k" "?k \<le> 0xFF" by (auto simp: badge_const_defs word_less_nat_alt word_le_nat_alt real_space_def)
    have none: "pd_rde_get (pd e) type ?k = Some None"
    proof (cases "sid = BADGE_SPACE_ID_NULL")
      case True
      with no_default(2) [OF d(1) t(2,1) _ real(1)] 3(3) show ?thesis by simp
    qed (use rde_get_space [OF 3(2)] 3(3) in simp)
    obtain p w where p: "pd_add_rde E type tname ?k raw (pd e) (world s) = Some (errorCode r, p, w)"
      and s': "pd_component_registry_get_entry_by_id ?i s' = Some (e\<lparr>pd := p\<rparr>)" "resspc_component s' = resspc_component s"
      by (rule get_on_pd [OF 3(5)]) (simp add: tgt)
    have "\<exists>d. reached ?c type sid (pd e) p d" if z: "errorCode r = 0"
    proof (cases "sid = BADGE_SPACE_ID_NULL")
      case True
      have z': "pd_add_rde E type tname ?k raw (pd e) (world s) = Some (0, p, w)" using p z by simp
      have n: "pd_rde_get (pd e) type BADGE_SPACE_ID_NULL = Some None" using 3(3) True by simp
      from add_default [OF d(1) t n real(2) d(3,4) z'] show ?thesis
        using True 3(1,2) by (auto simp: reached_def)
    next
      case False
      then have "?k = sid" by (rule rde_get_space [OF 3(2)])
      then show ?thesis using pd_add_rde_finds [OF d(1) t k d(3,4), of E tname raw "world s" p w] p z 3(1,2) by (auto simp: reached_def)
    qed
    then show ?thesis
      using add_rde_keeps [OF d(1) t real(1,2) none d(3,4,2) p] rde_led_add [OF d(1,2) t(2) d(3,4) real(2) p] s' by (auto simp: by_badge)
  qed (use assms(2) d in auto)
qed

text \<open>The same for the call of a client.\<close>

lemma share_rde_call:
  assumes "pd_client_share_rde C target type sid (recv, s) = Some (Some error, recv', s')"
    and b: "slot_badge_of C target (world s) = Some badge" and e: "pd_component_registry_get_entry_by_badge badge s = Some e"
    and d: "rde_wf (pd e)" "rde_led (pd e)" "pd_vka (pd e) = Some v" "pd_id (pd e) \<le> 0xFFFFF" "space_ids_ok s"
    and t: "type \<noteq> 0" "type < GPICAP_TYPE_MAX" "sid \<noteq> 0" "sid \<le> BADGE_SPACE_ID_NULL"
  shows "\<exists>e'. pd_component_registry_get_entry_by_badge badge s' = Some e' \<and> rde_wf (pd e') \<and> rde_led (pd e') \<and> keeps_entries (pd e) (pd e') \<and>
    resspc_component s' = resspc_component s \<and>
    (error = 0 \<longrightarrow> (\<exists>d. reached (pd_component_registry_get_entry_by_id (get_client_id_from_badge badge) s) type sid (pd e) (pd e') d))"
proof -
  obtain q where q: "sel4gpi_rpc_call C target PD_RPC_MAGIC (Pd_Msg (Pd_Share_rde type sid)) [] (recv, s) = Some (Some q, recv', s')" "error = ret_error q"
    using assms(1) by (auto simp: pd_client_share_rde_def ask_Some)
  then obtain r where r: "q = (False, r)" using b by (auto simp: sel4gpi_rpc_call_def split: bind_splits)
  obtain w new s1 w' where h: "request_handler (api_kernel C) (api_depth C) PD_RPC_MAGIC (Pd_Msg (Pd_Share_rde type sid))
      (received_words (\<lambda>c. slot_badge_of C c (world s)) (old_words C (world s)) []) badge recv (s\<lparr>world := w\<rparr>) = Some (r, True, new, s1)"
    "s' = s1\<lparr>world := w'\<rparr>"
    by (rule call_answered [OF q(1) [unfolded r]]) (use b in auto)
  have err: "error = reply_error r" by (simp add: q(2) r ret_error_def)
  have ids: "space_ids_ok (s\<lparr>world := w\<rparr>)" using d(5) by (simp add: space_ids_ok_def resource_component_registry_get_by_id_def)
  consider x where "handle_share_rde_req (api_kernel C) badge type sid (s\<lparr>world := w\<rparr>) = Some (x, s1)" "r = Plain x" | "s1 = s\<lparr>world := w\<rparr>" "reply_error r \<noteq> 0"
    using h(1) by (auto simp: request_handler_def pd_component_handle_def PdComponentError_UNKNOWN_def Let_def split: if_splits)
  then have "\<exists>e'. pd_component_registry_get_entry_by_badge badge s1 = Some e' \<and> rde_wf (pd e') \<and> rde_led (pd e') \<and> keeps_entries (pd e) (pd e') \<and>
    resspc_component s1 = resspc_component s \<and>
    (error = 0 \<longrightarrow> (\<exists>d. reached (pd_component_registry_get_entry_by_id (get_client_id_from_badge badge) s) type sid (pd e) (pd e') d))"
  proof cases
    case 1
    then show ?thesis using share_rde_answered [OF 1(1) _ d(1-4) ids t] e err by (auto simp: by_badge)
  qed (use e d err in \<open>auto simp: by_badge\<close>)
  then show ?thesis using h(2) by (simp add: by_badge)
qed

lemma reached_page:
  assumes "rde_wf p'" "rde_led p'" "type \<noteq> 0" "type < GPICAP_TYPE_MAX" "reached c type sid p p' d"
  shows "sel4gpi_get_rde_by_space_id (shared p') sid type = Some (slot_in_PD d)"
  using lookup_alike [OF assms(1-4)] assms(5) by (simp add: reached_def)

text \<open>
  C11: sharing reaches the page of the PD. When a client shares an entry of its directory with a PD, for a space or for the default space (the null space), and
  the call returns 0, the directory of that PD has an entry, and the endpoint which the PD finds in its page is the slot of this entry. The entry is of the
  type and for the space that was asked for, or the default entry of the PD; if the PD had none, it is for the space that is the client's default.
  There is one exception (see \<open>reached\<close>): if an entry of the type was removed from the PD before, a request for the default space may
  return 0 although nothing is shared, and the PD finds the null capability. The directory stays well-formed. (The directory of the PD is well formed and its
  first entries lead, its capability space exists and its ID fits a badge, and the IDs of spaces are below the null ID.)
\<close>

theorem shared_rde_found:
  assumes "pd_client_share_rde C target type sid (recv, s) = Some (Some 0, recv', s')"
    and "slot_badge_of C target (world s) = Some badge" "pd_component_registry_get_entry_by_badge badge s = Some e"
    and "rde_wf (pd e)" "rde_led (pd e)" "pd_vka (pd e) = Some v" "pd_id (pd e) \<le> 0xFFFFF" "space_ids_ok s"
    and "type \<noteq> 0" "type < GPICAP_TYPE_MAX" "sid \<noteq> 0" "sid \<le> BADGE_SPACE_ID_NULL"
  shows "\<exists>e' d. pd_component_registry_get_entry_by_badge badge s' = Some e' \<and> rde_wf (pd e') \<and> rde_led (pd e') \<and>
    sel4gpi_get_rde_by_space_id (shared (pd e')) sid type = Some (slot_in_PD d) \<and>
    reached (pd_component_registry_get_entry_by_id (get_client_id_from_badge badge) s) type sid (pd e) (pd e') d"
  using share_rde_call [OF assms] reached_page [OF _ _ assms(9,10)] by metis

text \<open>The maker of a PD, PD 7, has a directory with an address space (space 6), the space 4 of memory objects and the space of spaces; the new PD 5 has an empty one.
  The slot 20 of PD 7 is the connection to PD 5.\<close>

definition dir_rde :: "gpi_cap_t \<Rightarrow> gpi_space_id_t \<Rightarrow> osmosis_rde_t" where
  "dir_rde t sid = \<lparr>slot_in_RT = 77, slot_in_PD = 9, rde_type = t, rde_space_id = sid\<rparr>"

definition maker_page :: osm_pd_shared_data_t where
  "maker_page = blank_shared\<lparr>rde := (replicate 17 (replicate 8 empty_rde))[2 := dir_rde 2 6 # replicate 7 empty_rde,
     3 := dir_rde 3 4 # replicate 7 empty_rde, 8 := dir_rde 8 1 # replicate 7 empty_rde]\<rparr>"

definition space_entry :: "gpi_cap_t \<Rightarrow> gpi_space_id_t \<Rightarrow> resspc_component_registry_entry_t" where
  "space_entry t sid = \<lparr>object_id = ucast sid, count = 1, space = \<lparr>space_id = sid, resource_type = t, space_server_ep = 77, map_spaces = [], space_pd_id = 0,
     space_to_delete = False, cleanup_policy = False, space_deleting = False, space_deletion_depth = 0, dont_notify = False\<rparr>\<rparr>"

definition sharing_server :: "kcall list gpi_server" where
  "sharing_server = (server_with [pd_entry 7 (\<lambda>p. p\<lparr>shared := maker_page\<rparr>), pd_entry 5 (\<lambda>p. p)])
     \<lparr>resspc_component := (started_component GPICAP_TYPE_RESSPC RESSPC_SPACE_ID)\<lparr>registry := (resource_registry_initialize 0xFE)\<lparr>head :=
       [space_entry 8 1, space_entry 3 4, space_entry 2 6]\<rparr>\<rparr>\<rparr>"

definition sharing_badge :: u64 where "sharing_badge = 0x0600020000700005"

lemma sharing_badge_fields: "get_cap_type_from_badge sharing_badge = 6" "get_client_id_from_badge sharing_badge = 7" "get_object_id_from_badge sharing_badge = 5"
  by (simp_all add: sharing_badge_def badge_defs)

definition sharing_env :: "(nat \<Rightarrow> u64) \<Rightarrow> kcall list api_env" where
  "sharing_env old = \<lparr>api_kernel = trace_env, api_depth = 4, slot_badge_of = (\<lambda>c _. if c = 20 then Some sharing_badge else None), old_words = (\<lambda>_. old)\<rparr>"

lemma sharing_target:
  "pd_component_registry_get_entry_by_id 5 sharing_server = Some (pd_entry 5 (\<lambda>p. p))"
  "rde_wf (pd (pd_entry 5 (\<lambda>p. p)))" "rde_led (pd (pd_entry 5 (\<lambda>p. p)))" "pd_vka (pd (pd_entry 5 (\<lambda>p. p))) = Some (Pd_Vka 5)"
  "pd_id (pd (pd_entry 5 (\<lambda>p. p))) \<le> 0xFFFFF" "rde (shared (pd (pd_entry 5 (\<lambda>p. p)))) = replicate 17 (replicate 8 empty_rde)"
proof -
  show "rde (shared (pd (pd_entry 5 (\<lambda>p. p)))) = replicate 17 (replicate 8 empty_rde)"
    by (simp add: pd_entry_def blank_pd_def blank_shared_def unat_cap_max MAX_NS_PER_RDE_def)
  then show "rde_led (pd (pd_entry 5 (\<lambda>p. p)))"
    by (simp add: rde_led_def list_all_iff row_led_def list_ex_iff rde_match_def empty_rde_def badge_const_defs unat_cap_max)
  show "rde_wf (pd (pd_entry 5 (\<lambda>p. p)))" by (rule blank_rde_wf) (simp_all add: pd_entry_def blank_pd_def)
qed (simp_all add: sharing_server_def server_with_def pd_entry_def resource_component_registry_get_by_id_def resource_registry_get_by_id_def)

lemma sharing_entry: "pd_component_registry_get_entry_by_badge sharing_badge sharing_server = Some (pd_entry 5 (\<lambda>p. p))"
  by (simp add: by_badge sharing_badge_fields sharing_target(1))

lemma sharing_clean: "no_removed 3 (pd (pd_entry 5 (\<lambda>p. p)))" "pd_rde_get (pd (pd_entry 5 (\<lambda>p. p))) 3 BADGE_SPACE_ID_NULL = Some None"
  by (simp add: no_removed_def sharing_target(6) empty_rde_def badge_const_defs) code_simp

lemma sharing_client:
  "\<exists>e. pd_component_registry_get_entry_by_id 7 sharing_server = Some e \<and> pd_rde_get (pd e) 3 BADGE_SPACE_ID_NULL = Some (Some (dir_rde 3 4))"
proof -
  have "map_option (\<lambda>e. pd_rde_get (pd e) 3 BADGE_SPACE_ID_NULL) (pd_component_registry_get_entry_by_id 7 sharing_server) = Some (Some (Some (dir_rde 3 4)))"
    by code_simp
  then show ?thesis by auto
qed

lemma sharing_ids: "space_ids_ok sharing_server"
proof -
  have h: "head (registry (resspc_component sharing_server)) = [space_entry 8 1, space_entry 3 4, space_entry 2 6]" by (simp add: sharing_server_def)
  have "k \<noteq> 0 \<and> k < BADGE_SPACE_ID_NULL" if "resource_space_get_entry_by_id k sharing_server = Some e" for k e
  proof -
    have "(ucast k :: u64) \<in> {1, 4, 6}"
      using that HASH_FIND_Some [of _ "ucast k" e]
      by (auto simp: resource_component_registry_get_by_id_def resource_registry_get_by_id_def h space_entry_def split: if_splits)
    moreover have "(ucast k :: u64) = ucast n \<longleftrightarrow> k = n" for n by (rule ucast_32_64_eq)
    from this [of 1] this [of 4] this [of 6] have "(ucast k :: u64) \<in> {1, 4, 6} \<longleftrightarrow> k \<in> {1, 4, 6}" by simp
    ultimately have "k \<in> {1, 4, 6}" by simp
    then show ?thesis by (auto simp: badge_const_defs)
  qed
  then show ?thesis by (simp add: space_ids_ok_def)
qed

theorem shared_rde_found_witness:
  "\<exists>recv' s' e' d. pd_client_share_rde (sharing_env (\<lambda>_. 0)) 20 3 BADGE_SPACE_ID_NULL (1, sharing_server) = Some (Some 0, recv', s') \<and>
    pd_component_registry_get_entry_by_badge sharing_badge s' = Some e' \<and> pd_rde_get (pd e') 3 BADGE_SPACE_ID_NULL = Some (Some d) \<and>
    sel4gpi_get_rde_by_space_id (shared (pd e')) BADGE_SPACE_ID_NULL 3 = Some (slot_in_PD d) \<and> rde_type d = 3 \<and> rde_space_id d = 4"
proof -
  have "map_option fst (pd_client_share_rde (sharing_env (\<lambda>_. 0)) 20 3 BADGE_SPACE_ID_NULL (1, sharing_server)) = Some (Some 0)" by code_simp
  then obtain recv' s' where r: "pd_client_share_rde (sharing_env (\<lambda>_. 0)) 20 3 BADGE_SPACE_ID_NULL (1, sharing_server) = Some (Some 0, recv', s')" by auto
  have b: "slot_badge_of (sharing_env (\<lambda>_. 0)) 20 (world sharing_server) = Some sharing_badge" by (simp add: sharing_env_def)
  have t: "(3::gpi_cap_t) \<noteq> 0" "(3::gpi_cap_t) < GPICAP_TYPE_MAX" "BADGE_SPACE_ID_NULL \<noteq> 0" "BADGE_SPACE_ID_NULL \<le> BADGE_SPACE_ID_NULL"
    by (simp_all add: cap_type_defs badge_const_defs)
  obtain c where c: "pd_component_registry_get_entry_by_id (get_client_id_from_badge sharing_badge) sharing_server = Some c"
    "pd_rde_get (pd c) 3 BADGE_SPACE_ID_NULL = Some (Some (dir_rde 3 4))" using sharing_client by (auto simp: sharing_badge_fields)
  show ?thesis using shared_rde_found [OF r b sharing_entry sharing_target(2-5) sharing_ids t] r sharing_clean c
    by (auto simp: reached_def dir_rde_def)
qed

subsection \<open>The endpoint of the own PD\<close>

text \<open>
  C30: whether a PD gets the capability to one of its own endpoints depends on an earlier message. The client sends no capability with the request, but the server
  checks that it received one, by looking at the first word for capabilities in its message buffer. Although the endpoint and the PD exist and all kernel
  calls succeed, the call returns 0 if and only if an earlier message left a word there that is not 0.
\<close>

theorem own_endpoint_needs_leftover:
  assumes "slot_badge_of C e (world s) = Some badge" "get_cap_type_from_badge badge = GPICAP_TYPE_EP"
    and "get_object_id_from_badge badge \<noteq> BADGE_OBJ_ID_NULL"
    and "pd_component_registry_get_entry_by_id (get_client_id_from_badge badge) s = Some p"
    and "resource_component_registry_get_by_badge ep_component badge s = Some x"
    and ok: "\<forall>c w. err (fst (sys (api_kernel C) c w)) = 0"
  shows "\<exists>error slot srv. ep_client_get_raw_endpoint C e (recv, s) = Some (Some (error, slot), srv) \<and>
    (error = 0 \<longleftrightarrow> old_words C (world s) 0 \<noteq> 0) \<and> (slot \<noteq> None \<longleftrightarrow> old_words C (world s) 0 \<noteq> 0)"
proof -
  have sel: "select_component badge = Some Ep_Component" using assms(2) by (simp add: select_component_def cap_type_defs)
  have g: "resource_component_registry_get_by_badge ep_component badge (s\<lparr>world := w\<rparr>) = Some x" for w
    using assms(5) by (simp add: resource_component_registry_get_by_badge_def)
  have m: "seL4_GetCap (received_words b old []) 0 = old 0" for b old by (simp add: received_words_def)
  show ?thesis
    using assms(1,3,4) ok
    by (simp add: ep_client_get_raw_endpoint_def get_raw_endpoint_def sel4gpi_rpc_call_def gpi_server_turn_def sel kern_world kern0_def request_handler_def
        ep_component_handle_def handle_get_raw_endpoint_def sel4gpi_rpc_check_cap_def m g resource_component_transfer_cap_def finish_request_def ask_def ret_with_def
        ret_error_def PdComponentError_UNKNOWN_def Let_def split_beta split: prod.split)
qed

text \<open>The PD 7 and its endpoint 5; the slot 20 is the connection to the endpoint.\<close>

definition endpoint_badge :: u64 where "endpoint_badge = 0x0700020000700005"

definition endpoint_server :: "kcall list gpi_server" where
  "endpoint_server = sharing_server\<lparr>ep_component := (started_component GPICAP_TYPE_EP 6)\<lparr>registry := (resource_registry_initialize 0xFFFFE)\<lparr>head :=
     [\<lparr>object_id = 5, count = 1, ep = \<lparr>ep_id = 5, endpoint_in_RT = 30\<rparr>\<rparr>]\<rparr>\<rparr>\<rparr>"

definition endpoint_env :: "u64 \<Rightarrow> kcall list api_env" where
  "endpoint_env old = \<lparr>api_kernel = trace_env, api_depth = 4, slot_badge_of = (\<lambda>_ _. Some endpoint_badge), old_words = (\<lambda>_ _. old)\<rparr>"

theorem own_endpoint_needs_leftover_witness:
  "\<exists>error slot srv srv'. ep_client_get_raw_endpoint (endpoint_env 0) 20 (1, endpoint_server) = Some (Some (error, None), srv) \<and> error \<noteq> 0 \<and>
    ep_client_get_raw_endpoint (endpoint_env 9) 20 (1, endpoint_server) = Some (Some (0, Some slot), srv')"
proof -
  have b: "slot_badge_of (endpoint_env old) 20 (world endpoint_server) = Some endpoint_badge" "get_cap_type_from_badge endpoint_badge = GPICAP_TYPE_EP"
    "get_object_id_from_badge endpoint_badge \<noteq> BADGE_OBJ_ID_NULL" "get_client_id_from_badge endpoint_badge = 7" "get_object_id_from_badge endpoint_badge = 5" for old
    by (simp_all add: endpoint_env_def endpoint_badge_def badge_defs badge_const_defs cap_type_defs)
  have p: "\<exists>p. pd_component_registry_get_entry_by_id 7 endpoint_server = Some p"
    using sharing_client by (auto simp: endpoint_server_def resource_component_registry_get_by_id_def)
  have x: "\<exists>x. resource_component_registry_get_by_badge ep_component endpoint_badge endpoint_server = Some x"
    by (simp add: by_badge b(5)) (simp add: endpoint_server_def resource_component_registry_get_by_id_def resource_registry_get_by_id_def started_component_def)
  have ok: "\<forall>c w. err (fst (sys (api_kernel (endpoint_env old)) c w)) = 0" "old_words (endpoint_env old) (world endpoint_server) 0 = old" for old
    by (simp_all add: endpoint_env_def)
  obtain q y where "pd_component_registry_get_entry_by_id (get_client_id_from_badge endpoint_badge) endpoint_server = Some q"
    "resource_component_registry_get_by_badge ep_component endpoint_badge endpoint_server = Some y" using p x b(4) by auto
  from own_endpoint_needs_leftover [OF b(1-3) this ok(1), of 0 1] own_endpoint_needs_leftover [OF b(1-3) this ok(1), of 9 1]
  show ?thesis by (auto simp: ok(2))
qed

end
