(* ===== verification/Pd_Creation.thy ===== *)
theory Pd_Creation
  imports Client_Use Gpi_Elf
begin

section \<open>Creating PDs (pd\_creation.c, pd\_utils.c)\<close>

text \<open>
  How a PD makes another one: the connections to a new PD, address space and CPU, the configuration of a process or a thread, the regions of its address space and
  the entries of its directory. Every step is a request to the root task (theory Client_Api). The client finds the endpoints for its requests in the page of its
  directory, which the root task writes: here the page is the one in the record of the PD in the server.

  A linked list is the list of its elements (theory Linked_List shows that it behaves like one). The last step, \<open>sel4gpi_prepare_pd\<close>, is in theory Prepare_Pd.
\<close>

subsection \<open>Data\<close>

type_synonym conn = "cptr \<times> gpi_obj_id_t"

record sel4gpi_runnable_t =
  run_pd :: conn
  run_ads :: conn
  run_cpu :: conn

datatype gpi_share_degree_t = GPI_NONE | GPI_SHARED | GPI_DISJOINT

record vmr_config_t =
  share_mode :: gpi_share_degree_t
  vmr_cfg_type :: int
  vmr_start :: u64
  vmr_dest_start :: u64
  region_pages :: u64
  vmr_page_bits :: u64
  vmr_mo :: conn

record runtime_context_t =
  rt_entry_point :: u64
  rt_osm_data :: u64
  stack_cfg :: "vmr_config_t option"
  ipc_buf_cfg :: "vmr_config_t option"
  loaded_elf :: bool

record ads_config_t =
  cfg_image_name :: string
  cfg_entry_point :: u64
  vmr_cfgs :: "vmr_config_t list option"

record rde_config_t =
  rc_type :: gpi_cap_t
  rc_space :: gpi_space_id_t

record pd_config_t =
  osm_data_mo :: conn
  ads_cfg :: ads_config_t
  rde_cfg :: "rde_config_t list option"
  gpi_res_type_cfg :: "gpi_cap_t list option"
  elevated_cpu :: bool
  link_with_current :: bool
  fault_ep_cfg :: "cptr \<times> cptr"
  fault_ep_badge :: u64
  cpu_prio :: int

text \<open>What \<open>calloc\<close> gives.\<close>

definition blank_vmr :: vmr_config_t where
  "blank_vmr = \<lparr>share_mode = GPI_NONE, vmr_cfg_type = 0, vmr_start = 0, vmr_dest_start = 0, region_pages = 0, vmr_page_bits = 0, vmr_mo = (0, 0)\<rparr>"

definition blank_config :: "conn \<Rightarrow> pd_config_t" where
  "blank_config m = \<lparr>osm_data_mo = m, ads_cfg = \<lparr>cfg_image_name = [], cfg_entry_point = 0, vmr_cfgs = None\<rparr>, rde_cfg = None, gpi_res_type_cfg = None,
     elevated_cpu = False, link_with_current = False, fault_ep_cfg = (0, 0), fault_ep_badge = 0, cpu_prio = 0\<rparr>"

text \<open>The environment: the client interface, the files, the ID of the own PD, the types of regions and the larger page size, and whether the client has memory left.\<close>

record 'w creation_env =
  api :: "'w api_env"
  elf_files :: "'w elf_env"
  own_id :: gpi_obj_id_t
  TYPE_STACK :: int
  TYPE_HEAP :: int
  TYPE_CODE :: int
  TYPE_IPC_BUF :: int
  TYPE_OSM_DATA :: int
  MO_LARGE_PAGE_BITS :: u64
  has_memory :: bool

definition DEFAULT_STACK_PAGES :: u64 where "DEFAULT_STACK_PAGES = 16"
definition DEFAULT_HEAP_PAGES :: u64 where "DEFAULT_HEAP_PAGES = 100"
definition PD_HEAP_LOC :: u64 where "PD_HEAP_LOC = 0x5000000000"

definition MO_PAGE_BITS :: "'w creation_env \<Rightarrow> u64" where "MO_PAGE_BITS K = seL4_PageBits (api_kernel (api K))"

text \<open>Sequences of requests: a client that waits does not go on.\<close>

definition after :: "('a, 'w) api_result \<Rightarrow> ('a \<Rightarrow> 'w rt_server \<Rightarrow> ('b, 'w) api_result) \<Rightarrow> ('b, 'w) api_result" where
  "after x f = (case x of None \<Rightarrow> None | Some (None, srv) \<Rightarrow> Some (None, srv) | Some (Some a, srv) \<Rightarrow> f a srv)"

definition done_with :: "'a \<Rightarrow> 'w rt_server \<Rightarrow> ('a, 'w) api_result" where "done_with a srv = Some (Some a, srv)"

text \<open>The page of the directory of the client.\<close>

definition own_page :: "'w creation_env \<Rightarrow> 'w rt_server \<Rightarrow> osm_pd_shared_data_t option" where
  "own_page K srv = map_option (\<lambda>e. shared (pd e)) (pd_component_registry_get_entry_by_id (own_id K) (snd srv))"

definition own_rde :: "'w creation_env \<Rightarrow> gpi_cap_t \<Rightarrow> 'w rt_server \<Rightarrow> cptr option" where
  "own_rde K type srv = do { d \<leftarrow> own_page K srv; sel4gpi_get_rde d type }"

definition sel4gpi_get_ads_conn :: "osm_pd_shared_data_t \<Rightarrow> conn" where "sel4gpi_get_ads_conn d = (ads_conn_ep d, ads_conn_id d)"

subsection \<open>Helpers of a client (pd\_utils.c)\<close>

text \<open>The address of the region, 0 if there is an error, and its memory object.\<close>

definition get_vmr ::
    "'w creation_env \<Rightarrow> cptr \<Rightarrow> u32 \<Rightarrow> u64 \<Rightarrow> int \<Rightarrow> u64 \<Rightarrow> u64 \<Rightarrow> 'w rt_server \<Rightarrow> (u64 \<times> conn option, 'w) api_result" where
  "get_vmr K vmr_rde pages va vtype bits paddr srv =
     (if sint pages \<le> 0 then done_with (0, None) srv
      else if bits \<noteq> MO_PAGE_BITS K \<and> bits \<noteq> MO_LARGE_PAGE_BITS K then done_with (0, None) srv
      else do {
        mo_rde \<leftarrow> own_rde K GPICAP_TYPE_MO srv;
        if mo_rde = seL4_CapNull then done_with (0, None) srv
        else after (if paddr \<noteq> 0 then mo_component_client_connect_paddr (api K) mo_rde pages bits paddr srv
                    else mo_component_client_connect (api K) mo_rde pages bits srv) (\<lambda>(error, m) srv.
          if error \<noteq> 0 then done_with (0, None) srv
          else do {
            m \<leftarrow> m;
            after (vmr_client_attach_no_reserve (api K) vmr_rde va (fst m) vtype srv) (\<lambda>(error, new_va) srv.
              if error \<noteq> 0 then done_with (0, None) srv
              else do { new_va \<leftarrow> new_va; done_with (new_va, Some m) srv }) }) })"

definition sel4gpi_get_vmr :: "'w creation_env \<Rightarrow> cptr \<Rightarrow> u32 \<Rightarrow> u64 \<Rightarrow> int \<Rightarrow> u64 \<Rightarrow> 'w rt_server \<Rightarrow> (u64 \<times> conn option, 'w) api_result" where
  "sel4gpi_get_vmr K vmr_rde pages va vtype bits srv = get_vmr K vmr_rde pages va vtype bits 0 srv"

definition sel4gpi_get_vmr_at_paddr :: "'w creation_env \<Rightarrow> cptr \<Rightarrow> u32 \<Rightarrow> u64 \<Rightarrow> int \<Rightarrow> u64 \<Rightarrow> u64 \<Rightarrow> 'w rt_server \<Rightarrow> (u64 \<times> conn option, 'w) api_result" where
  "sel4gpi_get_vmr_at_paddr K vmr_rde pages va vtype bits paddr srv = get_vmr K vmr_rde pages va vtype bits paddr srv"

definition sel4gpi_destroy_vmr :: "'w creation_env \<Rightarrow> cptr \<Rightarrow> u64 \<Rightarrow> cptr \<Rightarrow> 'w rt_server \<Rightarrow> (int, 'w) api_result" where
  "sel4gpi_destroy_vmr K vmr_rde va m srv =
     after (vmr_client_delete_by_vaddr (api K) vmr_rde va srv) (\<lambda>error srv.
       if error \<noteq> 0 then done_with error srv else mo_component_client_disconnect (api K) m srv)"

definition sel4gpi_alloc_endpoint :: "'w creation_env \<Rightarrow> 'w rt_server \<Rightarrow> (int \<times> (cptr \<times> cptr) option, 'w) api_result" where
  "sel4gpi_alloc_endpoint K srv = do {
     ep_rde \<leftarrow> own_rde K GPICAP_TYPE_EP srv;
     if ep_rde = seL4_CapNull then done_with (1, None) srv else ep_component_client_connect (api K) ep_rde srv }"

subsection \<open>Configurations\<close>

definition sel4gpi_add_rde_config :: "'w creation_env \<Rightarrow> gpi_cap_t \<Rightarrow> gpi_space_id_t \<Rightarrow> pd_config_t \<Rightarrow> pd_config_t" where
  "sel4gpi_add_rde_config K type sid cfg =
     (let rs = (case rde_cfg cfg of None \<Rightarrow> [] | Some rs \<Rightarrow> rs)
      in cfg\<lparr>rde_cfg := Some (if has_memory K then rs @ [\<lparr>rc_type = type, rc_space = sid\<rparr>] else rs)\<rparr>)"

definition sel4gpi_add_vmr_config ::
    "'w creation_env \<Rightarrow> gpi_share_degree_t \<Rightarrow> int \<Rightarrow> u64 \<Rightarrow> u64 \<Rightarrow> u64 \<Rightarrow> u64 \<Rightarrow> conn option \<Rightarrow> ads_config_t \<Rightarrow> ads_config_t option" where
  "sel4gpi_add_vmr_config K mode vtype start dest_start pages bits m cfg = do {
     c_assert (has_memory K);
     Some (cfg\<lparr>vmr_cfgs := Some ((case vmr_cfgs cfg of None \<Rightarrow> [] | Some vs \<Rightarrow> vs) @ [\<lparr>share_mode = mode, vmr_cfg_type = vtype, vmr_start = start,
       vmr_dest_start = dest_start, region_pages = pages, vmr_page_bits = bits, vmr_mo = (case m of None \<Rightarrow> (0, 0) | Some m \<Rightarrow> m)\<rparr>])\<rparr>) }"

definition sel4gpi_add_res_type_config :: "gpi_cap_t \<Rightarrow> pd_config_t \<Rightarrow> pd_config_t" where
  "sel4gpi_add_res_type_config type cfg = cfg\<lparr>gpi_res_type_cfg := Some ((case gpi_res_type_cfg cfg of None \<Rightarrow> [] | Some ts \<Rightarrow> ts) @ [type])\<rparr>"

definition disjoint_vmr :: "int \<Rightarrow> u64 \<Rightarrow> vmr_config_t" where
  "disjoint_vmr vtype pages = blank_vmr\<lparr>vmr_cfg_type := vtype, share_mode := GPI_DISJOINT, region_pages := pages\<rparr>"

definition sel4gpi_generate_proc_config :: "'w creation_env \<Rightarrow> string \<Rightarrow> u64 \<Rightarrow> u64 \<Rightarrow> pd_config_t \<Rightarrow> pd_config_t option" where
  "sel4gpi_generate_proc_config K image_name stack_pages heap_pages cfg = do {
     c_assert (has_memory K);
     Some (cfg\<lparr>ads_cfg := (ads_cfg cfg)\<lparr>cfg_image_name := image_name, vmr_cfgs := Some
         [disjoint_vmr (TYPE_CODE K) 0, (disjoint_vmr (TYPE_HEAP K) heap_pages)\<lparr>vmr_start := PD_HEAP_LOC\<rparr>,
          disjoint_vmr (TYPE_STACK K) stack_pages, disjoint_vmr (TYPE_IPC_BUF K) 1]\<rparr>,
       rde_cfg := Some [\<lparr>rc_type = GPICAP_TYPE_MO, rc_space = BADGE_SPACE_ID_NULL\<rparr>, \<lparr>rc_type = GPICAP_TYPE_RESSPC, rc_space = BADGE_SPACE_ID_NULL\<rparr>]\<rparr>) }"

text \<open>The loops over the table of the directory.\<close>

fun add_used_rdes :: "'w creation_env \<Rightarrow> osmosis_rde_t list \<Rightarrow> pd_config_t \<Rightarrow> pd_config_t" where
  "add_used_rdes K [] cfg = cfg"
| "add_used_rdes K (r # rs) cfg =
     add_used_rdes K rs (if rde_type r \<noteq> GPICAP_TYPE_NONE then sel4gpi_add_rde_config K (rde_type r) (rde_space_id r) cfg else cfg)"

fun add_rde_rows :: "'w creation_env \<Rightarrow> osmosis_rde_t list list \<Rightarrow> pd_config_t \<Rightarrow> pd_config_t" where
  "add_rde_rows K [] cfg = cfg"
| "add_rde_rows K (row # rows) cfg = add_rde_rows K rows (add_used_rdes K row cfg)"

definition sel4gpi_config_pd_share_all_rdes :: "'w creation_env \<Rightarrow> osm_pd_shared_data_t \<Rightarrow> pd_config_t \<Rightarrow> pd_config_t" where
  "sel4gpi_config_pd_share_all_rdes K d cfg =
     add_rde_rows K (drop 1 (take (unat GPICAP_TYPE_MAX) (rde d))) (cfg\<lparr>rde_cfg := Some (case rde_cfg cfg of None \<Rightarrow> [] | Some rs \<Rightarrow> rs)\<rparr>)"

definition sel4gpi_generate_thread_config ::
    "'w creation_env \<Rightarrow> osm_pd_shared_data_t \<Rightarrow> u64 \<Rightarrow> (cptr \<times> cptr) option \<Rightarrow> pd_config_t \<Rightarrow> pd_config_t option" where
  "sel4gpi_generate_thread_config K d thread_fn fault cfg = do {
     c_assert (has_memory K);
     let cfg = (case fault of None \<Rightarrow> cfg | Some e \<Rightarrow> cfg\<lparr>fault_ep_cfg := e\<rparr>);
     let cfg = cfg\<lparr>link_with_current := True, ads_cfg := (ads_cfg cfg)\<lparr>cfg_entry_point := thread_fn,
        vmr_cfgs := Some [disjoint_vmr (TYPE_STACK K) DEFAULT_STACK_PAGES, disjoint_vmr (TYPE_IPC_BUF K) 1]\<rparr>\<rparr>;
     Some (sel4gpi_add_res_type_config GPICAP_TYPE_MO (sel4gpi_config_pd_share_all_rdes K d cfg)) }"

subsection \<open>A new PD\<close>

text \<open>The address of the top of the stack, 0 if there is an error, and the memory object of the stack. One page more is reserved, as a guard.\<close>

definition sel4gpi_new_sized_stack :: "'w creation_env \<Rightarrow> cptr \<Rightarrow> u64 \<Rightarrow> 'w rt_server \<Rightarrow> (u64 \<times> conn option, 'w) api_result" where
  "sel4gpi_new_sized_stack K vmr_rde pages srv = do {
     mo_rde \<leftarrow> own_rde K GPICAP_TYPE_MO srv;
     if mo_rde = seL4_CapNull then done_with (0, None) srv
     else (let page = 2 ^ unat (MO_PAGE_BITS K); bytes = (pages + 1) * page in
       after (vmr_client_reserve (api K) vmr_rde 0 bytes (MO_PAGE_BITS K) (TYPE_STACK K) srv) (\<lambda>(error, r) srv.
         if error \<noteq> 0 then done_with (0, None) srv
         else do {
           (va, region) \<leftarrow> r;
           after (mo_component_client_connect (api K) mo_rde (ucast pages) (MO_PAGE_BITS K) srv) (\<lambda>(error, m) srv.
             if error \<noteq> 0 then done_with (0, None) srv
             else do {
               m \<leftarrow> m;
               after (vmr_client_attach (api K) region (fst m) page srv) (\<lambda>error srv.
                 if error \<noteq> 0 then done_with (0, None) srv else done_with (va + bytes, Some m) srv) }) })) }"

text \<open>A connection that a request returned is written to the runnable; \<open>None\<close> for the configuration is the error.\<close>

definition connect_ads :: "'w creation_env \<Rightarrow> sel4gpi_runnable_t \<Rightarrow> 'w rt_server \<Rightarrow> (bool \<times> sel4gpi_runnable_t, 'w) api_result" where
  "connect_ads K run srv = do {
     ads_rde \<leftarrow> own_rde K GPICAP_TYPE_ADS srv;
     if ads_rde = seL4_CapNull then done_with (False, run) srv
     else after (ads_component_client_connect (api K) ads_rde srv) (\<lambda>(error, c) srv.
       if error \<noteq> 0 then done_with (False, run) srv else do { c \<leftarrow> c; done_with (True, run\<lparr>run_ads := c\<rparr>) srv }) }"

definition connect_cpu :: "'w creation_env \<Rightarrow> sel4gpi_runnable_t \<Rightarrow> 'w rt_server \<Rightarrow> (bool \<times> sel4gpi_runnable_t, 'w) api_result" where
  "connect_cpu K run srv = do {
     cpu_rde \<leftarrow> own_rde K GPICAP_TYPE_CPU srv;
     if cpu_rde = seL4_CapNull then done_with (False, run) srv
     else after (cpu_component_client_connect (api K) cpu_rde srv) (\<lambda>(error, c) srv.
       if error \<noteq> 0 then done_with (False, run) srv else do { c \<leftarrow> c; done_with (True, run\<lparr>run_cpu := c\<rparr>) srv }) }"

definition sel4gpi_new_runnable ::
    "'w creation_env \<Rightarrow> bool \<Rightarrow> bool \<Rightarrow> sel4gpi_runnable_t \<Rightarrow> 'w rt_server \<Rightarrow> (pd_config_t option \<times> sel4gpi_runnable_t, 'w) api_result" where
  "sel4gpi_new_runnable K new_ads new_cpu run srv = do {
     pd_rde \<leftarrow> own_rde K GPICAP_TYPE_PD srv;
     if pd_rde = seL4_CapNull then done_with (None, run) srv
     else do {
       mo_rde \<leftarrow> own_rde K GPICAP_TYPE_MO srv;
       if mo_rde = seL4_CapNull then done_with (None, run) srv
       else after (mo_component_client_connect (api K) mo_rde 1 (MO_PAGE_BITS K) srv) (\<lambda>(error, m) srv.
         if error \<noteq> 0 then done_with (None, run) srv
         else do {
           m \<leftarrow> m;
           after (pd_component_client_connect (api K) pd_rde (fst m) srv) (\<lambda>(error, p) srv.
             if error \<noteq> 0 then done_with (None, run) srv
             else do {
               p \<leftarrow> p;
               after (if new_ads then connect_ads K (run\<lparr>run_pd := p\<rparr>) srv else done_with (True, run\<lparr>run_pd := p\<rparr>) srv) (\<lambda>(ok, run) srv.
                 if \<not> ok then done_with (None, run) srv
                 else after (if new_cpu then connect_cpu K run srv else done_with (True, run) srv) (\<lambda>(ok, run) srv.
                   if \<not> ok then done_with (None, run) srv
                   else do { c_assert (has_memory K); done_with (Some (blank_config m), run) srv })) }) }) } }"

text \<open>The numbers of pages that are asked for are not used.\<close>

definition sel4gpi_configure_process ::
    "'w creation_env \<Rightarrow> string \<Rightarrow> int \<Rightarrow> int \<Rightarrow> sel4gpi_runnable_t \<Rightarrow> 'w rt_server \<Rightarrow> (pd_config_t option \<times> sel4gpi_runnable_t, 'w) api_result" where
  "sel4gpi_configure_process K image_name stack_pages heap_pages run srv =
     after (sel4gpi_new_runnable K True True run srv) (\<lambda>(cfg, run) srv. case cfg of
         None \<Rightarrow> done_with (None, run) srv
       | Some cfg \<Rightarrow> do {
           cfg \<leftarrow> sel4gpi_generate_proc_config K image_name DEFAULT_STACK_PAGES DEFAULT_HEAP_PAGES cfg;
           done_with (Some (cfg\<lparr>rde_cfg := map_option (\<lambda>rs. rs @ [\<lparr>rc_type = GPICAP_TYPE_VMR, rc_space = snd (run_ads run)\<rparr>]) (rde_cfg cfg)\<rparr>), run) srv })"

definition sel4gpi_configure_thread ::
    "'w creation_env \<Rightarrow> u64 \<Rightarrow> (cptr \<times> cptr) option \<Rightarrow> sel4gpi_runnable_t \<Rightarrow> 'w rt_server \<Rightarrow> (pd_config_t option \<times> sel4gpi_runnable_t, 'w) api_result" where
  "sel4gpi_configure_thread K thread_fn fault run srv =
     after (sel4gpi_new_runnable K False True run srv) (\<lambda>(cfg, run) srv. case cfg of
         None \<Rightarrow> done_with (None, run) srv
       | Some cfg \<Rightarrow> do {
           d \<leftarrow> own_page K srv;
           cfg \<leftarrow> sel4gpi_generate_thread_config K d thread_fn fault cfg;
           done_with (Some cfg, run\<lparr>run_ads := sel4gpi_get_ads_conn d\<rparr>) srv })"

subsection \<open>The address space\<close>

text \<open>The request to load an ELF file: a turn of the server in which the handler of theory Gpi_Elf runs. \<open>image_name\<close> must fit into the message.\<close>

definition load_elf_turn :: "'w creation_env \<Rightarrow> string \<Rightarrow> ipc \<Rightarrow> u64 \<Rightarrow> 'w rt_server \<Rightarrow> (pd_reply option \<times> 'w rt_server) option" where
  "load_elf_turn K image_name m badge = (\<lambda>(recv, s). do {
     c \<leftarrow> select_component badge;
     let (q, s) = kern (api_kernel (api K)) (Ipc (Rpc_recv (get_cap_type_from_badge badge))) s;
     c_assert (err q = 0 \<and> c = Ads_Component);
     (r, s) \<leftarrow> (if get_cap_type_from_badge badge = GPICAP_TYPE_VMR \<or>
           get_object_id_from_badge badge = BADGE_OBJ_ID_NULL \<and> get_space_id_from_badge badge = comp_space_id (ads_component s)
         then Some (error_reply UNKNOWN_ERR, s)
         else handle_load_elf_request (elf_files K) (pd_held_resource_on_delete (api_kernel (api K)) (api_depth (api K))) m badge image_name s);
     finish_request (api_kernel (api K)) (get_cap_type_from_badge badge) recv (Plain r, True, False, s) })"

definition ads_client_load_elf :: "'w creation_env \<Rightarrow> cptr \<Rightarrow> cptr \<Rightarrow> string \<Rightarrow> 'w rt_server \<Rightarrow> (int \<times> u64 option, 'w) api_result" where
  "ads_client_load_elf K loadee_ads loadee_pd image_name srv = do {
     c_assert (length image_name < RPC_NAME_SIZE);
     (case slot_badge_of (api K) loadee_ads (world (snd srv)) of
        None \<Rightarrow> done_with (1, None) srv
      | Some badge \<Rightarrow> do {
          let w = world (snd srv);
          (reply, srv) \<leftarrow> load_elf_turn K image_name (received_words (\<lambda>c. slot_badge_of (api K) c w) (old_words (api K) w) [loadee_pd]) badge srv;
          Some (map_option (\<lambda>r. ret_with (reply_field 0) (False, r)) reply, srv) }) }"

text \<open>
  One region of its own: the region with its address and memory object, and the entry point and whether a file was loaded now. The first result is the error with which the function is
  left, if it is. A stack or a region that cannot be allocated leaves it with the error that was returned last, 0.
\<close>

definition make_region ::
    "'w creation_env \<Rightarrow> cptr \<Rightarrow> sel4gpi_runnable_t \<Rightarrow> string \<Rightarrow> vmr_config_t \<Rightarrow> u64 \<times> bool \<Rightarrow> 'w rt_server \<Rightarrow> (int option \<times> vmr_config_t \<times> (u64 \<times> bool), 'w) api_result" where
  "make_region K vmr_rde run image_name v auto srv =
     (if fst (vmr_mo v) \<noteq> seL4_CapNull then
        after (vmr_client_attach_no_reserve (api K) vmr_rde (vmr_start v) (fst (vmr_mo v)) (vmr_cfg_type v) srv) (\<lambda>(error, va) srv.
          if error \<noteq> 0 then done_with (Some error, v, auto) srv else do { va \<leftarrow> va; done_with (None, v\<lparr>vmr_start := va\<rparr>, auto) srv })
      else if vmr_cfg_type v = TYPE_CODE K then
        after (ads_client_load_elf K (fst (run_ads run)) (fst (run_pd run)) image_name srv) (\<lambda>(error, e) srv.
          if error \<noteq> 0 then done_with (Some error, v, auto) srv else do { e \<leftarrow> e; done_with (None, v, (e, True)) srv })
      else if vmr_cfg_type v = TYPE_STACK K then
        after (sel4gpi_new_sized_stack K vmr_rde (region_pages v) srv) (\<lambda>(stack, m) srv.
          done_with (if stack = 0 then Some 0 else None, v\<lparr>vmr_start := stack, vmr_mo := (case m of None \<Rightarrow> (0, 0) | Some m \<Rightarrow> m)\<rparr>, auto) srv)
      else
        after (sel4gpi_get_vmr K vmr_rde (ucast (region_pages v)) (vmr_start v) (vmr_cfg_type v)
            (if vmr_page_bits v \<noteq> 0 then vmr_page_bits v else MO_PAGE_BITS K) srv) (\<lambda>(va, m) srv.
          if va = 0 then done_with (Some 0, v, auto) srv
          else done_with (None, v\<lparr>vmr_start := va, vmr_mo := (case m of None \<Rightarrow> (0, 0) | Some m \<Rightarrow> m)\<rparr>, auto) srv))"

text \<open>
  The context of the runtime is only written if the caller gave one, but that a file was loaded is noted without a check: without a context this is a crash.
\<close>

definition note_loaded :: "bool \<Rightarrow> runtime_context_t option \<Rightarrow> runtime_context_t option option" where
  "note_loaded loaded ctxt = (case ctxt of None \<Rightarrow> if loaded then None else Some None | Some c \<Rightarrow> Some (Some (c\<lparr>loaded_elf := loaded \<or> loaded_elf c\<rparr>)))"

definition note_region :: "'w creation_env \<Rightarrow> vmr_config_t \<Rightarrow> runtime_context_t \<Rightarrow> runtime_context_t" where
  "note_region K v ctxt = ctxt\<lparr>ipc_buf_cfg := (if vmr_cfg_type v = TYPE_IPC_BUF K then Some v else ipc_buf_cfg ctxt),
     stack_cfg := (if vmr_cfg_type v = TYPE_STACK K then Some v else stack_cfg ctxt)\<rparr>"

text \<open>The loop over the regions. The regions that are done, the context and the entry point of the file are the accumulators.\<close>

fun configure_regions ::
    "'w creation_env \<Rightarrow> cptr \<Rightarrow> sel4gpi_runnable_t \<Rightarrow> string \<Rightarrow> conn \<Rightarrow> vmr_config_t list \<Rightarrow> vmr_config_t list \<Rightarrow> runtime_context_t option \<Rightarrow> u64 \<Rightarrow> 'w rt_server \<Rightarrow>
     (int option \<times> vmr_config_t list \<times> runtime_context_t option \<times> u64, 'w) api_result" where
  "configure_regions K vmr_rde run image_name self_ads ready [] ctxt auto srv = done_with (None, ready, ctxt, auto) srv"
| "configure_regions K vmr_rde run image_name self_ads ready (v # vs) ctxt auto srv =
     after (case share_mode v of
         GPI_SHARED \<Rightarrow>
           if snd self_ads \<noteq> snd (run_ads run)
           then after (ads_client_shallow_copy (api K) (fst self_ads) (fst (run_ads run)) (vmr_start v) (vmr_dest_start v) (vmr_cfg_type v) srv)
             (\<lambda>error srv. done_with (if error \<noteq> 0 then Some error else None, v, (auto, False)) srv)
           else done_with (None, v, (auto, False)) srv
       | GPI_DISJOINT \<Rightarrow> make_region K vmr_rde run image_name v (auto, False) srv
       | GPI_NONE \<Rightarrow> done_with (Some 1, v, (auto, False)) srv) (\<lambda>(left, v, (auto, loaded)) srv. do {
       ctxt \<leftarrow> note_loaded loaded ctxt;
       if left \<noteq> None then done_with (left, ready @ v # vs, ctxt, auto) srv
       else configure_regions K vmr_rde run image_name self_ads (ready @ [v]) vs (map_option (note_region K v) ctxt) auto srv })"

text \<open>The own address space of the client is read from its page.\<close>

definition sel4gpi_ads_configure ::
    "'w creation_env \<Rightarrow> ads_config_t \<Rightarrow> sel4gpi_runnable_t \<Rightarrow> conn option \<Rightarrow> runtime_context_t option \<Rightarrow> 'w rt_server \<Rightarrow>
     (int \<times> ads_config_t \<times> runtime_context_t option, 'w) api_result" where
  "sel4gpi_ads_configure K cfg run osm_mo ctxt srv = do {
     d \<leftarrow> own_page K srv;
     vmr_rde \<leftarrow> sel4gpi_get_rde_by_space_id d (snd (run_ads run)) GPICAP_TYPE_VMR;
     let self_ads = sel4gpi_get_ads_conn d;
     after (case osm_mo of
         None \<Rightarrow> done_with (0, ctxt) srv
       | Some m \<Rightarrow>
           if fst m = seL4_CapNull then done_with (0, ctxt) srv
           else after (vmr_client_attach_no_reserve (api K) vmr_rde 0 (fst m) (TYPE_OSM_DATA K) srv) (\<lambda>(error, va) srv.
             if error \<noteq> 0 then done_with (error, ctxt) srv
             else do { va \<leftarrow> va; done_with (0, map_option (\<lambda>c. c\<lparr>rt_osm_data := va\<rparr>) ctxt) srv })) (\<lambda>(error, ctxt) srv.
       if error \<noteq> 0 then done_with (error, cfg, ctxt) srv
       else after (case vmr_cfgs cfg of
           None \<Rightarrow> done_with (None, None, ctxt, 0) srv
         | Some vs \<Rightarrow> after (configure_regions K vmr_rde run (cfg_image_name cfg) self_ads [] vs ctxt 0 srv)
             (\<lambda>(left, vs, ctxt, auto) srv. done_with (left, Some vs, ctxt, auto) srv)) (\<lambda>(left, vs, ctxt, auto) srv. case left of
           Some error \<Rightarrow> done_with (error, cfg\<lparr>vmr_cfgs := vs\<rparr>, ctxt) srv
         | None \<Rightarrow> done_with (0, cfg\<lparr>vmr_cfgs := vs\<rparr>,
             map_option (\<lambda>c. c\<lparr>rt_entry_point := (if cfg_entry_point cfg = 0 then auto else cfg_entry_point cfg)\<rparr>) ctxt) srv)) }"

subsection \<open>The directory\<close>

text \<open>Errors are reported on the console; the one of the last entry is returned.\<close>

fun share_rdes :: "'w creation_env \<Rightarrow> cptr \<Rightarrow> rde_config_t list \<Rightarrow> int \<Rightarrow> 'w rt_server \<Rightarrow> (int, 'w) api_result" where
  "share_rdes K target [] error srv = done_with error srv"
| "share_rdes K target (r # rs) error srv = after (pd_client_share_rde (api K) target (rc_type r) (rc_space r) srv) (share_rdes K target rs)"

definition rde_configure :: "'w creation_env \<Rightarrow> pd_config_t \<Rightarrow> sel4gpi_runnable_t \<Rightarrow> 'w rt_server \<Rightarrow> (int, 'w) api_result" where
  "rde_configure K cfg run srv = (case rde_cfg cfg of None \<Rightarrow> done_with 0 srv | Some rs \<Rightarrow> share_rdes K (fst (run_pd run)) rs 0 srv)"

definition sel4gpi_start_pd :: "'w creation_env \<Rightarrow> sel4gpi_runnable_t \<Rightarrow> 'w rt_server \<Rightarrow> (int, 'w) api_result" where
  "sel4gpi_start_pd K run srv = cpu_client_start (api K) (fst (run_cpu run)) srv"

definition find_vmr_cfg_by_type :: "ads_config_t \<Rightarrow> int \<Rightarrow> vmr_config_t option" where
  "find_vmr_cfg_by_type cfg vtype = (case vmr_cfgs cfg of None \<Rightarrow> None | Some vs \<Rightarrow> List.find (\<lambda>v. vmr_cfg_type v = vtype) vs)"

end
