(* ===== verification/Prepare_Pd.thy ===== *)
theory Prepare_Pd
  imports Pd_Creation Runtime_Setup
begin

section \<open>Preparing a PD (pd\_creation.c)\<close>

text \<open>
  The last step before a PD is started: its address space and directory are configured, it is sent its own objects and the endpoint for faults, and its
  runtime and CPU are set up. A thread shares the runtime of its maker, which writes the storage of thread-local variables into the new stack itself.
\<close>

subsection \<open>Thread-local storage\<close>

text \<open>The runtime library: the size of the storage, the function that writes its image and returns the thread pointer, and writes of two variables; the address of its start function;
  copying in the memory of the client.\<close>

record 'w prepare_env =
  creation :: "'w creation_env"
  runtime :: "'w runtime_env"
  tls_size :: u64
  write_tls_image :: "u64 \<Rightarrow> 'w \<Rightarrow> u64 \<times> 'w"
  set_tls_ipc_buffer :: "u64 \<Rightarrow> u64 \<Rightarrow> 'w \<Rightarrow> 'w"
  set_tls_osm_data :: "u64 \<Rightarrow> u64 \<Rightarrow> 'w \<Rightarrow> 'w"
  start_function :: u64
  copy_memory :: "u64 \<Rightarrow> u64 \<Rightarrow> u64 \<Rightarrow> 'w \<Rightarrow> 'w"

definition write_tls_values :: "'w prepare_env \<Rightarrow> u64 \<Rightarrow> u64 \<Rightarrow> u64 \<Rightarrow> 'w \<Rightarrow> (u64 \<times> u64) \<times> 'w" where
  "write_tls_values P stack_top ipc_buf osm_data w =
     (let tls = stack_top - tls_size P;
          (tp, w) = write_tls_image P tls w;
          w = (if ipc_buf \<noteq> 0 then set_tls_ipc_buffer P tp ipc_buf w else w)
      in ((tls, tp), set_tls_osm_data P tp osm_data w))"

definition on_world :: "('w \<Rightarrow> 'a \<times> 'w) \<Rightarrow> 'w rt_server \<Rightarrow> 'a \<times> 'w rt_server" where
  "on_world f = (\<lambda>(recv, s). let (a, w) = f (world s) in (a, recv, s\<lparr>world := w\<rparr>))"

text \<open>
  The error and, if there is none, the stack pointer and the thread pointer. A stack of another address space is mapped for the time of the writes. Without a
  region for the stack, or for the message buffer, there is a crash.
\<close>

definition setup_tls_in_stack :: "'w prepare_env \<Rightarrow> gpi_obj_id_t \<Rightarrow> runtime_context_t \<Rightarrow> 'w rt_server \<Rightarrow> (int \<times> (u64 \<times> u64) option, 'w) api_result" where
  "setup_tls_in_stack P target_ads ctxt srv = (let K = creation P in do {
     stack \<leftarrow> stack_cfg ctxt;
     let pages = region_pages stack;
     if pages = 0 \<or> vmr_start stack = 0 \<or> tls_size P > pages * PAGE_SIZE_4K div 8 then done_with (1, None) srv
     else do {
       d \<leftarrow> own_page K srv;
       if target_ads \<noteq> sel4gpi_get_binded_ads_id d then do {
         vmr_rde \<leftarrow> sel4gpi_get_bound_vmr_rde d;
         after (vmr_client_attach_no_reserve (api K) vmr_rde 0 (fst (vmr_mo stack)) (RES_TYPE_GENERIC (api_kernel (api K))) srv) (\<lambda>(error, bottom) srv.
           if error \<noteq> 0 then done_with (error, None) srv
           else do {
             bottom \<leftarrow> bottom;
             ipc \<leftarrow> ipc_buf_cfg ctxt;
             let local_top = bottom + pages * 2 ^ unat (MO_PAGE_BITS K);
             let ((tls, tp), srv) = on_world (write_tls_values P local_top (vmr_start ipc) (rt_osm_data ctxt)) srv;
             let remote_tls = vmr_start stack - (local_top - tls);
             let remote_tp = vmr_start stack - (local_top - tp);
             after (vmr_client_delete_by_vaddr (api K) vmr_rde bottom srv) (\<lambda>_ srv. done_with (0, Some (align_stack (runtime P) remote_tls, remote_tp)) srv) }) }
       else do {
         ipc \<leftarrow> ipc_buf_cfg ctxt;
         let ((tls, tp), srv) = on_world (write_tls_values P (vmr_start stack) (vmr_start ipc) (rt_osm_data ctxt)) srv;
         done_with (0, Some (align_stack (runtime P) tls, tp)) srv } } })"

subsection \<open>More helpers of a client (pd\_utils.c)\<close>

text \<open>Copying data to a memory object, which is mapped for this purpose. That it stays mapped is a warning only.\<close>

definition sel4gpi_copy_data_to_mo :: "'w prepare_env \<Rightarrow> u64 \<Rightarrow> u64 \<Rightarrow> cptr \<Rightarrow> 'w rt_server \<Rightarrow> (int, 'w) api_result" where
  "sel4gpi_copy_data_to_mo P addr bytes dest_mo srv = (let K = creation P in do {
     d \<leftarrow> own_page K srv;
     vmr_rde \<leftarrow> sel4gpi_get_bound_vmr_rde d;
     after (vmr_client_attach_no_reserve (api K) vmr_rde 0 dest_mo (RES_TYPE_GENERIC (api_kernel (api K))) srv) (\<lambda>(error, dest) srv. case dest of
         None \<Rightarrow> done_with 1 srv
       | Some dest \<Rightarrow>
           if dest = 0 \<or> error \<noteq> 0 then done_with 1 srv
           else after (vmr_client_delete_by_vaddr (api K) vmr_rde dest (snd (on_world (\<lambda>w. ((), copy_memory P dest addr bytes w)) srv))) (\<lambda>_. done_with 0)) })"

text \<open>
  The capability to reply to a request is kept in a slot that is allocated once. The slot is a variable of the client, and the page tells the server whether there
  is a capability in it.
\<close>

definition write_reply_cap :: "'w creation_env \<Rightarrow> cptr \<Rightarrow> 'w rt_server \<Rightarrow> 'w rt_server" where
  "write_reply_cap K c = (\<lambda>(recv, s). (recv, pd_write (own_id K) (\<lambda>p. p\<lparr>shared := (shared p)\<lparr>reply_cap := c\<rparr>\<rparr>) s))"

definition sel4gpi_store_reply_cap :: "'w creation_env \<Rightarrow> cptr \<Rightarrow> 'w rt_server \<Rightarrow> 'w rt_server" where
  "sel4gpi_store_reply_cap K slot = (\<lambda>(recv, s). write_reply_cap K slot (recv, kern0 (api_kernel (api K)) (Ipc (SaveCaller slot)) s))"

definition sel4gpi_get_reply_cap :: "osm_pd_shared_data_t \<Rightarrow> cptr" where "sel4gpi_get_reply_cap d = reply_cap d"

definition sel4gpi_clear_reply_cap :: "'w creation_env \<Rightarrow> cptr \<Rightarrow> 'w rt_server \<Rightarrow> (cptr, 'w) api_result" where
  "sel4gpi_clear_reply_cap K slot srv = do {
     d \<leftarrow> own_page K srv;
     let srv = write_reply_cap K seL4_CapNull srv;
     if slot = seL4_CapNull
     then after (pd_client_next_slot (api K) (pd_conn_ep d) srv) (\<lambda>(error, r). done_with (case r of None \<Rightarrow> slot | Some c \<Rightarrow> c))
     else after (pd_client_clear_slot (api K) (pd_conn_ep d) slot srv) (\<lambda>_. done_with slot) }"

definition sel4gpi_exit_cb :: "'w creation_env \<Rightarrow> int \<Rightarrow> 'w rt_server \<Rightarrow> (unit, 'w) api_result" where
  "sel4gpi_exit_cb K code srv = do { d \<leftarrow> own_page K srv; pd_client_exit (api K) (pd_conn_ep d) code srv }"

subsection \<open>The request for the setup (pd\_clientapi.c)\<close>

definition PD_MAX_ARGC :: nat where "PD_MAX_ARGC = 8"

text \<open>A turn of the server in which the handler of theory Runtime_Setup runs.\<close>

definition runtime_setup_turn ::
    "'w prepare_env \<Rightarrow> u64 list \<Rightarrow> u64 \<Rightarrow> u64 \<Rightarrow> u64 \<Rightarrow> u64 \<Rightarrow> ipc \<Rightarrow> u64 \<Rightarrow> 'w rt_server \<Rightarrow> (pd_reply option \<times> 'w rt_server) option" where
  "runtime_setup_turn P args stack_top entry ipc_buf osm_data m badge = (\<lambda>(recv, s). let E = api_kernel (api (creation P)) in do {
     c \<leftarrow> select_component badge;
     let (q, s) = kern E (Ipc (Rpc_recv (get_cap_type_from_badge badge))) s;
     c_assert (err q = 0 \<and> c = Pd_Component);
     (r, s) \<leftarrow> (if get_object_id_from_badge badge = BADGE_OBJ_ID_NULL then Some (error_reply UNKNOWN_ERR, s)
        else handle_runtime_setup_req (runtime P) m badge args stack_top entry ipc_buf osm_data s);
     finish_request E (get_cap_type_from_badge badge) recv (Plain r, True, False, s) })"

definition pd_client_runtime_setup ::
    "'w prepare_env \<Rightarrow> cptr \<Rightarrow> cptr \<Rightarrow> cptr \<Rightarrow> u64 \<Rightarrow> u64 list \<Rightarrow> u64 \<Rightarrow> u64 \<Rightarrow> u64 \<Rightarrow> 'w rt_server \<Rightarrow> (int, 'w) api_result" where
  "pd_client_runtime_setup P target_pd target_ads target_cpu stack_pos args entry ipc_buf osm_data srv = (let C = api (creation P); w = world (snd srv) in
     if length args > PD_MAX_ARGC then done_with 1 srv
     else case slot_badge_of C target_pd w of
       None \<Rightarrow> done_with 1 srv
     | Some badge \<Rightarrow> do {
         (reply, srv) \<leftarrow> runtime_setup_turn P args stack_pos entry ipc_buf osm_data
           (received_words (\<lambda>c. slot_badge_of C c w) (old_words C w) [target_ads, target_cpu]) badge srv;
         Some (map_option reply_error reply, srv) })"

subsection \<open>All steps\<close>

text \<open>Steps that are left at the first error; the final result is the error.\<close>

definition step :: "(int, 'w) api_result \<Rightarrow> ('w rt_server \<Rightarrow> (int, 'w) api_result) \<Rightarrow> (int, 'w) api_result" where
  "step x f = after x (\<lambda>error srv. if error \<noteq> 0 then done_with error srv else f srv)"

definition error_of :: "(int \<times> 'b, 'w) api_result \<Rightarrow> (int, 'w) api_result" where "error_of x = after x (\<lambda>(error, _). done_with error)"

text \<open>Resources of a type that cannot be shared are reported on the console only.\<close>

fun share_types :: "'w api_env \<Rightarrow> cptr \<Rightarrow> cptr \<Rightarrow> gpi_cap_t list \<Rightarrow> 'w rt_server \<Rightarrow> (unit, 'w) api_result" where
  "share_types C self target [] srv = done_with () srv"
| "share_types C self target (t # ts) srv = after (pd_client_share_resource_by_type C self target t srv) (\<lambda>_. share_types C self target ts)"

definition fault_endpoint :: "'w creation_env \<Rightarrow> pd_config_t \<Rightarrow> 'w rt_server \<Rightarrow> (int \<times> (cptr \<times> cptr), 'w) api_result" where
  "fault_endpoint K cfg srv =
     (if fst (fault_ep_cfg cfg) = seL4_CapNull then
        after (sel4gpi_alloc_endpoint K srv) (\<lambda>(error, e) srv. case e of
            None \<Rightarrow> done_with (1, fault_ep_cfg cfg) srv
          | Some e \<Rightarrow> if error \<noteq> 0 \<or> fst e = seL4_CapNull then done_with (1, e) srv else done_with (0, e) srv)
      else done_with (0, fault_ep_cfg cfg) srv)"

text \<open>The slot of the endpoint for faults in the new PD.\<close>

definition send_fault_endpoint :: "'w creation_env \<Rightarrow> pd_config_t \<Rightarrow> cptr \<Rightarrow> cptr \<Rightarrow> 'w rt_server \<Rightarrow> (int \<times> cptr, 'w) api_result" where
  "send_fault_endpoint K cfg e target srv =
     (if fault_ep_badge cfg \<noteq> 0 then
        after (ep_client_badge (api K) e target (fault_ep_badge cfg) True srv) (\<lambda>(error, r). done_with (error, case r of None \<Rightarrow> 0 | Some (_, raw) \<Rightarrow> raw))
      else
        after (pd_client_send_core_cap (api K) target e srv) (\<lambda>(error, _) srv.
          if error \<noteq> 0 then done_with (error, 0) srv
          else after (ep_client_get_raw_endpoint_in_PD (api K) target e srv) (\<lambda>(error, r). done_with (error, case r of None \<Rightarrow> 0 | Some raw \<Rightarrow> raw))))"

text \<open>Stack pointer, entry point and arguments. The error of raising the privileges of the CPU is ignored.\<close>

definition initial_context ::
    "'w prepare_env \<Rightarrow> pd_config_t \<Rightarrow> sel4gpi_runnable_t \<Rightarrow> runtime_context_t \<Rightarrow> u64 list \<Rightarrow> 'w rt_server \<Rightarrow> (int \<times> (u64 \<times> u64 \<times> u64 list), 'w) api_result" where
  "initial_context P cfg run ctxt args srv = (let K = creation P; stack = (case stack_cfg ctxt of None \<Rightarrow> 0 | Some v \<Rightarrow> vmr_start v) in
     if elevated_cpu cfg then after (cpu_client_elevate_privileges (api K) (fst (run_cpu run)) srv) (\<lambda>_. done_with (0, (stack, rt_entry_point ctxt, args)))
     else if \<not> loaded_elf ctxt then
       after (setup_tls_in_stack P (snd (run_ads run)) ctxt srv) (\<lambda>(error, r) srv.
         if error \<noteq> 0 then done_with (error, (stack, rt_entry_point ctxt, args)) srv
         else do {
           (sp, tp) \<leftarrow> r;
           after (cpu_client_set_tls_base (api K) (fst (run_cpu run)) tp srv) (\<lambda>error srv.
             if error \<noteq> 0 then done_with (error, (sp, rt_entry_point ctxt, args)) srv
             else do { c_assert (has_memory K); done_with (0, (sp, start_function P, rt_entry_point ctxt # args)) srv }) })
     else done_with (0, (stack, rt_entry_point ctxt, args)) srv)"

definition blank_context :: runtime_context_t where
  "blank_context = \<lparr>rt_entry_point = 0, rt_osm_data = 0, stack_cfg = None, ipc_buf_cfg = None, loaded_elf = False\<rparr>"

definition configure_cpu ::
    "'w prepare_env \<Rightarrow> pd_config_t \<Rightarrow> sel4gpi_runnable_t \<Rightarrow> runtime_context_t \<Rightarrow> cptr \<Rightarrow> u64 \<times> u64 \<times> u64 list \<Rightarrow> 'w rt_server \<Rightarrow> (int, 'w) api_result" where
  "configure_cpu P cfg run ctxt fault = (\<lambda>(sp, entry, args) srv.
     (let C = api (creation P); ipc = (case ipc_buf_cfg ctxt of None \<Rightarrow> 0 | Some v \<Rightarrow> vmr_start v) in
      step (pd_client_runtime_setup P (fst (run_pd run)) (fst (run_ads run)) (fst (run_cpu run)) sp args entry ipc (rt_osm_data ctxt) srv)
        (cpu_client_config C (fst (run_cpu run)) (fst (run_ads run)) (fst (run_pd run))
          (if ipc \<noteq> 0 then map_option (\<lambda>v. fst (vmr_mo v)) (ipc_buf_cfg ctxt) else None)
          (api_make_guard_skip_word (api_kernel C) (64 - PD_CSPACE_SIZE_BITS)) fault ipc (cpu_prio cfg))))"

definition sel4gpi_prepare_pd :: "'w prepare_env \<Rightarrow> pd_config_t \<Rightarrow> sel4gpi_runnable_t \<Rightarrow> u64 list \<Rightarrow> 'w rt_server \<Rightarrow> (int, 'w) api_result" where
  "sel4gpi_prepare_pd P cfg run args srv = (let K = creation P; C = api K; target = fst (run_pd run) in do {
     self \<leftarrow> map_option pd_conn_ep (own_page K srv);
     after (sel4gpi_ads_configure K (ads_cfg cfg) run (Some (osm_data_mo cfg)) (Some blank_context) srv) (\<lambda>(error, _, ctxt) srv.
       if error \<noteq> 0 then done_with error srv
       else do {
         ctxt \<leftarrow> ctxt;
         step (rde_configure K cfg run srv) (\<lambda>srv.
         step (error_of (pd_client_send_core_cap C target (fst (run_cpu run)) srv)) (\<lambda>srv.
         step (error_of (pd_client_send_core_cap C target (fst (run_ads run)) srv)) (\<lambda>srv.
         step (error_of (pd_client_send_core_cap C target target srv)) (\<lambda>srv.
         after (share_types C self target (case gpi_res_type_cfg cfg of None \<Rightarrow> [] | Some ts \<Rightarrow> ts) srv) (\<lambda>_ srv.
         after (fault_endpoint K cfg srv) (\<lambda>(error, e) srv.
         if error \<noteq> 0 then done_with error srv
         else after (send_fault_endpoint K cfg (fst e) target srv) (\<lambda>(error, fault) srv.
         if error \<noteq> 0 then done_with error srv
         else after (if link_with_current cfg then pd_client_link_child C self target srv else done_with 0 srv) (\<lambda>_ srv.
         after (initial_context P cfg run ctxt args srv) (\<lambda>(error, start) srv.
         if error \<noteq> 0 then done_with error srv else configure_cpu P cfg run ctxt fault start srv))))))))) }) })"

end
