(* ===== verification/Creation_Use.thy ===== *)
theory Creation_Use
  imports Prepare_Pd
begin

section \<open>What the creation of a PD achieves\<close>

text \<open>The entries that a new PD is configured with reach its directory, also those for a default space; and a stack that is missing without an error.\<close>

lemma after_Some: "after x f = Some (Some b, srv') \<longleftrightarrow> (\<exists>a srv. x = Some (Some a, srv) \<and> f a srv = Some (Some b, srv'))"
  by (cases x) (auto simp: after_def split: prod.split option.split)

text \<open>A request for an entry of the directory: for a space, or for the default space (the null space).\<close>

definition rde_request_ok :: "rde_config_t \<Rightarrow> bool" where
  "rde_request_ok r \<longleftrightarrow> rc_type r \<noteq> 0 \<and> rc_type r < GPICAP_TYPE_MAX \<and> rc_space r \<noteq> 0 \<and> rc_space r \<le> BADGE_SPACE_ID_NULL"

text \<open>What a request achieved that was answered with 0: an entry of the type, for the space if it is not the default space; or, for the default space, a removed
  entry that \<open>p\<close> had.\<close>

definition configured :: "pd_t \<Rightarrow> pd_t \<Rightarrow> rde_config_t \<Rightarrow> osmosis_rde_t \<Rightarrow> bool" where
  "configured p p' r d \<longleftrightarrow> pd_rde_get p' (rc_type r) (rc_space r) = Some (Some d) \<and>
     (rde_type d = rc_type r \<and> (rc_space r \<noteq> BADGE_SPACE_ID_NULL \<longrightarrow> rde_space_id d = rc_space r) \<or>
      rc_space r = BADGE_SPACE_ID_NULL \<and> \<not> no_removed (rc_type r) p)"

lemma reached_configured: "keeps_entries p0 p \<Longrightarrow> reached c (rc_type r) (rc_space r) p p' d \<Longrightarrow> configured p0 p' r d"
  by (auto simp: configured_def reached_def keeps_entries_def)

text \<open>The loop over the entries: what was found stays, and the result is that of the last entry.\<close>

lemma share_rdes_keeps:
  assumes "share_rdes K target rs error0 (recv, s) = Some (Some error, recv', s')" "list_all rde_request_ok rs"
    and "\<And>w. slot_badge_of (api K) target w = Some badge" "pd_component_registry_get_entry_by_badge badge s = Some e"
    and "rde_wf (pd e)" "rde_led (pd e)" "pd_vka (pd e) = Some v" "pd_id (pd e) \<le> 0xFFFFF" "space_ids_ok s"
  shows "\<exists>e'. pd_component_registry_get_entry_by_badge badge s' = Some e' \<and> rde_wf (pd e') \<and> rde_led (pd e') \<and> keeps_entries (pd e) (pd e') \<and>
    (rs \<noteq> [] \<longrightarrow> error = 0 \<longrightarrow> (\<exists>d. configured (pd e) (pd e') (last rs) d))"
  using assms
proof (induction rs arbitrary: error0 recv s e)
  case Nil
  then show ?case by (auto simp: done_with_def)
next
  case (Cons r rs)
  obtain e1 recv1 s1 where 1: "pd_client_share_rde (api K) target (rc_type r) (rc_space r) (recv, s) = Some (Some e1, recv1, s1)"
    "share_rdes K target rs e1 (recv1, s1) = Some (Some error, recv', s')"
    using Cons.prems(1) by (auto simp: after_Some)
  have ok: "rc_type r \<noteq> 0" "rc_type r < GPICAP_TYPE_MAX" "rc_space r \<noteq> 0" "rc_space r \<le> BADGE_SPACE_ID_NULL" "list_all rde_request_ok rs"
    using Cons.prems(2) by (auto simp: rde_request_ok_def [of r])
  obtain x where x: "pd_component_registry_get_entry_by_badge badge s1 = Some x" "rde_wf (pd x)" "rde_led (pd x)" "keeps_entries (pd e) (pd x)"
    "resspc_component s1 = resspc_component s" "e1 = 0 \<Longrightarrow> \<exists>d. configured (pd e) (pd x) r d"
    using share_rde_call [OF 1(1) Cons.prems(3-9) ok(1-4)] reached_configured [OF keeps_entries_refl] by blast
  have p: "pd_vka (pd x) = Some v" "pd_id (pd x) \<le> 0xFFFFF" using x(4) Cons.prems(7,8) by (auto simp: keeps_entries_def)
  have ids: "space_ids_ok s1" using Cons.prems(9) x(5) by (simp add: space_ids_ok_def resource_component_registry_get_by_id_def)
  obtain y where y: "pd_component_registry_get_entry_by_badge badge s' = Some y" "rde_wf (pd y)" "rde_led (pd y)" "keeps_entries (pd x) (pd y)"
    "rs \<noteq> [] \<Longrightarrow> error = 0 \<Longrightarrow> \<exists>d. configured (pd x) (pd y) (last rs) d"
    using Cons.IH [OF 1(2) ok(5) Cons.prems(3) x(1-3) p ids] by auto
  have "configured (pd e) (pd y) q d" if "configured (pd x) (pd y) q d" for q d
    using that x(4) by (auto simp: configured_def keeps_entries_def)
  moreover have "\<exists>d. configured (pd e) (pd y) r d" if "rs = []" "error = 0"
    using x(1,6) y(1) 1(2) that by (auto simp: done_with_def)
  ultimately show ?case using y keeps_entries_trans [OF x(4) y(4)] by auto
qed

text \<open>
  C12: the entries that a new PD is configured with reach its directory; they are for a space or, as the entries for memory objects and for
  spaces of every process, for the default space. Whatever the result, the directory stays well-formed and still has every entry it had, for
  spaces and as defaults. If the result is 0, the PD has the last entry of the configuration: it is of the type and for the space asked for, and the endpoint which
  the PD finds in its page is the slot of it. (If the last request is for the default space and an entry of the type had been removed from the PD
  before, it may be this removed entry; a new PD has none.) Nothing is known of the earlier entries: the result is that of the last request only.
  The conditions are a well-formed directory whose first entries lead, a capability space, an ID that fits a badge, and
  IDs of spaces below the null ID; the slot that the maker has for the PD stays the connection to it.
\<close>

theorem rde_configure_shares:
  assumes "rde_configure K cfg run (recv, s) = Some (Some error, recv', s')" "rde_cfg cfg = Some rs" "list_all rde_request_ok rs"
    and "\<And>w. slot_badge_of (api K) (fst (run_pd run)) w = Some badge" "pd_component_registry_get_entry_by_badge badge s = Some e"
    and "rde_wf (pd e)" "rde_led (pd e)" "pd_vka (pd e) = Some v" "pd_id (pd e) \<le> 0xFFFFF" "space_ids_ok s"
  shows "\<exists>e'. pd_component_registry_get_entry_by_badge badge s' = Some e' \<and> rde_wf (pd e') \<and> rde_led (pd e') \<and>
    (\<forall>type sid d. real_space sid \<longrightarrow> pd_rde_get (pd e) type sid = Some (Some d) \<longrightarrow> pd_rde_get (pd e') type sid = Some (Some d)) \<and>
    (\<forall>type d. pd_rde_get (pd e) type BADGE_SPACE_ID_NULL = Some (Some d) \<longrightarrow> type \<noteq> 0 \<longrightarrow> rde_type d = type \<longrightarrow>
       pd_rde_get (pd e') type BADGE_SPACE_ID_NULL = Some (Some d)) \<and>
    (rs \<noteq> [] \<longrightarrow> error = 0 \<longrightarrow> (\<exists>d. configured (pd e) (pd e') (last rs) d \<and>
       sel4gpi_get_rde_by_space_id (shared (pd e')) (rc_space (last rs)) (rc_type (last rs)) = Some (slot_in_PD d)))"
proof -
  have "share_rdes K (fst (run_pd run)) rs 0 (recv, s) = Some (Some error, recv', s')" using assms(1,2) by (simp add: rde_configure_def)
  then obtain e' where e': "pd_component_registry_get_entry_by_badge badge s' = Some e'" "rde_wf (pd e')" "rde_led (pd e')" "keeps_entries (pd e) (pd e')"
    "rs \<noteq> [] \<Longrightarrow> error = 0 \<Longrightarrow> \<exists>d. configured (pd e) (pd e') (last rs) d"
    using share_rdes_keeps [OF _ assms(3-10)] by blast
  have "sel4gpi_get_rde_by_space_id (shared (pd e')) (rc_space (last rs)) (rc_type (last rs)) = Some (slot_in_PD d)"
    if "rs \<noteq> []" "configured (pd e) (pd e') (last rs) d" for d
    using assms(3) that lookup_alike [OF e'(2,3), of "rc_type (last rs)" "rc_space (last rs)"]
    by (simp add: list_all_iff rde_request_ok_def configured_def)
  then have page: "\<exists>d. configured (pd e) (pd e') (last rs) d \<and>
      sel4gpi_get_rde_by_space_id (shared (pd e')) (rc_space (last rs)) (rc_type (last rs)) = Some (slot_in_PD d)" if "rs \<noteq> []" "error = 0"
    using e'(5) that by blast
  show ?thesis
    by (rule exI [of _ e'], intro conjI e'(1-3)) (use e'(4) page in \<open>simp_all add: keeps_entries_def\<close>)
qed

text \<open>The process that PD 7 of theory Client_Use makes in PD 5, with the address space 6: it is configured with the default space of memory objects, the default space of spaces
  and the address space.\<close>

definition sharing_creation :: "kcall list creation_env" where
  "sharing_creation = \<lparr>api = sharing_env (\<lambda>_. 0), elf_files = \<lparr>elf_kernel = trace_env, load_byte = (\<lambda>_ _. 0), store_bytes = (\<lambda>_ w. w), RES_TYPE_CODE = 4, RES_TYPE_DATA = 5,
     quick_sort = (\<lambda>_. Some), cpio_file = (\<lambda>_. None)\<rparr>, own_id = 7, TYPE_STACK = 1, TYPE_HEAP = 2, TYPE_CODE = 4, TYPE_IPC_BUF = 6, TYPE_OSM_DATA = 7,
     MO_LARGE_PAGE_BITS = 21, has_memory = True\<rparr>"

definition pd5_run :: sel4gpi_runnable_t where "pd5_run = \<lparr>run_pd = (20, 5), run_ads = (21, 6), run_cpu = (22, 3)\<rparr>"

definition process_config :: pd_config_t where
  "process_config = (let cfg = the (sel4gpi_generate_proc_config sharing_creation ''hello'' DEFAULT_STACK_PAGES DEFAULT_HEAP_PAGES (blank_config (0, 0))) in
     sel4gpi_add_rde_config sharing_creation GPICAP_TYPE_VMR (snd (run_ads pd5_run)) cfg)"

theorem rde_configure_shares_witness:
  "\<exists>recv' s' e' d. rde_configure sharing_creation process_config pd5_run (1, sharing_server) = Some (Some 0, recv', s') \<and>
    pd_component_registry_get_entry_by_badge sharing_badge s' = Some e' \<and> pd_rde_get (pd e') GPICAP_TYPE_VMR 6 = Some (Some d) \<and> rde_type d = GPICAP_TYPE_VMR \<and>
    sel4gpi_get_rde_by_space_id (shared (pd e')) 6 GPICAP_TYPE_VMR = Some (slot_in_PD d)"
proof -
  let ?rs = "[\<lparr>rc_type = GPICAP_TYPE_MO, rc_space = BADGE_SPACE_ID_NULL\<rparr>, \<lparr>rc_type = GPICAP_TYPE_RESSPC, rc_space = BADGE_SPACE_ID_NULL\<rparr>, \<lparr>rc_type = GPICAP_TYPE_VMR, rc_space = 6\<rparr>]"
  have c: "rde_cfg process_config = Some ?rs"
    by (simp add: process_config_def sel4gpi_generate_proc_config_def sel4gpi_add_rde_config_def sharing_creation_def pd5_run_def Let_def)
  have ok: "list_all rde_request_ok ?rs" by (simp add: rde_request_ok_def cap_type_defs badge_const_defs)
  have b: "slot_badge_of (api sharing_creation) (fst (run_pd pd5_run)) w = Some sharing_badge" for w by (simp add: sharing_creation_def pd5_run_def sharing_env_def)
  have "map_option fst (rde_configure sharing_creation process_config pd5_run (1, sharing_server)) = Some (Some 0)" by code_simp
  then obtain recv' s' where r: "rde_configure sharing_creation process_config pd5_run (1, sharing_server) = Some (Some 0, recv', s')" by auto
  show ?thesis using rde_configure_shares [OF r c ok b sharing_entry sharing_target(2-5) sharing_ids] r
    by (auto simp: configured_def) (auto simp: badge_const_defs)
qed

subsection \<open>A configuration of all entries\<close>

text \<open>What a thread is configured with: the used entries of the page of its maker, in the order of the table.\<close>

definition used_rdes :: "osmosis_rde_t list \<Rightarrow> rde_config_t list" where
  "used_rdes rs = map (\<lambda>r. \<lparr>rc_type = rde_type r, rc_space = rde_space_id r\<rparr>) (filter (\<lambda>r. rde_type r \<noteq> GPICAP_TYPE_NONE) rs)"

lemma add_used_rdes_lists: "has_memory K \<Longrightarrow> rde_cfg cfg = Some old \<Longrightarrow> add_used_rdes K rs cfg = cfg\<lparr>rde_cfg := Some (old @ used_rdes rs)\<rparr>"
  by (induction rs arbitrary: cfg old) (auto simp: sel4gpi_add_rde_config_def used_rdes_def)

lemma add_rde_rows_lists:
  "has_memory K \<Longrightarrow> rde_cfg cfg = Some old \<Longrightarrow> add_rde_rows K rows cfg = cfg\<lparr>rde_cfg := Some (old @ concat (map used_rdes rows))\<rparr>"
  by (induction rows arbitrary: cfg old) (auto simp: add_used_rdes_lists)

lemma thread_config_parts:
  assumes "sel4gpi_generate_thread_config K d thread_fn fault cfg = Some cfg'"
  shows "ads_cfg cfg' = (ads_cfg cfg)\<lparr>cfg_entry_point := thread_fn, vmr_cfgs := Some [disjoint_vmr (TYPE_STACK K) DEFAULT_STACK_PAGES, disjoint_vmr (TYPE_IPC_BUF K) 1]\<rparr>"
    "rde_cfg cfg = None \<Longrightarrow> rde_cfg cfg' = Some (concat (map used_rdes (drop 1 (take (unat GPICAP_TYPE_MAX) (rde d)))))"
proof -
  have m: "has_memory K" using assms by (simp add: sel4gpi_generate_thread_config_def c_assert_def split: if_splits bind_splits)
  show "ads_cfg cfg' = (ads_cfg cfg)\<lparr>cfg_entry_point := thread_fn, vmr_cfgs := Some [disjoint_vmr (TYPE_STACK K) DEFAULT_STACK_PAGES, disjoint_vmr (TYPE_IPC_BUF K) 1]\<rparr>"
    "rde_cfg cfg = None \<Longrightarrow> rde_cfg cfg' = Some (concat (map used_rdes (drop 1 (take (unat GPICAP_TYPE_MAX) (rde d)))))"
    using assms m
    by (auto simp: sel4gpi_generate_thread_config_def sel4gpi_config_pd_share_all_rdes_def add_rde_rows_lists sel4gpi_add_res_type_config_def split: option.splits)
qed

lemma thread_config_keeps:
  assumes "sel4gpi_generate_thread_config K d thread_fn fault cfg = Some cfg'"
  shows "osm_data_mo cfg' = osm_data_mo cfg" "elevated_cpu cfg' = elevated_cpu cfg"
proof -
  have u: "osm_data_mo (add_used_rdes K rs c) = osm_data_mo c \<and> elevated_cpu (add_used_rdes K rs c) = elevated_cpu c" for rs c
    by (induction rs arbitrary: c) (auto simp: sel4gpi_add_rde_config_def split: option.split)
  have r: "osm_data_mo (add_rde_rows K rows c) = osm_data_mo c \<and> elevated_cpu (add_rde_rows K rows c) = elevated_cpu c" for rows c
    by (induction rows arbitrary: c) (auto simp: u)
  show "osm_data_mo cfg' = osm_data_mo cfg" "elevated_cpu cfg' = elevated_cpu cfg"
    using assms r by (auto simp: sel4gpi_generate_thread_config_def sel4gpi_config_pd_share_all_rdes_def sel4gpi_add_res_type_config_def Let_def c_assert_def
        split: option.splits if_splits bind_splits)
qed

text \<open>A step that must return 0 for the whole to return 0.\<close>

lemma step_Some: "step x f = Some (Some 0, srv') \<longleftrightarrow> (\<exists>srv. x = Some (Some 0, srv) \<and> f srv = Some (Some 0, srv'))"
  by (auto simp: step_def after_Some done_with_def split: if_splits)

text \<open>Without the region of the stack the initial context of a thread cannot be made.\<close>

lemma no_stack_crash: "\<not> elevated_cpu cfg \<Longrightarrow> \<not> loaded_elf ctxt \<Longrightarrow> stack_cfg ctxt = None \<Longrightarrow> initial_context P cfg run ctxt args srv = None"
  by (simp add: initial_context_def setup_tls_in_stack_def after_def Let_def)

lemma prepare_needs_context:
  assumes "own_page (creation P) srv = Some d"
    and "sel4gpi_ads_configure (creation P) (ads_cfg cfg) run (Some (osm_data_mo cfg)) (Some blank_context) srv = Some (Some (0, acfg, Some ctxt), srv1)"
    and "\<And>srv. initial_context P cfg run ctxt args srv = None"
  shows "sel4gpi_prepare_pd P cfg run args srv \<noteq> Some (Some 0, srv')"
  using assms(1,2) by (auto simp: sel4gpi_prepare_pd_def after_def [of "Some _"] Let_def done_with_def step_Some after_Some assms(3) split: if_splits)

text \<open>
  C32: a thread without a stack. The configuration is the one that is generated for a thread, with the memory object for the thread's shared data, as the
  preparation of the PD passes it. The shared data is attached, but then no stack can be made: the request for the region or for its memory fails. The configuration of the address
  space returns 0 all the same. It stops there: the address of the stack in the configuration is 0, the buffer for messages was not made, and the context has neither
  the stack nor the entry point of the thread. The preparation of the PD goes on with this context. It never returns 0: the setup of the thread-local
  storage, which reads the region of the stack, crashes the PD that makes the thread, unless a step before it fails. (The CPU is not an elevated one,
  for which no storage is set up.)
\<close>

theorem missing_stack_unreported:
  assumes "creation P = K" "own_page K srv = Some d" "sel4gpi_get_rde_by_space_id d (snd (run_ads run)) GPICAP_TYPE_VMR = Some vmr_rde"
    and "sel4gpi_generate_thread_config K d' thread_fn fault cfg = Some cfg'" "TYPE_STACK K \<noteq> TYPE_CODE K" "\<not> elevated_cpu cfg"
    and "fst (osm_data_mo cfg) \<noteq> seL4_CapNull"
    and "vmr_client_attach_no_reserve (api K) vmr_rde 0 (fst (osm_data_mo cfg)) (TYPE_OSM_DATA K) srv = Some (Some (0, Some va), srv1)"
    and "sel4gpi_new_sized_stack K vmr_rde DEFAULT_STACK_PAGES srv1 = Some (Some (0, m), srv2)"
  shows "\<exists>v. sel4gpi_ads_configure K (ads_cfg cfg') run (Some (osm_data_mo cfg')) (Some blank_context) srv =
      Some (Some (0, (ads_cfg cfg')\<lparr>vmr_cfgs := Some [v, disjoint_vmr (TYPE_IPC_BUF K) 1]\<rparr>, Some (blank_context\<lparr>rt_osm_data := va\<rparr>)), srv2) \<and>
    vmr_cfg_type v = TYPE_STACK K \<and> vmr_start v = 0 \<and>
    (\<forall>args srv3. initial_context P cfg' run (blank_context\<lparr>rt_osm_data := va\<rparr>) args srv3 = None) \<and>
    (\<forall>args srv3. sel4gpi_prepare_pd P cfg' run args srv \<noteq> Some (Some 0, srv3))"
proof -
  let ?v = "(disjoint_vmr (TYPE_STACK K) DEFAULT_STACK_PAGES)\<lparr>vmr_mo := (case m of None \<Rightarrow> (0, 0) | Some m \<Rightarrow> m)\<rparr>"
  have c: "osm_data_mo cfg' = osm_data_mo cfg" "\<not> elevated_cpu cfg'" using thread_config_keeps [OF assms(4)] assms(6) by simp_all
  have a: "sel4gpi_ads_configure K (ads_cfg cfg') run (Some (osm_data_mo cfg')) (Some blank_context) srv =
      Some (Some (0, (ads_cfg cfg')\<lparr>vmr_cfgs := Some [?v, disjoint_vmr (TYPE_IPC_BUF K) 1]\<rparr>, Some (blank_context\<lparr>rt_osm_data := va\<rparr>)), srv2)"
    using assms(2,3,5,7-9) by (simp add: thread_config_parts [OF assms(4)] c(1) sel4gpi_ads_configure_def done_with_def after_def make_region_def
        disjoint_vmr_def blank_vmr_def note_loaded_def blank_context_def)
  have i: "initial_context P cfg' run (blank_context\<lparr>rt_osm_data := va\<rparr>) args srv3 = None" for args srv3
    by (rule no_stack_crash [OF c(2)]) (simp_all add: blank_context_def)
  have "sel4gpi_prepare_pd P cfg' run args srv \<noteq> Some (Some 0, srv3)" for args srv3
    by (rule prepare_needs_context [OF _ _ i]) (use assms(1,2) a in simp_all)
  then show ?thesis using a i by (intro exI [of _ ?v]) (simp add: disjoint_vmr_def blank_vmr_def)
qed

text \<open>
  The maker of a thread, PD 7, with the address space 6 and a memory object for the shared data of the thread (slot 30). It can ask for regions of the
  address space (slot 10), but its slot 11 for memory objects is empty, so no memory can be had for the stack.
\<close>

definition thread_rde :: "gpi_cap_t \<Rightarrow> gpi_space_id_t \<Rightarrow> osmosis_rde_t" where
  "thread_rde t sid = \<lparr>slot_in_RT = 77, slot_in_PD = 8 + ucast t, rde_type = t, rde_space_id = sid\<rparr>"

definition thread_page :: osm_pd_shared_data_t where
  "thread_page = blank_shared\<lparr>rde := (replicate 17 (replicate 8 empty_rde))[2 := thread_rde 2 6 # replicate 7 empty_rde,
     3 := thread_rde 3 4 # replicate 7 empty_rde]\<rparr>"

definition thread_server :: "kcall list gpi_server" where
  "thread_server = (server_with [pd_entry 7 (\<lambda>p. p\<lparr>shared := thread_page\<rparr>), pd_entry 5 (\<lambda>p. p)])
     \<lparr>mo_component := (started_component GPICAP_TYPE_MO 4)\<lparr>registry := (resource_registry_initialize 0xFFFFE)\<lparr>head :=
        [\<lparr>object_id = 7, count = 1, mo = \<lparr>mo_obj_id = 7, frame_caps_in_root_task = [100], frame_paddrs = [100], vka_objects = Some [100], num_pages = 1, mo_page_bits = 12\<rparr>\<rparr>]\<rparr>\<rparr>,
      ads_component := (started_component GPICAP_TYPE_ADS 3)\<lparr>registry := (resource_registry_initialize 0xFFFFE)\<lparr>head :=
        [\<lparr>object_id = 6, count = 1, ads = \<lparr>ads_id = 6, vspace = 200, root_page_dir = 201, attach_registry = resource_registry_initialize (BADGE_MAX - 1),
          attach_id_to_vaddr_map = resource_registry_initialize 0xFFFFE\<rparr>\<rparr>]\<rparr>\<rparr>\<rparr>"

definition thread_creation :: "kcall list creation_env" where
  "thread_creation = sharing_creation\<lparr>api := \<lparr>api_kernel = trace_env, api_depth = 4, slot_badge_of = (\<lambda>c _. if c = 20 then Some sharing_badge
     else if c = 10 then gpi_new_badge GPICAP_TYPE_VMR 0 7 6 BADGE_OBJ_ID_NULL else if c = 30 then gpi_new_badge GPICAP_TYPE_MO 0 7 4 7 else None), old_words = (\<lambda>_ _. 0)\<rparr>\<rparr>"

theorem missing_stack_unreported_witness:
  "\<exists>cfg v va srv2. sel4gpi_generate_thread_config thread_creation thread_page 0x400 None (blank_config (30, 7)) = Some cfg \<and>
    sel4gpi_ads_configure thread_creation (ads_cfg cfg) pd5_run (Some (30, 7)) (Some blank_context) (1, thread_server) =
      Some (Some (0, (ads_cfg cfg)\<lparr>vmr_cfgs := Some [v, disjoint_vmr 6 1]\<rparr>, Some (blank_context\<lparr>rt_osm_data := va\<rparr>)), srv2) \<and> vmr_start v = 0 \<and>
    (\<forall>(P :: kcall list prepare_env) args srv3. sel4gpi_prepare_pd (P\<lparr>creation := thread_creation\<rparr>) cfg pd5_run args (1, thread_server) \<noteq> Some (Some 0, srv3))"
proof -
  let ?K = thread_creation and ?srv = "(1, thread_server)"
  have d: "own_page ?K ?srv = Some thread_page"
    by (simp add: own_page_def thread_server_def server_with_def pd_entry_def thread_creation_def sharing_creation_def resource_component_registry_get_by_id_def resource_registry_get_by_id_def)
  have v: "sel4gpi_get_rde_by_space_id thread_page (snd (run_ads pd5_run)) GPICAP_TYPE_VMR = Some 10" by code_simp
  have "(case vmr_client_attach_no_reserve (api ?K) 10 0 30 7 ?srv of
      Some (Some (e, Some va), srv1) \<Rightarrow> if e = 0 then map_option (map_option fst \<circ> fst) (sel4gpi_new_sized_stack ?K 10 DEFAULT_STACK_PAGES srv1) else None | _ \<Rightarrow> None) = Some (Some 0)"
    by code_simp
  then obtain va srv1 m srv2 where a: "vmr_client_attach_no_reserve (api ?K) 10 0 30 7 ?srv = Some (Some (0, Some va), srv1)"
    "sel4gpi_new_sized_stack ?K 10 DEFAULT_STACK_PAGES srv1 = Some (Some (0, m), srv2)" by (auto split: option.splits if_splits)
  have t: "TYPE_STACK ?K \<noteq> TYPE_CODE ?K" "TYPE_IPC_BUF ?K = 6" "TYPE_OSM_DATA ?K = 7" by (simp_all add: thread_creation_def sharing_creation_def)
  have b: "\<not> elevated_cpu (blank_config (30, 7))" "fst (osm_data_mo (blank_config (30, 7))) = 30" "osm_data_mo (blank_config (30, 7)) = (30, 7)"
    by (simp_all add: blank_config_def)
  obtain cfg where c: "sel4gpi_generate_thread_config ?K thread_page 0x400 None (blank_config (30, 7)) = Some cfg"
    by (auto simp: sel4gpi_generate_thread_config_def thread_creation_def sharing_creation_def Let_def)
  have o: "osm_data_mo cfg = (30, 7)" using thread_config_keeps [OF c] b(3) by simp
  have k: "creation (P\<lparr>creation := ?K\<rparr>) = ?K" for P :: "kcall list prepare_env" by simp
  have n: "fst (osm_data_mo (blank_config (30, 7))) \<noteq> seL4_CapNull" by (simp add: b(2))
  have at: "vmr_client_attach_no_reserve (api ?K) 10 0 (fst (osm_data_mo (blank_config (30, 7)))) (TYPE_OSM_DATA ?K) ?srv = Some (Some (0, Some va), srv1)"
    using a(1) by (simp add: b(2) t(3))
  let ?C = "\<lambda>v. sel4gpi_ads_configure ?K (ads_cfg cfg) pd5_run (Some (30, 7)) (Some blank_context) ?srv =
      Some (Some (0, (ads_cfg cfg)\<lparr>vmr_cfgs := Some [v, disjoint_vmr 6 1]\<rparr>, Some (blank_context\<lparr>rt_osm_data := va\<rparr>)), srv2)"
  have m: "\<exists>v. ?C v \<and> vmr_start v = 0 \<and> (\<forall>args srv3. sel4gpi_prepare_pd (P\<lparr>creation := ?K\<rparr>) cfg pd5_run args ?srv \<noteq> Some (Some 0, srv3))"
    for P :: "kcall list prepare_env"
    using missing_stack_unreported [OF k [of P] d v c t(1) b(1) n at a(2)] unfolding o t(2) by (elim exE conjE) (intro exI conjI)
  obtain v where v': "?C v" "vmr_start v = 0" using m [of undefined] by (elim exE conjE) (rule that)
  have "\<forall>args srv3. sel4gpi_prepare_pd (P\<lparr>creation := ?K\<rparr>) cfg pd5_run args ?srv \<noteq> Some (Some 0, srv3)" for P :: "kcall list prepare_env"
    using m [of P] by (elim exE conjE)
  then have "\<forall>P args srv3. sel4gpi_prepare_pd (P\<lparr>creation := ?K\<rparr>) cfg pd5_run args ?srv \<noteq> Some (Some 0, srv3)" by (rule allI)
  then show ?thesis by (intro exI conjI) (rule c, rule v'(1), rule v'(2))
qed

subsection \<open>The stack of a thread\<close>

text \<open>Whether the stack belongs to the own address space or is mapped from another one, the thread starts below its storage at the top of the stack.\<close>

lemma tls_stack_pointer:
  assumes "setup_tls_in_stack P target_ads ctxt srv = Some (Some (0, Some (sp, tp)), srv')" "stack_cfg ctxt = Some stack"
  shows "sp = align_stack (runtime P) (vmr_start stack - tls_size P) \<and> tls_size P \<le> region_pages stack * PAGE_SIZE_4K div 8"
  using assms
  by (auto simp: setup_tls_in_stack_def after_def done_with_def on_world_def write_tls_values_def Let_def split_beta split: if_splits bind_splits option.splits prod.splits)

end
