(* ===== verification/Spec2Isabelle.thy ===== *)
theory Spec2Isabelle
  imports Gpi_Server Linked_List Pd_Holds Directory Linked_Pds Mo_Sharing Termination Work_Queue Sweep
    Ramdisk_Blocks Cache_Use Xv6_Open Xv6_Boot Dump_Returns Fs_Registry Fs_Paths Pd_Utils
    Fs_Client_Io Elf_Layout Runtime_Stack Creation_Use
begin

text \<open>
  The GPI server of sel4-gpi.

  The program is a user-level resource manager on seL4. A single server thread (the root task)
  receives requests over one endpoint; the badge of the sender's capability says which kind of
  resource and which object is meant. Six components keep the objects: protection domains (PD),
  address spaces (ADS, with their virtual memory regions), memory objects (MO), CPUs, endpoints (EP) and
  resource spaces (RESSPC). A component is a registry of reference-counted objects, keyed by ID. A PD holds
  resources, and has a resource directory (RDE) of the servers it may ask for more. Destroying a PD gives back what it
  holds, may destroy other PDs and spaces by policy, and may have to wait for other
  resource servers to finish work that is queued for them.

  Theories, in the order of the code they model:

  \<^item> Prelude: shared types and list lemmas. Badge (badge_usage.c), Registry (resource_registry.c),
    Linked_List (linked_list.c, over an explicit heap), Resource_Types (resource_types.c).
  \<^item> Server_State: the records of the objects, of the components and of the server, the kernel calls, and the
    environment that answers them. Resource_Component (resource_component_utils.c), Hash_Iter (the loop macro of
    uthash, with the successor saved in advance).
  \<^item> Pd_Obj, Release, Destroy, Pd_Destroy (pd_obj.c, and the parts of pd_component.c, resource_space_component.c,
    ads_component.c and the other components that run when something is given back or destroyed), Objects (mo, endpoint and
    resource space objects), Ads_Component (ads_obj.c, ads_component.c), Pd_Component (the handlers of pd_component.c), Cpu_Component
    (cpu_obj.c, cpu_component.c), Requests (handlers of the smaller components), Gpi_Server (message dispatch, startup and one turn of the loop of gpi_server.c).
  \<^item> Component_Refs: reference counting, proved once in the locale \<open>component_lens\<close> and interpreted for the six components.
  \<^item> Pd_Holds, Directory, Work_Queue, Termination, Linked_Pds, Mo_Release, Mo_Sharing, Sweep: the properties of the server. Pd_Utils (pd_utils.c): the lookups
    of a PD in the page where the server keeps its directory; they find what the lookups of the server find.

  \<^item> Ramdisk, Ramdisk_Blocks (apps/ramdisk): the block server, a client of the GPI server that hands out blocks of a memory object, and its
    list of free blocks. Block_Cache (bio.c of apps/xv6fs): the buffer cache, proved against any disk that keeps the contract of the locale
    \<open>block_device\<close>. Block_Client (fs_server.c, ramdisk_client.c): the disk of the file server is the block server, shown to keep this contract. Cache_Use: what
    the cache guarantees and what it loses.
  \<^item> Xv6_Layout, Xv6_Fs, Xv6_Dirs (fs.h, fs.c, sysfile.c): the file system. Xv6_Alloc, Xv6_File, Xv6_Rw, Xv6_Contents: block allocation, the
    blocks of a file, reading and writing on the list of its bytes, inside the locale \<open>block_device\<close>. Xv6_Use: the statements for the block server as the disk.
    Xv6_Open (file.c, the calls on files of sysfile.c): open files over a heap of file structures. Xv6_Mkfs (mkfs.c) and Xv6_Boot: the disk that is made is a file system and can be mounted.
  \<^item> Model_State (model_exporting.c): the graph of PDs, resources and spaces, its merging and its printing. Model_Graph: merging is the union of
    graphs, and what fits into the memory that a resource server sends. Model_Dump (pd_obj.c, pd_component.c and the dump functions of the components): the walk of the root task
    that builds the graph. Dump_Returns: the walk returns although PDs may hold each other.
  \<^item> Resource_Server (resource_server_utils.c): the functions and the main loop of resource servers, over the handlers of a server. Fs_Server (fs_server.c, main.c of apps/xv6fs): the file server with its registries of
    open files and namespaces. Fs_Frame: what the calls of the file system leave alone. Fs_Registry: the registry of open files points to allocated structures, in every state
    the main loop reaches. Fs_Paths: walking a path is walking over the list of its names, and what a path in a namespace means.
  \<^item> Gpi_Elf (gpi_elf.c, and the loading of ELF files in ads_obj.c and ads_component.c): the segments of a file, their layout in reservations and the copying of their contents.
    Elf_Layout: the layout covers the segments when they are on pages of their own, and what happens when two share a page.
  \<^item> Client_Api (the _clientapi.c files): the requests of a client of the root task, each delivered to a turn of the server. Client_Use: a shared entry of the directory is found
    in the page of the PD it is shared with; a request that depends on what earlier messages left in the buffer of the server.
  \<^item> Runtime_Setup (the stack functions of ads_obj.c, the register functions of cpu_obj.c, the request of pd_component.c): the first stack and registers of a PD. Runtime_Stack: what a loaded
    program finds on its stack, and an error that is lost. Pd_Creation and Prepare_Pd (pd_creation.c, helpers of pd_utils.c): how a PD makes a process or a thread out of client requests. Creation_Use: the
    entries of the directory that a new PD is given, and a stack that is missing without an error.
  \<^item> Fs_Client (fs_client.c): the calls on files of a process that uses the file server, each request delivered to a turn of the server. Fs_Client_Io: what is written to
    a descriptor is read back from it, through all layers down to the block server.

  State and effects. The server is a record; an operation takes it and returns it updated. Kernel objects, the capability allocator and the
  message buffers are outside of the sources: an operation calls \<open>sys\<close> of an environment, whose
  answers (error code and value) are arbitrary and may depend on all earlier calls through the world it threads. A theorem
  holds for every environment unless its hypotheses say otherwise. An operation returns None when an assertion fails, a panic is
  reached, freed memory is used or the bound on the recursion is exceeded. Functions that recurse through callbacks (destruction of a PD gives back its holds, which
  may destroy objects, ...) take the permitted depth as an argument; theorems say for which depths they return, or that they return for none.

  Bounds. The file system never writes a buffer back, so its properties (Xv6_Use, Fs_Client_Io) are about states in which the blocks in the cache and those an operation works on
  are at most \<open>NBUF\<close>; beyond it modified blocks are lost, which Cache_Use shows. Depths of recursion: the number of PDs for a dump (Dump_Returns), the rank of a PD for
  marking linked PDs (Linked_Pds); on a cycle of links no depth is enough.

  Machine integers are words of the source's width. A hash table of uthash is the list of its nodes in insertion order.

  Not modelled: message encoding, the library calls below the requests (virtual memory, ELF, thread-local storage: parameters of the definitions that use them), the startup of a resource server's context, the
  forging of objects for the root task itself, functions that a flag of the build disables or that only print, and the other applications (key-value store, virtual machine monitor, SQLite, tests), which are clients of
  the server. The dispatch of messages has no constructor for the requests that load an ELF file and set up a runtime; the client functions for them deliver the request to its handler directly.
\<close>

end
